(* ===== verification/Prelude.thy ===== *)
theory Prelude
  imports Main "HOL-Library.Word" "HOL-Library.AList" "HOL-Library.Char_ord" "HOL-Library.List_Lexorder"
begin

text \<open>
  Shared vocabulary of the development.

  \<^item> \<open>('a, 'e) outcome\<close>: what a Rust function of the crates can do: return \<open>Ok\<close>, return \<open>Err\<close>, or
    panic (an \<open>expect\<close>, an \<open>unwrap\<close>, an \<open>unreachable!\<close> or an index out of range).  Panics are values, so
    that "this \<open>expect\<close> never fires" is a theorem and not an assumption.
  \<^item> the string helpers of the standard library that the crates use, on byte lists
    (\<open>string\<close> is a list of 8-bit characters, as a Rust \<open>str\<close> is a list of UTF-8 bytes);
  \<^item> the machine integer widths, and the interface of a printer with its parser (locale \<open>codec\<close>).
\<close>

type_synonym u8 = "8 word"
type_synonym u16 = "16 word"
type_synonym u32 = "32 word"
type_synonym u64 = "64 word"
type_synonym i64 = "64 word"
type_synonym u128 = "128 word"

named_theorems outcome_simps \<open>evaluation of the outcome monad\<close>

section \<open>Results, errors and panics\<close>

datatype ('a, 'e) outcome = Ok 'a | Err 'e | Panic

fun obind :: "('a, 'e) outcome \<Rightarrow> ('a \<Rightarrow> ('b, 'e) outcome) \<Rightarrow> ('b, 'e) outcome" where
  "obind (Ok x) f = f x"
| "obind (Err e) f = Err e"
| "obind Panic f = Panic"

definition omap :: "('a \<Rightarrow> 'b) \<Rightarrow> ('a, 'e) outcome \<Rightarrow> ('b, 'e) outcome" where
  "omap f m = obind m (\<lambda>x. Ok (f x))"

text \<open>\<open>iter().map(f).collect::<Result<Vec<_>, _>>()\<close>: left to right, stopping at the first failure.\<close>

fun otraverse :: "('a \<Rightarrow> ('b, 'e) outcome) \<Rightarrow> 'a list \<Rightarrow> ('b list, 'e) outcome" where
  "otraverse f [] = Ok []"
| "otraverse f (x # xs) = obind (f x) (\<lambda>y. obind (otraverse f xs) (\<lambda>ys. Ok (y # ys)))"

text \<open>
  A function that returns no \<open>Result\<close> but may panic is modelled with \<open>option\<close>: \<open>None\<close> is the panic.
  \<open>pconcat\<close> is a loop over a collection that pushes onto one result vector.
\<close>

fun pconcat :: "('a \<Rightarrow> 'b list option) \<Rightarrow> 'a list \<Rightarrow> 'b list option" where
  "pconcat f [] = Some []"
| "pconcat f (x # xs) = Option.bind (f x) (\<lambda>ys. Option.bind (pconcat f xs) (\<lambda>zs. Some (ys @ zs)))"

text \<open>\<open>map_err\<close>.\<close>

fun omap_err :: "('e \<Rightarrow> 'f) \<Rightarrow> ('a, 'e) outcome \<Rightarrow> ('a, 'f) outcome" where
  "omap_err f (Ok x) = Ok x"
| "omap_err f (Err e) = Err (f e)"
| "omap_err f Panic = Panic"

lemma omap_err_Panic: "omap_err f m = Panic \<longleftrightarrow> m = Panic"
  by (cases m) simp_all

text \<open>The result of a call outside the program, which does not panic.\<close>

definition of_sum :: "'e + 'a \<Rightarrow> ('a, 'e) outcome" where
  "of_sum r = (case r of Inl e \<Rightarrow> Err e | Inr x \<Rightarrow> Ok x)"

text \<open>\<open>ok_or\<close>; and \<open>expect\<close> or \<open>unwrap\<close>, which is also the call of a function that may panic.\<close>

fun ok_or :: "'a option \<Rightarrow> 'e \<Rightarrow> ('a, 'e) outcome" where
  "ok_or None e = Err e"
| "ok_or (Some x) e = Ok x"

fun expect :: "'a option \<Rightarrow> ('a, 'e) outcome" where
  "expect None = Panic"
| "expect (Some x) = Ok x"

definition is_ok :: "('a, 'e) outcome \<Rightarrow> bool" where
  "is_ok m = (case m of Ok _ \<Rightarrow> True | _ \<Rightarrow> False)"

lemma obind_cong [fundef_cong]:
  "m = n \<Longrightarrow> (\<And>x. n = Ok x \<Longrightarrow> f x = g x) \<Longrightarrow> obind m f = obind n g"
  by (cases n) auto

lemma omap_cong [fundef_cong]:
  "m = n \<Longrightarrow> (\<And>x. n = Ok x \<Longrightarrow> f x = g x) \<Longrightarrow> omap f m = omap g n"
  by (cases n) (auto simp: omap_def)

lemma otraverse_cong [fundef_cong]:
  "xs = ys \<Longrightarrow> (\<And>x. x \<in> set ys \<Longrightarrow> f x = g x) \<Longrightarrow> otraverse f xs = otraverse g ys"
  by (induction ys arbitrary: xs) auto

lemma pconcat_cong [fundef_cong]:
  "xs = ys \<Longrightarrow> (\<And>x. x \<in> set ys \<Longrightarrow> f x = g x) \<Longrightarrow> pconcat f xs = pconcat g ys"
  by (induction ys arbitrary: xs) auto

lemma omap_simps [simp, outcome_simps]:
  "omap f (Ok x) = Ok (f x)" "omap f (Err e) = Err e" "omap f Panic = Panic"
  by (simp_all add: omap_def)

lemma obind_eq_Ok: "obind m f = Ok y \<longleftrightarrow> (\<exists>x. m = Ok x \<and> f x = Ok y)"
  by (cases m) auto

lemma obind_eq_Err: "obind m f = Err e \<longleftrightarrow> m = Err e \<or> (\<exists>x. m = Ok x \<and> f x = Err e)"
  by (cases m) auto

lemma obind_eq_Panic: "obind m f = Panic \<longleftrightarrow> m = Panic \<or> (\<exists>x. m = Ok x \<and> f x = Panic)"
  by (cases m) auto

lemma omap_eq_Ok: "omap f m = Ok y \<longleftrightarrow> (\<exists>x. m = Ok x \<and> y = f x)"
  by (cases m) auto

lemma omap_eq_Err: "omap f m = Err e \<longleftrightarrow> m = Err e"
  by (cases m) auto

lemma omap_eq_Panic: "omap f m = Panic \<longleftrightarrow> m = Panic"
  by (cases m) auto

lemma ok_or_eq_Ok: "ok_or v e = Ok x \<longleftrightarrow> v = Some x"
  by (cases v) auto

lemma ok_or_eq_Err: "ok_or v e = Err e' \<longleftrightarrow> v = None \<and> e' = e"
  by (cases v) auto

lemma ok_or_no_Panic: "ok_or v e \<noteq> Panic"
  by (cases v) auto

lemma expect_eq_Ok: "expect v = Ok x \<longleftrightarrow> v = Some x"
  by (cases v) auto

lemma expect_eq_Err: "expect v \<noteq> Err e"
  by (cases v) auto

lemma expect_eq_Panic: "expect v = Panic \<longleftrightarrow> v = None"
  by (cases v) auto

lemmas outcome_inversions =
  obind_eq_Ok obind_eq_Err obind_eq_Panic omap_eq_Ok omap_eq_Err omap_eq_Panic
  ok_or_eq_Ok ok_or_eq_Err ok_or_no_Panic expect_eq_Ok expect_eq_Err expect_eq_Panic

lemma otraverse_Ok_iff:
  "otraverse f xs = Ok ys \<longleftrightarrow> list_all2 (\<lambda>x y. f x = Ok y) xs ys"
  by (induction xs arbitrary: ys) (auto simp: outcome_inversions list_all2_Cons1)

lemma otraverse_all_Ok: "(\<And>x. x \<in> set xs \<Longrightarrow> f x = Ok (g x)) \<Longrightarrow> otraverse f xs = Ok (map g xs)"
  by (induction xs) auto

lemma otraverse_no_Panic: "(\<And>x. x \<in> set xs \<Longrightarrow> f x \<noteq> Panic) \<Longrightarrow> otraverse f xs \<noteq> Panic"
  by (induction xs) (auto simp: outcome_inversions)

lemma otraverse_length: "otraverse f xs = Ok ys \<Longrightarrow> length ys = length xs"
  by (auto simp: otraverse_Ok_iff dest: list_all2_lengthD)

lemma pconcat_all: "(\<And>x. x \<in> set xs \<Longrightarrow> f x = Some (g x)) \<Longrightarrow> pconcat f xs = Some (concat (map g xs))"
  by (induction xs) auto

lemma pconcat_Nil_iff: "pconcat f xs = Some [] \<longleftrightarrow> (\<forall>x \<in> set xs. f x = Some [])"
  by (induction xs) (auto simp: bind_eq_Some_conv)

lemma pconcat_returns: "(\<And>x. x \<in> set xs \<Longrightarrow> \<exists>ys. f x = Some ys) \<Longrightarrow> \<exists>ys. pconcat f xs = Some ys"
  by (induction xs) (auto simp: bind_eq_Some_conv)

lemma pconcat_filter:
  "(\<And>x. x \<in> set xs \<Longrightarrow> g x = map_option (filter P) (f x)) \<Longrightarrow>
   pconcat g xs = map_option (filter P) (pconcat f xs)"
  by (induction xs) (auto split: bind_splits)

section \<open>Code that changes a state and may fail\<close>

text \<open>
  A method on \<open>&mut self\<close> that returns a \<open>Result\<close>: the outcome and the state it leaves, which is kept on
  an error too.
\<close>

type_synonym ('a, 'e, 's) action = "'s \<Rightarrow> ('a, 'e) outcome \<times> 's"

definition areturn :: "'a \<Rightarrow> ('a, 'e, 's) action" where
  "areturn x s = (Ok x, s)"

definition alift :: "('a, 'e) outcome \<Rightarrow> ('a, 'e, 's) action" where
  "alift m s = (m, s)"

definition abind :: "('a, 'e, 's) action \<Rightarrow> ('a \<Rightarrow> ('b, 'e, 's) action) \<Rightarrow> ('b, 'e, 's) action" where
  "abind m f s =
     (case m s of
        (Ok x, s') \<Rightarrow> f x s'
      | (Err e, s') \<Rightarrow> (Err e, s')
      | (Panic, s') \<Rightarrow> (Panic, s'))"

definition amodify :: "('s \<Rightarrow> 's) \<Rightarrow> (unit, 'e, 's) action" where
  "amodify f s = (Ok (), f s)"

definition aget :: "('s \<Rightarrow> 'a) \<Rightarrow> ('a, 'e, 's) action" where
  "aget f s = (Ok (f s), s)"

text \<open>\<open>map_err\<close> on a call, and a call whose error is a value for the caller.\<close>

definition amap_err :: "('e \<Rightarrow> 'f) \<Rightarrow> ('a, 'e, 's) action \<Rightarrow> ('a, 'f, 's) action" where
  "amap_err f m s = (let (r, s') = m s in (omap_err f r, s'))"

definition attempt :: "('a, 'e, 's) action \<Rightarrow> (('a, 'e) outcome, 'f, 's) action" where
  "attempt m s = (let (r, s') = m s in (if r = Panic then Panic else Ok r, s'))"

lemma abind_alift [simp]:
  "abind (alift (Ok x)) f s = f x s" "abind (alift (Err e)) f s = (Err e, s)" "abind (alift Panic) f s = (Panic, s)"
  by (simp_all add: abind_def alift_def)

lemma abind_simple [simp]:
  "abind (areturn x) f s = f x s" "abind (amodify g) h s = h () (g s)" "abind (aget p) f s = f (p s) s"
  by (simp_all add: abind_def areturn_def amodify_def aget_def)

lemma abind_eq_Ok:
  "abind m f s = (Ok y, s') \<longleftrightarrow> (\<exists>x t. m s = (Ok x, t) \<and> f x t = (Ok y, s'))"
  by (auto simp: abind_def split: prod.splits outcome.splits)

lemma abind_alift_eq_Ok:
  "abind (alift m) f s = (Ok y, s') \<longleftrightarrow> (\<exists>x. m = Ok x \<and> f x s = (Ok y, s'))"
  by (cases m) auto

lemma action_simps [simp]:
  "alift m s = (r, s') \<longleftrightarrow> r = m \<and> s' = s" "areturn x s = (r, s') \<longleftrightarrow> r = Ok x \<and> s' = s"
  "amodify f s = (q, s') \<longleftrightarrow> q = Ok () \<and> s' = f s" "aget p s = (t, s') \<longleftrightarrow> t = Ok (p s) \<and> s' = s"
  by (auto simp: alift_def areturn_def amodify_def aget_def)

text \<open>An action that never panics.\<close>

definition returns :: "('a, 'e, 's) action \<Rightarrow> bool" where
  "returns m \<longleftrightarrow> (\<forall>s. fst (m s) \<noteq> Panic)"

named_theorems returns_rules \<open>actions that never panic\<close>

lemma returns_basic [returns_rules]:
  "returns (areturn x)" "returns (amodify g)" "returns (aget p)" "r \<noteq> Panic \<Longrightarrow> returns (alift r)"
  by (simp_all add: returns_def areturn_def amodify_def aget_def alift_def)

lemma returns_abind [returns_rules]: "returns m \<Longrightarrow> (\<And>x. returns (f x)) \<Longrightarrow> returns (abind m f)"
  by (auto simp: returns_def abind_def split: prod.split outcome.split) (metis fst_conv)

lemma returns_split [returns_rules]:
  "(c \<Longrightarrow> returns m) \<Longrightarrow> (\<not> c \<Longrightarrow> returns n) \<Longrightarrow> returns (if c then m else n)"
  "(v = None \<Longrightarrow> returns m) \<Longrightarrow> (\<And>x. v = Some x \<Longrightarrow> returns (f x))
     \<Longrightarrow> returns (case v of None \<Rightarrow> m | Some x \<Rightarrow> f x)"
  by (cases v; simp)+

text \<open>
  A relation between the state before and the state after that sequences of calls keep: what is
  proved of each call holds of the whole method.
\<close>

locale frame =
  fixes rel :: "'s \<Rightarrow> 's \<Rightarrow> bool"
  assumes rel_refl: "rel s s"
    and rel_trans: "rel s t \<Longrightarrow> rel t u \<Longrightarrow> rel s u"
begin

definition keeps :: "('a, 'e, 's) action \<Rightarrow> bool" where
  "keeps m \<longleftrightarrow> (\<forall>s. rel s (snd (m s)))"

lemma keeps_basic: "keeps (areturn x)" "keeps (alift r)" "keeps (aget p)"
  by (simp_all add: keeps_def areturn_def alift_def aget_def rel_refl)

lemma keeps_amodify: "(\<And>s. rel s (f s)) \<Longrightarrow> keeps (amodify f)"
  by (simp add: keeps_def amodify_def)

lemma keeps_abind: "keeps m \<Longrightarrow> (\<And>x. keeps (f x)) \<Longrightarrow> keeps (abind m f)"
  by (auto simp: keeps_def abind_def split: prod.split outcome.split) (metis rel_trans snd_conv)+

lemma keeps_split:
  "(c \<Longrightarrow> keeps m) \<Longrightarrow> (\<not> c \<Longrightarrow> keeps n) \<Longrightarrow> keeps (if c then m else n)"
  "(v = None \<Longrightarrow> keeps m) \<Longrightarrow> (\<And>x. v = Some x \<Longrightarrow> keeps (g x))
     \<Longrightarrow> keeps (case v of None \<Rightarrow> m | Some x \<Rightarrow> g x)"
  by (cases v; simp)+

lemmas keeps_rules = keeps_basic keeps_abind keeps_split

lemma keepsD: "keeps m \<Longrightarrow> m s = (r, s') \<Longrightarrow> rel s s'"
  by (metis keeps_def snd_conv)

text \<open>Where a sequence breaks the relation, its first call returned and kept it.\<close>

lemma keeps_abindE:
  assumes "keeps m" "abind m f s = (r, s')" "\<not> rel s s'"
  obtains x t where "m s = (Ok x, t)" "rel s t" "f x t = (r, s')" "\<not> rel t s'"
proof -
  obtain q t where m: "m s = (q, t)" by fastforce
  with assms(1) have t: "rel s t" by (rule keepsD)
  show thesis
  proof (cases q)
    case (Ok x)
    with m assms(2) have f: "f x t = (r, s')" by (simp add: abind_def)
    moreover have "\<not> rel t s'" using rel_trans [OF t] assms(3) by blast
    ultimately show thesis using that m Ok t by blast
  qed (use m assms(2,3) t in \<open>auto simp: abind_def\<close>)
qed

end

section \<open>Strings\<close>

text \<open>\<open>[T]::join\<close> on strings.\<close>

fun join :: "string \<Rightarrow> string list \<Rightarrow> string" where
  "join sep [] = []"
| "join sep [x] = x"
| "join sep (x # y # ys) = x @ sep @ join sep (y # ys)"

text \<open>\<open>str::split_once\<close> and \<open>str::split\<close> on a one-byte separator.\<close>

fun split_once :: "char \<Rightarrow> string \<Rightarrow> (string \<times> string) option" where
  "split_once c [] = None"
| "split_once c (x # xs) =
     (if x = c then Some ([], xs) else map_option (\<lambda>(a, b). (x # a, b)) (split_once c xs))"

fun split_on :: "char \<Rightarrow> string \<Rightarrow> string list" where
  "split_on c [] = [[]]"
| "split_on c (x # xs) =
     (if x = c then [] # split_on c xs
      else (case split_on c xs of [] \<Rightarrow> [[x]] | w # ws \<Rightarrow> (x # w) # ws))"

fun starts_with :: "string \<Rightarrow> string \<Rightarrow> bool" where
  "starts_with [] ys = True"
| "starts_with (x # xs) [] = False"
| "starts_with (x # xs) (y # ys) = (x = y \<and> starts_with xs ys)"

text \<open>\<open>str::contains\<close> on a string pattern.\<close>

fun str_contains :: "string \<Rightarrow> string \<Rightarrow> bool" where
  "str_contains pat [] = (pat = [])"
| "str_contains pat (x # xs) = (starts_with pat (x # xs) \<or> str_contains pat xs)"

lemma split_once_append: "c \<notin> set a \<Longrightarrow> split_once c (a @ c # b) = Some (a, b)"
  by (induction a) auto

lemma split_once_None: "split_once c s = None \<longleftrightarrow> c \<notin> set s"
  by (induction s) auto

lemma split_once_Some:
  "split_once c s = Some (a, b) \<longleftrightarrow> s = a @ c # b \<and> c \<notin> set a"
proof (induction s arbitrary: a)
  case (Cons x s)
  show ?case by (cases a) (auto simp: Cons.IH)
qed simp

lemma split_on_not_Nil [simp]: "split_on c s \<noteq> []"
  by (induction s) (auto split: list.split)

lemma join_split_on: "join [c] (split_on c s) = s"
proof (induction s)
  case (Cons x s)
  then show ?case
    by (cases "split_on c s"; cases "tl (split_on c s)") auto
qed simp

subsection \<open>UTF-8\<close>

text \<open>\<open>str::from_utf8\<close>: the bytes a character needs after its first, how many and the range of the first of them.\<close>

definition byte_in :: "nat \<Rightarrow> nat \<Rightarrow> char \<Rightarrow> bool" where
  "byte_in low high c = (low \<le> of_char c \<and> of_char c \<le> (high :: nat))"

definition utf8_tail :: "char \<Rightarrow> (nat \<times> nat \<times> nat) option" where
  "utf8_tail c =
     (if byte_in 0xC2 0xDF c then Some (1, 0x80, 0xBF)
      else if c = CHR 0xE0 then Some (2, 0xA0, 0xBF)
      else if c = CHR 0xED then Some (2, 0x80, 0x9F)
      else if byte_in 0xE1 0xEF c then Some (2, 0x80, 0xBF)
      else if c = CHR 0xF0 then Some (3, 0x90, 0xBF)
      else if byte_in 0xF1 0xF3 c then Some (3, 0x80, 0xBF)
      else if c = CHR 0xF4 then Some (3, 0x80, 0x8F)
      else None)"

function from_utf8 :: "string \<Rightarrow> bool" where
  "from_utf8 [] = True"
| "from_utf8 (c # s) =
     (if byte_in 0 0x7F c then from_utf8 s
      else
        (case utf8_tail c of
           None \<Rightarrow> False
         | Some (n, low, high) \<Rightarrow>
             n \<le> length s
             \<and> (case s of b # _ \<Rightarrow> byte_in low high b | [] \<Rightarrow> False)
             \<and> list_all (byte_in 0x80 0xBF) (take n s)
             \<and> from_utf8 (drop n s)))"
  by pat_completeness auto
termination by (relation "measure length") auto

subsection \<open>Decimal numbers\<close>

definition digit_char :: "nat \<Rightarrow> char" where
  "digit_char d = ''0123456789abcdef'' ! d"

text \<open>\<open>char::to_digit(radix)\<close> for radix 10 and 16.\<close>

definition digit_table :: "(char \<times> nat) list" where
  "digit_table =
     [(CHR ''0'', 0), (CHR ''1'', 1), (CHR ''2'', 2), (CHR ''3'', 3), (CHR ''4'', 4),
      (CHR ''5'', 5), (CHR ''6'', 6), (CHR ''7'', 7), (CHR ''8'', 8), (CHR ''9'', 9),
      (CHR ''a'', 10), (CHR ''b'', 11), (CHR ''c'', 12), (CHR ''d'', 13), (CHR ''e'', 14),
      (CHR ''f'', 15), (CHR ''A'', 10), (CHR ''B'', 11), (CHR ''C'', 12), (CHR ''D'', 13),
      (CHR ''E'', 14), (CHR ''F'', 15)]"

definition to_digit :: "nat \<Rightarrow> char \<Rightarrow> nat option" where
  "to_digit radix c =
     (case map_of digit_table c of
        Some d \<Rightarrow> if d < radix then Some d else None
      | None \<Rightarrow> None)"

text \<open>Decimal \<open>Display\<close> of an unsigned integer, and of a signed one.\<close>

fun show_nat :: "nat \<Rightarrow> string" where
  "show_nat n =
     (if n < 10 then [digit_char n] else show_nat (n div 10) @ [digit_char (n mod 10)])"

declare show_nat.simps [simp del]

definition show_int :: "int \<Rightarrow> string" where
  "show_int i = (if i < 0 then CHR ''-'' # show_nat (nat (- i)) else show_nat (nat i))"

text \<open>The value of a digit string; \<open>None\<close> when a byte is no digit.\<close>

fun digits_value :: "nat \<Rightarrow> nat \<Rightarrow> string \<Rightarrow> nat option" where
  "digits_value radix acc [] = Some acc"
| "digits_value radix acc (c # cs) =
     (case to_digit radix c of
        Some d \<Rightarrow> digits_value radix (acc * radix + d) cs
      | None \<Rightarrow> None)"

text \<open>
  \<open>str::parse::<u8>()\<close>: one leading \<open>+\<close> is allowed, an empty digit string is not, leading zeros
  are allowed, and a value above 255 is an error.
\<close>

definition parse_u8 :: "string \<Rightarrow> u8 option" where
  "parse_u8 s =
     (let ds = (case s of c # cs \<Rightarrow> if c = CHR ''+'' then cs else s | [] \<Rightarrow> s) in
      if ds = [] then None
      else (case digits_value 10 0 ds of
              Some n \<Rightarrow> if n < 256 then Some (of_nat n) else None
            | None \<Rightarrow> None))"

lemma less_10_cases:
  "(n::nat) < 10 \<Longrightarrow> n = 0 \<or> n = 1 \<or> n = 2 \<or> n = 3 \<or> n = 4 \<or> n = 5 \<or> n = 6 \<or> n = 7 \<or> n = 8 \<or> n = 9"
  by arith

lemma to_digit_digit_char: "n < 10 \<Longrightarrow> to_digit 10 (digit_char n) = Some n"
  by (drule less_10_cases) (auto simp: to_digit_def digit_char_def digit_table_def)

lemma digits_value_append:
  "digits_value r acc (xs @ ys) =
     (case digits_value r acc xs of Some n \<Rightarrow> digits_value r n ys | None \<Rightarrow> None)"
  by (induction xs arbitrary: acc) (auto split: option.split)

lemma digits_value_show_nat:
  "digits_value 10 acc (show_nat n) = Some (acc * 10 ^ length (show_nat n) + n)"
proof (induction n arbitrary: acc rule: show_nat.induct)
  case (1 n)
  show ?case
  proof (cases "n < 10")
    case True
    then show ?thesis by (simp add: show_nat.simps [of n] to_digit_digit_char)
  next
    case False
    have "10 * (n div 10) + n mod 10 = n" by simp
    with False 1 show ?thesis
      by (simp add: show_nat.simps [of n] to_digit_digit_char digits_value_append algebra_simps)
  qed
qed

lemma show_nat_not_Nil [simp]: "show_nat n \<noteq> []"
  by (subst show_nat.simps) simp

lemma digit_char_decimal: "n < 10 \<Longrightarrow> digit_char n \<in> set ''0123456789''"
proof -
  assume "n < 10"
  then have "digit_char n = ''0123456789'' ! n"
    using nth_append [of "''0123456789''" "''abcdef''" n] by (simp add: digit_char_def)
  with \<open>n < 10\<close> show ?thesis using nth_mem [of n "''0123456789''"] by simp
qed

lemma set_show_nat: "set (show_nat n) \<subseteq> set ''0123456789''"
proof (induction n rule: show_nat.induct)
  case (1 n)
  then show ?case
    using digit_char_decimal [of n] digit_char_decimal [of "n mod 10"]
    by (subst show_nat.simps) (simp del: insert_iff)
qed

lemma show_nat_no_special: "c \<notin> set ''0123456789'' \<Longrightarrow> c \<notin> set (show_nat n)"
  using set_show_nat [of n] by blast

lemma length_show_nat: "n < 10 ^ Suc k \<Longrightarrow> length (show_nat n) \<le> Suc k"
proof (induction k arbitrary: n)
  case 0
  then show ?case by (subst show_nat.simps) simp
next
  case (Suc k)
  then have "n div 10 < 10 ^ Suc k" by (simp add: less_mult_imp_div_less)
  with Suc.IH show ?case by (subst show_nat.simps) simp
qed

lemma length_show_nat_u8: "n < 256 \<Longrightarrow> length (show_nat n) \<le> 3"
  using length_show_nat [of n 2] by simp

lemma hd_show_nat_zero: "hd (show_nat n) = CHR ''0'' \<Longrightarrow> n = 0"
proof (induction n rule: show_nat.induct)
  case (1 n)
  show ?case
  proof (cases "n < 10")
    case True
    with 1 show ?thesis
      by (auto simp: show_nat.simps [of n] digit_char_def dest!: less_10_cases)
  next
    case False
    with 1 have "n div 10 = 0" by (simp add: show_nat.simps [of n])
    with False show ?thesis by simp
  qed
qed

section \<open>Printer and parser\<close>

text \<open>
  A text format: a printer, a parser, and the values the printer is used on.  The law is that
  printing loses nothing on the domain; what the clients use is in the block.
\<close>

locale codec =
  fixes enc :: "'a \<Rightarrow> 'b"
    and dec :: "'b \<Rightarrow> 'a option"
    and dom :: "'a \<Rightarrow> bool"
  assumes dec_enc: "dom x \<Longrightarrow> dec (enc x) = Some x"
begin

lemma enc_inj: "dom x \<Longrightarrow> dom y \<Longrightarrow> enc x = enc y \<longleftrightarrow> x = y"
  by (metis dec_enc option.inject)

lemma reencode: "dom x \<Longrightarrow> map_option enc (dec (enc x)) = Some (enc x)"
  by (simp add: dec_enc)

lemma decode_all: "list_all dom xs \<Longrightarrow> map (dec \<circ> enc) xs = map Some xs"
  by (induction xs) (auto simp: dec_enc)

end

lemma parse_u8_show_nat: "n < 256 \<Longrightarrow> parse_u8 (show_nat n) = Some (of_nat n)"
proof -
  assume n: "n < 256"
  obtain c cs where c: "show_nat n = c # cs" by (cases "show_nat n") auto
  then have "c \<noteq> CHR ''+''" using show_nat_no_special [of "CHR ''+''" n] by auto
  with c n digits_value_show_nat [of 0 n] show ?thesis by (simp add: parse_u8_def)
qed

interpretation u8_text: codec "\<lambda>n::u8. show_nat (unat n)" parse_u8 "\<lambda>_. True"
proof
  fix n :: u8
  have "unat n < 256" using unsigned_less [of n] by simp
  then show "parse_u8 (show_nat (unat n)) = Some n" by (simp add: parse_u8_show_nat)
qed

end
