(* ===== verification/IndexMap.thy ===== *)
theory IndexMap
  imports Prelude
begin

text \<open>
  \<open>indexmap::IndexMap\<close> as an association list in insertion order.  Inserting an existing key
  keeps its position (\<open>AList.update\<close>), a new key goes to the end, and \<open>shift_remove\<close> keeps the
  order of the rest (\<open>AList.delete\<close>).  The locale \<open>ordered_map\<close> states what the other
  components rely on; the interpretation \<open>imap\<close> discharges it for the association lists.
\<close>

type_synonym ('k, 'v) imap = "('k \<times> 'v) list"

abbreviation im_get :: "('k, 'v) imap \<Rightarrow> 'k \<Rightarrow> 'v option" where
  "im_get m \<equiv> map_of m"

abbreviation im_insert :: "('k, 'v) imap \<Rightarrow> 'k \<Rightarrow> 'v \<Rightarrow> ('k, 'v) imap" where
  "im_insert m k v \<equiv> AList.update k v m"

abbreviation im_remove :: "('k, 'v) imap \<Rightarrow> 'k \<Rightarrow> ('k, 'v) imap" where
  "im_remove m k \<equiv> AList.delete k m"

abbreviation im_keys :: "('k, 'v) imap \<Rightarrow> 'k list" where
  "im_keys m \<equiv> map fst m"

abbreviation im_wf :: "('k, 'v) imap \<Rightarrow> bool" where
  "im_wf m \<equiv> distinct (map fst m)"

definition im_contains :: "('k, 'v) imap \<Rightarrow> 'k \<Rightarrow> bool" where
  "im_contains m k = (im_get m k \<noteq> None)"

text \<open>A loop of \<open>insert\<close> calls over a sequence of entries.\<close>

definition im_extend :: "('k, 'v) imap \<Rightarrow> ('k \<times> 'v) list \<Rightarrow> ('k, 'v) imap" where
  "im_extend m kvs = foldl (\<lambda>m (k, v). im_insert m k v) m kvs"

locale ordered_map =
  fixes nothing :: "'m"
    and get :: "'m \<Rightarrow> 'k \<Rightarrow> 'v option"
    and put :: "'m \<Rightarrow> 'k \<Rightarrow> 'v \<Rightarrow> 'm"
    and remove :: "'m \<Rightarrow> 'k \<Rightarrow> 'm"
    and ordered_keys :: "'m \<Rightarrow> 'k list"
    and wf_map :: "'m \<Rightarrow> bool"
  assumes wf_nothing: "wf_map nothing"
    and keys_nothing: "ordered_keys nothing = []"
    and wf_put: "wf_map m \<Longrightarrow> wf_map (put m k v)"
    and wf_remove: "wf_map m \<Longrightarrow> wf_map (remove m k)"
    and distinct_keys: "wf_map m \<Longrightarrow> distinct (ordered_keys m)"
    and in_keys: "wf_map m \<Longrightarrow> k \<in> set (ordered_keys m) \<longleftrightarrow> get m k \<noteq> None"
    and get_put: "wf_map m \<Longrightarrow> get (put m k v) k' = (if k' = k then Some v else get m k')"
    and get_remove: "wf_map m \<Longrightarrow> get (remove m k) k' = (if k' = k then None else get m k')"
    and keys_put: "wf_map m \<Longrightarrow>
      ordered_keys (put m k v) = (if k \<in> set (ordered_keys m) then ordered_keys m else ordered_keys m @ [k])"
    and keys_remove: "wf_map m \<Longrightarrow> ordered_keys (remove m k) = filter (\<lambda>x. x \<noteq> k) (ordered_keys m)"
    and map_ext: "\<lbrakk>wf_map m; wf_map n; ordered_keys m = ordered_keys n; \<And>k. get m k = get n k\<rbrakk> \<Longrightarrow> m = n"
begin

lemma get_nothing: "get nothing k = None"
  using in_keys [OF wf_nothing, of k] by (simp add: keys_nothing)

lemma put_same: "wf_map m \<Longrightarrow> get m k = Some v \<Longrightarrow> put m k v = m"
  by (rule map_ext) (auto simp: wf_put keys_put get_put in_keys)

lemma put_put: "wf_map m \<Longrightarrow> put (put m k v) k w = put m k w"
  by (rule map_ext) (auto simp: wf_put keys_put get_put in_keys)

lemma remove_absent: "wf_map m \<Longrightarrow> get m k = None \<Longrightarrow> remove m k = m"
proof (rule map_ext)
  assume m: "wf_map m" "get m k = None"
  then have "k \<notin> set (ordered_keys m)" by (simp add: in_keys)
  then have "filter (\<lambda>x. x \<noteq> k) (ordered_keys m) = ordered_keys m" by (auto intro: filter_True)
  with m show "ordered_keys (remove m k) = ordered_keys m" by (simp add: keys_remove)
qed (auto simp: wf_remove get_remove)

lemma remove_put_fresh: "wf_map m \<Longrightarrow> get m k = None \<Longrightarrow> remove (put m k v) k = m"
proof (rule map_ext)
  assume m: "wf_map m" "get m k = None"
  then have "k \<notin> set (ordered_keys m)" by (simp add: in_keys)
  then have "filter (\<lambda>x. x \<noteq> k) (ordered_keys m @ [k]) = ordered_keys m" by (auto intro: filter_True)
  with m show "ordered_keys (remove (put m k v) k) = ordered_keys m"
    by (simp add: keys_remove keys_put in_keys wf_put)
qed (auto simp: wf_put wf_remove get_put get_remove)

lemma remove_commute: "wf_map m \<Longrightarrow> remove (remove m j) k = remove (remove m k) j"
  by (rule map_ext) (auto simp: wf_remove keys_remove get_remove intro: filter_cong)

lemma remove_twice: "wf_map m \<Longrightarrow> remove (remove m k) k = remove m k"
  by (rule remove_absent) (auto simp: wf_remove get_remove)

text \<open>A loop of insertions of fresh keys: the keys come out in the order they went in.\<close>

lemma puts_fresh:
  "\<lbrakk>wf_map m; distinct (map fst kvs); set (map fst kvs) \<inter> set (ordered_keys m) = {}\<rbrakk> \<Longrightarrow>
     wf_map (foldl (\<lambda>m (k, v). put m k v) m kvs)
     \<and> ordered_keys (foldl (\<lambda>m (k, v). put m k v) m kvs) = ordered_keys m @ map fst kvs
     \<and> (\<forall>k. get (foldl (\<lambda>m (k, v). put m k v) m kvs) k =
             (case map_of kvs k of Some v \<Rightarrow> Some v | None \<Rightarrow> get m k))"
proof (induction kvs arbitrary: m)
  case (Cons kv kvs)
  obtain k v where kv: "kv = (k, v)" by (cases kv)
  let ?m = "put m k v"
  have fresh: "k \<notin> set (ordered_keys m)" using Cons.prems kv by auto
  have d: "set (map fst kvs) \<inter> set (ordered_keys ?m) = {}"
    using Cons.prems kv fresh by (auto simp: keys_put)
  have n: "map_of kvs k = None" using Cons.prems kv by (simp add: map_of_eq_None_iff)
  have w: "wf_map ?m" "distinct (map fst kvs)" using Cons.prems kv by (simp_all add: wf_put)
  note IH = Cons.IH [OF w d]
  have "ordered_keys ?m = ordered_keys m @ [k]" using Cons.prems fresh by (simp add: keys_put)
  moreover have "get ?m j = (if j = k then Some v else get m j)" for j
    using Cons.prems by (simp add: get_put)
  ultimately show ?case using IH n by (simp add: kv split: option.split)
qed simp

end

lemma im_keys_insert:
  "im_keys (im_insert m k v) = (if k \<in> set (im_keys m) then im_keys m else im_keys m @ [k])"
  by (induction m) auto

lemma im_keys_remove: "im_keys (im_remove m k) = filter (\<lambda>x. x \<noteq> k) (im_keys m)"
  by (induction m) (auto simp: delete_simps)

lemma im_ext:
  "im_wf m \<Longrightarrow> im_wf n \<Longrightarrow> im_keys m = im_keys n \<Longrightarrow> (\<And>k. im_get m k = im_get n k) \<Longrightarrow> m = n"
proof (induction m arbitrary: n)
  case (Cons a m)
  then obtain b n' where n: "n = b # n'" by (cases n) auto
  with Cons.prems(3) have k: "fst a = fst b" by simp
  from Cons.prems(4) [of "fst a"] n k have v: "snd a = snd b" by simp
  have "im_get m k = im_get n' k" for k
  proof (cases "k = fst a")
    case True
    with Cons.prems(1,2) n k show ?thesis by (auto simp: map_of_eq_None_iff [symmetric] dest: sym)
  next
    case False
    with Cons.prems(4) [of k] n k show ?thesis by simp
  qed
  with Cons n have "m = n'" by auto
  with n k v show ?case by (simp add: prod_eq_iff)
qed simp

interpretation imap: ordered_map "[]" im_get im_insert im_remove im_keys im_wf
proof
  show "im_wf m \<Longrightarrow> im_wf (im_insert m k v)" for m :: "('k, 'v) imap" and k v
    by (rule AList.distinct_update)
  show "im_wf m \<Longrightarrow> im_wf (im_remove m k)" for m :: "('k, 'v) imap" and k
    by (rule AList.distinct_delete)
  show "k \<in> set (im_keys m) \<longleftrightarrow> im_get m k \<noteq> None" for m :: "('k, 'v) imap" and k
    by (auto simp: map_of_eq_None_iff)
qed (simp_all add: update_conv' delete_conv' im_keys_insert im_keys_remove im_ext)

lemmas im_simps = imap.get_put imap.get_remove imap.keys_put imap.keys_remove imap.wf_put imap.wf_remove

lemma im_contains_iff: "im_contains m k \<longleftrightarrow> k \<in> fst ` set m"
  by (auto simp: im_contains_def map_of_eq_None_iff)

lemma im_remove_in: "(j, v) \<in> set (im_remove m k) \<longleftrightarrow> j \<noteq> k \<and> (j, v) \<in> set m"
  by (auto simp: AList.delete_eq)

lemma im_extend_simps [simp]:
  "im_extend m [] = m"
  "im_extend m ((k, v) # kvs) = im_extend (im_insert m k v) kvs"
  by (simp_all add: im_extend_def)

lemma im_extend_wf: "im_wf m \<Longrightarrow> im_wf (im_extend m kvs)"
  by (induction kvs arbitrary: m) (auto simp: imap.wf_put)

lemma im_extend_fresh:
  assumes "im_wf m" "im_wf kvs" "set (im_keys kvs) \<inter> set (im_keys m) = {}"
  shows "im_extend m kvs = m @ kvs"
proof (rule im_ext)
  note facts = imap.puts_fresh [of m kvs, folded im_extend_def, OF assms]
  show "im_wf (im_extend m kvs)" using facts by blast
  show "im_wf (m @ kvs)" using assms by auto
  show "im_keys (im_extend m kvs) = im_keys (m @ kvs)" using facts by simp
  fix k
  have "im_get kvs k = None \<or> im_get m k = None" using assms(3) by (auto simp: map_of_eq_None_iff)
  then show "im_get (im_extend m kvs) k = im_get (m @ kvs) k"
    using facts by (auto simp: map_add_def split: option.splits)
qed

corollary im_extend_Nil: "im_wf kvs \<Longrightarrow> im_extend [] kvs = kvs"
  by (simp add: im_extend_fresh)

lemma im_get_in_set: "im_wf m \<Longrightarrow> (k, v) \<in> set m \<longleftrightarrow> im_get m k = Some v"
  by (auto dest: map_of_SomeD)

end
