(* ===== verification/NetAddr.thy ===== *)
theory NetAddr
  imports Prelude
begin

text \<open>
  The part of \<open>std::net\<close> the crates use: IPv4 and IPv6 addresses as the machine words behind
  them, their \<open>Display\<close> text and \<open>str::parse\<close>, and the CIDR text of
  \<open>schema.rs\<close>, \<open>parse_ip_network\<close>.
\<close>

unbundle bit_operations_syntax

type_synonym ipv4_addr = u32
type_synonym ipv6_addr = u128

datatype ip_addr = V4 ipv4_addr | V6 ipv6_addr

fun is_ipv4 :: "ip_addr \<Rightarrow> bool" where
  "is_ipv4 (V4 _) = True"
| "is_ipv4 (V6 _) = False"

section \<open>Display\<close>

definition ipv4_octets :: "ipv4_addr \<Rightarrow> nat list" where
  "ipv4_octets a =
     [unat a div 2 ^ 24, unat a div 2 ^ 16 mod 256, unat a div 2 ^ 8 mod 256, unat a mod 256]"

definition show_ipv4 :: "ipv4_addr \<Rightarrow> string" where
  "show_ipv4 a = join ''.'' (map show_nat (ipv4_octets a))"

text \<open>\<open>Ipv4Addr::is_loopback\<close>: 127.0.0.0/8.\<close>

definition is_loopback :: "ipv4_addr \<Rightarrow> bool" where
  "is_loopback a = (unat a div 2 ^ 24 = 127)"

definition ipv6_segments :: "ipv6_addr \<Rightarrow> nat list" where
  "ipv6_segments a = map (\<lambda>i. unat a div 65536 ^ (7 - i) mod 65536) [0..<8]"

fun show_hex :: "nat \<Rightarrow> string" where
  "show_hex n = (if n < 16 then [digit_char n] else show_hex (n div 16) @ [digit_char (n mod 16)])"

declare show_hex.simps [simp del]

text \<open>The first longest run of zero segments, as (start, length).\<close>

fun longest_zeroes :: "nat list \<Rightarrow> nat \<Rightarrow> nat \<times> nat \<Rightarrow> nat \<times> nat \<Rightarrow> nat \<times> nat" where
  "longest_zeroes [] i longest current = longest"
| "longest_zeroes (s # ss) i longest current =
     (if s = 0 then
        (let current = (if snd current = 0 then i else fst current, Suc (snd current)) in
         longest_zeroes ss (Suc i) (if snd current > snd longest then current else longest) current)
      else longest_zeroes ss (Suc i) longest (0, 0))"

definition show_ipv6 :: "ipv6_addr \<Rightarrow> string" where
  "show_ipv6 a =
     (let segments = ipv6_segments a;
          fmt_subslice = (\<lambda>ss. join '':'' (map show_hex ss)) in
      if take 6 segments = [0, 0, 0, 0, 0, 65535] then ''::ffff:'' @ show_ipv4 (ucast a)
      else (let (start, len) = longest_zeroes segments 0 (0, 0) (0, 0) in
            if len > 1 then
              fmt_subslice (take start segments) @ ''::'' @ fmt_subslice (drop (start + len) segments)
            else fmt_subslice segments))"

fun show_ip :: "ip_addr \<Rightarrow> string" where
  "show_ip (V4 a) = show_ipv4 a"
| "show_ip (V6 a) = show_ipv6 a"

section \<open>Parsing\<close>

text \<open>
  A reader takes the remaining bytes and returns a value and what is left, or \<open>None\<close> with nothing
  consumed (\<open>read_atomically\<close>).
\<close>

fun read_given_char :: "char \<Rightarrow> string \<Rightarrow> string option" where
  "read_given_char c (x # xs) = (if x = c then Some xs else None)"
| "read_given_char c [] = None"

text \<open>Digits of the given radix, at most \<open>limit\<close> of them: value, digit count, rest.\<close>

fun read_digits :: "nat \<Rightarrow> nat \<Rightarrow> nat \<Rightarrow> nat \<Rightarrow> string \<Rightarrow> (nat \<times> nat \<times> string) option" where
  "read_digits radix limit count acc [] = Some (acc, count, [])"
| "read_digits radix limit count acc (c # cs) =
     (case to_digit radix c of
        None \<Rightarrow> Some (acc, count, c # cs)
      | Some d \<Rightarrow>
          if Suc count > limit then None
          else read_digits radix limit (Suc count) (acc * radix + d) cs)"

definition read_number :: "nat \<Rightarrow> nat \<Rightarrow> bool \<Rightarrow> nat \<Rightarrow> string \<Rightarrow> (nat \<times> string) option" where
  "read_number radix limit allow_zero_prefix bound s =
     (case read_digits radix limit 0 0 s of
        None \<Rightarrow> None
      | Some (n, count, rest) \<Rightarrow>
          if count = 0 then None
          else if \<not> allow_zero_prefix \<and> hd s = CHR ''0'' \<and> count > 1 then None
          else if n < bound then Some (n, rest) else None)"

definition read_octet :: "string \<Rightarrow> (nat \<times> string) option" where
  "read_octet = read_number 10 3 False 256"

definition read_ipv4_addr :: "string \<Rightarrow> (nat list \<times> string) option" where
  "read_ipv4_addr s =
     Option.bind (read_octet s) (\<lambda>(a, s).
     Option.bind (read_given_char CHR ''.'' s) (\<lambda>s.
     Option.bind (read_octet s) (\<lambda>(b, s).
     Option.bind (read_given_char CHR ''.'' s) (\<lambda>s.
     Option.bind (read_octet s) (\<lambda>(c, s).
     Option.bind (read_given_char CHR ''.'' s) (\<lambda>s.
     Option.bind (read_octet s) (\<lambda>(d, s). Some ([a, b, c, d], s))))))))"

definition ipv4_of_octets :: "nat list \<Rightarrow> ipv4_addr" where
  "ipv4_of_octets ds = of_nat (foldl (\<lambda>n d. n * 256 + d) 0 ds)"

text \<open>\<open>read_separator(sep, index, inner)\<close>: a separator before every group but the first.\<close>

definition read_separator :: "char \<Rightarrow> nat \<Rightarrow> (string \<Rightarrow> ('a \<times> string) option) \<Rightarrow> string \<Rightarrow> ('a \<times> string) option" where
  "read_separator sep i inner s =
     Option.bind (if i > 0 then read_given_char sep s else Some s) inner"

text \<open>
  \<open>read_groups\<close>: groups of an IPv6 address from index \<open>i\<close> up to \<open>limit\<close>, and whether an embedded
  IPv4 address ended them.
\<close>

function read_groups :: "nat \<Rightarrow> nat \<Rightarrow> string \<Rightarrow> nat list \<times> bool \<times> string" where
  "read_groups i limit s =
     (if i < limit then
        (case (if i < limit - 1 then read_separator CHR '':'' i read_ipv4_addr s else None) of
           Some (ds, s') \<Rightarrow> ([ds ! 0 * 256 + ds ! 1, ds ! 2 * 256 + ds ! 3], True, s')
         | None \<Rightarrow>
             (case read_separator CHR '':'' i (read_number 16 4 True 65536) s of
                Some (g, s') \<Rightarrow>
                  (let (gs, v4, rest) = read_groups (Suc i) limit s' in (g # gs, v4, rest))
              | None \<Rightarrow> ([], False, s)))
      else ([], False, s))"
  by pat_completeness auto
termination by (relation "measure (\<lambda>(i, limit, s). limit - i)") auto

declare read_groups.simps [simp del]

definition read_ipv6_addr :: "string \<Rightarrow> (nat list \<times> string) option" where
  "read_ipv6_addr s =
     (let (front, head_ipv4, s1) = read_groups 0 8 s in
      if length front = 8 then Some (front, s1)
      else if head_ipv4 then None
      else
        Option.bind (read_given_char CHR '':'' s1) (\<lambda>s2.
        Option.bind (read_given_char CHR '':'' s2) (\<lambda>s3.
          (let (back, _, s4) = read_groups 0 (8 - (length front + 1)) s3 in
           Some (front @ replicate (8 - length front - length back) 0 @ back, s4)))))"

definition ipv6_of_segments :: "nat list \<Rightarrow> ipv6_addr" where
  "ipv6_of_segments gs = of_nat (foldl (\<lambda>n g. n * 65536 + g) 0 gs)"

text \<open>\<open>str::parse::<IpAddr>()\<close>: an IPv4 address, else an IPv6 address, with nothing left over.\<close>

definition parse_ip :: "string \<Rightarrow> ip_addr option" where
  "parse_ip s =
     (case (case read_ipv4_addr s of
              Some (ds, rest) \<Rightarrow> Some (V4 (ipv4_of_octets ds), rest)
            | None \<Rightarrow>
                (case read_ipv6_addr s of
                   Some (gs, rest) \<Rightarrow> Some (V6 (ipv6_of_segments gs), rest)
                 | None \<Rightarrow> None)) of
        Some (a, rest) \<Rightarrow> if rest = [] then Some a else None
      | None \<Rightarrow> None)"

text \<open>\<open>schema.rs\<close>, \<open>parse_ip_network\<close>: \<open>address/prefix\<close>, keeping the host bits.\<close>

definition max_prefix :: "ip_addr \<Rightarrow> u8" where
  "max_prefix a = (case a of V4 _ \<Rightarrow> 32 | V6 _ \<Rightarrow> 128)"

definition parse_ip_network :: "string \<Rightarrow> (ip_addr \<times> u8) option" where
  "parse_ip_network s =
     Option.bind (split_once CHR ''/'' s) (\<lambda>(addr, prefix).
     Option.bind (parse_ip addr) (\<lambda>addr.
     Option.bind (parse_u8 prefix) (\<lambda>prefix.
       if prefix \<le> max_prefix addr then Some (addr, prefix) else None)))"

text \<open>\<open>format!("{a}/{prefix}")\<close>.\<close>

definition show_network :: "ip_addr \<times> u8 \<Rightarrow> string" where
  "show_network n = show_ip (fst n) @ ''/'' @ show_nat (unat (snd n))"

section \<open>Reading back what was printed\<close>

lemma read_digits_append:
  "\<lbrakk>digits_value r acc ds = Some v; count + length ds \<le> limit;
    rest = [] \<or> to_digit r (hd rest) = None\<rbrakk> \<Longrightarrow>
   read_digits r limit count acc (ds @ rest) = Some (v, count + length ds, rest)"
proof (induction ds arbitrary: count acc)
  case Nil
  then show ?case by (cases rest) auto
next
  case (Cons c ds)
  then show ?case by (auto split: option.splits)
qed

lemma read_octet_show_nat:
  assumes n: "n < 256" and rest: "rest = [] \<or> to_digit 10 (hd rest) = None"
  shows "read_octet (show_nat n @ rest) = Some (n, rest)"
proof -
  have "digits_value 10 0 (show_nat n) = Some n" using digits_value_show_nat [of 0 n] by simp
  from read_digits_append [OF this _ rest, of 0 3] n
  have r: "read_digits 10 3 0 0 (show_nat n @ rest) = Some (n, length (show_nat n), rest)"
    by (simp add: length_show_nat_u8)
  have "length (show_nat n) = 1" if "hd (show_nat n) = CHR ''0''"
    using hd_show_nat_zero [OF that] by (simp add: show_nat.simps)
  with r n show ?thesis by (auto simp: read_octet_def read_number_def)
qed

lemma read_octet_dot: "n < 256 \<Longrightarrow> read_octet (show_nat n @ CHR ''.'' # s) = Some (n, CHR ''.'' # s)"
  by (rule read_octet_show_nat) (simp_all add: to_digit_def digit_table_def)

lemma read_ipv4_show:
  "\<lbrakk>a < 256; b < 256; c < 256; d < 256\<rbrakk> \<Longrightarrow>
   read_ipv4_addr (join ''.'' (map show_nat [a, b, c, d])) = Some ([a, b, c, d], [])"
  using read_octet_show_nat [of d "[]"] by (simp add: read_ipv4_addr_def read_octet_dot)

lemma ipv4_octets_bound: "\<forall>d \<in> set (ipv4_octets a). d < 256"
proof -
  have "unat a < 2 ^ 32" using unsigned_less [of a] by simp
  then show ?thesis by (simp add: ipv4_octets_def less_mult_imp_div_less)
qed

lemma ipv4_of_octets_octets: "ipv4_of_octets (ipv4_octets a) = a"
proof -
  let ?n = "unat a"
  have "?n div 2 ^ 24 * 256 + ?n div 2 ^ 16 mod 256 = ?n div 2 ^ 16"
    using div_mult_mod_eq [of "?n div 2 ^ 16" 256] by (simp add: div_mult2_eq [symmetric])
  moreover have "?n div 2 ^ 16 * 256 + ?n div 2 ^ 8 mod 256 = ?n div 2 ^ 8"
    using div_mult_mod_eq [of "?n div 2 ^ 8" 256] by (simp add: div_mult2_eq [symmetric])
  moreover have "?n div 2 ^ 8 * 256 + ?n mod 256 = ?n"
    using div_mult_mod_eq [of ?n 256] by simp
  ultimately have "foldl (\<lambda>n d. n * 256 + d) 0 (ipv4_octets a) = ?n"
    unfolding ipv4_octets_def by (simp only: foldl_Cons foldl_Nil mult_zero_left add_0)
  then show ?thesis by (simp add: ipv4_of_octets_def)
qed

lemma parse_ip_show_ipv4: "parse_ip (show_ipv4 a) = Some (V4 a)"
proof -
  obtain p q r s where o: "ipv4_octets a = [p, q, r, s]" by (simp add: ipv4_octets_def)
  with ipv4_octets_bound [of a] have "p < 256" "q < 256" "r < 256" "s < 256" by simp_all
  with o have "read_ipv4_addr (show_ipv4 a) = Some (ipv4_octets a, [])"
    by (simp only: show_ipv4_def read_ipv4_show)
  then show ?thesis by (simp add: parse_ip_def ipv4_of_octets_octets)
qed

lemma show_ipv4_no_slash: "CHR ''/'' \<notin> set (show_ipv4 a)"
  using show_nat_no_special [of "CHR ''/''"] by (simp add: show_ipv4_def ipv4_octets_def)

lemma parse_show_ipv4_network:
  assumes "p \<le> 32"
  shows "parse_ip_network (show_network (V4 a, p)) = Some (V4 a, p)"
proof -
  have "split_once CHR ''/'' (show_network (V4 a, p)) = Some (show_ipv4 a, show_nat (unat p))"
    using split_once_append [OF show_ipv4_no_slash] by (simp add: show_network_def)
  with assms show ?thesis
    by (simp add: parse_ip_network_def parse_ip_show_ipv4 u8_text.dec_enc max_prefix_def)
qed

interpretation ipv4_text: codec show_ipv4 "\<lambda>s. case parse_ip s of Some (V4 a) \<Rightarrow> Some a | _ \<Rightarrow> None" "\<lambda>_. True"
  by unfold_locales (simp add: parse_ip_show_ipv4)

interpretation cidr_text: codec show_network parse_ip_network "\<lambda>(a, p). is_ipv4 a \<and> p \<le> 32"
proof
  fix n :: "ip_addr \<times> u8"
  assume "case n of (a, p) \<Rightarrow> is_ipv4 a \<and> p \<le> 32"
  then show "parse_ip_network (show_network n) = Some n"
    by (cases n; cases "fst n") (simp_all add: parse_show_ipv4_network)
qed

lemma parse_ip_network_prefix: "parse_ip_network s = Some (a, p) \<Longrightarrow> p \<le> max_prefix a"
  by (auto simp: parse_ip_network_def bind_eq_Some_conv split: if_splits)

lemma parse_ip_network_needs_slash: "CHR ''/'' \<notin> set s \<Longrightarrow> parse_ip_network s = None"
  by (simp add: parse_ip_network_def split_once_None [THEN iffD2])

end
