(* ===== verification/Values.thy ===== *)
theory Values
  imports IndexMap NetAddr
begin

text \<open>
  \<open>crates/netfyr-state/src/value.rs\<close>: the type of every configuration value, its order-sensitive
  equality and its text.
\<close>

datatype cval =
    VString string
  | VU64 u64
  | VI64 i64
  | VBool bool
  | VIpAddr ip_addr
  | VIpNetwork "ip_addr \<times> u8"
  | VList "cval list"
  | VMap "(string \<times> cval) list"

type_synonym fields = "(string, cval) imap"

text \<open>\<open>PartialEq for Value\<close>: maps are compared by position.\<close>

fun value_eq :: "cval \<Rightarrow> cval \<Rightarrow> bool"
  and values_eq :: "cval list \<Rightarrow> cval list \<Rightarrow> bool"
  and entries_eq :: "(string \<times> cval) list \<Rightarrow> (string \<times> cval) list \<Rightarrow> bool" where
  "value_eq (VString a) (VString b) = (a = b)"
| "value_eq (VU64 a) (VU64 b) = (a = b)"
| "value_eq (VI64 a) (VI64 b) = (a = b)"
| "value_eq (VBool a) (VBool b) = (a = b)"
| "value_eq (VIpAddr a) (VIpAddr b) = (a = b)"
| "value_eq (VIpNetwork a) (VIpNetwork b) = (a = b)"
| "value_eq (VList a) (VList b) = values_eq a b"
| "value_eq (VMap a) (VMap b) = (length a = length b \<and> entries_eq a b)"
| "value_eq _ _ = False"
| "values_eq [] [] = True"
| "values_eq (a # as) (b # bs) = (value_eq a b \<and> values_eq as bs)"
| "values_eq _ _ = False"
| "entries_eq ((k1, v1) # a) ((k2, v2) # b) = ((k1 = k2 \<and> value_eq v1 v2) \<and> entries_eq a b)"
| "entries_eq _ _ = True"

text \<open>\<open>Display for Value\<close>.\<close>

fun show_value :: "cval \<Rightarrow> string" where
  "show_value (VString s) = s"
| "show_value (VU64 n) = show_nat (unat n)"
| "show_value (VI64 n) = show_int (sint n)"
| "show_value (VBool b) = (if b then ''true'' else ''false'')"
| "show_value (VIpAddr a) = show_ip a"
| "show_value (VIpNetwork n) = show_network n"
| "show_value (VList items) = ''['' @ join '', '' (map show_value items) @ '']''"
| "show_value (VMap entries) =
     ''{'' @ join '', '' (map (\<lambda>(k, v). k @ '': '' @ show_value v) entries) @ ''}''"

lemma values_eq_refl: "(\<And>v. v \<in> set vs \<Longrightarrow> value_eq v v) \<Longrightarrow> values_eq vs vs"
  by (induction vs) auto

lemma entries_eq_refl: "(\<And>k v. (k, v) \<in> set es \<Longrightarrow> value_eq v v) \<Longrightarrow> entries_eq es es"
proof (induction es)
  case (Cons e es)
  then show ?case by (cases e) auto
qed simp

lemma value_eq_refl: "value_eq v v"
proof (induction v)
  case (VMap es)
  then show ?case by (fastforce intro: entries_eq_refl)
qed (auto intro: values_eq_refl)

lemma value_eq_imp_eq:
  "value_eq v w \<Longrightarrow> v = w" "values_eq vs ws \<Longrightarrow> vs = ws"
  "entries_eq es fs \<Longrightarrow> length es = length fs \<Longrightarrow> es = fs"
  by (induction v w and vs ws and es fs rule: value_eq_values_eq_entries_eq.induct) auto

lemma value_eq_iff [simp]: "value_eq v w \<longleftrightarrow> v = w"
  using value_eq_imp_eq(1) value_eq_refl by blast

end
