(* ===== verification/Model.thy ===== *)
theory Model
  imports Values
begin

text \<open>
  The data model of \<open>crates/netfyr-state\<close>: \<open>source.rs\<close> (what produced a contribution and its
  precedence), \<open>match_spec.rs\<close> (the device selector) and \<open>state.rs\<close> (one contribution to one
  device).  The selector's contract, a preorder with a top element, is the locale
  \<open>selector_order\<close>.
\<close>

section \<open>Sources\<close>

datatype source =
    Static string
  | Vpn string
  | Dhcp string
  | Ra string
  | Kernel

fun default_priority :: "source \<Rightarrow> int" where
  "default_priority (Static _) = 100"
| "default_priority (Vpn _) = 75"
| "default_priority (Dhcp _) = 50"
| "default_priority (Ra _) = 25"
| "default_priority Kernel = 0"

fun source_policy :: "source \<Rightarrow> string option" where
  "source_policy (Static p) = Some p"
| "source_policy (Vpn p) = Some p"
| "source_policy (Dhcp p) = Some p"
| "source_policy (Ra p) = Some p"
| "source_policy Kernel = None"

text \<open>The rank of a source kind in the documented precedence \<open>Static > Vpn > Dhcp > Ra > Kernel\<close>.\<close>

fun source_rank :: "source \<Rightarrow> nat" where
  "source_rank (Static _) = 4"
| "source_rank (Vpn _) = 3"
| "source_rank (Dhcp _) = 2"
| "source_rank (Ra _) = 1"
| "source_rank Kernel = 0"

lemma default_priority_rank: "default_priority s = 25 * int (source_rank s)"
  by (cases s) auto

section \<open>Selectors\<close>

record match_spec =
  match_name :: "string option"
  match_type :: "string option"
  match_driver :: "string option"
  match_pci_path :: "string option"
  match_mac :: "string option"

definition default_match :: match_spec where
  "default_match = \<lparr>match_name = None, match_type = None, match_driver = None,
     match_pci_path = None, match_mac = None\<rparr>"

definition to_ascii_lowercase :: "char \<Rightarrow> char" where
  "to_ascii_lowercase c =
     (case map_of (zip ''ABCDEFGHIJKLMNOPQRSTUVWXYZ'' ''abcdefghijklmnopqrstuvwxyz'') c of
        Some l \<Rightarrow> l
      | None \<Rightarrow> c)"

definition eq_ignore_ascii_case :: "string \<Rightarrow> string \<Rightarrow> bool" where
  "eq_ignore_ascii_case a b = (map to_ascii_lowercase a = map to_ascii_lowercase b)"

fun field_matches :: "string option \<Rightarrow> string option \<Rightarrow> bool" where
  "field_matches (Some a) (Some b) = (a = b)"
| "field_matches (Some _) None = False"
| "field_matches None _ = True"

fun mac_matches :: "string option \<Rightarrow> string option \<Rightarrow> bool" where
  "mac_matches (Some a) (Some b) = eq_ignore_ascii_case a b"
| "mac_matches (Some _) None = False"
| "mac_matches None _ = True"

definition matches :: "match_spec \<Rightarrow> match_spec \<Rightarrow> bool" where
  "matches self other =
     (field_matches (match_name self) (match_name other)
      \<and> field_matches (match_type self) (match_type other)
      \<and> field_matches (match_driver self) (match_driver other)
      \<and> field_matches (match_pci_path self) (match_pci_path other)
      \<and> mac_matches (match_mac self) (match_mac other))"

definition match_is_empty :: "match_spec \<Rightarrow> bool" where
  "match_is_empty m =
     (match_name m = None \<and> match_type m = None \<and> match_driver m = None
      \<and> match_pci_path m = None \<and> match_mac m = None)"

text \<open>
  The contract a selector gives the query layers: matching is a preorder, the empty selector
  matches everything.
\<close>

locale selector_order =
  fixes sel_matches :: "'m \<Rightarrow> 'm \<Rightarrow> bool"
    and sel_any :: 'm
  assumes sel_refl: "sel_matches m m"
    and sel_trans: "sel_matches a b \<Longrightarrow> sel_matches b c \<Longrightarrow> sel_matches a c"
    and sel_top: "sel_matches sel_any m"
begin

lemma narrower_selects_subset:
  "sel_matches wide narrow \<Longrightarrow> filter (sel_matches narrow) ds = filter (sel_matches narrow) (filter (sel_matches wide) ds)"
  by (induction ds) (auto intro: sel_trans)

lemma select_any: "filter (sel_matches sel_any) ds = ds"
  by (simp add: sel_top)

lemma selected_keeps_match:
  "sel_matches a b \<Longrightarrow> b \<in> set ds \<Longrightarrow> \<exists>d \<in> set ds. sel_matches a d"
  by blast

end

lemma field_matches_iff: "field_matches a b \<longleftrightarrow> a = None \<or> a = b"
  by (cases a; cases b) auto

lemma mac_matches_iff:
  "mac_matches a b \<longleftrightarrow> a = None \<or>
     (b \<noteq> None \<and> map_option (map to_ascii_lowercase) a = map_option (map to_ascii_lowercase) b)"
  by (cases a; cases b) (auto simp: eq_ignore_ascii_case_def)

lemma field_matches_trans: "field_matches a b \<Longrightarrow> field_matches b c \<Longrightarrow> field_matches a c"
  by (auto simp: field_matches_iff)

lemma mac_matches_trans: "mac_matches a b \<Longrightarrow> mac_matches b c \<Longrightarrow> mac_matches a c"
  by (cases a; cases b; cases c) (simp_all add: eq_ignore_ascii_case_def)

lemma mac_matches_refl: "mac_matches a a"
  by (cases a) (simp_all add: eq_ignore_ascii_case_def)

lemma matches_trans: "matches a b \<Longrightarrow> matches b c \<Longrightarrow> matches a c"
  unfolding matches_def by (intro conjI) (blast intro: field_matches_trans mac_matches_trans)+

interpretation device_selector: selector_order matches default_match
proof
  show "matches m m" for m
    by (simp add: matches_def field_matches_iff mac_matches_refl)
  show "matches default_match m" for m
    by (simp add: matches_def default_match_def)
qed (rule matches_trans)

section \<open>States\<close>

text \<open>\<open>StateMetadata\<close>: a UUIDv7 and a creation time, both read from outside the program.\<close>

record state_metadata =
  md_id :: u128
  md_created_at :: nat

record dev_state =
  device_type :: string
  st_match :: match_spec
  st_fields :: fields
  st_source :: source
  st_priority :: int
  st_metadata :: state_metadata

text \<open>\<open>State::new\<close>; the fresh metadata is an argument.\<close>

definition new_state :: "state_metadata \<Rightarrow> source \<Rightarrow> dev_state" where
  "new_state md src =
     \<lparr>device_type = [], st_match = default_match, st_fields = [], st_source = src,
      st_priority = default_priority src, st_metadata = md\<rparr>"

definition content_eq :: "dev_state \<Rightarrow> dev_state \<Rightarrow> bool" where
  "content_eq a b =
     (device_type a = device_type b
      \<and> st_match a = st_match b
      \<and> length (st_fields a) = length (st_fields b)
      \<and> list_all (\<lambda>((k1, v1), (k2, v2)). k1 = k2 \<and> value_eq v1 v2) (zip (st_fields a) (st_fields b)))"

lemma zip_entries_eq:
  "length a = length b \<Longrightarrow>
   list_all (\<lambda>((k1, v1), (k2, v2)). k1 = k2 \<and> v1 = v2) (zip a b) \<longleftrightarrow> a = b"
  by (induction a b rule: list_induct2) auto

lemma content_eq_iff:
  "content_eq a b \<longleftrightarrow> device_type a = device_type b \<and> st_match a = st_match b \<and> st_fields a = st_fields b"
  using zip_entries_eq [of "st_fields a" "st_fields b"] by (auto simp: content_eq_def)

end
