(* ===== verification/Schema.thy ===== *)
theory Schema
  imports Model
begin

text \<open>
  \<open>crates/netfyr-state/src/schema.rs\<close>, the schema dialect: field types, nodes, validation errors,
  the recursive walk that validates a value against a node, and the removal of read-only fields.
  A \<open>SchemaNode\<close> is what serde deserialises from the JSON of a fragment; the JSON documents under
  \<open>schemas/\<close> are written out as nodes in theory \<open>SchemaReg\<close>.

  An \<open>expect\<close> or \<open>unreachable!\<close> of the walk is a \<open>None\<close> here; theory \<open>Validation\<close> shows that
  nodes accepted by \<open>validate_schema_node\<close> never reach one.
\<close>

section \<open>Types, formats and errors\<close>

datatype field_type = TString | TBoolean | TInteger | TObject | TArray | TIpAddress | TIpNetwork

fun show_field_type :: "field_type \<Rightarrow> string" where
  "show_field_type TString = ''string''"
| "show_field_type TBoolean = ''boolean''"
| "show_field_type TInteger = ''integer''"
| "show_field_type TObject = ''object''"
| "show_field_type TArray = ''array''"
| "show_field_type TIpAddress = ''ip''"
| "show_field_type TIpNetwork = ''ip-network''"

text \<open>\<open>FieldType::deserialize\<close>: a schema document cannot name the semantic types; \<open>unknown\<close> is serde's \<open>unknown_variant\<close>.\<close>

definition json_types :: "field_type list" where
  "json_types = [TString, TBoolean, TInteger, TObject, TArray]"

definition field_type_of :: "(string \<Rightarrow> string list \<Rightarrow> string) \<Rightarrow> string \<Rightarrow> (field_type, string) outcome" where
  "field_type_of unknown name =
     (if name = ''string'' then Ok TString
      else if name = ''boolean'' then Ok TBoolean
      else if name = ''integer'' then Ok TInteger
      else if name = ''object'' then Ok TObject
      else if name = ''array'' then Ok TArray
      else Err (unknown name [''string'', ''boolean'', ''integer'', ''object'', ''array'']))"

lemma field_type_read_back:
  "field_type_of unknown (show_field_type t) =
     (if t \<in> set json_types then Ok t else Err (unknown (show_field_type t) (map show_field_type json_types)))"
  by (cases t) (simp_all add: field_type_of_def json_types_def)

datatype schema_format = Ipv4Cidr

record field_info =
  fi_writable :: bool
  fi_type :: field_type

datatype validation_error =
    UnknownField (ve_fragment: string) (ve_path: string)
  | ReadOnlyField (ve_fragment: string) (ve_path: string)
  | OutOfRange (ve_fragment: string) (ve_path: string) "int option" "int option"
  | WrongType (ve_fragment: string) (ve_path: string) field_type field_type
  | MissingField (ve_fragment: string) (ve_path: string)
  | EnumViolation (ve_fragment: string) (ve_path: string) "string list"
  | InvalidFormat (ve_fragment: string) (ve_path: string) string

definition quoted :: "string \<Rightarrow> string" where
  "quoted s = CHR 0x27 # s @ [CHR 0x27]"

fun show_range :: "int option \<Rightarrow> int option \<Rightarrow> string" where
  "show_range (Some low) (Some high) = ''between '' @ show_int low @ '' and '' @ show_int high"
| "show_range (Some low) None = ''at least '' @ show_int low"
| "show_range None (Some high) = ''at most '' @ show_int high"
| "show_range None None = ''the allowed range''"

fun show_validation_error :: "validation_error \<Rightarrow> string" where
  "show_validation_error (UnknownField fragment path) =
     ''unknown field '' @ quoted path @ '' in the '' @ quoted fragment @ '' fragment''"
| "show_validation_error (ReadOnlyField fragment path) =
     ''field '' @ quoted path @ '' is read-only and cannot be set ('' @ quoted fragment @ '' fragment)''"
| "show_validation_error (OutOfRange fragment path mn mx) =
     ''value of '' @ quoted path @ '' is out of range: expected '' @ show_range mn mx
     @ '' ('' @ quoted fragment @ '' fragment)''"
| "show_validation_error (WrongType fragment path expected found) =
     ''field '' @ quoted path @ '' has the wrong type: expected '' @ show_field_type expected
     @ '', found '' @ show_field_type found @ '' ('' @ quoted fragment @ '' fragment)''"
| "show_validation_error (MissingField fragment path) =
     ''field '' @ quoted path @ '' is required ('' @ quoted fragment @ '' fragment)''"
| "show_validation_error (EnumViolation fragment path allowed) =
     ''field '' @ quoted path @ '' must be one of: '' @ join '', '' allowed
     @ '' ('' @ quoted fragment @ '' fragment)''"
| "show_validation_error (InvalidFormat fragment path expected) =
     ''field '' @ quoted path @ '' must use '' @ expected @ '' format ('' @ quoted fragment @ '' fragment)''"

fun is_read_only_error :: "validation_error \<Rightarrow> bool" where
  "is_read_only_error (ReadOnlyField _ _) = True"
| "is_read_only_error _ = False"

section \<open>Schema nodes\<close>

datatype schema_node = SchemaNode
  (sn_type: "field_type option")
  (sn_format: "schema_format option")
  (sn_writable: bool)
  (sn_minimum: "int option")
  (sn_maximum: "int option")
  (sn_enum: "string list option")
  (sn_properties: "(string \<times> schema_node) list option")
  (sn_required: "string list option")
  (sn_items: "schema_node option")
  (sn_additional_properties: "bool option")
  (sn_implied_device_type: "string option")

type_synonym properties = "(string, schema_node) imap"

definition writable_object :: schema_node where
  "writable_object = SchemaNode (Some TObject) None True None None None (Some []) None None (Some False) None"

fun semantic_type_of :: "field_type option \<Rightarrow> schema_format option \<Rightarrow> (field_type, string) outcome" where
  "semantic_type_of (Some TString) (Some Ipv4Cidr) = Ok TIpNetwork"
| "semantic_type_of (Some _) (Some Ipv4Cidr) = Err ''ipv4-cidr schema format requires type string''"
| "semantic_type_of (Some t) None = Ok t"
| "semantic_type_of None _ = Err (''schema node without a '' @ quoted ''type'' @ '' keyword'')"

definition semantic_type :: "schema_node \<Rightarrow> (field_type, string) outcome" where
  "semantic_type node = semantic_type_of (sn_type node) (sn_format node)"

text \<open>\<open>semantic_type(node).expect(...)\<close>.\<close>

definition expect_type :: "schema_node \<Rightarrow> field_type option" where
  "expect_type node = (case semantic_type node of Ok t \<Rightarrow> Some t | _ \<Rightarrow> None)"

fun validate_schema_node :: "schema_node \<Rightarrow> (unit, string) outcome"
  and validate_properties :: "(string \<times> schema_node) list \<Rightarrow> (unit, string) outcome" where
  "validate_schema_node (SchemaNode ty fmt wr mn mx en ps rq it ap im) =
     obind (semantic_type_of ty fmt) (\<lambda>_.
     obind (case ps of None \<Rightarrow> Ok () | Some properties \<Rightarrow> validate_properties properties) (\<lambda>_.
     (case it of
        None \<Rightarrow> Ok ()
      | Some items \<Rightarrow>
          omap_err (\<lambda>err. ''array items: '' @ err) (validate_schema_node items))))"
| "validate_properties [] = Ok ()"
| "validate_properties ((name, property) # rest) =
     obind (omap_err (\<lambda>err. ''property '' @ quoted name @ '': '' @ err) (validate_schema_node property))
       (\<lambda>_. validate_properties rest)"

definition node_property :: "schema_node \<Rightarrow> string \<Rightarrow> schema_node option" where
  "node_property node key = Option.bind (sn_properties node) (\<lambda>ps. im_get ps key)"

definition join_path :: "string \<Rightarrow> string \<Rightarrow> string" where
  "join_path prefix key = (if prefix = [] then key else prefix @ ''.'' @ key)"

text \<open>\<open>derive_fields\<close>: every field at every nesting level, inserted in document order.\<close>

fun derive_fields :: "schema_node \<Rightarrow> string \<Rightarrow> (string, field_info) imap \<Rightarrow> (string, field_info) imap option"
  and derive_properties ::
    "(string \<times> schema_node) list \<Rightarrow> string \<Rightarrow> (string, field_info) imap \<Rightarrow> (string, field_info) imap option" where
  "derive_fields (SchemaNode ty fmt wr mn mx en ps rq it ap im) prefix out =
     Option.bind (case ps of None \<Rightarrow> Some out | Some properties \<Rightarrow> derive_properties properties prefix out) (\<lambda>out.
     (case it of None \<Rightarrow> Some out | Some items \<Rightarrow> derive_fields items prefix out))"
| "derive_properties [] prefix out = Some out"
| "derive_properties ((name, prop) # rest) prefix out =
     (let path = join_path prefix name in
      Option.bind (expect_type prop) (\<lambda>ty.
      Option.bind (derive_fields prop path (im_insert out path \<lparr>fi_writable = sn_writable prop, fi_type = ty\<rparr>)) (\<lambda>out.
        derive_properties rest prefix out)))"

section \<open>Validation of a value\<close>

lemma size_entry: "(k, v) \<in> set m \<Longrightarrow> size v < size_list (size_prod (\<lambda>_. 0) size) (m :: (string \<times> cval) list)"
  by (induction m) auto

lemma size_item: "v \<in> set vs \<Longrightarrow> size v < size_list size (vs :: cval list)"
  by (induction vs) auto

lemma enumerate_in_set: "(i, x) \<in> set (enumerate n xs) \<Longrightarrow> x \<in> set xs"
  by (metis in_set_enumerate_eq fst_conv snd_conv nth_mem less_diff_conv2)

fun value_type :: "cval \<Rightarrow> field_type" where
  "value_type (VString _) = TString"
| "value_type (VU64 _) = TInteger"
| "value_type (VI64 _) = TInteger"
| "value_type (VBool _) = TBoolean"
| "value_type (VIpAddr _) = TIpAddress"
| "value_type (VIpNetwork _) = TIpNetwork"
| "value_type (VList _) = TArray"
| "value_type (VMap _) = TObject"

definition type_accepts :: "schema_node \<Rightarrow> field_type \<Rightarrow> field_type \<Rightarrow> bool" where
  "type_accepts node expected found =
     (expected = found
      \<or> (sn_format node = Some Ipv4Cidr \<and> expected = TIpNetwork \<and> found = TString))"

fun integer_value :: "cval \<Rightarrow> int option" where
  "integer_value (VU64 n) = Some (uint n)"
| "integer_value (VI64 n) = Some (sint n)"
| "integer_value _ = None"

text \<open>The absent \<open>required\<close> keys, in the node's order.\<close>

definition missing_fields ::
  "schema_node \<Rightarrow> fields \<Rightarrow> string \<Rightarrow> string list \<Rightarrow> string \<Rightarrow> validation_error list" where
  "missing_fields node m prefix ignore_keys fragment =
     map (\<lambda>required. MissingField fragment (join_path prefix required))
       (filter (\<lambda>required. \<not> im_contains m required \<and> required \<notin> set ignore_keys)
         (case sn_required node of None \<Rightarrow> [] | Some rs \<Rightarrow> rs))"

definition check_integer :: "schema_node \<Rightarrow> cval \<Rightarrow> string \<Rightarrow> string \<Rightarrow> validation_error list option" where
  "check_integer node v path fragment =
     Option.bind (integer_value v) (\<lambda>actual.
       Some ((case sn_minimum node of
              Some mn \<Rightarrow> if actual < mn then [OutOfRange fragment path (Some mn) (sn_maximum node)] else []
            | None \<Rightarrow> [])
           @ (case sn_maximum node of
                Some mx \<Rightarrow> if actual > mx then [OutOfRange fragment path (sn_minimum node) (Some mx)] else []
              | None \<Rightarrow> [])))"

definition check_string :: "schema_node \<Rightarrow> cval \<Rightarrow> string \<Rightarrow> string \<Rightarrow> validation_error list" where
  "check_string node v path fragment =
     (case (v, sn_enum node) of
        (VString text, Some allowed) \<Rightarrow>
          if text \<notin> set allowed then [EnumViolation fragment path allowed] else []
      | _ \<Rightarrow> [])"

definition check_network :: "cval \<Rightarrow> string \<Rightarrow> string \<Rightarrow> validation_error list option" where
  "check_network v path fragment =
     Option.bind (case v of
              VIpNetwork (addr, prefix) \<Rightarrow> Some (is_ipv4 addr \<and> prefix \<le> 32)
            | VString text \<Rightarrow>
                Some (case parse_ip_network text of Some (V4 _, prefix) \<Rightarrow> prefix \<le> 32 | _ \<Rightarrow> False)
            | _ \<Rightarrow> None) (\<lambda>valid.
       Some (if \<not> valid then [InvalidFormat fragment path ''ipv4-cidr''] else []))"

definition index_path :: "string \<Rightarrow> nat \<Rightarrow> string" where
  "index_path path i = path @ ''['' @ show_nat i @ '']''"

function walk_map ::
    "schema_node \<Rightarrow> (string \<times> cval) list \<Rightarrow> string \<Rightarrow> string list \<Rightarrow> string \<Rightarrow> bool \<Rightarrow> validation_error list option"
  and walk_property ::
    "schema_node \<Rightarrow> cval \<Rightarrow> string \<Rightarrow> string \<Rightarrow> bool \<Rightarrow> validation_error list option"
  and walk_node ::
    "schema_node \<Rightarrow> cval \<Rightarrow> string \<Rightarrow> string \<Rightarrow> bool \<Rightarrow> validation_error list option" where
  "walk_map node m prefix ignore_keys fragment writable_only =
     (let closed = (sn_additional_properties node \<noteq> Some True) in
      Option.bind
        (pconcat
          (\<lambda>(key, value).
             if key \<in> set ignore_keys then Some []
             else (case node_property node key of
                     Some prop \<Rightarrow> walk_property prop value (join_path prefix key) fragment writable_only
                   | None \<Rightarrow> Some (if closed then [UnknownField fragment (join_path prefix key)] else [])))
          m)
        (\<lambda>errors. Some (errors @ missing_fields node m prefix ignore_keys fragment)))"
| "walk_property node value path fragment writable_only =
     Option.bind (walk_node node value path fragment writable_only) (\<lambda>errors.
       Some ((if writable_only \<and> \<not> sn_writable node then [ReadOnlyField fragment path] else []) @ errors))"
| "walk_node node value path fragment writable_only =
     Option.bind (expect_type node) (\<lambda>expected.
       let found = value_type value in
       if \<not> type_accepts node expected found then Some [WrongType fragment path expected found]
       else (case expected of
               TInteger \<Rightarrow> check_integer node value path fragment
             | TString \<Rightarrow> Some (check_string node value path fragment)
             | TIpNetwork \<Rightarrow> check_network value path fragment
             | TObject \<Rightarrow>
                 (case value of
                    VMap inner \<Rightarrow> walk_map node inner path [] fragment writable_only
                  | _ \<Rightarrow> Some [])
             | TArray \<Rightarrow>
                 (case (value, sn_items node) of
                    (VList items, Some item_schema) \<Rightarrow>
                      pconcat
                        (\<lambda>(index, item).
                           walk_node item_schema item (index_path path index) fragment writable_only)
                        (enumerate 0 items)
                  | _ \<Rightarrow> Some [])
             | TBoolean \<Rightarrow> Some []
             | TIpAddress \<Rightarrow> Some []))"
  by pat_completeness auto
termination
  by (relation "measure (\<lambda>x. case x of
        Inl (_, m, _) \<Rightarrow> 3 * size_list (size_prod (\<lambda>_. 0) size) m
      | Inr (Inl (_, v, _)) \<Rightarrow> 3 * size v + 1
      | Inr (Inr (_, v, _)) \<Rightarrow> 3 * size v)")
    (auto dest!: size_entry enumerate_in_set size_item)

declare walk_map.simps [simp del] walk_property.simps [simp del] walk_node.simps [simp del]

section \<open>Removal of read-only fields\<close>

lemma node_property_size: "node_property node key = Some prop \<Longrightarrow> size prop < size node"
proof -
  assume "node_property node key = Some prop"
  then obtain ps where ps: "sn_properties node = Some ps" "(key, prop) \<in> set ps"
    by (auto simp: node_property_def bind_eq_Some_conv dest: map_of_SomeD)
  from ps(2) have "size prop < size_list (size_prod (\<lambda>_. 0) size) ps" by (induction ps) auto
  with ps(1) show ?thesis by (cases node) auto
qed

lemma node_items_size: "sn_items node = Some items \<Longrightarrow> size items < size node"
  by (cases node) auto

text \<open>
  The mutated map and the paths pushed onto \<open>removed\<close>.  The loop of \<open>remove_read_only_from_map\<close>
  runs over a snapshot of the keys and changes the map at each of them.
\<close>

function remove_read_only_property ::
    "schema_node \<Rightarrow> fields \<Rightarrow> string \<Rightarrow> string \<Rightarrow> fields \<times> string list"
  and remove_read_only_from_map :: "schema_node \<Rightarrow> fields \<Rightarrow> string \<Rightarrow> fields \<times> string list" where
  "remove_read_only_property node m key prefix =
     (let path = join_path prefix key in
      if \<not> sn_writable node then (im_remove m key, [path])
      else (case im_get m key of
              Some (VMap value) \<Rightarrow>
                (let (value', removed) = remove_read_only_from_map node value path in
                 (im_insert m key (VMap value'), removed))
            | Some (VList values) \<Rightarrow>
                (case sn_items node of
                   Some items \<Rightarrow>
                     (let results =
                        map (\<lambda>(index, value).
                               case value of
                                 VMap entries \<Rightarrow>
                                   (let (entries', removed) =
                                      remove_read_only_from_map items entries (index_path path index) in
                                    (VMap entries', removed))
                               | _ \<Rightarrow> (value, []))
                          (enumerate 0 values) in
                      (im_insert m key (VList (map fst results)), concat (map snd results)))
                 | None \<Rightarrow> (m, []))
            | _ \<Rightarrow> (m, [])))"
| "remove_read_only_from_map node m prefix =
     foldl
       (\<lambda>(m, removed) key.
          case node_property node key of
            Some property \<Rightarrow>
              (let (m', more) = remove_read_only_property property m key prefix in (m', removed @ more))
          | None \<Rightarrow> (m, removed))
       (m, []) (im_keys m)"
  by pat_completeness auto
termination
  by (relation "measure (\<lambda>x. case x of
        Inl (node, _) \<Rightarrow> 2 * size node + 1
      | Inr (node, _) \<Rightarrow> 2 * size node)")
    (auto dest: node_property_size node_items_size)

declare remove_read_only_property.simps [simp del] remove_read_only_from_map.simps [simp del]

end
