(* ===== verification/Validation.thy ===== *)
theory Validation
  imports Schema
begin

text \<open>
  Facts about the schema walk of theory \<open>Schema\<close>.

  \<^item> A node accepted by \<open>validate_schema_node\<close> (\<open>node_ok\<close>) is walked without a panic.
  \<^item> \<open>conforms\<close> says, as an inductive predicate, which values a node allows; the walk reports nothing
    exactly on those (\<open>walk_node_conforms\<close>).
  \<^item> Policy mode reports what query mode reports, plus the read-only fields (\<open>walk_node_modes\<close>).
\<close>

section \<open>Accepted nodes\<close>

definition node_ok :: "schema_node \<Rightarrow> bool" where
  "node_ok node = (validate_schema_node node = Ok ())"

lemma omap_err_Ok_iff: "omap_err f m = Ok x \<longleftrightarrow> m = Ok x"
  by (cases m) auto

lemma validate_properties_ok: "validate_properties ps = Ok () \<longleftrightarrow> (\<forall>(k, p) \<in> set ps. node_ok p)"
proof (induction ps)
  case (Cons kp ps)
  then show ?case by (cases kp) (auto simp: outcome_inversions omap_err_Ok_iff node_ok_def)
qed simp

lemma node_ok_iff:
  "node_ok node \<longleftrightarrow>
     (\<exists>t. semantic_type node = Ok t)
     \<and> (\<forall>ps. sn_properties node = Some ps \<longrightarrow> (\<forall>(k, p) \<in> set ps. node_ok p))
     \<and> (\<forall>it. sn_items node = Some it \<longrightarrow> node_ok it)"
  by (cases node)
    (auto simp: node_ok_def [of "SchemaNode _ _ _ _ _ _ _ _ _ _ _"] semantic_type_def outcome_inversions
      omap_err_Ok_iff validate_properties_ok node_ok_def [symmetric] split: option.splits)

lemma node_ok_property: "node_ok node \<Longrightarrow> node_property node k = Some p \<Longrightarrow> node_ok p"
  by (auto simp: node_ok_iff [of node] node_property_def bind_eq_Some_conv dest!: map_of_SomeD)

lemma node_ok_items: "node_ok node \<Longrightarrow> sn_items node = Some it \<Longrightarrow> node_ok it"
  by (simp add: node_ok_iff [of node])

lemma node_ok_expect: "node_ok node \<Longrightarrow> \<exists>t. semantic_type node = Ok t \<and> expect_type node = Some t"
  by (auto simp: node_ok_iff [of node] expect_type_def)

lemma node_ok_writable_object: "node_ok writable_object"
  by (simp add: node_ok_def writable_object_def)

section \<open>The walk never panics\<close>

lemma check_integer_returns: "value_type v = TInteger \<Longrightarrow> \<exists>es. check_integer n v p f = Some es"
  by (cases v) (auto simp: check_integer_def)

lemma check_network_returns:
  "type_accepts n TIpNetwork (value_type v) \<Longrightarrow> \<exists>es. check_network v p f = Some es"
  by (cases v) (auto simp: check_network_def type_accepts_def)

lemma type_accepts_other: "t \<noteq> TIpNetwork \<Longrightarrow> type_accepts n t u \<longleftrightarrow> u = t"
  by (auto simp: type_accepts_def)

lemma walk_returns:
  "node_ok node \<Longrightarrow> \<exists>es. (walk_map node m prefix ign frag wo) = Some es"
  "node_ok node' \<Longrightarrow> \<exists>es. (walk_property node' v path frag' wo') = Some es"
  "node_ok node'' \<Longrightarrow> \<exists>es. (walk_node node'' v' path' frag'' wo'') = Some es"
proof (induction node m prefix ign frag wo and node' v path frag' wo' and node'' v' path' frag'' wo''
    rule: walk_map_walk_property_walk_node.induct)
  case (1 node m prefix ign frag wo)
  have "\<exists>es. pconcat
          (\<lambda>(key, value).
             if key \<in> set ign then Some []
             else (case node_property node key of
                     Some prop \<Rightarrow> walk_property prop value (join_path prefix key) frag wo
                   | None \<Rightarrow> Some (if sn_additional_properties node \<noteq> Some True
                        then [UnknownField frag (join_path prefix key)] else []))) m = (Some es)"
    using "1.prems" by (intro pconcat_returns) (auto split: option.split intro!: "1.IH" dest: node_ok_property)
  then show ?case by (auto simp: walk_map.simps [of node] Let_def)
next
  case (2 node v path frag wo)
  then show ?case by (auto simp: walk_property.simps)
next
  case (3 node v path frag wo)
  obtain t where t: "semantic_type node = Ok t" "expect_type node = Some t"
    using node_ok_expect [OF "3.prems"] by (auto simp: expect_type_def)
  show ?case
  proof (cases "type_accepts node t (value_type v)")
    case True
    note w = walk_node.simps [of node v path frag wo] t(2) True
    show ?thesis
    proof (cases t)
      case TObject
      then obtain inner where "v = VMap inner" using True by (cases v) (auto simp: type_accepts_def)
      with TObject w show ?thesis using "3.IH"(1) "3.prems" t by (auto simp: expect_type_def)
    next
      case TArray
      then obtain items where v: "v = VList items" using True by (cases v) (auto simp: type_accepts_def)
      show ?thesis
      proof (cases "sn_items node")
        case (Some it)
        then have "\<exists>es. pconcat (\<lambda>(index, item). walk_node it item (index_path path index) frag wo)
            (enumerate 0 items) = (Some es)"
          using "3.IH"(2) "3.prems" TArray True v t node_ok_items [OF "3.prems"]
          by (intro pconcat_returns) (auto simp: expect_type_def)
        with Some TArray v w show ?thesis by simp
      qed (use TArray v w in simp)
    next
      case TInteger
      with True have "value_type v = TInteger" by (simp add: type_accepts_other)
      with TInteger w show ?thesis using check_integer_returns by simp
    next
      case TIpNetwork
      with w True show ?thesis using check_network_returns by simp
    qed (use w in simp_all)
  qed (use t walk_node.simps [of node v path frag wo] in simp)
qed

lemma walk_Ok:
  assumes "node_ok node"
  obtains es where "walk_node node v path frag wo = Some es"
  using walk_returns(3) [OF assms] by blast

section \<open>What the two modes report\<close>

lemma filter_missing: "filter (\<lambda>e. \<not> is_read_only_error e) (missing_fields n m p i f) = missing_fields n m p i f"
  by (auto simp: missing_fields_def filter_map o_def)

lemma check_filter:
  "map_option (filter (\<lambda>e. \<not> is_read_only_error e)) (check_integer n v p f) = check_integer n v p f"
  "filter (\<lambda>e. \<not> is_read_only_error e) (check_string n v p f) = check_string n v p f"
  "map_option (filter (\<lambda>e. \<not> is_read_only_error e)) (check_network v p f) = check_network v p f"
  by (auto simp: check_integer_def check_string_def check_network_def
      split: option.splits if_splits cval.splits bind_splits)

lemmas walk_induct = walk_map_walk_property_walk_node.induct

abbreviation drop_read_only :: "validation_error list option \<Rightarrow> validation_error list option" where
  "drop_read_only \<equiv> map_option (filter (\<lambda>e. \<not> is_read_only_error e))"

lemma drop_read_only_bind:
  "drop_read_only (Option.bind m (\<lambda>es. Some (es @ fs)))
     = Option.bind (drop_read_only m) (\<lambda>es. Some (es @ filter (\<lambda>e. \<not> is_read_only_error e) fs))"
  by (cases m) auto

lemma walk_modes:
  "wo \<Longrightarrow> walk_map node m prefix ign frag False = drop_read_only (walk_map node m prefix ign frag wo)"
  "wo' \<Longrightarrow> walk_property node' v path frag' False = drop_read_only (walk_property node' v path frag' wo')"
  "wo'' \<Longrightarrow> walk_node node'' v' path' frag'' False = drop_read_only (walk_node node'' v' path' frag'' wo'')"
proof (induction node m prefix ign frag wo and node' v path frag' wo' and node'' v' path' frag'' wo''
    rule: walk_induct)
  case (1 node m prefix ign frag wo)
  let ?f = "\<lambda>wo (key, value).
     if key \<in> set ign then Some []
     else (case node_property node key of
             Some prop \<Rightarrow> walk_property prop value (join_path prefix key) frag wo
           | None \<Rightarrow> Some (if sn_additional_properties node \<noteq> Some True
                then [UnknownField frag (join_path prefix key)] else []))"
  have "pconcat (?f False) m = drop_read_only (pconcat (?f wo) m)"
    by (rule pconcat_filter) (auto split: option.split simp: "1.IH" [OF refl _ refl] "1.prems")
  then show ?case
    by (simp add: walk_map.simps [of node] drop_read_only_bind filter_missing)
next
  case (2 node v path frag wo)
  then show ?case
    by (cases "walk_node node v path frag wo") (auto simp: walk_property.simps [of node])
next
  case (3 node v path frag wo)
  show ?case
  proof (cases "expect_type node")
    case (Some t)
    show ?thesis
    proof (cases "type_accepts node t (value_type v)")
      case True
      note w = walk_node.simps [of node v path frag] Some True
      show ?thesis
      proof (cases t)
        case TObject
        then show ?thesis using w "3.IH"(1) [OF Some refl] "3.prems" by (cases v) simp_all
      next
        case TArray
        have "pconcat (\<lambda>(index, item). walk_node it item (index_path path index) frag False) (enumerate 0 items)
            = drop_read_only (pconcat (\<lambda>(index, item). walk_node it item (index_path path index) frag wo) (enumerate 0 items))"
          if "v = VList items" "sn_items node = Some it" for items it
          using "3.IH"(2) [OF Some refl] True that "3.prems" TArray by (intro pconcat_filter) auto
        then show ?thesis using w TArray by (cases v; cases "sn_items node") simp_all
      qed (use w in \<open>simp_all add: check_filter\<close>)
    qed (use walk_node.simps [of node v path frag] Some in simp)
  qed (simp add: walk_node.simps [of node])
qed

section \<open>The values a node allows\<close>

definition in_range :: "schema_node \<Rightarrow> int \<Rightarrow> bool" where
  "in_range n i =
     ((case sn_minimum n of Some mn \<Rightarrow> mn \<le> i | None \<Rightarrow> True)
      \<and> (case sn_maximum n of Some mx \<Rightarrow> i \<le> mx | None \<Rightarrow> True))"

definition required_keys :: "schema_node \<Rightarrow> string list" where
  "required_keys n = (case sn_required n of Some rs \<Rightarrow> rs | None \<Rightarrow> [])"

definition is_open :: "schema_node \<Rightarrow> bool" where
  "is_open n = (sn_additional_properties n = Some True)"

inductive conforms :: "bool \<Rightarrow> schema_node \<Rightarrow> cval \<Rightarrow> bool" for wo where
  str: "\<lbrakk>semantic_type n = Ok TString; \<forall>allowed. sn_enum n = Some allowed \<longrightarrow> s \<in> set allowed\<rbrakk>
    \<Longrightarrow> conforms wo n (VString s)"
| unsigned: "\<lbrakk>semantic_type n = Ok TInteger; in_range n (uint u)\<rbrakk> \<Longrightarrow> conforms wo n (VU64 u)"
| signed: "\<lbrakk>semantic_type n = Ok TInteger; in_range n (sint i)\<rbrakk> \<Longrightarrow> conforms wo n (VI64 i)"
| boolean: "semantic_type n = Ok TBoolean \<Longrightarrow> conforms wo n (VBool b)"
| addr: "semantic_type n = Ok TIpAddress \<Longrightarrow> conforms wo n (VIpAddr a)"
| network: "\<lbrakk>semantic_type n = Ok TIpNetwork; p \<le> 32\<rbrakk> \<Longrightarrow> conforms wo n (VIpNetwork (V4 a, p))"
| network_text:
    "\<lbrakk>semantic_type n = Ok TIpNetwork; sn_format n = Some Ipv4Cidr; parse_ip_network s = Some (V4 a, p)\<rbrakk>
     \<Longrightarrow> conforms wo n (VString s)"
| sequence:
    "\<lbrakk>semantic_type n = Ok TArray; \<And>it v. sn_items n = Some it \<Longrightarrow> v \<in> set vs \<Longrightarrow> conforms wo it v\<rbrakk>
     \<Longrightarrow> conforms wo n (VList vs)"
| object:
    "\<lbrakk>semantic_type n = Ok TObject;
      \<And>k v p. (k, v) \<in> set m \<Longrightarrow> node_property n k = Some p \<Longrightarrow> (wo \<longrightarrow> sn_writable p) \<and> conforms wo p v;
      \<And>k v. (k, v) \<in> set m \<Longrightarrow> node_property n k = None \<Longrightarrow> is_open n;
      \<And>r. r \<in> set (required_keys n) \<Longrightarrow> im_contains m r\<rbrakk>
     \<Longrightarrow> conforms wo n (VMap m)"

inductive_cases conforms_cases:
  "conforms wo n (VString s)" "conforms wo n (VU64 u)" "conforms wo n (VI64 i)"
  "conforms wo n (VBool b)" "conforms wo n (VIpAddr a)" "conforms wo n (VIpNetwork an)"
  "conforms wo n (VList vs)" "conforms wo n (VMap m)"

inductive_simps conforms_list: "conforms wo n (VList vs)"
inductive_simps conforms_map: "conforms wo n (VMap m)"
inductive_simps conforms_scalar:
  "conforms wo n (VString s)" "conforms wo n (VU64 u)" "conforms wo n (VI64 i)"
  "conforms wo n (VBool b)" "conforms wo n (VIpAddr a)" "conforms wo n (VIpNetwork an)"

text \<open>The same for the entries of a map, some of whose keys belong to other fragments.\<close>

definition entries_conform :: "bool \<Rightarrow> schema_node \<Rightarrow> fields \<Rightarrow> string list \<Rightarrow> bool" where
  "entries_conform wo n m ign \<longleftrightarrow>
     (\<forall>(k, v) \<in> set m. k \<notin> set ign \<longrightarrow>
        (case node_property n k of
           Some p \<Rightarrow> (wo \<longrightarrow> sn_writable p) \<and> conforms wo p v
         | None \<Rightarrow> is_open n))
     \<and> (\<forall>r \<in> set (required_keys n). im_contains m r \<or> r \<in> set ign)"

lemma conforms_map_entries:
  "conforms wo n (VMap m) \<longleftrightarrow> semantic_type n = Ok TObject \<and> entries_conform wo n m []"
  by (auto simp: conforms_map entries_conform_def split: option.splits)

lemma missing_Nil:
  "missing_fields n m prefix ign frag = [] \<longleftrightarrow> (\<forall>r \<in> set (required_keys n). im_contains m r \<or> r \<in> set ign)"
  by (auto simp: missing_fields_def required_keys_def filter_empty_conv split: option.splits)

lemma expect_type_iff: "expect_type n = Some t \<longleftrightarrow> semantic_type n = Ok t"
  by (auto simp: expect_type_def split: outcome.splits)

lemma semantic_network: "semantic_type n = Ok t \<Longrightarrow> sn_format n = Some Ipv4Cidr \<Longrightarrow> t = TIpNetwork"
  by (cases "sn_type n"; cases "sn_type n = Some TString") (auto simp: semantic_type_def elim: semantic_type_of.elims)

lemma ball_enumerate: "(\<forall>(i, x) \<in> set (enumerate n xs). P x) \<longleftrightarrow> (\<forall>x \<in> set xs. P x)"
proof -
  have "set xs = snd ` set (enumerate n xs)" by (metis map_snd_enumerate set_map)
  then show ?thesis by force
qed

lemma check_integer_Nil:
  "check_integer n (VU64 u) p f = Some [] \<longleftrightarrow> in_range n (uint u)"
  "check_integer n (VI64 i) p f = Some [] \<longleftrightarrow> in_range n (sint i)"
  by (auto simp: check_integer_def in_range_def split: option.splits)

lemma check_network_conforms:
  assumes "semantic_type n = Ok TIpNetwork" "type_accepts n TIpNetwork (value_type v)"
  shows "check_network v p f = Some [] \<longleftrightarrow> conforms wo n v"
proof (cases v)
  case (VString s)
  then have fmt: "sn_format n = Some Ipv4Cidr" using assms by (simp add: type_accepts_def)
  consider "parse_ip_network s = None" | a q where "parse_ip_network s = Some (V4 a, q)"
    | a q where "parse_ip_network s = Some (V6 a, q)"
    by (metis ip_addr.exhaust option.exhaust surj_pair)
  then show ?thesis
  proof cases
    case (2 a q)
    with parse_ip_network_prefix [OF 2] show ?thesis
      using assms(1) fmt VString by (simp add: check_network_def conforms_scalar max_prefix_def)
  qed (use assms(1) fmt VString in \<open>simp_all add: check_network_def conforms_scalar\<close>)
next
  case (VIpNetwork an)
  obtain a q where an: "an = (a, q)" by (cases an)
  show ?thesis
    by (cases a) (use assms(1) VIpNetwork an in \<open>simp_all add: check_network_def conforms_scalar\<close>)
qed (use assms in \<open>simp_all add: type_accepts_def\<close>)

lemma walk_conforms:
  "node_ok node \<Longrightarrow>
     walk_map node m prefix ign frag wo = Some [] \<longleftrightarrow> entries_conform wo node m ign"
  "node_ok node' \<Longrightarrow>
     walk_property node' v path frag' wo' = Some [] \<longleftrightarrow> (wo' \<longrightarrow> sn_writable node') \<and> conforms wo' node' v"
  "node_ok node'' \<Longrightarrow> walk_node node'' v' path' frag'' wo'' = Some [] \<longleftrightarrow> conforms wo'' node'' v'"
proof (induction node m prefix ign frag wo and node' v path frag' wo' and node'' v' path' frag'' wo''
    rule: walk_induct)
  case (1 node m prefix ign frag wo)
  let ?f = "\<lambda>(key, value).
     if key \<in> set ign then Some []
     else (case node_property node key of
             Some prop \<Rightarrow> walk_property prop value (join_path prefix key) frag wo
           | None \<Rightarrow> Some (if sn_additional_properties node \<noteq> Some True
                then [UnknownField frag (join_path prefix key)] else []))"
  have "?f (k, v) = Some [] \<longleftrightarrow> k \<notin> set ign \<longrightarrow>
        (case node_property node k of
           Some p \<Rightarrow> (wo \<longrightarrow> sn_writable p) \<and> conforms wo p v
         | None \<Rightarrow> is_open node)" if "(k, v) \<in> set m" for k v
    using "1.IH" [OF refl that refl] "1.prems" node_ok_property
    by (auto split: option.split simp: is_open_def)
  then have "pconcat ?f m = Some [] \<longleftrightarrow>
     (\<forall>(k, v) \<in> set m. k \<notin> set ign \<longrightarrow>
        (case node_property node k of
           Some p \<Rightarrow> (wo \<longrightarrow> sn_writable p) \<and> conforms wo p v
         | None \<Rightarrow> is_open node))"
    unfolding pconcat_Nil_iff by (intro ball_cong refl) auto
  then show ?case
    by (auto simp: walk_map.simps [of node] entries_conform_def missing_Nil bind_eq_Some_conv)
next
  case (2 node v path frag wo)
  then show ?case by (auto simp: walk_property.simps bind_eq_Some_conv)
next
  case (3 node v path frag wo)
  from node_ok_expect [OF "3.prems"] obtain t where
    t: "semantic_type node = Ok t" "expect_type node = Some t" by blast
  note w = walk_node.simps [of node v path frag wo] t
  show ?case
  proof (cases "type_accepts node t (value_type v)")
    case True
    show ?thesis
    proof (cases t)
      case TObject
      with True obtain inner where v: "v = VMap inner" by (cases v) (auto simp: type_accepts_def)
      with TObject w True "3.IH"(1) [OF t(2) refl] "3.prems" show ?thesis
        by (simp add: conforms_map_entries)
    next
      case TArray
      with True obtain items where v: "v = VList items" by (cases v) (auto simp: type_accepts_def)
      show ?thesis
      proof (cases "sn_items node")
        case None
        with TArray w True v show ?thesis by (auto simp: conforms_list)
      next
        case (Some it)
        have "(walk_node it x (index_path path i) frag wo = Some []) = conforms wo it x"
          if "(i, x) \<in> set (enumerate 0 items)" for i x
          using "3.IH"(2) [OF t(2) refl] TArray True v Some that node_ok_items [OF "3.prems" Some] by auto
        then have "(pconcat (\<lambda>(index, item). walk_node it item (index_path path index) frag wo) (enumerate 0 items)
             = Some []) \<longleftrightarrow> (\<forall>(i, x) \<in> set (enumerate 0 items). conforms wo it x)"
          unfolding pconcat_Nil_iff by (intro ball_cong refl) auto
        also have "\<dots> \<longleftrightarrow> (\<forall>x \<in> set items. conforms wo it x)"
          by (rule ball_enumerate)
        finally show ?thesis using TArray w True v Some by (auto simp: conforms_list)
      qed
    next
      case TInteger
      then show ?thesis using w True
        by (cases v) (auto simp: type_accepts_def check_integer_Nil conforms_scalar)
    next
      case TString
      then show ?thesis using w True
        by (cases v) (auto simp: type_accepts_def check_string_def conforms_scalar split: option.split)
    next
      case TIpNetwork
      then show ?thesis using w True by (simp add: check_network_conforms)
    next
      case TBoolean
      then show ?thesis using w True by (cases v) (auto simp: type_accepts_def conforms_scalar)
    next
      case TIpAddress
      then show ?thesis using w True by (cases v) (auto simp: type_accepts_def conforms_scalar)
    qed
  next
    case False
    have "\<not> conforms wo node v"
      using False t by (auto elim!: conforms.cases simp: type_accepts_def)
    with False w show ?thesis by simp
  qed
qed

end
