(* ===== verification/Stripping.thy ===== *)
theory Stripping
  imports Validation
begin

text \<open>
  What \<open>remove_read_only_from_map\<close> of theory \<open>Schema\<close> does, entry by entry, and why its result is
  policy input: a value that conforms in query mode conforms in policy mode once it is stripped.

  \<open>foldl_keys\<close> is the shape of every loop of the crates that runs over a snapshot of a map's keys
  and edits the map at each key; it is used again for \<open>remove_read_only_fields\<close> and for the provider
  extraction of \<open>Policy::produce\<close>.
\<close>

section \<open>Loops over a snapshot of the keys\<close>

lemma im_insert_middle: "k \<notin> set (im_keys pre) \<Longrightarrow> im_insert (pre @ (k, v) # ys) k w = pre @ (k, w) # ys"
  by (induction pre) auto

lemma im_remove_middle:
  "k \<notin> set (im_keys pre) \<Longrightarrow> k \<notin> set (im_keys ys) \<Longrightarrow> im_remove (pre @ (k, v) # ys) k = pre @ ys"
  by (induction pre) (auto simp: delete_simps)

lemma im_get_middle: "k \<notin> set (im_keys pre) \<Longrightarrow> im_get (pre @ (k, v) # ys) k = Some v"
  by (induction pre) auto

lemma foldl_keys:
  assumes step: "\<And>pre k v ys acc. \<lbrakk>(k, v) \<in> set m; k \<notin> set (im_keys pre); k \<notin> set (im_keys ys)\<rbrakk>
      \<Longrightarrow> f (pre @ (k, v) # ys, acc) k = (pre @ g k v @ ys, acc @ h k v)"
    and keys: "\<And>k v. im_keys (g k v) \<in> {[], [k]}"
    and "im_wf m"
  shows "foldl f (m, []) (im_keys m) = (concat (map (\<lambda>(k, v). g k v) m), concat (map (\<lambda>(k, v). h k v) m))"
proof -
  have "foldl f (pre @ xs, acc) (im_keys xs) =
      (pre @ concat (map (\<lambda>(k, v). g k v) xs), acc @ concat (map (\<lambda>(k, v). h k v) xs))"
    if "set xs \<subseteq> set m" "im_wf xs" "set (im_keys pre) \<inter> set (im_keys xs) = {}" for pre xs acc
    using that
  proof (induction xs arbitrary: pre acc)
    case (Cons e xs)
    obtain k v where e: "e = (k, v)" by (cases e)
    have s: "f (pre @ e # xs, acc) k = ((pre @ g k v) @ xs, acc @ h k v)"
      using step [of k v pre xs acc] Cons.prems e by auto
    have "set (im_keys (g k v)) \<subseteq> {k}" using keys [of k v] by auto
    with Cons.prems e have "set (im_keys (pre @ g k v)) \<inter> set (im_keys xs) = {}" by auto
    with Cons.IH [of "pre @ g k v" "acc @ h k v"] Cons.prems s e show ?case by simp
  qed simp
  from this [of m "[]" "[]"] assms(3) show ?thesis by simp
qed

section \<open>Entry by entry\<close>

text \<open>The value that stays at a writable property, and the paths dropped below it.\<close>

definition strip_item :: "schema_node \<Rightarrow> string \<Rightarrow> nat \<times> cval \<Rightarrow> cval \<times> string list" where
  "strip_item items path =
     (\<lambda>(index, value).
        case value of
          VMap entries \<Rightarrow>
            (let (entries', removed) = remove_read_only_from_map items entries (index_path path index) in
             (VMap entries', removed))
        | _ \<Rightarrow> (value, []))"

definition strip_value :: "schema_node \<Rightarrow> cval \<Rightarrow> string \<Rightarrow> cval \<times> string list" where
  "strip_value node v path =
     (case v of
        VMap entries \<Rightarrow>
          (let (entries', removed) = remove_read_only_from_map node entries path in (VMap entries', removed))
      | VList values \<Rightarrow>
          (case sn_items node of
             Some items \<Rightarrow>
               (let results = map (strip_item items path) (enumerate 0 values) in
                (VList (map fst results), concat (map snd results)))
           | None \<Rightarrow> (v, []))
      | _ \<Rightarrow> (v, []))"

lemma remove_property_eq:
  assumes "im_get m k = Some v"
  shows "remove_read_only_property node m k prefix =
     (if sn_writable node
      then (im_insert m k (fst (strip_value node v (join_path prefix k))),
            snd (strip_value node v (join_path prefix k)))
      else (im_remove m k, [join_path prefix k]))"
  using assms update_triv [OF assms]
  by (cases v)
    (simp_all add: remove_read_only_property.simps strip_value_def strip_item_def Let_def
      split: option.split prod.split)

definition strip_entry :: "schema_node \<Rightarrow> string \<Rightarrow> string \<Rightarrow> cval \<Rightarrow> fields" where
  "strip_entry node prefix k v =
     (case node_property node k of
        None \<Rightarrow> [(k, v)]
      | Some p \<Rightarrow> if sn_writable p then [(k, fst (strip_value p v (join_path prefix k)))] else [])"

definition strip_paths :: "schema_node \<Rightarrow> string \<Rightarrow> string \<Rightarrow> cval \<Rightarrow> string list" where
  "strip_paths node prefix k v =
     (case node_property node k of
        None \<Rightarrow> []
      | Some p \<Rightarrow>
          if sn_writable p then snd (strip_value p v (join_path prefix k)) else [join_path prefix k])"

lemma strip_entry_keys: "im_keys (strip_entry node prefix k v) \<in> {[], [k]}"
  by (auto simp: strip_entry_def split: option.split)

lemma remove_property_middle:
  assumes "k \<notin> set (im_keys pre)" "k \<notin> set (im_keys ys)"
  shows "remove_read_only_property p (pre @ (k, v) # ys) k prefix =
     (if sn_writable p
      then (pre @ (k, fst (strip_value p v (join_path prefix k))) # ys,
            snd (strip_value p v (join_path prefix k)))
      else (pre @ ys, [join_path prefix k]))"
  unfolding remove_property_eq [OF im_get_middle [OF assms(1)]]
  by (simp only: im_insert_middle [OF assms(1)] im_remove_middle [OF assms])

theorem remove_from_map_eq:
  assumes "im_wf m"
  shows "remove_read_only_from_map node m prefix =
     (concat (map (\<lambda>(k, v). strip_entry node prefix k v) m),
      concat (map (\<lambda>(k, v). strip_paths node prefix k v) m))"
  unfolding remove_read_only_from_map.simps [of node]
  by (rule foldl_keys [OF _ strip_entry_keys assms])
    (auto simp: strip_entry_def strip_paths_def remove_property_middle split: option.split)

section \<open>Stripped values are policy input\<close>

fun value_wf :: "cval \<Rightarrow> bool" where
  "value_wf (VList vs) = list_all value_wf vs"
| "value_wf (VMap m) = (im_wf m \<and> list_all (\<lambda>(k, v). value_wf v) m)"
| "value_wf _ = True"

text \<open>
  The removal leaves required keys and array elements alone when the required properties are
  writable and arrays are not nested directly.
\<close>

fun strip_safe :: "schema_node \<Rightarrow> bool" where
  "strip_safe (SchemaNode ty fmt wr mn mx en ps rq it ap im) =
     (list_all (\<lambda>r. case (case ps of None \<Rightarrow> None | Some ps \<Rightarrow> im_get ps r) of
                      Some p \<Rightarrow> sn_writable p | None \<Rightarrow> True)
        (case rq of None \<Rightarrow> [] | Some rs \<Rightarrow> rs)
      \<and> (case ps of None \<Rightarrow> True | Some ps \<Rightarrow> list_all (\<lambda>(k, p). strip_safe p) ps)
      \<and> (case it of None \<Rightarrow> True | Some items \<Rightarrow> sn_type items \<noteq> Some TArray \<and> strip_safe items))"

text \<open>The two conditions apart.\<close>

fun requires_settable :: "schema_node \<Rightarrow> bool" where
  "requires_settable (SchemaNode ty fmt wr mn mx en ps rq it ap im) =
     (list_all (\<lambda>r. case (case ps of None \<Rightarrow> None | Some ps \<Rightarrow> im_get ps r) of
                      Some p \<Rightarrow> sn_writable p | None \<Rightarrow> True)
        (case rq of None \<Rightarrow> [] | Some rs \<Rightarrow> rs)
      \<and> (case ps of None \<Rightarrow> True | Some ps \<Rightarrow> list_all (\<lambda>(k, p). requires_settable p) ps)
      \<and> (case it of None \<Rightarrow> True | Some items \<Rightarrow> requires_settable items))"

fun flat_arrays :: "schema_node \<Rightarrow> bool" where
  "flat_arrays (SchemaNode ty fmt wr mn mx en ps rq it ap im) =
     ((case ps of None \<Rightarrow> True | Some ps \<Rightarrow> list_all (\<lambda>(k, p). flat_arrays p) ps)
      \<and> (case it of None \<Rightarrow> True | Some items \<Rightarrow> sn_type items \<noteq> Some TArray \<and> flat_arrays items))"

lemma strip_safe_iff: "strip_safe n \<longleftrightarrow> requires_settable n \<and> flat_arrays n"
proof (induction n rule: strip_safe.induct)
  case (1 ty fmt wr mn mx en ps rq it ap im)
  have "(case ps of None \<Rightarrow> True | Some ps \<Rightarrow> list_all (\<lambda>(k, p). strip_safe p) ps) \<longleftrightarrow>
      (case ps of None \<Rightarrow> True | Some ps \<Rightarrow> list_all (\<lambda>(k, p). requires_settable p) ps)
      \<and> (case ps of None \<Rightarrow> True | Some ps \<Rightarrow> list_all (\<lambda>(k, p). flat_arrays p) ps)"
    using "1.IH"(1) by (cases ps) (fastforce simp: list_all_iff)+
  moreover have "(case it of None \<Rightarrow> True | Some items \<Rightarrow> sn_type items \<noteq> Some TArray \<and> strip_safe items) \<longleftrightarrow>
      (case it of None \<Rightarrow> True | Some items \<Rightarrow> requires_settable items)
      \<and> (case it of None \<Rightarrow> True | Some items \<Rightarrow> sn_type items \<noteq> Some TArray \<and> flat_arrays items)"
    using "1.IH"(2) by (cases it) auto
  ultimately show ?case by simp blast
qed

lemma strip_safe_required:
  "strip_safe n \<Longrightarrow> r \<in> set (required_keys n) \<Longrightarrow> node_property n r = Some p \<Longrightarrow> sn_writable p"
  by (cases n) (fastforce simp: list_all_iff required_keys_def node_property_def split: option.splits)

lemma strip_safe_property: "strip_safe n \<Longrightarrow> node_property n k = Some p \<Longrightarrow> strip_safe p"
  by (cases n) (auto simp: list_all_iff node_property_def bind_eq_Some_conv dest!: map_of_SomeD)

lemma strip_safe_items: "strip_safe n \<Longrightarrow> sn_items n = Some it \<Longrightarrow> sn_type it \<noteq> Some TArray \<and> strip_safe it"
  by (cases n) auto

lemma semantic_array: "semantic_type n = Ok TArray \<Longrightarrow> sn_type n = Some TArray"
  by (cases "sn_type n"; cases "the (sn_type n)"; cases "sn_format n"; cases "the (sn_format n)")
    (auto simp: semantic_type_def)

lemma strip_map_entries:
  assumes wf: "im_wf m"
    and conf: "entries_conform False n m ign"
    and safe: "strip_safe n"
    and sub: "\<And>k v p path. \<lbrakk>(k, v) \<in> set m; k \<notin> set ign; node_property n k = Some p\<rbrakk>
        \<Longrightarrow> conforms True p (fst (strip_value p v path))"
    and ign: "\<And>k v. \<lbrakk>(k, v) \<in> set m; k \<in> set ign\<rbrakk> \<Longrightarrow> node_property n k = None"
  shows "entries_conform True n (fst (remove_read_only_from_map n m prefix)) ign"
proof -
  let ?m = "concat (map (\<lambda>(k, v). strip_entry n prefix k v) m)"
  have entry: "\<exists>v. (k, v) \<in> set m \<and> (k, v') \<in> set (strip_entry n prefix k v)" if "(k, v') \<in> set ?m" for k v'
  proof -
    from that obtain j v where v: "(j, v) \<in> set m" "(k, v') \<in> set (strip_entry n prefix j v)" by auto
    then have "k \<in> set (im_keys (strip_entry n prefix j v))" by force
    with strip_entry_keys [of n prefix j v] have "j = k" by auto
    with v show ?thesis by blast
  qed
  have A: "case node_property n k of
           Some p \<Rightarrow> (True \<longrightarrow> sn_writable p) \<and> conforms True p v'
         | None \<Rightarrow> is_open n" if m: "(k, v') \<in> set ?m" and k: "k \<notin> set ign" for k v'
  proof -
    obtain v where v: "(k, v) \<in> set m" "(k, v') \<in> set (strip_entry n prefix k v)" using entry [OF m] by blast
    show ?thesis
    proof (cases "node_property n k")
      case None
      with v k conf show ?thesis by (fastforce simp: entries_conform_def)
    next
      case (Some p)
      with v sub [OF v(1) k Some] show ?thesis by (auto simp: strip_entry_def split: if_splits)
    qed
  qed
  have B: "im_contains ?m r" if r: "r \<in> set (required_keys n)" "im_contains m r" for r
  proof -
    from r(2) obtain v where v: "(r, v) \<in> set m" by (auto simp: im_contains_iff)
    have "strip_entry n prefix r v \<noteq> []"
      using strip_safe_required [OF safe r(1)] by (auto simp: strip_entry_def split: option.split)
    with strip_entry_keys [of n prefix r v] have "r \<in> fst ` set (strip_entry n prefix r v)" by auto
    with v show ?thesis by (force simp: im_contains_iff)
  qed
  show ?thesis
    unfolding remove_from_map_eq [OF wf] fst_conv entries_conform_def
  proof (intro conjI ballI)
    fix e
    assume "e \<in> set ?m"
    with A show "case e of (k, v) \<Rightarrow> k \<notin> set ign \<longrightarrow>
        (case node_property n k of
           Some p \<Rightarrow> (True \<longrightarrow> sn_writable p) \<and> conforms True p v
         | None \<Rightarrow> is_open n)" by (cases e) blast
  qed (use B conf in \<open>auto simp: entries_conform_def\<close>)
qed

theorem strip_conforms:
  "\<lbrakk>conforms False n v; strip_safe n; value_wf v\<rbrakk> \<Longrightarrow> conforms True n (fst (strip_value n v path))"
proof (induction arbitrary: path rule: conforms.induct)
  case (sequence n vs)
  show ?case
  proof (cases "sn_items n")
    case None
    with sequence.hyps show ?thesis by (auto simp: strip_value_def conforms_list)
  next
    case (Some it)
    have "conforms True it (fst (strip_item it path (i, v)))" if "v \<in> set vs" for i v
    proof -
      have c: "conforms False it v" and IH: "\<And>path. conforms True it (fst (strip_value it v path))"
        using sequence.hyps sequence.IH [OF Some that] Some sequence.prems strip_safe_items [OF sequence.prems(1) Some] that
        by (auto simp: list_all_iff)
      show ?thesis
      proof (cases v)
        case (VList xs)
        with c semantic_array strip_safe_items [OF sequence.prems(1) Some] show ?thesis
          by (auto simp: conforms_list)
      qed (use IH in \<open>simp_all add: strip_item_def strip_value_def\<close>)
    qed
    then have "conforms True it w"
      if "w \<in> set (map fst (map (strip_item it path) (enumerate 0 vs)))" for w
      using that by (auto dest!: enumerate_in_set)
    then show ?thesis using Some sequence.hyps by (simp add: strip_value_def conforms_list Let_def)
  qed
next
  case (object n m)
  have "entries_conform True n (fst (remove_read_only_from_map n m path)) []"
  proof (rule strip_map_entries)
    show "entries_conform False n m []"
      using object.IH object.hyps by (auto simp: entries_conform_def split: option.split)
    show "conforms True p (fst (strip_value p v path))"
      if "(k, v) \<in> set m" "k \<notin> set []" "node_property n k = Some p" for k v p path
      using object.IH [OF that(1,3)] strip_safe_property [OF object.prems(1) that(3)] object.prems(2) that(1)
      by (auto simp: list_all_iff)
  qed (use object.prems in auto)
  then show ?case using object.hyps(1)
    by (auto simp: strip_value_def conforms_map_entries split: prod.split)
qed (auto simp: strip_value_def intro: conforms.intros)

end
