(* ===== verification/SchemaReg.thy ===== *)
theory SchemaReg
  imports Stripping
begin

text \<open>
  \<open>crates/netfyr-state/src/schema.rs\<close>, the \<open>SchemaRegistry\<close>: the embedded fragments, their
  composition with \<open>add_schema_node\<close>, the lookups and the validation of a whole state.

  \<open>serde_json::from_str\<close> is outside this repository: \<open>add_schema_node\<close> takes its result as an
  argument, and the three documents under \<open>schemas/\<close> are written out as the nodes they deserialise to.
\<close>

section \<open>The embedded documents\<close>

definition scalar_node :: "field_type \<Rightarrow> bool \<Rightarrow> schema_node" where
  "scalar_node ty wr = SchemaNode (Some ty) None wr None None None None None None None None"

definition base_json :: schema_node where
  "base_json = SchemaNode (Some TObject) None False None None None
     (Some
       [(''type'', scalar_node TString False),
        (''name'', scalar_node TString False),
        (''mac'', scalar_node TString False),
        (''carrier'', scalar_node TBoolean False),
        (''driver'', scalar_node TString False),
        (''enabled'', scalar_node TBoolean True),
        (''mtu'', SchemaNode (Some TInteger) None True (Some 68) (Some 65535) None None None None None None)])
     None None (Some False) None"

definition ipv4_address_item :: schema_node where
  "ipv4_address_item = SchemaNode (Some TObject) None False None None None
     (Some
       [(''ip'', SchemaNode (Some TString) (Some Ipv4Cidr) True None None None None None None None None),
        (''valid_lft'', scalar_node TInteger True),
        (''preferred_lft'', scalar_node TInteger True)])
     (Some [''ip'']) None (Some False) None"

definition ipv4_json :: schema_node where
  "ipv4_json = SchemaNode (Some TObject) None False None None None
     (Some
       [(''addresses'',
         SchemaNode (Some TArray) None True None None None None None (Some ipv4_address_item) None None)])
     None None (Some False) None"

definition ethernet_json :: schema_node where
  "ethernet_json = SchemaNode (Some TObject) None False None None None
     (Some
       [(''speed'', scalar_node TInteger False),
        (''duplex'',
         SchemaNode (Some TString) None False None None (Some [''full'', ''half'', ''unknown''])
           None None None None None),
        (''autoneg'', scalar_node TBoolean False)])
     None None (Some False) (Some ''ethernet'')"

section \<open>Fragments and the registry\<close>

record fragment =
  fr_name :: string
  fr_trigger :: "string option"
  fr_root :: schema_node
  fr_fields :: "(string, field_info) imap"

record schema_registry =
  fragments :: "fragment list"

text \<open>\<open>parse_fragment\<close> on the deserialised root; \<open>None\<close> is its panic on an invalid node.\<close>

definition parse_fragment :: "string \<Rightarrow> schema_node \<Rightarrow> string option \<Rightarrow> fragment option" where
  "parse_fragment name root trigger_key =
     (case validate_schema_node root of
        Ok _ \<Rightarrow>
          Option.bind (derive_fields root [] []) (\<lambda>flat.
            Some \<lparr>fr_name = name, fr_trigger = trigger_key, fr_root = root, fr_fields = sort_key fst flat\<rparr>)
      | _ \<Rightarrow> None)"

definition new_registry :: "schema_registry option" where
  "new_registry =
     Option.bind (parse_fragment ''base'' base_json None) (\<lambda>base.
     Option.bind (parse_fragment ''ipv4'' ipv4_json (Some ''ipv4'')) (\<lambda>ipv4.
     Option.bind (parse_fragment ''ethernet'' ethernet_json (Some ''ethernet'')) (\<lambda>ethernet.
       Some \<lparr>fragments = [base, ipv4, ethernet]\<rparr>)))"

definition find_fragment :: "schema_registry \<Rightarrow> string \<Rightarrow> fragment option" where
  "find_fragment reg name = List.find (\<lambda>f. fr_name f = name) (fragments reg)"

definition base_fragment :: "schema_registry \<Rightarrow> fragment option" where
  "base_fragment reg = List.find (\<lambda>f. fr_trigger f = None) (fragments reg)"

definition triggered_fragment :: "schema_registry \<Rightarrow> string \<Rightarrow> fragment option" where
  "triggered_fragment reg key = List.find (\<lambda>f. fr_trigger f = Some key) (fragments reg)"

definition trigger_keys :: "schema_registry \<Rightarrow> string list" where
  "trigger_keys reg = List.map_filter fr_trigger (fragments reg)"

section \<open>Adding a node\<close>

fun set_properties :: "properties \<Rightarrow> schema_node \<Rightarrow> schema_node" where
  "set_properties ps (SchemaNode ty fmt wr mn mx en _ rq it ap im) =
     SchemaNode ty fmt wr mn mx en (Some ps) rq it ap im"

definition properties_or_new :: "schema_node \<Rightarrow> properties" where
  "properties_or_new node = (case sn_properties node of Some ps \<Rightarrow> ps | None \<Rightarrow> [])"

text \<open>
  The descent along the path, with the parent as the mutations leave it: missing components are
  created before the type test, as \<open>or_insert_with\<close> does.
\<close>

fun insert_node :: "string list \<Rightarrow> string \<Rightarrow> schema_node \<Rightarrow> schema_node \<Rightarrow> (unit, string) outcome \<times> schema_node" where
  "insert_node [] path node parent = (Panic, parent)"
| "insert_node [name] path node parent =
     (let ps = properties_or_new parent in
      if im_contains ps name
      then (Err (''schema node '' @ quoted path @ '' already exists''), set_properties ps parent)
      else (Ok (), set_properties (im_insert ps name node) parent))"
| "insert_node (part # p # parts) path node parent =
     (let ps = properties_or_new parent;
          child = (case im_get ps part of Some c \<Rightarrow> c | None \<Rightarrow> writable_object) in
      if sn_type child \<noteq> Some TObject
      then (Err (''schema path component '' @ quoted part @ '' is not an object''),
            set_properties (im_insert ps part child) parent)
      else
        (let (result, child') = insert_node (p # parts) path node child in
         (result, set_properties (im_insert ps part child') parent)))"

text \<open>\<open>iter_mut().find(..)\<close>: the first match is replaced.\<close>

fun update_first :: "('a \<Rightarrow> bool) \<Rightarrow> ('a \<Rightarrow> 'a) \<Rightarrow> 'a list \<Rightarrow> 'a list" where
  "update_first p f [] = []"
| "update_first p f (x # xs) = (if p x then f x # xs else x # update_first p f xs)"

definition add_schema_node ::
  "string \<Rightarrow> string \<Rightarrow> (schema_node, string) outcome \<Rightarrow> schema_registry \<Rightarrow>
   (unit, string) outcome \<times> schema_registry" where
  "add_schema_node frag path parsed reg =
     (let malformed = (\<lambda>err. ''schema node at '' @ quoted path @ '' is malformed: '' @ err) in
      case omap_err malformed parsed of
        Panic \<Rightarrow> (Panic, reg)
      | Err e \<Rightarrow> (Err e, reg)
      | Ok node \<Rightarrow>
      (case omap_err malformed (validate_schema_node node) of
        Panic \<Rightarrow> (Panic, reg)
      | Err e \<Rightarrow> (Err e, reg)
      | Ok _ \<Rightarrow>
      (let parts = split_on CHR ''.'' path in
       if parts = [] \<or> list_ex (\<lambda>part. part = []) parts
       then (Err ''schema node path must not be empty or contain empty components'', reg)
       else
       (let target_is_base = (case find_fragment reg frag of Some f \<Rightarrow> fr_trigger f = None | None \<Rightarrow> False) in
        if target_is_base \<and> list_ex (\<lambda>f. fr_trigger f = Some (hd parts)) (fragments reg)
        then (Err (''base property '' @ quoted (hd parts) @ '' collides with a fragment trigger key''), reg)
        else
        (case find_fragment reg frag of
           None \<Rightarrow> (Err (''unknown schema fragment '' @ quoted frag), reg)
         | Some f \<Rightarrow>
             (let (result, root') = insert_node parts path node (fr_root f);
                  write_root = (\<lambda>f'. reg\<lparr>fragments := update_first (\<lambda>g. fr_name g = frag) (\<lambda>_. f') (fragments reg)\<rparr>) in
              case result of
                Ok _ \<Rightarrow>
                  (case derive_fields root' [] [] of
                     Some flat \<Rightarrow> (Ok (), write_root (f\<lparr>fr_root := root', fr_fields := sort_key fst flat\<rparr>))
                   | None \<Rightarrow> (Panic, write_root (f\<lparr>fr_root := root'\<rparr>)))
              | r \<Rightarrow> (r, write_root (f\<lparr>fr_root := root'\<rparr>))))))))"

section \<open>Lookups\<close>

definition field_info_of :: "schema_registry \<Rightarrow> string \<Rightarrow> string \<Rightarrow> field_info option" where
  "field_info_of reg frag field = Option.bind (find_fragment reg frag) (\<lambda>f. im_get (fr_fields f) field)"

definition fragment_fields :: "schema_registry \<Rightarrow> string \<Rightarrow> (string \<times> field_info) list option" where
  "fragment_fields reg frag = map_option fr_fields (find_fragment reg frag)"

text \<open>\<open>None\<close> outside is the panic of a registry without a base fragment.\<close>

definition top_level_schema :: "schema_registry \<Rightarrow> string \<Rightarrow> schema_node option option" where
  "top_level_schema reg key =
     Option.bind (base_fragment reg) (\<lambda>base.
       Some (case node_property (fr_root base) key of
               Some node \<Rightarrow> Some node
             | None \<Rightarrow> map_option fr_root (triggered_fragment reg key)))"

definition implied_device_type :: "schema_registry \<Rightarrow> fields \<Rightarrow> string option" where
  "implied_device_type reg m =
     (let present = filter (\<lambda>f. case fr_trigger f of Some trigger \<Rightarrow> im_contains m trigger | None \<Rightarrow> False) (fragments reg) in
      case List.map_filter (\<lambda>f. sn_implied_device_type (fr_root f)) present of
        [] \<Rightarrow> None
      | t # _ \<Rightarrow> Some t)"

text \<open>\<open>SchemaCursor\<close>: \<open>property\<close>, \<open>items\<close>, \<open>decode_string\<close>.\<close>

definition decode_string :: "schema_node \<Rightarrow> string \<Rightarrow> cval option" where
  "decode_string node text =
     Option.bind (expect_type node) (\<lambda>t.
       Some (case t of
               TIpNetwork \<Rightarrow>
                 (case parse_ip_network text of Some n \<Rightarrow> VIpNetwork n | None \<Rightarrow> VString text)
             | _ \<Rightarrow> VString text))"

definition field_string :: "fields \<Rightarrow> string \<Rightarrow> string option" where
  "field_string m key = (case im_get m key of Some (VString s) \<Rightarrow> Some s | _ \<Rightarrow> None)"

section \<open>Validation of a state\<close>

definition validate_fragment :: "schema_registry \<Rightarrow> dev_state \<Rightarrow> bool \<Rightarrow> fragment \<Rightarrow> validation_error list option" where
  "validate_fragment reg st writable_only f =
     (case fr_trigger f of
        None \<Rightarrow>
          Option.bind
            (walk_map (fr_root f) (st_fields st) [] (trigger_keys reg) (fr_name f) writable_only) (\<lambda>errors.
            if device_type st \<noteq> [] then
              Option.bind (node_property (fr_root f) ''type'') (\<lambda>type_node.
              Option.bind (walk_property type_node (VString (device_type st)) ''type'' (fr_name f) False) (\<lambda>more.
                Some (errors @ more)))
            else Some errors)
      | Some key \<Rightarrow>
          (case im_get (st_fields st) key of
             Some (VMap inner) \<Rightarrow> walk_map (fr_root f) inner key [] (fr_name f) writable_only
           | Some other \<Rightarrow> Some [WrongType (fr_name f) key TObject (value_type other)]
           | None \<Rightarrow> Some []))"

definition validate_inner :: "schema_registry \<Rightarrow> dev_state \<Rightarrow> bool \<Rightarrow> validation_error list option" where
  "validate_inner reg st writable_only = pconcat (validate_fragment reg st writable_only) (fragments reg)"

definition validate :: "schema_registry \<Rightarrow> dev_state \<Rightarrow> validation_error list option" where
  "validate reg st = validate_inner reg st False"

definition validate_writable :: "schema_registry \<Rightarrow> dev_state \<Rightarrow> validation_error list option" where
  "validate_writable reg st = validate_inner reg st True"

section \<open>Removing the read-only fields of a state\<close>

definition remove_key :: "schema_registry \<Rightarrow> fragment \<Rightarrow> fields \<times> string list \<Rightarrow> string \<Rightarrow> fields \<times> string list" where
  "remove_key reg base =
     (\<lambda>(m, removed) key.
        case triggered_fragment reg key of
          Some f \<Rightarrow>
            (case im_get m key of
               Some (VMap value) \<Rightarrow>
                 (let (value', more) = remove_read_only_from_map (fr_root f) value key;
                      m' = im_insert m key (VMap value') in
                  (if value' = [] then im_remove m' key else m', removed @ more))
             | _ \<Rightarrow> (m, removed))
        | None \<Rightarrow>
            (case node_property (fr_root base) key of
               Some node \<Rightarrow>
                 (let (m', more) = remove_read_only_property node m key [] in (m', removed @ more))
             | None \<Rightarrow> (m, removed)))"

definition remove_read_only_fields :: "schema_registry \<Rightarrow> dev_state \<Rightarrow> (dev_state \<times> string list) option" where
  "remove_read_only_fields reg st =
     Option.bind (base_fragment reg) (\<lambda>base.
       Some (let (m, removed) = foldl (remove_key reg base) (st_fields st, []) (im_keys (st_fields st)) in
             (st\<lparr>st_fields := m\<rparr>, removed)))"

end
