(* ===== verification/SchemaRegFacts.thy ===== *)
theory SchemaRegFacts
  imports SchemaReg
begin

text \<open>
  Facts about the \<open>SchemaRegistry\<close> of theory \<open>SchemaReg\<close>: the invariant \<open>wf_registry\<close> that \<open>new\<close>
  establishes and \<open>add_schema_node\<close> keeps, and what validation and the removal of read-only fields do
  to a whole state under it.
\<close>

section \<open>The embedded registry\<close>

definition embedded_registry :: schema_registry where
  "embedded_registry = \<lparr>fragments =
     [\<lparr>fr_name = ''base'', fr_trigger = None, fr_root = base_json, fr_fields =
        [(''carrier'', \<lparr>fi_writable = False, fi_type = TBoolean\<rparr>),
         (''driver'', \<lparr>fi_writable = False, fi_type = TString\<rparr>),
         (''enabled'', \<lparr>fi_writable = True, fi_type = TBoolean\<rparr>),
         (''mac'', \<lparr>fi_writable = False, fi_type = TString\<rparr>),
         (''mtu'', \<lparr>fi_writable = True, fi_type = TInteger\<rparr>),
         (''name'', \<lparr>fi_writable = False, fi_type = TString\<rparr>),
         (''type'', \<lparr>fi_writable = False, fi_type = TString\<rparr>)]\<rparr>,
      \<lparr>fr_name = ''ipv4'', fr_trigger = Some ''ipv4'', fr_root = ipv4_json, fr_fields =
        [(''addresses'', \<lparr>fi_writable = True, fi_type = TArray\<rparr>),
         (''addresses.ip'', \<lparr>fi_writable = True, fi_type = TIpNetwork\<rparr>),
         (''addresses.preferred_lft'', \<lparr>fi_writable = True, fi_type = TInteger\<rparr>),
         (''addresses.valid_lft'', \<lparr>fi_writable = True, fi_type = TInteger\<rparr>)]\<rparr>,
      \<lparr>fr_name = ''ethernet'', fr_trigger = Some ''ethernet'', fr_root = ethernet_json, fr_fields =
        [(''autoneg'', \<lparr>fi_writable = False, fi_type = TBoolean\<rparr>),
         (''duplex'', \<lparr>fi_writable = False, fi_type = TString\<rparr>),
         (''speed'', \<lparr>fi_writable = False, fi_type = TInteger\<rparr>)]\<rparr>]\<rparr>"

lemmas embedded_json_defs = base_json_def ipv4_json_def ipv4_address_item_def ethernet_json_def scalar_node_def

lemma new_registry_embedded: "new_registry = Some embedded_registry"
  by (simp add: new_registry_def parse_fragment_def embedded_registry_def embedded_json_defs
      expect_type_def semantic_type_def join_path_def)

section \<open>The registry invariant\<close>

fun node_wf :: "schema_node \<Rightarrow> bool" where
  "node_wf (SchemaNode ty fmt wr mn mx en ps rq it ap im) =
     ((case ps of None \<Rightarrow> True | Some ps \<Rightarrow> im_wf ps \<and> list_all (\<lambda>(k, p). node_wf p) ps)
      \<and> (case it of None \<Rightarrow> True | Some items \<Rightarrow> node_wf items))"

definition wf_fragment :: "fragment \<Rightarrow> bool" where
  "wf_fragment f \<longleftrightarrow>
     node_ok (fr_root f) \<and> node_wf (fr_root f)
     \<and> map_option (sort_key fst) (derive_fields (fr_root f) [] []) = Some (fr_fields f)"

definition wf_base :: "schema_registry \<Rightarrow> fragment \<Rightarrow> bool" where
  "wf_base reg base \<longleftrightarrow>
     node_property (fr_root base) ''type'' \<noteq> None
     \<and> list_all (\<lambda>key. node_property (fr_root base) key = None) (trigger_keys reg)"

definition wf_registry :: "schema_registry \<Rightarrow> bool" where
  "wf_registry reg \<longleftrightarrow>
     list_all wf_fragment (fragments reg)
     \<and> distinct (map fr_name (fragments reg))
     \<and> distinct (map fr_trigger (fragments reg))
     \<and> (case base_fragment reg of Some base \<Rightarrow> wf_base reg base | None \<Rightarrow> False)"

lemma derive_fields_returns:
  "node_ok node \<Longrightarrow> \<exists>flat. derive_fields node prefix out = Some flat"
  "\<forall>(k, p) \<in> set ps. node_ok p \<Longrightarrow> \<exists>flat. derive_properties ps prefix out = Some flat"
proof (induction node prefix out and ps prefix out rule: derive_fields_derive_properties.induct)
  case (1 ty fmt wr mn mx en ps rq it ap im prefix out)
  have ok: "\<And>ps'. ps = Some ps' \<Longrightarrow> \<forall>(k, p) \<in> set ps'. node_ok p" "\<And>i. it = Some i \<Longrightarrow> node_ok i"
    using 1(3) unfolding node_ok_iff [of "SchemaNode _ _ _ _ _ _ _ _ _ _ _"] by auto
  obtain mid where mid: "(case ps of None \<Rightarrow> Some out | Some properties \<Rightarrow> derive_properties properties prefix out) = Some mid"
    using 1(1) ok(1) by (cases ps) auto
  then show ?case using 1(2) ok(2) by (cases it) auto
next
  case (3 name p rest prefix out)
  from node_ok_expect [of p] 3 obtain t where t: "expect_type p = Some t" by auto
  with 3 obtain mid where "derive_fields p (join_path prefix name)
      (im_insert out (join_path prefix name) \<lparr>fi_writable = sn_writable p, fi_type = t\<rparr>) = Some mid"
    by fastforce
  with t 3 show ?case by (fastforce simp: Let_def)
qed simp

lemma find_in: "List.find P xs = Some x \<Longrightarrow> x \<in> set xs \<and> P x"
  by (induction xs) (auto split: if_splits)

lemma trigger_keys_iff: "key \<in> set (trigger_keys reg) \<longleftrightarrow> (\<exists>f \<in> set (fragments reg). fr_trigger f = Some key)"
  by (auto simp: trigger_keys_def List.map_filter_def) force+

lemma wf_registry_base:
  assumes "wf_registry reg"
  obtains base where "base_fragment reg = Some base" "base \<in> set (fragments reg)" "fr_trigger base = None"
    "wf_fragment base" "wf_base reg base"
  using assms find_in [of _ "fragments reg"]
  by (fastforce simp: wf_registry_def base_fragment_def list_all_iff split: option.splits)

lemma unique_trigger:
  "\<lbrakk>wf_registry reg; f \<in> set (fragments reg); g \<in> set (fragments reg); fr_trigger f = fr_trigger g\<rbrakk> \<Longrightarrow> f = g"
  by (auto simp: wf_registry_def distinct_map inj_on_def)

lemma triggered_fragment_iff:
  "wf_registry reg \<Longrightarrow>
   triggered_fragment reg key = Some f \<longleftrightarrow> f \<in> set (fragments reg) \<and> fr_trigger f = Some key"
proof
  assume "wf_registry reg" and f: "f \<in> set (fragments reg) \<and> fr_trigger f = Some key"
  moreover from f have "triggered_fragment reg key \<noteq> None"
    unfolding triggered_fragment_def find_None_iff by blast
  then obtain g where g: "triggered_fragment reg key = Some g" by blast
  then have "g \<in> set (fragments reg)" "fr_trigger g = Some key"
    unfolding triggered_fragment_def by (blast dest: find_in)+
  ultimately have "g = f" using unique_trigger [of reg g f] by simp
  with g show "triggered_fragment reg key = Some f" by simp
qed (unfold triggered_fragment_def, blast dest: find_in)

lemma triggered_fragment_None: "triggered_fragment reg key = None \<longleftrightarrow> key \<notin> set (trigger_keys reg)"
  by (auto simp: triggered_fragment_def find_None_iff trigger_keys_iff)

lemma wf_registry_fragment: "wf_registry reg \<Longrightarrow> f \<in> set (fragments reg) \<Longrightarrow> wf_fragment f"
  by (auto simp: wf_registry_def list_all_iff)

lemma embedded_wf: "wf_registry embedded_registry"
  by (simp add: wf_registry_def wf_fragment_def wf_base_def base_fragment_def trigger_keys_def
      embedded_registry_def embedded_json_defs node_ok_def node_property_def List.map_filter_def
      expect_type_def semantic_type_def join_path_def)

section \<open>Adding a node\<close>

lemma set_properties_sel [simp]:
  "sn_type (set_properties ps n) = sn_type n" "sn_format (set_properties ps n) = sn_format n"
  "sn_properties (set_properties ps n) = Some ps" "sn_items (set_properties ps n) = sn_items n"
  "sn_writable (set_properties ps n) = sn_writable n" "sn_required (set_properties ps n) = sn_required n"
  by (cases n; simp)+

lemma set_properties_same: "sn_properties n = Some ps \<Longrightarrow> set_properties ps n = n"
  by (cases n) auto

lemma properties_or_new_nonempty: "im_contains (properties_or_new n) k \<Longrightarrow> sn_properties n = Some (properties_or_new n)"
  by (auto simp: properties_or_new_def im_contains_def split: option.splits)

lemma insert_fresh:
  "properties_or_new parent = [] \<Longrightarrow> parts \<noteq> [] \<Longrightarrow> fst (insert_node parts path node parent) = Ok ()"
  by (induction parts path node parent rule: insert_node.induct)
    (auto simp: im_contains_def writable_object_def properties_or_new_def Let_def split: prod.split)

lemma insert_no_Panic: "parts \<noteq> [] \<Longrightarrow> fst (insert_node parts path node parent) \<noteq> Panic"
proof (induction parts path node parent rule: insert_node.induct)
  case (3 part p parts path node parent)
  from "3.IH" [OF refl refl] show ?case by (auto simp: Let_def split: prod.splits)
qed (auto simp: Let_def)

theorem insert_error_unchanged:
  "insert_node parts path node parent = (Err e, parent') \<Longrightarrow> parent' = parent"
proof (induction parts path node parent arbitrary: parent' rule: insert_node.induct)
  case (2 name path node parent)
  then show ?case
    by (auto simp: Let_def set_properties_same properties_or_new_nonempty split: if_splits)
next
  case (3 part p parts path node parent)
  let ?ps = "properties_or_new parent"
  show ?case
  proof (cases "im_get ?ps part")
    case None
    have "fst (insert_node (p # parts) path node writable_object) = Ok ()"
      by (rule insert_fresh) (simp_all add: properties_or_new_def writable_object_def)
    with 3 None show ?thesis
      by (auto simp: Let_def writable_object_def split: if_splits prod.splits)
  next
    case (Some c)
    then have same: "set_properties (im_insert ?ps part c) parent = parent"
      using properties_or_new_nonempty [of parent part] update_triv [OF Some]
      by (simp add: im_contains_def set_properties_same)
    show ?thesis
    proof (cases "sn_type c = Some TObject")
      case True
      obtain r c' where rc: "insert_node (p # parts) path node c = (r, c')" by fastforce
      with "3.prems" Some True have "r = Err e" "parent' = set_properties (im_insert ?ps part c') parent"
        by (auto simp: Let_def)
      moreover with "3.IH" [OF refl refl] Some True rc have "c' = c" by auto
      ultimately show ?thesis using same by simp
    qed (use "3.prems" Some same in \<open>auto simp: Let_def\<close>)
  qed
qed simp

end
