(* ===== verification/StateFacts.thy ===== *)
theory StateFacts
  imports SchemaRegFacts
begin

text \<open>
  Validation and stripping of a whole state against a registry that satisfies \<open>wf_registry\<close>:
  validation never panics, its query mode is its policy mode without the read-only errors, an empty
  error list is the declarative \<open>state_conforms\<close>, and removing the read-only fields of a state that
  is valid in query mode gives a state that is valid in policy mode.
\<close>

section \<open>What a registry allows of a state\<close>

definition fragment_conforms :: "bool \<Rightarrow> schema_registry \<Rightarrow> dev_state \<Rightarrow> fragment \<Rightarrow> bool" where
  "fragment_conforms wo reg st f \<longleftrightarrow>
     (case fr_trigger f of
        None \<Rightarrow>
          entries_conform wo (fr_root f) (st_fields st) (trigger_keys reg)
          \<and> (device_type st \<noteq> [] \<longrightarrow>
              (\<exists>n. node_property (fr_root f) ''type'' = Some n \<and> conforms False n (VString (device_type st))))
      | Some key \<Rightarrow>
          (case im_get (st_fields st) key of
             None \<Rightarrow> True
           | Some v \<Rightarrow> \<exists>inner. v = VMap inner \<and> entries_conform wo (fr_root f) inner []))"

definition state_conforms :: "bool \<Rightarrow> schema_registry \<Rightarrow> dev_state \<Rightarrow> bool" where
  "state_conforms wo reg st \<longleftrightarrow> (\<forall>f \<in> set (fragments reg). fragment_conforms wo reg st f)"

lemma wf_base_fragment:
  assumes "wf_registry reg" "f \<in> set (fragments reg)" "fr_trigger f = None"
  shows "wf_base reg f" "base_fragment reg = Some f"
proof -
  obtain base where b: "base_fragment reg = Some base" "base \<in> set (fragments reg)" "fr_trigger base = None"
    "wf_base reg base"
    using wf_registry_base [OF assms(1)] by blast
  with unique_trigger [OF assms(1) b(2) assms(2)] assms(3) show "wf_base reg f" "base_fragment reg = Some f"
    by auto
qed

lemma wf_fragment_ok: "wf_registry reg \<Longrightarrow> f \<in> set (fragments reg) \<Longrightarrow> node_ok (fr_root f)"
  using wf_registry_fragment by (auto simp: wf_fragment_def)

lemma wf_type_node:
  assumes "wf_registry reg" "f \<in> set (fragments reg)" "fr_trigger f = None"
  obtains n where "node_property (fr_root f) ''type'' = Some n" "node_ok n"
  using wf_base_fragment [OF assms] wf_fragment_ok [OF assms(1,2)] node_ok_property
  by (fastforce simp: wf_base_def)

lemma validate_fragment_returns:
  assumes "wf_registry reg" "f \<in> set (fragments reg)"
  shows "\<exists>es. validate_fragment reg st wo f = Some es"
proof (cases "fr_trigger f")
  case None
  obtain n where n: "node_property (fr_root f) ''type'' = Some n" "node_ok n"
    using wf_type_node [OF assms None] .
  from walk_returns(2) [OF n(2)] obtain more
    where more: "walk_property n (VString (device_type st)) ''type'' (fr_name f) False = Some more" by blast
  obtain es where "walk_map (fr_root f) (st_fields st) [] (trigger_keys reg) (fr_name f) wo = Some es"
    using walk_returns(1) [OF wf_fragment_ok [OF assms]] by blast
  then show ?thesis by (simp add: validate_fragment_def None n(1) more)
next
  case (Some key)
  have "\<exists>es. walk_map (fr_root f) m key [] (fr_name f) wo = Some es" for m
    using walk_returns(1) [OF wf_fragment_ok [OF assms]] by blast
  then show ?thesis by (auto simp: validate_fragment_def Some split: option.split cval.split)
qed

lemma validate_inner_returns: "wf_registry reg \<Longrightarrow> \<exists>es. validate_inner reg st wo = Some es"
  unfolding validate_inner_def by (rule pconcat_returns) (rule validate_fragment_returns)

lemma walk_query_no_read_only:
  "drop_read_only (walk_property n v path f False) = walk_property n v path f False"
  using walk_modes(2) [of True n v path f] by (cases "walk_property n v path f True") auto

lemma validate_fragment_modes:
  "validate_fragment reg st False f = drop_read_only (validate_fragment reg st True f)"
proof (cases "fr_trigger f")
  case None
  let ?w = "walk_map (fr_root f) (st_fields st) [] (trigger_keys reg) (fr_name f) True"
  have "walk_map (fr_root f) (st_fields st) [] (trigger_keys reg) (fr_name f) False = drop_read_only ?w"
    by (rule walk_modes(1)) simp
  moreover have "drop_read_only (walk_property n v p q False) = walk_property n v p q False" for n v p q
    by (rule walk_query_no_read_only)
  then have "filter (\<lambda>e. \<not> is_read_only_error e) more = more"
    if "walk_property n v p q False = Some more" for n v p q more
    using that by (metis option.inject option.simps(9))
  ultimately show ?thesis
    by (cases ?w; cases "node_property (fr_root f) ''type''") (auto simp: validate_fragment_def None split: bind_splits)
next
  case (Some key)
  then show ?thesis
    by (auto simp: validate_fragment_def walk_modes(1) split: option.split cval.split)
qed

lemma validate_modes: "validate reg st = drop_read_only (validate_writable reg st)"
  unfolding validate_def validate_writable_def validate_inner_def
  by (rule pconcat_filter) (rule validate_fragment_modes)

lemma validate_fragment_conforms:
  assumes "wf_registry reg" "f \<in> set (fragments reg)"
  shows "validate_fragment reg st wo f = Some [] \<longleftrightarrow> fragment_conforms wo reg st f"
proof (cases "fr_trigger f")
  case None
  obtain n where n: "node_property (fr_root f) ''type'' = Some n" "node_ok n"
    using wf_type_node [OF assms None] .
  have base: "walk_map (fr_root f) (st_fields st) [] (trigger_keys reg) (fr_name f) wo = Some [] \<longleftrightarrow>
      entries_conform wo (fr_root f) (st_fields st) (trigger_keys reg)"
    by (rule walk_conforms(1) [OF wf_fragment_ok [OF assms]])
  have "validate_fragment reg st wo f = Some [] \<longleftrightarrow>
      walk_map (fr_root f) (st_fields st) [] (trigger_keys reg) (fr_name f) wo = Some []
      \<and> (device_type st \<noteq> [] \<longrightarrow> walk_property n (VString (device_type st)) ''type'' (fr_name f) False = Some [])"
    by (auto simp: validate_fragment_def None n(1) bind_eq_Some_conv)
  then show ?thesis
    by (simp add: base walk_conforms(2) [OF n(2)] fragment_conforms_def None n(1))
next
  case (Some key)
  then show ?thesis
    using walk_conforms(1) [OF wf_fragment_ok [OF assms]]
    by (auto simp: validate_fragment_def fragment_conforms_def split: option.split cval.split)
qed

lemma validate_inner_conforms:
  "wf_registry reg \<Longrightarrow> validate_inner reg st wo = Some [] \<longleftrightarrow> state_conforms wo reg st"
  by (simp add: validate_inner_def state_conforms_def pconcat_Nil_iff validate_fragment_conforms)

lemma validate_inner_empty:
  "wf_registry reg \<Longrightarrow> validate_inner reg st wo = Some es \<Longrightarrow> es = [] \<longleftrightarrow> state_conforms wo reg st"
  using validate_inner_conforms [of reg st wo] by auto

section \<open>Stripping a state\<close>

text \<open>What one entry of the fields leaves, and the paths it drops.\<close>

definition strip_top :: "schema_registry \<Rightarrow> schema_node \<Rightarrow> string \<Rightarrow> cval \<Rightarrow> fields" where
  "strip_top reg root k v =
     (case triggered_fragment reg k of
        Some f \<Rightarrow>
          (case v of
             VMap m \<Rightarrow>
               (let m' = fst (remove_read_only_from_map (fr_root f) m k) in if m' = [] then [] else [(k, VMap m')])
           | _ \<Rightarrow> [(k, v)])
      | None \<Rightarrow> strip_entry root [] k v)"

definition strip_top_paths :: "schema_registry \<Rightarrow> schema_node \<Rightarrow> string \<Rightarrow> cval \<Rightarrow> string list" where
  "strip_top_paths reg root k v =
     (case triggered_fragment reg k of
        Some f \<Rightarrow> (case v of VMap m \<Rightarrow> snd (remove_read_only_from_map (fr_root f) m k) | _ \<Rightarrow> [])
      | None \<Rightarrow> strip_paths root [] k v)"

lemma strip_top_keys: "im_keys (strip_top reg root k v) \<in> {[], [k]}"
  using strip_entry_keys [of root "[]" k v]
  by (auto simp: strip_top_def Let_def split: option.split cval.split)

lemma remove_key_step:
  assumes "k \<notin> set (im_keys pre)" "k \<notin> set (im_keys ys)"
  shows "remove_key reg base (pre @ (k, v) # ys, acc) k
       = (pre @ strip_top reg (fr_root base) k v @ ys, acc @ strip_top_paths reg (fr_root base) k v)"
proof (cases "triggered_fragment reg k")
  case None
  then show ?thesis
    using remove_property_middle [OF assms]
    by (auto simp: remove_key_def strip_top_def strip_top_paths_def strip_entry_def strip_paths_def split: option.split)
next
  case (Some f)
  have get: "im_get (pre @ (k, v) # ys) k = Some v" using im_get_middle [OF assms(1)] .
  show ?thesis
  proof (cases v)
    case (VMap m)
    obtain m' removed where r: "remove_read_only_from_map (fr_root f) m k = (m', removed)" by fastforce
    have "im_insert (pre @ (k, v) # ys) k (VMap m') = pre @ (k, VMap m') # ys"
      by (rule im_insert_middle [OF assms(1)])
    then show ?thesis
      using Some get VMap r im_remove_middle [OF assms, of "VMap []"]
      by (simp add: remove_key_def strip_top_def strip_top_paths_def del: map_of_append)
  qed (use Some get in \<open>simp_all add: remove_key_def strip_top_def strip_top_paths_def del: map_of_append\<close>)
qed

lemma remove_read_only_eq:
  assumes "wf_registry reg" "im_wf (st_fields st)" "base_fragment reg = Some base"
  shows "remove_read_only_fields reg st =
     Some (st\<lparr>st_fields := concat (map (\<lambda>(k, v). strip_top reg (fr_root base) k v) (st_fields st))\<rparr>,
           concat (map (\<lambda>(k, v). strip_top_paths reg (fr_root base) k v) (st_fields st)))"
proof -
  have "foldl (remove_key reg base) (st_fields st, []) (im_keys (st_fields st)) =
     (concat (map (\<lambda>(k, v). strip_top reg (fr_root base) k v) (st_fields st)),
      concat (map (\<lambda>(k, v). strip_top_paths reg (fr_root base) k v) (st_fields st)))"
    by (rule foldl_keys [OF remove_key_step strip_top_keys assms(2)])
  then show ?thesis by (simp add: remove_read_only_fields_def assms(3))
qed

text \<open>
  A registry whose required properties are all settable and that has no array of arrays: the removal does not look for
  read-only properties in an array that is an element of an array.
\<close>

definition strip_safe_registry :: "schema_registry \<Rightarrow> bool" where
  "strip_safe_registry reg \<longleftrightarrow> list_all (\<lambda>f. strip_safe (fr_root f)) (fragments reg)"

definition state_wf :: "dev_state \<Rightarrow> bool" where
  "state_wf st \<longleftrightarrow> value_wf (VMap (st_fields st))"

lemma strip_top_fragment:
  assumes "triggered_fragment reg k = Some f" "im_wf m"
  shows "(j, w) \<in> set (concat (map (\<lambda>(k, v). strip_top reg root k v) m)) \<Longrightarrow> j = k \<Longrightarrow>
     \<exists>v. (k, v) \<in> set m \<and> (k, w) \<in> set (strip_top reg root k v)"
proof -
  assume "(j, w) \<in> set (concat (map (\<lambda>(k, v). strip_top reg root k v) m))" "j = k"
  then obtain i v where v: "(i, v) \<in> set m" "(k, w) \<in> set (strip_top reg root i v)" by auto
  with strip_top_keys [of reg root i v] have "i = k" by force
  with v show ?thesis by blast
qed

lemma strip_top_base_entries:
  assumes "triggered_fragment reg k = None"
  shows "(k, w) \<in> set (concat (map (\<lambda>(k, v). strip_top reg root k v) m)) \<longleftrightarrow>
         (k, w) \<in> set (concat (map (\<lambda>(k, v). strip_entry root [] k v) m))"
proof -
  have *: "(k, w) \<in> set (strip_top reg root i v) \<longleftrightarrow> (k, w) \<in> set (strip_entry root [] i v)" for i v
  proof (cases "i = k")
    case False
    then have "k \<notin> set (im_keys (strip_top reg root i v))" "k \<notin> set (im_keys (strip_entry root [] i v))"
      using strip_top_keys [of reg root i v] strip_entry_keys [of root "[]" i v] by auto
    then show ?thesis by force
  qed (simp add: strip_top_def assms)
  then show ?thesis by auto
qed

lemma strip_sub:
  assumes "wf_registry reg" "entries_conform False n m ign" "strip_safe n" "value_wf (VMap m)"
    and "(k, v) \<in> set m" "k \<notin> set ign" "node_property n k = Some p"
  shows "conforms True p (fst (strip_value p v path))"
  using assms strip_safe_property [OF assms(3,7)]
  by (intro strip_conforms) (auto simp: entries_conform_def list_all_iff split: option.splits)

theorem strip_state_conforms:
  assumes reg: "wf_registry reg" "strip_safe_registry reg" and st: "state_wf st" "state_conforms False reg st"
    and strip: "remove_read_only_fields reg st = Some (st', removed)"
  shows "state_conforms True reg st'"
proof -
  obtain base where base: "base_fragment reg = Some base" "base \<in> set (fragments reg)" "fr_trigger base = None"
    "wf_base reg base"
    using wf_registry_base [OF reg(1)] by blast
  have wf: "im_wf (st_fields st)" "value_wf (VMap (st_fields st))" using st(1) by (simp_all add: state_wf_def)
  let ?m = "concat (map (\<lambda>(k, v). strip_top reg (fr_root base) k v) (st_fields st))"
  have st': "st' = st\<lparr>st_fields := ?m\<rparr>"
    using strip remove_read_only_eq [OF reg(1) wf(1) base(1)] by simp
  have safe: "strip_safe (fr_root f)" if "f \<in> set (fragments reg)" for f
    using reg(2) that by (auto simp: strip_safe_registry_def list_all_iff)
  have "fragment_conforms True reg st' f" if f: "f \<in> set (fragments reg)" for f
  proof (cases "fr_trigger f")
    case None
    then have fb: "f = base" using unique_trigger [OF reg(1) f base(2)] base(3) by simp
    have old: "fragment_conforms False reg st base"
      using st(2) base(2) by (auto simp: state_conforms_def)
    then have conf: "entries_conform False (fr_root base) (st_fields st) (trigger_keys reg)"
      by (simp add: fragment_conforms_def base(3))
    have "entries_conform True (fr_root base)
        (fst (remove_read_only_from_map (fr_root base) (st_fields st) [])) (trigger_keys reg)"
      by (rule strip_map_entries [OF wf(1) conf safe [OF base(2)] strip_sub [OF reg(1) conf safe [OF base(2)] wf(2)]])
        (use base(4) in \<open>auto simp: wf_base_def list_all_iff\<close>)
    moreover have "(k, w) \<in> set (fst (remove_read_only_from_map (fr_root base) (st_fields st) [])) \<longleftrightarrow> (k, w) \<in> set ?m"
      if "k \<notin> set (trigger_keys reg)" for k w
      unfolding remove_from_map_eq [OF wf(1)] fst_conv
      by (rule strip_top_base_entries [symmetric]) (simp add: triggered_fragment_None that)
    ultimately have "entries_conform True (fr_root base) ?m (trigger_keys reg)"
      by (fastforce simp: entries_conform_def im_contains_iff image_iff)
    with old show ?thesis by (simp add: fragment_conforms_def fb base(3) st')
  next
    case (Some key)
    then have trig: "triggered_fragment reg key = Some f" by (simp add: triggered_fragment_iff [OF reg(1)] f)
    have "\<exists>inner. w = VMap inner \<and> entries_conform True (fr_root f) inner []" if w: "im_get ?m key = Some w" for w
    proof -
      obtain v where v: "(key, v) \<in> set (st_fields st)" "(key, w) \<in> set (strip_top reg (fr_root base) key v)"
        using strip_top_fragment [OF trig wf(1) map_of_SomeD [OF w] refl] by blast
      then have "im_get (st_fields st) key = Some v" using im_get_in_set [OF wf(1)] by blast
      moreover have "fragment_conforms False reg st f" using st(2) f by (auto simp: state_conforms_def)
      ultimately obtain m where m: "v = VMap m" "entries_conform False (fr_root f) m []"
        by (auto simp: fragment_conforms_def Some)
      have "value_wf v" using wf(2) v(1) by (fastforce simp: list_all_iff simp del: value_wf.simps(2) dest: value_wf.simps(2) [THEN iffD1])
      with m(1) have "value_wf (VMap m)" by simp
      then have "entries_conform True (fr_root f) (fst (remove_read_only_from_map (fr_root f) m key)) []"
        by (intro strip_map_entries [OF _ m(2) safe [OF f] strip_sub [OF reg(1) m(2) safe [OF f]]]) auto
      with v(2) m(1) show ?thesis by (auto simp: strip_top_def trig Let_def split: if_splits)
    qed
    then show ?thesis by (auto simp: fragment_conforms_def Some st' split: option.split)
  qed
  then show ?thesis by (simp add: state_conforms_def)
qed

end
