(* ===== verification/Errors.thy ===== *)
theory Errors
  imports Schema
begin

text \<open>
  \<open>crates/netfyr-state/src/error.rs\<close>: the crate-wide error type and its texts.
\<close>

record indexed_validation_error =
  state_index :: nat
  ive_error :: validation_error

datatype state_error =
    YamlError string
  | MultiDocument
  | EmptyInput
  | InvalidTopLevel string
  | UnknownKind string
  | PolicyWrapperNotSupported
  | UnknownMatchKey string
  | MatchNotMapping
  | InvalidFieldKey string
  | MatchValueNotString string
  | UnexpectedMatch nat
  | MissingMatch nat
  | UnsupportedScalar string
  | NoMatchField string nat
  | ReservedFieldKey string nat
  | InvalidStates "indexed_validation_error list"

fun show_state_error :: "state_error \<Rightarrow> string" where
  "show_state_error (YamlError message) = ''YAML error: '' @ message"
| "show_state_error MultiDocument =
     ''input contains more than one YAML document ('' @ quoted ''---'' @ '' separator); ''
     @ ''netfyr'' @ [CHR 0x27] @ ''s format expresses multiple devices as a top-level list''"
| "show_state_error EmptyInput = ''input is empty''"
| "show_state_error (InvalidTopLevel found) =
     ''invalid top level: expected a device mapping or a list of device mappings, found '' @ found"
| "show_state_error (UnknownKind kind) =
     ''unknown kind '' @ quoted kind @ ''; expected '' @ quoted ''state'' @ '' (or omit the key)''"
| "show_state_error PolicyWrapperNotSupported =
     ''kind '' @ quoted ''policy'' @ '' documents are not parsed here; policy wrappers are handled ''
     @ ''by the policy parser''"
| "show_state_error (UnknownMatchKey key) =
     ''unknown match field '' @ quoted key @ ''; valid fields are: name, type, driver, pci_path, mac''"
| "show_state_error MatchNotMapping =
     ''the '' @ quoted ''match'' @ '' section must be a mapping of field names to string values''"
| "show_state_error (MatchValueNotString key) = ''match field '' @ quoted key @ '' must be a string''"
| "show_state_error (UnexpectedMatch i) =
     ''state at index '' @ show_nat i @ '' has a match section, which is not allowed in query YAML''"
| "show_state_error (MissingMatch i) =
     ''state at index '' @ show_nat i @ '' has no match section, which is required in policy YAML''"
| "show_state_error (InvalidFieldKey found) =
     ''invalid field key (found '' @ found @ ''); keys must be strings or numbers''"
| "show_state_error (UnsupportedScalar kind) =
     ''unsupported YAML value of type '' @ kind @ ''; quote the value to store it as a string''"
| "show_state_error (NoMatchField field i) =
     ''state at index '' @ show_nat i @ '' has no '' @ quoted field @ '' field, which is needed to ''
     @ ''generate its match''"
| "show_state_error (ReservedFieldKey key i) =
     ''state at index '' @ show_nat i @ '' has field '' @ quoted key @ '', but '' @ quoted ''match'' @ '', ''
     @ quoted ''type'' @ '', and '' @ quoted ''kind'' @ '' are reserved top-level YAML keys''"
| "show_state_error (InvalidStates errors) =
     ''schema validation failed''
     @ concat (map (\<lambda>indexed. ''; state '' @ show_nat (state_index indexed) @ '': ''
                      @ show_validation_error (ive_error indexed)) errors)"

end
