(* ===== verification/Apply.thy ===== *)
theory Apply
  imports StateFacts Errors
begin

text \<open>
  \<open>crates/netfyr-state/src/apply.rs\<close>: \<open>prepare_for_apply_with_registry\<close>, which turns query output
  into policy input.  A panic of the schema registry is \<open>Panic\<close>.
\<close>

section \<open>The code\<close>

datatype match_by = MatchByName | MatchByMac

record warning =
  warn_key :: string
  known_read_only :: bool

definition show_warning :: "warning \<Rightarrow> string" where
  "show_warning w =
     (if known_read_only w then ''dropping field '' @ quoted (warn_key w) @ '' (not settable by policy)''
      else ''dropping field '' @ quoted (warn_key w))"

record apply_outcome =
  out_states :: "dev_state list"
  out_warnings :: "warning list"

text \<open>The first loop: a query observation has its selector cleared.\<close>

definition reset_observation :: "schema_registry \<Rightarrow> dev_state \<Rightarrow> dev_state" where
  "reset_observation reg st =
     (if st_source st = Kernel
         \<and> (device_type st \<noteq> []
            \<or> list_ex (\<lambda>key. case field_info_of reg ''base'' key of
                              Some field \<Rightarrow> \<not> fi_writable field | None \<Rightarrow> False)
                (im_keys (st_fields st)))
      then st\<lparr>st_match := default_match\<rparr> else st)"

definition collect_validation_errors ::
  "dev_state list \<Rightarrow> schema_registry \<Rightarrow> bool \<Rightarrow> indexed_validation_error list option" where
  "collect_validation_errors states reg final_states =
     pconcat
       (\<lambda>(i, st).
          map_option (map (\<lambda>err. \<lparr>state_index = i, ive_error = err\<rparr>))
            (if final_states \<or> \<not> match_is_empty (st_match st) then validate_writable reg st
             else validate reg st))
       (enumerate 0 states)"

fun match_field :: "match_by \<Rightarrow> string" where
  "match_field MatchByName = ''name''"
| "match_field MatchByMac = ''mac''"

fun select_by :: "match_by \<Rightarrow> string \<Rightarrow> match_spec \<Rightarrow> match_spec" where
  "select_by MatchByName text m = m\<lparr>match_name := Some text\<rparr>"
| "select_by MatchByMac text m = m\<lparr>match_mac := Some text\<rparr>"

text \<open>One iteration of the second loop: the new state and the warnings pushed.\<close>

definition prepare_state ::
  "schema_registry \<Rightarrow> match_by \<Rightarrow> nat \<times> dev_state \<Rightarrow> (dev_state \<times> warning list, state_error) outcome" where
  "prepare_state reg mb = (\<lambda>(i, st).
     if \<not> match_is_empty (st_match st) then Ok (st, [])
     else
       obind (ok_or (im_get (st_fields st) (match_field mb)) (NoMatchField (match_field mb) i)) (\<lambda>value.
       (let match_value = (case value of VString s \<Rightarrow> s | other \<Rightarrow> show_value other);
            st1 = st\<lparr>st_match := select_by mb match_value (st_match st),
                     st_fields := im_remove (st_fields st) (match_field mb)\<rparr> in
        obind (expect (remove_read_only_fields reg st1)) (\<lambda>(st2, removed).
        (let warnings = map (\<lambda>key. \<lparr>warn_key = key, known_read_only = True\<rparr>) removed in
         Ok (if device_type st2 \<noteq> []
             then st2\<lparr>st_match := (st_match st2)\<lparr>match_type := Some (device_type st2)\<rparr>, device_type := []\<rparr>
             else st2,
             warnings))))))"

definition prepare_for_apply_with_registry ::
  "dev_state list \<Rightarrow> match_by \<Rightarrow> schema_registry \<Rightarrow> (apply_outcome, state_error) outcome" where
  "prepare_for_apply_with_registry states mb reg =
     (let states = map (reset_observation reg) states in
      obind (expect (collect_validation_errors states reg False)) (\<lambda>errors.
      if errors \<noteq> [] then Err (InvalidStates errors)
      else
        obind (otraverse (prepare_state reg mb) (enumerate 0 states)) (\<lambda>results.
        obind (expect (collect_validation_errors (map fst results) reg True)) (\<lambda>errors.
        if errors \<noteq> [] then Err (InvalidStates errors)
        else Ok \<lparr>out_states = map fst results, out_warnings = concat (map snd results)\<rparr>))))"

definition prepare_for_apply :: "dev_state list \<Rightarrow> match_by \<Rightarrow> (apply_outcome, state_error) outcome" where
  "prepare_for_apply states mb =
     obind (expect new_registry) (\<lambda>reg. prepare_for_apply_with_registry states mb reg)"

section \<open>Registries fit for apply\<close>

text \<open>
  Required properties are settable and no array is an element of an array (\<open>strip_safe_registry\<close>), the two selector
  fields are not required, and the base fragment is closed and the derived read-only flags of its fields are those of
  its own properties.  The embedded registry is such a registry, and so is the one of the policy providers.
\<close>

definition read_only_flags :: "schema_registry \<Rightarrow> fragment \<Rightarrow> bool" where
  "read_only_flags reg base \<longleftrightarrow>
     \<not> is_open (fr_root base)
     \<and> (case find_fragment reg ''base'' of
          None \<Rightarrow> True
        | Some f \<Rightarrow>
            list_all (\<lambda>(path, fi). fi_writable fi
              \<or> (case node_property (fr_root base) path of
                   Some p \<Rightarrow> \<not> sn_writable p
                 | None \<Rightarrow> path \<notin> set (trigger_keys reg))) (fr_fields f))"

definition apply_ready :: "schema_registry \<Rightarrow> bool" where
  "apply_ready reg \<longleftrightarrow>
     wf_registry reg \<and> strip_safe_registry reg
     \<and> (case base_fragment reg of
          None \<Rightarrow> False
        | Some base \<Rightarrow>
            read_only_flags reg base
            \<and> ''name'' \<notin> set (required_keys (fr_root base)) \<and> ''mac'' \<notin> set (required_keys (fr_root base)))"

lemma embedded_apply_ready: "apply_ready embedded_registry"
  using embedded_wf
  by (simp add: apply_ready_def strip_safe_registry_def read_only_flags_def base_fragment_def find_fragment_def
      trigger_keys_def List.map_filter_def embedded_registry_def embedded_json_defs node_property_def
      required_keys_def is_open_def)

section \<open>Preparation\<close>

lemma collect_Nil_iff:
  assumes "wf_registry reg"
  shows "collect_validation_errors states reg final = Some [] \<longleftrightarrow>
     (\<forall>st \<in> set states. state_conforms (final \<or> \<not> match_is_empty (st_match st)) reg st)"
proof -
  have "(if final \<or> \<not> match_is_empty (st_match st) then validate_writable reg st else validate reg st)
      = validate_inner reg st (final \<or> \<not> match_is_empty (st_match st))" for st
    by (simp add: validate_writable_def validate_def)
  then have "collect_validation_errors states reg final = Some [] \<longleftrightarrow>
      (\<forall>(i, st) \<in> set (enumerate 0 states). state_conforms (final \<or> \<not> match_is_empty (st_match st)) reg st)"
    unfolding collect_validation_errors_def pconcat_Nil_iff
    by (intro ball_cong refl) (auto simp: validate_inner_conforms [OF assms])
  then show ?thesis by (simp add: ball_enumerate)
qed

lemma collect_returns: "wf_registry reg \<Longrightarrow> \<exists>es. collect_validation_errors states reg final = Some es"
  unfolding collect_validation_errors_def
  by (rule pconcat_returns) (use validate_inner_returns in \<open>auto simp: validate_writable_def validate_def\<close>)

lemma reset_observation_fields [simp]:
  "st_fields (reset_observation reg st) = st_fields st"
  "device_type (reset_observation reg st) = device_type st"
  "state_wf (reset_observation reg st) = state_wf st"
  by (simp_all add: reset_observation_def state_wf_def)

lemma state_wf_remove: "state_wf st \<Longrightarrow> state_wf (st\<lparr>st_match := m, st_fields := im_remove (st_fields st) k\<rparr>)"
  by (auto simp: state_wf_def imap.wf_remove list_all_iff im_remove_in)

lemma conforms_remove:
  assumes reg: "wf_registry reg" "base_fragment reg = Some base" "k \<notin> set (required_keys (fr_root base))"
    and st: "state_conforms wo reg st" and wf: "im_wf (st_fields st)"
  shows "state_conforms wo reg (st\<lparr>st_match := m, st_fields := im_remove (st_fields st) k\<rparr>)"
  unfolding state_conforms_def
proof
  fix f
  assume f: "f \<in> set (fragments reg)"
  with st have c: "fragment_conforms wo reg st f" by (simp add: state_conforms_def)
  show "fragment_conforms wo reg (st\<lparr>st_match := m, st_fields := im_remove (st_fields st) k\<rparr>) f"
  proof (cases "fr_trigger f")
    case None
    with wf_base_fragment(2) [OF reg(1) f] reg(2) have "f = base" by simp
    with c reg(3) None show ?thesis
      by (fastforce simp: fragment_conforms_def entries_conform_def im_remove_in im_contains_iff image_iff)
  next
    case (Some key)
    with c show ?thesis by (auto simp: fragment_conforms_def delete_conv' split: option.splits if_splits)
  qed
qed

lemma conforms_typed:
  "state_conforms wo reg st \<Longrightarrow> state_conforms wo reg (st\<lparr>st_match := m, device_type := []\<rparr>)"
  by (auto simp: state_conforms_def fragment_conforms_def split: option.splits)

lemma apply_ready_base:
  assumes "apply_ready reg"
  obtains base where "wf_registry reg" "strip_safe_registry reg" "base_fragment reg = Some base"
    "read_only_flags reg base" "\<And>mb. match_field mb \<notin> set (required_keys (fr_root base))"
proof -
  obtain base where b: "base_fragment reg = Some base" "read_only_flags reg base"
    "''name'' \<notin> set (required_keys (fr_root base))" "''mac'' \<notin> set (required_keys (fr_root base))"
    using assms by (auto simp: apply_ready_def split: option.splits)
  have "match_field mb \<notin> set (required_keys (fr_root base))" for mb using b(3,4) by (cases mb) auto
  with that b assms show thesis by (auto simp: apply_ready_def)
qed

text \<open>One state: what the second loop makes of a state that passed the first validation.\<close>

definition prepared :: "schema_registry \<Rightarrow> dev_state \<Rightarrow> bool" where
  "prepared reg st \<longleftrightarrow> state_conforms True reg st \<and> \<not> match_is_empty (st_match st)"

lemma prepare_state_ok:
  assumes reg: "apply_ready reg" and wf: "state_wf st"
    and conf: "state_conforms (\<not> match_is_empty (st_match st)) reg st"
  shows "prepare_state reg mb (i, st) \<noteq> Panic"
    and "prepare_state reg mb (i, st) = Ok (st', ws) \<Longrightarrow> prepared reg st'"
    and "prepare_state reg mb (i, st) = Ok (st', ws) \<Longrightarrow> match_is_empty (st_match st) \<Longrightarrow> device_type st' = []"
proof -
  obtain base where base: "wf_registry reg" "strip_safe_registry reg" "base_fragment reg = Some base"
    "\<And>mb. match_field mb \<notin> set (required_keys (fr_root base))"
    using apply_ready_base [OF reg] by blast
  let ?st1 = "\<lambda>s0. st\<lparr>st_match := select_by mb s0 (st_match st),
      st_fields := im_remove (st_fields st) (match_field mb)\<rparr>"
  have wf1: "state_wf (?st1 s0)" for s0 by (rule state_wf_remove [OF wf])
  have strip: "\<exists>st2 removed. remove_read_only_fields reg (?st1 s0) = Some (st2, removed)
      \<and> device_type st2 = device_type st \<and> st_match st2 = st_match (?st1 s0)" for s0
    using remove_read_only_eq [OF base(1) _ base(3), of "?st1 s0"] wf1 [of s0]
    by (auto simp: state_wf_def)
  show "prepare_state reg mb (i, st) \<noteq> Panic"
  proof (cases "im_get (st_fields st) (match_field mb)")
    case (Some v)
    obtain s1 where s1: "s1 = (case v of VString s \<Rightarrow> s | other \<Rightarrow> show_value other)" by blast
    obtain st2 removed where "remove_read_only_fields reg (?st1 s1) = Some (st2, removed)" using strip by blast
    with Some s1 show ?thesis by (simp add: prepare_state_def Let_def)
  qed (simp add: prepare_state_def)
  have nonempty: "\<not> match_is_empty (select_by mb s0 m)" for s0 m
    by (cases mb) (simp_all add: match_is_empty_def)
  assume ok: "prepare_state reg mb (i, st) = Ok (st', ws)"
  have main: "prepared reg st' \<and> device_type st' = []" if empty: "match_is_empty (st_match st)"
  proof -
    from ok empty obtain s0 st2 removed where
      s: "remove_read_only_fields reg (?st1 s0) = Some (st2, removed)" and
      st': "st' = (if device_type st2 \<noteq> []
          then st2\<lparr>st_match := (st_match st2)\<lparr>match_type := Some (device_type st2)\<rparr>, device_type := []\<rparr> else st2)"
      by (auto simp: prepare_state_def Let_def outcome_inversions)
    have m: "st_match st2 = select_by mb s0 (st_match st)" using strip [of s0] s by auto
    have "state_conforms False reg (?st1 s0)"
      using conf empty wf by (intro conforms_remove [OF base(1,3,4)]) (simp_all add: state_wf_def)
    then have "state_conforms True reg st2"
      by (rule strip_state_conforms [OF base(1,2) wf1 _ s])
    moreover from this have "state_conforms True reg (st2\<lparr>st_match := x, device_type := []\<rparr>)" for x
      by (rule conforms_typed)
    moreover have "\<not> match_is_empty (st_match st')"
      using nonempty [of s0 "st_match st"] m st' by (auto simp: match_is_empty_def)
    ultimately show ?thesis using st' by (auto simp: prepared_def)
  qed
  show "prepared reg st'"
  proof (cases "match_is_empty (st_match st)")
    case False
    with ok conf show ?thesis by (simp add: prepare_state_def prepared_def)
  qed (use main in blast)
  show "match_is_empty (st_match st) \<Longrightarrow> device_type st' = []" using main by blast
qed

text \<open>Without these conditions on the registry the loop still returns, and what it returns selects a device.\<close>

lemma prepare_state_returns:
  assumes "wf_registry reg" "state_wf st"
  shows "prepare_state reg mb (i, st) \<noteq> Panic"
    and "prepare_state reg mb (i, st) = Ok (st', ws) \<Longrightarrow> \<not> match_is_empty (st_match st')"
proof -
  obtain base where base: "base_fragment reg = Some base" using wf_registry_base [OF assms(1)] by blast
  let ?st1 = "\<lambda>s. st\<lparr>st_match := select_by mb s (st_match st), st_fields := im_remove (st_fields st) (match_field mb)\<rparr>"
  have strip: "\<exists>st2 removed. remove_read_only_fields reg (?st1 s) = Some (st2, removed) \<and> st_match st2 = select_by mb s (st_match st)" for s
    using remove_read_only_eq [OF assms(1) _ base, of "?st1 s"] state_wf_remove [OF assms(2)]
    by (auto simp: state_wf_def)
  show "prepare_state reg mb (i, st) \<noteq> Panic"
  proof (cases "im_get (st_fields st) (match_field mb)")
    case (Some v)
    obtain s where s: "s = (case v of VString s \<Rightarrow> s | other \<Rightarrow> show_value other)" by blast
    obtain st2 removed where "remove_read_only_fields reg (?st1 s) = Some (st2, removed)" using strip by blast
    with Some s show ?thesis by (simp add: prepare_state_def Let_def)
  qed (simp add: prepare_state_def)
  have nonempty: "\<not> match_is_empty (select_by mb s m)" for s m
    by (cases mb) (simp_all add: match_is_empty_def)
  assume ok: "prepare_state reg mb (i, st) = Ok (st', ws)"
  show "\<not> match_is_empty (st_match st')"
  proof (cases "match_is_empty (st_match st)")
    case True
    from ok True obtain s st2 removed where
      s: "remove_read_only_fields reg (?st1 s) = Some (st2, removed)" and
      st': "st' = (if device_type st2 \<noteq> []
          then st2\<lparr>st_match := (st_match st2)\<lparr>match_type := Some (device_type st2)\<rparr>, device_type := []\<rparr> else st2)"
      by (auto simp: prepare_state_def Let_def outcome_inversions)
    have "st_match st2 = select_by mb s (st_match st)" using strip [of s] s by auto
    with nonempty [of s "st_match st"] st' show ?thesis by (auto simp: match_is_empty_def)
  qed (use ok in \<open>simp add: prepare_state_def\<close>)
qed

lemma first_pass:
  assumes "apply_ready reg" "collect_validation_errors (map (reset_observation reg) states) reg False = Some []"
    and "\<forall>st \<in> set states. state_wf st" and "(i, st) \<in> set (enumerate 0 (map (reset_observation reg) states))"
  shows "state_wf st" "state_conforms (\<not> match_is_empty (st_match st)) reg st"
proof -
  have st: "st \<in> set (map (reset_observation reg) states)" using assms(4) by (rule enumerate_in_set)
  then show "state_wf st" using assms(3) by auto
  have "wf_registry reg" using assms(1) by (simp add: apply_ready_def)
  from collect_Nil_iff [OF this] assms(2) st
  show "state_conforms (\<not> match_is_empty (st_match st)) reg st" by auto
qed

lemma loop_prepared:
  assumes "apply_ready reg" "collect_validation_errors (map (reset_observation reg) states) reg False = Some []"
    and "\<forall>st \<in> set states. state_wf st"
    and "otraverse (prepare_state reg mb) (enumerate 0 (map (reset_observation reg) states)) = Ok results"
  shows "\<forall>st \<in> set (map fst results). prepared reg st"
proof
  fix st
  assume "st \<in> set (map fst results)"
  then obtain ws where "(st, ws) \<in> set results" by auto
  with assms(4) obtain i st0 where "(i, st0) \<in> set (enumerate 0 (map (reset_observation reg) states))"
    "prepare_state reg mb (i, st0) = Ok (st, ws)"
    unfolding otraverse_Ok_iff list_all2_conv_all_nth by (metis in_set_conv_nth surj_pair)
  with prepare_state_ok(2) [OF assms(1) first_pass [OF assms(1-3)]] show "prepared reg st" by blast
qed

lemma final_pass:
  "apply_ready reg \<Longrightarrow> \<forall>st \<in> set states. prepared reg st \<Longrightarrow> collect_validation_errors states reg True = Some []"
  by (simp add: collect_Nil_iff prepared_def apply_ready_def)

lemma prepare_cases:
  assumes reg: "apply_ready reg" and wf: "\<forall>st \<in> set states. state_wf st"
  obtains (invalid) errors where "errors \<noteq> []"
      "collect_validation_errors (map (reset_observation reg) states) reg False = Some errors"
      "prepare_for_apply_with_registry states mb reg = Err (InvalidStates errors)"
  | (stuck) err where "otraverse (prepare_state reg mb) (enumerate 0 (map (reset_observation reg) states)) = Err err"
      "prepare_for_apply_with_registry states mb reg = Err err"
  | (finished) results where
      "otraverse (prepare_state reg mb) (enumerate 0 (map (reset_observation reg) states)) = Ok results"
      "\<forall>st \<in> set (map fst results). prepared reg st"
      "prepare_for_apply_with_registry states mb reg =
         Ok \<lparr>out_states = map fst results, out_warnings = concat (map snd results)\<rparr>"
proof -
  have wreg: "wf_registry reg" using reg by (simp add: apply_ready_def)
  let ?states = "map (reset_observation reg) states"
  obtain errors where e: "collect_validation_errors ?states reg False = Some errors"
    using collect_returns [OF wreg] by blast
  show thesis
  proof (cases "errors = []")
    case True
    note first = first_pass [OF reg e [unfolded True] wf]
    have "otraverse (prepare_state reg mb) (enumerate 0 ?states) \<noteq> Panic"
      by (rule otraverse_no_Panic) (use prepare_state_ok(1) [OF reg first] in auto)
    then show thesis
      using stuck finished loop_prepared [OF reg e [unfolded True] wf] final_pass [OF reg] e True
      by (cases "otraverse (prepare_state reg mb) (enumerate 0 ?states)")
        (fastforce simp: prepare_for_apply_with_registry_def Let_def)+
  qed (use invalid e in \<open>simp add: prepare_for_apply_with_registry_def Let_def\<close>)
qed

lemma prepare_state_error:
  "prepare_state reg mb (i, st) = Err e \<Longrightarrow> e = NoMatchField (match_field mb) i"
  by (cases "im_get (st_fields st) (match_field mb)")
    (auto simp: prepare_state_def Let_def outcome_inversions split: if_splits)

lemma otraverse_Err: "otraverse f xs = Err e \<Longrightarrow> \<exists>x \<in> set xs. f x = Err e"
  by (induction xs) (auto simp: outcome_inversions)

lemma reset_prepared:
  assumes "apply_ready reg" "state_conforms True reg st" "device_type st = []"
  shows "reset_observation reg st = st"
proof -
  obtain base where base: "wf_registry reg" "base_fragment reg = Some base" "read_only_flags reg base"
    using apply_ready_base [OF assms(1)] by blast
  obtain "base \<in> set (fragments reg)" "fr_trigger base = None"
    using wf_registry_base [OF base(1)] base(2) by force
  with assms(2) have conf: "entries_conform True (fr_root base) (st_fields st) (trigger_keys reg)"
    by (auto simp: state_conforms_def fragment_conforms_def)
  have "fi_writable fi"
    if key: "key \<in> set (im_keys (st_fields st))" and fi: "field_info_of reg ''base'' key = Some fi" for key fi
  proof -
    obtain f where f: "find_fragment reg ''base'' = Some f" "(key, fi) \<in> set (fr_fields f)"
      using fi by (auto simp: field_info_of_def bind_eq_Some_conv dest: map_of_SomeD)
    obtain v where v: "(key, v) \<in> set (st_fields st)" using key by auto
    have closed: "\<not> is_open (fr_root base)" and flags: "fi_writable fi
      \<or> (case node_property (fr_root base) key of Some p \<Rightarrow> \<not> sn_writable p | None \<Rightarrow> key \<notin> set (trigger_keys reg))"
      using base(3) f by (auto simp: read_only_flags_def list_all_iff)
    have "case node_property (fr_root base) key of Some p \<Rightarrow> sn_writable p | None \<Rightarrow> False"
      if "key \<notin> set (trigger_keys reg)"
      using conf v that closed by (auto simp: entries_conform_def split: option.splits dest!: bspec)
    moreover have "node_property (fr_root base) key = None" if "key \<in> set (trigger_keys reg)"
      using that wf_base_fragment(1) [OF base(1) \<open>base \<in> set (fragments reg)\<close> \<open>fr_trigger base = None\<close>]
      by (simp add: wf_base_def list_all_iff)
    ultimately show ?thesis
      using flags by (cases "key \<in> set (trigger_keys reg)") (auto split: option.splits)
  qed
  then show ?thesis
    using assms(3) by (auto simp: reset_observation_def list_ex_iff split: option.splits)
qed

lemma prepared_again:
  assumes "apply_ready reg" "prepared reg st" "reset_observation reg st = st"
  shows "prepare_state reg mb (i, reset_observation reg st) = Ok (st, [])"
  using assms by (simp add: prepare_state_def prepared_def)

lemma reset_idem [simp]: "reset_observation reg (reset_observation reg st) = reset_observation reg st"
  by (auto simp: reset_observation_def)

lemma result_reset:
  assumes "apply_ready reg" "state_wf st" "state_conforms (\<not> match_is_empty (st_match (reset_observation reg st))) reg (reset_observation reg st)"
    and ok: "prepare_state reg mb (i, reset_observation reg st) = Ok (st', ws)"
  shows "reset_observation reg st' = st'"
proof (cases "match_is_empty (st_match (reset_observation reg st))")
  case True
  from assms(2) have wf: "state_wf (reset_observation reg st)" by simp
  note facts = prepare_state_ok [OF assms(1) wf assms(3)]
  show ?thesis
    using reset_prepared [OF assms(1)] facts(2,3) [OF ok] True by (simp add: prepared_def)
next
  case False
  with ok show ?thesis by (auto simp: prepare_state_def)
qed

lemma loop_reset:
  assumes "apply_ready reg" "collect_validation_errors (map (reset_observation reg) states) reg False = Some []"
    and "\<forall>st \<in> set states. state_wf st"
    and "otraverse (prepare_state reg mb) (enumerate 0 (map (reset_observation reg) states)) = Ok results"
  shows "map (reset_observation reg) (map fst results) = map fst results"
proof (rule map_idI)
  fix st
  assume "st \<in> set (map fst results)"
  then obtain ws where "(st, ws) \<in> set results" by auto
  with assms(4) obtain i st1 where st1: "(i, st1) \<in> set (enumerate 0 (map (reset_observation reg) states))"
    "prepare_state reg mb (i, st1) = Ok (st, ws)"
    unfolding otraverse_Ok_iff list_all2_conv_all_nth by (metis in_set_conv_nth surj_pair)
  have "st1 \<in> set (map (reset_observation reg) states)" using st1(1) by (rule enumerate_in_set)
  then obtain st0 where st0: "st0 \<in> set states" "st1 = reset_observation reg st0" by auto
  show "reset_observation reg st = st"
    by (rule result_reset [OF assms(1), of st0])
      (use assms(3) st0 st1 first_pass(2) [OF assms(1-3) st1(1)] in auto)
qed

end
