(* ===== verification/RegistryAdd.thy ===== *)
theory RegistryAdd
  imports SchemaRegFacts
begin

text \<open>
  \<open>SchemaRegistry::add_schema_node\<close> keeps the registry invariant, changes nothing when it reports an
  error, and puts the node exactly where the path says.
\<close>

section \<open>The descent\<close>

fun node_at :: "string list \<Rightarrow> schema_node \<Rightarrow> schema_node option" where
  "node_at [] n = Some n"
| "node_at (part # parts) n = Option.bind (node_property n part) (node_at parts)"

lemma set_properties_ok: "node_ok n \<Longrightarrow> (\<forall>(k, p) \<in> set ps. node_ok p) \<Longrightarrow> node_ok (set_properties ps n)"
  unfolding node_ok_iff [of n] node_ok_iff [of "set_properties ps n"] semantic_type_def by simp

lemma set_properties_wf:
  "node_wf n \<Longrightarrow> im_wf ps \<Longrightarrow> (\<forall>(k, p) \<in> set ps. node_wf p) \<Longrightarrow> node_wf (set_properties ps n)"
  by (cases n) (auto simp: list_all_iff)

lemma set_properties_property [simp]: "node_property (set_properties ps n) k = im_get ps k"
  by (simp add: node_property_def)

lemma properties_or_new_get [simp]: "im_get (properties_or_new n) k = node_property n k"
  by (simp add: properties_or_new_def node_property_def split: option.split)

lemma properties_or_new_ok: "node_ok n \<Longrightarrow> \<forall>(k, p) \<in> set (properties_or_new n). node_ok p"
  by (cases "sn_properties n") (use node_ok_iff [of n] in \<open>auto simp: properties_or_new_def\<close>)

lemma properties_or_new_wf:
  "node_wf n \<Longrightarrow> im_wf (properties_or_new n) \<and> (\<forall>(k, p) \<in> set (properties_or_new n). node_wf p)"
  by (cases n) (auto simp: properties_or_new_def list_all_iff split: option.split)

lemma node_wf_property: "node_wf n \<Longrightarrow> node_property n k = Some p \<Longrightarrow> node_wf p"
  using properties_or_new_wf [of n] by (auto dest!: map_of_SomeD simp flip: properties_or_new_get)

lemma update_ball: "\<forall>(k, p) \<in> set ps. P p \<Longrightarrow> P q \<Longrightarrow> \<forall>(k, p) \<in> set (im_insert ps k q). P p"
  by (induction ps) auto

lemma insert_child_wf:
  assumes "node_ok n" "node_wf n" "node_ok c" "node_wf c"
  shows "node_ok (set_properties (im_insert (properties_or_new n) k c) n)
    \<and> node_wf (set_properties (im_insert (properties_or_new n) k c) n)"
  using assms properties_or_new_ok [of n] properties_or_new_wf [of n]
  by (intro conjI set_properties_ok set_properties_wf update_ball imap.wf_put) simp_all

lemma insert_node_wf:
  "\<lbrakk>node_ok parent; node_wf parent; node_ok node; node_wf node\<rbrakk>
   \<Longrightarrow> node_ok (snd (insert_node parts path node parent)) \<and> node_wf (snd (insert_node parts path node parent))"
proof (induction parts path node parent rule: insert_node.induct)
  case (2 name path node parent)
  then show ?case
    using insert_child_wf [of parent node name] properties_or_new_ok [of parent] properties_or_new_wf [of parent]
    by (auto simp: Let_def intro: set_properties_ok set_properties_wf)
next
  case (3 part p parts path node parent)
  let ?c = "case im_get (properties_or_new parent) part of Some c \<Rightarrow> c | None \<Rightarrow> writable_object"
  have c: "node_ok ?c" "node_wf ?c"
    using node_ok_property [OF "3.prems"(1)] node_wf_property [OF "3.prems"(2)] node_ok_writable_object
    by (auto simp: writable_object_def split: option.split)
  have "node_ok (snd (insert_node (p # parts) path node ?c)) \<and> node_wf (snd (insert_node (p # parts) path node ?c))"
    if "sn_type ?c = Some TObject"
    by (rule "3.IH" [OF refl refl]) (use that c "3.prems" in auto)
  with c show ?case
    using insert_child_wf [OF "3.prems"(1,2)] by (auto simp: Let_def split: prod.split)
qed simp

lemma insert_other:
  "parts \<noteq> [] \<Longrightarrow> k \<noteq> hd parts \<Longrightarrow> node_property (snd (insert_node parts path node parent)) k = node_property parent k"
  by (induction parts path node parent rule: insert_node.induct)
    (auto simp: Let_def update_conv' split: prod.split)

lemma insert_keeps:
  "node_property parent k \<noteq> None \<Longrightarrow> node_property (snd (insert_node parts path node parent)) k \<noteq> None"
  by (induction parts path node parent rule: insert_node.induct)
    (auto simp: Let_def update_conv' split: prod.split)

lemma insert_at:
  "fst (insert_node parts path node parent) = Ok () \<Longrightarrow>
     node_at parts (snd (insert_node parts path node parent)) = Some node"
proof (induction parts path node parent rule: insert_node.induct)
  case (3 part p parts path node parent)
  from "3.IH" [OF refl refl] "3.prems" show ?case
    by (auto simp: Let_def update_conv' split: prod.splits if_splits)
qed (auto simp: Let_def update_conv' split: if_splits)

lemma insert_keeps_root:
  "sn_type (snd (insert_node parts path node parent)) = sn_type parent"
  "sn_required (snd (insert_node parts path node parent)) = sn_required parent"
  "sn_items (snd (insert_node parts path node parent)) = sn_items parent"
  by (induction parts path node parent rule: insert_node.induct) (auto simp: Let_def split: prod.split)

section \<open>The registry\<close>

lemma validate_no_Panic: "validate_schema_node n \<noteq> Panic" "validate_properties ps \<noteq> Panic"
proof (induction n and ps rule: validate_schema_node_validate_properties.induct)
  case (1 ty fmt wr mn mx en ps rq it ap im)
  have "semantic_type_of ty fmt \<noteq> Panic" by (cases ty; cases fmt; cases "the ty"; cases "the fmt") auto
  moreover have "omap_err f m \<noteq> Panic" if "m \<noteq> Panic" for f :: "string \<Rightarrow> string" and m :: "(unit, string) outcome"
    using that by (cases m) auto
  ultimately show ?case using 1
    by (cases "semantic_type_of ty fmt") (auto simp: outcome_inversions split: option.splits)
next
  case (3 name property rest)
  then show ?case by (cases "validate_schema_node property") auto
qed simp

lemma update_first_map:
  "distinct (map h xs) \<Longrightarrow> update_first (\<lambda>g. h g = n) f xs = map (\<lambda>g. if h g = n then f g else g) xs"
proof (induction xs)
  case (Cons x xs)
  then show ?case by (auto simp: image_iff intro!: map_idI [symmetric])
qed simp

lemma update_first_same:
  "List.find p xs = Some x \<Longrightarrow> update_first p (\<lambda>_. x) xs = xs"
  by (induction xs) (auto split: if_splits)

lemma find_fragment_in: "find_fragment reg n = Some f \<Longrightarrow> f \<in> set (fragments reg) \<and> fr_name f = n"
  unfolding find_fragment_def by (rule find_in)

text \<open>The outcomes of \<open>add_schema_node\<close> on a registry that satisfies the invariant.\<close>

lemma add_schema_node_cases:
  assumes "wf_registry reg" "add_schema_node frag path (Ok node) reg = (result, reg')"
  obtains (rejected) e where "result = Err e" "reg' = reg"
  | (added) f root' flat where
      "result = Ok ()" "find_fragment reg frag = Some f" "node_ok node" "split_on CHR ''.'' path \<noteq> []"
      "insert_node (split_on CHR ''.'' path) path node (fr_root f) = (Ok (), root')"
      "fr_trigger f = None \<Longrightarrow> hd (split_on CHR ''.'' path) \<notin> set (trigger_keys reg)"
      "derive_fields root' [] [] = Some flat"
      "reg' = reg\<lparr>fragments := map (\<lambda>g. if fr_name g = frag then f\<lparr>fr_root := root', fr_fields := sort_key fst flat\<rparr> else g)
          (fragments reg)\<rparr>"
  | (no_return) f root' where "find_fragment reg frag = Some f" "result = Panic" "node_ok node"
      "insert_node (split_on CHR ''.'' path) path node (fr_root f) = (Ok (), root')"
      "derive_fields root' [] [] = None"
proof -
  let ?parts = "split_on CHR ''.'' path"
  note def = assms(2) [unfolded add_schema_node_def Let_def, simplified]
  show thesis
  proof (cases "validate_schema_node node")
    case (Ok u)
    then have ok: "node_ok node" by (simp add: node_ok_def)
    show thesis
    proof (cases "?parts = [] \<or> list_ex (\<lambda>part. part = []) ?parts")
      case False
      show thesis
      proof (cases "find_fragment reg frag")
        case (Some f)
        then have f: "f \<in> set (fragments reg)" "fr_name f = frag" using find_fragment_in by auto
        obtain r root' where i: "insert_node ?parts path node (fr_root f) = (r, root')" by fastforce
        show thesis
        proof (cases "fr_trigger f = None \<and> list_ex (\<lambda>f. fr_trigger f = Some (hd ?parts)) (fragments reg)")
          case True
          with def Ok False Some rejected show thesis by auto
        next
          case free: False
          then have keys: "fr_trigger f = None \<Longrightarrow> hd ?parts \<notin> set (trigger_keys reg)"
            by (auto simp: list_ex_iff trigger_keys_iff)
          show thesis
          proof (cases r)
            case r: (Ok u)
            show thesis
            proof (cases "derive_fields root' [] []")
              case None
              with def Ok False Some free i r have "result = Panic" by (auto split: if_splits)
              with Some ok i r None no_return show thesis by simp
            next
              case flat: (Some flat)
              have d: "distinct (map fr_name (fragments reg))" using assms(1) by (simp add: wf_registry_def)
              from def Ok False Some free i r flat
              have "result = Ok ()" "reg' = reg\<lparr>fragments := update_first (\<lambda>g. fr_name g = frag)
                  (\<lambda>_. f\<lparr>fr_root := root', fr_fields := sort_key fst flat\<rparr>) (fragments reg)\<rparr>"
                by (auto split: if_splits)
              then show thesis using added [OF _ Some ok _ _ keys flat] False i r
                by (simp add: update_first_map [OF d])
            qed
          next
            case (Err e)
            then have "root' = fr_root f" using insert_error_unchanged i by blast
            then have "f\<lparr>fr_root := root'\<rparr> = f" by simp
            with def Ok False Some free i Err have "result = Err e" "reg' = reg\<lparr>fragments :=
                update_first (\<lambda>g. fr_name g = frag) (\<lambda>_. f) (fragments reg)\<rparr>"
              by (auto split: if_splits)
            with Some show thesis by (intro rejected [of e]) (simp_all add: update_first_same find_fragment_def)
          next
            case Panic
            with insert_no_Panic [of ?parts path node "fr_root f"] False i show thesis by simp
          qed
        qed
      qed (use def Ok False rejected in auto)
    qed (use def Ok rejected in auto)
  next
    case Panic
    with validate_no_Panic(1) show thesis by metis
  qed (use def rejected in auto)
qed

lemma map_replace_in: "x \<in> set (map (\<lambda>g. if P g then f' else g) xs) \<Longrightarrow> x = f' \<or> x \<in> set xs"
  by auto

lemma added_fragment_wf:
  assumes "wf_fragment f" "node_ok node" "node_wf node"
    and "insert_node parts path node (fr_root f) = (r, root')"
    and "derive_fields root' [] [] = Some flat"
  shows "wf_fragment (f\<lparr>fr_root := root', fr_fields := sort_key fst flat\<rparr>)"
  using insert_node_wf [of "fr_root f" node parts path] assms by (simp add: wf_fragment_def)

lemma replaced_lookups:
  assumes "wf_registry reg" "find_fragment reg frag = Some f" "fr_name f' = fr_name f" "fr_trigger f' = fr_trigger f"
  defines "reg' \<equiv> reg\<lparr>fragments := map (\<lambda>g. if fr_name g = frag then f' else g) (fragments reg)\<rparr>"
  shows "map fr_name (fragments reg') = map fr_name (fragments reg)"
    and "map fr_trigger (fragments reg') = map fr_trigger (fragments reg)"
    and "trigger_keys reg' = trigger_keys reg"
    and "find_fragment reg' frag = Some f'"
proof -
  have f: "f \<in> set (fragments reg)" "fr_name f = frag" using find_fragment_in [OF assms(2)] by auto
  have same: "g = f" if "g \<in> set (fragments reg)" "fr_name g = frag" for g
    using assms(1) f that by (auto simp: wf_registry_def distinct_map inj_on_def)
  show names: "map fr_name (fragments reg') = map fr_name (fragments reg)"
    using f assms(3) by (simp add: reg'_def)
  show trig: "map fr_trigger (fragments reg') = map fr_trigger (fragments reg)"
    using assms(4) same by (auto simp: reg'_def)
  have "trigger_keys r = map the (filter (\<lambda>t. t \<noteq> None) (map fr_trigger (fragments r)))" for r :: schema_registry
    by (simp add: trigger_keys_def List.map_filter_def filter_map o_def)
  then show "trigger_keys reg' = trigger_keys reg" using trig by metis
  have "List.find (\<lambda>g. fr_name g = frag) (map (\<lambda>g. if fr_name g = frag then f' else g) xs) = Some f'"
    if "\<exists>g \<in> set xs. fr_name g = frag" for xs
    using that f(2) assms(3) by (induction xs) auto
  then show "find_fragment reg' frag = Some f'" using f by (auto simp: find_fragment_def reg'_def)
qed

text \<open>The fragment that \<open>base_fragment\<close> finds depends on the triggers only.\<close>

lemma base_replaced:
  assumes "wf_registry reg" "find_fragment reg frag = Some f" "fr_trigger f' = fr_trigger f" "base_fragment reg = Some base"
  shows "base_fragment (reg\<lparr>fragments := map (\<lambda>g. if fr_name g = frag then f' else g) (fragments reg)\<rparr>)
    = Some (if fr_name base = frag then f' else base)"
proof -
  have f: "f \<in> set (fragments reg)" "fr_name f = frag" using find_fragment_in [OF assms(2)] by auto
  have same: "g = f" if "g \<in> set (fragments reg)" "fr_name g = frag" for g
    using assms(1) f that by (auto simp: wf_registry_def distinct_map inj_on_def)
  have "List.find (\<lambda>g. fr_trigger g = None) (map (\<lambda>g. if fr_name g = frag then f' else g) xs)
     = map_option (\<lambda>g. if fr_name g = frag then f' else g) (List.find (\<lambda>g. fr_trigger g = None) xs)"
    if "set xs \<subseteq> set (fragments reg)" for xs
    using that same assms(3) by (induction xs) auto
  with assms(4) show ?thesis by (simp add: base_fragment_def)
qed

lemma add_schema_node_wf:
  assumes reg: "wf_registry reg" and node: "node_wf node"
    and add: "add_schema_node frag path (Ok node) reg = (result, reg')"
  shows "wf_registry reg'" "result \<noteq> Panic"
proof -
  have "wf_registry reg' \<and> result \<noteq> Panic"
    using reg add
  proof (cases rule: add_schema_node_cases)
    case (rejected e)
    with reg show ?thesis by simp
  next
    case (no_return f root')
    have "wf_fragment f" using find_fragment_in [OF no_return(1)] wf_registry_fragment [OF reg] by blast
    then have "node_ok root'"
      using insert_node_wf [of "fr_root f" node "split_on CHR ''.'' path" path] no_return(3,4) node
      by (simp add: wf_fragment_def)
    with derive_fields_returns(1) [of root' "[]" "[]"] no_return(5) show ?thesis by simp
  next
    case (added f root' flat)
    let ?parts = "split_on CHR ''.'' path" and ?f' = "f\<lparr>fr_root := root', fr_fields := sort_key fst flat\<rparr>"
    have f: "f \<in> set (fragments reg)" "fr_name f = frag" using find_fragment_in [OF added(2)] by auto
    have new: "wf_fragment ?f'"
      by (rule added_fragment_wf [OF wf_registry_fragment [OF reg f(1)] added(3) node added(5,7)])
    obtain base where base: "base_fragment reg = Some base" "base \<in> set (fragments reg)" "fr_trigger base = None"
      "wf_base reg base"
      using wf_registry_base [OF reg] by blast
    note facts = replaced_lookups [OF reg added(2), of ?f', folded added(8), simplified]
    have base': "base_fragment reg' = Some (if fr_name base = frag then ?f' else base)"
      using base_replaced [OF reg added(2) _ base(1), of ?f'] added(8) by simp
    have "wf_base reg' (if fr_name base = frag then ?f' else base)"
    proof (cases "fr_name base = frag")
      case True
      with base(2) f reg have fb: "f = base" by (auto simp: wf_registry_def distinct_map inj_on_def)
      have root': "root' = snd (insert_node ?parts path node (fr_root f))" using added(5) by simp
      have "node_property root' ''type'' \<noteq> None"
        unfolding root' using base(4) fb by (intro insert_keeps) (simp add: wf_base_def)
      moreover have "node_property root' key = None" if "key \<in> set (trigger_keys reg)" for key
        unfolding root' using that base(3,4) fb added(4,6)
        by (subst insert_other) (auto simp: wf_base_def list_all_iff)
      ultimately show ?thesis using True by (auto simp: wf_base_def facts list_all_iff)
    qed (use base(4) in \<open>simp add: wf_base_def facts\<close>)
    moreover have "list_all wf_fragment (fragments reg')"
      using new wf_registry_fragment [OF reg] added(8) by (auto simp: list_all_iff)
    ultimately show ?thesis using reg facts base' added(1) by (simp add: wf_registry_def)
  qed
  then show "wf_registry reg'" "result \<noteq> Panic" by auto
qed

end
