(* ===== verification/Plan.thy ===== *)
theory Plan
  imports Model
begin

text \<open>
  \<open>crates/netfyr-state/src/plan.rs\<close>: observations of the kernel, the operations of a plan and the
  arithmetic of IPv4 addresses (prefix groups and lifetimes).  An \<open>Instant\<close> is its count of
  nanoseconds.
\<close>

record namespace_id =
  ns_device :: u64
  ns_inode :: u64

record interface_id =
  if_namespace :: namespace_id
  if_index :: u32
  if_generation :: u64
  if_name :: string
  if_device_type :: string
  if_mac :: "string option"

record ipv4_address =
  ip :: ipv4_addr
  prefix_len :: u8
  valid_lft :: "u32 option"
  preferred_lft :: "u32 option"

datatype address_error = PrefixTooLong | ZeroValidLifetime | PreferredExceedsValid

fun show_address_error :: "address_error \<Rightarrow> string" where
  "show_address_error PrefixTooLong = ''IPv4 prefix length exceeds 32''"
| "show_address_error ZeroValidLifetime = ''IPv4 valid lifetime must be greater than zero''"
| "show_address_error PreferredExceedsValid = ''IPv4 preferred lifetime exceeds valid lifetime''"

definition u32_max :: u32 where
  "u32_max = 0xFFFFFFFF"

text \<open>\<open>u32::checked_shl\<close>: \<open>None\<close> when the shift is not below the width.\<close>

definition checked_shl :: "u32 \<Rightarrow> nat \<Rightarrow> u32 option" where
  "checked_shl x n = (if n < 32 then Some (push_bit n x) else None)"

definition masked :: "ipv4_addr \<Rightarrow> u8 \<Rightarrow> (ipv4_addr \<times> u8) option" where
  "masked a len =
     (if len > 32 then None
      else
        let mask = (case checked_shl u32_max (unat (32 - len)) of Some m \<Rightarrow> m | None \<Rightarrow> 0) in
        Some (a AND mask, len))"

definition group :: "ipv4_address \<Rightarrow> (ipv4_addr \<times> u8) option" where
  "group a = masked (ip a) (prefix_len a)"

definition same_identity :: "ipv4_address \<Rightarrow> ipv4_address \<Rightarrow> bool" where
  "same_identity a b = (ip a = ip b \<and> prefix_len a = prefix_len b)"

definition lifetimes :: "ipv4_address \<Rightarrow> u32 \<times> u32" where
  "lifetimes a =
     (let valid = (case valid_lft a of Some v \<Rightarrow> v | None \<Rightarrow> u32_max) in
      (valid, (case preferred_lft a of Some p \<Rightarrow> p | None \<Rightarrow> valid)))"

definition validate_address :: "ipv4_address \<Rightarrow> (unit, address_error) outcome" where
  "validate_address a =
     (if prefix_len a > 32 then Err PrefixTooLong
      else
        let (valid, preferred) = lifetimes a in
        if valid = 0 then Err ZeroValidLifetime
        else if preferred > valid then Err PreferredExceedsValid
        else Ok ())"

record address_observation =
  address :: ipv4_address
  addr_flags :: u32
  scope :: u8
  peer :: "ipv4_addr option"

definition kernel_group :: "address_observation \<Rightarrow> (ipv4_addr \<times> u8) option" where
  "kernel_group e =
     masked (case peer e of Some p \<Rightarrow> p | None \<Rightarrow> ip (address e)) (prefix_len (address e))"

record diagnostic =
  diag_target :: "interface_id option"
  diag_field :: "string option"
  diag_message :: string

record device_observation =
  identity :: interface_id
  dev_st :: dev_state
  addresses :: "address_observation list"
  addresses_complete :: bool
  observed_at :: nat

record observation =
  devices :: "device_observation list"
  diagnostics :: "diagnostic list"

definition empty_observation :: observation where
  "empty_observation = \<lparr>devices = [], diagnostics = []\<rparr>"

record address_group_precondition =
  pre_addresses :: "address_observation list"
  pre_observed_at :: nat

datatype operation_kind =
    SetMtu u32
  | SetEnabled bool
  | AddIpv4 ipv4_address
  | RemoveIpv4 ipv4_address
  | ReplaceIpv4 ipv4_address
  | SetField string cval
  | AddEntity
  | RemoveEntity

fun kind_name :: "operation_kind \<Rightarrow> string" where
  "kind_name (SetMtu _) = ''set_mtu''"
| "kind_name (SetEnabled _) = ''set_enabled''"
| "kind_name (AddIpv4 _) = ''add_ipv4''"
| "kind_name (RemoveIpv4 _) = ''remove_ipv4''"
| "kind_name (ReplaceIpv4 _) = ''replace_ipv4''"
| "kind_name (SetField _ _) = ''set_field''"
| "kind_name AddEntity = ''add_entity''"
| "kind_name RemoveEntity = ''remove_entity''"

fun kind_address :: "operation_kind \<Rightarrow> ipv4_address option" where
  "kind_address (AddIpv4 a) = Some a"
| "kind_address (RemoveIpv4 a) = Some a"
| "kind_address (ReplaceIpv4 a) = Some a"
| "kind_address _ = None"

fun kind_field :: "operation_kind \<Rightarrow> string option" where
  "kind_field (SetMtu _) = Some ''mtu''"
| "kind_field (SetEnabled _) = Some ''enabled''"
| "kind_field (AddIpv4 _) = Some ''ipv4.addresses''"
| "kind_field (RemoveIpv4 _) = Some ''ipv4.addresses''"
| "kind_field (ReplaceIpv4 _) = Some ''ipv4.addresses''"
| "kind_field (SetField f _) = Some f"
| "kind_field AddEntity = None"
| "kind_field RemoveEntity = None"

record operation =
  target :: interface_id
  op_kind :: operation_kind
  depends_on :: "nat list"
  address_group :: "address_group_precondition option"

record field_change =
  fc_target :: interface_id
  fc_field :: string
  fc_old :: "cval option"
  fc_desired :: "cval option"
  fc_source :: source

record state_diff =
  changes :: "field_change list"
  operations :: "operation list"
  diff_diagnostics :: "diagnostic list"

section \<open>Prefix groups\<close>

text \<open>Masking to a prefix keeps the leading bits: division by the size of the host part.\<close>

definition host_size :: "u8 \<Rightarrow> nat" where
  "host_size len = 2 ^ (32 - unat len)"

lemma mask_and: "n \<le> 32 \<Longrightarrow> a AND (case checked_shl u32_max n of Some m \<Rightarrow> m | None \<Rightarrow> 0)
    = push_bit n (drop_bit n (a :: u32))"
proof (cases "n < 32")
  case True
  have m: "u32_max = mask 32" by (simp add: u32_max_def mask_eq_exp_minus_1)
  have u: "bit u32_max k \<longleftrightarrow> k < 32" for k unfolding m bit_mask_iff by auto
  show ?thesis
  proof (rule bit_word_eqI)
    fix k
    assume "k < LENGTH(32)"
    then show "bit (a AND (case checked_shl u32_max n of Some m \<Rightarrow> m | None \<Rightarrow> 0)) k
        = bit (push_bit n (drop_bit n a)) k"
      using True by (auto simp: checked_shl_def bit_and_iff bit_push_bit_iff bit_drop_bit_eq u)
  qed
next
  case False
  assume "n \<le> 32"
  with False have n: "n = 32" by simp
  have "drop_bit 32 a = 0" by (rule bit_word_eqI) (simp add: bit_drop_bit_eq)
  then show ?thesis by (simp add: n checked_shl_def)
qed

lemma unat_prefix_diff: "len \<le> (32::u8) \<Longrightarrow> unat (32 - len) = 32 - unat len"
  by (simp add: unat_sub_if' word_le_nat_alt)

lemma masked_eq:
  "masked a len = (if len > 32 then None
     else Some (push_bit (32 - unat len) (drop_bit (32 - unat len) a), len))"
  by (auto simp: masked_def mask_and unat_prefix_diff Let_def not_less)

lemma masked_Some: "masked a len = Some g \<Longrightarrow> len \<le> 32 \<and> snd g = len"
  by (auto simp: masked_eq split: if_splits)

lemma drop_bit_eq_iff_unat:
  "drop_bit n (a::u32) = drop_bit n b \<longleftrightarrow> unat a div 2 ^ n = unat b div 2 ^ n"
  unfolding word_unat_eq_iff unat_drop_bit_eq by (simp only: drop_bit_eq_div)

end
