(* ===== verification/StateProps.thy ===== *)
theory StateProps
  imports Apply RegistryAdd Plan
begin

text \<open>
  The properties of the state crate: addresses and their prefix groups, the schema registry, validation and the
  preparation of states for apply.
\<close>

section \<open>Addresses\<close>

text \<open>The text of an IPv4 network is parsed back to the same address, host bits included, and prefix length.\<close>

theorem network_text_round_trip:
  assumes "p \<le> 32"
  shows "parse_ip_network (show_network (V4 a, p)) = Some (V4 a, p)"
  using assms by (rule parse_show_ipv4_network)

theorem network_text_round_trip_witness:
  "parse_ip_network (show_network (V4 0xC0A80001, 24)) = Some (V4 0xC0A80001, 24)"
  by (rule network_text_round_trip) simp

text \<open>Two addresses have the same prefix group exactly when they have the same valid prefix length and agree in
  all bits above the host part; an over-long prefix has no group.\<close>

theorem same_group_iff:
  "group a = group b \<longleftrightarrow>
     (prefix_len a > 32 \<and> prefix_len b > 32)
     \<or> (prefix_len a \<le> 32 \<and> prefix_len a = prefix_len b
        \<and> unat (ip a) div host_size (prefix_len a) = unat (ip b) div host_size (prefix_len a))"
proof -
  have push: "push_bit n x = push_bit n y \<longleftrightarrow> x = y" if "x = drop_bit n u" "y = drop_bit n v" for n and x y u v :: u32
  proof
    assume eq: "push_bit n x = push_bit n y"
    have "drop_bit n (push_bit n (drop_bit n w)) = drop_bit n w" for w :: u32
      by (rule bit_word_eqI) (auto simp: bit_simps dest: bit_imp_le_length)
    then show "x = y" using eq that by metis
  qed simp
  show ?thesis
    unfolding group_def masked_eq host_size_def
    using push [OF refl refl, of "32 - unat (prefix_len a)" "ip a" "ip b"]
    by (auto simp: drop_bit_eq_iff_unat not_less)
qed

section \<open>Selectors\<close>

text \<open>Selection is a preorder: a selector matches itself, a selector that matches another matches everything the
  other matches, and the empty selector matches everything.\<close>

theorem selection_preorder:
  "matches m m \<and> matches default_match m \<and> (matches a b \<and> matches b c \<longrightarrow> matches a c)"
proof (intro conjI impI)
  show "matches m m" by (rule device_selector.sel_refl)
  show "matches default_match m" by (simp add: matches_def default_match_def)
  show "matches a c" if "matches a b \<and> matches b c" using that matches_trans by blast
qed

theorem selection_preorder_witness:
  "matches (default_match\<lparr>match_mac := Some ''AA:bb''\<rparr>) (default_match\<lparr>match_mac := Some ''aa:BB'', match_name := Some ''e''\<rparr>)"
proof -
  let ?b = "default_match\<lparr>match_mac := Some ''aa:bb''\<rparr>"
  have "matches (default_match\<lparr>match_mac := Some ''AA:bb''\<rparr>) ?b
      \<and> matches ?b (default_match\<lparr>match_mac := Some ''aa:BB'', match_name := Some ''e''\<rparr>)"
    by (simp add: matches_def default_match_def eq_ignore_ascii_case_def to_ascii_lowercase_def)
  then show ?thesis
    using selection_preorder [of default_match "default_match\<lparr>match_mac := Some ''AA:bb''\<rparr>" ?b] by blast
qed

section \<open>The schema registry\<close>

text \<open>The registry of the embedded documents is built without a panic, satisfies the registry invariant and is fit
  for the query-to-apply preparation.\<close>

theorem embedded_registry_ready: "\<exists>reg. new_registry = Some reg \<and> wf_registry reg \<and> apply_ready reg"
  using new_registry_embedded embedded_wf embedded_apply_ready by blast

text \<open>C37: adding a schema node to a registry that satisfies the invariant never panics; on an error the registry is
  unchanged; on success the invariant holds again and the node is found at its path in the fragment.\<close>

theorem add_schema_node_atomic:
  assumes "wf_registry reg" "node_wf node"
  shows "case add_schema_node frag path (Ok node) reg of
           (Ok _, reg') \<Rightarrow> wf_registry reg'
             \<and> (\<exists>f. find_fragment reg' frag = Some f \<and> node_at (split_on CHR ''.'' path) (fr_root f) = Some node)
         | (Err _, reg') \<Rightarrow> reg' = reg
         | (Panic, _) \<Rightarrow> False"
proof -
  obtain r reg' where add: "add_schema_node frag path (Ok node) reg = (r, reg')" by fastforce
  note wf = add_schema_node_wf [OF assms add]
  show ?thesis
    using assms(1) add
  proof (cases rule: add_schema_node_cases)
    case (added f root' flat)
    let ?f' = "f\<lparr>fr_root := root', fr_fields := sort_key fst flat\<rparr>"
    have "find_fragment reg' frag = Some ?f'"
      using replaced_lookups(4) [OF assms(1) added(2), of ?f'] added(8) by simp
    moreover have "node_at (split_on CHR ''.'' path) root' = Some node"
      using insert_at [of "split_on CHR ''.'' path" path node "fr_root f"] added(5) by simp
    ultimately show ?thesis using wf added(1) by (simp add: add)
  qed (use wf in \<open>simp_all add: add\<close>)
qed

theorem add_schema_node_atomic_witness:
  "case add_schema_node ''ipv4'' ''dhcp4'' (Ok writable_object) embedded_registry of
     (Ok _, reg') \<Rightarrow> wf_registry reg'
       \<and> (\<exists>f. find_fragment reg' ''ipv4'' = Some f \<and> node_at (split_on CHR ''.'' ''dhcp4'') (fr_root f) = Some writable_object)
   | (Err _, reg') \<Rightarrow> reg' = embedded_registry
   | (Panic, _) \<Rightarrow> False"
  by (rule add_schema_node_atomic [OF embedded_wf]) (simp add: writable_object_def)

section \<open>Validation\<close>

definition query_state :: dev_state where
  "query_state = (new_state \<lparr>md_id = 1, md_created_at = 0\<rparr> Kernel)
     \<lparr>device_type := ''ethernet'',
      st_fields := [(''name'', VString ''eth0''), (''mtu'', VU64 1500),
        (''ethernet'', VMap [(''speed'', VU64 1000), (''duplex'', VString ''full'')])]\<rparr>"

lemma query_state_wf: "state_wf query_state"
  by (simp add: state_wf_def query_state_def)

lemma query_state_conforms: "state_conforms False embedded_registry query_state"
  by (simp add: state_conforms_def fragment_conforms_def embedded_registry_def embedded_json_defs
      query_state_def new_state_def entries_conform_def trigger_keys_def List.map_filter_def node_property_def
      conforms_scalar conforms_map_entries in_range_def semantic_type_def required_keys_def im_contains_def)

text \<open>Validating any state against a registry that satisfies the invariant returns, and query mode reports exactly
  what policy mode reports without the read-only fields, in the same order.\<close>

theorem validation_modes:
  assumes "wf_registry reg"
  shows "\<exists>errors. validate_writable reg st = Some errors
     \<and> validate reg st = Some (filter (\<lambda>e. \<not> is_read_only_error e) errors)"
  using validate_inner_returns [OF assms, of st True] validate_modes [of reg st]
  by (auto simp: validate_writable_def)

theorem validation_modes_witness:
  "\<exists>errors. validate_writable embedded_registry query_state = Some errors
     \<and> validate embedded_registry query_state = Some (filter (\<lambda>e. \<not> is_read_only_error e) errors)"
  by (rule validation_modes [OF embedded_wf])

text \<open>C36: validation accepts exactly the states that conform to the schema documents: every field is declared (or its
  object is open), has the declared type, format, range and enumeration, and the required fields are there; in policy
  mode every declared field on the way is also settable.\<close>

theorem validation_exact:
  assumes "wf_registry reg"
  shows "(validate reg st = Some [] \<longleftrightarrow> state_conforms False reg st)
     \<and> (validate_writable reg st = Some [] \<longleftrightarrow> state_conforms True reg st)"
  unfolding validate_def validate_writable_def using validate_inner_conforms [OF assms] by blast

theorem validation_exact_witness: "validate embedded_registry query_state = Some []"
  using validation_exact [OF embedded_wf, of query_state] query_state_conforms by blast

text \<open>C35: removing the read-only fields of a state that is valid in query mode gives a state that is valid in policy
  mode, when the registry requires only settable properties and no array of it is an element of an array.  The second
  condition is needed: the removal does not look into an array that is nested directly in another.\<close>

theorem stripped_state_is_policy:
  assumes "wf_registry reg" "\<And>f. f \<in> set (fragments reg) \<Longrightarrow> requires_settable (fr_root f) \<and> flat_arrays (fr_root f)"
    and "state_wf st" "validate reg st = Some []"
  shows "\<exists>st' removed. remove_read_only_fields reg st = Some (st', removed) \<and> validate_writable reg st' = Some []"
proof -
  obtain base where "base_fragment reg = Some base" using wf_registry_base [OF assms(1)] by blast
  then obtain st' removed where r: "remove_read_only_fields reg st = Some (st', removed)"
    by (cases "foldl (remove_key reg base) (st_fields st, []) (im_keys (st_fields st))")
      (simp add: remove_read_only_fields_def)
  have "state_conforms False reg st"
    using assms(4) validate_inner_conforms [OF assms(1)] by (simp add: validate_def)
  moreover have "strip_safe_registry reg" using assms(2) by (simp add: strip_safe_registry_def list_all_iff strip_safe_iff)
  ultimately have "state_conforms True reg st'" using strip_state_conforms [OF assms(1) _ assms(3) _ r] by blast
  with r show ?thesis
    using validate_inner_conforms [OF assms(1)] by (auto simp: validate_writable_def)
qed

theorem stripped_state_is_policy_witness:
  "\<exists>st' removed. remove_read_only_fields embedded_registry query_state = Some (st', removed)
     \<and> validate_writable embedded_registry st' = Some []"
proof (rule stripped_state_is_policy [OF embedded_wf])
  show "validate embedded_registry query_state = Some []"
    unfolding validate_def using validate_inner_conforms [OF embedded_wf] query_state_conforms by blast
qed (use embedded_apply_ready query_state_wf in \<open>auto simp: apply_ready_def strip_safe_registry_def list_all_iff strip_safe_iff\<close>)

section \<open>Arrays of arrays\<close>

text \<open>
  The condition on arrays in C35 is one the code does not meet by itself: \<open>remove_read_only_property\<close> looks into maps and
  into maps that are elements of an array, not into arrays that are.  \<open>add_schema_node\<close> takes such a node, and then a valid
  observation keeps a read-only field: it is not valid policy, and it does not prepare for apply.
\<close>

definition nested_node :: schema_node where
  "nested_node =
     (let array_of = (\<lambda>items. SchemaNode (Some TArray) None True None None None None None (Some items) None None) in
      array_of (array_of (SchemaNode (Some TObject) None True None None None (Some [(''x'', scalar_node TInteger False)])
        None None (Some False) None)))"

definition nested_state :: dev_state where
  "nested_state = (new_state \<lparr>md_id = 1, md_created_at = 0\<rparr> Kernel)
     \<lparr>device_type := ''ethernet'',
      st_fields := [(''name'', VString ''eth0''), (''n'', VList [VList [VMap [(''x'', VU64 1)]]])]\<rparr>"

definition nested_arrays_keep_read_only :: bool where
  "nested_arrays_keep_read_only =
     (case new_registry of
        None \<Rightarrow> False
      | Some embedded \<Rightarrow>
          (case add_schema_node ''base'' ''n'' (Ok nested_node) embedded of
             (Ok _, reg) \<Rightarrow>
               validate reg nested_state = Some []
               \<and> (case remove_read_only_fields reg nested_state of
                    Some (stripped, removed) \<Rightarrow>
                      im_get (st_fields stripped) ''n'' = Some (VList [VList [VMap [(''x'', VU64 1)]]])
                      \<and> validate_writable reg stripped = Some [ReadOnlyField ''base'' ''n[0][0].x'']
                  | None \<Rightarrow> False)
               \<and> (case prepare_for_apply_with_registry [nested_state] MatchByName reg of
                    Err (InvalidStates errors) \<Rightarrow> errors \<noteq> [] | _ \<Rightarrow> False)
           | _ \<Rightarrow> False))"

theorem nested_arrays_defeat_stripping: "nested_arrays_keep_read_only"
  by code_simp

section \<open>Preparation for apply\<close>



lemma conforms_match: "state_conforms wo reg (st\<lparr>st_match := m\<rparr>) \<longleftrightarrow> state_conforms wo reg st"
  by (simp add: state_conforms_def fragment_conforms_def split: option.split)

lemma query_prepared:
  assumes reg: "apply_ready reg" and st: "state_wf st" "st_source st = Kernel" "device_type st \<noteq> []"
    and conf: "state_conforms False reg st" and name: "im_get (st_fields st) ''name'' = Some (VString n)"
  shows "\<exists>st' ws. prepare_for_apply_with_registry [st] MatchByName reg = Ok \<lparr>out_states = [st'], out_warnings = ws\<rparr>
     \<and> prepared reg st' \<and> device_type st' = []
     \<and> st_match st' = default_match\<lparr>match_name := Some n, match_type := Some (device_type st)\<rparr>"
proof -
  have wf: "\<forall>s \<in> set [st]. state_wf s" using st(1) by simp
  let ?st = "st\<lparr>st_match := default_match\<rparr>"
  have reset: "map (reset_observation reg) [st] = [?st]" using st by (simp add: reset_observation_def)
  have empty: "match_is_empty (st_match ?st)" by (simp add: match_is_empty_def default_match_def)
  have first: "state_conforms (\<not> match_is_empty (st_match ?st)) reg ?st"
    using conf by (simp add: conforms_match match_is_empty_def default_match_def)
  have wf1: "state_wf ?st" using st(1) by (simp add: state_wf_def)
  obtain base where base: "wf_registry reg" "base_fragment reg = Some base"
    using apply_ready_base [OF reg] by blast
  let ?st1 = "?st\<lparr>st_match := select_by MatchByName n (st_match ?st), st_fields := im_remove (st_fields ?st) ''name''\<rparr>"
  have "state_wf ?st1" using state_wf_remove [OF wf1] by simp
  then obtain st2 removed where s: "remove_read_only_fields reg ?st1 = Some (st2, removed)"
    "device_type st2 = device_type st" "st_match st2 = st_match ?st1"
    using remove_read_only_eq [OF base(1) _ base(2), of ?st1] by (auto simp: state_wf_def)
  obtain st' ws where p: "prepare_state reg MatchByName (0, ?st) = Ok (st', ws)" and
    m: "st_match st' = default_match\<lparr>match_name := Some n, match_type := Some (device_type st)\<rparr>" "device_type st' = []"
    using s st(3) name empty by (simp add: prepare_state_def Let_def)
  show ?thesis
    using reg wf
  proof (cases rule: prepare_cases [where mb = MatchByName])
    case (invalid errors)
    have "collect_validation_errors [?st] reg False = Some []"
      unfolding collect_Nil_iff [OF base(1)] using first by simp
    with invalid reset show ?thesis by simp
  next
    case (stuck err)
    with p reset show ?thesis by simp
  next
    case (finished results)
    with p reset have "results = [(st', ws)]" by simp
    with finished m show ?thesis by simp
  qed
qed

text \<open>C33: query output is valid apply input: with a registry fit for apply (its required properties are all settable and
  include neither name nor MAC, no array is an element of an array, and its base fragment is closed and marks only its own
  properties read-only), as the embedded one is, an observation of the kernel that is valid and carries its name prepares to
  a state that selects the device by that name and its type, has no type of its own and is valid policy.\<close>

theorem query_output_applies:
  assumes "apply_ready reg" "state_wf st" "st_source st = Kernel" "device_type st \<noteq> []"
    and "validate reg st = Some []" "im_get (st_fields st) ''name'' = Some (VString n)"
  shows "\<exists>st' ws. prepare_for_apply_with_registry [st] MatchByName reg = Ok \<lparr>out_states = [st'], out_warnings = ws\<rparr>
     \<and> validate_writable reg st' = Some [] \<and> device_type st' = []
     \<and> st_match st' = default_match\<lparr>match_name := Some n, match_type := Some (device_type st)\<rparr>"
proof -
  have reg: "wf_registry reg" using assms(1) by (simp add: apply_ready_def)
  have "state_conforms False reg st" using assms(5) validate_inner_conforms [OF reg] by (simp add: validate_def)
  from query_prepared [OF assms(1-4) this assms(6)] show ?thesis
    using validate_inner_conforms [OF reg] by (fastforce simp: prepared_def validate_writable_def)
qed

theorem query_output_applies_witness:
  "\<exists>st' ws. prepare_for_apply_with_registry [query_state] MatchByName embedded_registry
       = Ok \<lparr>out_states = [st'], out_warnings = ws\<rparr>
     \<and> st_match st' = default_match\<lparr>match_name := Some ''eth0'', match_type := Some ''ethernet''\<rparr>"
proof -
  have v: "validate embedded_registry query_state = Some []"
    unfolding validate_def using validate_inner_conforms [OF embedded_wf] query_state_conforms by blast
  have f: "st_source query_state = Kernel" "device_type query_state = ''ethernet''"
    "im_get (st_fields query_state) ''name'' = Some (VString ''eth0'')"
    by (simp_all add: query_state_def new_state_def)
  from query_output_applies [OF embedded_apply_ready query_state_wf f(1) _ v f(3)] f(2) show ?thesis by auto
qed

text \<open>C34: preparation is idempotent: with a registry fit for apply, as the embedded one, what it returns is prepared again
  unchanged and without warnings, whichever selector the second run asks for.\<close>

theorem prepare_idempotent:
  assumes reg: "apply_ready reg" and wf: "\<forall>st \<in> set states. state_wf st"
    and ok: "prepare_for_apply_with_registry states mb reg = Ok out"
  shows "prepare_for_apply_with_registry (out_states out) mb' reg
     = Ok \<lparr>out_states = out_states out, out_warnings = []\<rparr>"
  using reg wf
proof (cases rule: prepare_cases [where mb = mb])
  case (finished results)
  let ?out = "map fst results"
  from ok finished(3) have out: "out_states out = ?out" by auto
  have first: "collect_validation_errors (map (reset_observation reg) states) reg False = Some []"
    using finished(3) by (cases "collect_validation_errors (map (reset_observation reg) states) reg False")
      (auto simp: prepare_for_apply_with_registry_def Let_def split: if_splits)
  have fixed: "map (reset_observation reg) ?out = ?out" by (rule loop_reset [OF reg first wf finished(1)])
  have "collect_validation_errors ?out reg False = Some []"
    using reg finished(2) by (simp add: collect_Nil_iff apply_ready_def prepared_def)
  moreover have "otraverse (prepare_state reg mb') (enumerate 0 ?out) = Ok (map (\<lambda>(i, st). (st, [] :: warning list)) (enumerate 0 ?out))"
  proof (rule otraverse_all_Ok)
    fix x
    assume x: "x \<in> set (enumerate 0 ?out)"
    obtain i st where ist: "x = (i, st)" by (cases x)
    with x finished(2) have "prepared reg st" by (blast dest: enumerate_in_set)
    then show "prepare_state reg mb' x = Ok (case x of (i, st) \<Rightarrow> (st, []))"
      by (simp add: ist prepare_state_def prepared_def)
  qed
  moreover have "map fst (map (\<lambda>(i, st). (st, [] :: warning list)) (enumerate 0 ?out)) = ?out"
  proof -
    have "map fst (map (\<lambda>(i, st). (st, [] :: warning list)) xs) = map snd xs" for xs :: "(nat \<times> dev_state) list"
      by (induction xs) auto
    then show ?thesis by (metis map_snd_enumerate)
  qed
  moreover have "concat (map snd (map (\<lambda>(i, st). (st, [] :: warning list)) (enumerate 0 ?out))) = []" by auto
  ultimately show ?thesis
    using final_pass [OF reg finished(2)]
    by (simp only: prepare_for_apply_with_registry_def Let_def out fixed expect.simps obind.simps simp_thms if_False)
qed (use ok in simp_all)

theorem prepare_idempotent_witness:
  "\<exists>out. prepare_for_apply_with_registry [query_state] MatchByName embedded_registry = Ok out
     \<and> prepare_for_apply_with_registry (out_states out) MatchByMac embedded_registry
         = Ok \<lparr>out_states = out_states out, out_warnings = []\<rparr>"
proof -
  have f: "st_source query_state = Kernel" "device_type query_state \<noteq> []"
    "im_get (st_fields query_state) ''name'' = Some (VString ''eth0'')"
    by (simp_all add: query_state_def new_state_def)
  obtain out where out: "prepare_for_apply_with_registry [query_state] MatchByName embedded_registry = Ok out"
    using query_prepared [OF embedded_apply_ready query_state_wf f(1,2) query_state_conforms f(3)] by blast
  have wf: "\<forall>st \<in> set [query_state]. state_wf st" by (simp add: query_state_wf)
  from out prepare_idempotent [OF embedded_apply_ready wf out] show ?thesis by blast
qed

end
