(* ===== verification/Yaml.thy ===== *)
theory Yaml
  imports Apply
begin

text \<open>
  \<open>crates/netfyr-state/src/yaml.rs\<close>, and the decoding modes of \<open>schema.rs\<close> that are built on it: the
  two YAML formats and their conversion to the model.

  The text phase is \<open>serde_yaml\<close>, which is not in the repository: a \<open>yaml_lib\<close> is what the code uses of
  it, the reader and printer of document trees, the accessors \<open>as_str\<close> and \<open>as_mapping\<close>, and its
  numbers, whose type is a parameter.  The tree itself has the variants the code matches on; a mapping
  lists its entries in insertion order.  \<open>yaml_laws\<close> states the documented behaviour of the library.
\<close>

section \<open>The YAML library\<close>

datatype 'n yaml =
    YNull
  | YBool bool
  | YNumber 'n
  | YString string
  | YSequence "'n yaml list"
  | YMapping "('n yaml \<times> 'n yaml) list"
  | YTagged string "'n yaml"

record 'n yaml_lib =
  as_u64 :: "'n \<Rightarrow> u64 option"
  as_i64 :: "'n \<Rightarrow> i64 option"
  number_text :: "'n \<Rightarrow> string"
  number_of_u64 :: "u64 \<Rightarrow> 'n"
  number_of_i64 :: "i64 \<Rightarrow> 'n"
  as_str :: "'n yaml \<Rightarrow> string option"
  as_mapping :: "'n yaml \<Rightarrow> ('n yaml \<times> 'n yaml) list option"
  yaml_read :: "string \<Rightarrow> ('n yaml, string) outcome"
  yaml_print :: "'n yaml \<Rightarrow> (string, string) outcome"

text \<open>
  The documents the code prints: strings, booleans, integers, sequences and mappings with distinct
  string keys.
\<close>

fun plain_yaml :: "'n yaml_lib \<Rightarrow> 'n yaml \<Rightarrow> bool" where
  "plain_yaml lib (YBool b) = True"
| "plain_yaml lib (YNumber n) = (as_u64 lib n \<noteq> None \<or> as_i64 lib n \<noteq> None)"
| "plain_yaml lib (YString s) = True"
| "plain_yaml lib (YSequence items) = list_all (plain_yaml lib) items"
| "plain_yaml lib (YMapping entries) =
     (distinct (map fst entries)
      \<and> list_all (\<lambda>(k, v). (case k of YString _ \<Rightarrow> True | _ \<Rightarrow> False) \<and> plain_yaml lib v) entries)"
| "plain_yaml lib _ = False"

section \<open>Reading\<close>

text \<open>\<open>str::trim().is_empty()\<close> on the UTF-8 bytes: every character is Unicode white space.\<close>

definition ascii_space :: "char \<Rightarrow> bool" where
  "ascii_space c = (c \<in> set [CHR 0x09, CHR 0x0A, CHR 0x0B, CHR 0x0C, CHR 0x0D, CHR 0x20])"

definition wide_spaces :: "string list" where
  "wide_spaces =
     [[CHR 0xC2, CHR 0x85], [CHR 0xC2, CHR 0xA0], [CHR 0xE1, CHR 0x9A, CHR 0x80],
      [CHR 0xE2, CHR 0x80, CHR 0x80], [CHR 0xE2, CHR 0x80, CHR 0x81], [CHR 0xE2, CHR 0x80, CHR 0x82],
      [CHR 0xE2, CHR 0x80, CHR 0x83], [CHR 0xE2, CHR 0x80, CHR 0x84], [CHR 0xE2, CHR 0x80, CHR 0x85],
      [CHR 0xE2, CHR 0x80, CHR 0x86], [CHR 0xE2, CHR 0x80, CHR 0x87], [CHR 0xE2, CHR 0x80, CHR 0x88],
      [CHR 0xE2, CHR 0x80, CHR 0x89], [CHR 0xE2, CHR 0x80, CHR 0x8A], [CHR 0xE2, CHR 0x80, CHR 0xA8],
      [CHR 0xE2, CHR 0x80, CHR 0xA9], [CHR 0xE2, CHR 0x80, CHR 0xAF], [CHR 0xE2, CHR 0x81, CHR 0x9F],
      [CHR 0xE3, CHR 0x80, CHR 0x80]]"

fun is_blank :: "string \<Rightarrow> bool" where
  "is_blank [] = True"
| "is_blank [a] = ascii_space a"
| "is_blank [a, b] = (ascii_space a \<and> is_blank [b] \<or> [a, b] \<in> set wide_spaces)"
| "is_blank (a # b # c # s) =
     (ascii_space a \<and> is_blank (b # c # s)
      \<or> [a, b] \<in> set wide_spaces \<and> is_blank (c # s)
      \<or> [a, b, c] \<in> set wide_spaces \<and> is_blank s)"

fun shape :: "'n yaml \<Rightarrow> string" where
  "shape YNull = ''null''"
| "shape (YBool _) = ''a boolean''"
| "shape (YNumber _) = ''a number''"
| "shape (YString _) = ''a string''"
| "shape (YSequence _) = ''a sequence''"
| "shape (YMapping _) = ''a mapping''"
| "shape (YTagged _ _) = ''a tagged value''"

fun key_to_string :: "'n yaml_lib \<Rightarrow> 'n yaml \<Rightarrow> (string, state_error) outcome" where
  "key_to_string lib (YString s) = Ok s"
| "key_to_string lib (YNumber n) = Ok (number_text lib n)"
| "key_to_string lib (YBool b) = Ok (if b then ''true'' else ''false'')"
| "key_to_string lib other = Err (InvalidFieldKey (shape other))"

fun parse_kind :: "'n yaml \<Rightarrow> (unit, state_error) outcome" where
  "parse_kind (YString kind) =
     (if kind = ''state'' then Ok ()
      else if kind = ''policy'' then Err PolicyWrapperNotSupported
      else Err (UnknownKind kind))"
| "parse_kind other = Err (UnknownKind (shape other))"

text \<open>The loop of \<open>parse_match\<close>.\<close>

fun parse_match_entries ::
  "'n yaml_lib \<Rightarrow> ('n yaml \<times> 'n yaml) list \<Rightarrow> match_spec \<Rightarrow> (match_spec, state_error) outcome" where
  "parse_match_entries lib [] m = Ok m"
| "parse_match_entries lib ((k, v) # rest) m =
     obind (key_to_string lib k) (\<lambda>key.
     obind (ok_or (as_str lib v) (MatchValueNotString key)) (\<lambda>s.
     if key = ''name'' then parse_match_entries lib rest (m\<lparr>match_name := Some s\<rparr>)
     else if key = ''type'' then parse_match_entries lib rest (m\<lparr>match_type := Some s\<rparr>)
     else if key = ''driver'' then parse_match_entries lib rest (m\<lparr>match_driver := Some s\<rparr>)
     else if key = ''pci_path'' then parse_match_entries lib rest (m\<lparr>match_pci_path := Some s\<rparr>)
     else if key = ''mac'' then parse_match_entries lib rest (m\<lparr>match_mac := Some s\<rparr>)
     else Err (UnknownMatchKey key)))"

definition parse_match :: "'n yaml_lib \<Rightarrow> 'n yaml \<Rightarrow> (match_spec, state_error) outcome" where
  "parse_match lib value =
     obind (ok_or (as_mapping lib value) MatchNotMapping) (\<lambda>m. parse_match_entries lib m default_match)"

fun value_to_model :: "'n yaml_lib \<Rightarrow> 'n yaml \<Rightarrow> schema_node option \<Rightarrow> (cval, state_error) outcome" where
  "value_to_model lib YNull schema = Err (UnsupportedScalar ''null'')"
| "value_to_model lib (YBool b) schema = Ok (VBool b)"
| "value_to_model lib (YNumber n) schema =
     (case as_u64 lib n of
        Some u \<Rightarrow> Ok (VU64 u)
      | None \<Rightarrow>
          (case as_i64 lib n of
             Some i \<Rightarrow> Ok (VI64 i)
           | None \<Rightarrow> Err (UnsupportedScalar ''float'')))"
| "value_to_model lib (YString s) schema =
     (case schema of None \<Rightarrow> Ok (VString s) | Some node \<Rightarrow> expect (decode_string node s))"
| "value_to_model lib (YSequence items) schema =
     omap VList (otraverse (\<lambda>item. value_to_model lib item (Option.bind schema sn_items)) items)"
| "value_to_model lib (YMapping m) schema =
     omap (\<lambda>kvs. VMap (im_extend [] kvs))
       (otraverse
         (\<lambda>(k, item).
            obind (key_to_string lib k) (\<lambda>key.
            omap (\<lambda>v. (key, v))
              (value_to_model lib item (Option.bind schema (\<lambda>node. node_property node key)))))
         m)"
| "value_to_model lib (YTagged _ _) schema = Err (YamlError ''tagged YAML values are not supported'')"

text \<open>The loop of \<open>mapping_to_state\<close> over the three variables it fills.\<close>

fun read_entries ::
  "'n yaml_lib \<Rightarrow> schema_registry \<Rightarrow> ('n yaml \<times> 'n yaml) list \<Rightarrow> match_spec \<times> string \<times> fields \<Rightarrow>
   (match_spec \<times> string \<times> fields, state_error) outcome" where
  "read_entries lib reg [] acc = Ok acc"
| "read_entries lib reg ((k, value) # rest) (m, ty, fs) =
     obind (key_to_string lib k) (\<lambda>key.
     if key = ''match'' then
       obind (parse_match lib value) (\<lambda>m'. read_entries lib reg rest (m', ty, fs))
     else if key = ''kind'' then
       obind (parse_kind value) (\<lambda>_. read_entries lib reg rest (m, ty, fs))
     else if key = ''type'' then
       obind (ok_or (as_str lib value) (UnsupportedScalar (shape value))) (\<lambda>ty'.
         read_entries lib reg rest (m, ty', fs))
     else
       obind (expect (top_level_schema reg key)) (\<lambda>schema.
       obind (value_to_model lib value schema) (\<lambda>v.
         read_entries lib reg rest (m, ty, im_insert fs key v))))"

text \<open>\<open>md\<close> is the fresh \<open>StateMetadata\<close>.\<close>

definition mapping_to_state ::
  "'n yaml_lib \<Rightarrow> schema_registry \<Rightarrow> ('n yaml \<times> 'n yaml) list \<Rightarrow> state_metadata \<Rightarrow>
   (dev_state, state_error) outcome" where
  "mapping_to_state lib reg entries md =
     obind (read_entries lib reg entries (default_match, [], [])) (\<lambda>(m, ty, fs).
     let ty = (if ty = [] then (case implied_device_type reg fs of Some implied \<Rightarrow> implied | None \<Rightarrow> ty)
               else ty) in
     Ok \<lparr>device_type = ty, st_match = m, st_fields = fs, st_source = Static [],
         st_priority = default_priority (Static []), st_metadata = md\<rparr>)"

text \<open>An element of a top-level list; \<open>fresh i\<close> is the metadata created for the state at index \<open>i\<close>.\<close>

definition element_to_state ::
  "'n yaml_lib \<Rightarrow> schema_registry \<Rightarrow> (nat \<Rightarrow> state_metadata) \<Rightarrow> nat \<times> 'n yaml \<Rightarrow> (dev_state, state_error) outcome" where
  "element_to_state lib reg fresh = (\<lambda>(i, entry).
     case entry of
       YMapping m \<Rightarrow> mapping_to_state lib reg m (fresh i)
     | other \<Rightarrow> Err (InvalidTopLevel
         (''list element '' @ show_nat i @ '' is '' @ shape other @ '', not a mapping'')))"

definition from_yaml_with_registry ::
  "'n yaml_lib \<Rightarrow> (nat \<Rightarrow> state_metadata) \<Rightarrow> string \<Rightarrow> schema_registry \<Rightarrow> (dev_state list, state_error) outcome" where
  "from_yaml_with_registry lib fresh input reg =
     (if is_blank input then Err EmptyInput
      else
        obind (omap_err (\<lambda>message. if str_contains ''more than one document'' message then MultiDocument
                                    else YamlError message) (yaml_read lib input)) (\<lambda>doc.
        (case doc of
           YMapping m \<Rightarrow> omap (\<lambda>st. [st]) (mapping_to_state lib reg m (fresh 0))
         | YSequence entries \<Rightarrow>
             otraverse (element_to_state lib reg fresh) (enumerate 0 entries)
         | other \<Rightarrow> Err (InvalidTopLevel (shape other)))))"

section \<open>Printing\<close>

fun model_to_value :: "'n yaml_lib \<Rightarrow> cval \<Rightarrow> 'n yaml" where
  "model_to_value lib (VString s) = YString s"
| "model_to_value lib (VU64 n) = YNumber (number_of_u64 lib n)"
| "model_to_value lib (VI64 n) = YNumber (number_of_i64 lib n)"
| "model_to_value lib (VBool b) = YBool b"
| "model_to_value lib (VIpAddr a) = YString (show_ip a)"
| "model_to_value lib (VIpNetwork n) = YString (show_network n)"
| "model_to_value lib (VList items) = YSequence (map (model_to_value lib) items)"
| "model_to_value lib (VMap entries) =
     YMapping (im_extend [] (map (\<lambda>(k, item). (YString k, model_to_value lib item)) entries))"

definition match_entries :: "match_spec \<Rightarrow> (string \<times> string option) list" where
  "match_entries m =
     [(''name'', match_name m), (''type'', match_type m), (''driver'', match_driver m),
      (''pci_path'', match_pci_path m), (''mac'', match_mac m)]"

definition match_to_value :: "match_spec \<Rightarrow> 'n yaml" where
  "match_to_value m =
     YMapping (im_extend []
       (concat (map (\<lambda>(key, value). case value of Some v \<Rightarrow> [(YString key, YString v)] | None \<Rightarrow> [])
          (match_entries m))))"

definition reserved_keys :: "string list" where
  "reserved_keys = [''match'', ''type'', ''kind'']"

definition omit_type :: "schema_registry \<Rightarrow> bool \<Rightarrow> dev_state \<Rightarrow> bool" where
  "omit_type reg include_match st =
     (device_type st = []
      \<or> include_match \<and> implied_device_type reg (st_fields st) = Some (device_type st))"

text \<open>
  The schema of the path, which \<open>model_to_value\<close> is given and does not look at, is left out; looking it
  up panics on a registry without a base fragment.
\<close>

definition state_to_mapping ::
  "'n yaml_lib \<Rightarrow> schema_registry \<Rightarrow> bool \<Rightarrow> nat \<times> dev_state \<Rightarrow> ('n yaml, state_error) outcome" where
  "state_to_mapping lib reg include_match = (\<lambda>(i, st).
     (case List.find (\<lambda>key. key \<in> set reserved_keys) (im_keys (st_fields st)) of
        Some key \<Rightarrow> Err (ReservedFieldKey key i)
      | None \<Rightarrow>
          let m = (if include_match then [(YString ''match'', match_to_value (st_match st))] else []);
              m = (if omit_type reg include_match st then m
                   else im_insert m (YString ''type'') (YString (device_type st))) in
          omap (\<lambda>kvs. YMapping (im_extend m kvs))
            (otraverse
              (\<lambda>(k, v). obind (expect (top_level_schema reg k)) (\<lambda>_. Ok (YString k, model_to_value lib v)))
              (st_fields st))))"

definition render ::
  "'n yaml_lib \<Rightarrow> dev_state list \<Rightarrow> bool \<Rightarrow> schema_registry \<Rightarrow> (string, state_error) outcome" where
  "render lib states include_match reg =
     obind (case states of
              [st] \<Rightarrow> state_to_mapping lib reg include_match (0, st)
            | _ \<Rightarrow> omap YSequence (otraverse (state_to_mapping lib reg include_match) (enumerate 0 states))) (\<lambda>doc.
     omap_err YamlError (yaml_print lib doc))"

definition to_yaml_query :: "'n yaml_lib \<Rightarrow> dev_state list \<Rightarrow> schema_registry \<Rightarrow> (string, state_error) outcome" where
  "to_yaml_query lib states reg = render lib states False reg"

definition to_yaml_policy :: "'n yaml_lib \<Rightarrow> dev_state list \<Rightarrow> schema_registry \<Rightarrow> (string, state_error) outcome" where
  "to_yaml_policy lib states reg = render lib states True reg"

section \<open>Decoding in a mode\<close>

datatype decode_mode = DecodeQuery | DecodePolicy

text \<open>The loop of \<open>decode_yaml\<close>: a selector error ends it, validation errors are collected.\<close>

fun decode_errors ::
  "schema_registry \<Rightarrow> decode_mode \<Rightarrow> (nat \<times> dev_state) list \<Rightarrow> (indexed_validation_error list, state_error) outcome" where
  "decode_errors reg mode [] = Ok []"
| "decode_errors reg mode ((i, st) # rest) =
     obind (if mode = DecodeQuery \<and> \<not> match_is_empty (st_match st) then Err (UnexpectedMatch i)
            else if mode = DecodePolicy \<and> match_is_empty (st_match st) then Err (MissingMatch i)
            else Ok ()) (\<lambda>_.
     obind (expect (case mode of DecodeQuery \<Rightarrow> validate reg st | DecodePolicy \<Rightarrow> validate_writable reg st)) (\<lambda>errors.
     omap (\<lambda>more. map (\<lambda>err. \<lparr>state_index = i, ive_error = err\<rparr>) errors @ more)
       (decode_errors reg mode rest)))"

definition query_observation :: "dev_state \<Rightarrow> dev_state" where
  "query_observation st =
     st\<lparr>st_match := (st_match st)\<lparr>match_name := field_string (st_fields st) ''name'',
          match_type := (if device_type st \<noteq> [] then Some (device_type st) else None),
          match_driver := field_string (st_fields st) ''driver'',
          match_mac := field_string (st_fields st) ''mac''\<rparr>,
        st_source := Kernel, st_priority := default_priority Kernel\<rparr>"

definition decode_yaml ::
  "'n yaml_lib \<Rightarrow> (nat \<Rightarrow> state_metadata) \<Rightarrow> schema_registry \<Rightarrow> string \<Rightarrow> decode_mode \<Rightarrow>
   (dev_state list, state_error) outcome" where
  "decode_yaml lib fresh reg input mode =
     obind (from_yaml_with_registry lib fresh input reg) (\<lambda>states.
     obind (decode_errors reg mode (enumerate 0 states)) (\<lambda>errors.
     if errors \<noteq> [] then Err (InvalidStates errors)
     else Ok (if mode = DecodeQuery then map query_observation states else states)))"

text \<open>The documented behaviour of the library that the round trips use.\<close>

definition yaml_laws :: "'n yaml_lib \<Rightarrow> bool" where
  "yaml_laws lib \<longleftrightarrow>
     (\<forall>u. as_u64 lib (number_of_u64 lib u) = Some u)
     \<and> (\<forall>i. as_u64 lib (number_of_i64 lib i) = (if 0 \<le> sint i then Some i else None)
           \<and> as_i64 lib (number_of_i64 lib i) = Some i)
     \<and> (\<forall>n i. as_u64 lib n = None \<longrightarrow> as_i64 lib n = Some i \<longrightarrow> sint i < 0)
     \<and> (\<forall>s. as_str lib (YString s) = Some s)
     \<and> (\<forall>m. as_mapping lib (YMapping m) = Some m)
     \<and> (\<forall>doc text. plain_yaml lib doc \<longrightarrow> yaml_print lib doc = Ok text \<longrightarrow>
           yaml_read lib text = Ok doc \<and> \<not> is_blank text)"

end
