(* ===== verification/YamlFacts.thy ===== *)
theory YamlFacts
  imports Yaml
begin

text \<open>
  The two phases of \<open>yaml.rs\<close> composed: what reading the printed document gives back (\<open>reread\<close>), for a
  value, for a state and for a list of states, and on which values that is the identity.
\<close>

section \<open>Values\<close>

text \<open>What a text, and what a value, is after it was printed and read at a schema path.\<close>

definition reread_text :: "schema_node option \<Rightarrow> string \<Rightarrow> cval" where
  "reread_text schema s =
     (case Option.bind schema (\<lambda>node. decode_string node s) of Some v \<Rightarrow> v | None \<Rightarrow> VString s)"

fun reread :: "schema_node option \<Rightarrow> cval \<Rightarrow> cval" where
  "reread schema (VString s) = reread_text schema s"
| "reread schema (VI64 i) = (if 0 \<le> sint i then VU64 i else VI64 i)"
| "reread schema (VIpAddr a) = reread_text schema (show_ip a)"
| "reread schema (VIpNetwork n) = reread_text schema (show_network n)"
| "reread schema (VList items) = VList (map (reread (Option.bind schema sn_items)) items)"
| "reread schema (VMap entries) =
     VMap (map (\<lambda>(k, v). (k, reread (Option.bind schema (\<lambda>node. node_property node k)) v)) entries)"
| "reread schema v = v"

definition schema_ok :: "schema_node option \<Rightarrow> bool" where
  "schema_ok schema \<longleftrightarrow> (case schema of Some node \<Rightarrow> node_ok node | None \<Rightarrow> True)"

lemma schema_ok_sub:
  assumes "schema_ok schema"
  shows "schema_ok (Option.bind schema sn_items)" "schema_ok (Option.bind schema (\<lambda>node. node_property node k))"
proof -
  have "schema = None \<or> (\<exists>n. schema = Some n \<and> node_ok n)"
    using assms by (cases schema) (simp_all add: schema_ok_def)
  then show "schema_ok (Option.bind schema sn_items)" "schema_ok (Option.bind schema (\<lambda>node. node_property node k))"
    by (auto simp: schema_ok_def split: option.split dest: node_ok_items node_ok_property)
qed

lemma decode_string_ok: "node_ok node \<Longrightarrow> \<exists>v. decode_string node s = Some v"
  using node_ok_expect [of node] by (auto simp: decode_string_def)

lemma value_of_string:
  assumes "schema_ok schema"
  shows "value_to_model lib (YString s) schema = Ok (reread_text schema s)"
proof (cases schema)
  case (Some node)
  with assms obtain v where "decode_string node s = Some v"
    using decode_string_ok by (auto simp: schema_ok_def)
  with Some show ?thesis by (simp add: reread_text_def)
qed (simp add: reread_text_def)

lemma im_keys_map: "im_keys (map (\<lambda>(k, v). (h k, f k v)) m) = map h (im_keys m)"
  by (induction m) auto

lemma distinct_string_keys: "im_wf m \<Longrightarrow> im_wf (map (\<lambda>(k, v). (YString k, f v)) m)"
  unfolding im_keys_map by (simp add: distinct_map inj_on_def)

lemma model_to_value_map:
  "im_wf entries \<Longrightarrow>
   model_to_value lib (VMap entries) = YMapping (map (\<lambda>(k, v). (YString k, model_to_value lib v)) entries)"
  by (simp only: model_to_value.simps im_extend_Nil [OF distinct_string_keys])

lemma map_keys_reread: "im_keys (map (\<lambda>(k, v). (k, f k v)) m) = im_keys m"
  by (induction m) auto

theorem value_reread:
  assumes "yaml_laws lib" "schema_ok schema" "value_wf v"
  shows "value_to_model lib (model_to_value lib v) schema = Ok (reread schema v)"
  using assms(2,3)
proof (induction v arbitrary: schema)
  case (VList vs)
  let ?f = "\<lambda>v. value_to_model lib (model_to_value lib v) (Option.bind schema sn_items)"
  have "otraverse ?f vs = Ok (map (reread (Option.bind schema sn_items)) vs)"
    using VList schema_ok_sub(1) by (intro otraverse_all_Ok) (auto simp: list_all_iff)
  moreover have "otraverse (\<lambda>item. value_to_model lib item (Option.bind schema sn_items)) (map (model_to_value lib) vs)
      = otraverse ?f vs"
    by (induction vs) simp_all
  ultimately show ?case by simp
next
  case (VMap m)
  let ?sc = "\<lambda>k. Option.bind schema (\<lambda>node. node_property node k)"
  have wf: "im_wf m" using VMap.prems by simp
  have each: "value_to_model lib (model_to_value lib v) (?sc k) = Ok (reread (?sc k) v)" if "(k, v) \<in> set m" for k v
    using VMap.IH [of "(k, v)" v "?sc k"] that VMap.prems schema_ok_sub(2) by (fastforce simp: list_all_iff)
  have "otraverse
         (\<lambda>(k, item).
            obind (key_to_string lib k) (\<lambda>key.
            omap (\<lambda>v. (key, v))
              (value_to_model lib item (Option.bind schema (\<lambda>node. node_property node key)))))
         (map (\<lambda>(k, v). (YString k, model_to_value lib v)) m)
      = Ok (map (\<lambda>(k, v). (k, reread (?sc k) v)) m)"
    using each by (induction m) auto
  then show ?case
    using wf by (simp add: model_to_value_map im_extend_Nil [of "map (\<lambda>(k, v). (k, f k v)) m" for f, unfolded map_keys_reread]
        del: model_to_value.simps)
qed (use assms(1) value_of_string in \<open>auto simp: yaml_laws_def\<close>)

lemma value_plain:
  assumes "yaml_laws lib" "value_wf v"
  shows "plain_yaml lib (model_to_value lib v)"
  using assms(2)
proof (induction v)
  case (VMap m)
  then have "im_wf m" by simp
  with VMap show ?case
    using distinct_string_keys [of m "model_to_value lib"]
    by (fastforce simp: model_to_value_map list_all_iff simp del: model_to_value.simps)
qed (use assms(1) in \<open>auto simp: list_all_iff yaml_laws_def\<close>)

section \<open>States\<close>

definition path_schema :: "schema_registry \<Rightarrow> string \<Rightarrow> schema_node option" where
  "path_schema reg k = (case top_level_schema reg k of Some schema \<Rightarrow> schema | None \<Rightarrow> None)"

definition reread_fields :: "schema_registry \<Rightarrow> fields \<Rightarrow> fields" where
  "reread_fields reg m = map (\<lambda>(k, v). (k, reread (path_schema reg k) v)) m"

definition reread_type :: "schema_registry \<Rightarrow> bool \<Rightarrow> dev_state \<Rightarrow> string" where
  "reread_type reg include_match st =
     (if omit_type reg include_match st
      then (case implied_device_type reg (st_fields st) of Some implied \<Rightarrow> implied | None \<Rightarrow> [])
      else device_type st)"

text \<open>What a state is after it was printed in one of the formats and read back.\<close>

definition reread_state :: "schema_registry \<Rightarrow> bool \<Rightarrow> state_metadata \<Rightarrow> dev_state \<Rightarrow> dev_state" where
  "reread_state reg include_match md st =
     \<lparr>device_type = reread_type reg include_match st,
      st_match = (if include_match then st_match st else default_match),
      st_fields = reread_fields reg (st_fields st), st_source = Static [],
      st_priority = default_priority (Static []), st_metadata = md\<rparr>"

definition expressible :: "dev_state \<Rightarrow> bool" where
  "expressible st \<longleftrightarrow> list_all (\<lambda>k. k \<notin> set reserved_keys) (im_keys (st_fields st))"

lemma path_schema_ok:
  assumes "wf_registry reg"
  shows "top_level_schema reg k = Some (path_schema reg k)" "schema_ok (path_schema reg k)"
proof -
  obtain base where b: "base_fragment reg = Some base" "wf_fragment base"
    using wf_registry_base [OF assms] by blast
  then show "top_level_schema reg k = Some (path_schema reg k)"
    by (simp add: path_schema_def top_level_schema_def)
  have "node_ok n" if "top_level_schema reg k = Some (Some n)" for n
    using that b node_ok_property [of "fr_root base" k n] wf_fragment_ok [OF assms]
      triggered_fragment_iff [OF assms, of k]
    by (auto simp: top_level_schema_def wf_fragment_def split: option.splits)
  then show "schema_ok (path_schema reg k)"
    by (auto simp: path_schema_def schema_ok_def split: option.split)
qed

lemma reread_fields_keys: "im_keys (reread_fields reg m) = im_keys m"
  unfolding reread_fields_def by (rule map_keys_reread)

lemma implied_cong: "im_keys m = im_keys m' \<Longrightarrow> implied_device_type reg m = implied_device_type reg m'"
proof -
  assume "im_keys m = im_keys m'"
  then have "fst ` set m = fst ` set m'" by (metis list.set_map)
  then have "im_contains m = im_contains m'" by (simp add: fun_eq_iff im_contains_iff)
  then show ?thesis unfolding implied_device_type_def by (simp only:)
qed

lemma read_match_entries:
  assumes "yaml_laws lib"
  shows "parse_match lib (match_to_value m) = Ok m"
proof -
  let ?es = "concat (map (\<lambda>(key, value). case value of Some v \<Rightarrow> [(YString key, YString v)] | None \<Rightarrow> [])
      (match_entries m))"
  have "im_wf ?es" by (simp add: match_entries_def split: option.split)
  moreover have "as_str lib (YString s) = Some s" "as_mapping lib (YMapping es) = Some es" for s es
    using assms by (simp_all add: yaml_laws_def)
  ultimately show ?thesis
    by (simp add: parse_match_def match_to_value_def im_extend_Nil, cases m)
      (simp add: match_entries_def default_match_def split: option.split)
qed

lemma match_plain: "plain_yaml lib (match_to_value m)"
proof -
  let ?es = "concat (map (\<lambda>(key, value). case value of Some v \<Rightarrow> [(YString key, YString v)] | None \<Rightarrow> [])
      (match_entries m))"
  have "im_wf ?es" by (simp add: match_entries_def split: option.split)
  then show ?thesis
    by (simp add: match_to_value_def im_extend_Nil match_entries_def split: option.split)
qed

lemma read_fields:
  assumes "yaml_laws lib" "wf_registry reg" "list_all (\<lambda>(k, v). k \<notin> set reserved_keys \<and> value_wf v) m"
  shows "read_entries lib reg (map (\<lambda>(k, v). (YString k, model_to_value lib v)) m) (sel, ty, acc)
     = Ok (sel, ty, im_extend acc (reread_fields reg m))"
  using assms(3)
proof (induction m arbitrary: acc)
  case (Cons e m)
  obtain k v where e: "e = (k, v)" by (cases e)
  have "value_to_model lib (model_to_value lib v) (path_schema reg k) = Ok (reread (path_schema reg k) v)"
    using Cons.prems e value_reread [OF assms(1) path_schema_ok(2) [OF assms(2)]] by simp
  with Cons e path_schema_ok(1) [OF assms(2), of k] show ?case
    by (simp add: reread_fields_def reserved_keys_def)
qed (simp add: reread_fields_def)

text \<open>The entries of the printed document of a state.\<close>

definition state_entries :: "'n yaml_lib \<Rightarrow> schema_registry \<Rightarrow> bool \<Rightarrow> dev_state \<Rightarrow> ('n yaml \<times> 'n yaml) list" where
  "state_entries lib reg include_match st =
     (if include_match then [(YString ''match'', match_to_value (st_match st))] else [])
     @ (if omit_type reg include_match st then [] else [(YString ''type'', YString (device_type st))])
     @ map (\<lambda>(k, v). (YString k, model_to_value lib v)) (st_fields st)"

lemma find_reserved: "List.find (\<lambda>key. key \<in> set reserved_keys) (im_keys (st_fields st)) = None \<longleftrightarrow> expressible st"
  by (auto simp: find_None_iff expressible_def list_all_iff)

lemma im_extend_append: "im_wf (a @ b) \<Longrightarrow> im_extend a b = a @ b"
  by (rule im_extend_fresh) auto

lemma state_entries_wf:
  fixes lib :: "'n yaml_lib"
  assumes "expressible st" "im_wf (st_fields st)"
  shows "im_wf (state_entries lib reg include_match st)"
proof -
  have "(YString ''match'' :: 'n yaml) \<notin> set (map YString (im_keys (st_fields st)))"
    "(YString ''type'' :: 'n yaml) \<notin> set (map YString (im_keys (st_fields st)))"
    using assms(1) by (auto simp: expressible_def list_all_iff reserved_keys_def)
  moreover have "distinct (map YString (im_keys (st_fields st)) :: 'n yaml list)" using assms(2) by (simp add: distinct_map inj_on_def)
  ultimately show ?thesis
    unfolding state_entries_def map_append im_keys_map by simp
qed

lemma state_printed:
  fixes lib :: "'n yaml_lib"
  assumes reg: "wf_registry reg" and st: "expressible st" "state_wf st"
  shows "state_to_mapping lib reg include_match (i, st) = Ok (YMapping (state_entries lib reg include_match st))"
proof -
  let ?es = "map (\<lambda>(k, v). (YString k :: 'n yaml, model_to_value lib v)) (st_fields st)"
  let ?m = "(if include_match then [(YString ''match'' :: 'n yaml, match_to_value (st_match st))] else [])
     @ (if omit_type reg include_match st then [] else [(YString ''type'' :: 'n yaml, YString (device_type st))])"
  have "im_wf (state_entries lib reg include_match st)" using st by (simp add: state_entries_wf state_wf_def)
  then have "im_wf (?m @ ?es)" unfolding state_entries_def append_assoc .
  then have ext: "im_extend ?m ?es = ?m @ ?es" by (rule im_extend_append)
  have fields: "otraverse (\<lambda>(k, v). obind (expect (top_level_schema reg k)) (\<lambda>_. Ok (YString k, model_to_value lib v)))
      (st_fields st) = Ok ?es"
    by (rule otraverse_all_Ok) (auto simp: path_schema_ok(1) [OF reg])
  show ?thesis
    using find_reserved [of st] st(1) ext
    by (simp add: state_to_mapping_def Let_def fields state_entries_def split: if_splits)
qed

lemma state_plain:
  assumes "yaml_laws lib" "expressible st" "state_wf st"
  shows "plain_yaml lib (YMapping (state_entries lib reg include_match st))"
proof -
  have "im_wf (state_entries lib reg include_match st)"
    using assms by (simp add: state_entries_wf state_wf_def)
  moreover have "list_all (\<lambda>(k, v). plain_yaml lib (model_to_value lib v)) (st_fields st)"
    using assms(3) by (auto simp: state_wf_def list_all_iff intro!: value_plain [OF assms(1)])
  ultimately show ?thesis
    by (auto simp: state_entries_def match_plain list_all_iff)
qed

lemma state_reread:
  assumes lib: "yaml_laws lib" and reg: "wf_registry reg" and st: "expressible st" "state_wf st"
  shows "mapping_to_state lib reg (state_entries lib reg include_match st) md = Ok (reread_state reg include_match md st)"
proof -
  let ?es = "map (\<lambda>(k, v). (YString k, model_to_value lib v)) (st_fields st)"
  let ?sel = "if include_match then st_match st else default_match"
  let ?ty = "if omit_type reg include_match st then [] else device_type st"
  have wf: "im_wf (st_fields st)" using st(2) by (simp add: state_wf_def)
  have "list_all (\<lambda>(k, v). k \<notin> set reserved_keys \<and> value_wf v) (st_fields st)"
    using st by (fastforce simp: expressible_def state_wf_def list_all_iff)
  from read_fields [OF lib reg this, of ?sel ?ty "[]"]
  have es: "read_entries lib reg ?es (?sel, ?ty, []) = Ok (?sel, ?ty, reread_fields reg (st_fields st))"
    using wf by (simp add: im_extend_Nil reread_fields_keys)
  have "as_str lib (YString s) = Some s" for s using lib by (simp add: yaml_laws_def)
  then have entries: "read_entries lib reg (state_entries lib reg include_match st) (default_match, [], [])
      = read_entries lib reg ?es (?sel, ?ty, [])"
    by (simp add: state_entries_def read_match_entries [OF lib])
  show ?thesis
    using implied_cong [OF reread_fields_keys, of reg reg "st_fields st"]
    unfolding mapping_to_state_def entries es obind.simps prod.case Let_def
    by (simp add: reread_state_def reread_type_def omit_type_def split: option.split)
qed

end
