(* ===== verification/Ipv6Text.thy ===== *)
theory Ipv6Text
  imports NetAddr
begin

text \<open>
  Reading back the text of an IPv6 address: with its first longest run of zeros left out, with an embedded IPv4 address, or in
  full.  With the round trip of IPv4 text, every address and every network is read back from what is printed of it.
\<close>

section \<open>Hexadecimal groups\<close>

lemma less_16_cases: "n < 16 \<Longrightarrow> n \<in> {0, 1, 2, 3, 4, 5, 6, 7, 8, 9, 10, 11, 12, 13, 14, 15 :: nat}"
  by simp presburger

lemma to_digit_hex: "d < 16 \<Longrightarrow> to_digit 16 (digit_char d) = Some d"
  by (auto dest!: less_16_cases simp: digit_char_def to_digit_def digit_table_def)

lemma digits_value_show_hex: "digits_value 16 0 (show_hex n) = Some n"
proof (induction n rule: show_hex.induct)
  case (1 n)
  then show ?case by (subst show_hex.simps) (simp add: to_digit_hex digits_value_append)
qed

lemma length_show_hex: "n < 16 ^ Suc k \<Longrightarrow> length (show_hex n) \<le> Suc k"
proof (induction k arbitrary: n)
  case 0
  then show ?case by (subst show_hex.simps) simp
next
  case (Suc k)
  then have "n div 16 < 16 ^ Suc k" by (simp add: less_mult_imp_div_less)
  with Suc.IH show ?case by (subst show_hex.simps) simp
qed

lemma show_hex_not_Nil [simp]: "show_hex n \<noteq> []"
  by (subst show_hex.simps) simp

lemma set_show_hex: "set (show_hex n) \<subseteq> set ''0123456789abcdef''"
proof (induction n rule: show_hex.induct)
  case (1 n)
  have "digit_char (n mod 16) \<in> set ''0123456789abcdef''" unfolding digit_char_def by (rule nth_mem) simp
  moreover have "digit_char n \<in> set ''0123456789abcdef''" if "n < 16"
    unfolding digit_char_def by (rule nth_mem) (use that in simp)
  ultimately show ?case using 1 by (subst show_hex.simps) (simp del: insert_iff)
qed

lemma show_hex_no_special: "c \<notin> set ''0123456789abcdef'' \<Longrightarrow> c \<notin> set (show_hex n)"
  using set_show_hex [of n] by blast

lemma read_group:
  assumes "n < 65536" "rest = [] \<or> to_digit 16 (hd rest) = None"
  shows "read_number 16 4 True 65536 (show_hex n @ rest) = Some (n, rest)"
proof -
  have "length (show_hex n) \<le> 4" using length_show_hex [of n 3] assms(1) by simp
  with read_digits_append [OF digits_value_show_hex [of n], of 0 4 rest] assms show ?thesis
    by (simp add: read_number_def)
qed

section \<open>No embedded address\<close>

lemma read_digits_rest: "read_digits r limit count acc s = Some (n, k, rest) \<Longrightarrow> set rest \<subseteq> set s"
  by (induction r limit count acc s rule: read_digits.induct) (auto split: option.splits if_splits)

lemma no_dot_no_ipv4: "CHR ''.'' \<notin> set s \<Longrightarrow> read_ipv4_addr s = None"
proof (cases "read_octet s")
  case (Some r)
  obtain n rest where r: "r = (n, rest)" by (cases r)
  with Some have "set rest \<subseteq> set s"
    using read_digits_rest by (fastforce simp: read_octet_def read_number_def split: option.splits if_splits)
  moreover assume "CHR ''.'' \<notin> set s"
  ultimately have "read_given_char CHR ''.'' rest = None" by (cases rest) auto
  with Some r show ?thesis by (simp add: read_ipv4_addr_def)
qed (simp add: read_ipv4_addr_def)

lemma no_dot_separated: "CHR ''.'' \<notin> set s \<Longrightarrow> read_separator c i read_ipv4_addr s = None"
  by (cases s) (simp_all add: read_separator_def no_dot_no_ipv4)

section \<open>Groups\<close>

text \<open>The text of groups that follow others, and where reading them ends.\<close>

definition more_groups :: "nat list \<Rightarrow> string" where
  "more_groups gs = concat (map (\<lambda>g. CHR '':'' # show_hex g) gs)"

definition groups_text :: "nat list \<Rightarrow> string" where
  "groups_text gs = join '':'' (map show_hex gs)"

lemma groups_text_Cons: "groups_text (g # gs) = show_hex g @ more_groups gs"
  unfolding groups_text_def more_groups_def by (induction gs arbitrary: g) simp_all

lemma starts_with_iff: "starts_with p s \<longleftrightarrow> (\<exists>rest. s = p @ rest)"
  by (induction p s rule: starts_with.induct) auto

lemma to_digit_colon [simp]: "to_digit r CHR '':'' = None"
  by (simp add: to_digit_def digit_table_def)

lemma no_group_here:
  "read_number 16 4 True 65536 [] = None" "read_number 16 4 True 65536 (CHR '':'' # s) = None"
  by (simp_all add: read_number_def)

lemma read_groups_step:
  "\<lbrakk>i < limit; read_separator CHR '':'' i read_ipv4_addr s = None;
    read_separator CHR '':'' i (read_number 16 4 True 65536) s = Some (g, s'); read_groups (Suc i) limit s' = (gs, v4, rest)\<rbrakk>
   \<Longrightarrow> read_groups i limit s = (g # gs, v4, rest)"
  by (subst read_groups.simps) simp

lemma read_groups_end:
  assumes "CHR ''.'' \<notin> set tail" "tail = [] \<or> starts_with ''::'' tail"
  shows "read_groups i limit tail = ([], False, tail)"
  using assms no_dot_separated [OF assms(1)]
  by (subst read_groups.simps) (auto simp: starts_with_iff read_separator_def no_group_here)

lemma read_more_groups:
  assumes "CHR ''.'' \<notin> set tail" "tail = [] \<or> starts_with ''::'' tail"
  shows "\<lbrakk>\<forall>g \<in> set gs. g < 65536; i + length gs \<le> limit; 0 < i\<rbrakk>
    \<Longrightarrow> read_groups i limit (more_groups gs @ tail) = (gs, False, tail)"
proof (induction gs arbitrary: i)
  case Nil
  then show ?case using read_groups_end [OF assms] by (simp add: more_groups_def)
next
  case (Cons g gs)
  let ?rest = "more_groups gs @ tail"
  have shown: "more_groups (g # gs) @ tail = CHR '':'' # show_hex g @ ?rest" by (simp add: more_groups_def)
  have stop: "?rest = [] \<or> to_digit 16 (hd ?rest) = None"
    using assms(2) by (cases gs) (auto simp: more_groups_def starts_with_iff)
  have "CHR ''.'' \<notin> set (more_groups (g # gs) @ tail)"
    using assms(1) show_hex_no_special [of "CHR ''.''"] by (auto simp: more_groups_def)
  then have "read_separator CHR '':'' i read_ipv4_addr (more_groups (g # gs) @ tail) = None" by (rule no_dot_separated)
  moreover have "read_separator CHR '':'' i (read_number 16 4 True 65536) (more_groups (g # gs) @ tail) = Some (g, ?rest)"
    unfolding shown using read_group [OF _ stop, of g] Cons.prems by (simp add: read_separator_def)
  ultimately show ?case using Cons.prems Cons.IH [of "Suc i"] by (intro read_groups_step) simp_all
qed

lemma read_groups_text:
  assumes "CHR ''.'' \<notin> set tail" "tail = [] \<or> starts_with ''::'' tail"
    and "\<forall>g \<in> set gs. g < 65536" "length gs \<le> limit"
  shows "read_groups 0 limit (groups_text gs @ tail) = (gs, False, tail)"
proof (cases gs)
  case Nil
  then show ?thesis using read_groups_end [OF assms(1,2)] by (simp add: groups_text_def)
next
  case (Cons g gs')
  let ?rest = "more_groups gs' @ tail"
  have shown: "groups_text gs @ tail = show_hex g @ ?rest" by (simp add: Cons groups_text_Cons)
  have stop: "?rest = [] \<or> to_digit 16 (hd ?rest) = None"
    using assms(2) by (cases gs') (auto simp: more_groups_def starts_with_iff)
  have "CHR ''.'' \<notin> set (groups_text gs @ tail)"
    using assms(1) show_hex_no_special [of "CHR ''.''"] unfolding shown by (auto simp: more_groups_def)
  then have "read_separator CHR '':'' 0 read_ipv4_addr (groups_text gs @ tail) = None" by (rule no_dot_separated)
  moreover have "read_separator CHR '':'' 0 (read_number 16 4 True 65536) (groups_text gs @ tail) = Some (g, ?rest)"
    unfolding shown using read_group [OF _ stop, of g] assms(3) Cons by (simp add: read_separator_def)
  moreover have "read_groups 1 limit ?rest = (gs', False, tail)"
    using read_more_groups [OF assms(1,2), of gs' 1 limit] assms(3,4) Cons by simp
  ultimately show ?thesis unfolding Cons using Cons assms(4) by (intro read_groups_step) simp_all
qed

section \<open>The run of zeros that is left out\<close>

definition zeros_in :: "nat list \<Rightarrow> nat \<times> nat \<Rightarrow> bool" where
  "zeros_in ss run \<longleftrightarrow> fst run + snd run \<le> length ss \<and> take (snd run) (drop (fst run) ss) = replicate (snd run) 0"

lemma zeros_in_append: "zeros_in ss run \<Longrightarrow> zeros_in (ss @ ts) run"
  by (auto simp: zeros_in_def)

lemma zeros_in_Suc:
  assumes "zeros_in ss run" "fst run + snd run = length ss"
  shows "zeros_in (ss @ [0]) (fst run, Suc (snd run))"
proof -
  have "drop (fst run) ss = replicate (snd run) 0"
    using assms by (simp add: zeros_in_def)
  then show ?thesis using assms by (simp add: zeros_in_def replicate_append_same [symmetric])
qed

lemma longest_zeroes_run:
  "\<lbrakk>zeros_in done longest; zeros_in done current; snd current = 0 \<or> fst current + snd current = length done\<rbrakk>
   \<Longrightarrow> zeros_in (done @ ss) (longest_zeroes ss (length done) longest current)"
proof (induction ss arbitrary: "done" longest current)
  case (Cons s ss)
  show ?case
  proof (cases "s = 0")
    case True
    let ?current = "(if snd current = 0 then length done else fst current, Suc (snd current))"
    have zeros: "zeros_in (done @ [0]) ?current"
      using zeros_in_Suc [of "done" "(if snd current = 0 then length done else fst current, snd current)"] Cons.prems
      by (auto simp: zeros_in_def)
    have "zeros_in ((done @ [0]) @ ss)
      (longest_zeroes ss (length (done @ [0])) (if snd ?current > snd longest then ?current else longest) ?current)"
      using Cons.prems zeros zeros_in_append by (intro Cons.IH) (auto simp: zeros_in_def)
    then show ?thesis using True by (simp add: Let_def)
  next
    case False
    have "zeros_in ((done @ [s]) @ ss) (longest_zeroes ss (length (done @ [s])) longest (0, 0))"
      using Cons.prems zeros_in_append by (intro Cons.IH) (auto simp: zeros_in_def)
    with False show ?thesis by simp
  qed
qed simp

lemma longest_zeroes_filled:
  assumes "longest_zeroes ss 0 (0, 0) (0, 0) = (start, len)"
  shows "start + len \<le> length ss" "ss = take start ss @ replicate len 0 @ drop (start + len) ss"
proof -
  have run: "zeros_in ss (start, len)" using longest_zeroes_run [of "[]" "(0, 0)" "(0, 0)" ss] assms by (simp add: zeros_in_def)
  then show "start + len \<le> length ss" by (simp add: zeros_in_def)
  have "ss = take start ss @ take len (drop start ss) @ drop len (drop start ss)" by (metis append_take_drop_id)
  with run show "ss = take start ss @ replicate len 0 @ drop (start + len) ss"
    by (metis add.commute drop_drop fst_conv snd_conv zeros_in_def)
qed

section \<open>Segments\<close>

lemma ipv6_segments_bound: "\<forall>g \<in> set (ipv6_segments a). g < 65536"
  by (auto simp: ipv6_segments_def)

lemma length_ipv6_segments [simp]: "length (ipv6_segments a) = 8"
  by (simp add: ipv6_segments_def)

lemma segments_value:
  "foldl (\<lambda>n g. n * 65536 + g) 0 (map (\<lambda>i. n div 65536 ^ (k - i) mod 65536) [0..<Suc k]) = n mod 65536 ^ Suc k" for n :: nat
proof -
  have "foldl (\<lambda>n g. n * 65536 + g) 0 (map (\<lambda>i. n div 65536 ^ (k - i) mod 65536) [0..<m]) = n div 65536 ^ (Suc k - m) mod 65536 ^ m"
    if "m \<le> Suc k" for m
    using that
  proof (induction m)
    case (Suc m)
    have e: "Suc k - m = Suc (k - m)" using Suc.prems by simp
    let ?q = "n div 65536 ^ (k - m)"
    have d: "n div 65536 ^ (Suc k - m) = ?q div 65536" unfolding e by (simp add: div_mult2_eq [symmetric] mult.commute)
    have "?q mod 65536 ^ Suc m = ?q div 65536 mod 65536 ^ m * 65536 + ?q mod 65536"
      by (simp add: mod_mult2_eq mult.commute)
    with Suc d show ?case by simp
  qed simp
  from this [of "Suc k"] show ?thesis by simp
qed

lemma ipv6_of_segments_segments: "ipv6_of_segments (ipv6_segments a) = a"
proof -
  have "unat a < 2 ^ 128" using unsigned_less [of a] by simp
  then have "unat a mod 65536 ^ 8 = unat a" by simp
  with segments_value [of "unat a" 7] show ?thesis by (simp add: ipv6_of_segments_def ipv6_segments_def)
qed

section \<open>Reading addresses\<close>

lemma read_digits_none: "s = [] \<or> to_digit r (hd s) = None \<Longrightarrow> read_number r limit z bound s = None"
  by (cases s) (simp_all add: read_number_def)

lemma no_octet_no_ipv4: "s = [] \<or> to_digit 10 (hd s) = None \<Longrightarrow> read_ipv4_addr s = None"
  by (simp add: read_ipv4_addr_def read_octet_def read_digits_none)

lemma groups_text_no_dot: "CHR ''.'' \<notin> set (groups_text gs)"
  using show_hex_no_special [of "CHR ''.''"] by (cases gs) (auto simp: groups_text_def[of "[]"] groups_text_Cons more_groups_def)

lemma join_groups: "join '':'' (map show_hex gs) = groups_text gs"
  by (simp add: groups_text_def)

text \<open>In full.\<close>

lemma read_full:
  assumes "\<forall>g \<in> set gs. g < 65536" "length gs = 8"
  shows "read_ipv6_addr (groups_text gs) = Some (gs, [])"
  using read_groups_text [of "[]" gs 8] assms by (simp add: read_ipv6_addr_def)

text \<open>With a run of zeros left out.\<close>

lemma read_compressed:
  assumes "\<forall>g \<in> set (front @ rear). g < 65536" "length front + length rear < 8"
  shows "read_ipv6_addr (groups_text front @ ''::'' @ groups_text rear)
    = Some (front @ replicate (8 - length front - length rear) 0 @ rear, [])"
proof -
  have "read_groups 0 8 (groups_text front @ ''::'' @ groups_text rear) = (front, False, ''::'' @ groups_text rear)"
    by (rule read_groups_text) (use assms groups_text_no_dot in auto)
  moreover have "read_groups 0 (8 - (length front + 1)) (groups_text rear) = (rear, False, [])"
    using read_groups_text [of "[]" rear "8 - (length front + 1)"] assms by simp
  ultimately show ?thesis using assms(2) by (simp add: read_ipv6_addr_def)
qed

text \<open>With an embedded IPv4 address.\<close>

lemma read_mapped:
  assumes "ipv4_octets b = [o1, o2, o3, o4]"
  shows "read_ipv6_addr (''::ffff:'' @ show_ipv4 b) = Some ([0, 0, 0, 0, 0, 65535, o1 * 256 + o2, o3 * 256 + o4], [])"
proof -
  have f: "to_digit 10 CHR ''f'' = None" by (simp add: to_digit_def digit_table_def)
  have front: "read_groups 0 8 (''::ffff:'' @ show_ipv4 b) = ([], False, ''::ffff:'' @ show_ipv4 b)"
    by (subst read_groups.simps) (simp add: read_separator_def no_octet_no_ipv4 no_group_here)
  have octets: "read_ipv4_addr (show_ipv4 b) = Some ([o1, o2, o3, o4], [])"
    using ipv4_octets_bound [of b] read_ipv4_show [of o1 o2 o3 o4] by (simp add: show_ipv4_def assms)
  have "show_hex 65535 = ''ffff''" by (simp add: show_hex.simps digit_char_def)
  then have ffff: "read_number 16 4 True 65536 (''ffff:'' @ show_ipv4 b) = Some (65535, '':'' @ show_ipv4 b)"
    using read_group [of 65535 "'':'' @ show_ipv4 b"] by simp
  have "read_groups 1 7 ('':'' @ show_ipv4 b) = ([o1 * 256 + o2, o3 * 256 + o4], True, [])"
    using octets by (subst read_groups.simps) (simp add: read_separator_def)
  then have "read_groups 0 7 (''ffff:'' @ show_ipv4 b) = ([65535, o1 * 256 + o2, o3 * 256 + o4], True, [])"
    using ffff f by (intro read_groups_step [where g = 65535]) (simp_all add: read_separator_def no_octet_no_ipv4)
  moreover have "replicate 5 (0 :: nat) = [0, 0, 0, 0, 0]" by (simp add: numeral_eq_Suc)
  ultimately show ?thesis using front by (simp add: read_ipv6_addr_def)
qed

lemma mapped_segments:
  assumes "take 6 (ipv6_segments a) = [0, 0, 0, 0, 0, 65535]" "ipv4_octets (ucast a) = [o1, o2, o3, o4]"
  shows "ipv6_segments a = [0, 0, 0, 0, 0, 65535, o1 * 256 + o2, o3 * 256 + o4]"
proof -
  let ?n = "unat (ucast a :: u32)"
  have n: "?n = unat a mod 2 ^ 32" by (simp add: unsigned_ucast_eq take_bit_eq_mod)
  have "?n div 2 ^ 24 * 256 + ?n div 2 ^ 16 mod 256 = ?n div 2 ^ 16"
    using div_mult_mod_eq [of "?n div 2 ^ 16" 256] by (simp add: div_mult2_eq [symmetric])
  moreover have "?n div 2 ^ 16 = unat a div 65536 mod 65536"
    unfolding n using mod_mult2_eq [of "unat a" 65536 65536] by simp
  moreover have "?n div 2 ^ 8 mod 256 * 256 + ?n mod 256 = ?n mod 65536" using mod_mult2_eq [of ?n 256 256] by simp
  moreover have "?n mod 65536 = unat a mod 65536" unfolding n by (simp add: mod_mod_cancel)
  moreover have "ipv6_segments a = take 6 (ipv6_segments a) @ [unat a div 65536 mod 65536, unat a mod 65536]"
  proof -
    have "[0..<8 :: nat] = [0..<6] @ [6, 7]" by (simp add: upt_rec)
    then show ?thesis by (simp add: ipv6_segments_def)
  qed
  ultimately show ?thesis using assms by (simp add: ipv4_octets_def)
qed

theorem parse_ip_show_ipv6: "parse_ip (show_ipv6 a) = Some (V6 a)"
proof -
  let ?ss = "ipv6_segments a"
  have "read_ipv4_addr (show_ipv6 a) = None \<and> read_ipv6_addr (show_ipv6 a) = Some (?ss, [])"
  proof (cases "take 6 ?ss = [0, 0, 0, 0, 0, 65535]")
    case True
    obtain o1 o2 o3 o4 where o: "ipv4_octets (ucast a) = [o1, o2, o3, o4]" by (simp add: ipv4_octets_def)
    have s: "show_ipv6 a = ''::ffff:'' @ show_ipv4 (ucast a)" using True by (simp add: show_ipv6_def)
    with read_mapped [OF o] mapped_segments [OF True o] show ?thesis by (simp add: no_octet_no_ipv4)
  next
    case False
    obtain start len where run: "longest_zeroes ?ss 0 (0, 0) (0, 0) = (start, len)" by fastforce
    show ?thesis
    proof (cases "len > 1")
      case True
      let ?front = "take start ?ss" and ?rear = "drop (start + len) ?ss"
      have s: "show_ipv6 a = groups_text ?front @ ''::'' @ groups_text ?rear"
        using False True run by (simp add: show_ipv6_def join_groups Let_def)
      have "start + len \<le> 8" using longest_zeroes_filled(1) [OF run] by simp
      moreover have "read_ipv6_addr (show_ipv6 a) = Some (?front @ replicate (8 - length ?front - length ?rear) 0 @ ?rear, [])"
        unfolding s using ipv6_segments_bound [of a] True \<open>start + len \<le> 8\<close>
        by (intro read_compressed) (auto dest: in_set_takeD in_set_dropD)
      moreover have "read_ipv4_addr (show_ipv6 a) = None" unfolding s using groups_text_no_dot by (intro no_dot_no_ipv4) simp
      ultimately show ?thesis using longest_zeroes_filled(2) [OF run] by simp
    next
      case short: False
      have s: "show_ipv6 a = groups_text ?ss" using False short run by (simp add: show_ipv6_def join_groups Let_def)
      show ?thesis unfolding s using read_full [of ?ss] ipv6_segments_bound groups_text_no_dot
        by (simp add: no_dot_no_ipv4)
    qed
  qed
  then show ?thesis by (simp add: parse_ip_def ipv6_of_segments_segments)
qed

section \<open>Every address and every network\<close>

lemma parse_show_ip: "parse_ip (show_ip a) = Some a"
  by (cases a) (simp_all add: parse_ip_show_ipv4 parse_ip_show_ipv6)

lemma show_ip_no_slash: "CHR ''/'' \<notin> set (show_ip a)"
proof (cases a)
  case (V6 b)
  have "CHR ''/'' \<notin> set (groups_text gs)" for gs
    using show_hex_no_special [of "CHR ''/''"] by (cases gs) (auto simp: groups_text_def[of "[]"] groups_text_Cons more_groups_def)
  then show ?thesis using show_ipv4_no_slash by (simp add: V6 show_ipv6_def join_groups Let_def split: prod.split)
qed (simp add: show_ipv4_no_slash)

theorem parse_show_network:
  assumes "p \<le> max_prefix a"
  shows "parse_ip_network (show_network (a, p)) = Some (a, p)"
proof -
  have "split_once CHR ''/'' (show_network (a, p)) = Some (show_ip a, show_nat (unat p))"
    using split_once_append [OF show_ip_no_slash] by (simp add: show_network_def)
  with assms show ?thesis by (simp add: parse_ip_network_def parse_show_ip u8_text.dec_enc)
qed

interpretation network_text: codec show_network parse_ip_network "\<lambda>(a, p). p \<le> max_prefix a"
  by unfold_locales (auto simp: parse_show_network)

end
