(* ===== verification/YamlRound.thy ===== *)
theory YamlRound
  imports YamlFacts Ipv6Text
begin

text \<open>
  Printing and reading a list of states, and the values on which that is the identity: those that the
  reader itself produces at a schema path (\<open>readable\<close>), described by their form alone.  Preparation for apply keeps them, so
  query text can be followed through the whole pipeline.
\<close>

section \<open>Lists of states\<close>

lemma render_single:
  assumes "yaml_laws lib" "wf_registry reg" "state_wf st" "expressible st" "yaml_print lib (YMapping (state_entries lib reg inc st)) = Ok text"
  shows "from_yaml_with_registry lib fresh text reg = Ok [reread_state reg inc (fresh 0) st]"
proof -
  have "yaml_read lib text = Ok (YMapping (state_entries lib reg inc st))" "\<not> is_blank text"
    using assms state_plain [OF assms(1,4,3), of reg inc] unfolding yaml_laws_def by blast+
  then show ?thesis
    using assms by (simp add: from_yaml_with_registry_def state_reread)
qed

lemma render_many:
  assumes "yaml_laws lib" "wf_registry reg" "\<forall>st \<in> set states. state_wf st \<and> expressible st"
    and "yaml_print lib (YSequence (map (\<lambda>st. YMapping (state_entries lib reg inc st)) states)) = Ok text"
  shows "from_yaml_with_registry lib fresh text reg
     = Ok (map (\<lambda>(i, st). reread_state reg inc (fresh i) st) (enumerate 0 states))"
proof -
  let ?docs = "map (\<lambda>st. YMapping (state_entries lib reg inc st)) states"
  have "plain_yaml lib (YSequence ?docs)"
    using assms(1,3) by (auto simp: list_all_iff state_plain simp del: plain_yaml.simps(5)) 
  then have read: "yaml_read lib text = Ok (YSequence ?docs)" "\<not> is_blank text"
    using assms(1,4) unfolding yaml_laws_def by blast+
  have "otraverse (element_to_state lib reg fresh)
       (enumerate n ?docs) = Ok (map (\<lambda>(i, st). reread_state reg inc (fresh i) st) (enumerate n states))" for n
    using assms(3) by (induction states arbitrary: n) (simp_all add: element_to_state_def state_reread assms(1,2))
  with read show ?thesis by (simp add: from_yaml_with_registry_def)
qed

lemma printed_all:
  assumes "wf_registry reg" "\<forall>st \<in> set states. state_wf st \<and> expressible st"
  shows "otraverse (state_to_mapping lib reg inc) (enumerate n states)
    = Ok (map (\<lambda>st. YMapping (state_entries lib reg inc st)) states)"
  using assms(2) by (induction states arbitrary: n) (simp_all add: state_printed assms(1))

lemma printed_reserved:
  "\<not> expressible st \<Longrightarrow> \<exists>k. k \<in> set reserved_keys \<and> state_to_mapping lib reg inc (i, st) = Err (ReservedFieldKey k i)"
proof -
  assume "\<not> expressible st"
  then obtain k where k: "List.find (\<lambda>key. key \<in> set reserved_keys) (im_keys (st_fields st)) = Some k"
    using find_reserved [of st] by auto
  then have "k \<in> set reserved_keys" using find_in [OF k] by simp
  with k show ?thesis by (simp add: state_to_mapping_def)
qed

lemma render_list:
  "\<nexists>st. states = [st] \<Longrightarrow> render lib states inc reg =
     obind (omap YSequence (otraverse (state_to_mapping lib reg inc) (enumerate 0 states)))
       (\<lambda>doc. omap_err YamlError (yaml_print lib doc))"
  unfolding render_def by (rule arg_cong [of _ _ "\<lambda>m. obind m _"]) (auto split: list.split)

text \<open>What a successful rendering was given, and what reading it returns.\<close>

lemma render_Ok_expressible:
  assumes "render lib states inc reg = Ok text"
  shows "\<forall>st \<in> set states. expressible st"
proof -
  have *: "\<forall>st \<in> set states. expressible st"
    if "otraverse (state_to_mapping lib reg inc) (enumerate n states) = Ok docs" for n docs
    using that
  proof (induction states arbitrary: n docs)
    case (Cons st states)
    then show ?case using printed_reserved [of st lib reg inc n] by (fastforce simp: outcome_inversions)
  qed simp
  show ?thesis
  proof (cases "\<exists>st. states = [st]")
    case True
    then obtain st where st: "states = [st]" by blast
    with assms obtain doc where "state_to_mapping lib reg inc (0, st) = Ok doc"
      by (auto simp: render_def outcome_inversions)
    then have "otraverse (state_to_mapping lib reg inc) (enumerate 0 states) = Ok [doc]" by (simp add: st)
    then show ?thesis by (rule *)
  next
    case False
    then obtain docs where "otraverse (state_to_mapping lib reg inc) (enumerate 0 states) = Ok docs"
      using assms unfolding render_list [OF False] by (auto simp only: obind_eq_Ok omap_eq_Ok)
    then show ?thesis by (rule *)
  qed
qed

lemma render_reread:
  assumes lib: "yaml_laws lib" and reg: "wf_registry reg" and wf: "\<forall>st \<in> set states. state_wf st"
    and ok: "render lib states inc reg = Ok text"
  shows "from_yaml_with_registry lib fresh text reg
     = Ok (map (\<lambda>(i, st). reread_state reg inc (fresh i) st) (enumerate 0 states))"
proof -
  have all: "\<forall>st \<in> set states. state_wf st \<and> expressible st" using wf render_Ok_expressible [OF ok] by blast
  show ?thesis
  proof (cases "\<exists>st. states = [st]")
    case True
    then obtain st where st: "states = [st]" by blast
    with ok all reg have "yaml_print lib (YMapping (state_entries lib reg inc st)) = Ok text"
      by (simp add: render_def state_printed omap_err_Ok_iff)
    with render_single [OF lib reg _ _ this] all st show ?thesis by simp
  next
    case False
    then have "render lib states inc reg
        = omap_err YamlError (yaml_print lib (YSequence (map (\<lambda>st. YMapping (state_entries lib reg inc st)) states)))"
      using printed_all [OF reg all, of lib inc 0] by (simp add: render_list)
    with ok have "yaml_print lib (YSequence (map (\<lambda>st. YMapping (state_entries lib reg inc st)) states)) = Ok text"
      by (simp add: omap_err_Ok_iff)
    then show ?thesis by (rule render_many [OF lib reg all])
  qed
qed

section \<open>Values the reader produces\<close>

text \<open>
  A path of the schema at which text is read as a network, and the values that come back as they are: at such a path a network
  with a possible prefix, or a text that is no network; elsewhere any text, but no network; nowhere a bare address, for which
  there is no format, nor a signed integer that an unsigned one can hold.
\<close>

definition network_path :: "schema_node option \<Rightarrow> bool" where
  "network_path schema \<longleftrightarrow> (case schema of Some node \<Rightarrow> expect_type node = Some TIpNetwork | None \<Rightarrow> False)"

fun readable :: "schema_node option \<Rightarrow> cval \<Rightarrow> bool" where
  "readable schema (VString s) = (network_path schema \<longrightarrow> parse_ip_network s = None)"
| "readable schema (VI64 i) = (sint i < 0)"
| "readable schema (VIpAddr a) = False"
| "readable schema (VIpNetwork (a, p)) = (network_path schema \<and> p \<le> max_prefix a)"
| "readable schema (VList items) = list_all (readable (Option.bind schema sn_items)) items"
| "readable schema (VMap entries) =
     list_all (\<lambda>(k, v). readable (Option.bind schema (\<lambda>node. node_property node k)) v) entries"
| "readable schema v = True"

lemma reread_text_eq:
  "reread_text schema s =
     (if network_path schema then (case parse_ip_network s of Some n \<Rightarrow> VIpNetwork n | None \<Rightarrow> VString s) else VString s)"
proof (cases schema)
  case (Some node)
  show ?thesis
  proof (cases "expect_type node")
    case (Some t)
    then show ?thesis
      using \<open>schema = Some node\<close> by (cases t) (auto simp: reread_text_def network_path_def decode_string_def split: option.split)
  qed (simp add: Some reread_text_def network_path_def decode_string_def)
qed (simp add: reread_text_def network_path_def)

lemma reread_network:
  "reread_text schema (show_network (a, p)) = VIpNetwork (a, p) \<longleftrightarrow> network_path schema \<and> p \<le> max_prefix a"
  using parse_show_network [of p a] parse_ip_network_prefix [of "show_network (a, p)" a p]
  by (auto simp: reread_text_eq split: option.split)

lemma map_same_iff: "map f xs = xs \<longleftrightarrow> (\<forall>x \<in> set xs. f x = x)"
  by (induction xs) auto

text \<open>These are exactly the values that come back.\<close>

theorem reread_iff: "reread schema v = v \<longleftrightarrow> readable schema v"
proof (induction v arbitrary: schema)
  case (VList vs)
  then show ?case by (auto simp: list_all_iff map_same_iff)
next
  case (VMap m)
  have "reread (Option.bind schema (\<lambda>node. node_property node k)) v = v
      \<longleftrightarrow> readable (Option.bind schema (\<lambda>node. node_property node k)) v" if "(k, v) \<in> set m" for k v
    using VMap.IH [of "(k, v)" v] that by simp
  then show ?case by (fastforce simp: list_all_iff map_same_iff)
next
  case (VIpNetwork n)
  then show ?case by (cases n) (simp add: reread_network)
qed (auto simp: reread_text_eq split: option.split)

lemma decoded_text_readable: "value_wf (reread_text schema s) \<and> readable schema (reread_text schema s)"
  using parse_ip_network_prefix [of s] by (auto simp: reread_text_eq split: option.split)

lemma otraverse_member: "otraverse f xs = Ok ys \<Longrightarrow> y \<in> set ys \<Longrightarrow> \<exists>x \<in> set xs. f x = Ok y"
  by (induction xs arbitrary: ys) (auto simp: outcome_inversions)

lemma im_insert_member: "(k, v) \<in> set (im_insert m j w) \<Longrightarrow> (k, v) \<in> set m \<or> (k = j \<and> v = w)"
  by (induction m) (auto split: if_splits)

lemma im_extend_member: "e \<in> set (im_extend m kvs) \<Longrightarrow> e \<in> set m \<or> e \<in> set kvs"
proof (induction kvs arbitrary: m)
  case (Cons kv kvs)
  obtain k v where kv: "kv = (k, v)" by (cases kv)
  obtain x y where e: "e = (x, y)" by (cases e)
  show ?case
    using Cons.prems Cons.IH [of "im_insert m k v"] im_insert_member [of x y k v m] unfolding kv e by auto
qed simp

text \<open>Reading gives well-formed and readable values.\<close>

lemma value_to_model_readable:
  "\<lbrakk>yaml_laws lib; value_to_model lib y schema = Ok v; schema_ok schema\<rbrakk>
     \<Longrightarrow> value_wf v \<and> readable schema v"
proof (induction lib y schema arbitrary: v rule: value_to_model.induct)
  case (3 lib n schema)
  have "as_u64 lib n = None \<Longrightarrow> as_i64 lib n = Some i \<Longrightarrow> sint i < 0" for i
    using "3.prems"(1) unfolding yaml_laws_def by blast
  with 3 show ?case by (auto split: option.splits)
next
  case (4 lib s schema)
  from 4 value_of_string [of schema lib s] have "reread_text schema s = v" by simp
  then show ?case using decoded_text_readable by blast
next
  case (5 lib items schema)
  then obtain vs where vs: "otraverse (\<lambda>item. value_to_model lib item (Option.bind schema sn_items)) items = Ok vs"
    "v = VList vs" by (auto simp: outcome_inversions)
  have "value_wf w \<and> readable (Option.bind schema sn_items) w"
    if "w \<in> set vs" for w
    using otraverse_member [OF vs(1) that] "5.IH" "5.prems"(1) schema_ok_sub(1) [OF "5.prems"(3)] by metis
  then show ?case using vs(2) by (simp add: list_all_iff)
next
  case (6 lib m schema)
  let ?sc = "\<lambda>key. Option.bind schema (\<lambda>node. node_property node key)"
  let ?f = "\<lambda>(k, item). obind (key_to_string lib k) (\<lambda>key. omap (\<lambda>v. (key, v)) (value_to_model lib item (?sc key)))"
  obtain kvs where kvs: "otraverse ?f m = Ok kvs" "v = VMap (im_extend [] kvs)"
    using "6.prems"(2) by (auto simp: outcome_inversions)
  have sub: "value_wf w \<and> readable (?sc key) w" if e: "(key, w) \<in> set kvs" for key w
  proof -
    obtain k item where "(k, item) \<in> set m" "?f (k, item) = Ok (key, w)"
      using otraverse_member [OF kvs(1) e] by auto
    then show ?thesis
      using "6.IH" [of "(k, item)" k item key w] "6.prems"(1) schema_ok_sub(2) [OF "6.prems"(3)]
      by (auto simp: outcome_inversions)
  qed
  have "value_wf v" using sub kvs(2) im_extend_member [of _ "[]" kvs] im_extend_wf [of "[]" kvs]
    by (fastforce simp: list_all_iff)
  moreover have "readable schema v"
    using sub kvs(2) im_extend_member [of _ "[]" kvs]
    by (fastforce simp: list_all_iff)
  ultimately show ?case by blast
qed auto

end
