(* ===== verification/YamlStates.thy ===== *)
theory YamlStates
  imports YamlRound
begin

text \<open>
  States as the decoder of \<open>schema.rs\<close> returns them: well-formed, without reserved keys, and readable.  Removing read-only fields and selecting a device keep all three.
\<close>

section \<open>Decoded states\<close>

definition readable_state :: "schema_registry \<Rightarrow> dev_state \<Rightarrow> bool" where
  "readable_state reg st \<longleftrightarrow> list_all (\<lambda>(k, v). readable (path_schema reg k) v) (st_fields st)"

lemma read_entries_fields:
  "\<lbrakk>read_entries lib reg entries (m, ty, fs) = Ok (m', ty', fs'); yaml_laws lib; wf_registry reg; im_wf fs;
    \<forall>(k, v) \<in> set fs. k \<notin> set reserved_keys \<and> value_wf v \<and> readable (path_schema reg k) v\<rbrakk>
   \<Longrightarrow> im_wf fs' \<and> (\<forall>(k, v) \<in> set fs'. k \<notin> set reserved_keys \<and> value_wf v
        \<and> readable (path_schema reg k) v)"
proof (induction entries arbitrary: m ty fs)
  case (Cons e entries)
  obtain k v where e: "e = (k, v)" by (cases e)
  obtain key where key: "key_to_string lib k = Ok key" using Cons.prems(1) e by (auto simp: outcome_inversions)
  show ?case
  proof (cases "key \<in> set reserved_keys")
    case True
    with Cons.prems(1) e key obtain m1 ty1 where "read_entries lib reg entries (m1, ty1, fs) = Ok (m', ty', fs')"
      by (auto simp: reserved_keys_def outcome_inversions)
    then show ?thesis using Cons.IH Cons.prems(2-5) by blast
  next
    case False
    with Cons.prems(1) e key path_schema_ok(1) [OF Cons.prems(3)] obtain w
      where w: "value_to_model lib v (path_schema reg key) = Ok w"
        "read_entries lib reg entries (m, ty, im_insert fs key w) = Ok (m', ty', fs')"
      by (auto simp: reserved_keys_def outcome_inversions)
    have "value_wf w \<and> readable (path_schema reg key) w"
      using value_to_model_readable [OF Cons.prems(2) w(1)] path_schema_ok(2) [OF Cons.prems(3)] by blast
    then have "\<forall>(k, v) \<in> set (im_insert fs key w). k \<notin> set reserved_keys \<and> value_wf v
        \<and> readable (path_schema reg k) v"
      using Cons.prems(5) False by (fastforce dest: im_insert_member)
    with Cons.IH [OF w(2) Cons.prems(2,3)] Cons.prems(4) show ?thesis by (simp add: imap.wf_put)
  qed
qed simp

definition decoded :: "dev_state \<Rightarrow> bool" where
  "decoded st \<longleftrightarrow> state_wf st \<and> expressible st"

lemma mapping_decoded:
  assumes "yaml_laws lib" "wf_registry reg" "mapping_to_state lib reg entries md = Ok st"
  shows "decoded st" "readable_state reg st"
proof -
  obtain m ty fs where r: "read_entries lib reg entries (default_match, [], []) = Ok (m, ty, fs)" "st_fields st = fs"
    using assms(3) by (auto simp: mapping_to_state_def outcome_inversions Let_def)
  have f: "im_wf fs \<and> (\<forall>(k, v) \<in> set fs. k \<notin> set reserved_keys \<and> value_wf v
      \<and> readable (path_schema reg k) v)"
    by (rule read_entries_fields [OF r(1) assms(1,2)]) simp_all
  then show "decoded st" using r(2) by (auto simp: decoded_def state_wf_def expressible_def list_all_iff)
  show "readable_state reg st"
    using f r(2) by (auto simp: readable_state_def list_all_iff)
qed

lemma from_yaml_decoded:
  assumes "yaml_laws lib" "wf_registry reg" "from_yaml_with_registry lib fresh text reg = Ok states" "st \<in> set states"
  shows "decoded st" "readable_state reg st"
proof -
  obtain entries md where "mapping_to_state lib reg entries md = Ok st"
  proof -
    from assms(3) obtain doc where d: "(case doc of
           YMapping m \<Rightarrow> omap (\<lambda>st. [st]) (mapping_to_state lib reg m (fresh 0))
         | YSequence entries \<Rightarrow> otraverse (element_to_state lib reg fresh) (enumerate 0 entries)
         | other \<Rightarrow> Err (InvalidTopLevel (shape other))) = Ok states"
      by (auto simp: from_yaml_with_registry_def outcome_inversions split: if_splits)
    show thesis
    proof (cases doc)
      case (YMapping m)
      with d assms(4) that show ?thesis by (auto simp: outcome_inversions)
    next
      case (YSequence items)
      with d have "otraverse (element_to_state lib reg fresh) (enumerate 0 items) = Ok states" by simp
      from otraverse_member [OF this assms(4)] obtain i y where "element_to_state lib reg fresh (i, y) = Ok st"
        by auto
      with that show ?thesis by (cases y) (simp_all add: element_to_state_def)
    qed (use d in simp_all)
  qed
  then show "decoded st" "readable_state reg st"
    by (rule mapping_decoded [OF assms(1,2)])+
qed

text \<open>Printing a state and reading it back gives its fields again exactly if they are readable.\<close>

lemma readable_state_reread: "reread_fields reg (st_fields st) = st_fields st \<longleftrightarrow> readable_state reg st"
  unfolding reread_fields_def map_same_iff by (auto simp: readable_state_def list_all_iff reread_iff)

section \<open>Preparation keeps readable states\<close>

abbreviation good :: "schema_node option \<Rightarrow> cval \<Rightarrow> bool" where
  "good schema v \<equiv> value_wf v \<and> readable schema v"

lemma strip_item_eq:
  "fst (strip_item it path (i, v)) = (case v of VMap m \<Rightarrow> fst (strip_value it v (index_path path i)) | _ \<Rightarrow> v)"
  by (simp add: strip_item_def strip_value_def split: cval.split)

text \<open>A pass over a map that keeps each key at most once.\<close>

lemma concat_keys:
  assumes "\<And>k v. im_keys (f k v) \<in> {[], [k]}"
  shows "set (im_keys (concat (map (\<lambda>(k, v). f k v) m))) \<subseteq> set (im_keys m)"
    and "im_wf m \<Longrightarrow> im_wf (concat (map (\<lambda>(k, v). f k v) m))"
proof -
  have sub: "set (im_keys (concat (map (\<lambda>(k, v). f k v) m))) \<subseteq> set (im_keys m)" for m
  proof (induction m)
    case (Cons e m)
    obtain k v where e: "e = (k, v)" by (cases e)
    have "set (im_keys (f k v)) \<subseteq> {k}" using assms [of k v] by auto
    with Cons show ?case by (auto simp: e simp del: set_concat set_map)
  qed simp
  then show "set (im_keys (concat (map (\<lambda>(k, v). f k v) m))) \<subseteq> set (im_keys m)" .
  show "im_wf m \<Longrightarrow> im_wf (concat (map (\<lambda>(k, v). f k v) m))"
  proof (induction m)
    case (Cons e m)
    obtain k v where e: "e = (k, v)" by (cases e)
    have "k \<notin> set (im_keys (concat (map (\<lambda>(k, v). f k v) m)))" using subsetD [OF sub] Cons.prems e by fastforce
    moreover have "distinct (im_keys (f k v))" "set (im_keys (f k v)) \<subseteq> {k}" using assms [of k v] by auto
    ultimately show ?case using Cons by (auto simp: e simp del: set_concat set_map)
  qed simp
qed

lemma strip_map_good:
  assumes wf: "im_wf m" and sub: "\<And>k v. (k, v) \<in> set m \<Longrightarrow> good (node_property n k) v"
    and IH: "\<And>k v p path. \<lbrakk>(k, v) \<in> set m; node_property n k = Some p\<rbrakk> \<Longrightarrow> good (Some p) (fst (strip_value p v path))"
  shows "good (Some n) (VMap (fst (remove_read_only_from_map n m path)))"
proof -
  have "im_wf (concat (map (\<lambda>(k, v). strip_entry n path k v) m))"
    by (rule concat_keys(2) [OF strip_entry_keys wf])
  moreover have "good (node_property n k) w" if "(k, w) \<in> set (concat (map (\<lambda>(k, v). strip_entry n path k v) m))" for k w
    using that sub IH by (force simp: strip_entry_def split: option.splits if_splits)
  ultimately show ?thesis
    unfolding remove_from_map_eq [OF wf] fst_conv value_wf.simps readable.simps bind.bind_lunit list_all_iff by blast
qed

lemma strip_good: "good (Some n) v \<Longrightarrow> good (Some n) (fst (strip_value n v path))"
proof (induction v arbitrary: n path)
  case (VList vs)
  show ?case
  proof (cases "sn_items n")
    case (Some it)
    have "good (Some it) (fst (strip_item it path (i, v)))" if "v \<in> set vs" for i v
      using VList.prems VList.IH [OF that] that Some
      by (auto simp: strip_item_eq list_all_iff split: cval.split)
    then have "good (Some it) w" if "w \<in> set (map fst (map (strip_item it path) (enumerate 0 vs)))" for w
      using that by (auto dest!: enumerate_in_set)
    then show ?thesis using Some by (simp add: strip_value_def Let_def list_all_iff del: map_map)
  qed (use VList.prems in \<open>simp add: strip_value_def\<close>)
next
  case (VMap m)
  have "good (Some n) (VMap (fst (remove_read_only_from_map n m path)))"
  proof (rule strip_map_good)
    show "good (node_property n k) v" if "(k, v) \<in> set m" for k v
      using VMap.prems that by (auto simp: list_all_iff)
    then show "good (Some p) (fst (strip_value p v path))"
      if "(k, v) \<in> set m" "node_property n k = Some p" for k v p path
      using VMap.IH [of "(k, v)" v p path] that VMap.prems by (force simp: list_all_iff)
  qed (use VMap.prems in simp)
  then show ?case by (cases "remove_read_only_from_map n m path") (simp add: strip_value_def)
qed (simp_all add: strip_value_def)

text \<open>A state that can be printed and read back without loss.\<close>

definition round_ready :: "schema_registry \<Rightarrow> dev_state \<Rightarrow> bool" where
  "round_ready reg st \<longleftrightarrow> decoded st \<and> readable_state reg st"

lemma round_ready_iff:
  "round_ready reg st \<longleftrightarrow> im_wf (st_fields st)
     \<and> (\<forall>(k, v) \<in> set (st_fields st). k \<notin> set reserved_keys \<and> good (path_schema reg k) v)"
  by (fastforce simp: round_ready_def decoded_def state_wf_def expressible_def readable_state_def list_all_iff)

lemma path_schema_trigger:
  assumes "wf_registry reg" "triggered_fragment reg k = Some f"
  shows "path_schema reg k = Some (fr_root f)"
proof -
  obtain base where b: "base_fragment reg = Some base" "wf_base reg base" using wf_registry_base [OF assms(1)] by blast
  have "k \<in> set (trigger_keys reg)" using assms(2) triggered_fragment_None [of reg k] by auto
  with b(2) have "node_property (fr_root base) k = None" by (auto simp: wf_base_def list_all_iff)
  with b(1) assms(2) show ?thesis by (simp add: path_schema_def top_level_schema_def)
qed

lemma path_schema_base:
  assumes "base_fragment reg = Some base" "triggered_fragment reg k = None"
  shows "path_schema reg k = node_property (fr_root base) k"
  using assms by (simp add: path_schema_def top_level_schema_def split: option.split)

lemma strip_top_good:
  assumes reg: "wf_registry reg" "base_fragment reg = Some base" and v: "good (path_schema reg k) v"
    and w: "(j, w) \<in> set (strip_top reg (fr_root base) k v)"
  shows "good (path_schema reg k) w"
proof (cases "triggered_fragment reg k")
  case (Some f)
  note ps = path_schema_trigger [OF reg(1) Some]
  show ?thesis
  proof (cases v)
    case (VMap m)
    with v ps strip_good [of v "fr_root f" k] have "good (Some (fr_root f)) (fst (strip_value (fr_root f) v k))" by simp
    moreover have "fst (strip_value (fr_root f) v k) = VMap (fst (remove_read_only_from_map (fr_root f) m k))"
      using VMap by (simp add: strip_value_def split: prod.split)
    ultimately show ?thesis using w VMap ps Some by (auto simp: strip_top_def Let_def split: if_splits)
  qed (use w v Some in \<open>auto simp: strip_top_def\<close>)
next
  case None
  note ps = path_schema_base [OF reg(2) None]
  show ?thesis
  proof (cases "node_property (fr_root base) k")
    case (Some p)
    with w None strip_good [of v p "join_path [] k"] v ps show ?thesis
      by (auto simp: strip_top_def strip_entry_def split: if_splits)
  qed (use w v None in \<open>auto simp: strip_top_def strip_entry_def\<close>)
qed

lemma strip_round_ready:
  assumes reg: "wf_registry reg" and st: "round_ready reg st"
    and strip: "remove_read_only_fields reg st = Some (st', removed)"
  shows "round_ready reg st'"
proof -
  obtain base where base: "base_fragment reg = Some base" using wf_registry_base [OF reg] by blast
  let ?top = "strip_top reg (fr_root base)"
  have wf: "im_wf (st_fields st)" using st by (simp add: round_ready_iff)
  have fields: "st_fields st' = concat (map (\<lambda>(k, v). ?top k v) (st_fields st))"
    using strip remove_read_only_eq [OF reg wf base] by auto
  have "k \<notin> set reserved_keys \<and> good (path_schema reg k) w" if kw: "(k, w) \<in> set (st_fields st')" for k w
  proof -
    obtain j v where v: "(j, v) \<in> set (st_fields st)" "(k, w) \<in> set (?top j v)" using kw fields by auto
    then have "k \<in> set (im_keys (?top j v))" by force
    with strip_top_keys [of reg "fr_root base" j v] have "k = j" by auto
    with v st strip_top_good [OF reg base _ v(2)] show ?thesis by (auto simp: round_ready_iff)
  qed
  moreover have "im_wf (st_fields st')"
    unfolding fields by (rule concat_keys(2) [OF strip_top_keys wf])
  ultimately show ?thesis by (auto simp: round_ready_iff)
qed

lemma round_ready_update [simp]:
  "round_ready reg (st\<lparr>st_match := m\<rparr>) = round_ready reg st"
  "round_ready reg (st\<lparr>st_match := m, device_type := t\<rparr>) = round_ready reg st"
  "round_ready reg (st\<lparr>st_match := m, st_source := s, st_priority := p\<rparr>) = round_ready reg st"
  by (simp_all add: round_ready_iff)

lemma round_ready_reset [simp]: "round_ready reg (reset_observation reg st) = round_ready reg st"
  by (simp add: round_ready_iff)

lemma prepare_state_round_ready:
  assumes reg: "wf_registry reg" and st: "round_ready reg st" and ok: "prepare_state reg mb (i, st) = Ok (st', ws)"
  shows "round_ready reg st'"
proof (cases "match_is_empty (st_match st)")
  case False
  with ok st show ?thesis by (simp add: prepare_state_def)
next
  case True
  from ok True obtain s0 st2 removed where
    s: "remove_read_only_fields reg (st\<lparr>st_match := select_by mb s0 (st_match st),
          st_fields := im_remove (st_fields st) (match_field mb)\<rparr>) = Some (st2, removed)" and
    st': "st' = (if device_type st2 \<noteq> []
        then st2\<lparr>st_match := (st_match st2)\<lparr>match_type := Some (device_type st2)\<rparr>, device_type := []\<rparr> else st2)"
    by (auto simp: prepare_state_def Let_def outcome_inversions)
  have "round_ready reg (st\<lparr>st_match := select_by mb s0 (st_match st),
          st_fields := im_remove (st_fields st) (match_field mb)\<rparr>)"
    using st by (auto simp: round_ready_iff imap.wf_remove im_remove_in)
  from strip_round_ready [OF reg this s] show ?thesis by (simp add: st')
qed

lemma prepared_round_ready:
  assumes reg: "wf_registry reg" and states: "\<forall>st \<in> set states. round_ready reg st"
    and ok: "prepare_for_apply_with_registry states mb reg = Ok out"
  shows "\<forall>st \<in> set (out_states out). round_ready reg st"
proof
  fix st
  assume st: "st \<in> set (out_states out)"
  let ?in = "map (reset_observation reg) states"
  obtain results where r: "otraverse (prepare_state reg mb) (enumerate 0 ?in) = Ok results" "out_states out = map fst results"
    using ok by (auto simp: prepare_for_apply_with_registry_def Let_def outcome_inversions split: if_splits)
  with st obtain ws where "(st, ws) \<in> set results" by auto
  from otraverse_member [OF r(1) this] obtain i st0 where p: "(i, st0) \<in> set (enumerate 0 ?in)"
    "prepare_state reg mb (i, st0) = Ok (st, ws)" by auto
  then have "st0 \<in> set ?in" by (blast dest: enumerate_in_set)
  then have "round_ready reg st0" using states by auto
  then show "round_ready reg st" by (rule prepare_state_round_ready [OF reg _ p(2)])
qed

end
