(* ===== verification/YamlProps.thy ===== *)
theory YamlProps
  imports YamlStates
begin

text \<open>
  The properties of the two YAML formats, with a sample library and sample documents for the witnesses.
\<close>

section \<open>A sample library and sample documents\<close>

text \<open>Numbers are mathematical integers; the library knows the two documents below.\<close>

definition query_doc :: "int yaml" where
  "query_doc = YMapping
     [(YString ''type'', YString ''ethernet''), (YString ''name'', YString ''eth0''), (YString ''mtu'', YNumber 1500)]"

definition policy_doc :: "int yaml" where
  "policy_doc = YMapping
     [(YString ''match'', YMapping [(YString ''name'', YString ''eth0''), (YString ''type'', YString ''ethernet'')]),
      (YString ''mtu'', YNumber 1500)]"

definition sample_lib :: "int yaml_lib" where
  "sample_lib =
     \<lparr>as_u64 = (\<lambda>n. if 0 \<le> n \<and> n < 2 ^ 64 then Some (word_of_int n) else None),
      as_i64 = (\<lambda>n. if - (2 ^ 63) \<le> n \<and> n < 2 ^ 63 then Some (word_of_int n) else None),
      number_text = show_int, number_of_u64 = uint, number_of_i64 = sint,
      as_str = (\<lambda>y. case y of YString s \<Rightarrow> Some s | _ \<Rightarrow> None),
      as_mapping = (\<lambda>y. case y of YMapping m \<Rightarrow> Some m | _ \<Rightarrow> None),
      yaml_read = (\<lambda>text. if text = ''query'' then Ok query_doc else if text = ''policy'' then Ok policy_doc
                          else Err ''unknown document''),
      yaml_print = (\<lambda>doc. if doc = policy_doc then Ok ''policy'' else Err ''unknown document'')\<rparr>"

lemma sint_i64: "- (2 ^ 63) \<le> sint (i :: i64)" "sint (i :: i64) < 2 ^ 63"
  using sint_ge [of i] sint_lt [of i] by simp_all

lemma sample_laws: "yaml_laws sample_lib"
proof -
  have i: "sint (i :: i64) < 2 ^ 64" "- (2 ^ 63) \<le> sint i" "sint i < 2 ^ 63" for i
    using sint_i64 [of i] by simp_all
  have u: "uint (u :: u64) < 2 ^ 64" for u using uint_bounded [of u] by simp
  have neg: "sint (word_of_int n :: i64) < 0" if "n < 0" "- (2 ^ 63) \<le> n" for n
  proof -
    have "sint (word_of_int n :: i64) = n" using that signed_take_bit_int_eq_self [of 63 n] by (simp add: signed_of_int)
    with that show ?thesis by simp
  qed
  show ?thesis
    using i u neg by (auto simp: yaml_laws_def sample_lib_def ascii_space_def wide_spaces_def)
qed

definition sample_md :: state_metadata where
  "sample_md = \<lparr>md_id = 1, md_created_at = 0\<rparr>"

text \<open>The first document as a state, and the policy it becomes.\<close>

definition query_raw :: dev_state where
  "query_raw = \<lparr>device_type = ''ethernet'', st_match = default_match,
     st_fields = [(''name'', VString ''eth0''), (''mtu'', VU64 1500)], st_source = Static [], st_priority = 100,
     st_metadata = sample_md\<rparr>"

definition policy_state :: dev_state where
  "policy_state = (query_observation query_raw)\<lparr>device_type := [],
     st_match := default_match\<lparr>match_name := Some ''eth0'', match_type := Some ''ethernet''\<rparr>,
     st_fields := [(''mtu'', VU64 1500)]\<rparr>"

lemmas embedded_eval = embedded_registry_def embedded_json_defs top_level_schema_def base_fragment_def
  triggered_fragment_def node_property_def trigger_keys_def List.map_filter_def implied_device_type_def im_contains_def
  field_info_of_def find_fragment_def

lemma query_read:
  "from_yaml_with_registry sample_lib (\<lambda>_. sample_md) ''query'' embedded_registry = Ok [query_raw]"
  by (simp add: from_yaml_with_registry_def sample_lib_def query_doc_def ascii_space_def wide_spaces_def
      mapping_to_state_def query_raw_def decode_string_def expect_type_def semantic_type_def embedded_eval)

lemma raw_conforms: "state_conforms False embedded_registry query_raw"
  by (simp add: state_conforms_def fragment_conforms_def query_raw_def entries_conform_def embedded_eval
      conforms_scalar in_range_def semantic_type_def required_keys_def)

lemma query_decoded:
  "decode_yaml sample_lib (\<lambda>_. sample_md) embedded_registry ''query'' DecodeQuery = Ok [query_observation query_raw]"
proof -
  have "validate embedded_registry query_raw = Some []"
    unfolding validate_def using validate_inner_conforms [OF embedded_wf] raw_conforms by blast
  moreover have "match_is_empty (st_match query_raw)" by (simp add: query_raw_def match_is_empty_def default_match_def)
  ultimately show ?thesis by (simp add: decode_yaml_def query_read)
qed

lemma policy_printed: "render sample_lib [policy_state] True embedded_registry = Ok ''policy''"
  by (simp add: render_def state_to_mapping_def policy_state_def query_observation_def query_raw_def reserved_keys_def
      omit_type_def match_to_value_def match_entries_def default_match_def sample_lib_def policy_doc_def embedded_eval)

lemma policy_round_ready: "round_ready embedded_registry policy_state"
  by (simp add: round_ready_iff policy_state_def reserved_keys_def)

section \<open>Decoding modes\<close>

lemma decode_errors_Nil_iff:
  assumes "wf_registry reg"
  shows "decode_errors reg mode (enumerate n states) = Ok [] \<longleftrightarrow>
     (\<forall>st \<in> set states. match_is_empty (st_match st) = (mode = DecodeQuery) \<and> state_conforms (mode = DecodePolicy) reg st)"
proof (induction states arbitrary: n)
  case (Cons st states)
  obtain es where es: "validate_inner reg st (mode = DecodePolicy) = Some es" using validate_inner_returns [OF assms] by blast
  with validate_inner_empty [OF assms es] Cons show ?case
    by (cases mode) (auto simp: validate_def validate_writable_def outcome_inversions)
qed simp

lemma decode_yaml_iff:
  assumes "wf_registry reg"
  shows "decode_yaml lib fresh reg input mode = Ok states \<longleftrightarrow>
     (\<exists>raw. from_yaml_with_registry lib fresh input reg = Ok raw
        \<and> (\<forall>st \<in> set raw. match_is_empty (st_match st) = (mode = DecodeQuery)
              \<and> state_conforms (mode = DecodePolicy) reg st)
        \<and> states = (if mode = DecodeQuery then map query_observation raw else raw))"
  unfolding decode_yaml_def obind_eq_Ok decode_errors_Nil_iff [OF assms, of mode 0, symmetric]
  by (auto split: if_splits)

text \<open>C32: decoding accepts exactly the texts that read to states with no selector (query) or with one (policy), all
  valid in that mode; query mode then derives the selector and marks the states as observed from the kernel.\<close>

theorem decode_yaml_exact:
  assumes "wf_registry reg"
  shows "decode_yaml lib fresh reg input mode = Ok states \<longleftrightarrow>
     (\<exists>raw. from_yaml_with_registry lib fresh input reg = Ok raw
        \<and> (\<forall>st \<in> set raw. match_is_empty (st_match st) = (mode = DecodeQuery)
              \<and> state_conforms (mode = DecodePolicy) reg st)
        \<and> states = (if mode = DecodeQuery then map query_observation raw else raw))"
  by (rule decode_yaml_iff [OF assms])

theorem decode_yaml_exact_witness:
  "\<exists>raw. from_yaml_with_registry sample_lib (\<lambda>_. sample_md) ''query'' embedded_registry = Ok raw
     \<and> map query_observation raw = [query_observation query_raw]"
  using decode_yaml_exact [OF embedded_wf, of sample_lib "\<lambda>_. sample_md" "''query''" DecodeQuery "[query_observation query_raw]"]
    query_decoded by auto

section \<open>Round trips\<close>

definition read_type :: "schema_registry \<Rightarrow> dev_state \<Rightarrow> string" where
  "read_type reg st =
     (if device_type st = [] then (case implied_device_type reg (st_fields st) of Some t \<Rightarrow> t | None \<Rightarrow> [])
      else device_type st)"

lemma reread_read_type: "reread_type reg inc st = read_type reg st"
  by (simp add: reread_type_def read_type_def omit_type_def)

lemma map_reread_states:
  assumes "\<And>i st. st \<in> set states \<Longrightarrow> g (reread_state reg inc (fresh i) st) = h st"
  shows "map g (map (\<lambda>(i, st). reread_state reg inc (fresh i) st) (enumerate 0 states)) = map h states"
proof -
  have "map g (map (\<lambda>(i, st). reread_state reg inc (fresh i) st) (enumerate n states)) = map h states" for n
    using assms by (induction states arbitrary: n) auto
  then show ?thesis .
qed

lemma render_round_trip:
  assumes "yaml_laws lib" "wf_registry reg" "\<forall>st \<in> set states. round_ready reg st"
    and "render lib states include_match reg = Ok text"
  shows "\<exists>states'. from_yaml_with_registry lib fresh text reg = Ok states'
     \<and> map st_fields states' = map st_fields states
     \<and> map st_match states' = map (\<lambda>st. if include_match then st_match st else default_match) states
     \<and> map device_type states' = map (read_type reg) states"
proof -
  let ?out = "map (\<lambda>(i, st). reread_state reg include_match (fresh i) st) (enumerate 0 states)"
  have "\<forall>st \<in> set states. state_wf st" using assms(3) by (simp add: round_ready_def decoded_def)
  then have r: "from_yaml_with_registry lib fresh text reg = Ok ?out"
    by (rule render_reread [OF assms(1,2) _ assms(4)])
  have "reread_fields reg (st_fields st) = st_fields st" if "st \<in> set states" for st
    using that assms(3) readable_state_reread by (simp add: round_ready_def)
  then have "map st_fields ?out = map st_fields states"
    "map st_match ?out = map (\<lambda>st. if include_match then st_match st else default_match) states"
    "map device_type ?out = map (read_type reg) states"
    by (intro map_reread_states; simp add: reread_state_def reread_read_type)+
  with r show ?thesis by blast
qed

text \<open>C30: what is printed in either format reads back as states in the same order, with the same field keys in the same order,
  the selector in the policy format, and the device type, which a technology object implies when it is not set; and the fields
  come back as they were exactly when every value has the form that text has at its schema path: no bare address, a network
  only where the schema declares the format and with a possible prefix, no text there that is a network, and a signed integer
  only if it is negative.\<close>

theorem yaml_round_trip:
  assumes "yaml_laws lib" "wf_registry reg" "\<forall>st \<in> set states. state_wf st"
    and "render lib states include_match reg = Ok text"
  shows "\<exists>states'. from_yaml_with_registry lib fresh text reg = Ok states'
     \<and> list_all2 (\<lambda>st' st. im_keys (st_fields st') = im_keys (st_fields st)
          \<and> st_match st' = (if include_match then st_match st else default_match)
          \<and> device_type st' = read_type reg st
          \<and> (st_fields st' = st_fields st \<longleftrightarrow> readable_state reg st)) states' states"
proof -
  let ?reread = "\<lambda>(i, st). reread_state reg include_match (fresh i) st"
  have "list_all2 (\<lambda>st' st. im_keys (st_fields st') = im_keys (st_fields st)
          \<and> st_match st' = (if include_match then st_match st else default_match)
          \<and> device_type st' = read_type reg st
          \<and> (st_fields st' = st_fields st \<longleftrightarrow> readable_state reg st)) (map ?reread (enumerate n states)) states" for n
    by (induction states arbitrary: n)
      (simp_all add: reread_state_def reread_read_type reread_fields_keys readable_state_reread)
  with render_reread [OF assms] show ?thesis by blast
qed

theorem yaml_round_trip_witness:
  "\<exists>st'. from_yaml_with_registry sample_lib (\<lambda>_. sample_md) ''policy'' embedded_registry = Ok [st']
     \<and> st_fields st' = [(''mtu'', VU64 1500)] \<and> st_match st' = st_match policy_state"
proof -
  have ready: "state_wf policy_state" "readable_state embedded_registry policy_state"
    using policy_round_ready by (simp_all add: round_ready_def decoded_def)
  from yaml_round_trip [OF sample_laws embedded_wf _ policy_printed, of "\<lambda>_. sample_md"] ready show ?thesis
    by (auto simp: list_all2_Cons2) (simp add: policy_state_def)
qed

text \<open>The printed document depends on the fields, the selector and whether the type is stated.\<close>

lemma state_to_mapping_cong:
  assumes "st_fields st' = st_fields st" "st_match st' = st_match st"
    and "device_type st' = read_type reg st"
  shows "state_to_mapping lib reg True (i, st') = state_to_mapping lib reg True (i, st)"
proof -
  have "omit_type reg True st' = omit_type reg True st"
    using assms by (auto simp: omit_type_def read_type_def split: option.splits)
  moreover have "\<not> omit_type reg True st \<Longrightarrow> device_type st' = device_type st"
    using assms(3) by (auto simp: omit_type_def read_type_def)
  ultimately show ?thesis using assms(1,2) by (simp add: state_to_mapping_def Let_def split: option.split)
qed

lemma render_cong:
  assumes "map st_fields states' = map st_fields states" "map st_match states' = map st_match states"
    and "map device_type states' = map (read_type reg) states"
  shows "render lib states' True reg = render lib states True reg"
proof -
  have len: "length states' = length states" using assms(1) map_eq_imp_length_eq by blast
  have *: "otraverse (state_to_mapping lib reg True) (enumerate n states')
      = otraverse (state_to_mapping lib reg True) (enumerate n states)" for n
    using len assms
  proof (induction states' states arbitrary: n rule: list_induct2)
    case (Cons st' states' st states)
    then show ?case using state_to_mapping_cong [of st' st reg lib n] by simp
  qed simp
  show ?thesis
  proof (cases "\<exists>st. states = [st]")
    case True
    then obtain st st' where "states = [st]" "states' = [st']"
      using len by (cases states') auto
    with assms state_to_mapping_cong [of st' st reg lib 0] show ?thesis by (simp add: render_def)
  next
    case False
    then have "\<nexists>st. states' = [st]" using len by (cases states; cases "tl states") (auto simp: length_Suc_conv)
    with False * [of 0] show ?thesis by (simp add: render_list)
  qed
qed

text \<open>C31: policy text is a fixed point: whatever text states were read from, the policy text printed of them reads back with
  their fields and selectors, and printing what was read from it gives the same text again.\<close>

theorem policy_text_fixed_point:
  assumes lib: "yaml_laws lib" and reg: "wf_registry reg" and read: "from_yaml_with_registry lib fresh input reg = Ok states"
    and print: "to_yaml_policy lib states reg = Ok text"
  shows "\<exists>states'. from_yaml_with_registry lib fresh' text reg = Ok states'
     \<and> map st_fields states' = map st_fields states \<and> map st_match states' = map st_match states
     \<and> to_yaml_policy lib states' reg = Ok text"
proof -
  have ready: "\<forall>st \<in> set states. round_ready reg st"
    using from_yaml_decoded [OF lib reg read] by (auto simp: round_ready_def)
  obtain states' where "from_yaml_with_registry lib fresh' text reg = Ok states'"
    "map st_fields states' = map st_fields states" "map st_match states' = map st_match states"
    "map device_type states' = map (read_type reg) states"
    using render_round_trip [OF lib reg ready, where include_match = True and fresh = fresh'] print
    by (auto simp: to_yaml_policy_def)
  with render_cong [of states' states reg lib] print show ?thesis by (auto simp: to_yaml_policy_def)
qed

lemma policy_reread:
  obtains states where "from_yaml_with_registry sample_lib (\<lambda>_. sample_md) ''policy'' embedded_registry = Ok states"
    "to_yaml_policy sample_lib states embedded_registry = Ok ''policy''"
proof -
  obtain states where "from_yaml_with_registry sample_lib (\<lambda>_. sample_md) ''policy'' embedded_registry = Ok states"
    "map st_fields states = map st_fields [policy_state]" "map st_match states = map st_match [policy_state]"
    "map device_type states = map (read_type embedded_registry) [policy_state]"
    using render_round_trip [OF sample_laws embedded_wf _ policy_printed, of "\<lambda>_. sample_md"] policy_round_ready by auto
  with render_cong [of states "[policy_state]" embedded_registry sample_lib] policy_printed that show thesis
    by (simp add: to_yaml_policy_def)
qed

theorem policy_text_fixed_point_witness:
  "\<exists>states'. from_yaml_with_registry sample_lib (\<lambda>_. sample_md) ''policy'' embedded_registry = Ok states'
     \<and> to_yaml_policy sample_lib states' embedded_registry = Ok ''policy''"
  using policy_text_fixed_point [OF sample_laws embedded_wf, of "\<lambda>_. sample_md" "''policy''" _ "''policy''" "\<lambda>_. sample_md"] policy_reread
  by metis

section \<open>From query text to policy text\<close>

text \<open>Registries whose implied device types are values of the property \<open>type\<close>.\<close>

definition implied_types_ok :: "schema_registry \<Rightarrow> bool" where
  "implied_types_ok reg \<longleftrightarrow>
     (case base_fragment reg of
        None \<Rightarrow> False
      | Some base \<Rightarrow>
          (\<exists>n. node_property (fr_root base) ''type'' = Some n
             \<and> (\<forall>f \<in> set (fragments reg). \<forall>t. sn_implied_device_type (fr_root f) = Some t \<longrightarrow> conforms False n (VString t))))"

lemma embedded_implied_types: "implied_types_ok embedded_registry"
  by (simp add: implied_types_ok_def base_fragment_def embedded_registry_def embedded_json_defs node_property_def
      conforms_scalar semantic_type_def)

lemma implied_type_in:
  assumes "implied_device_type reg m = Some t"
  shows "\<exists>f \<in> set (fragments reg). sn_implied_device_type (fr_root f) = Some t"
proof -
  let ?present = "filter (\<lambda>f. case fr_trigger f of Some trigger \<Rightarrow> im_contains m trigger | None \<Rightarrow> False) (fragments reg)"
  from assms obtain ts where "List.map_filter (\<lambda>f. sn_implied_device_type (fr_root f)) ?present = t # ts"
    by (auto simp: implied_device_type_def Let_def split: list.splits)
  then have "t \<in> set (List.map_filter (\<lambda>f. sn_implied_device_type (fr_root f)) ?present)" by simp
  then show ?thesis by (auto simp: List.map_filter_def)
qed

lemma conforms_retyped:
  assumes reg: "wf_registry reg" "implied_types_ok reg" and st: "state_conforms wo reg st"
    and st': "st_fields st' = st_fields st" "device_type st' = read_type reg st"
  shows "state_conforms wo reg st'"
proof -
  have typed: "device_type st' = [] \<or> device_type st' = device_type st
      \<or> (\<exists>f \<in> set (fragments reg). sn_implied_device_type (fr_root f) = Some (device_type st'))"
    using st'(2) implied_type_in [of reg "st_fields st"] by (auto simp: read_type_def split: option.splits)
  show ?thesis
    unfolding state_conforms_def
  proof
    fix f
    assume f: "f \<in> set (fragments reg)"
    with st have c: "fragment_conforms wo reg st f" by (simp add: state_conforms_def)
    show "fragment_conforms wo reg st' f"
    proof (cases "fr_trigger f")
      case None
      obtain n where n: "node_property (fr_root f) ''type'' = Some n"
        "\<And>g t. g \<in> set (fragments reg) \<Longrightarrow> sn_implied_device_type (fr_root g) = Some t \<Longrightarrow> conforms False n (VString t)"
        using reg(2) wf_base_fragment(2) [OF reg(1) f None] by (auto simp: implied_types_ok_def)
      with c None typed show ?thesis by (auto simp: fragment_conforms_def st'(1))
    next
      case (Some key)
      with c show ?thesis by (simp add: fragment_conforms_def st'(1))
    qed
  qed
qed

text \<open>C29: query output can be saved as policy: text decoded in query mode, prepared for apply and printed in the policy
  format is accepted in policy mode, with the selectors and fields of the preparation, with a registry that is fit for apply
  and whose implied device types are values of its property for the type, as the embedded one.\<close>

theorem query_text_to_policy_text:
  assumes lib: "yaml_laws lib" and reg: "apply_ready reg" "implied_types_ok reg"
    and query: "decode_yaml lib fresh reg input DecodeQuery = Ok states"
    and prep: "prepare_for_apply_with_registry states mb reg = Ok out"
    and print: "to_yaml_policy lib (out_states out) reg = Ok text"
  shows "\<exists>states'. decode_yaml lib fresh' reg text DecodePolicy = Ok states'
     \<and> map st_match states' = map st_match (out_states out) \<and> map st_fields states' = map st_fields (out_states out)"
proof -
  have wf: "wf_registry reg" using reg(1) by (simp add: apply_ready_def)
  obtain raw where raw: "from_yaml_with_registry lib fresh input reg = Ok raw"
    "\<forall>st \<in> set raw. state_conforms False reg st" "states = map query_observation raw"
    using query unfolding decode_yaml_iff [OF wf] by auto
  have "\<forall>st \<in> set raw. round_ready reg st"
    using from_yaml_decoded [OF lib wf raw(1)] raw(2) by (auto simp: round_ready_def)
  then have ready: "\<forall>st \<in> set states. round_ready reg st"
    by (simp add: raw(3) query_observation_def)
  then have "\<forall>st \<in> set states. state_wf st" by (simp add: round_ready_def decoded_def)
  then have good: "\<forall>st \<in> set (out_states out). prepared reg st"
    using prep by (cases rule: prepare_cases [OF reg(1), of states mb]) auto
  have outr: "\<forall>st \<in> set (out_states out). round_ready reg st" by (rule prepared_round_ready [OF wf ready prep])
  obtain states' where s': "from_yaml_with_registry lib fresh' text reg = Ok states'"
    "map st_fields states' = map st_fields (out_states out)" "map st_match states' = map st_match (out_states out)"
    "map device_type states' = map (read_type reg) (out_states out)"
    using render_round_trip [OF lib wf outr, of True _ fresh'] print by (auto simp: to_yaml_policy_def)
  have "match_is_empty (st_match st') = False \<and> state_conforms True reg st'" if st': "st' \<in> set states'" for st'
  proof -
    have len: "length states' = length (out_states out)" using s'(2) map_eq_imp_length_eq by blast
    from st' obtain i where i: "i < length states'" "states' ! i = st'" by (auto simp: in_set_conv_nth)
    let ?st = "out_states out ! i"
    have "?st \<in> set (out_states out)" using i len by simp
    then have p: "prepared reg ?st" using good by blast
    have "st_fields st' = st_fields ?st" "st_match st' = st_match ?st" "device_type st' = read_type reg ?st"
      using i len s'(2-4) by (metis nth_map)+
    with p conforms_retyped [OF wf reg(2), of True ?st st'] show ?thesis by (simp add: prepared_def)
  qed
  with s' show ?thesis unfolding decode_yaml_iff [OF wf] by auto
qed

lemma query_prepares:
  "prepare_for_apply_with_registry [query_observation query_raw] MatchByName embedded_registry
     = Ok \<lparr>out_states = [policy_state], out_warnings = []\<rparr>"
proof -
  let ?st = "(query_observation query_raw)\<lparr>st_match := default_match\<rparr>"
  have reset: "reset_observation embedded_registry (query_observation query_raw) = ?st"
    by (simp add: reset_observation_def query_observation_def query_raw_def)
  have "state_conforms False embedded_registry ?st"
    by (simp add: state_conforms_def fragment_conforms_def query_observation_def query_raw_def entries_conform_def
        embedded_eval conforms_scalar in_range_def semantic_type_def required_keys_def)
  then have first: "collect_validation_errors [?st] embedded_registry False = Some []"
    by (simp add: collect_Nil_iff embedded_wf match_is_empty_def default_match_def)
  have "state_conforms True embedded_registry policy_state"
    by (simp add: state_conforms_def fragment_conforms_def policy_state_def query_observation_def query_raw_def
        entries_conform_def embedded_eval conforms_scalar in_range_def semantic_type_def required_keys_def)
  then have final: "collect_validation_errors [policy_state] embedded_registry True = Some []"
    by (simp add: collect_Nil_iff embedded_wf)
  have "prepare_state embedded_registry MatchByName (0, ?st) = Ok (policy_state, [])"
    by (simp add: prepare_state_def policy_state_def query_observation_def query_raw_def match_is_empty_def
        default_match_def remove_read_only_fields_def remove_key_def remove_read_only_property.simps embedded_eval)
  then show ?thesis by (simp add: prepare_for_apply_with_registry_def reset first final)
qed

theorem query_text_to_policy_text_witness:
  "\<exists>states'. decode_yaml sample_lib (\<lambda>_. sample_md) embedded_registry ''policy'' DecodePolicy = Ok states'
     \<and> map st_fields states' = [[(''mtu'', VU64 1500)]]"
  using query_text_to_policy_text [OF sample_laws embedded_apply_ready embedded_implied_types query_decoded query_prepares,
      of "''policy''" "\<lambda>_. sample_md"] policy_printed
  by (auto simp: to_yaml_policy_def policy_state_def)

end
