(* ===== verification/Report.thy ===== *)
theory Report
  imports Plan
begin

text \<open>
  \<open>crates/netfyr-backend/src/report.rs\<close>: the errors of the backend and the reports of an execution.
  A \<open>std::io::Error\<close> is its raw error number and its text.
\<close>

definition ETHERNET :: string where "ETHERNET = ''ethernet''"

datatype backend_error_kind =
    UnsupportedEntityType
  | UnsupportedOperation
  | QueryFailed
  | ApplyFailed
  | OutcomeUnknown
  | NotFound
  | PermissionDenied
  | StaleState
  | Conflict
  | Internal

record operation_context =
  ctx_index :: nat
  ctx_target :: interface_id
  ctx_kind :: operation_kind

definition context_new :: "nat \<Rightarrow> operation \<Rightarrow> operation_context" where
  "context_new index operation = \<lparr>ctx_index = index, ctx_target = target operation, ctx_kind = op_kind operation\<rparr>"

record backend_error =
  be_kind :: backend_error_kind
  be_message :: string
  be_errno :: "int option"
  be_extack :: "string option"
  be_context :: "operation_context option"

definition error_new :: "backend_error_kind \<Rightarrow> string \<Rightarrow> backend_error" where
  "error_new kind message =
     \<lparr>be_kind = kind, be_message = message, be_errno = None, be_extack = None, be_context = None\<rparr>"

record io_error =
  raw_os_error :: "int option"
  io_message :: string

definition EPERM :: int where "EPERM = 1"
definition ENOENT :: int where "ENOENT = 2"
definition ENXIO :: int where "ENXIO = 6"
definition EACCES :: int where "EACCES = 13"
definition ENODEV :: int where "ENODEV = 19"

definition errno_kind :: "backend_error_kind \<Rightarrow> int option \<Rightarrow> backend_error_kind" where
  "errno_kind fallback errno =
     (case errno of
        Some e \<Rightarrow>
          if e = EPERM \<or> e = EACCES then PermissionDenied
          else if e = ENODEV \<or> e = ENXIO \<or> e = ENOENT then NotFound
          else fallback
      | None \<Rightarrow> fallback)"

definition from_io :: "backend_error_kind \<Rightarrow> io_error \<Rightarrow> backend_error" where
  "from_io fallback err =
     (let errno = raw_os_error err;
          result = error_new (errno_kind fallback errno) (io_message err) in
      result\<lparr>be_errno := errno\<rparr>)"

definition error_at :: "backend_error \<Rightarrow> operation_context \<Rightarrow> backend_error" where
  "error_at err context = err\<lparr>be_context := Some context\<rparr>"

text \<open>The \<open>Debug\<close> text of the kind, derived by the compiler.\<close>

fun show_error_kind :: "backend_error_kind \<Rightarrow> string" where
  "show_error_kind UnsupportedEntityType = ''UnsupportedEntityType''"
| "show_error_kind UnsupportedOperation = ''UnsupportedOperation''"
| "show_error_kind QueryFailed = ''QueryFailed''"
| "show_error_kind ApplyFailed = ''ApplyFailed''"
| "show_error_kind OutcomeUnknown = ''OutcomeUnknown''"
| "show_error_kind NotFound = ''NotFound''"
| "show_error_kind PermissionDenied = ''PermissionDenied''"
| "show_error_kind StaleState = ''StaleState''"
| "show_error_kind Conflict = ''Conflict''"
| "show_error_kind Internal = ''Internal''"

definition show_backend_error :: "backend_error \<Rightarrow> string" where
  "show_backend_error err =
     (case be_context err of
        Some context \<Rightarrow>
          ''operation '' @ show_nat (ctx_index context) @ '' ('' @ kind_name (ctx_kind context) @ '' on ''
          @ if_name (ctx_target context) @ ''): ''
      | None \<Rightarrow> [])
     @ show_error_kind (be_kind err) @ '': '' @ be_message err
     @ (case be_errno err of Some errno \<Rightarrow> '' (errno '' @ show_int errno @ '')'' | None \<Rightarrow> [])
     @ (case be_extack err of Some extack \<Rightarrow> '': '' @ extack | None \<Rightarrow> [])"

datatype skip_reason =
    AlreadySatisfied
  | SkipReadOnly
  | DependencyFailed "nat list"

record failed_operation =
  fo_context :: operation_context
  fo_error :: backend_error

record skipped_operation =
  so_context :: operation_context
  so_reason :: skip_reason

record apply_report =
  succeeded :: "operation_context list"
  failed :: "failed_operation list"
  skipped :: "skipped_operation list"
  report_diagnostics :: "diagnostic list"

definition empty_report :: apply_report where
  "empty_report = \<lparr>succeeded = [], failed = [], skipped = [], report_diagnostics = []\<rparr>"

fun is_dependency_failed :: "skip_reason \<Rightarrow> bool" where
  "is_dependency_failed (DependencyFailed _) = True"
| "is_dependency_failed _ = False"

definition no_failures :: "failed_operation list \<Rightarrow> skip_reason option list \<Rightarrow> bool" where
  "no_failures failures skips =
     (failures = []
      \<and> \<not> list_ex (\<lambda>skip. case skip of Some reason \<Rightarrow> is_dependency_failed reason | None \<Rightarrow> False) skips)"

definition report_is_success :: "apply_report \<Rightarrow> bool" where
  "report_is_success report = no_failures (failed report) (map (\<lambda>entry. Some (so_reason entry)) (skipped report))"

datatype planned_status = PlannedWrite | PlannedSkip skip_reason | PlannedFail

record planned_operation =
  po_context :: operation_context
  po_status :: planned_status

record dry_run_report =
  dry_changes :: "field_change list"
  dry_operations :: "planned_operation list"
  dry_diagnostics :: "diagnostic list"
  dry_failed :: "failed_operation list"

definition dry_is_success :: "dry_run_report \<Rightarrow> bool" where
  "dry_is_success report =
     no_failures (dry_failed report)
       (map (\<lambda>entry. case po_status entry of PlannedSkip reason \<Rightarrow> Some reason | _ \<Rightarrow> None)
         (dry_operations report))"

end
