(* ===== verification/Checks.thy ===== *)
theory Checks
  imports Report SchemaRegFacts
begin

text \<open>
  \<open>crates/netfyr-backend/src/executor.rs\<close>, the functions without I/O: decoding an operation, finding
  its target, the tolerance for ageing lifetimes, the checks on prefix groups, the cascade check and
  the projection of a write.  A \<open>Duration\<close> is its count of nanoseconds, and an \<open>Instant\<close> too.
\<close>

definition IFA_F_SECONDARY :: u32 where "IFA_F_SECONDARY = 0x01"
definition IFA_F_DEPRECATED :: u32 where "IFA_F_DEPRECATED = 0x20"
definition IFA_F_PERMANENT :: u32 where "IFA_F_PERMANENT = 0x80"
definition RT_SCOPE_HOST :: u8 where "RT_SCOPE_HOST = 254"

section \<open>Decoding an operation\<close>

text \<open>\<open>None\<close> is a read-only field assignment.\<close>

definition decode_field :: "schema_registry \<Rightarrow> string \<Rightarrow> cval \<Rightarrow> (operation_kind option, backend_error) outcome" where
  "decode_field schema field value =
     (let (frag, name) = (case split_once CHR ''.'' field of Some p \<Rightarrow> p | None \<Rightarrow> (''base'', field)) in
      obind (ok_or (field_info_of schema frag name)
               (error_new UnsupportedOperation (''unknown field '' @ field))) (\<lambda>info.
      if \<not> fi_writable info then Ok None
      else
        (case value of
           VU64 mtu \<Rightarrow>
             if field = ''mtu'' then
               (if uint mtu < 2 ^ 32 then Ok (Some (SetMtu (ucast mtu)))
                else Err (error_new UnsupportedOperation ''MTU overflows u32''))
             else Err (error_new UnsupportedOperation
               (''unsupported assignment to '' @ field @ ''; use explicit address operations''))
         | VBool enabled \<Rightarrow>
             if field = ''enabled'' then Ok (Some (SetEnabled enabled))
             else Err (error_new UnsupportedOperation
               (''unsupported assignment to '' @ field @ ''; use explicit address operations''))
         | _ \<Rightarrow> Err (error_new UnsupportedOperation
               (''unsupported assignment to '' @ field @ ''; use explicit address operations'')))))"

definition mtu_state :: "state_metadata \<Rightarrow> u32 \<Rightarrow> dev_state" where
  "mtu_state md mtu =
     (let state = new_state md Kernel in
      state\<lparr>st_fields := im_insert (st_fields state) ''mtu'' (VU64 (ucast mtu))\<rparr>)"

text \<open>The checks on a decoded operation; \<open>md\<close> is the metadata of the scratch state.\<close>

fun check_decoded :: "schema_registry \<Rightarrow> state_metadata \<Rightarrow> operation_kind \<Rightarrow> (unit, backend_error) outcome" where
  "check_decoded schema md (SetMtu mtu) =
     obind (expect (validate_writable schema (mtu_state md mtu))) (\<lambda>errors.
     if errors \<noteq> []
     then Err (error_new UnsupportedOperation (join ''; '' (map show_validation_error errors)))
     else Ok ())"
| "check_decoded schema md (AddIpv4 addr) =
     omap_err (\<lambda>reason. error_new UnsupportedOperation (show_address_error reason)) (validate_address addr)"
| "check_decoded schema md (ReplaceIpv4 addr) =
     omap_err (\<lambda>reason. error_new UnsupportedOperation (show_address_error reason)) (validate_address addr)"
| "check_decoded schema md (RemoveIpv4 addr) =
     (if group addr = None then Err (error_new UnsupportedOperation ''IPv4 prefix length exceeds 32'')
      else Ok ())"
| "check_decoded schema md _ = Ok ()"

definition decode_kind :: "schema_registry \<Rightarrow> operation_kind \<Rightarrow> (operation_kind option, backend_error) outcome" where
  "decode_kind schema kind =
     (case kind of
        SetField field value \<Rightarrow> decode_field schema field value
      | AddEntity \<Rightarrow>
          Err (error_new UnsupportedOperation ''whole-interface lifecycle operations are not supported'')
      | RemoveEntity \<Rightarrow>
          Err (error_new UnsupportedOperation ''whole-interface lifecycle operations are not supported'')
      | other \<Rightarrow> Ok (Some other))"

definition decode :: "state_metadata \<Rightarrow> operation_kind \<Rightarrow> schema_registry \<Rightarrow> (operation_kind option, backend_error) outcome" where
  "decode md kind schema =
     obind (decode_kind schema kind) (\<lambda>decoded.
     case decoded of
       None \<Rightarrow> Ok None
     | Some kind' \<Rightarrow> obind (check_decoded schema md kind') (\<lambda>_. Ok (Some kind')))"

section \<open>The target of an operation\<close>

text \<open>\<open>iter().position(p)\<close>.\<close>

fun position :: "('a \<Rightarrow> bool) \<Rightarrow> 'a list \<Rightarrow> nat option" where
  "position p [] = None"
| "position p (x # xs) = (if p x then Some 0 else map_option Suc (position p xs))"

definition locate :: "observation \<Rightarrow> interface_id \<Rightarrow> namespace_id \<Rightarrow> (nat, backend_error) outcome" where
  "locate obs ident namespace =
     (if if_namespace ident \<noteq> namespace
      then Err (error_new StaleState ''plan namespace differs from backend namespace'')
      else
        obind (ok_or (position (\<lambda>device. if_index (identity device) = if_index ident) (devices obs))
                 (error_new NotFound (''interface '' @ if_name ident @ '' (index ''
                   @ show_nat (unat (if_index ident)) @ '') disappeared''))) (\<lambda>pos.
        let device = devices obs ! pos in
        if identity device \<noteq> ident
        then Err (error_new StaleState (''interface '' @ if_name ident @ '' was replaced or its identity changed''))
        else if if_device_type (identity device) \<noteq> ETHERNET
        then Err (error_new UnsupportedEntityType (if_name ident @ '' is '' @ if_device_type (identity device)
               @ '', which this backend cannot manage''))
        else Ok pos))"

section \<open>Lifetimes\<close>

definition whole_seconds :: "nat \<Rightarrow> u32" where
  "whole_seconds duration = of_nat (min (duration div 10 ^ 9) (2 ^ 32 - 1))"

definition decay :: "u32 \<Rightarrow> u32 \<Rightarrow> u32" where
  "decay seconds elapsed =
     (if seconds = u32_max then seconds
      else if elapsed \<le> seconds then seconds - elapsed else 0)"

definition lifetime_matches :: "u32 \<Rightarrow> u32 \<Rightarrow> nat \<Rightarrow> bool" where
  "lifetime_matches expected actual elapsed =
     (if expected = u32_max \<or> actual = u32_max then expected = actual
      else
        (let floor = uint (whole_seconds elapsed);
             ceil = floor + (if elapsed mod 10 ^ 9 > 0 then 1 else 0);
             consumed = uint expected - uint actual in
         (floor - 1 \<le> consumed \<and> consumed \<le> ceil + 1) \<or> (actual = 0 \<and> uint expected \<le> ceil + 1)))"

definition address_matches :: "address_observation \<Rightarrow> address_observation \<Rightarrow> nat \<Rightarrow> bool" where
  "address_matches expected actual elapsed =
     (let (valid, preferred) = lifetimes (address expected);
          (actual_valid, actual_preferred) = lifetimes (address actual);
          deprecation_matches =
            (addr_flags expected AND IFA_F_DEPRECATED = addr_flags actual AND IFA_F_DEPRECATED
             \<or> (actual_preferred = 0 \<and> lifetime_matches preferred 0 elapsed)) in
      same_identity (address expected) (address actual)
      \<and> scope expected = scope actual
      \<and> peer expected = peer actual
      \<and> addr_flags expected AND NOT IFA_F_DEPRECATED = addr_flags actual AND NOT IFA_F_DEPRECATED
      \<and> deprecation_matches
      \<and> lifetime_matches valid actual_valid elapsed
      \<and> lifetime_matches preferred actual_preferred elapsed)"

section \<open>Prefix groups\<close>

record expected_group =
  eg_addresses :: "address_observation list"
  eg_observed_at :: nat

record group_key =
  gk_target :: interface_id
  gk_network :: ipv4_addr
  gk_prefix_len :: u8

type_synonym groups = "group_key \<rightharpoonup> expected_group"

definition group_key_new :: "operation \<Rightarrow> ipv4_address \<Rightarrow> (group_key, backend_error) outcome" where
  "group_key_new op addr =
     obind (ok_or (group addr) (error_new UnsupportedOperation ''invalid prefix'')) (\<lambda>(network, len).
       Ok \<lparr>gk_target = target op, gk_network = network, gk_prefix_len = len\<rparr>)"

definition key_contains :: "group_key \<Rightarrow> ipv4_address \<Rightarrow> bool" where
  "key_contains key a = (group a = Some (gk_network key, gk_prefix_len key))"

definition group_addresses :: "device_observation \<Rightarrow> group_key \<Rightarrow> address_observation list" where
  "group_addresses device key = filter (\<lambda>entry. key_contains key (address entry)) (addresses device)"

definition group_matches :: "expected_group \<Rightarrow> address_observation list \<Rightarrow> nat \<Rightarrow> bool" where
  "group_matches expected actual now =
     (let elapsed = now - eg_observed_at expected in
      length (eg_addresses expected) = length actual
      \<and> list_all (\<lambda>(old, new). address_matches old new elapsed) (zip (eg_addresses expected) actual))"

fun is_destructive :: "operation_kind \<Rightarrow> bool" where
  "is_destructive (RemoveIpv4 _) = True"
| "is_destructive (ReplaceIpv4 _) = True"
| "is_destructive _ = False"

text \<open>The outcome and the groups as the insertion leaves them.\<close>

definition validate_group ::
  "operation \<Rightarrow> device_observation \<Rightarrow> operation_kind \<Rightarrow> (unit, backend_error, groups) action" where
  "validate_group op device kind =
     (case kind_address kind of
        None \<Rightarrow> areturn ()
      | Some addr \<Rightarrow>
          if \<not> addresses_complete device
          then alift (Err (error_new QueryFailed ''IPv4 inventory is incomplete''))
          else
            abind (alift (group_key_new op addr)) (\<lambda>key.
            abind (case address_group op of
                     Some precondition \<Rightarrow>
                       if list_ex (\<lambda>entry. \<not> key_contains key (address entry)) (pre_addresses precondition)
                       then alift (Err (error_new StaleState
                              ''address precondition describes a different prefix group''))
                       else amodify (\<lambda>groups. case groups key of
                              Some _ \<Rightarrow> groups
                            | None \<Rightarrow> groups(key \<mapsto> \<lparr>eg_addresses = pre_addresses precondition,
                                                    eg_observed_at = pre_observed_at precondition\<rparr>))
                   | None \<Rightarrow> areturn ()) (\<lambda>_.
            abind (aget (\<lambda>groups. groups key)) (\<lambda>expected.
            alift (case expected of
                     Some expected \<Rightarrow>
                       if \<not> group_matches expected (group_addresses device key) (observed_at device)
                       then Err (error_new StaleState
                         ''address group membership, ordering or attributes changed; obtain a fresh plan'')
                       else Ok ()
                   | None \<Rightarrow>
                       if is_destructive kind
                          \<and> list_ex (\<lambda>entry. same_identity (address entry) addr) (addresses device)
                       then Err (error_new StaleState
                         ''destructive address operation requires a complete group precondition'')
                       else Ok ())))))"

section \<open>Operations that are already satisfied\<close>

text \<open>The time since the precondition that recorded the requested address itself, if one did.\<close>

definition reference_age :: "ipv4_address \<Rightarrow> device_observation \<Rightarrow> operation \<Rightarrow> nat option" where
  "reference_age addr device op =
     Option.bind (address_group op) (\<lambda>group.
       if list_ex (\<lambda>entry. address entry = addr) (pre_addresses group)
       then Some (observed_at device - pre_observed_at group) else None)"

definition address_satisfied ::
  "bool \<Rightarrow> ipv4_address \<Rightarrow> device_observation \<Rightarrow> operation \<Rightarrow> (bool, backend_error) outcome" where
  "address_satisfied replace addr device op =
     (case List.find (\<lambda>entry. same_identity (address entry) addr) (addresses device) of
        None \<Rightarrow>
          if replace then Err (error_new NotFound ''address replacement requires an existing address'')
          else Ok False
      | Some existing \<Rightarrow>
          (let (valid, preferred) = lifetimes addr;
               (actual_valid, actual_preferred) = lifetimes (address existing);
               lifetimes_equal =
                 (case reference_age addr device op of
                    Some elapsed \<Rightarrow>
                      lifetime_matches valid actual_valid elapsed
                      \<and> lifetime_matches preferred actual_preferred elapsed
                  | None \<Rightarrow> valid = actual_valid \<and> preferred = actual_preferred) in
           if lifetimes_equal then Ok True
           else if \<not> replace
           then Err (error_new ApplyFailed
                  ''address exists with different lifetimes; an explicit replacement is required'')
           else Ok False))"

fun satisfied :: "operation_kind \<Rightarrow> device_observation \<Rightarrow> operation \<Rightarrow> (bool, backend_error) outcome" where
  "satisfied (SetMtu mtu) device op = Ok (im_get (st_fields (dev_st device)) ''mtu'' = Some (VU64 (ucast mtu)))"
| "satisfied (SetEnabled enabled) device op = Ok (im_get (st_fields (dev_st device)) ''enabled'' = Some (VBool enabled))"
| "satisfied (RemoveIpv4 addr) device op =
     Ok (\<not> list_ex (\<lambda>entry. same_identity (address entry) addr) (addresses device))"
| "satisfied (AddIpv4 addr) device op = address_satisfied False addr device op"
| "satisfied (ReplaceIpv4 addr) device op = address_satisfied True addr device op"
| "satisfied _ device op = Ok False"

section \<open>Removals that take secondaries along\<close>

text \<open>
  The \<open>runnable\<close> vector: the operations before \<open>index\<close> as they went, the operation itself, and each
  later operation whose dependencies are runnable.
\<close>

fun runnable_from :: "operation list \<Rightarrow> bool list \<Rightarrow> bool list" where
  "runnable_from [] runnable = runnable"
| "runnable_from (operation # rest) runnable =
     (let pos = length runnable in
      runnable_from rest
        (runnable @ [list_all (\<lambda>dependency. dependency < pos \<and> runnable ! dependency) (depends_on operation)]))"

definition removal_is_covered ::
  "state_diff \<Rightarrow> nat \<Rightarrow> interface_id \<Rightarrow> ipv4_address \<Rightarrow> bool list \<Rightarrow> bool" where
  "removal_is_covered diff index tgt addr eligible =
     (let runnable = runnable_from (drop (index + 1) (operations diff)) (take index eligible @ [True]) in
      list_ex
        (\<lambda>(pos, op). runnable ! pos \<and> target op = tgt
            \<and> (case op_kind op of RemoveIpv4 other \<Rightarrow> same_identity addr other | _ \<Rightarrow> False))
        (drop (index + 1) (enumerate 0 (operations diff))))"

definition check_cascade ::
  "state_diff \<Rightarrow> nat \<Rightarrow> device_observation \<Rightarrow> operation_kind \<Rightarrow> bool list \<Rightarrow> (unit, backend_error) outcome" where
  "check_cascade diff index device kind eligible =
     (case kind of
        RemoveIpv4 addr \<Rightarrow>
          (case List.find (\<lambda>entry. same_identity (address entry) addr
                             \<and> addr_flags entry AND IFA_F_SECONDARY = 0) (addresses device) of
             None \<Rightarrow> Ok ()
           | Some primary \<Rightarrow>
               if list_ex (\<lambda>secondary.
                    addr_flags secondary AND IFA_F_SECONDARY \<noteq> 0
                    \<and> (kernel_group secondary, scope secondary) = (kernel_group primary, scope primary)
                    \<and> (group (address secondary) \<noteq> group addr
                       \<or> \<not> removal_is_covered diff index (identity device) (address secondary) eligible))
                  (addresses device)
               then Err (error_new StaleState
                      ''primary removal could delete a secondary outside its executable prefix-group plan; remove peer-group secondaries first'')
               else Ok ())
      | _ \<Rightarrow> Ok ())"

section \<open>What a write is expected to do\<close>

definition lifetime_flags :: "ipv4_address \<Rightarrow> u32" where
  "lifetime_flags addr =
     (let (valid, preferred) = lifetimes addr in
      (if valid = u32_max then IFA_F_PERMANENT else 0) OR (if preferred = 0 then IFA_F_DEPRECATED else 0))"

fun replace_first :: "('a \<Rightarrow> bool) \<Rightarrow> ('a \<Rightarrow> 'a) \<Rightarrow> 'a list \<Rightarrow> 'a list" where
  "replace_first p f [] = []"
| "replace_first p f (x # xs) = (if p x then f x # xs else x # replace_first p f xs)"

fun project :: "operation_kind \<Rightarrow> device_observation \<Rightarrow> device_observation" where
  "project (SetMtu mtu) device =
     device\<lparr>dev_st := (dev_st device)\<lparr>st_fields := im_insert (st_fields (dev_st device)) ''mtu'' (VU64 (ucast mtu))\<rparr>\<rparr>"
| "project (SetEnabled enabled) device =
     device\<lparr>dev_st := (dev_st device)\<lparr>st_fields := im_insert (st_fields (dev_st device)) ''enabled'' (VBool enabled)\<rparr>\<rparr>"
| "project (RemoveIpv4 addr) device =
     device\<lparr>addresses := filter (\<lambda>entry. \<not> same_identity (address entry) addr) (addresses device)\<rparr>"
| "project (AddIpv4 addr) device =
     (let secondary = list_ex (\<lambda>entry. kernel_group entry = group addr) (addresses device);
          sc = (if is_loopback (ip addr) then RT_SCOPE_HOST else 0) in
      device\<lparr>addresses := addresses device @
        [\<lparr>address = addr, addr_flags = lifetime_flags addr OR (if secondary then IFA_F_SECONDARY else 0),
          scope = sc, peer = None\<rparr>]\<rparr>)"
| "project (ReplaceIpv4 addr) device =
     device\<lparr>addresses :=
       replace_first (\<lambda>entry. same_identity (address entry) addr)
         (\<lambda>existing. existing\<lparr>address := addr,
            addr_flags := (addr_flags existing AND NOT (IFA_F_PERMANENT OR IFA_F_DEPRECATED)) OR lifetime_flags addr\<rparr>)
         (addresses device)\<rparr>"
| "project _ device = device"

definition rebase_entry :: "u32 \<Rightarrow> address_observation \<Rightarrow> address_observation" where
  "rebase_entry elapsed entry =
     (let (valid, preferred) = lifetimes (address entry);
          aged = (address entry)\<lparr>valid_lft := Some (decay valid elapsed), preferred_lft := Some (decay preferred elapsed)\<rparr> in
      entry\<lparr>address := aged,
        addr_flags := (if preferred_lft aged = Some 0 then addr_flags entry OR IFA_F_DEPRECATED else addr_flags entry)\<rparr>)"

definition rebase_lifetimes :: "nat \<Rightarrow> device_observation \<Rightarrow> device_observation" where
  "rebase_lifetimes now device =
     (let elapsed = whole_seconds (now - observed_at device) in
      device\<lparr>addresses := map (rebase_entry elapsed) (addresses device), observed_at := now\<rparr>)"

definition collateral :: "device_observation \<Rightarrow> operation_kind \<Rightarrow> diagnostic option" where
  "collateral device kind =
     map_option
       (\<lambda>message. \<lparr>diag_target = Some (identity device), diag_field = kind_field kind, diag_message = message\<rparr>)
       (case kind of
          SetMtu mtu \<Rightarrow>
            if mtu < 1280
            then Some ''an MTU below 1280 disables IPv6 on the device and removes its IPv6 addresses''
            else None
        | SetEnabled enabled \<Rightarrow>
            if \<not> enabled
            then Some ''disabling the device removes its IPv4 routes and, unless keep_addr_on_down is set, its IPv6 addresses''
            else None
        | _ \<Rightarrow> None)"

definition unconfirmed :: "string \<Rightarrow> backend_error \<Rightarrow> backend_error" where
  "unconfirmed message cause =
     (error_new OutcomeUnknown (message @ '': '' @ be_message cause))
       \<lparr>be_errno := be_errno cause, be_extack := be_extack cause\<rparr>"

definition cancelled_error :: "string \<Rightarrow> backend_error" where
  "cancelled_error message = error_new ApplyFailed message"

end
