(* ===== verification/Executor.thy ===== *)
theory Executor
  imports Checks
begin

text \<open>
  \<open>crates/netfyr-backend/src/executor.rs\<close>, the execution of a plan.  The record \<open>io\<close> holds the calls
  that leave the program (the trait \<open>Io\<close>, the clock and the cancellation test) as functions on an
  abstract world.  The two calls of the trait answer, return an error or panic; a panic unwinds through the
  run, which then has no report (\<open>None\<close>).  \<open>Execution\<close> is the record \<open>execution\<close>, and its methods are
  actions on it.
\<close>

section \<open>The outside\<close>

record 'w io =
  io_namespace :: namespace_id
  io_inventory :: "'w \<Rightarrow> (observation, backend_error) outcome \<times> 'w"
  io_execute :: "interface_id \<Rightarrow> operation_kind \<Rightarrow> 'w \<Rightarrow> (unit, backend_error) outcome \<times> 'w"
  io_now :: "'w \<Rightarrow> nat \<times> 'w"
  io_cancelled :: "'w \<Rightarrow> bool \<times> 'w"
  io_metadata :: state_metadata

record 'w execution =
  ex_world :: 'w
  ex_groups :: groups
  ex_eligible :: "bool list"
  ex_current :: "observation option"
  ex_diagnostics :: "diagnostic list"

type_synonym ('a, 'w) exec = "('a, backend_error, 'w execution) action"

text \<open>A call of the outside world.\<close>

definition outside :: "('w \<Rightarrow> 'a \<times> 'w) \<Rightarrow> ('a, 'w) exec" where
  "outside f ex = (let (r, w) = f (ex_world ex) in (Ok r, ex\<lparr>ex_world := w\<rparr>))"

definition outside_result :: "('w \<Rightarrow> ('a, backend_error) outcome \<times> 'w) \<Rightarrow> ('a, 'w) exec" where
  "outside_result f ex = (let (r, w) = f (ex_world ex) in (r, ex\<lparr>ex_world := w\<rparr>))"

definition throw_when :: "bool \<Rightarrow> backend_error \<Rightarrow> (unit, 'w) exec" where
  "throw_when c e = alift (if c then Err e else Ok ())"

section \<open>The methods of an execution\<close>

definition absorb :: "observation \<Rightarrow> (unit, 'w) exec" where
  "absorb obs = amodify (\<lambda>ex. ex\<lparr>ex_diagnostics :=
     foldl (\<lambda>ds d. if d \<notin> set ds then ds @ [d] else ds) (ex_diagnostics ex) (diagnostics obs)\<rparr>)"

text \<open>\<open>observe\<close>: the current observation, or a fresh one, which becomes the current one.\<close>

definition observe :: "'w io \<Rightarrow> (observation, 'w) exec" where
  "observe io =
     abind (aget ex_current) (\<lambda>current.
     case current of
       Some obs \<Rightarrow> areturn obs
     | None \<Rightarrow>
         abind (outside_result (io_inventory io)) (\<lambda>obs.
         abind (absorb obs) (\<lambda>_.
         abind (amodify (\<lambda>ex. ex\<lparr>ex_current := Some obs\<rparr>)) (\<lambda>_.
         areturn obs))))"

definition on_groups :: "(unit, backend_error, groups) action \<Rightarrow> (unit, 'w) exec" where
  "on_groups f ex = (let (r, gs) = f (ex_groups ex) in (r, ex\<lparr>ex_groups := gs\<rparr>))"

text \<open>
  What the group may look like after a removal: secondaries that the kernel deleted along may be gone
  when a later operation removes them, and the first survivor may have been promoted.
\<close>

definition drop_cascaded ::
  "state_diff \<Rightarrow> nat \<Rightarrow> operation \<Rightarrow> bool list \<Rightarrow> address_observation list \<Rightarrow> address_observation list \<Rightarrow>
   address_observation list" where
  "drop_cascaded diff index op eligible actual_group expected =
     filter (\<lambda>entry.
       let absent = \<not> list_ex (\<lambda>other. same_identity (address entry) (address other)) actual_group in
       \<not> (absent \<and> addr_flags entry AND IFA_F_SECONDARY \<noteq> 0
          \<and> removal_is_covered diff index (target op) (address entry) eligible)) expected"

definition promote_first :: "address_observation list \<Rightarrow> address_observation list \<Rightarrow> address_observation list" where
  "promote_first actual_group expected =
     (case (expected, actual_group) of
        (first # rest, actual_first # _) \<Rightarrow>
          if same_identity (address first) (address actual_first) \<and> addr_flags actual_first AND IFA_F_SECONDARY = 0
          then first\<lparr>addr_flags := addr_flags first AND NOT IFA_F_SECONDARY\<rparr> # rest
          else expected
      | _ \<Rightarrow> expected)"

definition expected_after ::
  "state_diff \<Rightarrow> nat \<Rightarrow> operation \<Rightarrow> operation_kind \<Rightarrow> bool list \<Rightarrow> address_observation list \<Rightarrow>
   address_observation list \<Rightarrow> address_observation list" where
  "expected_after diff index op kind eligible actual_group expected =
     (case kind of
        RemoveIpv4 _ \<Rightarrow> promote_first actual_group (drop_cascaded diff index op eligible actual_group expected)
      | _ \<Rightarrow> expected)"

definition outside_survives :: "device_observation \<Rightarrow> device_observation \<Rightarrow> group_key \<Rightarrow> bool" where
  "outside_survives predicted actual key =
     list_all (\<lambda>entry. list_ex (\<lambda>other. same_identity (address entry) (address other)) (addresses actual))
       (filter (\<lambda>entry. \<not> key_contains key (address entry)) (addresses predicted))"

definition verify_address_write ::
  "'w io \<Rightarrow> state_diff \<Rightarrow> namespace_id \<Rightarrow> nat \<Rightarrow> operation \<Rightarrow> operation_kind \<Rightarrow> ipv4_address \<Rightarrow> device_observation \<Rightarrow>
   (device_observation, 'w) exec" where
  "verify_address_write io diff namespace index op kind addr predicted =
     abind (\<lambda>ex. let (r, ex') = outside_result (io_inventory io) ex in
              (omap_err (unconfirmed ''write acknowledged but not re-observed'') r, ex')) (\<lambda>after.
     abind (absorb after) (\<lambda>_.
     abind (alift (locate after (target op) namespace)) (\<lambda>pos.
     let actual = devices after ! pos in
     abind (throw_when (\<not> addresses_complete actual)
              (error_new OutcomeUnknown ''write acknowledged but the address inventory is incomplete'')) (\<lambda>_.
     abind (alift (group_key_new op addr)) (\<lambda>key.
     abind (aget ex_eligible) (\<lambda>eligible.
     let actual_group = group_addresses actual key;
         expected = \<lparr>eg_addresses = expected_after diff index op kind eligible actual_group
                                     (group_addresses predicted key),
                     eg_observed_at = observed_at predicted\<rparr> in
     abind (throw_when (\<not> group_matches expected actual_group (observed_at actual)
                        \<or> \<not> outside_survives predicted actual key)
              (error_new StaleState
                ''addresses changed unexpectedly during the write; earlier changes may have applied'')) (\<lambda>_.
     abind (amodify (\<lambda>ex. ex\<lparr>ex_current := Some after\<rparr>)) (\<lambda>_.
     areturn actual))))))))"

text \<open>The two ways on from the checks of \<open>step\<close>: project the write, or send it and verify it.\<close>

definition preview_write ::
  "'w io \<Rightarrow> nat \<Rightarrow> operation_kind \<Rightarrow> device_observation \<Rightarrow> (device_observation, 'w) exec" where
  "preview_write io pos kind device =
     abind (outside (io_now io)) (\<lambda>now.
     let predicted = project kind (rebase_lifetimes now device) in
     abind (amodify (\<lambda>ex. ex\<lparr>ex_current :=
              map_option (\<lambda>obs. obs\<lparr>devices := (devices obs)[pos := predicted]\<rparr>) (ex_current ex)\<rparr>)) (\<lambda>_.
     areturn predicted))"

definition apply_write ::
  "'w io \<Rightarrow> state_diff \<Rightarrow> namespace_id \<Rightarrow> nat \<Rightarrow> operation \<Rightarrow> operation_kind \<Rightarrow> device_observation \<Rightarrow>
   (device_observation, 'w) exec" where
  "apply_write io diff namespace index op kind device =
     abind (outside (io_cancelled io)) (\<lambda>cancelled.
     abind (throw_when cancelled (cancelled_error ''plan execution cancelled before write'')) (\<lambda>_.
     abind (amodify (\<lambda>ex. ex\<lparr>ex_current := None\<rparr>)) (\<lambda>_.
     abind (outside_result (io_execute io (target op) kind)) (\<lambda>_.
     abind (outside (io_now io)) (\<lambda>now.
     let predicted = project kind (rebase_lifetimes now device) in
     case kind_address kind of
       Some addr \<Rightarrow> verify_address_write io diff namespace index op kind addr predicted
     | None \<Rightarrow> areturn predicted)))))"

text \<open>The bookkeeping after a write: the diagnostic, and the snapshot of an established group.\<close>

definition record_write ::
  "operation \<Rightarrow> operation_kind \<Rightarrow> device_observation \<Rightarrow> device_observation \<Rightarrow> (skip_reason option, 'w) exec" where
  "record_write op kind device predicted =
     abind (amodify (\<lambda>ex. case collateral device kind of
              Some d \<Rightarrow> ex\<lparr>ex_diagnostics := ex_diagnostics ex @ [d]\<rparr> | None \<Rightarrow> ex)) (\<lambda>_.
     abind (alift (case kind_address kind of
              Some addr \<Rightarrow> omap Some (group_key_new op addr) | None \<Rightarrow> Ok None)) (\<lambda>key.
     abind (amodify (\<lambda>ex.
              case key of
                Some k \<Rightarrow>
                  if ex_groups ex k \<noteq> None
                  then ex\<lparr>ex_groups := (ex_groups ex)(k \<mapsto>
                    \<lparr>eg_addresses = group_addresses predicted k, eg_observed_at = observed_at predicted\<rparr>)\<rparr>
                  else ex
              | None \<Rightarrow> ex)) (\<lambda>_.
     areturn None)))"

text \<open>\<open>Execution::step\<close>, from the checks against the located device on; a preview is never cancelled.\<close>

definition perform ::
  "'w io \<Rightarrow> state_diff \<Rightarrow> bool \<Rightarrow> namespace_id \<Rightarrow> nat \<Rightarrow> operation \<Rightarrow> nat \<Rightarrow> device_observation \<Rightarrow> operation_kind \<Rightarrow>
   (skip_reason option, 'w) exec" where
  "perform io diff preview namespace index op pos device kind =
     abind (on_groups (validate_group op device kind)) (\<lambda>_.
     abind (alift (satisfied kind device op)) (\<lambda>already.
     if already then areturn (Some AlreadySatisfied)
     else
       abind (aget ex_eligible) (\<lambda>eligible.
       abind (alift (check_cascade diff index device kind eligible)) (\<lambda>_.
       abind (if preview then preview_write io pos kind device
              else apply_write io diff namespace index op kind device) (\<lambda>predicted.
       record_write op kind device predicted)))))"

definition ask_cancelled :: "'w io \<Rightarrow> bool \<Rightarrow> (bool, 'w) exec" where
  "ask_cancelled io preview = (if preview then areturn False else outside (io_cancelled io))"

definition step ::
  "'w io \<Rightarrow> state_diff \<Rightarrow> bool \<Rightarrow> namespace_id \<Rightarrow> schema_registry \<Rightarrow> nat \<Rightarrow> operation \<Rightarrow> (skip_reason option, 'w) exec" where
  "step io diff preview namespace schema index op =
     abind (ask_cancelled io preview) (\<lambda>cancelled.
     abind (throw_when cancelled (cancelled_error ''plan execution cancelled; earlier writes may have applied'')) (\<lambda>_.
     abind (alift (decode (io_metadata io) (op_kind op) schema)) (\<lambda>decoded.
     abind (observe io) (\<lambda>obs.
     abind (alift (locate obs (target op) namespace)) (\<lambda>pos.
     let device = devices obs ! pos in
     case decoded of
       None \<Rightarrow> areturn (Some SkipReadOnly)
     | Some kind \<Rightarrow> perform io diff preview namespace index op pos device kind)))))"

section \<open>The run over a plan\<close>

text \<open>
  One iteration of \<open>run\<close>.  \<open>None\<close> is a panic: of \<open>step\<close> (so of a call it makes), or of the vector \<open>eligible\<close> indexed out of range.
\<close>

definition run_operation ::
  "'w io \<Rightarrow> state_diff \<Rightarrow> bool \<Rightarrow> namespace_id \<Rightarrow> schema_registry \<Rightarrow> nat \<times> operation \<Rightarrow>
   apply_report \<times> 'w execution \<Rightarrow> (apply_report \<times> 'w execution) option" where
  "run_operation io diff preview namespace schema = (\<lambda>(index, op) (report, ex).
     let context = context_new index op in
     if list_ex (\<lambda>dependency. dependency \<ge> index) (depends_on op) then
       Some (report\<lparr>failed := failed report @ [\<lparr>fo_context = context, fo_error =
               error_new UnsupportedOperation ''dependencies must identify earlier operation indices''\<rparr>]\<rparr>, ex)
     else if list_ex (\<lambda>dependency. dependency \<ge> length (ex_eligible ex)) (depends_on op) then None
     else
       let blocked = filter (\<lambda>dependency. \<not> ex_eligible ex ! dependency) (depends_on op) in
       if blocked \<noteq> [] then
         Some (report\<lparr>skipped := skipped report @ [\<lparr>so_context = context, so_reason = DependencyFailed blocked\<rparr>]\<rparr>, ex)
       else
         (case step io diff preview namespace schema index op ex of
            (Ok skip, ex') \<Rightarrow>
              if index \<ge> length (ex_eligible ex') then None
              else
                let ex'' = ex'\<lparr>ex_eligible := (ex_eligible ex')[index := True]\<rparr> in
                Some (case skip of
                        Some reason \<Rightarrow>
                          report\<lparr>skipped := skipped report @ [\<lparr>so_context = context, so_reason = reason\<rparr>]\<rparr>
                      | None \<Rightarrow> report\<lparr>succeeded := succeeded report @ [context]\<rparr>, ex'')
          | (Err e, ex') \<Rightarrow>
              Some (report\<lparr>failed := failed report @ [\<lparr>fo_context = context, fo_error = e\<rparr>]\<rparr>, ex')
          | (Panic, ex') \<Rightarrow> None))"

fun run_operations ::
  "'w io \<Rightarrow> state_diff \<Rightarrow> bool \<Rightarrow> namespace_id \<Rightarrow> schema_registry \<Rightarrow> (nat \<times> operation) list \<Rightarrow>
   apply_report \<times> 'w execution \<Rightarrow> (apply_report \<times> 'w execution) option" where
  "run_operations io diff preview namespace schema [] st = Some st"
| "run_operations io diff preview namespace schema (entry # rest) st =
     Option.bind (run_operation io diff preview namespace schema entry st)
       (run_operations io diff preview namespace schema rest)"

definition initial_execution :: "state_diff \<Rightarrow> 'w \<Rightarrow> 'w execution" where
  "initial_execution diff w =
     \<lparr>ex_world = w, ex_groups = Map.empty, ex_eligible = replicate (length (operations diff)) False,
      ex_current = None, ex_diagnostics = diff_diagnostics diff\<rparr>"

definition run :: "'w io \<Rightarrow> state_diff \<Rightarrow> bool \<Rightarrow> 'w \<Rightarrow> (apply_report \<times> 'w) option" where
  "run io diff preview w =
     Option.bind new_registry (\<lambda>schema.
     map_option (\<lambda>(report, ex). (report\<lparr>report_diagnostics := ex_diagnostics ex\<rparr>, ex_world ex))
       (run_operations io diff preview (io_namespace io) schema (enumerate 0 (operations diff))
         (empty_report, initial_execution diff w)))"

section \<open>Reports\<close>

definition failed_report :: "state_diff \<Rightarrow> backend_error \<Rightarrow> apply_report" where
  "failed_report diff failure =
     foldl
       (\<lambda>report (index, op).
          let context = context_new index op in
          if depends_on op = []
          then report\<lparr>failed := failed report @ [\<lparr>fo_context = context, fo_error = failure\<rparr>]\<rparr>
          else report\<lparr>skipped := skipped report @
                 [\<lparr>so_context = context, so_reason = DependencyFailed (depends_on op)\<rparr>]\<rparr>)
       (empty_report\<lparr>report_diagnostics := diff_diagnostics diff\<rparr>) (enumerate 0 (operations diff))"

definition preview_report :: "state_diff \<Rightarrow> apply_report \<Rightarrow> dry_run_report" where
  "preview_report diff report =
     \<lparr>dry_changes = changes diff,
      dry_operations = sort_key (\<lambda>entry. ctx_index (po_context entry))
        (map (\<lambda>context. \<lparr>po_context = context, po_status = PlannedWrite\<rparr>) (succeeded report)
         @ map (\<lambda>entry. \<lparr>po_context = so_context entry, po_status = PlannedSkip (so_reason entry)\<rparr>) (skipped report)
         @ map (\<lambda>entry. \<lparr>po_context = fo_context entry, po_status = PlannedFail\<rparr>) (failed report)),
      dry_diagnostics = report_diagnostics report,
      dry_failed = failed report\<rparr>"

definition apply_plan :: "'w io \<Rightarrow> state_diff \<Rightarrow> 'w \<Rightarrow> (apply_report \<times> 'w) option" where
  "apply_plan io diff w = run io diff False w"

definition preview_plan :: "'w io \<Rightarrow> state_diff \<Rightarrow> 'w \<Rightarrow> (dry_run_report \<times> 'w) option" where
  "preview_plan io diff w = map_option (\<lambda>(report, w'). (preview_report diff report, w')) (run io diff True w)"

end
