(* ===== verification/ChecksFacts.thy ===== *)
theory ChecksFacts
  imports Checks StateFacts
begin

text \<open>
  Facts about the checks of theory \<open>Checks\<close>: what a decoded operation satisfies, when a target is
  located, the tolerance for ageing lifetimes, what a projected write achieves and what the cascade
  check rules out.
\<close>

section \<open>Decoding\<close>

lemma embedded_find: "find_fragment embedded_registry ''base'' = Some (fragments embedded_registry ! 0)"
  by (simp add: find_fragment_def embedded_registry_def)

lemma mtu_state_conforms:
  "state_conforms True embedded_registry (mtu_state md mtu) \<longleftrightarrow> 68 \<le> mtu \<and> mtu \<le> 65535"
proof -
  have w: "uint (ucast mtu :: u64) = uint mtu" by (simp add: uint_up_ucast is_up)
  have "state_conforms True embedded_registry (mtu_state md mtu)
      \<longleftrightarrow> 68 \<le> uint (ucast mtu :: u64) \<and> uint (ucast mtu :: u64) \<le> 65535"
    by (simp add: state_conforms_def fragment_conforms_def embedded_registry_def embedded_json_defs
        mtu_state_def new_state_def entries_conform_def trigger_keys_def List.map_filter_def node_property_def
        conforms_scalar in_range_def semantic_type_def required_keys_def)
  also have "\<dots> \<longleftrightarrow> 68 \<le> mtu \<and> mtu \<le> 65535" unfolding w by (simp add: word_le_def)
  finally show ?thesis .
qed

definition decoded_ok :: "operation_kind \<Rightarrow> bool" where
  "decoded_ok kind =
     (case kind of
        SetMtu mtu \<Rightarrow> 68 \<le> mtu \<and> mtu \<le> 65535
      | SetEnabled _ \<Rightarrow> True
      | AddIpv4 a \<Rightarrow> validate_address a = Ok ()
      | ReplaceIpv4 a \<Rightarrow> validate_address a = Ok ()
      | RemoveIpv4 a \<Rightarrow> prefix_len a \<le> 32
      | _ \<Rightarrow> False)"

lemma group_None: "group a = None \<longleftrightarrow> prefix_len a > 32"
  by (simp add: group_def masked_eq)

lemma check_decoded_SetMtu:
  "check_decoded embedded_registry md (SetMtu mtu) \<noteq> Panic"
  "check_decoded embedded_registry md (SetMtu mtu) = Ok () \<longleftrightarrow> 68 \<le> mtu \<and> mtu \<le> 65535"
proof -
  obtain es where es: "validate_writable embedded_registry (mtu_state md mtu) = Some es"
    using validate_inner_returns [OF embedded_wf] by (auto simp: validate_writable_def)
  have "es = [] \<longleftrightarrow> 68 \<le> mtu \<and> mtu \<le> 65535"
    using validate_inner_empty [OF embedded_wf es [unfolded validate_writable_def]] by (simp add: mtu_state_conforms)
  with es show "check_decoded embedded_registry md (SetMtu mtu) \<noteq> Panic"
    "check_decoded embedded_registry md (SetMtu mtu) = Ok () \<longleftrightarrow> 68 \<le> mtu \<and> mtu \<le> 65535"
    by simp_all
qed

lemma decode_field_shape:
  "decode_field schema field value = Ok (Some kind) \<Longrightarrow> (\<exists>m. kind = SetMtu m) \<or> (\<exists>b. kind = SetEnabled b)"
  "decode_field schema field value \<noteq> Panic"
  by (auto simp: decode_field_def outcome_inversions split: prod.splits if_splits cval.splits)

lemma omap_err_eq: "omap_err f m = Ok () \<longleftrightarrow> m = Ok ()" "omap_err f m = Panic \<longleftrightarrow> m = Panic"
  by (cases m; auto)+

lemma validate_address_no_Panic: "validate_address a \<noteq> Panic"
  by (simp add: validate_address_def Let_def split: prod.split)

declare check_decoded.simps [simp del]

definition primitive_kind :: "operation_kind \<Rightarrow> bool" where
  "primitive_kind kind = (case kind of SetField _ _ \<Rightarrow> False | AddEntity \<Rightarrow> False | RemoveEntity \<Rightarrow> False | _ \<Rightarrow> True)"

lemma check_decoded_ok:
  "primitive_kind kind \<Longrightarrow> check_decoded embedded_registry md kind = Ok () \<longleftrightarrow> decoded_ok kind"
proof (cases kind)
  case (SetMtu m)
  then show ?thesis by (simp add: check_decoded_SetMtu decoded_ok_def)
next
  case (RemoveIpv4 a)
  then show ?thesis using group_None [of a] by (auto simp: check_decoded.simps decoded_ok_def not_less)
qed (simp_all add: check_decoded.simps decoded_ok_def omap_err_eq primitive_kind_def)

lemma check_decoded_no_Panic: "check_decoded embedded_registry md kind \<noteq> Panic"
proof (cases kind)
  case (SetMtu m)
  then show ?thesis by (simp add: check_decoded_SetMtu)
qed (simp_all add: check_decoded.simps omap_err_eq validate_address_no_Panic)

lemma decode_kind_shape: "decode_kind schema kind = Ok (Some kind') \<Longrightarrow> primitive_kind kind'"
  by (cases kind) (auto simp: decode_kind_def primitive_kind_def dest: decode_field_shape(1))

lemma decode_kind_no_Panic: "decode_kind schema kind \<noteq> Panic"
  by (cases kind) (auto simp: decode_kind_def decode_field_shape)

lemma decode_no_Panic: "decode md kind embedded_registry \<noteq> Panic"
  using decode_kind_no_Panic [of embedded_registry kind] check_decoded_no_Panic [of md]
  by (auto simp: decode_def outcome_inversions split: option.splits)

lemma decode_Some_iff:
  "decode md kind embedded_registry = Ok (Some kind') \<longleftrightarrow>
     decode_kind embedded_registry kind = Ok (Some kind') \<and> decoded_ok kind'"
  using check_decoded_ok [of kind' md] decode_kind_shape [of embedded_registry kind kind']
  by (auto simp: decode_def outcome_inversions split: option.splits)

lemma decode_field_embedded:
  "decode_field embedded_registry field v = Ok (Some kind) \<longleftrightarrow>
     (\<exists>n. field = ''mtu'' \<and> v = VU64 n \<and> uint n < 2 ^ 32 \<and> kind = SetMtu (ucast n))
     \<or> (\<exists>b. field = ''enabled'' \<and> v = VBool b \<and> kind = SetEnabled b)"
proof (cases "field = ''mtu'' \<or> field = ''enabled''")
  case True
  then show ?thesis
    by (cases v) (auto simp: decode_field_def field_info_of_def find_fragment_def embedded_registry_def split: if_splits)
next
  case False
  then show ?thesis
    by (auto simp: decode_field_def outcome_inversions split: prod.splits if_splits cval.splits)
qed

section \<open>Locating a target\<close>

lemma position_Some:
  "position p xs = Some i \<longleftrightarrow> i < length xs \<and> p (xs ! i) \<and> (\<forall>j < i. \<not> p (xs ! j))"
proof (induction xs arbitrary: i)
  case (Cons x xs)
  show ?case
  proof (cases i)
    case 0
    then show ?thesis by simp
  next
    case (Suc k)
    have "(\<forall>j < Suc k. \<not> p ((x # xs) ! j)) \<longleftrightarrow> \<not> p x \<and> (\<forall>j < k. \<not> p (xs ! j))"
      by (auto simp: less_Suc_eq_0_disj)
    with Suc Cons.IH [of k] show ?thesis by auto
  qed
qed simp

lemma position_None: "position p xs = None \<longleftrightarrow> (\<forall>x \<in> set xs. \<not> p x)"
  by (induction xs) auto

lemma locate_no_Panic: "locate obs ident ns \<noteq> Panic"
  by (auto simp: locate_def outcome_inversions Let_def)

section \<open>Ageing\<close>

lemma whole_seconds_nat: "uint (whole_seconds d) = int (min (d div 10 ^ 9) (2 ^ 32 - 1))"
proof -
  have "min (d div 10 ^ 9) (2 ^ 32 - 1) < 2 ^ LENGTH(32)" by (auto simp: min_def)
  then have "unat (whole_seconds d) = min (d div 10 ^ 9) (2 ^ 32 - 1)"
    unfolding whole_seconds_def by (simp only: unat_of_nat mod_less)
  then show ?thesis by (simp only: uint_nat)
qed

lemma uint_decay:
  "uint (decay s e) = (if s = u32_max then uint s else max 0 (uint s - uint e))"
  by (simp add: decay_def uint_sub_if' word_le_def)

lemma uint_u32_max: "uint u32_max = 2 ^ 32 - 1"
  by (simp add: u32_max_def)

lemma uint_less_max: "s \<noteq> u32_max \<Longrightarrow> uint s < 2 ^ 32 - 1"
  using uint_lt2p [of s] by (simp add: word_uint_eq_iff uint_u32_max)

lemma decay_max: "decay s e = u32_max \<longleftrightarrow> s = u32_max"
proof (cases "s = u32_max")
  case False
  then have "uint (decay s e) = max 0 (uint s - uint e)" "uint s < 4294967295"
    using uint_less_max [OF False] by (simp_all add: uint_decay)
  moreover have "0 \<le> uint e" by simp
  ultimately have "uint (decay s e) < 4294967295" by linarith
  then have "decay s e \<noteq> u32_max" by (auto simp: uint_u32_max)
  with False show ?thesis by simp
qed (simp add: decay_def)

lemma lifetime_decays: "lifetime_matches s (decay s (whole_seconds d)) d"
proof (cases "s = u32_max")
  case True
  then show ?thesis by (simp add: lifetime_matches_def decay_max decay_def)
next
  case False
  then have s: "uint (decay s (whole_seconds d)) = max 0 (uint s - uint (whole_seconds d))" by (simp add: uint_decay)
  show ?thesis
  proof (cases "uint s \<le> uint (whole_seconds d)")
    case True
    then have "uint (decay s (whole_seconds d)) = 0" using s by simp
    then have "decay s (whole_seconds d) = 0" by (simp add: word_uint_eq_iff)
    then show ?thesis using True False decay_max [of s] by (auto simp: lifetime_matches_def Let_def)
  next
    case le: False
    then show ?thesis using False s by (auto simp: lifetime_matches_def Let_def decay_max)
  qed
qed

lemma deprecated_or: "(f OR IFA_F_DEPRECATED) AND NOT IFA_F_DEPRECATED = f AND NOT IFA_F_DEPRECATED"
  by (rule bit_word_eqI) (auto simp: bit_simps)

lemma rebase_entry_matches:
  "address_matches entry (rebase_entry (whole_seconds d) entry) d"
proof -
  obtain valid preferred where l: "lifetimes (address entry) = (valid, preferred)" by fastforce
  let ?e = "whole_seconds d"
  have aged: "lifetimes (address (rebase_entry ?e entry)) = (decay valid ?e, decay preferred ?e)"
    by (simp add: rebase_entry_def l Let_def lifetimes_def [of "ipv4_address.valid_lft_update _ _"])
      (simp add: lifetimes_def)
  have flags: "addr_flags (rebase_entry ?e entry) =
      (if decay preferred ?e = 0 then addr_flags entry OR IFA_F_DEPRECATED else addr_flags entry)"
    by (simp add: rebase_entry_def l Let_def)
  have "same_identity (address entry) (address (rebase_entry ?e entry))"
    "scope (rebase_entry ?e entry) = scope entry" "peer (rebase_entry ?e entry) = peer entry"
    by (simp_all add: rebase_entry_def l Let_def same_identity_def)
  moreover have "addr_flags entry AND IFA_F_DEPRECATED = addr_flags (rebase_entry ?e entry) AND IFA_F_DEPRECATED
     \<or> (decay preferred ?e = 0 \<and> lifetime_matches preferred 0 d)"
    using lifetime_decays [of preferred d] by (auto simp: flags)
  ultimately show ?thesis
    unfolding address_matches_def l aged using lifetime_decays
    by (simp add: Let_def flags deprecated_or)
qed

lemma zip_map_all: "list_all (\<lambda>(x, y). P x y) (zip xs (map f xs)) \<longleftrightarrow> list_all (\<lambda>x. P x (f x)) xs"
  by (induction xs) auto

section \<open>Projected writes\<close>

lemma find_append:
  "List.find P (xs @ ys) = (case List.find P xs of None \<Rightarrow> List.find P ys | Some x \<Rightarrow> Some x)"
  by (induction xs) auto

lemma find_replace_first:
  "List.find P xs = Some x \<Longrightarrow> P (f x) \<Longrightarrow> List.find P (replace_first P f xs) = Some (f x)"
  by (induction xs) (auto split: if_splits)

lemma replace_first_in: "y \<in> set (replace_first P f xs) \<Longrightarrow> y \<in> set xs \<or> (\<exists>x \<in> set xs. P x \<and> y = f x)"
  by (induction xs) (auto split: if_splits)

lemma same_identity_refl [simp]: "same_identity a a"
  by (simp add: same_identity_def)

text \<open>A write touches one field or one address, and never the identity of the device.\<close>

lemma project_frame:
  "identity (project kind device) = identity device"
  "addresses_complete (project kind device) = addresses_complete device"
  "observed_at (project kind device) = observed_at device"
  "k \<noteq> ''mtu'' \<Longrightarrow> k \<noteq> ''enabled'' \<Longrightarrow>
     im_get (st_fields (dev_st (project kind device))) k = im_get (st_fields (dev_st device)) k"
  by (cases kind; simp add: Let_def update_conv')+

lemma project_other_addresses:
  assumes "\<And>a. kind_address kind = Some a \<Longrightarrow> \<not> same_identity (address e) a"
  shows "e \<in> set (addresses (project kind device)) \<longleftrightarrow> e \<in> set (addresses device)"
proof (cases kind)
  case (ReplaceIpv4 a)
  have "e \<in> set (replace_first P f xs) \<longleftrightarrow> e \<in> set xs" if "\<not> P e" "\<And>x. e \<noteq> f x"
    for P and f :: "address_observation \<Rightarrow> address_observation" and xs
    using that by (induction xs) auto
  moreover have "e \<noteq> existing\<lparr>address := a, addr_flags := x\<rparr>" for existing x
    using assms ReplaceIpv4 by auto
  ultimately show ?thesis using assms ReplaceIpv4 by simp
qed (use assms in \<open>auto simp: Let_def same_identity_def\<close>)

section \<open>The cascade check\<close>

text \<open>The operations that can still go ahead when the one at \<open>index\<close> is being decided.\<close>

inductive can_run :: "state_diff \<Rightarrow> nat \<Rightarrow> bool list \<Rightarrow> nat \<Rightarrow> bool" for diff index eligible where
  earlier: "j < index \<Longrightarrow> eligible ! j \<Longrightarrow> can_run diff index eligible j"
| current: "can_run diff index eligible index"
| later: "\<lbrakk>index < j; j < length (operations diff);
      \<And>d. d \<in> set (depends_on (operations diff ! j)) \<Longrightarrow> d < j \<and> can_run diff index eligible d\<rbrakk>
    \<Longrightarrow> can_run diff index eligible j"

inductive_simps can_run_iff: "can_run diff index eligible j"

lemma runnable_from_spec:
  assumes "ops = drop (length runnable) (operations diff)" "index < length runnable"
    and "\<forall>j < length runnable. runnable ! j \<longleftrightarrow> can_run diff index eligible j"
  shows "length (runnable_from ops runnable) = length runnable + length ops
    \<and> (\<forall>j < length runnable + length ops. runnable_from ops runnable ! j \<longleftrightarrow> can_run diff index eligible j)"
  using assms
proof (induction ops arbitrary: runnable)
  case (Cons op ops)
  let ?n = "length runnable"
  let ?r = "list_all (\<lambda>d. d < ?n \<and> runnable ! d) (depends_on op)"
  have n: "?n < length (operations diff)" "operations diff ! ?n = op" "ops = drop (Suc ?n) (operations diff)"
    using Cons.prems(1) by (metis drop_eq_Nil2 linorder_not_le list.distinct(1),
        metis Cons_nth_drop_Suc drop_eq_Nil2 linorder_not_le list.distinct(1) list.inject,
        metis drop_Suc list.sel(3) tl_drop)
  have "can_run diff index eligible ?n \<longleftrightarrow> (\<forall>d \<in> set (depends_on op). d < ?n \<and> can_run diff index eligible d)"
    using n Cons.prems(2) by (subst can_run_iff) auto
  also have "\<dots> \<longleftrightarrow> ?r" using Cons.prems(3) by (auto simp: list_all_iff)
  finally have "\<forall>j < length (runnable @ [?r]). (runnable @ [?r]) ! j \<longleftrightarrow> can_run diff index eligible j"
    using Cons.prems(3) by (auto simp: nth_append less_Suc_eq)
  with Cons.IH [of "runnable @ [?r]"] n Cons.prems(2) show ?case by (simp add: Let_def)
qed simp

lemma drop_enumerate: "k \<le> length xs \<Longrightarrow> drop k (enumerate n xs) = enumerate (n + k) (drop k xs)"
  by (simp add: enumerate_eq_zip drop_zip)

lemma removal_covered:
  assumes "index < length (operations diff)" "length eligible = length (operations diff)"
  shows "removal_is_covered diff index tgt addr eligible \<longleftrightarrow>
    (\<exists>j other. index < j \<and> j < length (operations diff) \<and> can_run diff index eligible j
       \<and> target (operations diff ! j) = tgt \<and> op_kind (operations diff ! j) = RemoveIpv4 other
       \<and> same_identity addr other)"
proof -
  let ?init = "take index eligible @ [True]"
  let ?r = "runnable_from (drop (index + 1) (operations diff)) ?init"
  have init: "\<forall>j < length ?init. ?init ! j \<longleftrightarrow> can_run diff index eligible j"
  proof (intro allI impI)
    fix j
    assume "j < length ?init"
    then show "?init ! j \<longleftrightarrow> can_run diff index eligible j"
      using assms by (subst can_run_iff) (auto simp: nth_append less_Suc_eq)
  qed
  have r: "\<forall>j < length (operations diff). ?r ! j \<longleftrightarrow> can_run diff index eligible j"
    using runnable_from_spec [of _ ?init diff index eligible] init assms by auto
  have mem: "(j, op) \<in> set (drop (index + 1) (enumerate 0 (operations diff))) \<longleftrightarrow>
      index < j \<and> j < length (operations diff) \<and> op = operations diff ! j" for j op
    using assms
    by (auto simp: drop_enumerate in_set_enumerate_eq)
  have kind: "(case k of RemoveIpv4 other \<Rightarrow> same_identity addr other | _ \<Rightarrow> False)
      \<longleftrightarrow> (\<exists>other. k = RemoveIpv4 other \<and> same_identity addr other)" for k
    by (cases k) auto
  have ex: "list_ex (\<lambda>(j, op). P j op) L \<longleftrightarrow> (\<exists>j op. (j, op) \<in> set L \<and> P j op)" for P and L :: "(nat \<times> operation) list"
    by (auto simp: list_ex_iff)
  show ?thesis
    unfolding removal_is_covered_def Let_def kind ex mem using r by blast
qed

end
