(* ===== verification/ExecutorFacts.thy ===== *)
theory ExecutorFacts
  imports Executor ChecksFacts "HOL-Library.Multiset" "HOL-Library.Sublist"
begin

text \<open>
  Facts about the execution of a plan: \<open>run\<close> returns for every plan when the calls it makes return, every
  operation is reported exactly once, dependencies are respected, and writes happen only where and when \<open>step\<close> allows.
\<close>

section \<open>What a step leaves alone\<close>

interpretation eligible: frame "\<lambda>ex ex' :: 'w execution. ex_eligible ex' = ex_eligible ex"
  by unfold_locales simp_all

lemma eligible_outside [intro]: "eligible.keeps (outside f)" "eligible.keeps (outside_result g)"
  by (auto simp: eligible.keeps_def outside_def outside_result_def split: prod.split)

lemma eligible_observe [intro]: "eligible.keeps (observe io)"
  unfolding observe_def absorb_def
  by (intro eligible.keeps_rules eligible.keeps_amodify eligible_outside) auto

lemma eligible_on_groups [intro]: "eligible.keeps (on_groups f)"
  by (auto simp: eligible.keeps_def on_groups_def split: prod.split)

lemma eligible_verify [intro]: "eligible.keeps (verify_address_write io diff ns index op kind addr predicted)"
proof -
  have "eligible.keeps (\<lambda>ex. let (r, ex') = outside_result f ex in (omap_err g r, ex'))" for f and g
    by (auto simp: eligible.keeps_def outside_result_def split: prod.split)
  then show ?thesis
    unfolding verify_address_write_def absorb_def throw_when_def Let_def
    by (intro eligible.keeps_rules eligible.keeps_amodify) auto
qed

lemma eligible_step [intro]: "eligible.keeps (step io diff preview ns schema index op)"
  unfolding step_def perform_def ask_cancelled_def preview_write_def apply_write_def record_write_def throw_when_def Let_def
  by (intro eligible.keeps_rules eligible.keeps_amodify eligible_outside eligible_observe
      eligible_on_groups eligible_verify) (auto split: option.split)

section \<open>Steps never panic when the calls return\<close>

text \<open>No call of the trait panics, in whatever world it is made.\<close>

definition calls_return :: "'w io \<Rightarrow> bool" where
  "calls_return io \<longleftrightarrow> (\<forall>w. fst (io_inventory io w) \<noteq> Panic) \<and> (\<forall>tgt kind w. fst (io_execute io tgt kind w) \<noteq> Panic)"

lemma returns_outside [returns_rules]: "returns (outside f)"
  by (auto simp: returns_def outside_def split: prod.split)

lemma returns_io:
  assumes "calls_return io"
  shows "returns (outside_result (io_inventory io))" "returns (outside_result (io_execute io tgt kind))"
  using assms by (simp_all add: calls_return_def returns_def outside_result_def case_prod_unfold Let_def)

lemma returns_observe: "calls_return io \<Longrightarrow> returns (observe io)"
  unfolding observe_def absorb_def by (intro returns_rules returns_io)

lemma group_key_no_Panic: "group_key_new op addr \<noteq> Panic"
  by (auto simp: group_key_new_def outcome_inversions)

lemma satisfied_no_Panic: "satisfied kind device op \<noteq> Panic"
  by (cases kind) (auto simp: address_satisfied_def Let_def split: option.split prod.split)

lemma check_cascade_no_Panic: "check_cascade diff index device kind eligible \<noteq> Panic"
  by (auto simp: check_cascade_def split: operation_kind.split option.split)

lemma returns_validate_group [returns_rules]: "returns (validate_group op device kind)"
  unfolding validate_group_def
  by (intro returns_rules group_key_no_Panic) (auto split: option.split)

lemma returns_on_groups [returns_rules]: "returns f \<Longrightarrow> returns (on_groups f)"
  by (auto simp: returns_def on_groups_def split: prod.split) (metis fst_conv)

lemma returns_verify:
  assumes "calls_return io"
  shows "returns (verify_address_write io diff ns index op kind addr predicted)"
proof -
  have "returns (\<lambda>ex. let (r, ex') = outside_result (io_inventory io) ex in (omap_err g r, ex'))" for g
    using assms by (auto simp: calls_return_def returns_def outside_result_def omap_err_Panic case_prod_unfold Let_def)
  then show ?thesis
    unfolding verify_address_write_def absorb_def throw_when_def Let_def
    by (intro returns_rules locate_no_Panic group_key_no_Panic) auto
qed

lemma returns_step:
  assumes "calls_return io"
  shows "returns (step io diff preview ns embedded_registry index op)"
  unfolding step_def perform_def ask_cancelled_def preview_write_def apply_write_def record_write_def throw_when_def Let_def
  by (intro returns_rules returns_io returns_observe returns_verify assms decode_no_Panic locate_no_Panic
      satisfied_no_Panic check_cascade_no_Panic)
    (auto simp: outcome_inversions group_key_no_Panic split: option.split)

lemma step_skip_reason:
  "step io diff preview ns schema index op ex = (Ok (Some reason), ex') \<Longrightarrow>
     reason = AlreadySatisfied \<or> reason = SkipReadOnly"
  by (auto simp: step_def perform_def abind_eq_Ok record_write_def Let_def split: option.splits if_splits)

section \<open>One operation of the run\<close>

datatype op_result = Wrote | Skipped skip_reason | Failed backend_error

fun settles :: "op_result \<Rightarrow> bool" where
  "settles Wrote = True"
| "settles (Skipped reason) = (\<not> is_dependency_failed reason)"
| "settles (Failed _) = False"

fun add_result :: "operation_context \<Rightarrow> op_result \<Rightarrow> apply_report \<Rightarrow> apply_report" where
  "add_result c Wrote report = report\<lparr>succeeded := succeeded report @ [c]\<rparr>"
| "add_result c (Skipped reason) report =
     report\<lparr>skipped := skipped report @ [\<lparr>so_context = c, so_reason = reason\<rparr>]\<rparr>"
| "add_result c (Failed e) report = report\<lparr>failed := failed report @ [\<lparr>fo_context = c, fo_error = e\<rparr>]\<rparr>"

text \<open>An operation adds its result to the report, unless a call made for it panics.\<close>

lemma run_operation_cases:
  assumes "length (ex_eligible ex) = length (operations diff)" "index < length (operations diff)"
  obtains (panic) "run_operation io diff preview ns embedded_registry (index, op) (report, ex) = None"
      "\<not> calls_return io"
  | (added) r ex' where
    "run_operation io diff preview ns embedded_registry (index, op) (report, ex)
       = Some (add_result (context_new index op) r report, ex')"
    "ex_eligible ex' = (if settles r then (ex_eligible ex)[index := True] else ex_eligible ex)"
    "settles r \<Longrightarrow> \<forall>d \<in> set (depends_on op). d < index \<and> ex_eligible ex ! d"
    "\<And>ds. r = Skipped (DependencyFailed ds) \<Longrightarrow>
       ds = filter (\<lambda>d. \<not> ex_eligible ex ! d) (depends_on op) \<and> ds \<noteq> [] \<and> (\<forall>d \<in> set (depends_on op). d < index)"
proof -
  let ?step = "step io diff preview ns embedded_registry index op ex"
  show thesis
  proof (cases "list_ex (\<lambda>d. d \<ge> index) (depends_on op)")
    case True
    then show thesis
      by (intro added [of "Failed _" ex]) (auto simp: run_operation_def Let_def)
  next
    case early: False
    then have d: "\<forall>d \<in> set (depends_on op). d < index" by (auto simp: list_ex_iff not_le)
    then have inside: "\<not> list_ex (\<lambda>d. d \<ge> length (ex_eligible ex)) (depends_on op)"
      using assms by (auto simp: list_ex_iff)
    let ?blocked = "filter (\<lambda>d. \<not> ex_eligible ex ! d) (depends_on op)"
    show thesis
    proof (cases "?blocked = []")
      case False
      then show thesis
        using early inside d by (intro added [of "Skipped (DependencyFailed ?blocked)" ex])
          (auto simp: run_operation_def Let_def)
    next
      case True
      then have ready: "\<forall>d \<in> set (depends_on op). d < index \<and> ex_eligible ex ! d"
        using d by (auto simp: filter_empty_conv)
      obtain r ex' where s: "?step = (r, ex')" by fastforce
      then have len: "ex_eligible ex' = ex_eligible ex" by (rule eligible.keepsD [OF eligible_step])
      note base = run_operation_def [of io diff preview ns embedded_registry] early inside True s
      show thesis
      proof (cases r)
        case (Ok skip)
        show thesis
        proof (cases skip)
          case None
          then show thesis
            using Ok base ready len assms
            by (intro added [of Wrote "ex'\<lparr>ex_eligible := (ex_eligible ex')[index := True]\<rparr>"]) (auto simp: Let_def)
        next
          case (Some reason)
          with s Ok step_skip_reason have "reason = AlreadySatisfied \<or> reason = SkipReadOnly" by blast
          then show thesis
            using Ok Some base ready len assms
            by (intro added [of "Skipped reason" "ex'\<lparr>ex_eligible := (ex_eligible ex')[index := True]\<rparr>"])
              (auto simp: Let_def)
        qed
      next
        case (Err e)
        then show thesis
          using base len by (intro added [of "Failed e" ex']) (auto simp: Let_def)
      next
        case Panic
        with s returns_step [of io diff preview ns index op] have "\<not> calls_return io" by (metis fst_conv returns_def)
        then show thesis using Panic base by (intro panic) (auto simp: Let_def)
      qed
    qed
  qed
qed

section \<open>The report of a run\<close>

definition report_contexts :: "apply_report \<Rightarrow> operation_context list" where
  "report_contexts report =
     succeeded report @ map so_context (skipped report) @ map fo_context (failed report)"

definition planned_contexts :: "state_diff \<Rightarrow> operation_context list" where
  "planned_contexts diff = map (\<lambda>(index, op). context_new index op) (enumerate 0 (operations diff))"

text \<open>The operations whose requested state is in place after the run.\<close>

definition settled :: "apply_report \<Rightarrow> nat set" where
  "settled report = ctx_index ` set (succeeded report)
     \<union> (\<lambda>e. ctx_index (so_context e)) ` {e \<in> set (skipped report). \<not> is_dependency_failed (so_reason e)}"

definition dependencies_respected :: "state_diff \<Rightarrow> apply_report \<Rightarrow> bool" where
  "dependencies_respected diff report \<longleftrightarrow>
     (\<forall>i \<in> settled report. \<forall>d \<in> set (depends_on (operations diff ! i)). d < i \<and> d \<in> settled report)
     \<and> (\<forall>e \<in> set (skipped report). \<forall>ds. so_reason e = DependencyFailed ds \<longrightarrow>
          ds \<noteq> [] \<and> ds = filter (\<lambda>d. d \<notin> settled report) (depends_on (operations diff ! ctx_index (so_context e))))"

definition run_inv :: "state_diff \<Rightarrow> nat \<Rightarrow> apply_report \<times> 'w execution \<Rightarrow> bool" where
  "run_inv diff n = (\<lambda>(report, ex).
     length (ex_eligible ex) = length (operations diff)
     \<and> mset (report_contexts report) = mset (take n (planned_contexts diff))
     \<and> (\<forall>i < length (operations diff). ex_eligible ex ! i \<longleftrightarrow> i \<in> settled report)
     \<and> (\<forall>e \<in> set (skipped report). is_dependency_failed (so_reason e) \<longrightarrow>
          (\<forall>d \<in> set (depends_on (operations diff ! ctx_index (so_context e))). d < ctx_index (so_context e)))
     \<and> dependencies_respected diff report)"

lemma settled_add:
  "settled (add_result c r report) = (if settles r then insert (ctx_index c) (settled report) else settled report)"
proof (cases r)
  case (Skipped reason)
  have "{e \<in> set (skipped (add_result c r report)). \<not> is_dependency_failed (so_reason e)} =
      {e \<in> set (skipped report). \<not> is_dependency_failed (so_reason e)}
      \<union> (if is_dependency_failed reason then {} else {\<lparr>so_context = c, so_reason = reason\<rparr>})"
    by (auto simp: Skipped)
  then show ?thesis by (auto simp: settled_def Skipped)
qed (auto simp: settled_def)

lemma contexts_add: "mset (report_contexts (add_result c r report)) = mset (report_contexts report) + {#c#}"
  by (cases r) (simp_all add: report_contexts_def)

lemma skipped_add:
  "e \<in> set (skipped (add_result c r report)) \<longleftrightarrow>
     e \<in> set (skipped report) \<or> (\<exists>reason. r = Skipped reason \<and> e = \<lparr>so_context = c, so_reason = reason\<rparr>)"
  by (cases r) auto

lemma contexts_below:
  assumes "mset (report_contexts report) = mset (take n (planned_contexts diff))"
  shows "\<forall>i \<in> settled report. i < n" "\<forall>e \<in> set (skipped report). ctx_index (so_context e) < n"
proof -
  have "set (report_contexts report) = set (take n (planned_contexts diff))"
    using assms by (metis set_mset_mset)
  moreover have "\<forall>c \<in> set (take n (planned_contexts diff)). ctx_index c < n"
    by (auto simp: planned_contexts_def in_set_conv_nth nth_enumerate_eq context_new_def)
  ultimately have "\<forall>c \<in> set (report_contexts report). ctx_index c < n" by simp
  then show "\<forall>i \<in> settled report. i < n" "\<forall>e \<in> set (skipped report). ctx_index (so_context e) < n"
    by (auto simp: report_contexts_def settled_def)
qed

lemma take_Suc_planned:
  "n < length (operations diff) \<Longrightarrow>
   take (Suc n) (planned_contexts diff) = take n (planned_contexts diff) @ [context_new n (operations diff ! n)]"
  by (simp add: planned_contexts_def take_Suc_conv_app_nth nth_enumerate_eq)

lemma run_inv_step:
  assumes n: "n < length (operations diff)" and inv: "run_inv diff n (report, ex)"
    and r: "ex_eligible ex' = (if settles r then (ex_eligible ex)[n := True] else ex_eligible ex)"
    and deps: "settles r \<Longrightarrow> \<forall>d \<in> set (depends_on (operations diff ! n)). d < n \<and> ex_eligible ex ! d"
    and blocked: "\<And>ds. r = Skipped (DependencyFailed ds) \<Longrightarrow>
       ds = filter (\<lambda>d. \<not> ex_eligible ex ! d) (depends_on (operations diff ! n)) \<and> ds \<noteq> []
       \<and> (\<forall>d \<in> set (depends_on (operations diff ! n)). d < n)"
  shows "run_inv diff (Suc n) (add_result (context_new n (operations diff ! n)) r report, ex')"
proof -
  let ?c = "context_new n (operations diff ! n)"
  let ?report = "add_result ?c r report"
  have len: "length (ex_eligible ex) = length (operations diff)"
    and contexts: "mset (report_contexts report) = mset (take n (planned_contexts diff))"
    and el: "\<And>i. i < length (operations diff) \<Longrightarrow> ex_eligible ex ! i \<longleftrightarrow> i \<in> settled report"
    and below: "\<And>e d. e \<in> set (skipped report) \<Longrightarrow> is_dependency_failed (so_reason e) \<Longrightarrow>
      d \<in> set (depends_on (operations diff ! ctx_index (so_context e))) \<Longrightarrow> d < ctx_index (so_context e)"
    and met: "\<And>i d. i \<in> settled report \<Longrightarrow> d \<in> set (depends_on (operations diff ! i)) \<Longrightarrow> d < i \<and> d \<in> settled report"
    and failed: "\<And>e ds. e \<in> set (skipped report) \<Longrightarrow> so_reason e = DependencyFailed ds \<Longrightarrow>
      ds \<noteq> [] \<and> ds = filter (\<lambda>d. d \<notin> settled report) (depends_on (operations diff ! ctx_index (so_context e)))"
    using inv by (auto simp: run_inv_def dependencies_respected_def)
  note lt = contexts_below [OF contexts]
  have c: "ctx_index ?c = n" by (simp add: context_new_def)
  have settled: "settled ?report = (if settles r then insert n (settled report) else settled report)"
    by (simp add: settled_add c)
  have same: "d \<in> settled ?report \<longleftrightarrow> d \<in> settled report" if "d < n" for d
    using that by (auto simp: settled)
  have elig: "ex_eligible ex' ! i \<longleftrightarrow> i \<in> settled ?report" if "i < length (operations diff)" for i
    using that el [OF that] n len by (auto simp: r settled nth_list_update)
  have "d < i \<and> d \<in> settled ?report" if "i \<in> settled ?report" "d \<in> set (depends_on (operations diff ! i))" for i d
    using that deps met [of i d] el [of d] n by (auto simp: settled split: if_splits)
  moreover have "ds \<noteq> [] \<and> ds = filter (\<lambda>d. d \<notin> settled ?report) (depends_on (operations diff ! ctx_index (so_context e)))"
    if e: "e \<in> set (skipped ?report)" "so_reason e = DependencyFailed ds" for e ds
  proof (cases "e \<in> set (skipped report)")
    case True
    have flt: "filter (\<lambda>d. d \<notin> settled ?report) (depends_on (operations diff ! ctx_index (so_context e)))
        = filter (\<lambda>d. d \<notin> settled report) (depends_on (operations diff ! ctx_index (so_context e)))"
      by (rule filter_cong [OF refl]) (use below [OF True] e(2) lt(2) True same in fastforce)
    show ?thesis unfolding flt by (rule failed [OF True e(2)])
  next
    case False
    with e have "r = Skipped (DependencyFailed ds)" "so_context e = ?c" by (auto simp: skipped_add)
    note b = blocked [OF this(1)]
    have flt: "filter (\<lambda>d. d \<notin> settled ?report) (depends_on (operations diff ! n))
        = filter (\<lambda>d. \<not> ex_eligible ex ! d) (depends_on (operations diff ! n))"
      by (rule filter_cong [OF refl]) (use b same el n in auto)
    show ?thesis unfolding \<open>so_context e = ?c\<close> c flt using b by blast
  qed
  moreover have "d < ctx_index (so_context e)"
    if "e \<in> set (skipped ?report)" "is_dependency_failed (so_reason e)"
      "d \<in> set (depends_on (operations diff ! ctx_index (so_context e)))" for e d
    using that below blocked c by (auto simp: skipped_add elim!: is_dependency_failed.elims)
  moreover have "mset (report_contexts ?report) = mset (take (Suc n) (planned_contexts diff))"
    by (simp add: contexts_add contexts take_Suc_planned [OF n])
  ultimately show ?thesis
    using elig len by (auto simp: run_inv_def dependencies_respected_def r)
qed

lemma run_operations_inv:
  assumes "run_inv diff n (report, ex)"
  shows "case run_operations io diff preview ns embedded_registry (drop n (enumerate 0 (operations diff))) (report, ex) of
      None \<Rightarrow> \<not> calls_return io
    | Some st \<Rightarrow> run_inv diff (max n (length (operations diff))) st"
  using assms
proof (induction "length (operations diff) - n" arbitrary: n report ex)
  case 0
  then show ?case by (simp add: max_def)
next
  case (Suc k)
  then have n: "n < length (operations diff)" by simp
  let ?op = "operations diff ! n"
  have len: "length (ex_eligible ex) = length (operations diff)" using Suc.prems by (simp add: run_inv_def)
  have d: "drop n (enumerate 0 (operations diff)) = (n, ?op) # drop (Suc n) (enumerate 0 (operations diff))"
    using n by (simp add: Cons_nth_drop_Suc [symmetric] nth_enumerate_eq)
  have k: "k = length (operations diff) - Suc n" using Suc.hyps(2) by simp
  show ?case
  proof (rule run_operation_cases [OF len n, where op = "?op" and report = report and io = io and preview = preview and ns = ns])
    assume "run_operation io diff preview ns embedded_registry (n, ?op) (report, ex) = None" "\<not> calls_return io"
    then show ?thesis by (simp add: d)
  next
    fix r ex'
    assume r: "run_operation io diff preview ns embedded_registry (n, ?op) (report, ex)
        = Some (add_result (context_new n ?op) r report, ex')"
      and "ex_eligible ex' = (if settles r then (ex_eligible ex)[n := True] else ex_eligible ex)"
        "settles r \<Longrightarrow> \<forall>d \<in> set (depends_on ?op). d < n \<and> ex_eligible ex ! d"
        "\<And>ds. r = Skipped (DependencyFailed ds) \<Longrightarrow>
          ds = filter (\<lambda>d. \<not> ex_eligible ex ! d) (depends_on ?op) \<and> ds \<noteq> [] \<and> (\<forall>d \<in> set (depends_on ?op). d < n)"
    then have "run_inv diff (Suc n) (add_result (context_new n ?op) r report, ex')"
      by (intro run_inv_step [OF n Suc.prems]) blast+
    from Suc.hyps(1) [OF k this] r n show ?thesis by (auto simp: d max_def split: option.splits)
  qed
qed

lemma run_inv_initial: "run_inv diff 0 (empty_report, initial_execution diff w)"
  by (simp add: run_inv_def empty_report_def initial_execution_def report_contexts_def settled_def
      dependencies_respected_def)

lemma run_cases:
  "case run io diff preview w of
     None \<Rightarrow> \<not> calls_return io
   | Some (report, w') \<Rightarrow>
       mset (report_contexts report) = mset (planned_contexts diff) \<and> dependencies_respected diff report"
proof -
  let ?run = "run_operations io diff preview (io_namespace io) embedded_registry
      (enumerate 0 (operations diff)) (empty_report, initial_execution diff w)"
  have inv: "case ?run of None \<Rightarrow> \<not> calls_return io | Some st \<Rightarrow> run_inv diff (length (operations diff)) st"
    using run_operations_inv [OF run_inv_initial, of io diff preview "io_namespace io" w] by (auto split: option.splits)
  have "report_contexts (report\<lparr>report_diagnostics := ds\<rparr>) = report_contexts report"
    "settled (report\<lparr>report_diagnostics := ds\<rparr>) = settled report" for report ds
    by (simp_all add: report_contexts_def settled_def)
  moreover have "length (planned_contexts diff) = length (operations diff)" by (simp add: planned_contexts_def)
  ultimately show ?thesis
    using inv by (cases ?run) (auto simp: run_def new_registry_embedded run_inv_def dependencies_respected_def)
qed

lemma run_result:
  assumes "run io diff preview w = Some (report, w')"
  shows "mset (report_contexts report) = mset (planned_contexts diff)" "dependencies_respected diff report"
  using run_cases [of io diff preview w] assms by simp_all

lemma run_facts:
  assumes "calls_return io"
  obtains report w' where "run io diff preview w = Some (report, w')"
    "mset (report_contexts report) = mset (planned_contexts diff)" "dependencies_respected diff report"
  using run_cases [of io diff preview w] assms by (auto split: option.splits)

end
