(* ===== verification/ExecWrites.thy ===== *)
theory ExecWrites
  imports ExecutorFacts
begin

text \<open>
  Which writes an execution sends.  \<open>logged io\<close> is \<open>io\<close> with a log of the calls of \<open>execute\<close> in its world;
  it does nothing else, so what is shown of the log of \<open>logged io\<close> is shown of the writes of \<open>io\<close>.
\<close>

type_synonym write_log = "(interface_id \<times> operation_kind) list"

definition logged :: "'w io \<Rightarrow> ('w \<times> write_log) io" where
  "logged io =
     \<lparr>io_namespace = io_namespace io,
      io_inventory = (\<lambda>(w, l). let (r, w') = io_inventory io w in (r, (w', l))),
      io_execute = (\<lambda>tgt kind (w, l). let (r, w') = io_execute io tgt kind w in (r, (w', l @ [(tgt, kind)]))),
      io_now = (\<lambda>(w, l). let (r, w') = io_now io w in (r, (w', l))),
      io_cancelled = (\<lambda>(w, l). let (r, w') = io_cancelled io w in (r, (w', l))),
      io_metadata = io_metadata io\<rparr>"

abbreviation write_log :: "('w \<times> write_log) execution \<Rightarrow> write_log" where
  "write_log ex \<equiv> snd (ex_world ex)"

lemma calls_return_logged [simp]: "calls_return (logged io) = calls_return io"
  by (simp add: calls_return_def logged_def case_prod_unfold Let_def)

section \<open>A preview sends nothing\<close>

text \<open>
  A relation on worlds that the inventory, the clock and the cancellation test keep is kept by all of an execution but
  the calls of \<open>execute\<close>.
\<close>

locale world_frame =
  fixes keep :: "'w \<Rightarrow> 'w \<Rightarrow> bool" and io :: "'w io"
  assumes keep_refl: "keep w w"
    and keep_trans: "keep w v \<Longrightarrow> keep v u \<Longrightarrow> keep w u"
    and keep_inventory: "keep w (snd (io_inventory io w))"
    and keep_now: "keep w (snd (io_now io w))"
    and keep_cancelled: "keep w (snd (io_cancelled io w))"

sublocale world_frame < frame "\<lambda>ex ex' :: 'w execution. keep (ex_world ex) (ex_world ex')"
  by unfold_locales (auto intro: keep_refl keep_trans)

context world_frame
begin

lemma keeps_io [intro]:
  "keeps (outside_result (io_inventory io))" "keeps (outside (io_now io))" "keeps (outside (io_cancelled io))"
  by (simp_all add: keeps_def outside_def outside_result_def keep_inventory keep_now keep_cancelled case_prod_unfold Let_def)

lemma keeps_observe [intro]: "keeps (observe io)"
  unfolding observe_def absorb_def
  by (intro keeps_rules keeps_amodify keeps_io) (auto intro: keep_refl)

lemma keeps_on_groups [intro]: "keeps (on_groups f)"
  by (auto simp: keeps_def on_groups_def keep_refl split: prod.split)

lemma keeps_verify [intro]: "keeps (verify_address_write io diff ns index op kind addr predicted)"
proof -
  have "keeps (\<lambda>ex. let (r, ex') = outside_result (io_inventory io) ex in (omap_err g r, ex'))" for g
    using keeps_io(1) by (auto simp: keeps_def split: prod.split) (metis snd_conv)
  then show ?thesis
    unfolding verify_address_write_def absorb_def throw_when_def Let_def
    by (intro keeps_rules keeps_amodify) (auto intro: keep_refl)
qed

lemma keeps_preview [intro]: "keeps (preview_write io pos kind device)"
  unfolding preview_write_def Let_def
  by (intro keeps_rules keeps_amodify keeps_io) (auto intro: keep_refl)

lemma keeps_record [intro]: "keeps (record_write op kind device predicted)"
  unfolding record_write_def
  by (intro keeps_rules keeps_amodify) (auto intro: keep_refl split: option.split)

lemma keeps_cancelled [intro]: "keeps (ask_cancelled io preview)"
  unfolding ask_cancelled_def by (intro keeps_rules keeps_io)

lemma keeps_throw [intro]: "keeps (throw_when c e)"
  unfolding throw_when_def by (intro keeps_rules)

lemma preview_step: "keeps (step io diff True ns schema index op)"
  unfolding step_def perform_def Let_def
  by (simp only: if_True, intro keeps_rules keeps_cancelled keeps_throw keeps_observe keeps_on_groups keeps_preview keeps_record)

text \<open>Where every step keeps the relation, so does the run.\<close>

lemma operation_keeps:
  assumes "keeps (step io diff preview ns schema index op)"
    and "run_operation io diff preview ns schema (index, op) (report, ex) = Some (report', ex')"
  shows "keep (ex_world ex) (ex_world ex')"
  using assms(2) keepsD [OF assms(1)]
  by (auto simp: run_operation_def Let_def keep_refl split: if_splits prod.splits outcome.splits)

lemma operations_keep:
  "\<lbrakk>\<And>index op. (index, op) \<in> set entries \<Longrightarrow> keeps (step io diff preview ns schema index op);
    run_operations io diff preview ns schema entries (report, ex) = Some (report', ex')\<rbrakk> \<Longrightarrow> keep (ex_world ex) (ex_world ex')"
proof (induction entries arbitrary: report ex)
  case (Cons entry entries)
  obtain index op where entry: "entry = (index, op)" by (cases entry)
  from Cons.prems(2) obtain report1 ex1 where
    1: "run_operation io diff preview ns schema (index, op) (report, ex) = Some (report1, ex1)" and
    2: "run_operations io diff preview ns schema entries (report1, ex1) = Some (report', ex')"
    by (auto simp: bind_eq_Some_conv entry)
  have "keep (ex_world ex) (ex_world ex1)" by (rule operation_keeps [OF Cons.prems(1) 1]) (simp add: entry)
  moreover have "keep (ex_world ex1) (ex_world ex')" using Cons.prems(1) by (intro Cons.IH [OF _ 2]) simp
  ultimately show ?case by (rule keep_trans)
qed (simp add: keep_refl)

lemma run_keeps:
  assumes "\<And>index op. op \<in> set (operations diff) \<Longrightarrow> keeps (step io diff preview (io_namespace io) embedded_registry index op)"
    and "run io diff preview w = Some (report, w')"
  shows "keep w w'"
proof -
  from assms(2) obtain before ex where
    1: "run_operations io diff preview (io_namespace io) embedded_registry (enumerate 0 (operations diff))
      (empty_report, initial_execution diff w) = Some (before, ex)" "w' = ex_world ex"
    by (auto simp: run_def new_registry_embedded)
  have "keep (ex_world (initial_execution diff w)) (ex_world ex)"
    by (rule operations_keep [OF _ 1(1)]) (auto simp: in_set_enumerate_eq intro!: assms(1))
  then show ?thesis by (simp add: 1(2) initial_execution_def)
qed

lemma preview_run: "run io diff True w = Some (report, w') \<Longrightarrow> keep w w'"
  by (rule run_keeps [OF preview_step])

end

text \<open>A relation that \<open>execute\<close> keeps too, on the interfaces a plan has operations for, is kept by every run of the plan.\<close>

locale target_frame = world_frame keep io for keep :: "'w \<Rightarrow> 'w \<Rightarrow> bool" and io :: "'w io" +
  fixes may :: "interface_id \<Rightarrow> bool"
  assumes keep_target: "may tgt \<Longrightarrow> keep w (snd (io_execute io tgt kind w))"
begin

lemma keeps_apply: "may (target op) \<Longrightarrow> keeps (apply_write io diff ns index op kind device)"
proof -
  assume "may (target op)"
  then have "keeps (outside_result (io_execute io (target op) kind))"
    by (simp add: keeps_def outside_result_def keep_target case_prod_unfold Let_def)
  then show ?thesis
    unfolding apply_write_def Let_def
    by (intro keeps_rules keeps_io keeps_throw keeps_amodify keeps_verify) (simp_all add: keep_refl)
qed

lemma target_step: "may (target op) \<Longrightarrow> keeps (step io diff preview ns schema index op)"
  unfolding step_def perform_def Let_def
  by (intro keeps_rules keeps_cancelled keeps_throw keeps_observe keeps_on_groups keeps_preview keeps_apply keeps_record)

lemma target_run:
  assumes "\<And>op. op \<in> set (operations diff) \<Longrightarrow> may (target op)" "run io diff preview w = Some (report, w')"
  shows "keep w w'"
  using assms(1) by (intro run_keeps [OF target_step assms(2)])

end

locale call_frame = world_frame keep io for keep :: "'w \<Rightarrow> 'w \<Rightarrow> bool" and io :: "'w io" +
  assumes keep_execute: "keep w (snd (io_execute io tgt kind w))"

sublocale call_frame < anywhere: target_frame keep io "\<lambda>_. True"
  by unfold_locales (rule keep_execute)

context call_frame
begin

lemma any_step: "keeps (step io diff preview ns schema index op)"
  by (rule anywhere.target_step) simp

lemma any_run: "run io diff preview w = Some (report, w') \<Longrightarrow> keep w w'"
  by (rule anywhere.target_run) simp

end

lemma add_result_wrote:
  "report\<lparr>skipped := ss\<rparr> \<noteq> add_result c Wrote report" "report\<lparr>failed := fs\<rparr> \<noteq> add_result c Wrote report"
proof -
  have "succeeded (report\<lparr>skipped := ss\<rparr>) \<noteq> succeeded (add_result c Wrote report)" by simp
  then show "report\<lparr>skipped := ss\<rparr> \<noteq> add_result c Wrote report" by metis
  have "succeeded (report\<lparr>failed := fs\<rparr>) \<noteq> succeeded (add_result c Wrote report)" by simp
  then show "report\<lparr>failed := fs\<rparr> \<noteq> add_result c Wrote report" by metis
qed

lemma failed_unique:
  "report\<lparr>failed := failed report @ [entry]\<rparr> = report\<lparr>failed := failed report @ [entry']\<rparr> \<longleftrightarrow> entry = entry'"
  "report\<lparr>skipped := skipped report @ [s]\<rparr> \<noteq> report\<lparr>failed := failed report @ [entry']\<rparr>"
  "report\<lparr>succeeded := succeeded report @ [c]\<rparr> \<noteq> report\<lparr>failed := failed report @ [entry']\<rparr>"
proof -
  have "failed (report\<lparr>failed := xs\<rparr>) = xs" "failed (report\<lparr>skipped := ys\<rparr>) = failed report"
    "failed (report\<lparr>succeeded := zs\<rparr>) = failed report" for xs ys zs by simp_all
  then show "report\<lparr>failed := failed report @ [entry]\<rparr> = report\<lparr>failed := failed report @ [entry']\<rparr> \<longleftrightarrow> entry = entry'"
    "report\<lparr>skipped := skipped report @ [s]\<rparr> \<noteq> report\<lparr>failed := failed report @ [entry']\<rparr>"
    "report\<lparr>succeeded := succeeded report @ [c]\<rparr> \<noteq> report\<lparr>failed := failed report @ [entry']\<rparr>"
    by (metis append_self_conv last_snoc list.distinct(1))+
qed

text \<open>What every successful call of \<open>execute\<close> does to the world, every step that reports a write has done; other steps that succeed did nothing.\<close>

locale sending = world_frame keep io for keep :: "'w \<Rightarrow> 'w \<Rightarrow> bool" and io :: "'w io" +
  fixes sent :: "'w \<Rightarrow> 'w \<Rightarrow> bool"
  assumes sent_execute: "io_execute io tgt kind w = (Ok (), w') \<Longrightarrow> sent w w'"
    and sent_frame: "keep w v \<Longrightarrow> sent v u \<Longrightarrow> keep u x \<Longrightarrow> sent w x"
begin

lemma apply_sent:
  assumes "apply_write io diff ns index op kind device ex = (Ok predicted, ex')"
  shows "sent (ex_world ex) (ex_world ex')"
proof -
  let ?tail = "\<lambda>now. let predicted = project kind (rebase_lifetimes now device) in
       case kind_address kind of
         Some addr \<Rightarrow> verify_address_write io diff ns index op kind addr predicted
       | None \<Rightarrow> areturn predicted"
  from assms obtain c ex1 ex2 now ex3 where
    1: "outside (io_cancelled io) ex = (Ok c, ex1)" and
    2: "outside_result (io_execute io (target op) kind) (ex1\<lparr>ex_current := None\<rparr>) = (Ok (), ex2)" and
    3: "outside (io_now io) ex2 = (Ok now, ex3)" and
    4: "?tail now ex3 = (Ok predicted, ex')"
    unfolding apply_write_def abind_eq_Ok throw_when_def by fastforce
  have "keeps (?tail now)"
    unfolding Let_def by (intro keeps_rules keeps_verify)
  then have "keep (ex_world ex3) (ex_world ex')" using 4 by (rule keepsD)
  then have after: "keep (ex_world ex2) (ex_world ex')" by (rule keep_trans [OF keepsD [OF keeps_io(2) 3]])
  have "sent (ex_world ex1) (ex_world ex2)"
    using 2 by (auto simp: outside_result_def sent_execute split: prod.splits)
  then show ?thesis by (rule sent_frame [OF keepsD [OF keeps_io(3) 1] _ after])
qed

lemma step_sent:
  assumes "step io diff False ns schema index op ex = (Ok skip, ex')"
  shows "if skip = None then sent (ex_world ex) (ex_world ex') else keep (ex_world ex) (ex_world ex')"
proof -
  from assms obtain c ex1 decoded obs ex2 pos where
    1: "ask_cancelled io False ex = (Ok c, ex1)" "observe io ex1 = (Ok obs, ex2)"
    and rest: "(case decoded of None \<Rightarrow> areturn (Some SkipReadOnly)
       | Some kind \<Rightarrow> perform io diff False ns index op pos (devices obs ! pos) kind) ex2 = (Ok skip, ex')"
    unfolding step_def abind_eq_Ok throw_when_def by (auto simp: Let_def)
  have before: "keep (ex_world ex) (ex_world ex2)"
    using keep_trans keepsD [OF keeps_cancelled 1(1)] keepsD [OF keeps_observe 1(2)] by blast
  show ?thesis
  proof (cases decoded)
    case None
    with rest before show ?thesis by (auto simp: areturn_def)
  next
    case (Some kind)
    let ?d = "devices obs ! pos"
    from rest Some have p: "perform io diff False ns index op pos ?d kind ex2 = (Ok skip, ex')" by simp
    then obtain ex3 already where
      2: "on_groups (validate_group op ?d kind) ex2 = (Ok (), ex3)" and
      3: "already \<Longrightarrow> skip = Some AlreadySatisfied \<and> ex' = ex3" and
      4: "\<not> already \<Longrightarrow> \<exists>predicted ex4. apply_write io diff ns index op kind ?d ex3 = (Ok predicted, ex4)
        \<and> record_write op kind ?d predicted ex4 = (Ok skip, ex')"
      unfolding perform_def abind_eq_Ok by (auto simp: abind_eq_Ok split: if_splits)
    have before: "keep (ex_world ex) (ex_world ex3)"
      using keep_trans before keepsD [OF keeps_on_groups 2] by blast
    show ?thesis
    proof (cases already)
      case True
      with 3 before show ?thesis by simp
    next
      case False
      with 4 obtain predicted ex4 where w: "apply_write io diff ns index op kind ?d ex3 = (Ok predicted, ex4)"
        "record_write op kind ?d predicted ex4 = (Ok skip, ex')" by blast
      from w(2) have "skip = None" by (auto simp: record_write_def abind_eq_Ok)
      with sent_frame [OF before apply_sent [OF w(1)] keepsD [OF keeps_record w(2)]] show ?thesis by simp
    qed
  qed
qed

lemma operation_sent:
  assumes "run_operation io diff False ns schema (n, op) (report, ex) = Some (add_result (context_new n op) Wrote report, ex')"
  shows "sent (ex_world ex) (ex_world ex')"
proof -
  obtain q ex1 where s: "step io diff False ns schema n op ex = (q, ex1)" by fastforce
  from assms have "q = Ok None \<and> ex_world ex' = ex_world ex1"
    by (cases q) (auto simp: run_operation_def Let_def s simp del: add_result.simps simp: add_result_wrote split: if_splits option.splits)
  with step_sent s show ?thesis by fastforce
qed

end

text \<open>What a call of \<open>execute\<close> that fails does to the world and says in its error, a step that fails with that error has done,
  unless its write succeeded or it did nothing.\<close>

locale answering = sending keep io sent for keep :: "'w \<Rightarrow> 'w \<Rightarrow> bool" and io :: "'w io" and sent :: "'w \<Rightarrow> 'w \<Rightarrow> bool" +
  fixes lost :: "backend_error \<Rightarrow> 'w \<Rightarrow> 'w \<Rightarrow> bool"
  assumes lost_execute: "io_execute io tgt kind w = (Err e, w') \<Longrightarrow> lost e w w'"
    and lost_frame: "keep w v \<Longrightarrow> lost e v u \<Longrightarrow> lost e w u"
begin

definition explained :: "backend_error \<Rightarrow> 'w execution \<Rightarrow> 'w execution \<Rightarrow> bool" where
  "explained e ex ex' \<longleftrightarrow>
     keep (ex_world ex) (ex_world ex') \<or> sent (ex_world ex) (ex_world ex') \<or> lost e (ex_world ex) (ex_world ex')"

definition explains :: "('a, backend_error, 'w execution) action \<Rightarrow> bool" where
  "explains m \<longleftrightarrow> (\<forall>ex e ex'. m ex = (Err e, ex') \<longrightarrow> explained e ex ex')"

lemma explains_keeps: "keeps m \<Longrightarrow> explains m"
  by (auto simp: explains_def explained_def dest: keepsD)

lemma explains_after:
  assumes "keeps m" "\<And>x. explains (f x)"
  shows "explains (abind m f)"
  unfolding explains_def
proof (intro allI impI)
  fix ex e ex' assume run: "abind m f ex = (Err e, ex')"
  obtain q ex1 where m: "m ex = (q, ex1)" by fastforce
  have k: "keep (ex_world ex) (ex_world ex1)" by (rule keepsD [OF assms(1) m])
  show "explained e ex ex'"
  proof (cases q)
    case (Ok x)
    with run m have "f x ex1 = (Err e, ex')" by (simp add: abind_def)
    with assms(2) have "explained e ex1 ex'" by (simp add: explains_def)
    then show ?thesis unfolding explained_def
      by (elim disjE) (blast intro: keep_trans [OF k] sent_frame [OF k _ keep_refl] lost_frame [OF k])+
  qed (use run m k in \<open>auto simp: abind_def explained_def\<close>)
qed

text \<open>A write, and what follows it: it sends nothing more.\<close>

definition closing :: "('a, backend_error, 'w execution) action \<Rightarrow> bool" where
  "closing m \<longleftrightarrow> explains m \<and> (\<forall>ex x ex'. m ex = (Ok x, ex') \<longrightarrow> sent (ex_world ex) (ex_world ex'))"

lemma explains_closing:
  assumes "closing m" "\<And>x. keeps (f x)"
  shows "explains (abind m f)"
  unfolding explains_def
proof (intro allI impI)
  fix ex e ex' assume run: "abind m f ex = (Err e, ex')"
  obtain q ex1 where m: "m ex = (q, ex1)" by fastforce
  show "explained e ex ex'"
  proof (cases q)
    case (Ok x)
    with run m have "f x ex1 = (Err e, ex')" by (simp add: abind_def)
    then have "keep (ex_world ex1) (ex_world ex')" by (rule keepsD [OF assms(2)])
    moreover have "sent (ex_world ex) (ex_world ex1)" using assms(1) m Ok by (auto simp: closing_def)
    ultimately show ?thesis by (auto simp: explained_def intro: sent_frame [OF keep_refl])
  qed (use run m assms(1) in \<open>auto simp: abind_def closing_def explains_def\<close>)
qed

lemma closing_execute: "closing (outside_result (io_execute io tgt kind))"
  by (auto simp: closing_def explains_def explained_def outside_result_def
      split: prod.splits dest: lost_execute sent_execute)

lemma explains_apply: "explains (apply_write io diff ns index op kind device)"
  unfolding apply_write_def Let_def
  by (intro explains_after explains_closing closing_execute keeps_io keeps_throw keeps_amodify keeps_rules keeps_verify)
    (simp_all add: keep_refl)

lemma closing_apply: "closing (apply_write io diff ns index op kind device)"
  using explains_apply apply_sent by (auto simp: closing_def)

lemma explains_split:
  "(c \<Longrightarrow> explains m) \<Longrightarrow> (\<not> c \<Longrightarrow> explains m') \<Longrightarrow> explains (if c then m else m')"
  "(v = None \<Longrightarrow> explains m) \<Longrightarrow> (\<And>x. v = Some x \<Longrightarrow> explains (f x)) \<Longrightarrow> explains (case v of None \<Rightarrow> m | Some x \<Rightarrow> f x)"
  by (cases v; simp)+

lemma explains_step: "explains (step io diff False ns schema index op)"
proof -
  have "explains (perform io diff False ns index op pos device kind)" for pos device kind
    unfolding perform_def if_False
    by (intro explains_after explains_closing explains_split closing_apply keeps_on_groups keeps_record keeps_basic
        explains_keeps [OF keeps_basic(1)])
  then show ?thesis
    unfolding step_def Let_def
    by (intro explains_after explains_split keeps_cancelled keeps_throw keeps_observe keeps_basic explains_keeps [OF keeps_basic(1)])
qed

lemma operation_failed:
  assumes "run_operation io diff False ns schema (n, op) (report, ex) = Some (report', ex')"
    and "report' = add_result (context_new n op) (Failed e) report"
  shows "explained e ex ex'"
proof -
  obtain q ex1 where s: "step io diff False ns schema n op ex = (q, ex1)" by fastforce
  have "ex_world ex' = ex_world ex \<or> (q = Err e \<and> ex' = ex1)"
    using assms by (cases q) (auto simp: run_operation_def Let_def s failed_unique split: if_splits option.splits)
  then show ?thesis using explains_step [of diff ns schema n op] s by (auto simp: explains_def explained_def keep_refl)
qed

end

text \<open>The log of writes is such a relation.\<close>

interpretation silent: world_frame "\<lambda>w w' :: 'w \<times> write_log. snd w' = snd w" "logged io" for io
  by unfold_locales (simp_all add: logged_def case_prod_unfold Let_def)

interpretation wrote: sending "\<lambda>w w' :: 'w \<times> write_log. snd w' = snd w" "logged io" "\<lambda>w w'. snd w' \<noteq> snd w" for io
  by unfold_locales (auto simp: logged_def split: prod.splits)

section \<open>The guards of a write\<close>

lemma apply_write_log:
  assumes "apply_write (logged io) diff ns index op kind device ex = (r, ex')"
    and "write_log ex' \<noteq> write_log ex"
  shows "write_log ex' = write_log ex @ [(target op, kind)]"
proof -
  let ?after = "abind (outside (io_now (logged io))) (\<lambda>now.
       let predicted = project kind (rebase_lifetimes now device) in
       case kind_address kind of
         Some addr \<Rightarrow> verify_address_write (logged io) diff ns index op kind addr predicted
       | None \<Rightarrow> areturn predicted)"
  let ?send = "abind (outside_result (io_execute (logged io) (target op) kind)) (\<lambda>_. ?after)"
  let ?clear = "amodify (\<lambda>ex. ex\<lparr>ex_current := None\<rparr>)"
  let ?refuse = "\<lambda>c. throw_when c (cancelled_error ''plan execution cancelled before write'')"
  obtain c ex1 where 1: "write_log ex1 = write_log ex"
    "abind (?refuse c) (\<lambda>_. abind ?clear (\<lambda>_. ?send)) ex1 = (r, ex')"
    using assms unfolding apply_write_def by (elim silent.keeps_abindE [OF silent.keeps_io(3)]) blast+
  obtain ex2 where 2: "write_log ex2 = write_log ex" "abind ?clear (\<lambda>_. ?send) ex2 = (r, ex')"
    using 1 assms(2) by (elim silent.keeps_abindE [OF silent.keeps_throw]) auto
  have send: "?send (ex2\<lparr>ex_current := None\<rparr>) = (r, ex')" using 2(2) by simp
  obtain q ex3 where 3: "outside_result (io_execute (logged io) (target op) kind) (ex2\<lparr>ex_current := None\<rparr>) = (q, ex3)"
    by fastforce
  then have log: "write_log ex3 = write_log ex @ [(target op, kind)]"
    using 2(1) by (auto simp: outside_result_def logged_def split: prod.splits)
  have "silent.keeps ?after"
    unfolding Let_def by (intro silent.keeps_rules silent.keeps_io silent.keeps_verify)
  with send 3 log show ?thesis
    by (cases q) (auto simp: abind_def [of "outside_result _"] dest: silent.keepsD)
qed

text \<open>What a successful check of the prefix group means, and where the snapshot it used comes from.\<close>

lemma validate_group_Ok:
  assumes "validate_group op device kind gs = (Ok (), gs')" "kind_address kind = Some addr"
  obtains key where "addresses_complete device" "group_key_new op addr = Ok key"
    "\<And>expected. gs' key = Some expected \<Longrightarrow>
       group_matches expected (group_addresses device key) (observed_at device)
       \<and> (gs key = Some expected \<or> (gs key = None \<and> (\<exists>pre. address_group op = Some pre
            \<and> expected = \<lparr>eg_addresses = pre_addresses pre, eg_observed_at = pre_observed_at pre\<rparr>)))"
    "gs' key = None \<Longrightarrow> is_destructive kind \<Longrightarrow> \<not> list_ex (\<lambda>entry. same_identity (address entry) addr) (addresses device)"
proof -
  from assms have complete: "addresses_complete device"
    by (auto simp: validate_group_def alift_def split: if_splits)
  with assms obtain key where key: "group_key_new op addr = Ok key"
    by (auto simp: validate_group_def abind_alift_eq_Ok)
  show thesis
    using assms complete key
    by (intro that [of key]) (auto simp: validate_group_def abind_eq_Ok split: option.splits if_splits)
qed

text \<open>Where \<open>observe\<close> takes its observation from.\<close>

lemma observe_Ok:
  assumes "observe io ex = (Ok obs, ex')"
  shows "(ex_current ex = Some obs \<or> (ex_current ex = None \<and> fst (io_inventory io (ex_world ex)) = Ok obs))
    \<and> ex_groups ex' = ex_groups ex \<and> ex_eligible ex' = ex_eligible ex \<and> ex_current ex' = Some obs"
  using assms
  by (auto simp: observe_def absorb_def abind_eq_Ok outside_result_def split: option.splits prod.splits)

definition observed :: "'w io \<Rightarrow> 'w execution \<Rightarrow> observation \<Rightarrow> bool" where
  "observed io ex obs \<longleftrightarrow>
     ex_current ex = Some obs \<or> (ex_current ex = None \<and> (\<exists>w. fst (io_inventory io w) = Ok obs))"

text \<open>All that holds when a step sends a write: the checks against the located device first.\<close>

lemma perform_write:
  assumes "perform (logged io) diff False ns index op pos device kind ex = (r, ex')" "write_log ex' \<noteq> write_log ex"
  obtains gs where
    "validate_group op device kind (ex_groups ex) = (Ok (), gs)" "satisfied kind device op = Ok False"
    "check_cascade diff index device kind (ex_eligible ex) = Ok ()"
    "write_log ex' = write_log ex @ [(target op, kind)]"
proof (rule silent.keeps_abindE [OF silent.keeps_on_groups assms(1) [unfolded perform_def] assms(2)])
  let ?going = "\<lambda>_. abind (apply_write (logged io) diff ns index op kind device) (record_write op kind device)"
  fix u ex1
  assume groups: "on_groups (validate_group op device kind) ex = (Ok u, ex1)" and log1: "write_log ex1 = write_log ex"
    and rest: "abind (alift (satisfied kind device op)) (\<lambda>already.
       if already then areturn (Some AlreadySatisfied)
       else abind (aget ex_eligible) (\<lambda>eligible.
         abind (alift (check_cascade diff index device kind eligible)) (\<lambda>_.
         abind (if False then preview_write (logged io) pos kind device
                else apply_write (logged io) diff ns index op kind device) (\<lambda>predicted.
         record_write op kind device predicted)))) ex1 = (r, ex')"
    and changed: "write_log ex' \<noteq> write_log ex1"
  from rest changed have sat: "satisfied kind device op = Ok False"
    by (cases "satisfied kind device op") (auto split: if_splits)
  with rest changed have cas: "check_cascade diff index device kind (ex_eligible ex1) = Ok ()"
    by (cases "check_cascade diff index device kind (ex_eligible ex1)") auto
  from rest sat cas have w: "?going () ex1 = (r, ex')" by simp
  have "write_log ex' = write_log ex1 @ [(target op, kind)]"
  proof (cases "fst (apply_write (logged io) diff ns index op kind device ex1)")
    case (Ok predicted)
    then obtain ex2 where a: "apply_write (logged io) diff ns index op kind device ex1 = (Ok predicted, ex2)"
      by (metis prod.collapse)
    with w have b: "record_write op kind device predicted ex2 = (r, ex')" by (simp add: abind_def)
    have "write_log ex' = write_log ex2" by (rule silent.keepsD [OF silent.keeps_record b])
    then show ?thesis using apply_write_log [OF a] changed by simp
  next
    case (Err e)
    then have "apply_write (logged io) diff ns index op kind device ex1 = (Err e, ex')"
      using w by (auto simp: abind_def split: prod.splits)
    then show ?thesis using apply_write_log changed by blast
  next
    case Panic
    then have "apply_write (logged io) diff ns index op kind device ex1 = (Panic, ex')"
      using w by (auto simp: abind_def split: prod.splits)
    then show ?thesis using apply_write_log changed by blast
  qed
  moreover obtain gs where "validate_group op device kind (ex_groups ex) = (Ok (), gs)"
    "ex_eligible ex1 = ex_eligible ex"
    using groups by (auto simp: on_groups_def split: prod.splits)
  ultimately show thesis using that sat cas log1 by simp
qed

lemma step_write:
  assumes "step (logged io) diff preview ns schema index op ex = (r, ex')" "write_log ex' \<noteq> write_log ex"
  obtains kind obs pos gs where
    "\<not> preview"
    "decode (io_metadata io) (op_kind op) schema = Ok (Some kind)"
    "observed (logged io) ex obs" "locate obs (target op) ns = Ok pos"
    "validate_group op (devices obs ! pos) kind (ex_groups ex) = (Ok (), gs)"
    "satisfied kind (devices obs ! pos) op = Ok False"
    "check_cascade diff index (devices obs ! pos) kind (ex_eligible ex) = Ok ()"
    "write_log ex' = write_log ex @ [(target op, kind)]"
proof -
  have np: "\<not> preview"
    using silent.keepsD [OF silent.preview_step, of io diff ns schema index op ex r ex'] assms by (cases preview) auto
  show thesis
  proof (rule silent.keeps_abindE [OF silent.keeps_cancelled assms(1) [unfolded step_def] assms(2)])
    fix c ex1
    let ?tail = "\<lambda>decoded obs pos. let device = devices obs ! pos in
       case decoded of None \<Rightarrow> areturn (Some SkipReadOnly)
       | Some kind \<Rightarrow> perform (logged io) diff preview ns index op pos device kind"
    assume c: "ask_cancelled (logged io) preview ex = (Ok c, ex1)" and log1: "write_log ex1 = write_log ex"
      and rest: "abind (throw_when c (cancelled_error ''plan execution cancelled; earlier writes may have applied'')) (\<lambda>_.
        abind (alift (decode (io_metadata (logged io)) (op_kind op) schema)) (\<lambda>decoded.
        abind (observe (logged io)) (\<lambda>obs.
        abind (alift (locate obs (target op) ns)) (\<lambda>pos. ?tail decoded obs pos)))) ex1 = (r, ex')"
      and changed: "write_log ex' \<noteq> write_log ex1"
    have ex1: "ex_groups ex1 = ex_groups ex" "ex_eligible ex1 = ex_eligible ex" "ex_current ex1 = ex_current ex"
      using c np by (auto simp: ask_cancelled_def outside_def split: prod.splits)
    have "\<not> c" using rest changed by (auto simp: throw_when_def)
    moreover obtain decoded where d: "decode (io_metadata io) (op_kind op) schema = Ok decoded"
      using rest changed calculation
      by (cases "decode (io_metadata io) (op_kind op) schema") (auto simp: throw_when_def logged_def)
    ultimately have rest: "abind (observe (logged io)) (\<lambda>obs.
        abind (alift (locate obs (target op) ns)) (\<lambda>pos. ?tail decoded obs pos)) ex1 = (r, ex')"
      using rest by (simp add: throw_when_def logged_def)
    show thesis
    proof (rule silent.keeps_abindE [OF silent.keeps_observe rest changed])
      fix obs ex2
      assume o: "observe (logged io) ex1 = (Ok obs, ex2)" and log2: "write_log ex2 = write_log ex1"
        and rest: "abind (alift (locate obs (target op) ns)) (\<lambda>pos. ?tail decoded obs pos) ex2 = (r, ex')"
        and changed: "write_log ex' \<noteq> write_log ex2"
      obtain pos where pos: "locate obs (target op) ns = Ok pos"
        using rest changed by (cases "locate obs (target op) ns") auto
      with rest changed obtain kind where kind: "decoded = Some kind"
        by (cases decoded) auto
      have p: "perform (logged io) diff False ns index op pos (devices obs ! pos) kind ex2 = (r, ex')"
        using rest pos kind np by (simp add: Let_def)
      have ex2: "ex_groups ex2 = ex_groups ex" "ex_eligible ex2 = ex_eligible ex" "observed (logged io) ex obs"
        using observe_Ok [OF o] ex1 by (cases "ex_world ex1"; auto simp: observed_def)+
      show thesis
        by (rule perform_write [OF p changed]) (use that [OF np] d kind pos ex2 log1 log2 in auto)
    qed
  qed
qed

text \<open>Conversely a write that passes the checks is sent, unless the execution is cancelled first.\<close>

lemma abind_known: "m s = (Ok x, t) \<Longrightarrow> abind m f s = f x t"
  by (simp add: abind_def)

lemma logged_simps [simp]: "io_metadata (logged io) = io_metadata io" "io_namespace (logged io) = io_namespace io"
  by (simp_all add: logged_def)

lemma silent_abind: "(\<And>y. silent.keeps (f y)) \<Longrightarrow> m ex = (q, ex1) \<Longrightarrow>
    write_log (snd (abind m f ex)) = write_log ex1"
  by (cases q) (auto simp: abind_def silent.keeps_def)

lemma apply_write_sent:
  assumes "\<And>w. \<not> fst (io_cancelled io w)"
  shows "write_log (snd (apply_write (logged io) diff ns index op kind device ex)) = write_log ex @ [(target op, kind)]"
proof -
  let ?after = "abind (outside (io_now (logged io))) (\<lambda>now.
       let predicted = project kind (rebase_lifetimes now device) in
       case kind_address kind of
         Some addr \<Rightarrow> verify_address_write (logged io) diff ns index op kind addr predicted
       | None \<Rightarrow> areturn predicted)"
  let ?send = "outside_result (io_execute (logged io) (target op) kind)"
  obtain c ex1 where 1: "outside (io_cancelled (logged io)) ex = (Ok c, ex1)"
    by (cases "io_cancelled (logged io) (ex_world ex)") (simp add: outside_def)
  have "\<not> c" using assms [of "fst (ex_world ex)"] 1 by (auto simp: outside_def logged_def split: prod.splits)
  then have "apply_write (logged io) diff ns index op kind device ex
      = abind ?send (\<lambda>_. ?after) (ex1\<lparr>ex_current := None\<rparr>)"
    unfolding apply_write_def by (simp add: abind_known [where m = "outside (io_cancelled (logged io))" and s = ex, OF 1] throw_when_def)
  moreover obtain q ex3 where 3: "?send (ex1\<lparr>ex_current := None\<rparr>) = (q, ex3)" by fastforce
  moreover have "silent.keeps ?after"
    unfolding Let_def by (intro silent.keeps_rules silent.keeps_io silent.keeps_verify)
  ultimately have "write_log (snd (apply_write (logged io) diff ns index op kind device ex)) = write_log ex3"
    using silent_abind [of "\<lambda>_. ?after" ?send, OF _ 3] by simp
  also have "\<dots> = write_log ex1 @ [(target op, kind)]"
    using 3 by (auto simp: outside_result_def logged_def split: prod.splits)
  also have "write_log ex1 = write_log ex" using silent.keeps_io(3) 1 by (rule silent.keepsD)
  finally show ?thesis .
qed

lemma step_sends:
  assumes "\<And>w. \<not> fst (io_cancelled io w)"
    and "decode (io_metadata io) (op_kind op) schema = Ok (Some kind)"
    and "ex_current ex = Some obs" "locate obs (target op) ns = Ok pos"
    and "validate_group op (devices obs ! pos) kind (ex_groups ex) = (Ok (), gs)"
    and "satisfied kind (devices obs ! pos) op = Ok False"
    and "check_cascade diff index (devices obs ! pos) kind (ex_eligible ex) = Ok ()"
  shows "write_log (snd (step (logged io) diff False ns schema index op ex)) = write_log ex @ [(target op, kind)]"
proof -
  obtain c ex1 where 1: "outside (io_cancelled (logged io)) ex = (Ok c, ex1)"
    by (cases "io_cancelled (logged io) (ex_world ex)") (simp add: outside_def)
  have "\<not> c" using assms(1) [of "fst (ex_world ex)"] 1 by (auto simp: outside_def logged_def split: prod.splits)
  moreover have ex1: "ex_groups ex1 = ex_groups ex" "ex_eligible ex1 = ex_eligible ex" "ex_current ex1 = Some obs"
    using 1 assms(3) by (auto simp: outside_def split: prod.splits)
  moreover have o: "observe (logged io) ex1 = (Ok obs, ex1)" by (simp add: observe_def ex1)
  moreover have g: "on_groups (validate_group op (devices obs ! pos) kind) ex1 = (Ok (), ex1\<lparr>ex_groups := gs\<rparr>)"
    by (simp add: on_groups_def ex1 assms(5))
  ultimately have "step (logged io) diff False ns schema index op ex
      = abind (apply_write (logged io) diff ns index op kind (devices obs ! pos))
          (record_write op kind (devices obs ! pos)) (ex1\<lparr>ex_groups := gs\<rparr>)"
    using assms(2,4-7)
    by (simp add: step_def perform_def ask_cancelled_def abind_known [where m = "outside (io_cancelled (logged io))" and s = ex, OF 1] throw_when_def
        abind_known [where m = "observe (logged io)", OF o]
        abind_known [where m = "on_groups (validate_group op (devices obs ! pos) kind)", OF g])
  moreover obtain q ex3 where
    3: "apply_write (logged io) diff ns index op kind (devices obs ! pos) (ex1\<lparr>ex_groups := gs\<rparr>) = (q, ex3)" by fastforce
  ultimately have "write_log (snd (step (logged io) diff False ns schema index op ex)) = write_log ex3"
    using silent_abind [where m = "apply_write (logged io) diff ns index op kind (devices obs ! pos)", OF silent.keeps_record 3] by simp
  also have "\<dots> = write_log ex1 @ [(target op, kind)]"
    using apply_write_sent [OF assms(1), of diff ns index op kind "devices obs ! pos" "ex1\<lparr>ex_groups := gs\<rparr>"] 3 by simp
  also have "write_log ex1 = write_log ex" using silent.keeps_io(3) 1 by (rule silent.keepsD)
  finally show ?thesis .
qed

section \<open>The writes of a run\<close>

text \<open>The write an operation asks for, if it asks for one.\<close>

definition planned_write :: "state_metadata \<Rightarrow> operation \<Rightarrow> (interface_id \<times> operation_kind) option" where
  "planned_write md op =
     (case decode md (op_kind op) embedded_registry of Ok (Some kind) \<Rightarrow> Some (target op, kind) | _ \<Rightarrow> None)"

lemma step_wrote_iff:
  assumes "step (logged io) diff False ns schema index op ex = (Ok skip, ex')"
  shows "skip = None \<longleftrightarrow> write_log ex' \<noteq> write_log ex"
  using wrote.step_sent [OF assms] by (simp split: if_splits)

lemma run_operation_log:
  assumes "run_operation (logged io) diff False ns embedded_registry (n, op) (report, ex) = Some (report', ex')"
  obtains r where "report' = add_result (context_new n op) r report" and
    "(write_log ex' = write_log ex \<and> r \<noteq> Wrote)
     \<or> (\<exists>p. planned_write (io_metadata io) op = Some p \<and> write_log ex' = write_log ex @ [p]
          \<and> (r = Wrote \<or> (\<exists>e. r = Failed e)))"
proof -
  obtain q ex1 where s: "step (logged io) diff False ns embedded_registry n op ex = (q, ex1)" by fastforce
  have sent: "\<exists>p. planned_write (io_metadata io) op = Some p \<and> write_log ex1 = write_log ex @ [p]"
    if "write_log ex1 \<noteq> write_log ex"
    by (rule step_write [OF s that]) (simp add: planned_write_def)
  note run = assms [unfolded run_operation_def Let_def, simplified, unfolded s]
  show thesis
  proof (cases "list_ex (\<lambda>d. d \<ge> n) (depends_on op) \<or> list_ex (\<lambda>d. d \<ge> length (ex_eligible ex)) (depends_on op)
      \<or> filter (\<lambda>d. \<not> ex_eligible ex ! d) (depends_on op) \<noteq> []")
    case True
    then have "ex' = ex \<and> ((\<exists>e. report' = add_result (context_new n op) (Failed e) report)
        \<or> (\<exists>reason. report' = add_result (context_new n op) (Skipped reason) report))"
      using run by (auto split: if_splits)
    then show thesis using that by blast
  next
    case False
    show thesis
    proof (cases q)
      case (Ok skip)
      with run False have "write_log ex' = write_log ex1"
        "report' = add_result (context_new n op) (case skip of None \<Rightarrow> Wrote | Some reason \<Rightarrow> Skipped reason) report"
        by (auto split: if_splits option.splits)
      moreover have "skip = None \<longleftrightarrow> write_log ex1 \<noteq> write_log ex"
        using step_wrote_iff s Ok by blast
      ultimately show thesis using that [of "case skip of None \<Rightarrow> Wrote | Some reason \<Rightarrow> Skipped reason"] sent
        by (auto split: option.splits)
    next
      case (Err e)
      with run False have "ex' = ex1" "report' = add_result (context_new n op) (Failed e) report"
        by (auto split: if_splits)
      then show thesis using that [of "Failed e"] sent by auto
    next
      case Panic
      with run False show thesis by (auto split: if_splits)
    qed
  qed
qed

text \<open>The log of a run over the operations before \<open>n\<close>: some of them in order, with those that succeeded.\<close>

definition write_inv :: "state_metadata \<Rightarrow> state_diff \<Rightarrow> nat \<Rightarrow> apply_report \<Rightarrow> write_log \<Rightarrow> bool" where
  "write_inv md diff n report log \<longleftrightarrow>
     (\<exists>js. sorted_wrt (<) js \<and> (\<forall>j \<in> set js. j < n)
        \<and> map Some log = map (\<lambda>j. planned_write md (operations diff ! j)) js
        \<and> ctx_index ` set (succeeded report) \<subseteq> set js
        \<and> set js \<subseteq> ctx_index ` set (succeeded report) \<union> (\<lambda>e. ctx_index (fo_context e)) ` set (failed report))"

lemma write_inv_step:
  assumes inv: "write_inv md diff n report (write_log ex)"
    and r: "report' = add_result (context_new n (operations diff ! n)) r report"
    and log: "(write_log ex' = write_log ex \<and> r \<noteq> Wrote)
     \<or> (\<exists>p. planned_write md (operations diff ! n) = Some p \<and> write_log ex' = write_log ex @ [p]
          \<and> (r = Wrote \<or> (\<exists>e. r = Failed e)))"
  shows "write_inv md diff (Suc n) report' (write_log ex')"
proof -
  obtain js where js: "sorted_wrt (<) js" "\<forall>j \<in> set js. j < n"
    "map Some (write_log ex) = map (\<lambda>j. planned_write md (operations diff ! j)) js"
    "ctx_index ` set (succeeded report) \<subseteq> set js"
    "set js \<subseteq> ctx_index ` set (succeeded report) \<union> (\<lambda>e. ctx_index (fo_context e)) ` set (failed report)"
    using inv by (auto simp: write_inv_def)
  have c: "ctx_index (context_new n op) = n" for op by (simp add: context_new_def)
  from log show ?thesis
  proof
    assume "write_log ex' = write_log ex \<and> r \<noteq> Wrote"
    with js show ?thesis
      unfolding write_inv_def r by (intro exI [of _ js]) (cases r; auto)
  next
    assume "\<exists>p. planned_write md (operations diff ! n) = Some p \<and> write_log ex' = write_log ex @ [p]
          \<and> (r = Wrote \<or> (\<exists>e. r = Failed e))"
    moreover have "\<And>x. x \<in> set (succeeded report) \<Longrightarrow> ctx_index x \<in> set js" using js(4) by auto
    ultimately show ?thesis
      using js(1-3,5) c unfolding write_inv_def r by (intro exI [of _ "js @ [n]"]) (auto simp: sorted_wrt_append less_SucI)
  qed
qed

text \<open>A property of the operations before \<open>n\<close> that each operation extends holds of the run; the report gets its diagnostics last.\<close>

lemma run_operations_induct:
  assumes "\<And>n report ex report' ex'. \<lbrakk>n < length (operations diff); P n report ex;
      run_operation io diff preview ns schema (n, operations diff ! n) (report, ex) = Some (report', ex')\<rbrakk> \<Longrightarrow> P (Suc n) report' ex'"
    and "run_operations io diff preview ns schema (drop n (enumerate 0 (operations diff))) (report, ex) = Some (report', ex')"
    and "P n report ex" "n \<le> length (operations diff)"
  shows "P (length (operations diff)) report' ex'"
  using assms(2-4)
proof (induction "length (operations diff) - n" arbitrary: n report ex)
  case 0
  then show ?case by simp
next
  case (Suc k)
  then have n: "n < length (operations diff)" by simp
  let ?op = "operations diff ! n"
  have d: "drop n (enumerate 0 (operations diff)) = (n, ?op) # drop (Suc n) (enumerate 0 (operations diff))"
    using n by (simp add: Cons_nth_drop_Suc [symmetric] nth_enumerate_eq)
  obtain report1 ex1 where 1: "run_operation io diff preview ns schema (n, ?op) (report, ex) = Some (report1, ex1)"
    "run_operations io diff preview ns schema (drop (Suc n) (enumerate 0 (operations diff))) (report1, ex1) = Some (report', ex')"
    using Suc.prems(1) by (auto simp: d bind_eq_Some_conv)
  from Suc.hyps(1) [OF _ 1(2) assms(1) [OF n Suc.prems(2) 1(1)]] Suc.hyps(2) n show ?case by simp
qed

lemma run_induct:
  assumes "run io diff preview w = Some (report, w')"
    and "P 0 empty_report (initial_execution diff w)"
    and "\<And>n report ex report' ex'. \<lbrakk>n < length (operations diff); P n report ex;
      run_operation io diff preview (io_namespace io) embedded_registry (n, operations diff ! n) (report, ex) = Some (report', ex')\<rbrakk>
        \<Longrightarrow> P (Suc n) report' ex'"
  obtains before ex where "report = before\<lparr>report_diagnostics := ex_diagnostics ex\<rparr>" "w' = ex_world ex"
    "P (length (operations diff)) before ex"
proof -
  from assms(1) obtain before ex where 1: "run_operations io diff preview (io_namespace io) embedded_registry
      (drop 0 (enumerate 0 (operations diff))) (empty_report, initial_execution diff w) = Some (before, ex)"
    "report = before\<lparr>report_diagnostics := ex_diagnostics ex\<rparr>" "w' = ex_world ex"
    by (auto simp: run_def new_registry_embedded)
  from run_operations_induct [where P = P, OF assms(3) 1(1) assms(2)] 1(2,3) that show thesis by simp
qed

lemma run_log:
  assumes "run (logged io) diff False (w, []) = Some (report, (w', log))"
  shows "write_inv (io_metadata io) diff (length (operations diff)) report log"
proof (rule run_induct [where P = "\<lambda>n report ex. write_inv (io_metadata io) diff n report (write_log ex)", OF assms])
  show "write_inv (io_metadata io) diff 0 empty_report (write_log (initial_execution diff (w, [])))"
    by (simp add: write_inv_def initial_execution_def empty_report_def)
next
  fix n report report' and ex ex' :: "('a \<times> write_log) execution"
  assume inv: "write_inv (io_metadata io) diff n report (write_log ex)"
    and 1: "run_operation (logged io) diff False (io_namespace (logged io)) embedded_registry (n, operations diff ! n) (report, ex)
      = Some (report', ex')"
  show "write_inv (io_metadata io) diff (Suc n) report' (write_log ex')"
    using write_inv_step [OF inv] by (rule run_operation_log [OF 1]) blast
qed (simp add: write_inv_def, metis snd_conv)

end
