(* ===== verification/ExecProps.thy ===== *)
theory ExecProps
  imports ExecWrites
begin

text \<open>
  The properties of the executor: how a run reports its operations, which writes it sends and under which
  checks, and what the checks themselves guarantee.
\<close>

section \<open>A kernel to run against\<close>

text \<open>An \<open>Io\<close> that holds an observation, projects every write onto it and never fails.\<close>

definition sample_io :: "namespace_id \<Rightarrow> bool \<Rightarrow> observation io" where
  "sample_io ns cancelled =
     \<lparr>io_namespace = ns,
      io_inventory = (\<lambda>obs. (Ok obs, obs)),
      io_execute = (\<lambda>tgt kind obs. (Ok (),
        obs\<lparr>devices := map (\<lambda>d. if identity d = tgt then project kind d else d) (devices obs)\<rparr>)),
      io_now = (\<lambda>obs. (0, obs)),
      io_cancelled = (\<lambda>obs. (cancelled, obs)),
      io_metadata = \<lparr>md_id = 0, md_created_at = 0\<rparr>\<rparr>"

definition sample_ns :: namespace_id where "sample_ns = \<lparr>ns_device = 4, ns_inode = 4026531840\<rparr>"

definition sample_if :: interface_id where
  "sample_if = \<lparr>if_namespace = sample_ns, if_index = 2, if_generation = 1, if_name = ''eth0'',
     if_device_type = ''ethernet'', if_mac = None\<rparr>"

definition sample_addr :: "u8 \<Rightarrow> ipv4_address" where
  "sample_addr host = \<lparr>ip = 0xC0A80000 + ucast host, prefix_len = 24, valid_lft = None, preferred_lft = None\<rparr>"

definition sample_entry :: "u8 \<Rightarrow> u32 \<Rightarrow> address_observation" where
  "sample_entry host flags = \<lparr>address = sample_addr host, addr_flags = flags, scope = 0, peer = None\<rparr>"

definition sample_device :: "address_observation list \<Rightarrow> device_observation" where
  "sample_device entries =
     \<lparr>identity = sample_if, dev_st = (new_state \<lparr>md_id = 0, md_created_at = 0\<rparr> Kernel)\<lparr>device_type := ''ethernet''\<rparr>,
      addresses = entries, addresses_complete = True, observed_at = 0\<rparr>"

definition sample_obs :: "address_observation list \<Rightarrow> observation" where
  "sample_obs entries = \<lparr>devices = [sample_device entries], diagnostics = []\<rparr>"

definition sample_op :: "operation_kind \<Rightarrow> address_observation list option \<Rightarrow> operation" where
  "sample_op kind pre = \<lparr>target = sample_if, op_kind = kind, depends_on = [],
     address_group = map_option (\<lambda>entries. \<lparr>pre_addresses = entries, pre_observed_at = 0\<rparr>) pre\<rparr>"

definition sample_diff :: "operation list \<Rightarrow> state_diff" where
  "sample_diff ops = \<lparr>changes = [], operations = ops, diff_diagnostics = []\<rparr>"

lemmas sample_defs = sample_io_def sample_ns_def sample_if_def sample_addr_def sample_entry_def sample_device_def
  sample_obs_def sample_op_def sample_diff_def

section \<open>The report\<close>

lemma sample_returns [simp]: "calls_return (sample_io ns cancelled)"
  by (simp add: calls_return_def sample_io_def)

text \<open>C38: the report of a run names every operation of the plan exactly once, with its index, target and kind, as
  succeeded, skipped or failed, whatever the plan and whatever the kernel answers.  Every run has a report, unless a call of
  the trait panics.\<close>

theorem run_reports_every_operation:
  "case run io diff preview w of
     Some (report, w') \<Rightarrow> mset (report_contexts report) = mset (planned_contexts diff)
   | None \<Rightarrow> \<not> calls_return io"
  using run_cases [of io diff preview w] by (auto split: option.split)

text \<open>C18: an operation is carried out or found satisfied only after all its dependencies were, and one that is
  skipped as blocked names exactly its dependencies that were not, in every run of every plan; only a call that panics
  leaves a run without its report.\<close>

theorem run_respects_dependencies:
  "case run io diff preview w of
     Some (report, w') \<Rightarrow> dependencies_respected diff report
   | None \<Rightarrow> \<not> calls_return io"
  using run_cases [of io diff preview w] by (auto split: option.split)

lemma sorted_indices: "map (\<lambda>c. ctx_index c) (planned_contexts diff) = [0..<length (operations diff)]"
  by (rule nth_equalityI) (simp_all add: planned_contexts_def context_new_def nth_enumerate_eq)

text \<open>The dry-run report lists every operation of the plan exactly once, in plan order.\<close>

theorem preview_lists_plan_in_order:
  assumes "calls_return io"
  shows "\<exists>report w'. preview_plan io diff w = Some (report, w')
     \<and> map po_context (dry_operations report) = planned_contexts diff"
proof -
  obtain report w' where r: "run io diff True w = Some (report, w')"
    "mset (report_contexts report) = mset (planned_contexts diff)"
    by (rule run_facts [OF assms, of diff True w])
  let ?entries = "map (\<lambda>context. \<lparr>po_context = context, po_status = PlannedWrite\<rparr>) (succeeded report)
         @ map (\<lambda>entry. \<lparr>po_context = so_context entry, po_status = PlannedSkip (so_reason entry)\<rparr>) (skipped report)
         @ map (\<lambda>entry. \<lparr>po_context = fo_context entry, po_status = PlannedFail\<rparr>) (failed report)"
  let ?sorted = "map po_context (sort_key (\<lambda>entry. ctx_index (po_context entry)) ?entries)"
  have contexts: "map po_context ?entries = report_contexts report"
    by (simp add: report_contexts_def comp_def)
  have "mset ?sorted = mset (planned_contexts diff)"
    using r(2) unfolding contexts [symmetric] by (simp only: mset_map mset_sort)
  moreover have "sorted (map ctx_index ?sorted)" by (simp add: comp_def)
  moreover have "distinct (map ctx_index (planned_contexts diff))" "sorted (map ctx_index (planned_contexts diff))"
    using sorted_indices by simp_all
  moreover have "inj_on ctx_index (set ?sorted)"
    using calculation(3) mset_eq_setD [OF calculation(1)] by (simp only: distinct_map)
  ultimately have "sort_key ctx_index ?sorted = planned_contexts diff" "sort_key ctx_index ?sorted = ?sorted"
    by (blast intro: sort_key_inj_key_eq)+
  then have "?sorted = planned_contexts diff" by simp
  with r(1) show ?thesis by (simp add: preview_plan_def preview_report_def)
qed

section \<open>The writes\<close>

text \<open>A dry run sends no write to the kernel, whatever the plan and whatever the kernel answers.\<close>

theorem dry_run_sends_nothing:
  assumes "calls_return io"
  shows "\<exists>report w'. run (logged io) diff True (w, log) = Some (report, (w', log))"
proof -
  obtain report w1 where r: "run (logged io) diff True (w, log) = Some (report, w1)"
    by (rule run_facts [of "logged io" diff True "(w, log)"]) (use assms in simp_all)
  from silent.preview_run [OF r] r show ?thesis by (metis prod.collapse snd_conv)
qed

text \<open>The writes of a run are the decoded writes of distinct operations of the plan, in plan order: those of
  every operation reported as succeeded, and otherwise only those of operations reported as failed.  A skipped
  operation writes nothing.\<close>

theorem run_writes_follow_plan:
  assumes "calls_return io"
  shows "\<exists>report w' log js. run (logged io) diff False (w, []) = Some (report, (w', log))
     \<and> sorted_wrt (<) js
     \<and> map Some log = map (\<lambda>j. planned_write (io_metadata io) (operations diff ! j)) js
     \<and> ctx_index ` set (succeeded report) \<subseteq> set js
     \<and> set js \<subseteq> ctx_index ` set (succeeded report) \<union> (\<lambda>e. ctx_index (fo_context e)) ` set (failed report)"
proof -
  obtain report w' log where r: "run (logged io) diff False (w, []) = Some (report, (w', log))"
    by (rule run_facts [of "logged io" diff False "(w, [])"]) (use assms in auto)
  from run_log [OF r] show ?thesis using r by (auto simp: write_inv_def)
qed

text \<open>C20: whatever a step writes has passed every check on the device it goes to: the observed interface is the
  planned one, an Ethernet device of the backend's namespace, the operation decoded to a valid primitive write that
  is not satisfied yet, and no secondary address is put at risk.\<close>

theorem step_writes_checked:
  assumes "step (logged io) diff preview ns embedded_registry index op ex = (r, ex')" "write_log ex' \<noteq> write_log ex"
  shows "\<not> preview \<and> (\<exists>kind obs pos.
     write_log ex' = write_log ex @ [(target op, kind)]
     \<and> decode (io_metadata io) (op_kind op) embedded_registry = Ok (Some kind) \<and> decoded_ok kind
     \<and> observed (logged io) ex obs \<and> pos < length (devices obs) \<and> identity (devices obs ! pos) = target op
     \<and> if_namespace (target op) = ns \<and> if_device_type (target op) = ETHERNET
     \<and> satisfied kind (devices obs ! pos) op = Ok False
     \<and> check_cascade diff index (devices obs ! pos) kind (ex_eligible ex) = Ok ())"
proof (rule step_write [OF assms])
  fix kind obs pos gs
  assume *: "\<not> preview" "decode (io_metadata io) (op_kind op) embedded_registry = Ok (Some kind)"
    "observed (logged io) ex obs" "locate obs (target op) ns = Ok pos"
    "satisfied kind (devices obs ! pos) op = Ok False"
    "check_cascade diff index (devices obs ! pos) kind (ex_eligible ex) = Ok ()"
    "write_log ex' = write_log ex @ [(target op, kind)]"
  from *(4) have "if_namespace (target op) = ns \<and> if_device_type (target op) = ETHERNET
      \<and> pos < length (devices obs) \<and> identity (devices obs ! pos) = target op"
    by (auto simp: locate_def outcome_inversions position_Some Let_def split: if_splits)
  moreover from *(2) have "decoded_ok kind" using decode_Some_iff by blast
  ultimately show ?thesis using * by blast
qed

definition enable_diff :: state_diff where
  "enable_diff = sample_diff [sample_op (SetEnabled True) None]"

definition enable_start :: "(observation \<times> write_log) execution" where
  "enable_start = initial_execution enable_diff (sample_obs [], [])"

definition enable_step :: "(skip_reason option, backend_error) outcome \<times> (observation \<times> write_log) execution" where
  "enable_step = step (logged (sample_io sample_ns False)) enable_diff False sample_ns embedded_registry 0
     (sample_op (SetEnabled True) None) enable_start"

lemmas step_eval = step_def perform_def ask_cancelled_def preview_write_def apply_write_def record_write_def
  throw_when_def observe_def absorb_def on_groups_def outside_def outside_result_def logged_def
  abind_def alift_def areturn_def aget_def amodify_def decode_def decode_kind_def check_decoded.simps
  locate_def validate_group_def initial_execution_def rebase_lifetimes_def collateral_def check_cascade_def
  ETHERNET_def new_state_def

lemma enable_step_writes: "write_log (snd enable_step) \<noteq> write_log enable_start"
  by (simp add: enable_step_def enable_start_def enable_diff_def sample_defs step_eval)

theorem step_writes_checked_witness:
  "\<exists>kind. write_log (snd enable_step) = write_log enable_start @ [(sample_if, kind)] \<and> decoded_ok kind"
proof -
  obtain r ex' where e: "enable_step = (r, ex')" by fastforce
  have w: "write_log ex' \<noteq> write_log enable_start" using enable_step_writes by (simp add: e)
  obtain kind where "write_log ex' = write_log enable_start @ [(target (sample_op (SetEnabled True) None), kind)]"
    "decoded_ok kind"
    using step_writes_checked [OF e [unfolded enable_step_def] w] by blast
  then show ?thesis by (auto simp: e sample_op_def)
qed

text \<open>C19: an address is removed or replaced only when the device's address list is complete and its prefix group
  matches, in membership, order, attributes and aged lifetimes, a snapshot that the plan supplied or that an earlier
  step of the run established.\<close>

theorem destructive_writes_match_snapshot:
  assumes "step (logged io) diff preview ns schema index op ex = (r, ex')"
    and "write_log ex' = write_log ex @ [(tgt, kind)]" "is_destructive kind"
  shows "\<exists>obs pos key expected.
     observed (logged io) ex obs \<and> locate obs (target op) ns = Ok pos
     \<and> addresses_complete (devices obs ! pos)
     \<and> (ex_groups ex key = Some expected
        \<or> (ex_groups ex key = None \<and> (\<exists>pre. address_group op = Some pre
             \<and> expected = \<lparr>eg_addresses = pre_addresses pre, eg_observed_at = pre_observed_at pre\<rparr>)))
     \<and> Some (Ok key) = map_option (group_key_new op) (kind_address kind)
     \<and> group_matches expected (group_addresses (devices obs ! pos) key) (observed_at (devices obs ! pos))"
proof -
  obtain addr where addr: "kind = RemoveIpv4 addr \<or> kind = ReplaceIpv4 addr" "kind_address kind = Some addr"
    using assms(3) by (cases kind) auto
  have changed: "write_log ex' \<noteq> write_log ex" using assms(2) by simp
  show ?thesis
  proof (rule step_write [OF assms(1) changed])
    fix kind' pos gs and obs :: observation
    let ?d = "devices obs ! pos"
    assume "write_log ex' = write_log ex @ [(target op, kind')]"
    with assms(2) have k: "kind' = kind" by simp
    assume o: "observed (logged io) ex obs" and l: "locate obs (target op) ns = Ok pos"
      and v: "validate_group op ?d kind' (ex_groups ex) = (Ok (), gs)" and s: "satisfied kind' ?d op = Ok False"
    have exists: "list_ex (\<lambda>entry. same_identity (address entry) addr) (addresses ?d)"
      using addr(1) s k
      by (auto simp: address_satisfied_def list_ex_iff find_None_iff split: option.splits dest!: find_in)
    show ?thesis
    proof (rule validate_group_Ok [OF v [unfolded k] addr(2)])
      fix key
      assume c: "addresses_complete ?d" and g: "group_key_new op addr = Ok key"
        and m: "\<And>expected. gs key = Some expected \<Longrightarrow> group_matches expected (group_addresses ?d key) (observed_at ?d)
          \<and> (ex_groups ex key = Some expected \<or> (ex_groups ex key = None \<and> (\<exists>pre. address_group op = Some pre
            \<and> expected = \<lparr>eg_addresses = pre_addresses pre, eg_observed_at = pre_observed_at pre\<rparr>)))"
        and n: "gs key = None \<Longrightarrow> is_destructive kind \<Longrightarrow> \<not> list_ex (\<lambda>entry. same_identity (address entry) addr) (addresses ?d)"
      from n exists assms(3) obtain expected where "gs key = Some expected" by auto
      with m o l c g addr(2) show ?thesis by (metis option.map(2))
    qed
  qed
qed

definition remove_op :: operation where
  "remove_op = sample_op (RemoveIpv4 (sample_addr 5)) (Some [sample_entry 5 0x80])"

definition remove_start :: "(observation \<times> write_log) execution" where
  "remove_start = (initial_execution (sample_diff [remove_op]) (sample_obs [sample_entry 5 0x80], []))
     \<lparr>ex_current := Some (sample_obs [sample_entry 5 0x80])\<rparr>"

definition remove_step :: "(skip_reason option, backend_error) outcome \<times> (observation \<times> write_log) execution" where
  "remove_step = step (logged (sample_io sample_ns False)) (sample_diff [remove_op]) False sample_ns embedded_registry 0
     remove_op remove_start"

lemma sample_groups:
  "group (sample_addr 5) = Some (0xC0A80000, 24)" "kernel_group (sample_entry 5 f) = Some (0xC0A80000, 24)"
  by (simp_all add: group_def kernel_group_def sample_addr_def sample_entry_def masked_def checked_shl_def u32_max_def)

lemma sample_sels:
  "address (sample_entry h f) = sample_addr h" "addr_flags (sample_entry h f) = f"
  "scope (sample_entry h f) = 0" "peer (sample_entry h f) = None" "lifetimes (sample_addr h) = (u32_max, u32_max)"
  by (simp_all add: sample_entry_def sample_addr_def lifetimes_def)

lemma sample_match: "address_matches (sample_entry h f) (sample_entry h f) d"
  by (simp add: address_matches_def sample_sels lifetime_matches_def)

lemma remove_group:
  "fst (validate_group remove_op (sample_device [sample_entry 5 0x80]) (RemoveIpv4 (sample_addr 5)) Map.empty) = Ok ()"
  by (simp add: validate_group_def remove_op_def sample_op_def sample_device_def group_key_new_def
      sample_groups sample_sels key_contains_def group_matches_def group_addresses_def sample_match
      alift_def [of "Ok ()"])

lemma remove_step_writes: "write_log (snd remove_step) = write_log remove_start @ [(sample_if, RemoveIpv4 (sample_addr 5))]"
proof -
  let ?d = "sample_device [sample_entry 5 0x80]"
  have "write_log (snd remove_step) = write_log remove_start @ [(target remove_op, RemoveIpv4 (sample_addr 5))]"
    unfolding remove_step_def
  proof (rule step_sends)
    show "validate_group remove_op (devices (sample_obs [sample_entry 5 0x80]) ! 0) (RemoveIpv4 (sample_addr 5))
        (ex_groups remove_start) = (Ok (), snd (validate_group remove_op ?d (RemoveIpv4 (sample_addr 5)) Map.empty))"
      using remove_group
      by (cases "validate_group remove_op ?d (RemoveIpv4 (sample_addr 5)) Map.empty")
        (simp add: remove_start_def initial_execution_def sample_obs_def)
    show "decode (io_metadata (sample_io sample_ns False)) (op_kind remove_op) embedded_registry
        = Ok (Some (RemoveIpv4 (sample_addr 5)))"
      by (simp add: decode_Some_iff decode_kind_def decoded_ok_def remove_op_def sample_op_def sample_addr_def)
    show "check_cascade (sample_diff [remove_op]) 0 (devices (sample_obs [sample_entry 5 0x80]) ! 0)
        (RemoveIpv4 (sample_addr 5)) (ex_eligible remove_start) = Ok ()"
      by (simp add: check_cascade_def sample_obs_def sample_device_def sample_entry_def IFA_F_SECONDARY_def)
  qed (simp_all add: sample_io_def remove_start_def locate_def sample_obs_def sample_device_def remove_op_def
      sample_op_def sample_if_def ETHERNET_def sample_entry_def)
  then show ?thesis by (simp add: remove_op_def sample_op_def)
qed

theorem destructive_writes_match_snapshot_witness:
  "\<exists>obs pos. observed (logged (sample_io sample_ns False)) remove_start obs
     \<and> locate obs sample_if sample_ns = Ok pos \<and> addresses_complete (devices obs ! pos)"
proof -
  obtain r ex' where e: "remove_step = (r, ex')" by fastforce
  have w: "write_log ex' = write_log remove_start @ [(sample_if, RemoveIpv4 (sample_addr 5))]"
    using remove_step_writes by (simp add: e)
  show ?thesis
    using destructive_writes_match_snapshot [OF e [unfolded remove_step_def] w]
    by (auto simp: remove_op_def sample_op_def)
qed

section \<open>What a confirmed address write means\<close>

lemma verify_Ok:
  assumes "verify_address_write io diff ns index op kind addr predicted ex = (Ok actual, ex')"
  obtains after pos key where
    "io_inventory io (ex_world ex) = (Ok after, ex_world ex')"
    "ex_current ex' = Some after" "locate after (target op) ns = Ok pos" "actual = devices after ! pos"
    "addresses_complete actual" "group_key_new op addr = Ok key"
    "group_matches \<lparr>eg_addresses = expected_after diff index op kind (ex_eligible ex) (group_addresses actual key)
        (group_addresses predicted key), eg_observed_at = observed_at predicted\<rparr>
      (group_addresses actual key) (observed_at actual)"
proof -
  let ?ask = "\<lambda>ex. let (r, ex') = outside_result (io_inventory io) ex in
     (omap_err (unconfirmed ''write acknowledged but not re-observed'') r, ex')"
  obtain after ex1 where 1: "?ask ex = (Ok after, ex1)" and
    rest: "abind (absorb after) (\<lambda>_.
     abind (alift (locate after (target op) ns)) (\<lambda>pos.
     let actual = devices after ! pos in
     abind (throw_when (\<not> addresses_complete actual)
              (error_new OutcomeUnknown ''write acknowledged but the address inventory is incomplete'')) (\<lambda>_.
     abind (alift (group_key_new op addr)) (\<lambda>key.
     abind (aget ex_eligible) (\<lambda>eligible.
     let actual_group = group_addresses actual key;
         expected = \<lparr>eg_addresses = expected_after diff index op kind eligible actual_group
                                     (group_addresses predicted key),
                     eg_observed_at = observed_at predicted\<rparr> in
     abind (throw_when (\<not> group_matches expected actual_group (observed_at actual)
                        \<or> \<not> outside_survives predicted actual key)
              (error_new StaleState
                ''addresses changed unexpectedly during the write; earlier changes may have applied'')) (\<lambda>_.
     abind (amodify (\<lambda>ex. ex\<lparr>ex_current := Some after\<rparr>)) (\<lambda>_.
     areturn actual))))))) ex1 = (Ok actual, ex')"
    using assms unfolding verify_address_write_def abind_eq_Ok [of ?ask] by blast
  obtain q w where q: "io_inventory io (ex_world ex) = (q, w)" by fastforce
  with 1 have "q = Ok after" "ex1 = ex\<lparr>ex_world := w\<rparr>"
    by (auto simp: outside_result_def omap_err_Ok_iff)
  with q rest that show thesis
    by (auto simp: absorb_def abind_alift_eq_Ok throw_when_def Let_def split: if_splits)
qed

lemma group_matches_all2:
  "group_matches expected actual now \<longleftrightarrow>
     list_all2 (\<lambda>x y. address_matches x y (now - eg_observed_at expected)) (eg_addresses expected) actual"
  by (auto simp: group_matches_def list_all2_iff list_all_iff Let_def)

lemma list_all2_in:
  "list_all2 P xs ys \<Longrightarrow> x \<in> set xs \<Longrightarrow> \<exists>y \<in> set ys. P x y"
  "list_all2 P xs ys \<Longrightarrow> y \<in> set ys \<Longrightarrow> \<exists>x \<in> set xs. P x y"
  by (induction rule: list_all2_induct) auto

lemma address_matches_identity:
  "address_matches x y d \<Longrightarrow> same_identity (address x) (address y)
     \<and> lifetime_matches (fst (lifetimes (address x))) (fst (lifetimes (address y))) d"
  by (auto simp: address_matches_def Let_def split: prod.splits)

lemma promote_first_addresses: "map address (promote_first g xs) = map address xs"
  by (cases xs; cases g) (auto simp: promote_first_def)

lemma expected_after_in:
  assumes "x \<in> set (expected_after diff index op (RemoveIpv4 a) eligible actual_group expected)"
  shows "\<exists>y \<in> set expected. address y = address x"
proof -
  have "address x \<in> set (map address (promote_first actual_group
      (drop_cascaded diff index op eligible actual_group expected)))"
    using assms by (simp add: expected_after_def)
  then have "address x \<in> set (map address (drop_cascaded diff index op eligible actual_group expected))"
    by (simp only: promote_first_addresses)
  then show ?thesis by (auto simp: drop_cascaded_def)
qed

lemma key_contains_same: "group_key_new op addr = Ok key \<Longrightarrow> same_identity a addr \<Longrightarrow> key_contains key a"
  by (auto simp: group_key_new_def outcome_inversions key_contains_def group_def same_identity_def)

lemma same_identity_sym: "same_identity a b \<longleftrightarrow> same_identity b a"
  by (auto simp: same_identity_def)

lemma same_identity_trans: "same_identity a b \<Longrightarrow> same_identity b c \<Longrightarrow> same_identity a c"
  by (simp add: same_identity_def)

text \<open>The address is where the write put it, in the inventory that the next operation works on.\<close>

definition in_place :: "operation_kind \<Rightarrow> device_observation \<Rightarrow> bool" where
  "in_place kind device =
     (case kind of
        RemoveIpv4 addr \<Rightarrow> \<not> list_ex (\<lambda>e. same_identity (address e) addr) (addresses device)
      | AddIpv4 addr \<Rightarrow> list_ex (\<lambda>e. same_identity (address e) addr) (addresses device)
      | ReplaceIpv4 addr \<Rightarrow> list_ex (\<lambda>e. same_identity (address e) addr) (addresses device)
      | _ \<Rightarrow> True)"

lemma projected_entry:
  assumes "kind = AddIpv4 addr \<or> (kind = ReplaceIpv4 addr \<and> list_ex (\<lambda>e. same_identity (address e) addr) (addresses device))"
  shows "\<exists>x \<in> set (addresses (project kind device)). same_identity (address x) addr"
  using assms
proof
  assume r: "kind = ReplaceIpv4 addr \<and> list_ex (\<lambda>e. same_identity (address e) addr) (addresses device)"
  then have "List.find (\<lambda>e. same_identity (address e) addr) (addresses device) \<noteq> None"
    by (auto simp: find_None_iff list_ex_iff)
  then obtain e where e: "List.find (\<lambda>e. same_identity (address e) addr) (addresses device) = Some e" by blast
  let ?f = "\<lambda>existing. existing\<lparr>address := addr,
     addr_flags := (addr_flags existing AND NOT (IFA_F_PERMANENT OR IFA_F_DEPRECATED)) OR lifetime_flags addr\<rparr>"
  have "?f e \<in> set (addresses (project kind device))"
    using r find_in [OF find_replace_first [OF e, of ?f]] by simp
  then show ?thesis by (rule bexI [rotated]) simp
qed (auto simp: Let_def)

lemma verified_in_place:
  assumes "verify_address_write io diff ns index op kind addr (project kind device) ex = (Ok actual, ex')"
    and "kind_address kind = Some addr"
    and "kind = ReplaceIpv4 addr \<Longrightarrow> list_ex (\<lambda>e. same_identity (address e) addr) (addresses device)"
  shows "in_place kind actual"
proof -
  obtain key where key: "group_key_new op addr = Ok key" and
    all2: "list_all2 (\<lambda>x y. address_matches x y (observed_at actual - observed_at (project kind device)))
      (expected_after diff index op kind (ex_eligible ex) (group_addresses actual key) (group_addresses (project kind device) key))
      (group_addresses actual key)"
    using verify_Ok [OF assms(1)] by (metis expected_group.select_convs group_matches_all2)
  show ?thesis
  proof (cases "kind = RemoveIpv4 addr")
    case True
    have "\<not> same_identity (address y) addr" if y: "y \<in> set (addresses actual)" for y
    proof
      assume same: "same_identity (address y) addr"
      then have "y \<in> set (group_addresses actual key)"
        using y key_contains_same [OF key same] by (simp add: group_addresses_def)
      with list_all2_in(2) [OF all2] obtain x where
        "x \<in> set (expected_after diff index op kind (ex_eligible ex) (group_addresses actual key) (group_addresses (project kind device) key))"
        "same_identity (address x) (address y)"
        using address_matches_identity by blast
      with True expected_after_in obtain z where
        "z \<in> set (group_addresses (project kind device) key)" "same_identity (address z) (address y)"
        by metis
      with True same same_identity_trans show False by (auto simp: group_addresses_def)
    qed
    then show ?thesis by (simp add: in_place_def True list_ex_iff)
  next
    case False
    with assms(2) have k: "kind = AddIpv4 addr \<or> kind = ReplaceIpv4 addr" by (cases kind) auto
    then obtain x where x: "x \<in> set (addresses (project kind device))" "same_identity (address x) addr"
      using projected_entry [of kind addr device] assms(3) by blast
    then have "x \<in> set (expected_after diff index op kind (ex_eligible ex) (group_addresses actual key) (group_addresses (project kind device) key))"
      using k key_contains_same [OF key x(2)] by (auto simp: expected_after_def group_addresses_def)
    with list_all2_in(1) [OF all2] obtain y where
      "y \<in> set (group_addresses actual key)" "same_identity (address x) (address y)"
      using address_matches_identity by blast
    with x(2) k show ?thesis
      by (auto simp: in_place_def list_ex_iff group_addresses_def same_identity_def)
  qed
qed

text \<open>C28: when a step confirms an address write, it sent the write, the kernel acknowledged it, and the inventory that the
  execution goes on with is the answer to a request made after that, its last call of the kernel; it shows the target with
  its whole address list and the address present (added, replaced) or absent (removed).\<close>

theorem confirmed_write_in_place:
  assumes "step io diff False ns embedded_registry index op ex = (Ok None, ex')"
    and "decode (io_metadata io) (op_kind op) embedded_registry = Ok (Some kind)" "kind_address kind \<noteq> None"
  shows "\<exists>w acknowledged now before obs device.
     io_execute io (target op) kind w = (Ok (), acknowledged) \<and> io_now io acknowledged = (now, before)
     \<and> io_inventory io before = (Ok obs, ex_world ex')
     \<and> ex_current ex' = Some obs \<and> device \<in> set (devices obs) \<and> identity device = target op
     \<and> addresses_complete device \<and> in_place kind device"
proof -
  obtain addr where addr: "kind_address kind = Some addr" using assms(3) by blast
  obtain ex1 pos and obs :: observation where p: "perform io diff False ns index op pos (devices obs ! pos) kind ex1 = (Ok None, ex')"
    using assms(1) unfolding step_def abind_eq_Ok by (auto simp: assms(2) abind_alift_eq_Ok Let_def)
  let ?d = "devices obs ! pos"
  obtain ex2 where sat: "satisfied kind ?d op = Ok False"
    and w: "abind (apply_write io diff ns index op kind ?d) (record_write op kind ?d) ex2 = (Ok None, ex')"
    using p unfolding perform_def abind_eq_Ok [of "on_groups _"]
    by (auto simp: abind_alift_eq_Ok split: if_splits)
  obtain actual ex3 where a: "apply_write io diff ns index op kind ?d ex2 = (Ok actual, ex3)"
    and b: "record_write op kind ?d actual ex3 = (Ok None, ex')"
    using w by (auto simp: abind_eq_Ok)
  obtain now ex4 ex5 ex6 where sent: "outside_result (io_execute io (target op) kind) ex4 = (Ok (), ex5)"
    and clock: "outside (io_now io) ex5 = (Ok now, ex6)"
    and v: "verify_address_write io diff ns index op kind addr (project kind (rebase_lifetimes now ?d)) ex6 = (Ok actual, ex3)"
    using a unfolding apply_write_def abind_eq_Ok by (auto simp: addr Let_def)
  have calls: "io_execute io (target op) kind (ex_world ex4) = (Ok (), ex_world ex5)"
    "io_now io (ex_world ex5) = (now, ex_world ex6)"
    using sent clock by (auto simp: outside_result_def outside_def split: prod.splits)
  have exists: "list_ex (\<lambda>e. same_identity (address e) addr) (addresses (rebase_lifetimes now ?d))"
    if k: "kind = ReplaceIpv4 addr"
  proof -
    have "list_ex (\<lambda>e. same_identity (address e) addr) (addresses ?d)"
      using sat k by (auto simp: address_satisfied_def list_ex_iff split: option.splits dest!: find_in)
    then show ?thesis
      by (auto simp: rebase_lifetimes_def rebase_entry_def list_ex_iff same_identity_def Let_def split: prod.split)
  qed
  have "in_place kind actual" by (rule verified_in_place [OF v addr exists])
  moreover obtain after i where "io_inventory io (ex_world ex6) = (Ok after, ex_world ex3)" "ex_current ex3 = Some after" "locate after (target op) ns = Ok i"
    "actual = devices after ! i" "addresses_complete actual"
    using verify_Ok [OF v] by metis
  moreover have "ex_current ex' = ex_current ex3" "ex_world ex' = ex_world ex3"
    using b by (auto simp: record_write_def abind_eq_Ok split: option.splits)
  ultimately show ?thesis
    using calls by (intro exI [of _ "ex_world ex4"] exI [of _ "ex_world ex5"] exI [of _ now] exI [of _ "ex_world ex6"] exI [of _ after] exI [of _ actual])
      (auto simp: locate_def outcome_inversions position_Some Let_def split: if_splits)
qed

definition add_op :: operation where
  "add_op = sample_op (AddIpv4 (sample_addr 5)) None"

definition add_start :: "observation execution" where
  "add_start = initial_execution (sample_diff [add_op]) (sample_obs [])"

lemma sample_added:
  "project (AddIpv4 (sample_addr 5)) (sample_device []) = sample_device [sample_entry 5 0x80]"
  by (simp add: sample_device_def sample_entry_def lifetime_flags_def sample_sels is_loopback_def
      IFA_F_PERMANENT_def) (simp add: sample_addr_def u32_max_def is_loopback_def)

lemma sample_rebase: "rebase_lifetimes 0 (sample_device []) = sample_device []"
  by (simp add: rebase_lifetimes_def sample_device_def)

lemma sample_io_sels:
  "io_inventory (sample_io ns c) obs = (Ok obs, obs)" "io_now (sample_io ns c) obs = (0, obs)"
  "io_cancelled (sample_io ns c) obs = (c, obs)"
  "io_execute (sample_io ns c) tgt kind (sample_obs entries)
     = (Ok (), \<lparr>devices = [if sample_if = tgt then project kind (sample_device entries) else sample_device entries],
                diagnostics = []\<rparr>)"
  by (simp_all add: sample_io_def sample_obs_def) (simp add: sample_device_def)

lemma sample_op_sels:
  "target (sample_op k pre) = sample_if" "op_kind (sample_op k pre) = k"
  "address_group (sample_op k None) = None" "depends_on (sample_op k pre) = []"
  by (simp_all add: sample_op_def)

lemma sample_device_sels:
  "addresses (sample_device es) = es" "addresses_complete (sample_device es)" "observed_at (sample_device es) = 0"
  "identity (sample_device es) = sample_if" "devices (sample_obs es) = [sample_device es]"
  "diagnostics (sample_obs es) = []" "locate (sample_obs es) sample_if sample_ns = Ok 0"
  by (simp_all add: sample_device_def sample_obs_def locate_def sample_if_def ETHERNET_def)

lemma sample_key: "group_key_new (sample_op k pre) (sample_addr 5)
    = Ok \<lparr>gk_target = sample_if, gk_network = 0xC0A80000, gk_prefix_len = 24\<rparr>"
  by (simp add: group_key_new_def sample_groups sample_op_sels)

lemma sample_group:
  "group_addresses (sample_device [sample_entry 5 f])
      \<lparr>gk_target = sample_if, gk_network = 0xC0A80000, gk_prefix_len = 24\<rparr> = [sample_entry 5 f]"
  "outside_survives (sample_device [sample_entry 5 f]) d
      \<lparr>gk_target = sample_if, gk_network = 0xC0A80000, gk_prefix_len = 24\<rparr>"
  by (simp_all add: group_addresses_def outside_survives_def key_contains_def sample_device_sels sample_sels sample_groups)

lemma sample_verify:
  assumes "ex_world ex = sample_obs [sample_entry 5 f]"
  shows "verify_address_write (sample_io sample_ns c) diff sample_ns index (sample_op k None) (AddIpv4 (sample_addr 5))
       (sample_addr 5) (sample_device [sample_entry 5 f]) ex
     = (Ok (sample_device [sample_entry 5 f]), ex\<lparr>ex_current := Some (sample_obs [sample_entry 5 f])\<rparr>)"
proof -
  let ?ask = "\<lambda>ex. let (r, ex') = outside_result (io_inventory (sample_io sample_ns c)) ex in
     (omap_err (unconfirmed ''write acknowledged but not re-observed'') r, ex')"
  have ask: "?ask ex = (Ok (sample_obs [sample_entry 5 f]), ex)"
    using assms by (simp add: outside_result_def sample_io_sels)
  show ?thesis
    unfolding verify_address_write_def abind_known [where m = ?ask, OF ask]
    by (simp add: absorb_def sample_device_sels sample_op_sels sample_key sample_group throw_when_def expected_after_def
        group_matches_def sample_match areturn_def Let_def)
qed

lemma sample_apply_write:
  assumes "ex_world ex = sample_obs []"
  shows "fst (apply_write (sample_io sample_ns False) diff sample_ns index (sample_op k None) (AddIpv4 (sample_addr 5))
       (sample_device []) ex) = Ok (sample_device [sample_entry 5 0x80])"
proof -
  have after: "\<lparr>devices = [sample_device es], diagnostics = []\<rparr> = sample_obs es" for es
    by (simp add: sample_obs_def)
  have 1: "outside (io_cancelled (sample_io sample_ns False)) ex = (Ok False, ex)"
    by (simp add: outside_def sample_io_sels)
  have 2: "outside_result (io_execute (sample_io sample_ns False) sample_if (AddIpv4 (sample_addr 5))) (ex\<lparr>ex_current := None\<rparr>)
      = (Ok (), ex\<lparr>ex_current := None, ex_world := sample_obs [sample_entry 5 0x80]\<rparr>)"
    using assms by (simp add: outside_result_def sample_io_sels sample_added after del: project.simps)
  have 3: "outside (io_now (sample_io sample_ns False)) ex' = (Ok 0, ex')" for ex'
    by (simp add: outside_def sample_io_sels)
  show ?thesis
    unfolding apply_write_def abind_known [where m = "outside (io_cancelled (sample_io sample_ns False))", OF 1]
      sample_op_sels
    by (simp add: throw_when_def 
        abind_known [where m = "outside_result (io_execute (sample_io sample_ns False) sample_if (AddIpv4 (sample_addr 5)))", OF 2]
        abind_known [where m = "outside (io_now (sample_io sample_ns False))", OF 3]
        sample_rebase sample_added sample_verify del: project.simps)
qed

lemma add_step_ok:
  "fst (step (sample_io sample_ns False) (sample_diff [add_op]) False sample_ns embedded_registry 0 add_op add_start) = Ok None"
proof -
  have dec: "decode md (AddIpv4 (sample_addr 5)) embedded_registry = Ok (Some (AddIpv4 (sample_addr 5)))" for md
    by (simp add: decode_Some_iff decode_kind_def decoded_ok_def validate_address_def sample_sels u32_max_def)
      (simp add: sample_addr_def)
  have validate: "validate_group (sample_op k None) (sample_device []) (AddIpv4 (sample_addr 5)) Map.empty = (Ok (), Map.empty)" for k
    by (simp add: validate_group_def sample_key sample_op_sels sample_device_sels)
  have record_ok: "fst (record_write (sample_op k None) (AddIpv4 (sample_addr 5)) d p ex) = Ok None"
    for k d p and ex :: "observation execution"
    by (simp add: record_write_def collateral_def sample_key areturn_def)
  have write_ok: "fst (abind (apply_write (sample_io sample_ns False) diff sample_ns 0 (sample_op k None)
       (AddIpv4 (sample_addr 5)) (sample_device [])) (record_write (sample_op k' None) (AddIpv4 (sample_addr 5)) d) ex) = Ok None"
    if "ex_world ex = sample_obs []" for diff k k' d and ex :: "observation execution"
    using sample_apply_write [OF that, of diff 0 k] record_ok by (auto simp: abind_def split: prod.splits)
  have observe: "observe (sample_io sample_ns False) add_start = (Ok (sample_obs []), add_start\<lparr>ex_current := Some (sample_obs [])\<rparr>)"
    by (simp add: observe_def add_start_def initial_execution_def abind_def absorb_def outside_result_def sample_io_sels
        aget_def amodify_def areturn_def sample_device_sels)
  have cancel: "outside (io_cancelled (sample_io sample_ns False)) add_start = (Ok False, add_start)"
    by (simp add: outside_def sample_io_sels)
  have groups: "on_groups (validate_group (sample_op k None) (sample_device []) (AddIpv4 (sample_addr 5)))
      (add_start\<lparr>ex_current := c\<rparr>) = (Ok (), add_start\<lparr>ex_current := c\<rparr>)" for k c
    by (simp add: on_groups_def add_start_def initial_execution_def validate)
  have world: "ex_world (add_start\<lparr>ex_current := c\<rparr>) = sample_obs []" for c
    by (simp add: add_start_def initial_execution_def)
  show ?thesis
    unfolding step_def ask_cancelled_def if_False
      abind_known [where m = "outside (io_cancelled (sample_io sample_ns False))", OF cancel]
    by (simp add: throw_when_def add_op_def sample_op_sels sample_device_sels dec perform_def Let_def
        abind_known [where m = "observe (sample_io sample_ns False)", OF observe]
        abind_known [where m = "on_groups (validate_group (sample_op _ None) (sample_device []) (AddIpv4 (sample_addr 5)))", OF groups]
        address_satisfied_def check_cascade_def write_ok world)
qed

theorem confirmed_write_in_place_witness:
  "\<exists>obs device. ex_current (snd (step (sample_io sample_ns False) (sample_diff [add_op]) False sample_ns
       embedded_registry 0 add_op add_start)) = Some obs
     \<and> device \<in> set (devices obs) \<and> in_place (AddIpv4 (sample_addr 5)) device"
proof -
  have dec: "decode (io_metadata (sample_io sample_ns False)) (op_kind add_op) embedded_registry
      = Ok (Some (AddIpv4 (sample_addr 5)))"
    by (simp add: add_op_def sample_op_sels decode_Some_iff decode_kind_def decoded_ok_def validate_address_def
        sample_sels u32_max_def) (simp add: sample_addr_def)
  obtain ex' where e: "step (sample_io sample_ns False) (sample_diff [add_op]) False sample_ns embedded_registry 0
      add_op add_start = (Ok None, ex')"
    using add_step_ok by (metis prod.collapse)
  from confirmed_write_in_place [OF e dec] show ?thesis by (auto simp: e)
qed

section \<open>The checks\<close>

text \<open>An operation decodes to a write exactly when it is that write and valid, or assigns a u32 MTU in range
  or the enabled flag: MTUs lie between 68 and 65535, added addresses have a prefix of at most 32 bits and ordered
  nonzero lifetimes, and whole-interface operations never decode.\<close>

theorem decode_exact:
  "decode md kind embedded_registry = Ok (Some kind') \<longleftrightarrow>
     decoded_ok kind'
     \<and> (kind' = kind
        \<or> (\<exists>n. kind = SetField ''mtu'' (VU64 n) \<and> uint n < 2 ^ 32 \<and> kind' = SetMtu (ucast n))
        \<or> (\<exists>b. kind = SetField ''enabled'' (VBool b) \<and> kind' = SetEnabled b))"
proof (cases kind)
  case (SetField f v)
  then show ?thesis
    unfolding decode_Some_iff by (auto simp: decode_kind_def decode_field_embedded decoded_ok_def)
qed (unfold decode_Some_iff, auto simp: decode_kind_def decoded_ok_def)

text \<open>An operation finds its target only as the very interface of the plan: the first device with its index,
  equal in name, type, MAC and incarnation, in the backend's namespace and of the Ethernet type.\<close>

theorem locate_exact:
  "locate obs ident ns = Ok i \<longleftrightarrow>
     if_namespace ident = ns \<and> if_device_type ident = ETHERNET
     \<and> i < length (devices obs) \<and> identity (devices obs ! i) = ident
     \<and> (\<forall>j < i. if_index (identity (devices obs ! j)) \<noteq> if_index ident)"
  by (auto simp: locate_def outcome_inversions position_Some Let_def split: if_splits)

theorem locate_exact_witness:
  "locate (sample_obs []) sample_if sample_ns = Ok 0 \<and> identity (devices (sample_obs []) ! 0) = sample_if"
  using locate_exact [of "sample_obs []" sample_if sample_ns 0] by (simp add: sample_defs ETHERNET_def)

text \<open>A snapshot of a prefix group still matches the group when all that happened is that its lifetimes ran
  down, however much time has passed.\<close>

theorem aged_group_still_matches:
  "group_matches \<lparr>eg_addresses = entries, eg_observed_at = t\<rparr>
     (map (rebase_entry (whole_seconds (now - t))) entries) now"
  by (simp add: group_matches_def zip_map_all) (simp add: list_all_iff rebase_entry_matches)

text \<open>The projected write is the requested one: after it, the operation that was not satisfied is.\<close>

theorem projected_write_satisfies:
  assumes "primitive_kind kind" "satisfied kind device op = Ok False"
    and "\<And>a. kind_address kind = Some a \<Longrightarrow> reference_age a device op = None"
  shows "satisfied kind (project kind device) op = Ok True"
proof (cases kind)
  case (AddIpv4 a)
  with assms(3) have "reference_age a (project kind device) op = None"
    by (auto simp: reference_age_def bind_eq_None_conv Let_def split: if_splits)
  moreover from assms(2) AddIpv4 have "List.find (\<lambda>entry. same_identity (address entry) a) (addresses device) = None"
    by (auto simp: address_satisfied_def Let_def split: option.splits if_splits prod.splits)
  ultimately show ?thesis
    using AddIpv4 by (simp add: address_satisfied_def find_append Let_def split: prod.split)
next
  case (ReplaceIpv4 a)
  let ?p = "\<lambda>entry. same_identity (address entry) a"
  from ReplaceIpv4 assms(3) have ref: "reference_age a (project kind device) op = None"
    by (auto simp: reference_age_def bind_eq_None_conv Let_def split: if_splits)
  from assms(2) ReplaceIpv4 obtain e where "List.find ?p (addresses device) = Some e"
    by (auto simp: address_satisfied_def split: option.splits)
  then have "\<exists>e'. List.find ?p (addresses (project kind device)) = Some e' \<and> address e' = a"
    using ReplaceIpv4 by (auto intro!: exI find_replace_first)
  then obtain e' where "List.find ?p (addresses (project kind device)) = Some e'" "address e' = a" by blast
  then show ?thesis
    using ReplaceIpv4 ref by (simp add: address_satisfied_def Let_def split: prod.split)
qed (use assms in \<open>auto simp: primitive_kind_def list_ex_iff update_conv'\<close>)

theorem projected_write_satisfies_witness:
  "satisfied (RemoveIpv4 (sample_addr 5)) (project (RemoveIpv4 (sample_addr 5)) (sample_device [sample_entry 5 0]))
     (sample_op (RemoveIpv4 (sample_addr 5)) None) = Ok True"
  by (rule projected_write_satisfies)
    (simp_all add: primitive_kind_def sample_device_sels sample_sels reference_age_def sample_op_sels)

text \<open>A primary address is removed only when every secondary that the kernel could take along lies in its
  prefix group and is removed by a later operation of the plan that can still go ahead.\<close>

theorem cascade_is_covered:
  assumes "check_cascade diff index device (RemoveIpv4 addr) eligible = Ok ()"
    and "index < length (operations diff)" "length eligible = length (operations diff)"
    and "List.find (\<lambda>entry. same_identity (address entry) addr \<and> addr_flags entry AND IFA_F_SECONDARY = 0)
          (addresses device) = Some primary"
    and "secondary \<in> set (addresses device)" "addr_flags secondary AND IFA_F_SECONDARY \<noteq> 0"
    and "kernel_group secondary = kernel_group primary" "scope secondary = scope primary"
  shows "group (address secondary) = group addr
    \<and> (\<exists>j other. index < j \<and> j < length (operations diff) \<and> can_run diff index eligible j
       \<and> target (operations diff ! j) = identity device \<and> op_kind (operations diff ! j) = RemoveIpv4 other
       \<and> same_identity (address secondary) other)"
proof -
  have "group (address secondary) = group addr
      \<and> removal_is_covered diff index (identity device) (address secondary) eligible"
    using assms(1,4-) by (auto simp: check_cascade_def list_ex_iff split: if_splits)
  then show ?thesis unfolding removal_covered [OF assms(2,3)] by blast
qed

theorem cascade_is_covered_witness:
  "group (address (sample_entry 6 0x81)) = group (sample_addr 5)"
proof -
  let ?ops = "[sample_op (RemoveIpv4 (sample_addr 5)) None, sample_op (RemoveIpv4 (sample_addr 6)) None]"
  have g: "group (sample_addr 6) = Some (0xC0A80000, 24)" "kernel_group (sample_entry 6 f) = Some (0xC0A80000, 24)" for f
    by (simp_all add: group_def kernel_group_def sample_addr_def sample_entry_def masked_def checked_shl_def u32_max_def)
  have ids: "\<not> same_identity (sample_addr 6) (sample_addr 5)" by (simp add: same_identity_def sample_addr_def)
  have c: "check_cascade (sample_diff ?ops) 0 (sample_device [sample_entry 5 0x80, sample_entry 6 0x81])
      (RemoveIpv4 (sample_addr 5)) [False, False] = Ok ()"
    by (simp add: check_cascade_def sample_device_sels sample_sels IFA_F_SECONDARY_def sample_groups g
        removal_is_covered_def sample_diff_def sample_op_sels)
  show ?thesis
    using cascade_is_covered [OF c, of "sample_entry 5 0x80" "sample_entry 6 0x81"]
    by (simp add: sample_diff_def sample_device_sels sample_sels IFA_F_SECONDARY_def sample_groups g)
qed

end
