(* ===== verification/BackendReg.thy ===== *)
theory BackendReg
  imports Report
begin

text \<open>
  \<open>crates/netfyr-backend/src/registry.rs\<close> and the trait \<open>NetworkBackend\<close> of \<open>lib.rs\<close>: backends registered
  by namespace and device type, the combined query, and the backend of a plan.

  A backend is what the registry uses of it; \<open>bk_id\<close> is the identity of the \<open>Arc\<close>.  A query is an action on
  the world the backends observe: \<open>join_all\<close> polls the queries together, but what each returns is arbitrary, so
  running them in order on an arbitrary world covers every combination of answers.
\<close>

section \<open>Backends\<close>

record 'w backend =
  bk_id :: nat
  bk_namespace :: namespace_id
  bk_entities :: "string list"
  bk_supports :: "operation_kind \<Rightarrow> bool"
  bk_query :: "match_spec \<Rightarrow> (observation, backend_error, 'w) action"

text \<open>The default of the trait method \<open>supports_operation\<close>.\<close>

fun supports_operation :: "operation_kind \<Rightarrow> bool" where
  "supports_operation AddEntity = False"
| "supports_operation RemoveEntity = False"
| "supports_operation _ = True"

text \<open>\<open>BackendRegistry::register\<close> on the vector \<open>backends\<close>.\<close>

definition conflicts :: "'w backend \<Rightarrow> 'w backend \<Rightarrow> bool" where
  "conflicts registered b =
     (bk_namespace registered = bk_namespace b
      \<and> list_ex (\<lambda>entity. entity \<in> set (bk_entities b)) (bk_entities registered))"

definition register :: "'w backend \<Rightarrow> (unit, backend_error, 'w backend list) action" where
  "register b =
     abind (aget (list_ex (\<lambda>registered. conflicts registered b))) (\<lambda>conflict.
     if conflict then
       alift (Err (error_new Conflict ''an entity type already has a backend in this namespace''))
     else amodify (\<lambda>backends. backends @ [b]))"

section \<open>The combined query\<close>

text \<open>The answers of all backends, in registration order.\<close>

fun ask_all :: "'w backend list \<Rightarrow> match_spec \<Rightarrow> 'w \<Rightarrow> (observation, backend_error) outcome list \<times> 'w" where
  "ask_all [] selector w = ([], w)"
| "ask_all (b # bs) selector w =
     (let (answer, w1) = bk_query b selector w;
          (answers, w2) = ask_all bs selector w1 in
      (answer # answers, w2))"

type_synonym device_key = "namespace_id \<times> u32"

definition device_key :: "device_observation \<Rightarrow> device_key" where
  "device_key d = (if_namespace (identity d), if_index (identity d))"

definition owns :: "'w backend \<Rightarrow> device_observation \<Rightarrow> bool" where
  "owns b d = (if_device_type (identity d) \<in> set (bk_entities b))"

text \<open>The result under construction and the map \<open>seen\<close>.\<close>

type_synonym merge_state = "device_observation list \<times> (device_key \<rightharpoonup> nat \<times> bool)"

text \<open>One device; a position out of range is the panic of the index expression.\<close>

definition merge_device ::
  "'w backend \<Rightarrow> merge_state \<Rightarrow> device_observation \<Rightarrow> (merge_state, backend_error) outcome" where
  "merge_device b = (\<lambda>(ds, seen) d.
     if if_namespace (identity d) \<noteq> bk_namespace b then
       Err (error_new Internal ''backend returned an interface from another namespace'')
     else
       (case seen (device_key d) of
          Some (index, owned) \<Rightarrow>
            if \<not> owned \<and> owns b d then
              (if index < length ds then Ok (ds[index := d], seen(device_key d \<mapsto> (index, True))) else Panic)
            else Ok (ds, seen)
        | None \<Rightarrow> Ok (ds @ [d], seen(device_key d \<mapsto> (length ds, owns b d)))))"

fun merge_devices ::
  "'w backend \<Rightarrow> merge_state \<Rightarrow> device_observation list \<Rightarrow> (merge_state, backend_error) outcome" where
  "merge_devices b st [] = Ok st"
| "merge_devices b st (d # ds) = obind (merge_device b st d) (\<lambda>st'. merge_devices b st' ds)"

fun merge_answers ::
  "('w backend \<times> (observation, backend_error) outcome) list \<Rightarrow> diagnostic list \<times> merge_state \<Rightarrow>
   (diagnostic list \<times> merge_state, backend_error) outcome" where
  "merge_answers [] acc = Ok acc"
| "merge_answers ((b, answer) # rest) (diags, st) =
     (case answer of
        Ok obs \<Rightarrow>
          obind (merge_devices b st (devices obs)) (\<lambda>st'.
            merge_answers rest (diags @ diagnostics obs, st'))
      | Err e \<Rightarrow> if be_kind e = NotFound then merge_answers rest (diags, st) else Err e
      | Panic \<Rightarrow> Panic)"

text \<open>The result of \<open>query_in_namespace\<close> from the collected answers; a backend that panics stops the query before.\<close>

definition merge_all ::
  "match_spec \<Rightarrow> ('w backend \<times> (observation, backend_error) outcome) list \<Rightarrow> (observation, backend_error) outcome" where
  "merge_all selector answers =
     obind (merge_answers answers ([], [], Map.empty)) (\<lambda>(diags, ds, seen).
     if match_name selector \<noteq> None \<and> ds = [] then
       Err (error_new NotFound ''named interface was not found in the registered namespaces'')
     else Ok \<lparr>devices = ds, diagnostics = diags\<rparr>)"

definition query_in_namespace ::
  "'w backend list \<Rightarrow> match_spec \<Rightarrow> namespace_id option \<Rightarrow> (observation, backend_error, 'w) action" where
  "query_in_namespace backends selector namespace w =
     (let asked = filter (\<lambda>b. case namespace of None \<Rightarrow> True | Some ns \<Rightarrow> ns = bk_namespace b) backends;
          (answers, w') = ask_all asked selector w in
      (if Panic \<in> set answers then Panic else merge_all selector (zip asked answers), w'))"

definition query :: "'w backend list \<Rightarrow> match_spec \<Rightarrow> (observation, backend_error, 'w) action" where
  "query backends selector = query_in_namespace backends selector None"

definition query_all :: "'w backend list \<Rightarrow> (observation, backend_error, 'w) action" where
  "query_all backends = query backends default_match"

section \<open>The backend of an operation and of a plan\<close>

definition select ::
  "'w backend list \<Rightarrow> operation_context \<Rightarrow> observation \<Rightarrow> ('w backend, backend_error) outcome" where
  "select backends context obs =
     (let target = ctx_target context;
          fail = (\<lambda>kind message. error_at (error_new kind message) context) in
      obind (ok_or (List.find (\<lambda>d. if_namespace (identity d) = if_namespace target \<and> if_name (identity d) = if_name target)
                     (devices obs))
               (fail NotFound ''target interface was not found'')) (\<lambda>device.
      obind (ok_or (List.find (\<lambda>b. bk_namespace b = if_namespace (identity device) \<and> owns b device) backends)
               (fail UnsupportedEntityType (''no backend supports '' @ if_device_type (identity device)))) (\<lambda>b.
      if identity device \<noteq> target then
        Err (fail StaleState ''target identity differs from the discovered interface'')
      else if \<not> bk_supports b (ctx_kind context) then
        Err (fail UnsupportedOperation (''backend does not support '' @ kind_name (ctx_kind context)))
      else Ok b)))"

text \<open>A call whose error is given the context of the operation.\<close>

definition at_context :: "operation_context \<Rightarrow> ('a, backend_error, 'w) action \<Rightarrow> ('a, backend_error, 'w) action" where
  "at_context context m w = (let (r, w') = m w in (omap_err (\<lambda>e. error_at e context) r, w'))"

definition resolve :: "'w backend list \<Rightarrow> nat \<Rightarrow> operation \<Rightarrow> ('w backend, backend_error, 'w) action" where
  "resolve backends index operation =
     (let context = context_new index operation;
          selector = default_match\<lparr>match_name := Some (if_name (target operation))\<rparr> in
      abind (at_context context (query_in_namespace backends selector (Some (if_namespace (target operation))))) (\<lambda>obs.
      alift (select backends context obs)))"

text \<open>The loop of \<open>resolve_plan\<close> over the cached observations and the backend found so far.\<close>

definition observed_namespace ::
  "'w backend list \<Rightarrow> operation_context \<Rightarrow> namespace_id \<Rightarrow> (namespace_id \<rightharpoonup> observation) \<Rightarrow>
   ((namespace_id \<rightharpoonup> observation) \<times> observation, backend_error, 'w) action" where
  "observed_namespace backends context ns observations =
     (case observations ns of
        Some obs \<Rightarrow> areturn (observations, obs)
      | None \<Rightarrow>
          abind (at_context context (query_in_namespace backends default_match (Some ns))) (\<lambda>obs.
          areturn (observations(ns \<mapsto> obs), obs)))"

fun resolve_operations ::
  "'w backend list \<Rightarrow> (nat \<times> operation) list \<Rightarrow> (namespace_id \<rightharpoonup> observation) \<Rightarrow> 'w backend option \<Rightarrow>
   ('w backend option, backend_error, 'w) action" where
  "resolve_operations backends [] observations resolved = areturn resolved"
| "resolve_operations backends ((index, operation) # rest) observations resolved =
     (let context = context_new index operation in
      abind (observed_namespace backends context (if_namespace (target operation)) observations) (\<lambda>(observations', obs).
      abind (alift (select backends context obs)) (\<lambda>b.
      (case resolved of
         Some first \<Rightarrow>
           if bk_id first \<noteq> bk_id b then
             alift (Err (error_at (error_new UnsupportedOperation
               ''plan operations resolve to different backends; split it by backend'') context))
           else resolve_operations backends rest observations' (Some first)
       | None \<Rightarrow> resolve_operations backends rest observations' (Some b)))))"

definition resolve_plan :: "'w backend list \<Rightarrow> state_diff \<Rightarrow> ('w backend, backend_error, 'w) action" where
  "resolve_plan backends diff =
     abind (resolve_operations backends (enumerate 0 (operations diff)) Map.empty None) (\<lambda>resolved.
     alift (ok_or resolved (error_new NotFound ''plan has no operations'')))"

end
