(* ===== verification/BackendProps.thy ===== *)
theory BackendProps
  imports BackendReg
begin

text \<open>
  Facts about the backend registry: at most one owner per namespace and device type, the combined query as
  a choice among the offered views of each device, and soundness of the resolution of a plan.
\<close>

section \<open>Registration\<close>

definition unique_owners :: "'w backend list \<Rightarrow> bool" where
  "unique_owners backends \<longleftrightarrow> sorted_wrt (\<lambda>a b. \<not> conflicts a b) backends"

lemma conflicts_sym: "conflicts a b = conflicts b a"
  by (auto simp: conflicts_def list_ex_iff)

lemma owner_unique:
  assumes "unique_owners backends" "a \<in> set backends" "b \<in> set backends"
    and "bk_namespace a = bk_namespace b" "t \<in> set (bk_entities a)" "t \<in> set (bk_entities b)"
  shows "a = b"
proof -
  have c: "conflicts a b" using assms(4-6) by (auto simp: conflicts_def list_ex_iff)
  obtain i j where "i < length backends" "backends ! i = a" "j < length backends" "backends ! j = b"
    using assms(2,3) by (auto simp: in_set_conv_nth)
  with c assms(1) conflicts_sym [of a b] show ?thesis
    by (cases i j rule: linorder_cases) (auto simp: unique_owners_def sorted_wrt_iff_nth_less)
qed

section \<open>The choice among the answers\<close>

text \<open>What the answers offer, in order; the view of a device the query keeps; the order of first appearance.\<close>

type_synonym 'w offers = "('w backend \<times> device_observation) list"

definition best :: "'w offers \<Rightarrow> device_key \<Rightarrow> device_observation option" where
  "best offers k =
     map_option snd
       (case List.find (\<lambda>offer. device_key (snd offer) = k \<and> owns (fst offer) (snd offer)) offers of
          Some offer \<Rightarrow> Some offer
        | None \<Rightarrow> List.find (\<lambda>offer. device_key (snd offer) = k) offers)"

definition firsts :: "'a list \<Rightarrow> 'a list" where
  "firsts xs = rev (remdups (rev xs))"

definition offered :: "('w backend \<times> (observation, backend_error) outcome) list \<Rightarrow> 'w offers" where
  "offered answers =
     concat (map (\<lambda>(b, answer). case answer of Ok obs \<Rightarrow> map (Pair b) (devices obs) | _ \<Rightarrow> []) answers)"

lemma firsts_simps: "firsts [] = []" "firsts (xs @ [x]) = (if x \<in> set xs then firsts xs else firsts xs @ [x])"
  by (simp_all add: firsts_def)

lemma firsts_facts [simp]: "distinct (firsts xs)" "set (firsts xs) = set xs"
  by (simp_all add: firsts_def)

definition offer_keys :: "'w offers \<Rightarrow> device_key list" where
  "offer_keys offers = map (\<lambda>offer. device_key (snd offer)) offers"

definition is_owned :: "'w offers \<Rightarrow> device_key \<Rightarrow> bool" where
  "is_owned offers k \<longleftrightarrow> (\<exists>offer \<in> set offers. device_key (snd offer) = k \<and> owns (fst offer) (snd offer))"

lemma find_snoc:
  "List.find P (xs @ [x]) = (case List.find P xs of Some y \<Rightarrow> Some y | None \<Rightarrow> if P x then Some x else None)"
  by (induction xs) auto

lemma is_owned_find:
  "is_owned offers k \<longleftrightarrow> List.find (\<lambda>offer. device_key (snd offer) = k \<and> owns (fst offer) (snd offer)) offers \<noteq> None"
  unfolding is_owned_def find_None_iff by blast

lemma best_snoc:
  "best (offers @ [(b, d)]) k =
     (if device_key d \<noteq> k \<or> is_owned offers k then best offers k
      else if owns b d then Some d
      else case best offers k of Some d' \<Rightarrow> Some d' | None \<Rightarrow> Some d)"
  unfolding is_owned_find by (auto simp: best_def find_snoc split: option.split)

text \<open>The invariant of the merge: the devices so far are the best views, in order of first appearance.\<close>

definition seen_ok :: "'w offers \<Rightarrow> device_observation list \<Rightarrow> device_key \<Rightarrow> (nat \<times> bool) option \<Rightarrow> bool" where
  "seen_ok offers ds k entry \<longleftrightarrow>
     (case entry of
        None \<Rightarrow> k \<notin> set (offer_keys offers)
      | Some (i, owned) \<Rightarrow> i < length ds \<and> device_key (ds ! i) = k \<and> owned = is_owned offers k)"

definition merged :: "'w offers \<Rightarrow> merge_state \<Rightarrow> bool" where
  "merged offers = (\<lambda>(ds, seen).
     map device_key ds = firsts (offer_keys offers)
     \<and> (\<forall>d \<in> set ds. best offers (device_key d) = Some d)
     \<and> (\<forall>k. seen_ok offers ds k (seen k)))"

lemma merged_facts:
  assumes "merged offers (ds, seen)"
  shows "map device_key ds = firsts (offer_keys offers)" "distinct (map device_key ds)"
    "device_key d \<in> set (offer_keys offers) \<longleftrightarrow> (\<exists>x \<in> set ds. device_key x = device_key d)"
    "d \<in> set ds \<Longrightarrow> best offers (device_key d) = Some d" "seen_ok offers ds k (seen k)"
proof -
  show k: "map device_key ds = firsts (offer_keys offers)" using assms by (simp add: merged_def)
  then show "distinct (map device_key ds)" by simp
  from k have "set (offer_keys offers) = device_key ` set ds" by (metis firsts_facts(2) list.set_map)
  then show "device_key d \<in> set (offer_keys offers) \<longleftrightarrow> (\<exists>x \<in> set ds. device_key x = device_key d)"
    by (simp only: image_iff) metis
  show "seen_ok offers ds k (seen k)" using assms unfolding merged_def prod.case by blast
qed (use assms in \<open>simp add: merged_def\<close>)

lemma is_owned_snoc: "is_owned (offers @ [(b, d)]) k \<longleftrightarrow> is_owned offers k \<or> (device_key d = k \<and> owns b d)"
  by (auto simp: is_owned_def)

lemma keys_snoc: "offer_keys (offers @ [(b, d)]) = offer_keys offers @ [device_key d]"
  by (simp add: offer_keys_def)

lemma best_fresh: "k \<notin> set (offer_keys offers) \<Longrightarrow> best offers k = None \<and> \<not> is_owned offers k"
proof -
  assume "k \<notin> set (offer_keys offers)"
  then have k: "\<forall>offer \<in> set offers. device_key (snd offer) \<noteq> k" by (auto simp: offer_keys_def)
  then have "List.find (\<lambda>offer. device_key (snd offer) = k) offers = None"
    "List.find (\<lambda>offer. device_key (snd offer) = k \<and> owns (fst offer) (snd offer)) offers = None"
    unfolding find_None_iff by blast+
  with k show ?thesis by (simp add: best_def is_owned_def)
qed

lemmas merge_snoc = best_snoc is_owned_snoc keys_snoc firsts_simps

lemma merge_device_step:
  fixes b :: "'w backend" and offers :: "'w offers"
  assumes inv: "merged offers (ds, seen)" and ns: "if_namespace (identity d) = bk_namespace b"
  shows "\<exists>st'. merge_device b (ds, seen) d = Ok st' \<and> merged (offers @ [(b, d)]) st'"
proof -
  let ?k = "device_key d"
  note facts = merged_facts [OF inv]
  show ?thesis
  proof (cases "seen ?k")
    case None
    then have fresh: "?k \<notin> set (offer_keys offers)" using facts(5) [of ?k] by (simp add: seen_ok_def)
    have "best (offers @ [(b, d)]) (device_key x) = Some x" if "x \<in> set (ds @ [d])" for x
    proof (cases "x = d")
      case False
      with that have x: "x \<in> set ds" by simp
      with fresh facts(3) [of d] have "device_key x \<noteq> ?k" by blast
      with facts(4) [OF x] show ?thesis by (simp add: merge_snoc)
    qed (use best_fresh [OF fresh] in \<open>simp add: merge_snoc\<close>)
    moreover have "seen_ok (offers @ [(b, d)]) (ds @ [d]) k ((seen(?k \<mapsto> (length ds, owns b d))) k)" for k
      using facts(5) [of k] best_fresh [OF fresh]
      by (auto simp: seen_ok_def merge_snoc nth_append split: option.splits)
    ultimately have "merged (offers @ [(b, d)]) (ds @ [d], seen(?k \<mapsto> (length ds, owns b d)))"
      using facts(1) fresh by (simp only: merged_def prod.case merge_snoc) simp
    with None ns show ?thesis by (simp add: merge_device_def)
  next
    case (Some io)
    obtain i owned where io: "io = (i, owned)" by (cases io)
    have i: "i < length ds" "device_key (ds ! i) = ?k" "owned = is_owned offers ?k"
      using facts(5) [of ?k] Some io by (simp_all add: seen_ok_def)
    then have known: "?k \<in> set (offer_keys offers)" unfolding facts(3) by (metis nth_mem)
    show ?thesis
    proof (cases "\<not> owned \<and> owns b d")
      case True
      have keys: "map device_key (ds[i := d]) = map device_key ds"
        using i by (metis list_update_id map_update)
      have "best (offers @ [(b, d)]) (device_key x) = Some x" if "x \<in> set (ds[i := d])" for x
      proof -
        from that obtain j where j: "j < length ds" "x = ds[i := d] ! j" by (auto simp: in_set_conv_nth)
        show ?thesis
        proof (cases "j = i")
          case False
          then have x: "x = ds ! j" using j by simp
          have "device_key x \<noteq> ?k"
            using facts(2) False i j(1) x by (metis distinct_conv_nth length_map nth_map)
          with facts(4) [of x] x j(1) show ?thesis by (simp add: merge_snoc)
        qed (use j i(1,3) True in \<open>simp add: merge_snoc\<close>)
      qed
      moreover have "seen_ok (offers @ [(b, d)]) (ds[i := d]) k ((seen(?k \<mapsto> (i, True))) k)" for k
        using facts(5) [of k] i True
        by (auto simp: seen_ok_def merge_snoc nth_list_update split: option.splits)
      ultimately have "merged (offers @ [(b, d)]) (ds[i := d], seen(?k \<mapsto> (i, True)))"
        using facts(1) keys known by (simp only: merged_def prod.case merge_snoc) simp
      with Some io ns i(1) True show ?thesis by (simp add: merge_device_def)
    next
      case False
      have "best (offers @ [(b, d)]) (device_key x) = Some x" if "x \<in> set ds" for x
        using facts(4) [OF that] False i(3) unfolding best_snoc by (cases "device_key d = device_key x") auto
      moreover have "seen_ok (offers @ [(b, d)]) ds k (seen k)" for k
      proof (cases "k = ?k")
        case True
        have "is_owned (offers @ [(b, d)]) ?k = owned" using i(3) False by (auto simp: merge_snoc)
        with Some io i(1,2) True show ?thesis by (simp add: seen_ok_def)
      next
        case other: False
        then show ?thesis using facts(5) [of k] by (cases "seen k") (auto simp: seen_ok_def merge_snoc)
      qed
      ultimately have "merged (offers @ [(b, d)]) (ds, seen)"
        using facts(1) known by (simp only: merged_def prod.case merge_snoc) simp
      with Some io ns False show ?thesis by (auto simp: merge_device_def)
    qed
  qed
qed

lemma merge_devices_steps:
  fixes b :: "'w backend" and offers :: "'w offers"
  shows "\<lbrakk>merged offers st; merge_devices b st ds = Ok st'\<rbrakk> \<Longrightarrow>
     merged (offers @ map (Pair b) ds) st' \<and> (\<forall>d \<in> set ds. if_namespace (identity d) = bk_namespace b)"
proof (induction ds arbitrary: offers st)
  case (Cons d ds)
  obtain acc seen where st: "st = (acc, seen)" by (cases st)
  from Cons.prems(2) obtain st1 where 1: "merge_device b st d = Ok st1" "merge_devices b st1 ds = Ok st'"
    by (auto simp: outcome_inversions)
  then have ns: "if_namespace (identity d) = bk_namespace b" using st by (auto simp: merge_device_def split: if_splits)
  with merge_device_step [where offers = offers and ds = acc and seen = seen and d = d and b = b] Cons.prems(1) 1(1) st have "merged (offers @ [(b, d)]) st1" by auto
  from Cons.IH [OF this 1(2)] ns show ?case by simp
qed simp

lemma merge_devices_returns:
  fixes b :: "'w backend" and offers :: "'w offers"
  shows "merged offers st \<Longrightarrow> \<forall>d \<in> set ds. if_namespace (identity d) = bk_namespace b \<Longrightarrow> \<exists>st'. merge_devices b st ds = Ok st'"
proof (induction ds arbitrary: offers st)
  case (Cons d ds)
  obtain acc seen where st: "st = (acc, seen)" by (cases st)
  with Cons.prems merge_device_step [where offers = offers and ds = acc and seen = seen and d = d and b = b] obtain st1
    where "merge_device b st d = Ok st1" "merged (offers @ [(b, d)]) st1" by auto
  with Cons.IH [of "offers @ [(b, d)]" st1] Cons.prems(2) show ?case by simp
qed simp

text \<open>An answer that the merge accepts: not found, or devices of the backend's own namespace.\<close>

definition acceptable :: "'w backend \<Rightarrow> (observation, backend_error) outcome \<Rightarrow> bool" where
  "acceptable b answer \<longleftrightarrow>
     (case answer of
        Ok obs \<Rightarrow> list_all (\<lambda>d. if_namespace (identity d) = bk_namespace b) (devices obs)
      | Err e \<Rightarrow> be_kind e = NotFound
      | Panic \<Rightarrow> False)"

lemma merge_answers_merged:
  fixes offers :: "'w offers" and answers :: "('w backend \<times> (observation, backend_error) outcome) list"
  assumes "merged offers st"
  shows "merge_answers answers (diags, st) = Ok (diags', st') \<Longrightarrow>
       merged (offers @ offered answers) st' \<and> (\<forall>(b, a) \<in> set answers. acceptable b a)"
    and "\<forall>(b, a) \<in> set answers. acceptable b a \<Longrightarrow> \<exists>r. merge_answers answers (diags, st) = Ok r"
  using assms
proof (induction answers arbitrary: offers diags st)
  case (Cons ba answers)
  obtain b a where ba: "ba = (b, a)" by (cases ba)
  {
    case 1
    show ?case
    proof (cases a)
      case (Ok obs)
      with 1(1) ba obtain st1 where s: "merge_devices b st (devices obs) = Ok st1"
        "merge_answers answers (diags @ diagnostics obs, st1) = Ok (diags', st')"
        by (auto simp: outcome_inversions)
      have m: "merged (offers @ map (Pair b) (devices obs)) st1" "\<forall>d \<in> set (devices obs). if_namespace (identity d) = bk_namespace b"
        using merge_devices_steps [OF 1(2) s(1)] by blast+
      from Cons.IH(1) [OF s(2) m(1)] m(2) show ?thesis
        by (auto simp: ba Ok offered_def acceptable_def list_all_iff)
    next
      case (Err e)
      with 1 ba Cons.IH(1) [where offers = offers and diags = diags and st = st] show ?thesis
        by (auto simp: offered_def acceptable_def split: if_splits)
    qed (use 1 ba in simp)
  next
    case 2
    show ?case
    proof (cases a)
      case (Ok obs)
      with 2(1) ba have ns: "\<forall>d \<in> set (devices obs). if_namespace (identity d) = bk_namespace b"
        by (simp add: acceptable_def list_all_iff)
      obtain st1 where s: "merge_devices b st (devices obs) = Ok st1" using merge_devices_returns [OF 2(2) ns] by blast
      have m: "merged (offers @ map (Pair b) (devices obs)) st1" using merge_devices_steps [OF 2(2) s] by blast
      from Cons.IH(2) [OF _ m] 2(1) show ?thesis by (simp add: ba Ok s)
    next
      case (Err e)
      with 2 ba Cons.IH(2) [where offers = offers and st = st] show ?thesis by (simp add: acceptable_def)
    qed (use 2 ba in \<open>simp add: acceptable_def\<close>)
  }
qed (auto simp: offered_def)

lemma merged_empty: "merged [] ([], Map.empty)"
  by (simp add: merged_def seen_ok_def offer_keys_def firsts_def)

lemma merged_best:
  assumes "merged offers (ds, seen)"
  shows "map Some ds = map (best offers) (firsts (offer_keys offers))"
  unfolding merged_facts(1) [OF assms, symmetric]
  using merged_facts(4) [OF assms] by simp

section \<open>The combined query, exactly\<close>

definition gathered :: "('w backend \<times> (observation, backend_error) outcome) list \<Rightarrow> diagnostic list" where
  "gathered answers = concat (map (\<lambda>(b, answer). case answer of Ok obs \<Rightarrow> diagnostics obs | _ \<Rightarrow> []) answers)"

lemma merge_answers_gathered:
  "merge_answers answers (diags, st) = Ok (diags', st') \<Longrightarrow> diags' = diags @ gathered answers"
proof (induction answers arbitrary: diags st)
  case (Cons ba answers)
  obtain b a where ba: "ba = (b, a)" by (cases ba)
  show ?case
  proof (cases a)
    case (Ok obs)
    with Cons.prems ba obtain st1 where "merge_answers answers (diags @ diagnostics obs, st1) = Ok (diags', st')"
      by (auto simp: outcome_inversions)
    from Cons.IH [OF this] show ?thesis by (simp add: ba Ok gathered_def)
  qed (use Cons ba in \<open>auto simp: gathered_def split: if_splits\<close>)
qed (simp add: gathered_def)

lemma offers_Nil: "firsts (offer_keys offers) = [] \<longleftrightarrow> offers = []"
  by (simp add: firsts_def offer_keys_def)

lemma merged_unique:
  assumes "merged offers (ds, seen)" "map Some ds' = map (best offers) (firsts (offer_keys offers))"
  shows "ds' = ds"
proof -
  have "map Some ds' = map Some ds" using assms merged_best by metis
  then show ?thesis by (metis list.inj_map_strong option.inject)
qed

lemma merge_all_exact:
  "merge_all selector answers = Ok obs \<longleftrightarrow>
     list_all (\<lambda>(b, answer). acceptable b answer) answers
     \<and> \<not> (match_name selector \<noteq> None \<and> offered answers = [])
     \<and> map Some (devices obs) = map (best (offered answers)) (firsts (offer_keys (offered answers)))
     \<and> diagnostics obs = gathered answers" (is "?l \<longleftrightarrow> ?r")
proof (cases "list_all (\<lambda>(b, answer). acceptable b answer) answers")
  case True
  note steps = merge_answers_merged [OF merged_empty, where answers = answers and diags = "[]"]
  from True have "\<forall>(b, a) \<in> set answers. acceptable b a" by (simp add: list_all_iff)
  from steps(2) [OF this] obtain diags ds seen
    where m: "merge_answers answers ([], [], Map.empty) = Ok (diags, ds, seen)" by (metis prod_cases3)
  have inv: "merged (offered answers) (ds, seen)" using steps(1) [OF m] by simp
  have diags: "diags = gathered answers" using merge_answers_gathered [OF m] by simp
  have empty: "ds = [] \<longleftrightarrow> offered answers = []"
    using merged_facts(1) [OF inv] offers_Nil [of "offered answers"] by auto
  have best: "map Some ds = map (best (offered answers)) (firsts (offer_keys (offered answers)))"
    by (rule merged_best [OF inv])
  have "devices obs = ds" if "map Some (devices obs) = map (best (offered answers)) (firsts (offer_keys (offered answers)))"
    by (rule merged_unique [OF inv that])
  with True m diags empty best show ?thesis
    by (cases obs) (auto simp: merge_all_def)
next
  case False
  have "\<nexists>r. merge_answers answers ([], [], Map.empty) = Ok r"
    using False merge_answers_merged(1) [OF merged_empty, where answers = answers and diags = "[]"]
    by (force simp: list_all_iff)
  then have "merge_all selector answers \<noteq> Ok obs"
    by (cases "merge_answers answers ([], [], Map.empty)") (auto simp: merge_all_def)
  with False show ?thesis by blast
qed

lemma acceptable_returns: "list_all (\<lambda>(b, answer). acceptable b answer) (zip asked answers) \<Longrightarrow>
   length asked = length answers \<Longrightarrow> Panic \<notin> set answers"
  by (induction asked answers rule: list_induct2') (auto simp: acceptable_def)

lemma ask_all_length: "length (fst (ask_all bs selector w)) = length bs"
  by (induction bs arbitrary: w) (auto simp: Let_def split: prod.split, metis fst_conv)

definition asked_backends :: "'w backend list \<Rightarrow> namespace_id option \<Rightarrow> 'w backend list" where
  "asked_backends backends namespace = filter (\<lambda>b. namespace = None \<or> namespace = Some (bk_namespace b)) backends"

definition answers_of ::
  "'w backend list \<Rightarrow> match_spec \<Rightarrow> namespace_id option \<Rightarrow> 'w \<Rightarrow> ('w backend \<times> (observation, backend_error) outcome) list" where
  "answers_of backends selector namespace w =
     (let asked = asked_backends backends namespace in zip asked (fst (ask_all asked selector w)))"

lemma query_in_namespace_eq:
  "fst (query_in_namespace backends selector namespace w) = Ok obs \<longleftrightarrow>
     merge_all selector (answers_of backends selector namespace w) = Ok obs"
proof -
  have asked: "filter (\<lambda>b. case namespace of None \<Rightarrow> True | Some ns \<Rightarrow> ns = bk_namespace b) backends
      = asked_backends backends namespace"
    unfolding asked_backends_def by (rule filter_cong) (auto split: option.split)
  obtain answers w' where a: "ask_all (asked_backends backends namespace) selector w = (answers, w')" by fastforce
  then have "length (asked_backends backends namespace) = length answers" by (metis ask_all_length fst_conv)
  then show ?thesis
    using acceptable_returns [of "asked_backends backends namespace" answers]
      merge_all_exact [of selector "zip (asked_backends backends namespace) answers" obs]
    by (auto simp: query_in_namespace_def asked a answers_of_def)
qed

text \<open>C21: The combined query of a backend registry returns an observation exactly when every backend asked either
  answers with devices of its own namespace or reports "not found", and a named selector found something.  The
  observation is then determined: its devices are, in the order in which each interface (namespace and index)
  was first offered, the view of the backend that owns the device type, and the first view offered where no
  owner offered one; its diagnostics are those of all answers in registration order.  In particular no interface
  is listed twice.
\<close>

theorem query_keeps_owner_views:
  "fst (query_in_namespace backends selector namespace w) = Ok obs \<longleftrightarrow>
     list_all (\<lambda>(b, answer). acceptable b answer) (answers_of backends selector namespace w)
     \<and> \<not> (match_name selector \<noteq> None \<and> offered (answers_of backends selector namespace w) = [])
     \<and> map Some (devices obs) = map (best (offered (answers_of backends selector namespace w)))
         (firsts (offer_keys (offered (answers_of backends selector namespace w))))
     \<and> diagnostics obs = gathered (answers_of backends selector namespace w)"
  unfolding query_in_namespace_eq by (rule merge_all_exact)

section \<open>Registration keeps owners unique\<close>

text \<open>The registry after a sequence of calls of \<open>register\<close>, refused ones included.\<close>

definition registered :: "'w backend list \<Rightarrow> 'w backend list" where
  "registered bs = fold (\<lambda>b backends. snd (register b backends)) bs []"

lemma register_eq:
  "register b backends =
     (if list_ex (\<lambda>a. conflicts a b) backends
      then (Err (error_new Conflict ''an entity type already has a backend in this namespace''), backends)
      else (Ok (), backends @ [b]))"
  by (simp add: register_def)

lemma register_step:
  assumes "unique_owners backends"
  shows "unique_owners (snd (register b backends))" "set backends \<subseteq> set (snd (register b backends))"
    "b \<in> set (snd (register b backends)) \<or> (\<exists>a \<in> set backends. conflicts a b)"
  using assms by (auto simp: register_eq unique_owners_def sorted_wrt_append list_ex_iff)

lemma registered_invariant:
  assumes "unique_owners backends"
  shows "unique_owners (fold (\<lambda>b backends. snd (register b backends)) bs backends)
     \<and> set backends \<subseteq> set (fold (\<lambda>b backends. snd (register b backends)) bs backends)
     \<and> (\<forall>b \<in> set bs. b \<in> set (fold (\<lambda>b backends. snd (register b backends)) bs backends)
          \<or> (\<exists>a \<in> set (fold (\<lambda>b backends. snd (register b backends)) bs backends). conflicts a b))"
  using assms
proof (induction bs arbitrary: backends)
  case (Cons b bs)
  note step = register_step [OF Cons.prems, of b]
  note rest = Cons.IH [OF step(1)]
  with step(2,3) show ?case by (simp only: fold_simps list.set) blast
qed simp

text \<open>C24: After any sequence of registrations, accepted or refused, a namespace and an entity type determine the
  backend that owns it, by position and not only by value; and a backend that is not in the registry shares a
  namespace and an entity type with one that is (nothing else is refused).
\<close>

theorem registrations_keep_single_owner:
  "(\<forall>i < length (registered bs). \<forall>j < length (registered bs).
      bk_namespace (registered bs ! i) = bk_namespace (registered bs ! j)
      \<and> set (bk_entities (registered bs ! i)) \<inter> set (bk_entities (registered bs ! j)) \<noteq> {} \<longrightarrow> i = j)
   \<and> (\<forall>b \<in> set bs. b \<in> set (registered bs)
      \<or> (\<exists>a \<in> set (registered bs). bk_namespace a = bk_namespace b \<and> set (bk_entities a) \<inter> set (bk_entities b) \<noteq> {}))"
proof -
  have empty: "unique_owners []" by (simp add: unique_owners_def)
  note inv = registered_invariant [OF empty, of bs, folded registered_def]
  have meet: "conflicts a b \<longleftrightarrow> bk_namespace a = bk_namespace b \<and> set (bk_entities a) \<inter> set (bk_entities b) \<noteq> {}"
    for a b :: "'a backend" by (auto simp: conflicts_def list_ex_iff)
  have "i = j" if "i < length (registered bs)" "j < length (registered bs)" "conflicts (registered bs ! i) (registered bs ! j)" for i j
    using inv that conflicts_sym [of "registered bs ! i" "registered bs ! j"]
    by (cases i j rule: linorder_cases) (auto simp: unique_owners_def sorted_wrt_iff_nth_less)
  with inv show ?thesis unfolding meet [symmetric] by blast
qed

section \<open>Resolution\<close>

text \<open>What a resolved backend is: the owner of the target's type in its namespace, which supports the operation.\<close>

definition serves :: "'w backend \<Rightarrow> operation \<Rightarrow> bool" where
  "serves b operation \<longleftrightarrow>
     bk_namespace b = if_namespace (target operation)
     \<and> if_device_type (target operation) \<in> set (bk_entities b)
     \<and> bk_supports b (op_kind operation)"

lemma find_SomeD: "List.find P xs = Some x \<Longrightarrow> x \<in> set xs \<and> P x"
  by (metis find_Some_iff nth_mem)

lemma select_sound:
  assumes "select backends (context_new index operation) obs = Ok b"
  shows "b \<in> set backends \<and> serves b operation \<and> (\<exists>d \<in> set (devices obs). identity d = target operation)"
  using assms
  by (auto simp: select_def context_new_def outcome_inversions serves_def owns_def Let_def split: if_splits
      dest!: find_SomeD)

lemma resolve_operations_served:
  "resolve_operations backends ops observations resolved w = (Ok r, w') \<Longrightarrow>
     (r = None \<and> ops = [] \<and> resolved = None)
     \<or> (\<exists>first. r = Some first \<and> (resolved = None \<or> resolved = Some first)
         \<and> first \<in> set backends \<union> set_option resolved
         \<and> (\<forall>(i, operation) \<in> set ops. \<exists>b \<in> set backends. bk_id b = bk_id first \<and> serves b operation))"
proof (induction ops arbitrary: observations resolved w)
  case (Cons io ops)
  obtain i operation where io: "io = (i, operation)" by (cases io)
  from Cons.prems io obtain observations' obs w1 b where
    sel: "Ok b = select backends (context_new i operation) obs" and
    rest: "(case resolved of
         Some first \<Rightarrow>
           if bk_id first \<noteq> bk_id b then
             alift (Err (error_at (error_new UnsupportedOperation
               ''plan operations resolve to different backends; split it by backend'') (context_new i operation)))
           else resolve_operations backends ops observations' (Some first)
       | None \<Rightarrow> resolve_operations backends ops observations' (Some b)) w1 = (Ok r, w')"
    by (auto simp: Let_def abind_eq_Ok abind_alift_eq_Ok)
  have b: "b \<in> set backends" "serves b operation" using select_sound [OF sel [symmetric]] by blast+
  show ?case
  proof (cases resolved)
    case None
    with rest have "resolve_operations backends ops observations' (Some b) w1 = (Ok r, w')" by simp
    from Cons.IH [OF this] b None io show ?thesis by auto
  next
    case (Some first)
    with rest have "bk_id first = bk_id b" "resolve_operations backends ops observations' (Some first) w1 = (Ok r, w')"
      by (auto split: if_splits)
    with Cons.IH [OF this(2)] b Some io show ?thesis by auto
  qed
qed auto

text \<open>C22: A plan that resolves in a registry built by registrations of distinct backends is not empty, and the
  backend returned is registered and serves every operation of it: the operation's target lies in its
  namespace, its device type is one of its entity types, and it supports the kind of the operation.  No other
  registered backend serves any of the operations.
\<close>

theorem resolved_plan_is_served:
  assumes "inj_on bk_id (set (registered bs))"
    and "fst (resolve_plan (registered bs) diff w) = Ok b"
  shows "operations diff \<noteq> [] \<and> b \<in> set (registered bs)
    \<and> (\<forall>operation \<in> set (operations diff). serves b operation
        \<and> (\<forall>c \<in> set (registered bs). serves c operation \<longrightarrow> c = b))"
proof -
  from assms(2) obtain r w' where r: "resolve_operations (registered bs) (enumerate 0 (operations diff)) Map.empty None w
      = (Ok r, w')" "r = Some b"
    by (auto simp: resolve_plan_def abind_def alift_def split: prod.splits outcome.splits option.splits elim: ok_or.elims)
  from resolve_operations_served [OF r(1)] r(2)
  have b: "b \<in> set (registered bs)"
    and all: "\<forall>(i, operation) \<in> set (enumerate 0 (operations diff)).
       \<exists>c \<in> set (registered bs). bk_id c = bk_id b \<and> serves c operation"
    by auto
  have unique: "unique_owners (registered bs)"
    using registered_invariant [of "[]" bs] by (simp add: unique_owners_def registered_def)
  have "serves b operation \<and> (\<forall>c \<in> set (registered bs). serves c operation \<longrightarrow> c = b)"
    if "operation \<in> set (operations diff)" for operation
  proof -
    from that have "operation \<in> snd ` set (enumerate 0 (operations diff))" by (metis list.set_map map_snd_enumerate)
    with all obtain c where "c \<in> set (registered bs)" "bk_id c = bk_id b" "serves c operation" by fastforce
    with assms(1) b have "serves b operation" by (auto dest: inj_onD)
    with owner_unique [OF unique _ b] show ?thesis by (auto simp: serves_def)
  qed
  moreover have "operations diff \<noteq> []"
  proof
    assume "operations diff = []"
    with r show False by simp
  qed
  ultimately show ?thesis using b by blast
qed

section \<open>A registry of one backend\<close>

definition stub_if :: interface_id where
  "stub_if = \<lparr>if_namespace = \<lparr>ns_device = 4, ns_inode = 12\<rparr>, if_index = 7, if_generation = 1, if_name = ''eth0'',
     if_device_type = ''ethernet'', if_mac = None\<rparr>"

definition stub_device :: device_observation where
  "stub_device = \<lparr>identity = stub_if, dev_st = new_state \<lparr>md_id = 0, md_created_at = 0\<rparr> Kernel,
     addresses = [], addresses_complete = True, observed_at = 0\<rparr>"

definition stub_backend :: "unit backend" where
  "stub_backend = \<lparr>bk_id = 1, bk_namespace = if_namespace stub_if, bk_entities = [''ethernet''],
     bk_supports = supports_operation, bk_query = (\<lambda>selector w. (Ok \<lparr>devices = [stub_device], diagnostics = []\<rparr>, w))\<rparr>"

definition stub_plan :: state_diff where
  "stub_plan = \<lparr>changes = [], operations =
     [\<lparr>target = stub_if, op_kind = SetMtu 9000, depends_on = [], address_group = None\<rparr>], diff_diagnostics = []\<rparr>"

lemma stub_resolves: "fst (resolve_plan (registered [stub_backend]) stub_plan ()) = Ok stub_backend"
  by (simp add: registered_def register_eq resolve_plan_def stub_plan_def abind_def areturn_def alift_def
      observed_namespace_def at_context_def query_in_namespace_def stub_backend_def merge_all_def merge_device_def
      stub_device_def select_def context_new_def stub_if_def default_match_def owns_def)

theorem resolved_plan_is_served_witness:
  "stub_backend \<in> set (registered [stub_backend]) \<and> serves stub_backend (operations stub_plan ! 0)"
  using resolved_plan_is_served [OF _ stub_resolves] by (simp add: registered_def register_eq stub_plan_def)

theorem registrations_keep_single_owner_witness:
  "registered [stub_backend, stub_backend] = [stub_backend]
   \<and> bk_namespace (registered [stub_backend, stub_backend] ! 0) = if_namespace stub_if
   \<and> (\<exists>a \<in> set (registered [stub_backend, stub_backend]).
        bk_namespace a = bk_namespace stub_backend \<and> set (bk_entities a) \<inter> set (bk_entities stub_backend) \<noteq> {})"
proof -
  have eq: "registered [stub_backend, stub_backend] = [stub_backend]"
    by (simp add: registered_def register_eq conflicts_def stub_backend_def)
  from registrations_keep_single_owner [of "[stub_backend, stub_backend]"]
  show ?thesis unfolding eq by (simp add: stub_backend_def)
qed

section \<open>The registry as a partial function\<close>

text \<open>The abstract registry: the owner of a namespace and an entity type.  A backend claims an area, or nothing where any of
  it is owned.\<close>

definition owner :: "'w backend list \<Rightarrow> namespace_id \<times> string \<rightharpoonup> 'w backend" where
  "owner backends = (\<lambda>(ns, entity). List.find (\<lambda>b. bk_namespace b = ns \<and> entity \<in> set (bk_entities b)) backends)"

definition area :: "'w backend \<Rightarrow> (namespace_id \<times> string) set" where
  "area b = {bk_namespace b} \<times> set (bk_entities b)"

definition claim :: "'w backend \<Rightarrow> (namespace_id \<times> string \<rightharpoonup> 'w backend) \<Rightarrow> namespace_id \<times> string \<rightharpoonup> 'w backend" where
  "claim b owners = (if area b \<inter> dom owners = {} then owners ++ (\<lambda>_. Some b) |` area b else owners)"

lemma owner_simps:
  "owner [] = Map.empty"
  "owner backends (ns, entity) = None \<longleftrightarrow> (\<forall>a \<in> set backends. \<not> (bk_namespace a = ns \<and> entity \<in> set (bk_entities a)))"
  "owner (backends @ [b]) k = (case owner backends k of Some a \<Rightarrow> Some a | None \<Rightarrow> if k \<in> area b then Some b else None)"
proof -
  show "owner [] = Map.empty" by (auto simp: owner_def)
  show "owner backends (ns, entity) = None \<longleftrightarrow> (\<forall>a \<in> set backends. \<not> (bk_namespace a = ns \<and> entity \<in> set (bk_entities a)))"
    by (auto simp: owner_def find_None_iff)
  show "owner (backends @ [b]) k = (case owner backends k of Some a \<Rightarrow> Some a | None \<Rightarrow> if k \<in> area b then Some b else None)"
    by (cases k; induction backends) (auto simp: owner_def area_def)
qed

lemma conflict_area: "list_ex (\<lambda>a. conflicts a b) backends \<longleftrightarrow> area b \<inter> dom (owner backends) \<noteq> {}"
proof -
  have "(ns, entity) \<in> dom (owner backends) \<longleftrightarrow> (\<exists>a \<in> set backends. bk_namespace a = ns \<and> entity \<in> set (bk_entities a))"
    for ns entity using owner_simps(2) [of backends ns entity] by (auto simp: domIff)
  then show ?thesis by (auto simp: conflicts_def list_ex_iff area_def)
qed

lemma owner_register: "owner (snd (register b backends)) = claim b (owner backends)"
proof (cases "list_ex (\<lambda>a. conflicts a b) backends")
  case True
  then show ?thesis by (simp add: register_eq claim_def conflict_area)
next
  case False
  have "owner (backends @ [b]) k = (owner backends ++ (\<lambda>_. Some b) |` area b) k" for k
  proof -
    have "owner backends k = None" if "k \<in> area b" using False that by (auto simp: conflict_area)
    then show ?thesis
      by (auto simp: owner_simps(3) map_add_def restrict_map_def split: option.split)
  qed
  then show ?thesis using False by (auto simp: register_eq claim_def conflict_area)
qed

text \<open>C23: the registry refines a partial function from namespaces and entity types to backends.  A sequence of registrations is
  the sequence of claims on it: a backend is accepted exactly when nothing of its area is owned, and then owns all of it;
  one that is refused changes nothing.\<close>

theorem registry_refines_owners:
  "owner (registered bs) = fold claim bs Map.empty
   \<and> (fst (register b (registered bs)) = Ok () \<longleftrightarrow> area b \<inter> dom (fold claim bs Map.empty) = {})"
proof -
  have "owner (fold (\<lambda>b backends. snd (register b backends)) bs backends) = fold claim bs (owner backends)" for backends
    by (induction bs arbitrary: backends) (simp_all add: owner_register)
  then have owners: "owner (registered bs) = fold claim bs Map.empty" unfolding registered_def by (simp only: owner_simps(1))
  moreover have "fst (register b (registered bs)) = Ok () \<longleftrightarrow> \<not> list_ex (\<lambda>a. conflicts a b) (registered bs)"
    by (simp add: register_eq)
  ultimately show ?thesis by (simp add: conflict_area)
qed

end
