(* ===== verification/Policy.thy ===== *)
theory Policy
  imports Yaml RegistryAdd
begin

text \<open>
  \<open>crates/netfyr-policy/src/lib.rs\<close>: the provider inventory and its schemas, the split of a policy into
  static state and provider declarations, policy sets, and the loading of documents, files and directories.

  The reader and printer of YAML are the parameter of theory \<open>Yaml\<close>, with \<open>serde_yaml::Value::as_i64\<close> beside it.
  The parameter schemas of the providers, JSON constants in the code, are written out as the nodes they
  deserialise to.  The file system is a parameter: the tree that \<open>read_dir\<close>, \<open>file_type\<close> and
  \<open>read_to_string\<close> show.  An \<open>i32\<close> is an \<open>int\<close> in its range, as in theory \<open>Model\<close>.
\<close>

section \<open>Providers\<close>

datatype provider_source = ProviderDhcp | ProviderRa

fun provider_priority :: "provider_source \<Rightarrow> int" where
  "provider_priority ProviderDhcp = default_priority (Dhcp [])"
| "provider_priority ProviderRa = default_priority (Ra [])"

record provider_registration =
  reg_kind :: string
  reg_domain :: string
  reg_key :: string
  reg_source :: provider_source
  reg_params_schema :: schema_node

definition location :: "provider_registration \<Rightarrow> string" where
  "location registration = reg_domain registration @ ''.'' @ reg_key registration"

definition registration_priority :: "provider_registration \<Rightarrow> int" where
  "registration_priority registration = provider_priority (reg_source registration)"

definition DHCP4_SCHEMA :: schema_node where
  "DHCP4_SCHEMA = SchemaNode (Some TObject) None True None None None
     (Some
       [(''send-hostname'', scalar_node TBoolean True),
        (''route-metric'', SchemaNode (Some TInteger) None True (Some 0) None None None None None None None)])
     None None (Some False) None"

definition OPEN_PARAMS_SCHEMA :: schema_node where
  "OPEN_PARAMS_SCHEMA = SchemaNode (Some TObject) None True None None None None None None (Some True) None"

definition PROVIDERS :: "provider_registration list" where
  "PROVIDERS =
     [\<lparr>reg_kind = ''dhcp4'', reg_domain = ''ipv4'', reg_key = ''dhcp4'', reg_source = ProviderDhcp,
       reg_params_schema = DHCP4_SCHEMA\<rparr>,
      \<lparr>reg_kind = ''dhcp6'', reg_domain = ''ipv6'', reg_key = ''dhcp6'', reg_source = ProviderDhcp,
       reg_params_schema = OPEN_PARAMS_SCHEMA\<rparr>,
      \<lparr>reg_kind = ''ra'', reg_domain = ''ipv6'', reg_key = ''ra'', reg_source = ProviderRa,
       reg_params_schema = OPEN_PARAMS_SCHEMA\<rparr>]"

text \<open>The loop of \<open>ProviderRegistry::schema_registry\<close>; \<open>None\<close> is its \<open>expect\<close>.\<close>

definition trigger_place :: "provider_registration \<Rightarrow> string \<times> string" where
  "trigger_place registration =
     (if reg_domain registration = ''ipv4'' then (''ipv4'', reg_key registration)
      else (''base'', location registration))"

fun add_triggers :: "provider_registration list \<Rightarrow> schema_registry \<Rightarrow> schema_registry option" where
  "add_triggers [] schemas = Some schemas"
| "add_triggers (registration # rest) schemas =
     (let (frag, path) = trigger_place registration;
          (result, schemas') = add_schema_node frag path (Ok (reg_params_schema registration)) schemas in
      case result of Ok _ \<Rightarrow> add_triggers rest schemas' | _ \<Rightarrow> None)"

definition provider_schemas :: "schema_registry option" where
  "provider_schemas = Option.bind new_registry (add_triggers PROVIDERS)"

definition registration :: "string \<Rightarrow> string \<Rightarrow> provider_registration option" where
  "registration domain key = List.find (\<lambda>r. reg_domain r = domain \<and> reg_key r = key) PROVIDERS"

section \<open>Policies\<close>

record policy =
  po_name :: string
  po_match :: match_spec
  po_device_type :: string
  po_fields :: fields
  po_priority :: "int option"
  po_metadata :: "fields option"

record provider_decl =
  pd_kind :: string
  pd_source :: provider_source
  pd_policy :: string
  pd_location :: string
  pd_priority :: int
  pd_params :: fields
  pd_match :: match_spec
  pd_device_type :: string

record production =
  pr_state :: "dev_state option"
  pr_providers :: "provider_decl list"

record produce_all_outcome =
  all_states :: "dev_state list"
  all_providers :: "provider_decl list"

datatype policy_error =
    PolicyIo string
  | PolicyYaml string
  | PolicyMultiDocument
  | PolicyInvalidTopLevel string
  | PolicyUnknownKind string
  | EmptyName
  | DuplicateName string
  | PolicyMissingMatch
  | InvalidPriority
  | MetadataNotMapping
  | PolicyValidation "validation_error list"
  | PolicyState state_error
  | EmptyPolicy

fun show_policy_error :: "policy_error \<Rightarrow> string" where
  "show_policy_error (PolicyIo err) = ''policy I/O error: '' @ err"
| "show_policy_error (PolicyYaml err) = ''policy YAML error: '' @ err"
| "show_policy_error PolicyMultiDocument = ''policy input contains more than one YAML document''"
| "show_policy_error (PolicyInvalidTopLevel found) =
     ''policy input must be a mapping or a list of mappings, found '' @ found"
| "show_policy_error (PolicyUnknownKind kind) = ''unknown policy kind '' @ quoted kind"
| "show_policy_error EmptyName = ''policy name must be a non-empty string''"
| "show_policy_error (DuplicateName name) = ''duplicate policy name '' @ quoted name"
| "show_policy_error PolicyMissingMatch = ''policy requires a non-empty match''"
| "show_policy_error InvalidPriority = ''policy priority must be an i32 integer''"
| "show_policy_error MetadataNotMapping = ''policy metadata must be a mapping''"
| "show_policy_error (PolicyValidation errors) =
     ''policy schema validation failed'' @ concat (map (\<lambda>err. ''; '' @ show_validation_error err) errors)"
| "show_policy_error (PolicyState err) = show_state_error err"
| "show_policy_error EmptyPolicy = ''policy has no static fields or provider declarations''"

text \<open>\<open>candidate_state\<close>; \<open>md\<close> is the fresh metadata of \<open>State::new\<close>.\<close>

definition candidate_state :: "state_metadata \<Rightarrow> policy \<Rightarrow> dev_state" where
  "candidate_state md p =
     (new_state md (Static (po_name p)))
       \<lparr>st_match := po_match p, device_type := po_device_type p, st_fields := po_fields p\<rparr>"

definition declare_provider :: "policy \<Rightarrow> provider_registration \<Rightarrow> fields \<Rightarrow> provider_decl" where
  "declare_provider p r params =
     \<lparr>pd_kind = reg_kind r, pd_source = reg_source r, pd_policy = po_name p, pd_location = location r,
      pd_priority = registration_priority r, pd_params = params, pd_match = po_match p,
      pd_device_type = po_device_type p\<rparr>"

text \<open>
  The inner loop of \<open>produce\<close> over the snapshot of the keys: the enclosing map, whether a trigger was removed, and
  the declarations pushed.  A trigger that is gone or is no map is the \<open>expect\<close> and the \<open>unreachable!\<close>.
\<close>

fun split_keys ::
  "policy \<Rightarrow> string \<Rightarrow> string list \<Rightarrow> fields \<times> bool \<times> provider_decl list \<Rightarrow>
   (fields \<times> bool \<times> provider_decl list) option" where
  "split_keys p domain [] acc = Some acc"
| "split_keys p domain (key # keys) (values, removed_any, providers) =
     (case registration domain key of
        None \<Rightarrow> split_keys p domain keys (values, removed_any, providers)
      | Some r \<Rightarrow>
          (case im_get values key of
             Some (VMap params) \<Rightarrow>
               split_keys p domain keys (im_remove values key, True, providers @ [declare_provider p r params])
           | _ \<Rightarrow> None))"

fun split_domains ::
  "policy \<Rightarrow> string list \<Rightarrow> fields \<times> provider_decl list \<Rightarrow> (fields \<times> provider_decl list) option" where
  "split_domains p [] acc = Some acc"
| "split_domains p (domain # domains) (fs, providers) =
     (case im_get fs domain of
        Some (VMap values) \<Rightarrow>
          Option.bind (split_keys p domain (im_keys values) (values, False, providers)) (\<lambda>(values', removed_any, providers').
            let fs' = im_insert fs domain (VMap values') in
            split_domains p domains (if removed_any \<and> values' = [] then im_remove fs' domain else fs', providers'))
      | _ \<Rightarrow> split_domains p domains (fs, providers))"

text \<open>The metadata of the candidate and of the produced state are both fresh; the candidate's is never read.\<close>

definition produce :: "state_metadata \<Rightarrow> policy \<Rightarrow> (production, policy_error) outcome" where
  "produce md p =
     (if po_name p = [] then Err EmptyName
      else if match_is_empty (po_match p) then Err PolicyMissingMatch
      else
        obind (expect provider_schemas) (\<lambda>schemas.
        obind (expect (validate_writable schemas (candidate_state md p))) (\<lambda>errors.
        if errors \<noteq> [] then Err (PolicyValidation errors)
        else
          obind (expect (split_domains p (im_keys (po_fields p)) (po_fields p, []))) (\<lambda>(fs, providers).
          if fs = [] \<and> po_device_type p = [] \<and> providers = [] then Err EmptyPolicy
          else
            (let src = Static (po_name p);
                 st = \<lparr>device_type = po_device_type p, st_match = po_match p, st_fields = fs, st_source = src,
                       st_priority = (case po_priority p of Some n \<Rightarrow> n | None \<Rightarrow> default_priority src),
                       st_metadata = md\<rparr> in
             Ok \<lparr>pr_state = (if fs \<noteq> [] \<or> po_device_type p \<noteq> [] then Some st else None),
                 pr_providers = providers\<rparr>)))))"

section \<open>Policy sets\<close>

record policy_set =
  policies :: "(string, policy) imap"

definition insert_policy :: "policy \<Rightarrow> (unit, policy_error, policy_set) action" where
  "insert_policy p =
     (if po_name p = [] then alift (Err EmptyName)
      else
        abind (aget (\<lambda>s. im_contains (policies s) (po_name p))) (\<lambda>known.
        if known then alift (Err (DuplicateName (po_name p)))
        else amodify (\<lambda>s. s\<lparr>policies := im_insert (policies s) (po_name p) p\<rparr>)))"

text \<open>The loop of \<open>produce_all\<close>; \<open>fresh i\<close> is the metadata for the policy at position \<open>i\<close>.\<close>

fun produce_from ::
  "(nat \<Rightarrow> state_metadata) \<Rightarrow> (nat \<times> policy) list \<Rightarrow> produce_all_outcome \<Rightarrow> (produce_all_outcome, policy_error) outcome" where
  "produce_from fresh [] output = Ok output"
| "produce_from fresh ((i, p) # rest) output =
     obind (produce (fresh i) p) (\<lambda>produced.
       produce_from fresh rest
         \<lparr>all_states = all_states output @ (case pr_state produced of Some st \<Rightarrow> [st] | None \<Rightarrow> []),
          all_providers = all_providers output @ pr_providers produced\<rparr>)"

definition produce_all :: "(nat \<Rightarrow> state_metadata) \<Rightarrow> policy_set \<Rightarrow> (produce_all_outcome, policy_error) outcome" where
  "produce_all fresh s = produce_from fresh (enumerate 0 (map snd (policies s))) \<lparr>all_states = [], all_providers = []\<rparr>"

end
