(* ===== verification/PolicyFacts.thy ===== *)
theory PolicyFacts
  imports Policy
begin

text \<open>
  Facts about theory \<open>Policy\<close>: the composed schema registry, and the loops of \<open>produce\<close> as functions of the
  entries of the fields.
\<close>

section \<open>The composed registry\<close>

definition ipv6_node :: schema_node where
  "ipv6_node = SchemaNode (Some TObject) None True None None None
     (Some [(''dhcp6'', OPEN_PARAMS_SCHEMA), (''ra'', OPEN_PARAMS_SCHEMA)]) None None (Some False) None"

definition provider_registry :: schema_registry where
  "provider_registry = embedded_registry \<lparr>fragments :=
     (case fragments embedded_registry of [base, ipv4, ethernet] \<Rightarrow>
     [base\<lparr>fr_root := set_properties (properties_or_new base_json @ [(''ipv6'', ipv6_node)]) base_json,
           fr_fields := sort_key fst (fr_fields base @
             [(''ipv6'', \<lparr>fi_writable = True, fi_type = TObject\<rparr>),
              (''ipv6.dhcp6'', \<lparr>fi_writable = True, fi_type = TObject\<rparr>),
              (''ipv6.ra'', \<lparr>fi_writable = True, fi_type = TObject\<rparr>)])\<rparr>,
      ipv4\<lparr>fr_root := set_properties (properties_or_new ipv4_json @ [(''dhcp4'', DHCP4_SCHEMA)]) ipv4_json,
           fr_fields := sort_key fst (fr_fields ipv4 @
             [(''dhcp4'', \<lparr>fi_writable = True, fi_type = TObject\<rparr>),
              (''dhcp4.route-metric'', \<lparr>fi_writable = True, fi_type = TInteger\<rparr>),
              (''dhcp4.send-hostname'', \<lparr>fi_writable = True, fi_type = TBoolean\<rparr>)])\<rparr>,
      ethernet]
      | other \<Rightarrow> other)\<rparr>"

lemmas provider_schema_defs = DHCP4_SCHEMA_def OPEN_PARAMS_SCHEMA_def ipv6_node_def

lemma provider_schemas_eq: "provider_schemas = Some provider_registry"
  by (simp add: provider_schemas_def new_registry_embedded PROVIDERS_def trigger_place_def location_def add_schema_node_def
      provider_schema_defs embedded_json_defs embedded_registry_def find_fragment_def semantic_type_def
      properties_or_new_def im_contains_def writable_object_def expect_type_def join_path_def provider_registry_def)

lemma provider_registry_ready: "apply_ready provider_registry"
  by (simp add: apply_ready_def wf_registry_def wf_fragment_def wf_base_def strip_safe_registry_def read_only_flags_def
      base_fragment_def find_fragment_def trigger_keys_def List.map_filter_def provider_registry_def embedded_registry_def
      embedded_json_defs provider_schema_defs node_ok_def node_property_def properties_or_new_def
      expect_type_def semantic_type_def join_path_def required_keys_def is_open_def)

lemma provider_registry_wf: "wf_registry provider_registry"
  using provider_registry_ready by (simp add: apply_ready_def)

section \<open>What is a trigger\<close>

definition trigger :: "string \<Rightarrow> string \<Rightarrow> bool" where
  "trigger domain key \<longleftrightarrow> registration domain key \<noteq> None"

lemma trigger_iff:
  "trigger domain key \<longleftrightarrow> (domain, key) \<in> {(''ipv4'', ''dhcp4''), (''ipv6'', ''dhcp6''), (''ipv6'', ''ra'')}"
  by (auto simp: trigger_def registration_def PROVIDERS_def)

definition triggers_are_maps :: "fields \<Rightarrow> bool" where
  "triggers_are_maps fs \<longleftrightarrow>
     (\<forall>(domain, v) \<in> set fs. \<forall>m. v = VMap m \<longrightarrow>
        (\<forall>(key, w) \<in> set m. trigger domain key \<longrightarrow> (\<exists>params. w = VMap params)))"

text \<open>What an entry of the fields leaves in the static state, and the providers it declares.\<close>

definition static_entry :: "string \<times> cval \<Rightarrow> fields" where
  "static_entry = (\<lambda>(domain, v).
     case v of
       VMap m \<Rightarrow>
         (let rest = filter (\<lambda>(key, _). \<not> trigger domain key) m in
          if rest = [] \<and> m \<noteq> [] then [] else [(domain, VMap rest)])
     | _ \<Rightarrow> [(domain, v)])"

definition declared_key :: "policy \<Rightarrow> string \<Rightarrow> string \<times> cval \<Rightarrow> provider_decl list" where
  "declared_key p domain = (\<lambda>(key, w).
     case (registration domain key, w) of
       (Some r, VMap params) \<Rightarrow> [declare_provider p r params]
     | _ \<Rightarrow> [])"

definition declared :: "policy \<Rightarrow> string \<times> cval \<Rightarrow> provider_decl list" where
  "declared p = (\<lambda>(domain, v). case v of VMap m \<Rightarrow> concat (map (declared_key p domain) m) | _ \<Rightarrow> [])"

section \<open>The loops\<close>

lemma remove_middle: "k \<notin> set (im_keys pre) \<Longrightarrow> k \<notin> set (im_keys ys) \<Longrightarrow> im_remove (pre @ (k, v) # ys) k = pre @ ys"
  by (induction pre) (auto simp: AList.delete_id)

lemma get_middle: "k \<notin> set (im_keys pre) \<Longrightarrow> im_get (pre @ (k, v) # ys) k = Some v"
  by (simp add: map_add_def map_of_eq_None_iff [symmetric])

lemma insert_middle: "k \<notin> set (im_keys pre) \<Longrightarrow> im_insert (pre @ (k, v) # ys) k w = pre @ (k, w) # ys"
  by (induction pre) auto

lemma split_keys_eq:
  assumes "\<forall>(key, w) \<in> set ys. trigger domain key \<longrightarrow> (\<exists>params. w = VMap params)" "im_wf (pre @ ys)"
  shows "split_keys p domain (im_keys ys) (pre @ ys, gone, providers) =
     Some (pre @ filter (\<lambda>(key, _). \<not> trigger domain key) ys, gone \<or> list_ex (\<lambda>(key, _). trigger domain key) ys,
           providers @ concat (map (declared_key p domain) ys))"
  using assms
proof (induction ys arbitrary: pre gone providers)
  case (Cons kw ys)
  obtain key w where kw: "kw = (key, w)" by (cases kw)
  have fresh: "key \<notin> set (im_keys pre)" "key \<notin> set (im_keys ys)" using Cons.prems(2) kw by auto
  show ?case
  proof (cases "registration domain key")
    case None
    have "im_wf ((pre @ [(key, w)]) @ ys)" using Cons.prems(2) kw by simp
    with Cons.IH [of "pre @ [(key, w)]"] Cons.prems(1) None show ?thesis
      by (simp add: kw trigger_def declared_key_def)
  next
    case (Some r)
    with Cons.prems(1) kw obtain params where w: "w = VMap params" by (auto simp: trigger_def)
    have "im_wf (pre @ ys)" using Cons.prems(2) kw by simp
    with Cons.IH [of pre True "providers @ [declare_provider p r params]"] Cons.prems(1) Some w fresh show ?thesis
      by (simp add: kw trigger_def declared_key_def get_middle remove_middle del: map_of_append)
  qed
qed simp

lemma no_trigger_filter: "\<not> list_ex (\<lambda>(key, _). trigger domain key) m \<Longrightarrow> filter (\<lambda>(key, _). \<not> trigger domain key) m = m"
  by (auto simp: list_ex_iff filter_id_conv)

lemma split_domains_eq:
  assumes "triggers_are_maps ys" "value_wf (VMap (pre @ ys))"
  shows "split_domains p (im_keys ys) (pre @ ys, providers) =
     Some (pre @ concat (map static_entry ys), providers @ concat (map (declared p) ys))"
  using assms
proof (induction ys arbitrary: pre providers)
  case (Cons kv ys)
  obtain domain v where kv: "kv = (domain, v)" by (cases kv)
  have fresh: "domain \<notin> set (im_keys pre)" "domain \<notin> set (im_keys ys)" using Cons.prems(2) kv by auto
  have rest: "triggers_are_maps ys" using Cons.prems(1) by (simp add: triggers_are_maps_def)
  have tail: "value_wf (VMap (pre' @ ys))" if "pre' = pre \<or> (\<exists>w. pre' = pre @ [(domain, w)] \<and> value_wf w)" for pre'
    using Cons.prems(2) that fresh kv by (auto simp: image_iff) (metis fst_conv image_iff disjoint_iff)+
  show ?case
  proof (cases "\<exists>m. v = VMap m")
    case True
    then obtain m where v: "v = VMap m" by blast
    have m: "im_wf m" "\<forall>(key, w) \<in> set m. trigger domain key \<longrightarrow> (\<exists>params. w = VMap params)" "list_all (\<lambda>(k, v). value_wf v) m"
      using Cons.prems kv v by (auto simp: triggers_are_maps_def)
    let ?m = "filter (\<lambda>(key, _). \<not> trigger domain key) m"
    have split: "split_keys p domain (im_keys m) (m, False, providers) =
        Some (?m, list_ex (\<lambda>(key, _). trigger domain key) m, providers @ declared p kv)"
      using split_keys_eq [of m domain "[]" p False providers] m by (simp add: kv v declared_def)
    have "value_wf (VMap ?m)" using m(1,3) by (auto simp: list_all_iff distinct_map_filter)
    note keep = Cons.IH [OF rest tail [of "pre @ [(domain, VMap ?m)]"], of "providers @ declared p kv"] this
    note drop = Cons.IH [OF rest tail [of pre], of "providers @ declared p kv"]
    show ?thesis
    proof (cases "list_ex (\<lambda>(key, _). trigger domain key) m \<and> ?m = []")
      case True
      then have "static_entry kv = []" by (auto simp: static_entry_def kv v)
      with True drop split fresh show ?thesis
        by (simp add: kv v get_middle insert_middle remove_middle del: map_of_append)
    next
      case False
      then have "static_entry kv = [(domain, VMap ?m)]"
        using no_trigger_filter [of domain m] by (auto simp: static_entry_def kv v Let_def)
      with False keep split fresh show ?thesis
        by (auto simp: kv v get_middle insert_middle simp del: map_of_append)
    qed
  next
    case False
    then have "static_entry kv = [(domain, v)]" "declared p kv = []" by (cases v; simp add: kv static_entry_def declared_def)+
    moreover have "value_wf v" using Cons.prems(2) kv by simp
    ultimately show ?thesis
      using Cons.IH [OF rest tail [of "pre @ [(domain, v)]"], of providers] False
      by (cases v) (simp_all add: kv get_middle [OF fresh(1)] del: map_of_append)
  qed
qed simp

end
