(* ===== verification/PolicyProduce.thy ===== *)
theory PolicyProduce
  imports PolicyFacts
begin

text \<open>
  \<open>Policy::produce\<close>: its result on every policy, that it never panics, and that what it produces is static.
\<close>

section \<open>Validation against the composed registry\<close>

lemma entries_conform_subset:
  "entries_conform wo n m ign \<Longrightarrow> required_keys n = [] \<Longrightarrow> set m' \<subseteq> set m \<Longrightarrow> entries_conform wo n m' ign"
  by (fastforce simp: entries_conform_def)

lemma conforms_map_subset:
  "conforms wo n (VMap m) \<Longrightarrow> required_keys n = [] \<Longrightarrow> set m' \<subseteq> set m \<Longrightarrow> conforms wo n (VMap m')"
  using entries_conform_subset by (auto simp: conforms_map_entries)

lemmas provider_lookup = provider_registry_def embedded_registry_def embedded_json_defs provider_schema_defs
  node_property_def properties_or_new_def trigger_keys_def List.map_filter_def

lemma provider_fragments:
  obtains base ipv4 ethernet where
    "fragments provider_registry = [base, ipv4, ethernet]"
    "fr_trigger base = None" "fr_trigger ipv4 = Some ''ipv4''" "fr_trigger ethernet = Some ''ethernet''"
    "trigger_keys provider_registry = [''ipv4'', ''ethernet'']"
    "required_keys (fr_root base) = []" "required_keys (fr_root ipv4) = []" "required_keys (fr_root ethernet) = []"
    "node_property (fr_root base) ''ipv6'' = Some ipv6_node"
    "\<And>k n. node_property (fr_root base) k = Some n \<Longrightarrow> k \<noteq> ''ipv6'' \<Longrightarrow> semantic_type n \<noteq> Ok TObject"
    "node_property (fr_root ipv4) ''dhcp4'' = Some DHCP4_SCHEMA"
    "fr_root ethernet = ethernet_json"
    "\<not> is_open (fr_root base)"
proof -
  let ?f = "fragments provider_registry"
  have "?f = [?f ! 0, ?f ! 1, ?f ! 2]" by (simp add: provider_lookup)
  moreover have "semantic_type n \<noteq> Ok TObject" if "node_property (fr_root (?f ! 0)) k = Some n" "k \<noteq> ''ipv6''" for k n
    using that by (auto simp: provider_lookup semantic_type_def split: if_splits)
  ultimately show thesis
    by (intro that [of "?f ! 0" "?f ! 1" "?f ! 2"]) (simp_all add: provider_lookup required_keys_def is_open_def)
qed

lemma candidate_sel [simp]:
  "st_fields (candidate_state md p) = po_fields p" "device_type (candidate_state md p) = po_device_type p"
  by (simp_all add: candidate_state_def)

lemma candidate_conforms: "state_conforms wo reg (candidate_state md p) = state_conforms wo reg st"
  if "st_fields st = po_fields p" "device_type st = po_device_type p"
  by (simp add: state_conforms_def fragment_conforms_def that cong: option.case_cong)

lemma conforms_object: "semantic_type n = Ok TObject \<Longrightarrow> conforms wo n v \<Longrightarrow> \<exists>m. v = VMap m"
  by (auto elim!: conforms.cases)

lemma trigger_types: "semantic_type DHCP4_SCHEMA = Ok TObject" "semantic_type OPEN_PARAMS_SCHEMA = Ok TObject"
  by (simp_all add: provider_schema_defs semantic_type_def)

lemma ipv6_entries:
  assumes "conforms wo ipv6_node (VMap m)" "(k, w) \<in> set m"
  shows "trigger ''ipv6'' k \<and> (\<exists>params. w = VMap params)"
proof -
  have "node_property ipv6_node k = (if k = ''dhcp6'' \<or> k = ''ra'' then Some OPEN_PARAMS_SCHEMA else None)"
    "\<not> is_open ipv6_node"
    by (simp_all add: ipv6_node_def node_property_def is_open_def)
  with assms conforms_object [OF trigger_types(2), of wo w] show ?thesis
    by (fastforce simp: conforms_map_entries entries_conform_def trigger_iff split: if_splits)
qed

lemma conforming_triggers:
  assumes "state_conforms wo provider_registry st" "im_wf (st_fields st)"
  shows "triggers_are_maps (st_fields st)"
  unfolding triggers_are_maps_def
proof (intro ballI, clarify)
  fix domain m key w
  assume e: "(domain, VMap m) \<in> set (st_fields st)" "(key, w) \<in> set m" "trigger domain key"
  show "\<exists>params. w = VMap params"
  proof (rule provider_fragments)
    fix base ipv4 ethernet
    assume f: "fragments provider_registry = [base, ipv4, ethernet]" "fr_trigger base = None" "fr_trigger ipv4 = Some ''ipv4''"
      "trigger_keys provider_registry = [''ipv4'', ''ethernet'']" "node_property (fr_root base) ''ipv6'' = Some ipv6_node"
      "node_property (fr_root ipv4) ''dhcp4'' = Some DHCP4_SCHEMA"
    from assms(1) f have b: "entries_conform wo (fr_root base) (st_fields st) [''ipv4'', ''ethernet'']"
      and i: "im_get (st_fields st) ''ipv4'' = Some v \<Longrightarrow> \<exists>inner. v = VMap inner \<and> entries_conform wo (fr_root ipv4) inner []" for v
      by (auto simp: state_conforms_def fragment_conforms_def)
    show "\<exists>params. w = VMap params"
    proof (cases "domain = ''ipv6''")
      case True
      with b e(1) f(5) have "conforms wo ipv6_node (VMap m)" by (fastforce simp: entries_conform_def)
      with ipv6_entries e(2) show ?thesis by blast
    next
      case False
      with e(3) have d: "domain = ''ipv4''" "key = ''dhcp4''" by (auto simp: trigger_iff)
      with e(1) assms(2) have "im_get (st_fields st) ''ipv4'' = Some (VMap m)" by simp
      with i have "entries_conform wo (fr_root ipv4) m []" by blast
      with e(2) d f(6) have "conforms wo DHCP4_SCHEMA w" by (fastforce simp: entries_conform_def)
      with conforms_object [OF trigger_types(1)] show ?thesis by blast
    qed
  qed
qed

section \<open>The result of produce\<close>

definition static_fields :: "policy \<Rightarrow> fields" where
  "static_fields p = concat (map static_entry (po_fields p))"

definition providers_of :: "policy \<Rightarrow> provider_decl list" where
  "providers_of p = concat (map (declared p) (po_fields p))"

definition static_state :: "state_metadata \<Rightarrow> policy \<Rightarrow> dev_state" where
  "static_state md p =
     \<lparr>device_type = po_device_type p, st_match = po_match p, st_fields = static_fields p,
      st_source = Static (po_name p), st_priority = (case po_priority p of Some n \<Rightarrow> n | None \<Rightarrow> 100),
      st_metadata = md\<rparr>"

definition producible :: "policy \<Rightarrow> bool" where
  "producible p \<longleftrightarrow>
     po_name p \<noteq> [] \<and> \<not> match_is_empty (po_match p)
     \<and> state_conforms True provider_registry (candidate_state \<lparr>md_id = 0, md_created_at = 0\<rparr> p)"

lemma producible_iff:
  "producible p \<longleftrightarrow> po_name p \<noteq> [] \<and> \<not> match_is_empty (po_match p)
     \<and> state_conforms True provider_registry (candidate_state md p)"
  unfolding producible_def
  by (subst candidate_conforms [of "candidate_state md p"]) simp_all

lemma split_eq:
  assumes "value_wf (VMap (po_fields p))" "state_conforms True provider_registry (candidate_state md p)"
  shows "split_domains p (im_keys (po_fields p)) (po_fields p, []) = Some (static_fields p, providers_of p)"
  using split_domains_eq [of "po_fields p" "[]" p "[]"] conforming_triggers [OF assms(2)] assms(1)
  by (simp add: static_fields_def providers_of_def)

lemma produce_eq:
  assumes "value_wf (VMap (po_fields p))" "producible p"
  shows "produce md p =
     (if static_fields p = [] \<and> po_device_type p = [] \<and> providers_of p = [] then Err EmptyPolicy
      else Ok \<lparr>pr_state = (if static_fields p \<noteq> [] \<or> po_device_type p \<noteq> [] then Some (static_state md p) else None),
               pr_providers = providers_of p\<rparr>)"
proof -
  have c: "state_conforms True provider_registry (candidate_state md p)" using assms(2) producible_iff by blast
  then have "validate_writable provider_registry (candidate_state md p) = Some []"
    unfolding validate_writable_def using validate_inner_conforms [OF provider_registry_wf] by blast
  with assms(2) split_eq [OF assms(1) c] show ?thesis
    by (simp add: produce_def producible_def provider_schemas_eq static_state_def Let_def split: option.split)
qed

lemma produce_rejects:
  assumes "\<not> producible p"
  shows "\<exists>e. produce md p = Err e \<and> e \<noteq> EmptyPolicy"
proof (cases "po_name p = [] \<or> match_is_empty (po_match p)")
  case False
  obtain es where es: "validate_writable provider_registry (candidate_state md p) = Some es"
    unfolding validate_writable_def using validate_inner_returns [OF provider_registry_wf] by blast
  have "\<not> state_conforms True provider_registry (candidate_state md p)"
    using assms False producible_iff [of p md] by blast
  with es have "es \<noteq> []"
    using validate_inner_empty [OF provider_registry_wf] unfolding validate_writable_def by blast
  with False es show ?thesis by (simp add: produce_def provider_schemas_eq)
qed (auto simp: produce_def)

section \<open>The static state\<close>

definition static_value :: "string \<Rightarrow> cval \<Rightarrow> cval" where
  "static_value domain v = (case v of VMap m \<Rightarrow> VMap (filter (\<lambda>(key, _). \<not> trigger domain key) m) | _ \<Rightarrow> v)"

lemma static_entry_value: "static_entry (domain, v) \<in> {[], [(domain, static_value domain v)]}"
  by (cases v) (auto simp: static_entry_def static_value_def Let_def)

lemma static_entry_in: "(k, w) \<in> set (static_entry (domain, v)) \<Longrightarrow> k = domain \<and> w = static_value domain v"
  using static_entry_value [of domain v] by auto

lemma static_fields_in: "(k, w) \<in> set (static_fields p) \<Longrightarrow> \<exists>v. (k, v) \<in> set (po_fields p) \<and> w = static_value k v"
  using static_entry_in by (fastforce simp: static_fields_def)

lemma static_keys: "im_keys (concat (map static_entry fs)) = filter (\<lambda>k. k \<in> fst ` set (concat (map static_entry fs))) (im_keys fs)"
  if "im_wf fs" for fs
  using that
proof (induction fs)
  case (Cons kv fs)
  obtain k v where kv: "kv = (k, v)" by (cases kv)
  have fresh: "k \<notin> fst ` set (concat (map static_entry fs))"
    using Cons.prems unfolding kv by (auto dest!: static_entry_in) force?
  have "filter (\<lambda>j. j \<in> fst ` (set (static_entry kv) \<union> set (concat (map static_entry fs)))) (im_keys fs)
      = filter (\<lambda>j. j \<in> fst ` set (concat (map static_entry fs))) (im_keys fs)"
  proof (rule filter_cong)
    fix j
    assume "j \<in> set (im_keys fs)"
    with Cons.prems kv have "j \<noteq> k" by auto
    with static_entry_value [of k v] kv have "j \<notin> fst ` set (static_entry kv)" by auto
    then show "(j \<in> fst ` (set (static_entry kv) \<union> set (concat (map static_entry fs))))
        = (j \<in> fst ` set (concat (map static_entry fs)))" by (simp add: image_Un)
  qed simp
  with Cons fresh static_entry_value [of k v] kv show ?case by (auto simp: image_Un)
qed simp

lemma static_wf: "im_wf (po_fields p) \<Longrightarrow> im_wf (static_fields p)"
  using static_keys [of "po_fields p"] by (metis distinct_filter static_fields_def)

lemma static_value_wf: "value_wf v \<Longrightarrow> value_wf (static_value d v)"
  by (cases v) (auto simp: static_value_def list_all_iff distinct_map_filter)

lemma static_fields_wf: "value_wf (VMap (po_fields p)) \<Longrightarrow> value_wf (VMap (static_fields p))"
  using static_wf [of p] static_fields_in static_value_wf by (fastforce simp: list_all_iff)

lemma conforms_static_value:
  assumes "conforms wo n v" "semantic_type n = Ok TObject \<Longrightarrow> required_keys n = []"
  shows "conforms wo n (static_value d v)"
proof (cases v)
  case (VMap m)
  then have "semantic_type n = Ok TObject" using assms(1) by (auto elim: conforms.cases)
  with assms conforms_map_subset [of wo n m "filter (\<lambda>(key, _). \<not> trigger d key) m"] VMap show ?thesis
    by (simp add: static_value_def)
qed (use assms(1) in \<open>simp_all add: static_value_def\<close>)

lemma static_conforms:
  assumes wf: "im_wf (po_fields p)" and c: "state_conforms True provider_registry (candidate_state md p)"
  shows "state_conforms True provider_registry (static_state md' p)"
proof (rule provider_fragments)
  fix base ipv4 ethernet
  assume f: "fragments provider_registry = [base, ipv4, ethernet]" "fr_trigger base = None" "fr_trigger ipv4 = Some ''ipv4''"
    "fr_trigger ethernet = Some ''ethernet''" "trigger_keys provider_registry = [''ipv4'', ''ethernet'']"
    "required_keys (fr_root base) = []" "required_keys (fr_root ipv4) = []" "required_keys (fr_root ethernet) = []"
    "node_property (fr_root base) ''ipv6'' = Some ipv6_node"
    "\<And>k n. node_property (fr_root base) k = Some n \<Longrightarrow> k \<noteq> ''ipv6'' \<Longrightarrow> semantic_type n \<noteq> Ok TObject"
  have ipv6: "required_keys ipv6_node = []" by (simp add: ipv6_node_def required_keys_def)
  have base: "fragment_conforms True provider_registry (static_state md' p) base"
  proof -
    have b: "fragment_conforms True provider_registry (candidate_state md p) base" using c f(1) by (simp add: state_conforms_def)
    have "case node_property (fr_root base) k of
            Some q \<Rightarrow> (True \<longrightarrow> sn_writable q) \<and> conforms True q w | None \<Rightarrow> is_open (fr_root base)"
      if kw: "(k, w) \<in> set (static_fields p)" "k \<notin> set [''ipv4'', ''ethernet'']" for k w
    proof -
      from static_fields_in [OF kw(1)] obtain v where v: "(k, v) \<in> set (po_fields p)" "w = static_value k v" by blast
      with b kw(2) f(2,5) have old: "case node_property (fr_root base) k of
            Some q \<Rightarrow> (True \<longrightarrow> sn_writable q) \<and> conforms True q v | None \<Rightarrow> is_open (fr_root base)"
        by (auto simp: fragment_conforms_def entries_conform_def)
      show ?thesis
      proof (cases "node_property (fr_root base) k")
        case (Some q)
        have "semantic_type q = Ok TObject \<Longrightarrow> required_keys q = []"
          using f(9) f(10) [OF Some] ipv6 Some by (cases "k = ''ipv6''") auto
        with old Some v(2) conforms_static_value [of True q v k] show ?thesis by simp
      qed (use old in simp)
    qed
    with b f(2,5,6) show ?thesis
      by (auto simp: fragment_conforms_def entries_conform_def static_state_def)
  qed
  have other: "fragment_conforms True provider_registry (static_state md' p) g"
    if g: "g = ipv4 \<or> g = ethernet" for g
  proof -
    obtain key where key: "fr_trigger g = Some key" "required_keys (fr_root g) = []" using g f(3,4,7,8) by blast
    have b: "fragment_conforms True provider_registry (candidate_state md p) g" using c f(1) g by (auto simp: state_conforms_def)
    show ?thesis
    proof (cases "im_get (static_fields p) key")
      case None
      then show ?thesis by (simp add: fragment_conforms_def key static_state_def)
    next
      case (Some w)
      from static_fields_in [OF map_of_SomeD [OF Some]] obtain v where v: "(key, v) \<in> set (po_fields p)" "w = static_value key v"
        by blast
      with wf have "im_get (po_fields p) key = Some v" by simp
      with b key obtain inner where inner: "v = VMap inner" "entries_conform True (fr_root g) inner []"
        by (auto simp: fragment_conforms_def)
      then have "entries_conform True (fr_root g) (filter (\<lambda>(k, _). \<not> trigger key k) inner) []"
        using key(2) by (auto intro: entries_conform_subset)
      with Some v(2) inner(1) show ?thesis
        by (simp add: fragment_conforms_def key static_state_def static_value_def)
    qed
  qed
  show ?thesis unfolding state_conforms_def f(1) using base other by simp
qed

text \<open>A static state has no triggers left: splitting it again changes nothing.\<close>

lemma static_value_again: "static_value d (static_value d v) = static_value d v"
  by (cases v) (simp_all add: static_value_def)

lemma static_again:
  "static_fields (p\<lparr>po_fields := static_fields p\<rparr>) = static_fields p"
  "providers_of (p\<lparr>po_fields := static_fields p\<rparr>) = []"
proof -
  have clean: "static_entry e = [e] \<and> declared p e = []" if "e \<in> set (static_entry (d, v))" for e d v
  proof -
    from that static_entry_in [of "fst e" "snd e" d v] have e: "e = (d, static_value d v)" "static_entry (d, v) \<noteq> []"
      by (auto simp: prod_eq_iff)
    show ?thesis
    proof (cases v)
      case (VMap m)
      let ?m = "filter (\<lambda>(key, _). \<not> trigger d key) m"
      have "declared_key p d x = []" if "x \<in> set ?m" for x
        using that by (auto simp: declared_key_def trigger_def split: option.split)
      moreover have "filter (\<lambda>(key, _). \<not> trigger d key) ?m = ?m" by simp
      ultimately show ?thesis
        using e VMap by (auto simp: static_entry_def static_value_def declared_def Let_def)
    qed (use e in \<open>simp_all add: static_entry_def static_value_def declared_def\<close>)
  qed
  have "concat (map static_entry xs) = xs \<and> concat (map (declared p) xs) = []"
    if "\<forall>e \<in> set xs. static_entry e = [e] \<and> declared p e = []" for xs
    using that by (induction xs) auto
  moreover have "\<forall>e \<in> set (static_fields p). static_entry e = [e] \<and> declared p e = []"
    using clean by (fastforce simp: static_fields_def)
  ultimately have fixed: "concat (map static_entry (static_fields p)) = static_fields p"
    "concat (map (declared p) (static_fields p)) = []" by blast+
  have same: "declare_provider (p\<lparr>po_fields := fs\<rparr>) = declare_provider p" for fs
    by (intro ext) (simp add: declare_provider_def)
  have sel: "po_fields (p\<lparr>po_fields := fs\<rparr>) = fs" for fs by simp
  have "declared (p\<lparr>po_fields := fs\<rparr>) = declared p" for fs unfolding declared_def declared_key_def same ..
  then show "static_fields (p\<lparr>po_fields := static_fields p\<rparr>) = static_fields p"
    "providers_of (p\<lparr>po_fields := static_fields p\<rparr>) = []"
    unfolding static_fields_def [of "p\<lparr>po_fields := static_fields p\<rparr>"] providers_of_def by (simp_all only: sel fixed)
qed

end
