(* ===== verification/PolicyLoad.thy ===== *)
theory PolicyLoad
  imports Policy
begin

text \<open>
  The loaders of \<open>crates/netfyr-policy/src/lib.rs\<close>: \<open>load_document\<close>, \<open>policy_from_mapping\<close> and their helpers, and
  \<open>load_policy_file\<close> and \<open>load_policy_dir\<close> over a tree of files.
\<close>

section \<open>Documents\<close>

text \<open>What the code uses of \<open>serde_yaml\<close>: the library of theory \<open>Yaml\<close> and \<open>Value::as_i64\<close>.\<close>

record 'n policy_lib =
  lib_yaml :: "'n yaml_lib"
  value_as_i64 :: "'n yaml \<Rightarrow> i64 option"

fun yaml_shape :: "'n yaml \<Rightarrow> string" where
  "yaml_shape YNull = ''null''"
| "yaml_shape (YBool _) = ''a boolean''"
| "yaml_shape (YNumber _) = ''a number''"
| "yaml_shape (YString _) = ''a string''"
| "yaml_shape (YSequence _) = ''a sequence''"
| "yaml_shape (YMapping _) = ''a mapping''"
| "yaml_shape (YTagged _ _) = ''a tagged value''"

fun yaml_map_to_model :: "'n yaml_lib \<Rightarrow> 'n yaml \<Rightarrow> (cval, policy_error) outcome" where
  "yaml_map_to_model lib YNull = Err (PolicyYaml ''null metadata values are unsupported'')"
| "yaml_map_to_model lib (YBool b) = Ok (VBool b)"
| "yaml_map_to_model lib (YNumber n) =
     (case as_u64 lib n of
        Some u \<Rightarrow> Ok (VU64 u)
      | None \<Rightarrow>
          (case as_i64 lib n of
             Some i \<Rightarrow> Ok (VI64 i)
           | None \<Rightarrow> Err (PolicyYaml ''floating-point metadata values are unsupported'')))"
| "yaml_map_to_model lib (YString s) = Ok (VString s)"
| "yaml_map_to_model lib (YSequence values) = omap VList (otraverse (yaml_map_to_model lib) values)"
| "yaml_map_to_model lib (YMapping values) =
     omap (\<lambda>kvs. VMap (im_extend [] kvs))
       (otraverse
         (\<lambda>(key, value).
            obind (ok_or (as_str lib key) (PolicyYaml ''metadata keys must be strings'')) (\<lambda>key.
            omap (Pair key) (yaml_map_to_model lib value)))
         values)"
| "yaml_map_to_model lib (YTagged _ _) = Err (PolicyYaml ''tagged metadata values are unsupported'')"

definition mapping_get :: "('n yaml \<times> 'n yaml) list \<Rightarrow> string \<Rightarrow> 'n yaml option" where
  "mapping_get mapping name = im_get mapping (YString name)"

definition parse_priority :: "'n policy_lib \<Rightarrow> 'n yaml \<Rightarrow> (int, policy_error) outcome" where
  "parse_priority lib value =
     ok_or (Option.bind (value_as_i64 lib value) (\<lambda>v.
       if - (2 ^ 31) \<le> sint v \<and> sint v < 2 ^ 31 then Some (sint v) else None)) InvalidPriority"

fun into_map :: "cval \<Rightarrow> (fields, unit) outcome" where
  "into_map (VMap values) = Ok values"
| "into_map _ = Err ()"

text \<open>\<open>Option<Result>::transpose\<close>.\<close>

fun transpose_option :: "('a, 'e) outcome option \<Rightarrow> ('a option, 'e) outcome" where
  "transpose_option None = Ok None"
| "transpose_option (Some m) = omap Some m"

definition is_explicit :: "'n yaml option \<Rightarrow> (bool, policy_error) outcome" where
  "is_explicit kind =
     (case kind of
        None \<Rightarrow> Ok False
      | Some (YString k) \<Rightarrow>
          if k = ''state'' then Ok False
          else if k = ''policy'' then Ok True
          else Err (PolicyUnknownKind k)
      | Some value \<Rightarrow> Err (PolicyUnknownKind (yaml_shape value)))"

definition policy_name ::
  "'n policy_lib \<Rightarrow> bool \<Rightarrow> ('n yaml \<times> 'n yaml) list \<Rightarrow> string \<Rightarrow> (string, policy_error) outcome" where
  "policy_name lib explicit mapping fallback =
     (if explicit then
        ok_or (Option.bind (mapping_get mapping ''name'') (\<lambda>value.
               Option.bind (as_str (lib_yaml lib) value) (\<lambda>name. if name \<noteq> [] then Some name else None))) EmptyName
      else Ok fallback)"

definition read_metadata ::
  "'n policy_lib \<Rightarrow> ('n yaml \<times> 'n yaml) list \<Rightarrow> (fields option, policy_error) outcome" where
  "read_metadata lib mapping =
     obind (transpose_option (map_option (yaml_map_to_model (lib_yaml lib)) (mapping_get mapping ''metadata''))) (\<lambda>value.
     omap_err (\<lambda>_. MetadataNotMapping) (transpose_option (map_option into_map value)))"

text \<open>The entries that describe the state.\<close>

definition candidate_entries ::
  "'n policy_lib \<Rightarrow> bool \<Rightarrow> ('n yaml \<times> 'n yaml) list \<Rightarrow> ('n yaml \<times> 'n yaml) list" where
  "candidate_entries lib explicit mapping =
     im_extend [] (filter (\<lambda>(key, _).
       \<not> (case as_str (lib_yaml lib) key of
            Some k \<Rightarrow> k \<in> set [''kind'', ''metadata'', ''priority''] \<or> explicit \<and> k = ''name''
          | None \<Rightarrow> False)) mapping)"

definition validate_policy_state :: "dev_state \<Rightarrow> schema_registry \<Rightarrow> (unit, policy_error) outcome" where
  "validate_policy_state st schemas =
     obind (expect (validate_writable schemas st)) (\<lambda>errors.
     if errors = [] then Ok () else Err (PolicyValidation errors))"

text \<open>\<open>Vec::pop\<close>: the last element.\<close>

definition pop_last :: "'a list \<Rightarrow> 'a option" where
  "pop_last xs = (if xs = [] then None else Some (last xs))"

text \<open>The state of an entry without a selector is prepared as query output; any other is only validated.\<close>

definition policy_state_of ::
  "bool \<Rightarrow> dev_state \<Rightarrow> match_by \<Rightarrow> schema_registry \<Rightarrow> (dev_state \<times> warning list, policy_error) outcome" where
  "policy_state_of explicit st options schemas =
     obind
       (if explicit then (if match_is_empty (st_match st) then Err PolicyMissingMatch else Ok (st, []))
        else if match_is_empty (st_match st) then
          obind (omap_err PolicyState (prepare_for_apply_with_registry [st] options schemas)) (\<lambda>prepared.
          (case out_states prepared of
             st' # _ \<Rightarrow> Ok (st', out_warnings prepared)
           | [] \<Rightarrow> Panic))
        else obind (validate_policy_state st schemas) (\<lambda>_. Ok (st, []))) (\<lambda>(st, warnings).
     obind (if explicit then validate_policy_state st schemas else Ok ()) (\<lambda>_.
     Ok (st, warnings)))"

definition policy_from_mapping ::
  "'n policy_lib \<Rightarrow> (nat \<Rightarrow> state_metadata) \<Rightarrow> ('n yaml \<times> 'n yaml) list \<Rightarrow> string \<Rightarrow> match_by \<Rightarrow>
   (policy \<times> warning list, policy_error) outcome" where
  "policy_from_mapping lib fresh mapping fallback options =
     obind (is_explicit (mapping_get mapping ''kind'')) (\<lambda>explicit.
     obind (policy_name lib explicit mapping fallback) (\<lambda>name.
     obind (transpose_option (map_option (parse_priority lib) (mapping_get mapping ''priority''))) (\<lambda>priority.
     obind (read_metadata lib mapping) (\<lambda>metadata.
     obind (expect provider_schemas) (\<lambda>schemas.
     obind (omap_err PolicyYaml (yaml_print (lib_yaml lib) (YMapping (candidate_entries lib explicit mapping)))) (\<lambda>text.
     obind (omap_err PolicyState (from_yaml_with_registry (lib_yaml lib) fresh text schemas)) (\<lambda>states.
     obind (expect (pop_last states)) (\<lambda>st.
     obind (policy_state_of explicit st options schemas) (\<lambda>(st, warnings).
     Ok (\<lparr>po_name = name, po_match = st_match st, po_device_type = device_type st, po_fields = st_fields st,
          po_priority = priority, po_metadata = metadata\<rparr>, warnings))))))))))"

record load_outcome =
  lo_policies :: "policy list"
  lo_warnings :: "warning list"

text \<open>One policy of a loading loop, with the names seen so far.\<close>

type_synonym load_state = "load_outcome \<times> (string, unit) imap"

definition admit :: "policy \<Rightarrow> load_state \<Rightarrow> (load_state, policy_error) outcome" where
  "admit p = (\<lambda>(loaded, names).
     if im_contains names (po_name p) then Err (DuplicateName (po_name p))
     else Ok (loaded\<lparr>lo_policies := lo_policies loaded @ [p]\<rparr>, im_insert names (po_name p) ()))"

definition warn :: "warning list \<Rightarrow> load_state \<Rightarrow> load_state" where
  "warn warnings = (\<lambda>(loaded, names). (loaded\<lparr>lo_warnings := lo_warnings loaded @ warnings\<rparr>, names))"

definition load_start :: load_state where
  "load_start = (\<lparr>lo_policies = [], lo_warnings = []\<rparr>, [])"

text \<open>The loop of \<open>load_document\<close>; \<open>fresh i\<close> is the metadata of the states read for the entry at position \<open>i\<close>.\<close>

definition fallback_name :: "bool \<Rightarrow> string \<Rightarrow> nat \<Rightarrow> string" where
  "fallback_name multiple stem index = (if multiple then stem @ ''-'' @ show_nat (index + 1) else stem)"

fun load_mappings ::
  "'n policy_lib \<Rightarrow> (nat \<Rightarrow> nat \<Rightarrow> state_metadata) \<Rightarrow> bool \<Rightarrow> string \<Rightarrow> match_by \<Rightarrow>
   (nat \<times> ('n yaml \<times> 'n yaml) list) list \<Rightarrow> load_state \<Rightarrow> (load_state, policy_error) outcome" where
  "load_mappings lib fresh multiple stem options [] st = Ok st"
| "load_mappings lib fresh multiple stem options ((index, mapping) # rest) st =
     obind (policy_from_mapping lib (fresh index) mapping (fallback_name multiple stem index) options) (\<lambda>(p, warnings).
     obind (admit p st) (\<lambda>st'.
     load_mappings lib fresh multiple stem options rest (warn warnings st')))"

text \<open>The mappings of a document, and whether it is a list.\<close>

definition document_mappings ::
  "'n policy_lib \<Rightarrow> 'n yaml \<Rightarrow> (bool \<times> ('n yaml \<times> 'n yaml) list list, policy_error) outcome" where
  "document_mappings lib doc =
     (case doc of
        YMapping mapping \<Rightarrow> Ok (False, [mapping])
      | YSequence values \<Rightarrow>
          omap (Pair True)
            (otraverse (\<lambda>value. ok_or (as_mapping (lib_yaml lib) value) (PolicyInvalidTopLevel (yaml_shape value))) values)
      | value \<Rightarrow> Err (PolicyInvalidTopLevel (yaml_shape value)))"

definition load_document ::
  "'n policy_lib \<Rightarrow> (nat \<Rightarrow> nat \<Rightarrow> state_metadata) \<Rightarrow> string \<Rightarrow> string \<Rightarrow> match_by \<Rightarrow>
   (load_outcome, policy_error) outcome" where
  "load_document lib fresh input stem options =
     obind (omap_err (\<lambda>message. if str_contains ''more than one document'' message then PolicyMultiDocument
                                else PolicyYaml message) (yaml_read (lib_yaml lib) input)) (\<lambda>doc.
     obind (document_mappings lib doc) (\<lambda>(multiple, mappings).
     omap fst (load_mappings lib fresh multiple stem options (enumerate 0 mappings) load_start)))"

section \<open>Files\<close>

text \<open>
  \<open>Path::file_stem\<close> and \<open>Path::extension\<close> of a file name: split at the last dot, unless that is the first byte.
\<close>

fun rsplit_dot :: "string \<Rightarrow> (string \<times> string) option" where
  "rsplit_dot [] = None"
| "rsplit_dot (c # cs) =
     (case rsplit_dot cs of
        Some (before, after) \<Rightarrow> Some (c # before, after)
      | None \<Rightarrow> if c = CHR ''.'' then Some ([], cs) else None)"

definition file_stem :: "string \<Rightarrow> string" where
  "file_stem name =
     (case rsplit_dot name of
        Some (before, _) \<Rightarrow> if before = [] \<or> name = ''..'' then name else before
      | None \<Rightarrow> name)"

definition file_extension :: "string \<Rightarrow> string option" where
  "file_extension name =
     (case rsplit_dot name of
        Some (before, after) \<Rightarrow> if before = [] \<or> name = ''..'' then None else Some after
      | None \<Rightarrow> None)"

text \<open>
  \<open>content\<close> is what \<open>read_to_string\<close> returns, \<open>name\<close> the last component of the path, if it has one;
  \<open>OsStr::to_str\<close> succeeds on well-formed UTF-8.
\<close>

definition load_policy_file ::
  "'n policy_lib \<Rightarrow> (nat \<Rightarrow> nat \<Rightarrow> state_metadata) \<Rightarrow> (string, string) outcome \<Rightarrow> string option \<Rightarrow> match_by \<Rightarrow>
   (load_outcome, policy_error) outcome" where
  "load_policy_file lib fresh content name options =
     obind (omap_err PolicyIo content) (\<lambda>input.
     obind (ok_or (Option.bind (map_option file_stem name) (\<lambda>stem.
              if from_utf8 stem \<and> stem \<noteq> [] then Some stem else None)) EmptyName) (\<lambda>stem.
     load_document lib fresh input stem options))"

text \<open>
  What a directory entry is: a file with what reading it returns, a directory with the entries \<open>read_dir\<close> yields and
  the error that ends them, a symbolic link, another kind, or an entry whose type cannot be read.
\<close>

datatype file_node =
    RegularFile "(string, string) outcome"
  | Directory "(string \<times> file_node) list" "string option"
  | Symlink
  | SpecialFile
  | Untyped string

type_synonym found_file = "string list \<times> (string, string) outcome"

text \<open>The walk; \<open>prefix\<close> is the path of the directory below the root.\<close>

fun walk_entry :: "string list \<Rightarrow> string \<Rightarrow> file_node \<Rightarrow> (found_file list, policy_error) outcome"
  and collect_policy_files :: "string list \<Rightarrow> (string \<times> file_node) list \<Rightarrow> (found_file list, policy_error) outcome" where
  "walk_entry prefix name (RegularFile content) =
     (if file_extension name \<in> {Some ''yaml'', Some ''yml''} then Ok [(prefix @ [name], content)] else Ok [])"
| "walk_entry prefix name (Directory entries failure) =
     obind (collect_policy_files (prefix @ [name]) entries) (\<lambda>files.
       case failure of None \<Rightarrow> Ok files | Some message \<Rightarrow> Err (PolicyIo message))"
| "walk_entry prefix name Symlink = Ok []"
| "walk_entry prefix name SpecialFile = Ok []"
| "walk_entry prefix name (Untyped message) = Err (PolicyIo message)"
| "collect_policy_files prefix [] = Ok []"
| "collect_policy_files prefix ((name, node) # rest) =
     obind (if starts_with ''.'' name then Ok [] else walk_entry prefix name node) (\<lambda>files.
     obind (collect_policy_files prefix rest) (\<lambda>more. Ok (files @ more)))"

fun admit_all :: "policy list \<Rightarrow> load_state \<Rightarrow> (load_state, policy_error) outcome" where
  "admit_all [] st = Ok st"
| "admit_all (p # ps) st = obind (admit p st) (admit_all ps)"

text \<open>\<open>fresh path\<close> is the metadata of the states read from the file at \<open>path\<close>.\<close>

fun load_files ::
  "'n policy_lib \<Rightarrow> (string list \<Rightarrow> nat \<Rightarrow> nat \<Rightarrow> state_metadata) \<Rightarrow> match_by \<Rightarrow> found_file list \<Rightarrow> load_state \<Rightarrow>
   (load_state, policy_error) outcome" where
  "load_files lib fresh options [] st = Ok st"
| "load_files lib fresh options ((path, content) # rest) st =
     obind (load_policy_file lib (fresh path) content (Some (last path)) options) (\<lambda>loaded.
     obind (admit_all (lo_policies loaded) st) (\<lambda>st'.
     load_files lib fresh options rest (warn (lo_warnings loaded) st')))"

text \<open>The root directory: its entries and the error that ends them; a root that cannot be listed has no entries.\<close>

definition load_policy_dir ::
  "'n policy_lib \<Rightarrow> (string list \<Rightarrow> nat \<Rightarrow> nat \<Rightarrow> state_metadata) \<Rightarrow> (string \<times> file_node) list \<Rightarrow> string option \<Rightarrow> match_by \<Rightarrow>
   (load_outcome, policy_error) outcome" where
  "load_policy_dir lib fresh entries failure options =
     obind (collect_policy_files [] entries) (\<lambda>files.
     obind (case failure of None \<Rightarrow> Ok () | Some message \<Rightarrow> Err (PolicyIo message)) (\<lambda>_.
     omap fst (load_files lib fresh options (sort_key fst files) load_start)))"

end
