(* ===== verification/PolicyLoadFacts.thy ===== *)
theory PolicyLoadFacts
  imports PolicyProduce PolicyLoad YamlStates
begin

text \<open>
  Facts about theory \<open>PolicyLoad\<close>: a loaded policy is one that \<open>produce\<close> accepts, the names of a load are distinct,
  and a directory is loaded in the order of its paths.
\<close>

section \<open>One policy\<close>

lemma conforms_cong:
  "st_fields st = st_fields st' \<Longrightarrow> device_type st = device_type st' \<Longrightarrow> state_conforms wo reg st = state_conforms wo reg st'"
  by (simp add: state_conforms_def fragment_conforms_def cong: option.case_cong)

lemma prepared_single:
  assumes decoded: "decoded st" "readable_state provider_registry st"
    and prep: "prepare_for_apply_with_registry [st] options provider_registry = Ok out" and st': "st' \<in> set (out_states out)"
  shows "prepared provider_registry st'" "state_wf st'"
proof -
  have wf: "\<forall>st \<in> set [st]. state_wf st" using decoded(1) by (simp add: decoded_def)
  show "prepared provider_registry st'"
    using prep st' by (cases rule: prepare_cases [OF provider_registry_ready wf, of options]) auto
  from decoded have "\<forall>st \<in> set [st]. round_ready provider_registry st" by (simp add: round_ready_def)
  from prepared_round_ready [OF provider_registry_wf this prep] st' show "state_wf st'"
    by (simp add: round_ready_def decoded_def)
qed

lemma validated:
  "validate_policy_state st provider_registry = Ok () \<longleftrightarrow> state_conforms True provider_registry st"
  using validate_inner_conforms [OF provider_registry_wf, of st True] validate_inner_returns [OF provider_registry_wf, of st True]
  by (auto simp: validate_policy_state_def validate_writable_def)

lemma policy_state_good:
  assumes decoded: "decoded st" "readable_state provider_registry st"
    and ok: "policy_state_of explicit st options provider_registry = Ok (st', ws)"
  shows "\<not> match_is_empty (st_match st') \<and> state_conforms True provider_registry st' \<and> state_wf st'"
proof (cases "\<not> explicit \<and> match_is_empty (st_match st)")
  case True
  with ok obtain out where prep: "prepare_for_apply_with_registry [st] options provider_registry = Ok out"
    "(case out_states out of s # _ \<Rightarrow> Ok (s, out_warnings out) | [] \<Rightarrow> Panic) = (Ok (st', ws) :: (_, policy_error) outcome)"
    by (auto simp: policy_state_of_def outcome_inversions omap_err_Ok_iff)
  then have "st' \<in> set (out_states out)" by (cases "out_states out") auto
  with prepared_single [OF decoded prep(1)] show ?thesis by (auto simp: prepared_def)
next
  case False
  with ok have "\<not> match_is_empty (st_match st)" "st' = st" "state_conforms True provider_registry st"
    using validated by (auto simp: policy_state_of_def outcome_inversions split: if_splits)
  with decoded(1) show ?thesis by (simp add: decoded_def)
qed

lemma policy_good:
  assumes lib: "yaml_laws (lib_yaml lib)" and "fallback \<noteq> []"
    and ok: "policy_from_mapping lib fresh mapping fallback options = Ok (p, ws)"
  shows "producible p" "value_wf (VMap (po_fields p))"
proof -
  from ok obtain explicit name content states st st' where
    name: "policy_name lib explicit mapping fallback = Ok name" and
    read: "from_yaml_with_registry (lib_yaml lib) fresh content provider_registry = Ok states" "pop_last states = Some st" and
    st': "policy_state_of explicit st options provider_registry = Ok (st', ws)" and
    p: "po_name p = name" "po_match p = st_match st'" "po_device_type p = device_type st'" "po_fields p = st_fields st'"
    unfolding policy_from_mapping_def provider_schemas_eq by (auto simp: outcome_inversions omap_err_Ok_iff)
  have "st \<in> set states" using read(2) by (auto simp: pop_last_def split: if_splits)
  note decoded = from_yaml_decoded [OF lib provider_registry_wf read(1) this]
  have "\<not> match_is_empty (st_match st') \<and> state_conforms True provider_registry st' \<and> state_wf st'"
    by (rule policy_state_good [OF decoded st'])
  then have good: "\<not> match_is_empty (st_match st')" "state_conforms True provider_registry st'" "state_wf st'" by blast+
  have "name \<noteq> []" using name assms(2) by (auto simp: policy_name_def outcome_inversions bind_eq_Some_conv split: if_splits)
  moreover have "state_conforms True provider_registry (candidate_state md p)" for md
    using good(2) conforms_cong [of "candidate_state md p" st' True provider_registry] p by simp
  ultimately show "producible p" using good(1) p by (simp add: producible_def)
  show "value_wf (VMap (po_fields p))" using good(3) p by (simp add: state_wf_def)
qed

section \<open>The names\<close>

definition names_ok :: "load_state \<Rightarrow> bool" where
  "names_ok = (\<lambda>(loaded, names).
     distinct (map po_name (lo_policies loaded)) \<and> set (map po_name (lo_policies loaded)) = set (im_keys names))"

lemma names_ok_basic: "names_ok load_start" "names_ok (warn ws st) = names_ok st"
  by (auto simp: names_ok_def load_start_def warn_def split: prod.split)

lemma admit_ok:
  assumes "names_ok st" "admit p st = Ok st'"
  shows "names_ok st'" "lo_policies (fst st') = lo_policies (fst st) @ [p]" "lo_warnings (fst st') = lo_warnings (fst st)"
proof -
  obtain loaded names where st: "st = (loaded, names)" by (cases st)
  have keys: "set (im_keys (im_insert names (po_name p) ())) = insert (po_name p) (set (im_keys names))"
    by (auto simp: im_keys_insert)
  from assms(2) st have new: "po_name p \<notin> set (im_keys names)"
    "st' = (loaded\<lparr>lo_policies := lo_policies loaded @ [p]\<rparr>, im_insert names (po_name p) ())"
    by (auto simp: admit_def im_contains_iff split: if_splits)
  then show "lo_policies (fst st') = lo_policies (fst st) @ [p]" "lo_warnings (fst st') = lo_warnings (fst st)"
    by (simp_all add: st)
  show "names_ok st'" using assms(1) new(1) unfolding new(2) st names_ok_def prod.case keys by auto
qed

lemma warn_sel [simp]: "lo_policies (fst (warn ws st)) = lo_policies (fst st)"
  by (simp add: warn_def split: prod.split)

lemma admit_all_ok:
  "admit_all ps st = Ok st' \<Longrightarrow> names_ok st \<Longrightarrow>
     names_ok st' \<and> lo_policies (fst st') = lo_policies (fst st) @ ps"
proof (induction ps arbitrary: st)
  case (Cons p ps)
  then obtain st1 where "admit p st = Ok st1" "admit_all ps st1 = Ok st'" by (auto simp: outcome_inversions)
  with Cons.IH [of st1] admit_ok [OF Cons.prems(2)] show ?case by simp
qed simp

lemma load_mappings_ok:
  assumes "yaml_laws (lib_yaml lib)" "stem \<noteq> []"
  shows "load_mappings lib fresh multiple stem options ms st = Ok st' \<Longrightarrow> names_ok st \<Longrightarrow>
     names_ok st' \<and> length (lo_policies (fst st')) = length (lo_policies (fst st)) + length ms
     \<and> (\<forall>p \<in> set (lo_policies (fst st')) - set (lo_policies (fst st)). producible p \<and> value_wf (VMap (po_fields p)))"
proof (induction ms arbitrary: st)
  case (Cons im ms)
  obtain i m where im: "im = (i, m)" by (cases im)
  from Cons.prems(1) im obtain p ws st1 where
    p: "policy_from_mapping lib (fresh i) m (fallback_name multiple stem i) options = Ok (p, ws)" and
    st1: "admit p st = Ok st1" and rest: "load_mappings lib fresh multiple stem options ms (warn ws st1) = Ok st'"
    by (auto simp: outcome_inversions)
  have "fallback_name multiple stem i \<noteq> []" using assms(2) by (simp add: fallback_name_def)
  note good = policy_good [OF assms(1) this p]
  note step = admit_ok [OF Cons.prems(2) st1]
  from Cons.IH [OF rest] step good show ?case by (auto simp: names_ok_basic)
qed simp

lemma load_document_ok:
  assumes "yaml_laws (lib_yaml lib)" "stem \<noteq> []" "load_document lib fresh input stem options = Ok loaded"
  shows "distinct (map po_name (lo_policies loaded))"
    "p \<in> set (lo_policies loaded) \<Longrightarrow> producible p \<and> value_wf (VMap (po_fields p))"
proof -
  from assms(3) obtain multiple mappings st where
    st: "load_mappings lib fresh multiple stem options (enumerate 0 mappings) load_start = Ok st" "loaded = fst st"
    by (auto simp: load_document_def outcome_inversions)
  from load_mappings_ok [OF assms(1,2) st(1) names_ok_basic(1)] st(2)
  show "distinct (map po_name (lo_policies loaded))"
    "p \<in> set (lo_policies loaded) \<Longrightarrow> producible p \<and> value_wf (VMap (po_fields p))"
    by (auto simp: names_ok_def load_start_def split: prod.splits)
qed

lemma load_file_ok:
  assumes "yaml_laws (lib_yaml lib)" "load_policy_file lib fresh content name options = Ok loaded"
  shows "distinct (map po_name (lo_policies loaded))"
    "p \<in> set (lo_policies loaded) \<Longrightarrow> producible p \<and> value_wf (VMap (po_fields p))"
proof -
  from assms(2) obtain input stem where "stem \<noteq> []" "load_document lib fresh input stem options = Ok loaded"
    by (auto simp: load_policy_file_def outcome_inversions bind_eq_Some_conv split: if_splits)
  from load_document_ok [OF assms(1) this] show "distinct (map po_name (lo_policies loaded))"
    "p \<in> set (lo_policies loaded) \<Longrightarrow> producible p \<and> value_wf (VMap (po_fields p))" by blast+
qed

lemma load_files_ok:
  assumes lib: "yaml_laws (lib_yaml lib)"
  shows "load_files lib fresh options files st = Ok st' \<Longrightarrow> names_ok st \<Longrightarrow>
     \<forall>p \<in> set (lo_policies (fst st)). producible p \<and> value_wf (VMap (po_fields p)) \<Longrightarrow>
     names_ok st' \<and> (\<forall>p \<in> set (lo_policies (fst st')). producible p \<and> value_wf (VMap (po_fields p)))"
proof (induction files arbitrary: st)
  case (Cons f files)
  obtain path content where f: "f = (path, content)" by (cases f)
  from Cons.prems(1) f obtain loaded st1 where
    l: "load_policy_file lib (fresh path) content (Some (last path)) options = Ok loaded" and
    st1: "admit_all (lo_policies loaded) st = Ok st1" and
    rest: "load_files lib fresh options files (warn (lo_warnings loaded) st1) = Ok st'"
    by (auto simp: outcome_inversions)
  from admit_all_ok [OF st1 Cons.prems(2)] load_file_ok(2) [OF lib l] Cons.prems(3)
  show ?case by (intro Cons.IH [OF rest]) (auto simp: names_ok_basic)
qed simp

section \<open>The walk of a directory\<close>

abbreviation hidden :: "string \<Rightarrow> bool" where
  "hidden name \<equiv> starts_with ''.'' name"

definition policy_file :: "string \<Rightarrow> bool" where
  "policy_file name \<longleftrightarrow> file_extension name = Some ''yaml'' \<or> file_extension name = Some ''yml''"

text \<open>The files a directory shows: regular files with a policy extension, reached through names that are not hidden.\<close>

inductive visible_file :: "(string \<times> file_node) list \<Rightarrow> string list \<Rightarrow> (string, string) outcome \<Rightarrow> bool" where
  here: "\<lbrakk>(name, RegularFile content) \<in> set entries; \<not> hidden name; policy_file name\<rbrakk>
    \<Longrightarrow> visible_file entries [name] content"
| below: "\<lbrakk>(name, Directory sub failure) \<in> set entries; \<not> hidden name; visible_file sub path content\<rbrakk>
    \<Longrightarrow> visible_file entries (name # path) content"

inductive_simps visible_file_simps: "visible_file entries [] content" "visible_file entries (name # path) content"

text \<open>Every visible directory can be listed to its end; names are unique in every directory.\<close>

fun listable :: "file_node \<Rightarrow> bool" where
  "listable (Directory entries failure) =
     (failure = None \<and> list_all (\<lambda>(name, node). hidden name \<or> listable node) entries)"
| "listable (Untyped message) = False"
| "listable _ = True"

fun well_named :: "file_node \<Rightarrow> bool" where
  "well_named (Directory entries failure) =
     (distinct (map fst entries) \<and> list_all (\<lambda>(name, node). well_named node) entries)"
| "well_named _ = True"

fun files_below :: "string \<times> file_node \<Rightarrow> found_file list" where
  "files_below (name, RegularFile content) = (if policy_file name then [([name], content)] else [])"
| "files_below (name, Directory entries failure) =
     map (\<lambda>(path, content). (name # path, content))
       (concat (map (\<lambda>(n, node). if hidden n then [] else files_below (n, node)) entries))"
| "files_below (name, _) = []"

definition files_in :: "(string \<times> file_node) list \<Rightarrow> found_file list" where
  "files_in entries = concat (map (\<lambda>(n, node). if hidden n then [] else files_below (n, node)) entries)"

lemma files_below_simps [simp]:
  "files_below (name, Directory entries failure) = map (\<lambda>(path, content). (name # path, content)) (files_in entries)"
  by (simp add: files_in_def)

declare files_below.simps(2) [simp del]

lemma files_in_simps [simp]:
  "files_in [] = []" "files_in ((n, node) # rest) = (if hidden n then [] else files_below (n, node)) @ files_in rest"
  by (simp_all add: files_in_def)

lemma walk_exact:
  "listable node \<Longrightarrow> walk_entry prefix name node = Ok (map (\<lambda>(path, content). (prefix @ path, content)) (files_below (name, node)))"
  "list_all (\<lambda>(name, node). hidden name \<or> listable node) entries \<Longrightarrow>
     collect_policy_files prefix' entries = Ok (map (\<lambda>(path, content). (prefix' @ path, content)) (files_in entries))"
  by (induction prefix name node and prefix' entries rule: walk_entry_collect_policy_files.induct)
    (auto simp: policy_file_def o_def case_prod_unfold)

lemma files_below_hd: "(path, content) \<in> set (files_below (name, node)) \<Longrightarrow> \<exists>rest. path = name # rest"
  by (cases node) (auto split: if_splits)

lemma files_in_visible:
  "(path, content) \<in> set (files_in entries) \<longleftrightarrow> visible_file entries path content"
proof (induction path arbitrary: entries)
  case Nil
  have "([], content) \<notin> set (files_below e)" for e using files_below_hd [of "[]" content "fst e" "snd e"] by auto
  then show ?case by (auto simp: files_in_def visible_file_simps split: if_splits)
next
  case (Cons name path)
  have "(name # path, content) \<in> set (files_below (n, node)) \<longleftrightarrow>
      n = name \<and> ((path = [] \<and> node = RegularFile content \<and> policy_file name)
        \<or> (\<exists>sub failure. node = Directory sub failure \<and> visible_file sub path content))" for n node
    by (cases node) (auto simp: Cons.IH [symmetric])
  then show ?case by (auto simp: files_in_def visible_file_simps split: if_splits; blast)
qed

lemma files_distinct:
  "well_named node \<Longrightarrow> distinct (map fst (files_below (name, node)))"
  "well_named (Directory entries failure) \<Longrightarrow> distinct (map fst (files_in entries))"
proof -
  have list: "distinct (map fst (files_in entries))"
    if "distinct (map fst entries)" "\<forall>(n, node) \<in> set entries. distinct (map fst (files_below (n, node)))" for entries
    using that
  proof (induction entries)
    case (Cons e entries)
    obtain n node where e: "e = (n, node)" by (cases e)
    have "set (map fst (files_below (n, node))) \<inter> set (map fst (files_in entries)) = {}"
    proof -
      have "False" if p: "path \<in> set (map fst (files_below (n, node)))" "path \<in> set (map fst (files_in entries))" for path
      proof -
        obtain rest where "path = n # rest" using p(1) files_below_hd by fastforce
        moreover obtain m node' where "(m, node') \<in> set entries" "path \<in> set (map fst (files_below (m, node')))"
          using p(2) by (fastforce simp: files_in_def split: if_splits)
        moreover from this(2) obtain rest' where "path = m # rest'" using files_below_hd by fastforce
        ultimately show False using Cons.prems(1) e by force
      qed
      then show ?thesis by blast
    qed
    with Cons e show ?case by auto
  qed simp
  have node: "distinct (map fst (files_below (name, node)))" if "well_named node" for name node
    using that
  proof (induction node arbitrary: name)
    case (Directory entries failure)
    have "distinct (map fst (files_below (n, node)))" if "(n, node) \<in> set entries" for n node
      using that Directory.prems by (intro Directory.IH [of "(n, node)"]) (auto simp: list_all_iff)
    then have "\<forall>(n, node) \<in> set entries. distinct (map fst (files_below (n, node)))" by auto
    from list [OF _ this] Directory.prems have "distinct (map fst (files_in entries))" by simp
    then show ?case by (simp add: o_def case_prod_unfold distinct_map inj_on_def)
  qed auto
  from node show "well_named node \<Longrightarrow> distinct (map fst (files_below (name, node)))" .
  show "well_named (Directory entries failure) \<Longrightarrow> distinct (map fst (files_in entries))"
    by (rule list) (use node in \<open>auto simp: list_all_iff\<close>)
qed

lemma sorted_files_unique:
  assumes "sorted (map fst xs)" "distinct (map fst xs)" "sorted (map fst ys)" "distinct (map fst ys)" "set xs = set ys"
  shows "xs = (ys :: ('a :: linorder \<times> 'b) list)"
proof -
  have keys: "map fst xs = map fst ys"
    using assms by (intro sorted_distinct_set_unique) (simp_all add: assms(5))
  have "map_of xs = map_of ys" using assms(2,4,5) by (simp add: map_of_inject_set)
  then have "map snd xs = map snd ys"
    using assms(2,4) keys by (metis map_of_zip_inject length_map zip_map_fst_snd)
  with keys show ?thesis by (metis zip_map_fst_snd)
qed

end
