(* ===== verification/PolicyProps.thy ===== *)
theory PolicyProps
  imports PolicyLoadFacts YamlProps
begin

text \<open>
  The properties of the policy crate: what a policy produces, policy sets, and the loading of files and directories.
\<close>

section \<open>A policy with a provider\<close>

definition dhcp_policy :: policy where
  "dhcp_policy = \<lparr>po_name = ''uplink'', po_match = default_match\<lparr>match_name := Some ''eth0''\<rparr>, po_device_type = [],
     po_fields = [(''mtu'', VU64 1500), (''ipv4'', VMap [(''dhcp4'', VMap [(''route-metric'', VU64 10)])])],
     po_priority = None, po_metadata = None\<rparr>"

lemma dhcp_wf: "value_wf (VMap (po_fields dhcp_policy))"
  by (simp add: dhcp_policy_def)

lemma dhcp_producible: "producible dhcp_policy"
  by (simp add: producible_def dhcp_policy_def match_is_empty_def default_match_def state_conforms_def fragment_conforms_def
      entries_conform_def provider_lookup conforms_scalar conforms_map in_range_def semantic_type_def required_keys_def)

lemma dhcp_split:
  "static_fields dhcp_policy = [(''mtu'', VU64 1500)]"
  "providers_of dhcp_policy = [declare_provider dhcp_policy (PROVIDERS ! 0) [(''route-metric'', VU64 10)]]"
  by (simp_all add: static_fields_def providers_of_def dhcp_policy_def static_entry_def trigger_iff declared_def
      declared_key_def registration_def PROVIDERS_def)

section \<open>Production\<close>

text \<open>C26: A policy whose maps have unique keys is produced exactly when it has a name and a selector, its fields conform
  to the schema composed with the provider triggers, and it is not empty.  The production is then determined: the
  static state holds the fields without the triggers, a domain that held nothing but triggers dropped, in the
  policy's order, with its selector, type, metadata and priority (100 by default); the providers are the triggers in
  field order, each with its registry entry and its parameters.\<close>

theorem produce_exact:
  assumes "value_wf (VMap (po_fields p))"
  shows "produce md p = Ok produced \<longleftrightarrow>
     producible p
     \<and> \<not> (static_fields p = [] \<and> po_device_type p = [] \<and> providers_of p = [])
     \<and> produced = \<lparr>pr_state = (if static_fields p \<noteq> [] \<or> po_device_type p \<noteq> [] then Some (static_state md p) else None),
                   pr_providers = providers_of p\<rparr>"
  using produce_eq [OF assms] produce_rejects [of p md] by (cases "producible p") auto

theorem produce_exact_witness:
  "produce sample_md dhcp_policy =
     Ok \<lparr>pr_state = Some (static_state sample_md dhcp_policy),
         pr_providers = [declare_provider dhcp_policy (PROVIDERS ! 0) [(''route-metric'', VU64 10)]]\<rparr>"
  using produce_exact [OF dhcp_wf] dhcp_producible by (simp add: dhcp_split)

text \<open>Producing a policy whose maps have unique keys never panics: the composed registry builds, validation returns,
  and after it every trigger is a map still in its domain, so the \<open>expect\<close> and the \<open>unreachable!\<close> of the code are not
  reached.  A policy that passes the checks fails only for being empty.\<close>

theorem produce_never_panics:
  assumes "value_wf (VMap (po_fields p))"
  shows "produce md p \<noteq> Panic \<and> (producible p \<longrightarrow> produce md p \<noteq> Err e \<or> e = EmptyPolicy)"
  using produce_eq [OF assms] produce_rejects [of p md] by (cases "producible p") auto

theorem produce_never_panics_witness:
  "produce sample_md dhcp_policy \<noteq> Panic \<and> produce sample_md dhcp_policy \<noteq> Err EmptyName"
  using produce_never_panics [OF dhcp_wf, of sample_md EmptyName] dhcp_producible by simp

lemma entries_conform_extended:
  assumes "entries_conform wo (set_properties (properties_or_new n @ [(k0, n0)]) n) m ign" "\<not> im_contains m k0"
  shows "entries_conform wo n m ign"
proof -
  define n' where "n' = set_properties (properties_or_new n @ [(k0, n0)]) n"
  have same: "node_property n' k = node_property n k" if "k \<noteq> k0" for k
    using that by (simp add: n'_def map_add_def split: option.split)
  have flags: "is_open n' = is_open n" "required_keys n' = required_keys n"
    by (cases n; simp add: n'_def is_open_def required_keys_def)+
  have other: "k \<noteq> k0" if "(k, v) \<in> set m" for k v using assms(2) that by (force simp: im_contains_iff)
  have old: "entries_conform wo n' m ign" using assms(1) by (simp only: n'_def)
  have "case node_property n k of Some p \<Rightarrow> (wo \<longrightarrow> sn_writable p) \<and> conforms wo p v | None \<Rightarrow> is_open n"
    if "(k, v) \<in> set m" "k \<notin> set ign" for k v
    using old that unfolding entries_conform_def same [OF other [OF that(1)], symmetric] flags(1) [symmetric] by blast
  with old flags(2) show ?thesis by (auto simp: entries_conform_def)
qed

lemma two_registries:
  obtains base ipv4 ethernet base' ipv4' where
    "fragments embedded_registry = [base, ipv4, ethernet]" "fragments provider_registry = [base', ipv4', ethernet]"
    "fr_trigger base = None" "fr_trigger base' = None" "fr_trigger ipv4 = Some ''ipv4''" "fr_trigger ipv4' = Some ''ipv4''"
    "fr_root base' = set_properties (properties_or_new (fr_root base) @ [(''ipv6'', ipv6_node)]) (fr_root base)"
    "fr_root ipv4' = set_properties (properties_or_new (fr_root ipv4) @ [(''dhcp4'', DHCP4_SCHEMA)]) (fr_root ipv4)"
    "trigger_keys embedded_registry = trigger_keys provider_registry"
    "node_property (fr_root base') ''type'' = node_property (fr_root base) ''type''"
    "fr_trigger ethernet \<noteq> None"
proof -
  let ?e = "fragments embedded_registry" and ?p = "fragments provider_registry"
  show thesis
    by (rule that [of "?e ! 0" "?e ! 1" "?e ! 2" "?p ! 0" "?p ! 1"])
      (simp_all add: provider_registry_def embedded_registry_def trigger_keys_def List.map_filter_def
        node_property_def embedded_json_defs properties_or_new_def)
qed

lemma provider_to_embedded:
  assumes c: "state_conforms True provider_registry st" and ipv6: "\<not> im_contains (st_fields st) ''ipv6''"
    and dhcp4: "\<And>m. im_get (st_fields st) ''ipv4'' = Some (VMap m) \<Longrightarrow> \<not> im_contains m ''dhcp4''"
  shows "state_conforms True embedded_registry st"
proof (rule two_registries)
  fix base ipv4 ethernet base' ipv4'
  assume f: "fragments embedded_registry = [base, ipv4, ethernet]" "fragments provider_registry = [base', ipv4', ethernet]"
    "fr_trigger base = None" "fr_trigger base' = None" "fr_trigger ipv4 = Some ''ipv4''" "fr_trigger ipv4' = Some ''ipv4''"
    "fr_root base' = set_properties (properties_or_new (fr_root base) @ [(''ipv6'', ipv6_node)]) (fr_root base)"
    "fr_root ipv4' = set_properties (properties_or_new (fr_root ipv4) @ [(''dhcp4'', DHCP4_SCHEMA)]) (fr_root ipv4)"
    "trigger_keys embedded_registry = trigger_keys provider_registry"
    "node_property (fr_root base') ''type'' = node_property (fr_root base) ''type''"
    "fr_trigger ethernet \<noteq> None"
  from c f(2) have old: "fragment_conforms True provider_registry st base'" "fragment_conforms True provider_registry st ipv4'"
    "fragment_conforms True provider_registry st ethernet" by (simp_all add: state_conforms_def)
  have "fragment_conforms True embedded_registry st base"
  proof -
    from old(1) f(4) have "entries_conform True (fr_root base') (st_fields st) (trigger_keys provider_registry)"
      by (simp add: fragment_conforms_def)
    then have "entries_conform True (fr_root base) (st_fields st) (trigger_keys embedded_registry)"
      unfolding f(7,9) by (rule entries_conform_extended [OF _ ipv6])
    with old(1) f(3,4,10) show ?thesis by (simp add: fragment_conforms_def)
  qed
  moreover have "fragment_conforms True embedded_registry st ipv4"
  proof (cases "im_get (st_fields st) ''ipv4''")
    case (Some v)
    with old(2) f(6) obtain inner where inner: "v = VMap inner" "entries_conform True (fr_root ipv4') inner []"
      by (auto simp: fragment_conforms_def)
    have "entries_conform True (fr_root ipv4) inner []"
      using inner(2) unfolding f(8) by (rule entries_conform_extended) (use Some inner(1) dhcp4 in blast)
    with Some inner(1) f(5) show ?thesis by (simp add: fragment_conforms_def)
  qed (use f(5) in \<open>simp add: fragment_conforms_def\<close>)
  moreover have "fragment_conforms True embedded_registry st ethernet"
    using old(3) f(11) by (auto simp: fragment_conforms_def)
  ultimately show ?thesis by (simp add: state_conforms_def f(1))
qed

lemma static_state_sel [simp]: "st_fields (static_state md p) = static_fields p" "device_type (static_state md p) = po_device_type p"
  by (simp_all add: static_state_def)

lemma valid_iff: "wf_registry reg \<Longrightarrow> validate_writable reg st = Some [] \<longleftrightarrow> state_conforms True reg st"
  unfolding validate_writable_def by (rule validate_inner_conforms)

text \<open>The static state a policy produces is final: it is valid in policy mode for the composed schema, also for the
  schema without providers when it has no \<open>ipv6\<close> entry, and a policy made of its fields produces the same state
  and no provider.\<close>

theorem produced_state_is_final:
  assumes "value_wf (VMap (po_fields p))" and "produce md p = Ok produced" and "pr_state produced = Some st"
  shows "validate_writable provider_registry st = Some []
    \<and> (im_contains (st_fields st) ''ipv6'' \<or> validate_writable embedded_registry st = Some [])
    \<and> produce md (p\<lparr>po_fields := st_fields st\<rparr>) = Ok \<lparr>pr_state = Some st, pr_providers = []\<rparr>"
proof -
  have ok: "producible p" using assms(2) produce_rejects [of p md] by auto
  then have st: "st = static_state md p" "static_fields p \<noteq> [] \<or> po_device_type p \<noteq> []"
    using assms produce_eq [OF assms(1) ok, of md] by (auto split: if_splits)
  have c: "state_conforms True provider_registry st"
    unfolding st(1) by (rule static_conforms) (use assms(1) ok producible_iff in auto)
  have "\<not> im_contains m ''dhcp4''" if "im_get (st_fields st) ''ipv4'' = Some (VMap m)" for m
  proof -
    from that have "(''ipv4'', VMap m) \<in> set (static_fields p)" unfolding st(1) by (auto dest: map_of_SomeD)
    from static_fields_in [OF this] obtain v where "VMap m = static_value ''ipv4'' v" by blast
    then show ?thesis by (cases v) (auto simp: static_value_def im_contains_iff trigger_iff)
  qed
  with provider_to_embedded [OF c] c
  have valid: "validate_writable provider_registry st = Some []"
    "im_contains (st_fields st) ''ipv6'' \<or> validate_writable embedded_registry st = Some []"
    by (auto simp: valid_iff provider_registry_wf embedded_wf)
  let ?p = "p\<lparr>po_fields := static_fields p\<rparr>"
  have "producible ?p" using ok c conforms_cong [of "candidate_state md ?p" st True provider_registry] st(1)
    by (simp add: producible_iff [of _ md])
  moreover have "value_wf (VMap (po_fields ?p))" using static_fields_wf [OF assms(1)] by simp
  ultimately have "produce md ?p = Ok \<lparr>pr_state = Some (static_state md ?p), pr_providers = []\<rparr>"
    using produce_eq [of ?p md] st(2) by (simp add: static_again)
  moreover have "static_state md ?p = static_state md p" by (simp add: static_state_def static_again)
  ultimately show ?thesis using valid st(1) by simp
qed

theorem produced_state_is_final_witness:
  "produce sample_md (dhcp_policy\<lparr>po_fields := [(''mtu'', VU64 1500)]\<rparr>)
     = Ok \<lparr>pr_state = Some (static_state sample_md dhcp_policy), pr_providers = []\<rparr>"
proof -
  let ?r = "\<lparr>pr_state = Some (static_state sample_md dhcp_policy), pr_providers = providers_of dhcp_policy\<rparr>"
  have "produce sample_md dhcp_policy = Ok ?r"
    using produce_eq [OF dhcp_wf dhcp_producible] by (simp add: dhcp_split)
  from produced_state_is_final [OF dhcp_wf this] show ?thesis by (simp add: dhcp_split)
qed

section \<open>Policy sets\<close>

text \<open>A set after a sequence of calls of \<open>insert\<close>, failed ones included, and what the sequence stores.\<close>

definition inserted :: "policy list \<Rightarrow> policy_set" where
  "inserted ps = fold (\<lambda>p s. snd (insert_policy p s)) ps \<lparr>policies = []\<rparr>"

fun stored :: "string list \<Rightarrow> policy list \<Rightarrow> policy list" where
  "stored known [] = []"
| "stored known (p # ps) =
     (if po_name p = [] \<or> po_name p \<in> set known then stored known ps else p # stored (po_name p # known) ps)"

lemma insert_policy_eq:
  "insert_policy p s =
     (if po_name p = [] then (Err EmptyName, s)
      else if im_contains (policies s) (po_name p) then (Err (DuplicateName (po_name p)), s)
      else (Ok (), \<lparr>policies = policies s @ [(po_name p, p)]\<rparr>))"
proof -
  have "im_insert m k v = m @ [(k, v)]" if "\<not> im_contains m k" for m :: "(string, policy) imap" and k v
    using that by (induction m) (auto simp: im_contains_iff)
  then show ?thesis by (simp add: insert_policy_def alift_def amodify_def)
qed

lemma stored_cong: "set known = set known' \<Longrightarrow> stored known ps = stored known' ps"
proof (induction ps arbitrary: known known')
  case (Cons p ps)
  have "set (po_name p # known) = set (po_name p # known')" using Cons.prems by simp
  from Cons.IH [OF this] Cons.IH [OF Cons.prems] Cons.prems show ?case by simp
qed simp

lemma inserted_from:
  "policies (fold (\<lambda>p s. snd (insert_policy p s)) ps s) =
     policies s @ map (\<lambda>p. (po_name p, p)) (stored (im_keys (policies s)) ps)"
proof (induction ps arbitrary: s)
  case (Cons p ps)
  show ?case
  proof (cases "po_name p = [] \<or> po_name p \<in> set (im_keys (policies s))")
    case True
    then show ?thesis using Cons.IH by (auto simp: insert_policy_eq im_contains_iff)
  next
    case False
    have "stored (im_keys (policies s) @ [po_name p]) ps = stored (po_name p # im_keys (policies s)) ps"
      by (rule stored_cong) auto
    with False Cons.IH show ?thesis by (auto simp: insert_policy_eq im_contains_iff)
  qed
qed simp

lemma stored_distinct: "distinct (map po_name (stored known ps)) \<and> set (map po_name (stored known ps)) \<inter> set known = {}
    \<and> [] \<notin> set (map po_name (stored known ps))"
proof (induction ps arbitrary: known)
  case (Cons p ps)
  from Cons.IH [of known] Cons.IH [of "po_name p # known"] show ?case by auto
qed simp

text \<open>After any sequence of insertions into an empty policy set, failed ones included, the set holds, in the order
  of the calls, the first policy of every non-empty name and nothing else; its keys are the names, unique and
  non-empty.\<close>

theorem policy_set_keeps_first:
  "policies (inserted ps) = map (\<lambda>p. (po_name p, p)) (stored [] ps)
   \<and> im_wf (policies (inserted ps)) \<and> \<not> im_contains (policies (inserted ps)) []"
  using inserted_from [of ps "\<lparr>policies = []\<rparr>"] stored_distinct [of "[]" ps]
  by (auto simp: inserted_def im_contains_iff o_def)

definition productions :: "(nat \<Rightarrow> state_metadata) \<Rightarrow> policy_set \<Rightarrow> (production list, policy_error) outcome" where
  "productions fresh s = otraverse (\<lambda>(i, p). produce (fresh i) p) (enumerate 0 (map snd (policies s)))"

lemma produce_from_eq:
  "produce_from fresh ps acc =
     omap (\<lambda>prods. \<lparr>all_states = all_states acc @ List.map_filter pr_state prods,
                    all_providers = all_providers acc @ concat (map pr_providers prods)\<rparr>)
       (otraverse (\<lambda>(i, p). produce (fresh i) p) ps)"
proof (induction ps arbitrary: acc)
  case (Cons ip ps)
  obtain i p where ip: "ip = (i, p)" by (cases ip)
  show ?case
  proof (cases "produce (fresh i) p")
    case (Ok prod)
    show ?thesis
      by (cases "otraverse (\<lambda>(i, p). produce (fresh i) p) ps")
        (simp_all add: ip Ok Cons.IH omap_def map_filter_simps split: option.split)
  qed (simp_all add: ip omap_def)
qed (simp add: omap_def map_filter_simps)

text \<open>Producing a policy set returns an outcome exactly when every policy in it is produced, and the outcome is the
  concatenation, in insertion order, of their static states and of their providers.\<close>

theorem produce_all_is_atomic:
  "produce_all fresh s = omap (\<lambda>prods. \<lparr>all_states = List.map_filter pr_state prods,
     all_providers = concat (map pr_providers prods)\<rparr>) (productions fresh s)"
  by (simp add: produce_all_def productions_def produce_from_eq)

section \<open>Loading\<close>

lemma stored_all: "distinct (map po_name ps) \<Longrightarrow> [] \<notin> set (map po_name ps) \<Longrightarrow>
     set (map po_name ps) \<inter> set known = {} \<Longrightarrow> stored known ps = ps"
  by (induction ps arbitrary: known) auto

text \<open>C25: The policies loaded from a directory can be used as they are: their names are unique, inserting them in
  order into a policy set stores them all, and producing each of them succeeds unless it is an empty policy.  This
  assumes the documented laws of the YAML library.\<close>

theorem loaded_policies_produce:
  assumes "yaml_laws (lib_yaml lib)" and "load_policy_dir lib fresh entries failure options = Ok loaded"
  shows "distinct (map po_name (lo_policies loaded))
    \<and> policies (inserted (lo_policies loaded)) = map (\<lambda>p. (po_name p, p)) (lo_policies loaded)
    \<and> (\<forall>p \<in> set (lo_policies loaded). (\<exists>produced. produce md p = Ok produced) \<or> produce md p = Err EmptyPolicy)"
proof -
  from assms(2) obtain files st where
    st: "load_files lib fresh options files load_start = Ok st" "loaded = fst st"
    by (auto simp: load_policy_dir_def outcome_inversions)
  from load_files_ok [OF assms(1) st(1) names_ok_basic(1)] st(2)
  have ok: "distinct (map po_name (lo_policies loaded))"
    "\<forall>p \<in> set (lo_policies loaded). producible p \<and> value_wf (VMap (po_fields p))"
    by (auto simp: names_ok_def load_start_def split: prod.splits)
  then have "stored [] (lo_policies loaded) = lo_policies loaded"
    by (intro stored_all) (auto simp: producible_def)
  then have "policies (inserted (lo_policies loaded)) = map (\<lambda>p. (po_name p, p)) (lo_policies loaded)"
    using inserted_from [of "lo_policies loaded" "\<lparr>policies = []\<rparr>"] by (simp add: inserted_def)
  moreover have "(\<exists>produced. produce md p = Ok produced) \<or> produce md p = Err EmptyPolicy"
    if "p \<in> set (lo_policies loaded)" for p
    using ok(2) that produce_eq [of p md] by auto
  ultimately show ?thesis using ok(1) by blast
qed

definition sample_policy_lib :: "int policy_lib" where
  "sample_policy_lib = \<lparr>lib_yaml = sample_lib, value_as_i64 = (\<lambda>_. None)\<rparr>"

definition sample_dir :: "(string \<times> file_node) list" where
  "sample_dir = [(''wan.yml'', RegularFile (Ok ''policy'')), (''.git'', Untyped ''unreadable''),
     (''lan.yaml'', RegularFile (Ok ''policy'')), (''notes.txt'', Symlink)]"

definition sample_policy :: "string \<Rightarrow> policy" where
  "sample_policy name = \<lparr>po_name = name,
     po_match = default_match\<lparr>match_name := Some ''eth0'', match_type := Some ''ethernet''\<rparr>, po_device_type = [],
     po_fields = [(''mtu'', VU64 1500)], po_priority = None, po_metadata = None\<rparr>"

lemma sample_state_valid:
  "device_type st = [] \<Longrightarrow> st_fields st = [(''mtu'', VU64 1500)] \<Longrightarrow> state_conforms True provider_registry st"
  by (simp add: state_conforms_def fragment_conforms_def
      entries_conform_def provider_lookup conforms_scalar in_range_def semantic_type_def required_keys_def)

definition sample_read :: "state_metadata \<Rightarrow> dev_state" where
  "sample_read md = \<lparr>device_type = [], st_match = default_match\<lparr>match_name := Some ''eth0'', match_type := Some ''ethernet''\<rparr>,
     st_fields = [(''mtu'', VU64 1500)], st_source = Static [], st_priority = 100, st_metadata = md\<rparr>"

lemma sample_mapping:
  "mapping_to_state sample_lib provider_registry
     [(YString ''match'', YMapping [(YString ''name'', YString ''eth0''), (YString ''type'', YString ''ethernet'')]),
      (YString ''mtu'', YNumber 1500)] md = Ok (sample_read md)"
proof -
  have schema: "top_level_schema provider_registry ''mtu'' \<noteq> None"
    by (simp add: top_level_schema_def base_fragment_def provider_lookup)
  have "implied_device_type provider_registry [(''mtu'', VU64 1500)] = None"
    by (simp add: provider_lookup implied_device_type_def im_contains_def)
  with schema show ?thesis
    by (auto simp: mapping_to_state_def parse_match_def sample_lib_def sample_read_def)
qed

definition policy_entries :: "(int yaml \<times> int yaml) list" where
  "policy_entries =
     [(YString ''match'', YMapping [(YString ''name'', YString ''eth0''), (YString ''type'', YString ''ethernet'')]),
      (YString ''mtu'', YNumber 1500)]"

lemma sample_yaml:
  "yaml_read sample_lib ''policy'' = Ok (YMapping policy_entries)"
  "yaml_print sample_lib (YMapping policy_entries) = Ok ''policy''"
  by (simp_all add: sample_lib_def policy_doc_def query_doc_def policy_entries_def)

lemma sample_from_yaml: "from_yaml_with_registry sample_lib fresh ''policy'' provider_registry = Ok [sample_read (fresh 0)]"
  using sample_mapping [of "fresh 0"]
  by (simp add: from_yaml_with_registry_def sample_yaml ascii_space_def wide_spaces_def policy_entries_def)

lemma sample_from_mapping:
  "policy_from_mapping sample_policy_lib fresh policy_entries name options = Ok (sample_policy name, [])"
proof -
  have candidate: "candidate_entries sample_policy_lib False policy_entries = policy_entries"
    by (simp add: candidate_entries_def sample_policy_lib_def sample_lib_def policy_entries_def)
  have absent: "mapping_get policy_entries ''kind'' = None" "mapping_get policy_entries ''priority'' = None"
    "mapping_get policy_entries ''metadata'' = None"
    by (simp_all add: mapping_get_def policy_entries_def)
  have valid: "validate_policy_state (sample_read (fresh 0)) provider_registry = Ok ()"
    using validated sample_state_valid [of "sample_read (fresh 0)"] by (simp add: sample_read_def)
  have nonempty: "\<not> match_is_empty (st_match (sample_read (fresh 0)))" by (simp add: sample_read_def match_is_empty_def)
  have lib: "lib_yaml sample_policy_lib = sample_lib" by (simp add: sample_policy_lib_def)
  show ?thesis
    by (simp add: policy_from_mapping_def absent is_explicit_def policy_name_def read_metadata_def omap_def provider_schemas_eq
        candidate lib sample_yaml sample_from_yaml pop_last_def policy_state_of_def valid nonempty)
      (simp add: sample_policy_def sample_read_def)
qed

lemma sample_load:
  "load_policy_file sample_policy_lib fresh (Ok ''policy'') (Some (name @ CHR ''.'' # extension)) options
     = Ok \<lparr>lo_policies = [sample_policy name], lo_warnings = []\<rparr>"
  if "CHR ''.'' \<notin> set extension" "name \<noteq> []" "from_utf8 name" "name \<noteq> ''.''"
proof -
  have split: "rsplit_dot (pre @ CHR ''.'' # extension) = Some (pre, extension)" for pre
  proof -
    have "rsplit_dot extension = None" using that(1) by (induction extension) auto
    then show ?thesis by (induction pre) auto
  qed
  have stem: "file_stem (name @ CHR ''.'' # extension) = name"
    using split [of name] that by (auto simp: file_stem_def append_eq_Cons_conv)
  have lib: "lib_yaml sample_policy_lib = sample_lib" by (simp add: sample_policy_lib_def)
  show ?thesis
    using that(2,3)
    by (simp add: load_policy_file_def stem load_document_def lib sample_yaml document_mappings_def sample_from_mapping
        admit_def load_start_def im_contains_def warn_def fallback_name_def omap_def)
qed

definition sample_files :: "found_file list" where
  "sample_files = [([''lan.yaml''], Ok ''policy''), ([''wan.yml''], Ok ''policy'')]"

lemma sample_visible: "files_in sample_dir = rev sample_files"
  by (simp add: files_in_def sample_dir_def sample_files_def policy_file_def file_extension_def)

lemma sample_named: "well_named (Directory sample_dir None)" "listable (Directory sample_dir None)"
  by (simp_all add: sample_dir_def)

lemma sample_files_loaded:
  "omap fst (load_files sample_policy_lib fresh options sample_files load_start)
     = Ok \<lparr>lo_policies = [sample_policy ''lan'', sample_policy ''wan''], lo_warnings = []\<rparr>"
proof -
  have names: "from_utf8 ''lan''" "from_utf8 ''wan''" by (simp_all add: byte_in_def)
  show ?thesis
    using sample_load [of "''yaml''" "''lan''" "fresh [''lan.yaml'']" options]
      sample_load [of "''yml''" "''wan''" "fresh [''wan.yml'']" options] names
    by (simp add: sample_files_def admit_def load_start_def im_contains_def warn_def omap_def sample_policy_def)
qed

text \<open>C27: Loading a directory whose visible directories can be listed loads its visible policy files, and no others,
  in the lexical order of their paths: whatever the order of the listings, the result is that of loading, one after
  the other, the sorted list of the regular \<open>.yaml\<close> and \<open>.yml\<close> files that are reached without a hidden name or a
  symbolic link.\<close>

theorem directory_loads_visible_files:
  assumes "well_named (Directory entries None)" and "listable (Directory entries None)"
    and "sorted (map fst files)" and "distinct (map fst files)"
    and "\<And>path content. (path, content) \<in> set files \<longleftrightarrow> visible_file entries path content"
  shows "load_policy_dir lib fresh entries None options = omap fst (load_files lib fresh options files load_start)"
proof -
  have "collect_policy_files [] entries = Ok (files_in entries)"
    using walk_exact(2) [of entries "[]"] assms(2) by simp
  moreover have "sort_key fst (files_in entries) = files"
  proof (rule sorted_files_unique)
    show "distinct (map fst (sort_key fst (files_in entries)))"
      using files_distinct(2) [OF assms(1)] by (simp add: distinct_map)
    show "set (sort_key fst (files_in entries)) = set files"
      using files_in_visible assms(5) by auto
  qed (use assms(3,4) in simp_all)
  ultimately show ?thesis by (simp add: load_policy_dir_def)
qed

theorem directory_loads_visible_files_witness:
  "load_policy_dir sample_policy_lib (\<lambda>_ _ _. sample_md) sample_dir None MatchByName
     = Ok \<lparr>lo_policies = [sample_policy ''lan'', sample_policy ''wan''], lo_warnings = []\<rparr>"
proof -
  have "(path, content) \<in> set sample_files \<longleftrightarrow> visible_file sample_dir path content" for path content
    unfolding files_in_visible [symmetric] sample_visible by simp
  moreover have "sorted (map fst sample_files)" "distinct (map fst sample_files)" by (simp_all add: sample_files_def)
  ultimately show ?thesis
    using directory_loads_visible_files [OF sample_named, of sample_files sample_policy_lib "\<lambda>_ _ _. sample_md" MatchByName]
      sample_files_loaded [of "\<lambda>_ _ _. sample_md" MatchByName] by simp
qed

lemma sample_dir_loaded:
  "load_policy_dir sample_policy_lib fresh sample_dir None options
     = Ok \<lparr>lo_policies = [sample_policy ''lan'', sample_policy ''wan''], lo_warnings = []\<rparr>"
proof -
  have "collect_policy_files [] sample_dir = Ok (rev sample_files)"
    using walk_exact(2) [of sample_dir "[]"] sample_named(2) by (simp add: sample_visible)
  moreover have "sort_key fst (rev sample_files) = sample_files" by (simp add: sample_files_def)
  ultimately show ?thesis
    using sample_files_loaded [of fresh options] by (simp add: load_policy_dir_def)
qed

theorem loaded_policies_produce_witness:
  "distinct [''lan'', ''wan'']
   \<and> ((\<exists>produced. produce sample_md (sample_policy ''lan'') = Ok produced)
      \<or> produce sample_md (sample_policy ''lan'') = Err EmptyPolicy)"
proof -
  have "yaml_laws (lib_yaml sample_policy_lib)" using sample_laws by (simp add: sample_policy_lib_def)
  from loaded_policies_produce [OF this sample_dir_loaded] show ?thesis by simp
qed

end
