(* ===== verification/Netlink.thy ===== *)
theory Netlink
  imports Report
begin

text \<open>
  \<open>crates/netfyr-backend/src/linux.rs\<close>, the exchange of netlink messages: the strict codec, the kinds of exchange,
  the collection of a response, errors with their extended acknowledgement, and the C data of the ioctls.

  Bytes are a \<open>string\<close>.  The netlink crates are parameters: a \<open>netlink_lib\<close> is what the code uses of them, the
  length and the parser of a packet, the iterator over attributes, the byte order of the machine and the text of an
  \<open>Utf8Error\<close>.  The flag
  words are the constants of the kernel's netlink interface.
\<close>

section \<open>Messages\<close>

record route_packet =
  pk_kind :: u16
  pk_body :: string

text \<open>The payload of the codec: \<open>serialize\<close> copies the body to a buffer, and panics (\<open>None\<close>) when their lengths differ.\<close>

definition packet_buffer_len :: "route_packet \<Rightarrow> nat" where
  "packet_buffer_len packet = length (pk_body packet)"

definition packet_serialize :: "route_packet \<Rightarrow> string \<Rightarrow> string option" where
  "packet_serialize packet buffer = (if length buffer = length (pk_body packet) then Some (pk_body packet) else None)"

definition packet_deserialize :: "u16 \<Rightarrow> string \<Rightarrow> route_packet" where
  "packet_deserialize message_type body = \<lparr>pk_kind = message_type, pk_body = body\<rparr>"

lemma packet_read_back:
  "map_option (packet_deserialize (pk_kind packet)) (packet_serialize packet (replicate (packet_buffer_len packet) (CHR 0x00)))
     = Some packet"
  by (simp add: packet_buffer_len_def packet_serialize_def packet_deserialize_def)

text \<open>\<open>em_io\<close> is \<open>ErrorMessage::to_io\<close>, \<open>done_io\<close> the \<open>io::Error\<close> of the code without its sign.\<close>

record error_message =
  em_code :: "int option"
  em_header :: string
  em_io :: io_error

record done_message =
  done_code :: int
  done_extack :: string
  done_io :: io_error

datatype netlink_payload =
    InnerMessage route_packet
  | ErrorPayload error_message
  | DonePayload done_message
  | NoopPayload
  | OverrunPayload
  | OtherPayload

record netlink_message =
  nm_flags :: u16
  nm_payload :: netlink_payload

definition NLM_F_REQUEST :: u16 where "NLM_F_REQUEST = 0x1"
definition NLM_F_ACK :: u16 where "NLM_F_ACK = 0x4"
definition NLM_F_DUMP_INTR :: u16 where "NLM_F_DUMP_INTR = 0x10"
definition NLM_F_DUMP :: u16 where "NLM_F_DUMP = 0x300"
definition NLM_F_REPLACE :: u16 where "NLM_F_REPLACE = 0x100"
definition NLM_F_EXCL :: u16 where "NLM_F_EXCL = 0x200"
definition NLM_F_CREATE :: u16 where "NLM_F_CREATE = 0x400"
definition NLM_F_CAPPED :: u16 where "NLM_F_CAPPED = 0x100"
definition NLM_F_ACK_TLVS :: u16 where "NLM_F_ACK_TLVS = 0x200"
definition RTM_NEWLINK :: u16 where "RTM_NEWLINK = 16"
definition RTM_DELLINK :: u16 where "RTM_DELLINK = 17"
definition RTM_NEWADDR :: u16 where "RTM_NEWADDR = 20"
definition NLMSGERR_ATTR_MSG :: u16 where "NLMSGERR_ATTR_MSG = 1"

definition flag_set :: "u16 \<Rightarrow> u16 \<Rightarrow> bool" where
  "flag_set flags flag = (and flags flag \<noteq> 0)"

section \<open>The codec\<close>

record nla =
  nla_kind :: u16
  nla_value :: string

record netlink_lib =
  checked_length :: "string \<Rightarrow> string + u32"
  parse_message :: "string \<Rightarrow> string + netlink_message"
  nlas :: "string \<Rightarrow> (string + nla) list"
  ne_u32 :: "string \<Rightarrow> u32"
  utf8_error_text :: "string \<Rightarrow> string"

text \<open>\<open>NetlinkBuffer::new_checked\<close>: the buffer holds the packet its header announces, at least the header itself.\<close>

definition checked_laws :: "netlink_lib \<Rightarrow> bool" where
  "checked_laws lib \<longleftrightarrow>
     (\<forall>source size. checked_length lib source = Inr size \<longrightarrow> 16 \<le> unat size \<and> unat size \<le> length source)"

text \<open>\<open>usize\<close> has 64 bits; \<open>NLA_ALIGNTO\<close> is 4.\<close>

definition checked_add :: "u64 \<Rightarrow> u64 \<Rightarrow> u64 option" where
  "checked_add a b = (if a > - 1 - b then None else Some (a + b))"

definition align :: "u64 \<Rightarrow> u64 option" where
  "align len = map_option (\<lambda>n. and n (not 3)) (checked_add len 3)"

definition split_to :: "nat \<Rightarrow> string \<Rightarrow> (string \<times> string) option" where
  "split_to n source = (if n \<le> length source then Some (take n source, drop n source) else None)"

text \<open>A slice \<open>[..n]\<close>; \<open>None\<close> is its panic.\<close>

definition prefix_slice :: "string \<Rightarrow> nat \<Rightarrow> string option" where
  "prefix_slice data n = (if n \<le> length data then Some (take n data) else None)"

text \<open>\<open>StrictCodec::decode\<close> on the buffer; an \<open>InvalidData\<close> error is its text.\<close>

definition decode_packet :: "netlink_lib \<Rightarrow> (netlink_message option, string, string) action" where
  "decode_packet lib =
     abind (aget (\<lambda>source. source = [])) (\<lambda>empty.
     if empty then areturn None
     else
       abind (aget (checked_length lib)) (\<lambda>checked.
       abind (alift (of_sum checked)) (\<lambda>size.
       abind (alift (ok_or (align (ucast size)) ''netlink message length overflow'')) (\<lambda>aligned_size.
       abind (aget (\<lambda>source. split_to (min (unat aligned_size) (length source)) source)) (\<lambda>split.
       abind (alift (expect split)) (\<lambda>(data, rest).
       abind (amodify (\<lambda>_. rest)) (\<lambda>_.
       abind (alift (expect (prefix_slice data (unat size)))) (\<lambda>packet.
       abind (alift (of_sum (parse_message lib packet))) (\<lambda>message.
       areturn (Some message))))))))))"

section \<open>Errors\<close>

text \<open>An \<open>io::Error\<close> of kind \<open>InvalidData\<close>; \<open>CStr::from_bytes_until_nul\<close> and \<open>to_str\<close>.\<close>

definition invalid_data :: "string \<Rightarrow> io_error" where
  "invalid_data message = \<lparr>raw_os_error = None, io_message = message\<rparr>"

definition until_nul :: "string \<Rightarrow> string option" where
  "until_nul bytes = (if CHR 0x00 \<in> set bytes then Some (takeWhile (\<lambda>c. c \<noteq> CHR 0x00) bytes) else None)"

definition c_string :: "netlink_lib \<Rightarrow> string \<Rightarrow> (string option, io_error) outcome" where
  "c_string lib bytes =
     obind (ok_or (until_nul bytes) (invalid_data ''data provided does not contain a nul'')) (\<lambda>s.
     if from_utf8 s then Ok (if s \<noteq> [] then Some s else None)
     else Err (invalid_data (utf8_error_text lib s)))"

definition extack_message :: "netlink_lib \<Rightarrow> string \<Rightarrow> string option" where
  "extack_message lib attributes =
     (let valid = List.map_filter (\<lambda>r. case r of Inr a \<Rightarrow> Some a | Inl _ \<Rightarrow> None)
        (takeWhile (\<lambda>r. case r of Inr _ \<Rightarrow> True | Inl _ \<Rightarrow> False) (nlas lib attributes)) in
      Option.bind (List.find (\<lambda>a. nla_kind a = NLMSGERR_ATTR_MSG) valid) (\<lambda>a.
      case c_string lib (nla_value a) of Ok (Some s) \<Rightarrow> Some s | _ \<Rightarrow> None))"

definition suffix_slice :: "string \<Rightarrow> u64 \<Rightarrow> string option" where
  "suffix_slice data start = (if unat start \<le> length data then Some (drop (unat start) data) else None)"

definition netlink_error :: "netlink_lib \<Rightarrow> backend_error_kind \<Rightarrow> error_message \<Rightarrow> u16 \<Rightarrow> backend_error" where
  "netlink_error lib fallback err flags =
     (let result = from_io fallback (em_io err) in
      if flag_set flags NLM_F_ACK_TLVS then
        (let offset = (if flag_set flags NLM_F_CAPPED then 16
                       else if 4 \<le> length (em_header err) then ucast (ne_u32 lib (take 4 (em_header err)))
                       else 0) in
         (case Option.bind (align offset) (suffix_slice (em_header err)) of
            Some attributes \<Rightarrow> result\<lparr>be_extack := extack_message lib attributes\<rparr>
          | None \<Rightarrow> result))
      else result)"

section \<open>Exchanges\<close>

datatype exchange = Dump | Read | Write

fun exchange_flags :: "exchange \<Rightarrow> u16" where
  "exchange_flags Dump = or NLM_F_REQUEST NLM_F_DUMP"
| "exchange_flags _ = or NLM_F_REQUEST NLM_F_ACK"

fun rejected :: "exchange \<Rightarrow> backend_error_kind" where
  "rejected Write = ApplyFailed"
| "rejected _ = QueryFailed"

fun unconfirmed_kind :: "exchange \<Rightarrow> backend_error_kind" where
  "unconfirmed_kind Write = OutcomeUnknown"
| "unconfirmed_kind _ = QueryFailed"

text \<open>The loop of \<open>collect_response\<close> over the messages of the stream and the packets so far.\<close>

fun collect_response ::
  "netlink_lib \<Rightarrow> exchange \<Rightarrow> netlink_message list \<Rightarrow> route_packet list \<Rightarrow> (route_packet list, backend_error) outcome" where
  "collect_response lib exchange [] packets =
     Err (error_new (unconfirmed_kind exchange) ''netlink transport closed before confirmed completion'')"
| "collect_response lib exchange (message # stream) packets =
     (if flag_set (nm_flags message) NLM_F_DUMP_INTR then
        Err (error_new (rejected exchange) ''kernel interrupted the netlink dump'')
      else
        (case nm_payload message of
           InnerMessage packet \<Rightarrow> collect_response lib exchange stream (packets @ [packet])
         | ErrorPayload err \<Rightarrow>
             if em_code err \<noteq> None then Err (netlink_error lib (rejected exchange) err (nm_flags message))
             else if exchange \<noteq> Dump then Ok packets
             else collect_response lib exchange stream packets
         | DonePayload completed \<Rightarrow>
             if exchange = Dump then
               if done_code completed \<noteq> 0 then
                 Err ((from_io (rejected exchange) (done_io completed))
                        \<lparr>be_extack := extack_message lib (done_extack completed)\<rparr>)
               else Ok packets
             else Err (error_new (unconfirmed_kind exchange) ''unexpected netlink response'')
         | NoopPayload \<Rightarrow> collect_response lib exchange stream packets
         | _ \<Rightarrow> Err (error_new (unconfirmed_kind exchange) ''unexpected netlink response'')))"

section \<open>Data of the ioctls\<close>

definition IFNAMSIZ :: nat where "IFNAMSIZ = 16"

text \<open>The name field of an \<open>ifreq\<close>, sixteen bytes.\<close>

definition ifreq_for :: "string \<Rightarrow> (string, io_error) outcome" where
  "ifreq_for name =
     (if length name \<ge> IFNAMSIZ \<or> CHR 0x00 \<in> set name then Err (invalid_data ''invalid interface name'')
      else Ok (name @ replicate (IFNAMSIZ - length name) (CHR 0x00)))"

definition ascii_hexdigit :: "char \<Rightarrow> bool" where
  "ascii_hexdigit c = (to_digit 16 c \<noteq> None)"

definition is_pci_address :: "string \<Rightarrow> bool" where
  "is_pci_address value =
     (length value = 12
      \<and> list_all (\<lambda>(index, byte).
           if index = 4 \<or> index = 7 then byte = CHR '':''
           else if index = 10 then byte = CHR ''.''
           else ascii_hexdigit byte) (enumerate 0 value))"

definition EOPNOTSUPP :: int where "EOPNOTSUPP = 95"
definition ENOTTY :: int where "ENOTTY = 25"

definition unsupported_ioctl :: "io_error \<Rightarrow> bool" where
  "unsupported_ioctl err = (raw_os_error err \<in> {Some EOPNOTSUPP, Some ENODEV, Some ENOTTY})"

end
