(* ===== verification/LinuxLink.thy ===== *)
theory LinuxLink
  imports Netlink
begin

text \<open>
  \<open>crates/netfyr-backend/src/linux.rs\<close>, between netlink messages and the model: parsing and classifying a link, the
  state of a link, observed addresses, the messages of address operations, and the Ethernet attributes.

  The message types of the netlink crates have the fields and variants that the code names; the parsers of headers,
  attributes and address messages are parameters.
\<close>

section \<open>Messages of the route family\<close>

datatype address_family = AfUnspec | AfInet | OtherFamily u8
datatype link_layer = LayerEther | LayerLoopback | OtherLayer u16
datatype info_kind = KindVeth | OtherKind string
datatype link_info = InfoKindAttr info_kind | OtherInfo

datatype link_attribute =
    AttrMtu u32
  | AttrCarrier u8
  | AttrMac string
  | AttrIfName string
  | AttrLinkInfo "link_info list"
  | OtherLinkAttribute u16

definition IFF_UP :: u32 where "IFF_UP = 1"
definition IFLA_LINKINFO :: u16 where "IFLA_LINKINFO = 18"

record link_header =
  lh_family :: address_family
  lh_index :: u32
  lh_layer :: link_layer
  lh_flags :: u32
  lh_change_mask :: u32

record link_message =
  lm_header :: link_header
  lm_attributes :: "link_attribute list"

text \<open>\<open>LinkMessage::default\<close>; the kernel reads a layer type of 0 in a request as unset.\<close>

definition default_link :: link_message where
  "default_link =
     \<lparr>lm_header = \<lparr>lh_family = AfUnspec, lh_index = 0, lh_layer = OtherLayer 0, lh_flags = 0, lh_change_mask = 0\<rparr>,
      lm_attributes = []\<rparr>"

record cache_info =
  ifa_preferred :: u32
  ifa_valid :: u32

datatype address_attribute =
    AttrLocal ip_addr
  | AttrAddress ip_addr
  | AttrLabel string
  | AttrFlags u32
  | AttrCacheInfo cache_info
  | OtherAddressAttribute u16

record address_message =
  am_family :: address_family
  am_prefix_len :: u8
  am_flags :: u8
  am_scope :: u8
  am_index :: u32
  am_attributes :: "address_attribute list"

definition default_address :: address_message where
  "default_address =
     \<lparr>am_family = AfUnspec, am_prefix_len = 0, am_flags = 0, am_scope = 0, am_index = 0, am_attributes = []\<rparr>"

text \<open>The parsers of the crate; \<open>LINK_HEADER_LEN\<close> is \<open>header.buffer_len()\<close>.\<close>

record route_lib =
  rl_netlink :: netlink_lib
  parse_link_header :: "string \<Rightarrow> string + link_header"
  parse_link_attribute :: "nla \<Rightarrow> address_family \<Rightarrow> string + link_attribute"
  parse_address_message :: "string \<Rightarrow> string + address_message"

definition LINK_HEADER_LEN :: nat where "LINK_HEADER_LEN = 16"

section \<open>Links\<close>

record parsed_link =
  pl_message :: link_message
  pl_name :: string
  pl_kind_valid :: bool
  pl_diagnostics :: "(string \<times> string) list"

definition query_failed :: "string \<Rightarrow> backend_error" where
  "query_failed message = error_new QueryFailed message"

text \<open>The loop of \<open>parse_link\<close>: the attributes kept, whether the kind is valid, and the diagnostics.\<close>

type_synonym link_scan = "link_attribute list \<times> bool \<times> (string \<times> string) list"

definition scan_attribute :: "route_lib \<Rightarrow> link_header \<Rightarrow> nla \<Rightarrow> link_scan \<Rightarrow> link_scan" where
  "scan_attribute lib header a = (\<lambda>(attributes, kind_valid, diags).
     case parse_link_attribute lib a (lh_family header) of
       Inr (AttrMac bytes) \<Rightarrow>
         if lh_layer header \<in> {LayerEther, LayerLoopback} \<and> length bytes \<noteq> 6
         then (attributes, kind_valid, diags @ [(''mac'', ''invalid Ethernet MAC length '' @ show_nat (length bytes))])
         else (attributes @ [AttrMac bytes], kind_valid, diags)
     | Inr (AttrCarrier value) \<Rightarrow>
         if value > 1
         then (attributes, kind_valid, diags @ [(''carrier'', ''invalid carrier value '' @ show_nat (unat value))])
         else (attributes @ [AttrCarrier value], kind_valid, diags)
     | Inr attribute \<Rightarrow> (attributes @ [attribute], kind_valid, diags)
     | Inl err \<Rightarrow>
         (attributes, kind_valid \<and> nla_kind a \<noteq> IFLA_LINKINFO,
          diags @ [(''netlink.attribute.'' @ show_nat (unat (nla_kind a)), err)]))"

fun scan_link :: "route_lib \<Rightarrow> link_header \<Rightarrow> (string + nla) list \<Rightarrow> link_scan \<Rightarrow> (link_scan, backend_error) outcome" where
  "scan_link lib header [] acc = Ok acc"
| "scan_link lib header (item # items) acc =
     (case item of
        Inr a \<Rightarrow> scan_link lib header items (scan_attribute lib header a acc)
      | Inl err \<Rightarrow> Err (query_failed (''invalid link attribute framing: '' @ err)))"

fun if_name_of :: "link_attribute \<Rightarrow> string option" where
  "if_name_of (AttrIfName name) = Some name"
| "if_name_of _ = None"

fun find_map :: "('a \<Rightarrow> 'b option) \<Rightarrow> 'a list \<Rightarrow> 'b option" where
  "find_map f [] = None"
| "find_map f (x # xs) = (case f x of Some y \<Rightarrow> Some y | None \<Rightarrow> find_map f xs)"

definition parse_link :: "route_lib \<Rightarrow> string \<Rightarrow> (parsed_link, backend_error) outcome" where
  "parse_link lib body =
     obind (omap_err (\<lambda>err. query_failed (''invalid link header: '' @ err)) (of_sum (parse_link_header lib body))) (\<lambda>header.
     obind (expect (if LINK_HEADER_LEN \<le> length body then Some (drop LINK_HEADER_LEN body) else None)) (\<lambda>attributes.
     obind (scan_link lib header (nlas (rl_netlink lib) attributes) ([], True, [])) (\<lambda>(kept, kind_valid, diags).
     obind (ok_or (find_map if_name_of kept) (query_failed ''link has no valid interface name'')) (\<lambda>name.
     Ok \<lparr>pl_message = \<lparr>lm_header = header, lm_attributes = kept\<rparr>, pl_name = name, pl_kind_valid = kind_valid,
         pl_diagnostics = diags\<rparr>))))"

fun info_kind_of :: "link_info \<Rightarrow> info_kind option" where
  "info_kind_of (InfoKindAttr kind) = Some kind"
| "info_kind_of OtherInfo = None"

fun link_kind_of :: "link_attribute \<Rightarrow> info_kind option" where
  "link_kind_of (AttrLinkInfo information) = find_map info_kind_of information"
| "link_kind_of _ = None"

text \<open>\<open>wireless\<close> is the set of wireless interfaces when it could be read.\<close>

definition classify_link :: "parsed_link \<Rightarrow> u32 list option \<Rightarrow> string" where
  "classify_link link wireless =
     (let header = lm_header (pl_message link) in
      if \<not> pl_kind_valid link then ''unknown''
      else
        (case find_map link_kind_of (lm_attributes (pl_message link)) of
           Some KindVeth \<Rightarrow> ETHERNET
         | Some (OtherKind text) \<Rightarrow> text
         | None \<Rightarrow>
             if lh_layer header = LayerLoopback then ''loopback''
             else if (case wireless of Some indices \<Rightarrow> lh_index header \<in> set indices | None \<Rightarrow> False) then ''wifi''
             else if lh_layer header = LayerEther \<and> wireless \<noteq> None then ETHERNET
             else ''unknown''))"

text \<open>\<open>format!("{byte:02x}")\<close>.\<close>

definition hex_byte :: "char \<Rightarrow> string" where
  "hex_byte c = [digit_char (of_char c div 16), digit_char (of_char c mod 16)]"

definition format_mac :: "string \<Rightarrow> string" where
  "format_mac bytes = join '':'' (map hex_byte bytes)"

fun link_attribute_step :: "link_attribute \<Rightarrow> fields \<times> string option \<Rightarrow> fields \<times> string option" where
  "link_attribute_step (AttrMtu mtu) (fs, mac) = (im_insert fs ''mtu'' (VU64 (ucast mtu)), mac)"
| "link_attribute_step (AttrCarrier carrier) (fs, mac) = (im_insert fs ''carrier'' (VBool (carrier = 1)), mac)"
| "link_attribute_step (AttrMac bytes) (fs, mac) =
     (if bytes \<noteq> [] then (im_insert fs ''mac'' (VString (format_mac bytes)), Some (format_mac bytes)) else (fs, mac))"
| "link_attribute_step _ acc = acc"

text \<open>\<open>md\<close> is the fresh metadata of the state.\<close>

definition link_state :: "state_metadata \<Rightarrow> parsed_link \<Rightarrow> string \<Rightarrow> dev_state \<times> string option" where
  "link_state md link ty =
     (let start = im_insert (im_insert [] ''name'' (VString (pl_name link))) ''enabled''
            (VBool (and (lh_flags (lm_header (pl_message link))) IFF_UP = IFF_UP));
          (fs, mac) = fold link_attribute_step (lm_attributes (pl_message link)) (start, None);
          st = (new_state md Kernel)
            \<lparr>device_type := ty,
             st_match := default_match\<lparr>match_name := Some (pl_name link), match_type := Some ty, match_mac := mac\<rparr>,
             st_fields := fs\<rparr> in
      (st, mac))"

section \<open>Addresses\<close>

text \<open>The loop of \<open>parse_address\<close>: local, address, flags, cache.\<close>

type_synonym address_scan = "ipv4_addr option \<times> ipv4_addr option \<times> u32 \<times> cache_info option"

fun scan_address :: "address_attribute list \<Rightarrow> address_scan \<Rightarrow> (address_scan, string) outcome" where
  "scan_address [] acc = Ok acc"
| "scan_address (attribute # rest) (loc, addr, flags, cache) =
     (case attribute of
        AttrLocal (V4 a) \<Rightarrow> scan_address rest (Some a, addr, flags, cache)
      | AttrAddress (V4 a) \<Rightarrow> scan_address rest (loc, Some a, flags, cache)
      | AttrLocal _ \<Rightarrow> Err ''IPv6 attribute in IPv4 address record''
      | AttrAddress _ \<Rightarrow> Err ''IPv6 attribute in IPv4 address record''
      | AttrFlags value \<Rightarrow> scan_address rest (loc, addr, value, cache)
      | AttrCacheInfo value \<Rightarrow> scan_address rest (loc, addr, flags, Some value)
      | _ \<Rightarrow> scan_address rest (loc, addr, flags, cache))"

definition parse_address :: "address_message \<Rightarrow> (address_observation, string) outcome" where
  "parse_address message =
     (if am_family message \<noteq> AfInet \<or> am_prefix_len message > 32 then Err ''invalid IPv4 family or prefix length''
      else
        obind (scan_address (am_attributes message) (None, None, ucast (am_flags message), None)) (\<lambda>(loc, addr, flags, cache).
        obind (ok_or (case loc of Some a \<Rightarrow> Some a | None \<Rightarrow> addr) ''address record has no assigned local address'') (\<lambda>a.
        obind (ok_or cache ''address record has no lifetime observation'') (\<lambda>cache.
        if ifa_preferred cache > ifa_valid cache then Err ''preferred lifetime exceeds valid lifetime''
        else
          Ok \<lparr>address = \<lparr>ip = a, prefix_len = am_prefix_len message, valid_lft = Some (ifa_valid cache),
                         preferred_lft = Some (ifa_preferred cache)\<rparr>,
              addr_flags = flags, scope = am_scope message,
              peer = (case addr of Some x \<Rightarrow> if x \<noteq> a then Some x else None | None \<Rightarrow> None)\<rparr>))))"

definition cache_info_of :: "ipv4_address \<Rightarrow> address_attribute" where
  "cache_info_of a = (let (valid, preferred) = lifetimes a in AttrCacheInfo \<lparr>ifa_preferred = preferred, ifa_valid = valid\<rparr>)"

definition address_message_of :: "u32 \<Rightarrow> ipv4_address \<Rightarrow> bool \<Rightarrow> address_message" where
  "address_message_of index a include_lifetimes =
     default_address\<lparr>am_index := index, am_family := AfInet, am_prefix_len := prefix_len a,
       am_attributes := [AttrLocal (V4 (ip a)), AttrAddress (V4 (ip a))] @ (if include_lifetimes then [cache_info_of a] else [])\<rparr>"

fun is_cache_info :: "address_attribute \<Rightarrow> bool" where
  "is_cache_info (AttrCacheInfo _) = True"
| "is_cache_info _ = False"

fun names_address :: "address_attribute \<Rightarrow> bool" where
  "names_address (AttrLocal _) = True"
| "names_address (AttrAddress _) = True"
| "names_address (AttrLabel _) = True"
| "names_address _ = False"

definition replacement_message :: "address_message option \<Rightarrow> u32 \<Rightarrow> ipv4_address \<Rightarrow> address_message" where
  "replacement_message observed index a =
     (case observed of
        None \<Rightarrow> address_message_of index a True
      | Some message \<Rightarrow>
          message\<lparr>am_attributes := filter (\<lambda>x. \<not> is_cache_info x) (am_attributes message) @ [cache_info_of a]\<rparr>)"

definition removal_message :: "address_message option \<Rightarrow> u32 \<Rightarrow> ipv4_address \<Rightarrow> address_message" where
  "removal_message observed index a =
     (let message = (case observed of Some message \<Rightarrow> message | None \<Rightarrow> address_message_of index a False) in
      message\<lparr>am_attributes := filter names_address (am_attributes message)\<rparr>)"

definition address_value :: "address_observation \<Rightarrow> cval" where
  "address_value obs =
     (let a = address obs;
          fs = [(''ip'', VIpNetwork (V4 (ip a), prefix_len a))];
          fs = (case valid_lft a of Some lifetime \<Rightarrow> im_insert fs ''valid_lft'' (VU64 (ucast lifetime)) | None \<Rightarrow> fs);
          fs = (case preferred_lft a of Some lifetime \<Rightarrow> im_insert fs ''preferred_lft'' (VU64 (ucast lifetime)) | None \<Rightarrow> fs) in
      VMap fs)"

section \<open>Ethernet attributes\<close>

datatype duplex = DuplexFull | DuplexHalf | DuplexUnknown | DuplexOther u8

datatype link_mode_attribute =
    LinkModeHeader "u32 option list"
  | LinkModeSpeed u32
  | LinkModeAutoneg bool
  | LinkModeDuplex duplex
  | OtherLinkMode

text \<open>The fields and the diagnostics that \<open>enrich_ethernet\<close> changes.\<close>

fun enrich_ethernet :: "link_mode_attribute \<Rightarrow> fields \<times> string list \<Rightarrow> fields \<times> string list" where
  "enrich_ethernet (LinkModeSpeed speed) (fs, diags) =
     (if speed \<noteq> u32_max \<and> speed \<noteq> 0 then (im_insert fs ''speed'' (VU64 (ucast speed)), diags) else (fs, diags))"
| "enrich_ethernet (LinkModeAutoneg enabled) (fs, diags) = (im_insert fs ''autoneg'' (VBool enabled), diags)"
| "enrich_ethernet (LinkModeDuplex d) (fs, diags) =
     (case d of
        DuplexFull \<Rightarrow> (im_insert fs ''duplex'' (VString ''full''), diags)
      | DuplexHalf \<Rightarrow> (im_insert fs ''duplex'' (VString ''half''), diags)
      | DuplexUnknown \<Rightarrow> (im_insert fs ''duplex'' (VString ''unknown''), diags)
      | DuplexOther value \<Rightarrow> (fs, diags @ [''invalid duplex value '' @ show_nat (unat value)]))"
| "enrich_ethernet _ acc = acc"

definition diagnostic_of :: "interface_id option \<Rightarrow> string \<Rightarrow> string \<Rightarrow> diagnostic" where
  "diagnostic_of tgt field message = \<lparr>diag_target = tgt, diag_field = Some field, diag_message = message\<rparr>"

text \<open>A link deletion; an \<open>AF_BRIDGE\<close> one is a port leaving its bridge.\<close>

definition deleted_link :: "route_lib \<Rightarrow> route_packet \<Rightarrow> (u32 option, string) outcome" where
  "deleted_link lib packet =
     (if pk_kind packet \<noteq> RTM_DELLINK then Ok None
      else
        obind (of_sum (parse_link_header lib (pk_body packet))) (\<lambda>header.
        Ok (if lh_family header = AfUnspec then Some (lh_index header) else None)))"

end
