(* ===== verification/Linux.thy ===== *)
theory Linux
  imports LinuxLink Executor
begin

text \<open>
  \<open>crates/netfyr-backend/src/linux.rs\<close>, the transport: notifications and the identities they invalidate, requests,
  the inventory, the confirmation of an identity and the execution of an operation.

  A \<open>kernel\<close> holds what the transport calls: netlink exchanges, the notifications that are ready, ioctls, the
  random generator, the clock, and the optional wireless and ethtool families.  \<open>LinuxTransport\<close> is the record
  \<open>transport\<close>, with the world the kernel's answers depend on; its methods are actions on it.
\<close>

section \<open>The kernel\<close>

datatype route_request =
    GetLink link_message
  | GetAddress address_message
  | SetLink link_message
  | NewAddress address_message
  | DelAddress address_message

text \<open>A request that could not be sent, one that timed out, or the messages of its stream until that closes.\<close>

datatype exchange_answer = NotSent string | TimedOut | Answered "netlink_message list"

datatype wireless_payload =
    WirelessInterface "u32 option list"
  | WirelessDone int
  | WirelessError "int option" string
  | WirelessNoop
  | WirelessOther

datatype wireless_answer =
    WirelessTimedOut
  | WirelessRefused "int option" string
  | WirelessStream "(string + u16 \<times> wireless_payload) list"

datatype link_mode_end = LinkModeEnd | LinkModeTimedOut | LinkModeFailed "int option" string

record 'w kernel =
  kn_ready :: "'w \<Rightarrow> netlink_message option list \<times> 'w"
  kn_exchange :: "route_request \<Rightarrow> u16 \<Rightarrow> 'w \<Rightarrow> exchange_answer \<times> 'w"
  kn_now :: "'w \<Rightarrow> nat \<times> 'w"
  kn_random :: "'w \<Rightarrow> (io_error + u64) \<times> 'w"
  kn_ifindex :: "string \<Rightarrow> 'w \<Rightarrow> (io_error + u32) \<times> 'w"
  kn_iwname :: "string \<Rightarrow> 'w \<Rightarrow> bool \<times> 'w"
  kn_drvinfo :: "string \<Rightarrow> 'w \<Rightarrow> (io_error + string \<times> string) \<times> 'w"
  kn_wireless :: "'w \<Rightarrow> wireless_answer \<times> 'w"
  kn_link_mode :: "string \<Rightarrow> 'w \<Rightarrow> (link_mode_attribute option list list \<times> link_mode_end) \<times> 'w"
  kn_metadata :: state_metadata

type_synonym address_key = "u32 \<times> ipv4_addr \<times> u8"

record 'w transport =
  lt_world :: 'w
  lt_namespace :: namespace_id
  lt_closed :: bool
  lt_ethtool :: bool
  lt_wireless :: bool
  lt_generations :: "u32 \<rightharpoonup> u64"
  lt_epoch :: u64
  lt_invalidated :: "string option"
  lt_addresses :: "address_key \<rightharpoonup> address_message"
  lt_diagnostics :: "diagnostic list"

type_synonym ('a, 'w) linux = "('a, backend_error, 'w transport) action"

definition kernel_call :: "('w \<Rightarrow> 'a \<times> 'w) \<Rightarrow> ('a, 'e, 'w transport) action" where
  "kernel_call f t = (let (r, w) = f (lt_world t) in (Ok r, t\<lparr>lt_world := w\<rparr>))"

definition kernel_result :: "('w \<Rightarrow> ('e + 'a) \<times> 'w) \<Rightarrow> ('a, 'e, 'w transport) action" where
  "kernel_result f = abind (kernel_call f) (\<lambda>r. alift (of_sum r))"

section \<open>Notifications\<close>

definition invalidate :: "string \<Rightarrow> 'w transport \<Rightarrow> 'w transport" where
  "invalidate reason t =
     t\<lparr>lt_generations := Map.empty, lt_epoch := lt_epoch t + 1,
       lt_invalidated := (case lt_invalidated t of None \<Rightarrow> Some reason | kept \<Rightarrow> kept)\<rparr>"

definition record_deletion :: "u32 \<Rightarrow> 'w transport \<Rightarrow> 'w transport" where
  "record_deletion index t = t\<lparr>lt_generations := (lt_generations t)(index := None), lt_epoch := lt_epoch t + 1\<rparr>"

definition record_item :: "route_lib \<Rightarrow> netlink_message option \<Rightarrow> 'w transport \<Rightarrow> 'w transport" where
  "record_item lib item t =
     (case item of
        None \<Rightarrow> invalidate ''netlink connection closed'' (t\<lparr>lt_closed := True\<rparr>)
      | Some message \<Rightarrow>
          (case nm_payload message of
             InnerMessage packet \<Rightarrow>
               (case deleted_link lib packet of
                  Ok (Some index) \<Rightarrow> record_deletion index t
                | Ok None \<Rightarrow> t
                | _ \<Rightarrow> invalidate ''unparseable link deletion notification'' t)
           | OverrunPayload \<Rightarrow> invalidate ''link notification buffer overrun'' t
           | _ \<Rightarrow> t))"

text \<open>The loop over the items that are ready.\<close>

fun record_ready :: "route_lib \<Rightarrow> netlink_message option list \<Rightarrow> 'w transport \<Rightarrow> 'w transport" where
  "record_ready lib [] t = t"
| "record_ready lib (item # items) t = (if lt_closed t then t else record_ready lib items (record_item lib item t))"

definition drain_notifications :: "route_lib \<Rightarrow> 'w kernel \<Rightarrow> (unit, 'w) linux" where
  "drain_notifications lib kn =
     abind (aget lt_closed) (\<lambda>closed.
     abind (if closed then areturn [] else kernel_call (kn_ready kn)) (\<lambda>items.
     abind (amodify (record_ready lib items)) (\<lambda>_.
     abind (aget lt_invalidated) (\<lambda>invalidated.
     abind (amodify (\<lambda>t. t\<lparr>lt_invalidated := None\<rparr>)) (\<lambda>_.
     case invalidated of
       Some reason \<Rightarrow> alift (Err (query_failed (reason @ ''; identities invalidated, query again'')))
     | None \<Rightarrow> areturn ())))))"

section \<open>Requests\<close>

definition request ::
  "route_lib \<Rightarrow> 'w kernel \<Rightarrow> route_request \<Rightarrow> exchange \<Rightarrow> u16 \<Rightarrow> (route_packet list, 'w) linux" where
  "request lib kn message exchange extra_flags =
     abind (drain_notifications lib kn) (\<lambda>_.
     abind (kernel_call (kn_exchange kn message (or (exchange_flags exchange) extra_flags))) (\<lambda>answer.
     alift
       (case answer of
          NotSent err \<Rightarrow> Err (error_new (rejected exchange) err)
        | TimedOut \<Rightarrow>
            Err (error_new (unconfirmed_kind exchange) ''netlink request timed out before confirmed completion'')
        | Answered stream \<Rightarrow> collect_response (rl_netlink lib) exchange stream [])))"

definition renamed_during_inventory :: backend_error where
  "renamed_during_inventory = query_failed ''interface renamed during inventory; query again''"

section \<open>Calls by name\<close>

text \<open>\<open>io::ErrorKind::Interrupted\<close>: the error made from the kind, and the one of \<open>EINTR\<close>.\<close>

definition EINTR :: int where "EINTR = 4"

definition interrupted_error :: io_error where
  "interrupted_error = \<lparr>raw_os_error = None, io_message = ''operation interrupted''\<rparr>"

definition is_interrupted :: "io_error \<Rightarrow> bool" where
  "is_interrupted err = (err = interrupted_error \<or> raw_os_error err = Some EINTR)"

definition interface_index :: "'w kernel \<Rightarrow> string \<Rightarrow> (u32, io_error, 'w transport) action" where
  "interface_index kn name = abind (alift (ifreq_for name)) (\<lambda>req. kernel_result (kn_ifindex kn req))"

definition check_named :: "'w kernel \<Rightarrow> string \<Rightarrow> u32 \<Rightarrow> (unit, io_error, 'w transport) action" where
  "check_named kn name index =
     abind (attempt (interface_index kn name)) (\<lambda>r.
     alift (case r of
       Ok current \<Rightarrow> if current = index then Ok () else Err interrupted_error
     | Err err \<Rightarrow> Err (if raw_os_error err = Some ENODEV then interrupted_error else err)
     | Panic \<Rightarrow> Panic))"

definition while_named ::
  "'w kernel \<Rightarrow> string \<Rightarrow> u32 \<Rightarrow> ('a, io_error, 'w transport) action \<Rightarrow> ('a, io_error, 'w transport) action" where
  "while_named kn name index call =
     abind (check_named kn name index) (\<lambda>_.
     abind call (\<lambda>result.
     abind (check_named kn name index) (\<lambda>_.
     areturn result)))"

definition legacy_wireless :: "'w kernel \<Rightarrow> string \<Rightarrow> (bool, io_error, 'w transport) action" where
  "legacy_wireless kn name =
     (case ifreq_for name of Ok req \<Rightarrow> kernel_call (kn_iwname kn req) | _ \<Rightarrow> areturn False)"

definition driver_info ::
  "route_lib \<Rightarrow> 'w kernel \<Rightarrow> string \<Rightarrow> (string option \<times> string option, io_error, 'w transport) action" where
  "driver_info lib kn name =
     abind (alift (ifreq_for name)) (\<lambda>req.
     abind (kernel_result (kn_drvinfo kn req)) (\<lambda>(driver_bytes, bus_bytes).
     abind (alift (c_string (rl_netlink lib) driver_bytes)) (\<lambda>driver.
     abind (alift (c_string (rl_netlink lib) bus_bytes)) (\<lambda>bus.
     areturn (driver, (case bus of Some b \<Rightarrow> if is_pci_address b then Some b else None | None \<Rightarrow> None))))))"

definition fresh_generation :: "'w kernel \<Rightarrow> (u64, 'w) linux" where
  "fresh_generation kn = amap_err (from_io Internal) (kernel_result (kn_random kn))"

section \<open>Optional families\<close>

text \<open>The loop of \<open>wireless_indices\<close>.\<close>

fun collect_wireless :: "(string + u16 \<times> wireless_payload) list \<Rightarrow> u32 list \<Rightarrow> (u32 list, string) outcome" where
  "collect_wireless [] indices = Err ''wireless inventory closed without completion''"
| "collect_wireless (item # stream) indices =
     (case item of
        Inl err \<Rightarrow> Err (''invalid wireless inventory: '' @ err)
      | Inr (flags, payload) \<Rightarrow>
          if flag_set flags NLM_F_DUMP_INTR then Err ''wireless inventory interrupted''
          else
            (case payload of
               WirelessInterface attributes \<Rightarrow> collect_wireless stream (indices @ List.map_filter id attributes)
             | WirelessDone code \<Rightarrow> if code = 0 then Ok indices else Err ''unexpected wireless inventory response''
             | WirelessError code text \<Rightarrow>
                 if code \<noteq> None then Err (''wireless inventory failed: '' @ text)
                 else Err ''unexpected wireless inventory response''
             | WirelessNoop \<Rightarrow> collect_wireless stream indices
             | WirelessOther \<Rightarrow> Err ''unexpected wireless inventory response''))"

definition wireless_indices :: "'w kernel \<Rightarrow> (u32 list, string, 'w transport) action" where
  "wireless_indices kn =
     abind (aget lt_wireless) (\<lambda>available.
     if \<not> available then
       alift (Err (''wireless identification unavailable; unclassified Ethernet link-layer devices are read-only''))
     else
       abind (kernel_call (kn_wireless kn)) (\<lambda>answer.
       alift (case answer of
         WirelessTimedOut \<Rightarrow> Err ''wireless identification timed out''
       | WirelessRefused errno text \<Rightarrow>
           if errno = Some ENOENT then Ok [] else Err (''wireless identification failed: '' @ text)
       | WirelessStream stream \<Rightarrow> collect_wireless stream [])))"

text \<open>
  The messages of \<open>ethernet_attributes\<close> until the stream ends; \<open>None\<close> when a header names another device.  What
  was read before a failure or a timeout is kept.
\<close>

fun enrich_attributes ::
  "u32 \<Rightarrow> link_mode_attribute option list \<Rightarrow> fields \<times> string list \<Rightarrow> (fields \<times> string list) option" where
  "enrich_attributes index [] acc = Some acc"
| "enrich_attributes index (Some (LinkModeHeader headers) # rest) acc =
     (if list_ex (\<lambda>header. case header of Some other \<Rightarrow> other \<noteq> index | None \<Rightarrow> False) headers then None
      else enrich_attributes index rest acc)"
| "enrich_attributes index (Some attribute # rest) acc = enrich_attributes index rest (enrich_ethernet attribute acc)"
| "enrich_attributes index (None # rest) acc = enrich_attributes index rest acc"

definition ethernet_attributes ::
  "'w kernel \<Rightarrow> string \<Rightarrow> u32 \<Rightarrow> (fields \<times> string list, 'w) linux" where
  "ethernet_attributes kn name index =
     abind (kernel_call (kn_link_mode kn name)) (\<lambda>(messages, ending).
     alift (case enrich_attributes index (concat messages) ([], []) of
       None \<Rightarrow> Err renamed_during_inventory
     | Some (fs, diags) \<Rightarrow>
         Ok (fs, diags @
           (case ending of
              LinkModeEnd \<Rightarrow> if messages = [] then [''ethtool returned no link-mode observation''] else []
            | LinkModeTimedOut \<Rightarrow> [''ethtool link-mode query timed out'']
            | LinkModeFailed code text \<Rightarrow>
                if map_option abs code \<in> {Some EOPNOTSUPP, Some ENODEV, Some ENOENT} then []
                else [''ethtool link-mode query failed: '' @ text]))))"

section \<open>The inventory\<close>

text \<open>The loop over the links: devices, diagnostics, and the link-mode targets with their positions.\<close>

type_synonym link_scan_state = "device_observation list \<times> diagnostic list \<times> (nat \<times> string \<times> u32) list"

definition generation_of :: "'w kernel \<Rightarrow> u32 \<Rightarrow> (u64, 'w) linux" where
  "generation_of kn index =
     abind (aget lt_generations) (\<lambda>generations.
     case generations index of
       Some generation \<Rightarrow> areturn generation
     | None \<Rightarrow>
         abind (fresh_generation kn) (\<lambda>generation.
         abind (amodify (\<lambda>t. t\<lparr>lt_generations := (lt_generations t)(index \<mapsto> generation)\<rparr>)) (\<lambda>_.
         areturn generation)))"

definition set_driver :: "string option \<Rightarrow> string option \<Rightarrow> dev_state \<Rightarrow> dev_state" where
  "set_driver driver pci_path st =
     (let st = (case driver of Some d \<Rightarrow> st\<lparr>st_fields := im_insert (st_fields st) ''driver'' (VString d)\<rparr> | None \<Rightarrow> st) in
      st\<lparr>st_match := (st_match st)\<lparr>match_driver := driver, match_pci_path := pci_path\<rparr>\<rparr>)"

text \<open>The enrichment of one link: its state and the diagnostics pushed.\<close>

definition enrich_driver ::
  "route_lib \<Rightarrow> 'w kernel \<Rightarrow> interface_id \<Rightarrow> dev_state \<Rightarrow> (dev_state \<times> diagnostic list, 'w) linux" where
  "enrich_driver lib kn ident st =
     abind (attempt (while_named kn (if_name ident) (if_index ident) (driver_info lib kn (if_name ident)))) (\<lambda>r.
     case r of
       Ok (driver, pci_path) \<Rightarrow> areturn (set_driver driver pci_path st, [])
     | Err err \<Rightarrow>
         if unsupported_ioctl err then areturn (st, [])
         else if is_interrupted err then alift (Err renamed_during_inventory)
         else areturn (st, [diagnostic_of (Some ident) ''driver'' (io_message err)])
     | Panic \<Rightarrow> alift Panic)"

definition observe_link ::
  "route_lib \<Rightarrow> 'w kernel \<Rightarrow> (match_spec \<Rightarrow> bool) \<Rightarrow> u32 list option \<Rightarrow> nat \<Rightarrow> route_packet \<Rightarrow> link_scan_state \<Rightarrow>
   (link_scan_state, 'w) linux" where
  "observe_link lib kn enrich wireless now packet = (\<lambda>(ds, diags, targets).
     if pk_kind packet \<noteq> RTM_NEWLINK then alift (Err (query_failed ''unexpected response in link dump''))
     else
       abind (alift (parse_link lib (pk_body packet))) (\<lambda>parsed.
       let index = lh_index (lm_header (pl_message parsed)) in
       abind (amap_err (\<lambda>err. if is_interrupted err then renamed_during_inventory else from_io QueryFailed err)
                (while_named kn (pl_name parsed) index (legacy_wireless kn (pl_name parsed)))) (\<lambda>legacy.
       let ty = (if legacy then ''wifi'' else classify_link parsed wireless) in
       abind (generation_of kn index) (\<lambda>generation.
       abind (aget lt_namespace) (\<lambda>ns.
       let (st, mac) = link_state (kn_metadata kn) parsed ty;
           ident = \<lparr>if_namespace = ns, if_index = index, if_generation = generation, if_name = pl_name parsed,
                    if_device_type = ty, if_mac = mac\<rparr>;
           found = map (\<lambda>(field, message). diagnostic_of (Some ident) field message) (pl_diagnostics parsed) in
       abind (if enrich (st_match st) then enrich_driver lib kn ident st else areturn (st, [])) (\<lambda>(st', more).
       areturn
         (ds @ [\<lparr>identity = ident, dev_st = st', addresses = [], addresses_complete = (ty = ETHERNET), observed_at = now\<rparr>],
          diags @ found @ more,
          if enrich (st_match st) \<and> ty = ETHERNET then targets @ [(length ds, if_name ident, index)] else targets)))))))"

fun observe_links ::
  "route_lib \<Rightarrow> 'w kernel \<Rightarrow> (match_spec \<Rightarrow> bool) \<Rightarrow> u32 list option \<Rightarrow> nat \<Rightarrow> route_packet list \<Rightarrow> link_scan_state \<Rightarrow>
   (link_scan_state, 'w) linux" where
  "observe_links lib kn enrich wireless now [] acc = areturn acc"
| "observe_links lib kn enrich wireless now (packet # packets) acc =
     abind (observe_link lib kn enrich wireless now packet acc) (observe_links lib kn enrich wireless now packets)"

text \<open>\<open>join_all\<close> over the link-mode targets; an answer that is an error is handled by the loop after it.\<close>

fun ask_link_modes ::
  "'w kernel \<Rightarrow> (nat \<times> string \<times> u32) list \<Rightarrow> (((fields \<times> string list), backend_error) outcome list, 'w) linux" where
  "ask_link_modes kn [] = areturn []"
| "ask_link_modes kn ((_, name, index) # targets) =
     abind (attempt (ethernet_attributes kn name index)) (\<lambda>r.
     abind (ask_link_modes kn targets) (\<lambda>rs. areturn (r # rs)))"

definition set_field :: "string \<Rightarrow> cval \<Rightarrow> device_observation \<Rightarrow> device_observation" where
  "set_field key v d = d\<lparr>dev_st := (dev_st d)\<lparr>st_fields := im_insert (st_fields (dev_st d)) key v\<rparr>\<rparr>"

fun apply_link_modes ::
  "(nat \<times> (fields \<times> string list, backend_error) outcome) list \<Rightarrow> device_observation list \<times> diagnostic list \<Rightarrow>
   (device_observation list \<times> diagnostic list, backend_error) outcome" where
  "apply_link_modes [] acc = Ok acc"
| "apply_link_modes ((place, result) # rest) (ds, diags) =
     obind result (\<lambda>(fs, messages).
     obind (expect (if place < length ds then Some (ds ! place) else None)) (\<lambda>device.
     apply_link_modes rest
       (if fs \<noteq> [] then ds[place := set_field ''ethernet'' (VMap fs) device] else ds,
        diags @ map (\<lambda>message. diagnostic_of (Some (identity device)) ''ethernet'' message) messages)))"

text \<open>The loop over the addresses: devices, the messages by address, the interfaces with duplicates, diagnostics.\<close>

record address_state =
  as_devices :: "device_observation list"
  as_messages :: "address_key \<rightharpoonup> address_message"
  as_duplicated :: "u32 list"
  as_diagnostics :: "diagnostic list"

definition duplicate_message :: string where
  "duplicate_message =
     ''local address assigned more than once with different peers; address operations are refused''"

definition record_address ::
  "nat \<Rightarrow> device_observation \<Rightarrow> address_message \<Rightarrow> address_observation \<Rightarrow> address_state \<Rightarrow> address_state" where
  "record_address place device message observed st =
     (let index = if_index (identity device);
          key = (index, ip (address observed), prefix_len (address observed));
          st' = st\<lparr>as_messages := (as_messages st)(key \<mapsto> message)\<rparr> in
      if as_messages st key \<noteq> None then
        (let st' = st'\<lparr>as_devices := (as_devices st)[place := device\<lparr>addresses_complete := False\<rparr>]\<rparr> in
         if index \<in> set (as_duplicated st) then st'
         else st'\<lparr>as_duplicated := as_duplicated st @ [index],
                  as_diagnostics := as_diagnostics st
                    @ [diagnostic_of (Some (identity device)) ''ipv4.addresses'' duplicate_message]\<rparr>)
      else st'\<lparr>as_devices := (as_devices st)[place := device\<lparr>addresses := addresses device @ [observed]\<rparr>]\<rparr>)"

definition observe_address ::
  "route_lib \<Rightarrow> route_packet \<Rightarrow> address_state \<Rightarrow> (address_state, backend_error) outcome" where
  "observe_address lib packet st =
     (if pk_kind packet \<noteq> RTM_NEWADDR then Err (query_failed ''unexpected response in address dump'')
      else
        obind (omap_err (\<lambda>err. query_failed (''incomplete IPv4 observation: '' @ err))
                 (of_sum (parse_address_message lib (pk_body packet)))) (\<lambda>message.
        if am_family message \<noteq> AfInet then Ok st
        else
          obind (ok_or (position (\<lambda>d. if_index (identity d) = am_index message) (as_devices st))
                   (query_failed (''address inventory contains an unobserved interface '' @ show_nat (unat (am_index message))
                     @ ''; query again''))) (\<lambda>place.
          let device = as_devices st ! place in
          if if_device_type (identity device) \<noteq> ETHERNET then Ok st
          else
            obind (omap_err (\<lambda>err. query_failed (if_name (identity device) @ '': incomplete IPv4 observation: '' @ err))
                     (parse_address message)) (\<lambda>observed.
            Ok (record_address place device message observed st)))))"

fun observe_addresses :: "route_lib \<Rightarrow> route_packet list \<Rightarrow> address_state \<Rightarrow> (address_state, backend_error) outcome" where
  "observe_addresses lib [] st = Ok st"
| "observe_addresses lib (packet # packets) st = obind (observe_address lib packet st) (observe_addresses lib packets)"

definition publish_addresses :: "device_observation \<Rightarrow> device_observation" where
  "publish_addresses d =
     (if if_device_type (identity d) = ETHERNET
      then set_field ''ipv4'' (VMap [(''addresses'', VList (map address_value (addresses d)))]) d else d)"

definition validate_deletion_epoch :: "u64 \<Rightarrow> u64 \<Rightarrow> (unit, backend_error) outcome" where
  "validate_deletion_epoch before after =
     (if before \<noteq> after
      then Err (query_failed ''interface deletion occurred during inventory; query again'') else Ok ())"

definition retain_generations :: "device_observation list \<Rightarrow> 'w transport \<Rightarrow> 'w transport" where
  "retain_generations ds t =
     t\<lparr>lt_generations := (\<lambda>index. if list_ex (\<lambda>d. if_index (identity d) = index) ds then lt_generations t index else None)\<rparr>"

definition still_current :: "'w transport \<Rightarrow> device_observation \<Rightarrow> bool" where
  "still_current t d = (lt_generations t (if_index (identity d)) = Some (if_generation (identity d)))"

text \<open>The end of \<open>inventory\<close>: nothing was deleted meanwhile, and the messages are kept for later operations.\<close>

definition confirm_inventory ::
  "route_lib \<Rightarrow> 'w kernel \<Rightarrow> u64 \<Rightarrow> device_observation list \<Rightarrow> (address_key \<rightharpoonup> address_message) \<Rightarrow> (unit, 'w) linux" where
  "confirm_inventory lib kn epoch ds messages =
     abind (drain_notifications lib kn) (\<lambda>_.
     abind (aget lt_epoch) (\<lambda>current.
     abind (alift (validate_deletion_epoch epoch current)) (\<lambda>_.
     abind (aget (\<lambda>t. list_all (still_current t) ds)) (\<lambda>all_current.
     if \<not> all_current then alift (Err (query_failed ''interface disappeared during inventory; query again''))
     else amodify (\<lambda>t. t\<lparr>lt_addresses := messages\<rparr>)))))"

definition inventory :: "route_lib \<Rightarrow> 'w kernel \<Rightarrow> (match_spec \<Rightarrow> bool) \<Rightarrow> (observation, 'w) linux" where
  "inventory lib kn enrich =
     abind (drain_notifications lib kn) (\<lambda>_.
     abind (aget lt_epoch) (\<lambda>epoch.
     abind (request lib kn (GetLink default_link) Dump 0) (\<lambda>links.
     abind (request lib kn (GetAddress (default_address\<lparr>am_family := AfInet\<rparr>)) Dump 0) (\<lambda>addrs.
     abind (kernel_call (kn_now kn)) (\<lambda>now.
     abind (aget lt_diagnostics) (\<lambda>initial.
     abind (attempt (wireless_indices kn)) (\<lambda>wireless_result.
     let wireless = (case wireless_result of Ok indices \<Rightarrow> Some indices | _ \<Rightarrow> None);
         diags0 = initial @ (case wireless_result of Err message \<Rightarrow> [diagnostic_of None ''type'' message] | _ \<Rightarrow> []) in
     abind (observe_links lib kn enrich wireless now links ([], diags0, [])) (\<lambda>(ds, diags, targets).
     abind (aget lt_ethtool) (\<lambda>ethtool.
     abind (if ethtool then ask_link_modes kn targets else areturn []) (\<lambda>results.
     abind (alift (apply_link_modes (zip (map fst targets) results) (ds, diags))) (\<lambda>(ds, diags).
     abind (amodify (retain_generations ds)) (\<lambda>_.
     abind (alift (observe_addresses lib addrs
              \<lparr>as_devices = ds, as_messages = Map.empty, as_duplicated = [], as_diagnostics = diags\<rparr>)) (\<lambda>st.
     let ds = map publish_addresses (as_devices st) in
     abind (confirm_inventory lib kn epoch ds (as_messages st)) (\<lambda>_.
     areturn \<lparr>devices = ds, diagnostics = as_diagnostics st\<rparr>))))))))))))))"

section \<open>Operations\<close>

definition confirm_identity :: "route_lib \<Rightarrow> 'w kernel \<Rightarrow> interface_id \<Rightarrow> (unit, 'w) linux" where
  "confirm_identity lib kn tgt =
     (let stale = error_new StaleState ''target identity is no longer current'' in
      abind (aget lt_namespace) (\<lambda>ns.
      if if_namespace tgt \<noteq> ns then alift (Err stale)
      else
        abind (request lib kn (GetLink (default_link\<lparr>lm_header := (lm_header default_link)\<lparr>lh_index := if_index tgt\<rparr>\<rparr>)) Read 0)
          (\<lambda>reply.
        abind (drain_notifications lib kn) (\<lambda>_.
        abind (alift
          (case reply of
             [packet] \<Rightarrow>
               if pk_kind packet = RTM_NEWLINK then omap pl_name (parse_link lib (pk_body packet))
               else Err (query_failed ''unexpected reply to a link query'')
           | _ \<Rightarrow> Err (query_failed ''unexpected reply to a link query''))) (\<lambda>name.
        abind (aget lt_generations) (\<lambda>generations.
        alift (if generations (if_index tgt) \<noteq> Some (if_generation tgt) \<or> name \<noteq> if_name tgt then Err stale
               else Ok ())))))))"

definition address_key_of :: "interface_id \<Rightarrow> ipv4_address \<Rightarrow> address_key" where
  "address_key_of tgt a = (if_index tgt, ip a, prefix_len a)"

definition operation_message ::
  "interface_id \<Rightarrow> operation_kind \<Rightarrow> (address_key \<rightharpoonup> address_message) \<Rightarrow> (route_request \<times> u16, backend_error) outcome" where
  "operation_message tgt kind observed =
     (let header = (lm_header default_link)\<lparr>lh_index := if_index tgt\<rparr> in
      case kind of
        SetMtu mtu \<Rightarrow> Ok (SetLink \<lparr>lm_header = header, lm_attributes = [AttrMtu mtu]\<rparr>, 0)
      | SetEnabled enabled \<Rightarrow>
          Ok (SetLink \<lparr>lm_header = header\<lparr>lh_change_mask := IFF_UP, lh_flags := (if enabled then IFF_UP else 0)\<rparr>,
                       lm_attributes = []\<rparr>, 0)
      | AddIpv4 a \<Rightarrow> Ok (NewAddress (address_message_of (if_index tgt) a True), or NLM_F_CREATE NLM_F_EXCL)
      | ReplaceIpv4 a \<Rightarrow>
          Ok (NewAddress (replacement_message (observed (address_key_of tgt a)) (if_index tgt) a), NLM_F_REPLACE)
      | RemoveIpv4 a \<Rightarrow>
          Ok (DelAddress (removal_message (observed (address_key_of tgt a)) (if_index tgt) a), 0)
      | _ \<Rightarrow> Err (error_new UnsupportedOperation ''operation is not supported by the Linux transport''))"

definition execute :: "route_lib \<Rightarrow> 'w kernel \<Rightarrow> interface_id \<Rightarrow> operation_kind \<Rightarrow> (unit, 'w) linux" where
  "execute lib kn tgt kind =
     abind (aget (\<lambda>t. operation_message tgt kind (lt_addresses t))) (\<lambda>built.
     abind (alift built) (\<lambda>(message, flags).
     abind (confirm_identity lib kn tgt) (\<lambda>_.
     abind (request lib kn message Write flags) (\<lambda>_.
     areturn ()))))"

text \<open>
  The transport as the \<open>Io\<close> of the executor: the inventory of the trait enriches nothing.  A panic of either call
  is a panic of the run that makes it, and so the end of the worker thread.
\<close>

definition linux_io ::
  "route_lib \<Rightarrow> 'w kernel \<Rightarrow> namespace_id \<Rightarrow> ('w transport \<Rightarrow> bool \<times> 'w transport) \<Rightarrow> 'w transport io" where
  "linux_io lib kn ns cancelled =
     \<lparr>io_namespace = ns, io_inventory = inventory lib kn (\<lambda>_. False), io_execute = execute lib kn,
      io_now = (\<lambda>t. let (now, w) = kn_now kn (lt_world t) in (now, t\<lparr>lt_world := w\<rparr>)),
      io_cancelled = cancelled,
      io_metadata = kn_metadata kn\<rparr>"

end
