(* ===== verification/NetlinkFacts.thy ===== *)
theory NetlinkFacts
  imports LinuxLink
begin

text \<open>
  Facts about theories \<open>Netlink\<close> and \<open>LinuxLink\<close>: a response is complete or an error, the codec takes a packet off the
  buffer or fails, address messages and observations correspond.
\<close>

section \<open>Responses\<close>

text \<open>A message that a response goes on after, and one that completes it.\<close>

definition continues :: "exchange \<Rightarrow> netlink_message \<Rightarrow> bool" where
  "continues exchange m \<longleftrightarrow>
     \<not> flag_set (nm_flags m) NLM_F_DUMP_INTR
     \<and> (case nm_payload m of
          InnerMessage _ \<Rightarrow> True
        | NoopPayload \<Rightarrow> True
        | ErrorPayload err \<Rightarrow> em_code err = None \<and> exchange = Dump
        | _ \<Rightarrow> False)"

definition completes :: "exchange \<Rightarrow> netlink_message \<Rightarrow> bool" where
  "completes exchange m \<longleftrightarrow>
     \<not> flag_set (nm_flags m) NLM_F_DUMP_INTR
     \<and> (case nm_payload m of
          ErrorPayload err \<Rightarrow> em_code err = None \<and> exchange \<noteq> Dump
        | DonePayload completed \<Rightarrow> done_code completed = 0 \<and> exchange = Dump
        | _ \<Rightarrow> False)"

fun inner_packet :: "netlink_payload \<Rightarrow> route_packet option" where
  "inner_packet (InnerMessage packet) = Some packet"
| "inner_packet _ = None"

definition inner_packets :: "netlink_message list \<Rightarrow> route_packet list" where
  "inner_packets ms = List.map_filter (\<lambda>m. inner_packet (nm_payload m)) ms"

lemma inner_packets_simps [simp]:
  "inner_packets [] = []"
  "inner_packets (m # ms) = (case inner_packet (nm_payload m) of Some p \<Rightarrow> p # inner_packets ms | None \<Rightarrow> inner_packets ms)"
  by (simp_all add: inner_packets_def map_filter_simps split: option.split)

lemma collect_cases:
  "continues exchange m \<Longrightarrow>
     collect_response lib exchange (m # ms) packets = collect_response lib exchange ms
       (packets @ (case inner_packet (nm_payload m) of Some p \<Rightarrow> [p] | None \<Rightarrow> []))"
  "completes exchange m \<Longrightarrow> collect_response lib exchange (m # ms) packets = Ok packets"
  "\<not> continues exchange m \<Longrightarrow> \<not> completes exchange m \<Longrightarrow> \<exists>e. collect_response lib exchange (m # ms) packets = Err e"
  by (cases "nm_payload m"; auto simp: continues_def completes_def split: if_splits)+

lemma not_both: "continues exchange m \<Longrightarrow> \<not> completes exchange m"
  by (cases "nm_payload m") (auto simp: continues_def completes_def)

lemma collect_exact:
  "collect_response lib exchange ms packets = Ok result \<longleftrightarrow>
     (\<exists>before final rest. ms = before @ final # rest \<and> list_all (continues exchange) before \<and> completes exchange final
        \<and> result = packets @ inner_packets before)"
proof (induction ms arbitrary: packets)
  case (Cons m ms)
  consider (more) "continues exchange m" "\<not> completes exchange m" | (final) "completes exchange m" "\<not> continues exchange m"
    | (failed) "\<not> continues exchange m" "\<not> completes exchange m"
    using not_both by blast
  then show ?case
  proof cases
    case more
    have "(\<exists>before final rest. m # ms = before @ final # rest \<and> list_all (continues exchange) before \<and> completes exchange final
          \<and> result = packets @ inner_packets before) \<longleftrightarrow>
        (\<exists>before final rest. ms = before @ final # rest \<and> list_all (continues exchange) before \<and> completes exchange final
          \<and> result = packets @ inner_packets (m # before))" (is "?l = ?r")
    proof
      assume ?l
      then obtain before final rest where s: "m # ms = before @ final # rest" "list_all (continues exchange) before"
        "completes exchange final" "result = packets @ inner_packets before" by blast
      with more(2) obtain before' where "before = m # before'" by (cases before) auto
      with s show ?r by auto
    next
      assume ?r
      then obtain before final rest where "ms = before @ final # rest" "list_all (continues exchange) before"
        "completes exchange final" "result = packets @ inner_packets (m # before)" by blast
      with more(1) have "m # ms = (m # before) @ final # rest \<and> list_all (continues exchange) (m # before)
        \<and> completes exchange final \<and> result = packets @ inner_packets (m # before)" by simp
      then show ?l by blast
    qed
    moreover have "packets @ inner_packets (m # before) =
        (packets @ (case inner_packet (nm_payload m) of Some p \<Rightarrow> [p] | None \<Rightarrow> [])) @ inner_packets before" for before
      by (simp split: option.split)
    ultimately show ?thesis unfolding collect_cases(1) [OF more(1)] Cons.IH by simp
  next
    case final
    have "before = []" if "m # ms = before @ fin # rest" "list_all (continues exchange) before" for before fin rest
      using that final(2) by (cases before) auto
    then have "(\<exists>before fin rest. m # ms = before @ fin # rest \<and> list_all (continues exchange) before
        \<and> completes exchange fin \<and> result = packets @ inner_packets before) \<longleftrightarrow> result = packets"
      using final(1) by fastforce
    then show ?thesis unfolding collect_cases(2) [OF final(1)] by auto
  next
    case failed
    from collect_cases(3) [OF this] have "collect_response lib exchange (m # ms) packets \<noteq> Ok result" by (metis outcome.distinct(1))
    moreover have "\<not> (m # ms = before @ final # rest \<and> list_all (continues exchange) before \<and> completes exchange final)"
      for before final rest using failed by (cases before) auto
    ultimately show ?thesis by blast
  qed
qed simp

lemma response_returns: "collect_response lib exchange ms packets \<noteq> Panic"
  by (induction lib exchange ms packets rule: collect_response.induct) (auto split: netlink_payload.split)

section \<open>The codec\<close>

lemma and_not_3: "and x (not 3) = push_bit 2 (drop_bit 2 (x :: u64))"
proof -
  have 3: "(3 :: u64) = mask 2" by (simp add: mask_eq_exp_minus_1)
  show ?thesis unfolding 3 by (rule bit_word_eqI) (auto simp: bit_simps not_less elim!: le_SucE dest!: le_Suc_ex)
qed

lemma unat_and_not_3: "unat (and x (not 3)) = 4 * (unat (x :: u64) div 4)"
proof -
  have "unat x < 2 ^ 64" using unsigned_less [of x, where 'a = nat] by simp
  then have "4 * (unat x div 4) < 2 ^ 64" by simp
  moreover have "take_bit 64 (unat x) = unat x" using \<open>unat x < 2 ^ 64\<close> by (rule take_bit_nat_eq_self)
  then have "unat (push_bit 2 (drop_bit 2 x)) = take_bit 64 (push_bit 2 (drop_bit 2 (unat x)))"
    by (simp only: unsigned_push_bit_eq unsigned_drop_bit_eq take_bit_drop_bit) simp
  moreover have "push_bit 2 (drop_bit 2 (unat x)) = 4 * (unat x div 4)" by (simp add: push_bit_eq_mult drop_bit_eq_div)
  ultimately show ?thesis unfolding and_not_3 by (simp only: take_bit_nat_eq_self)
qed

lemma align_length: "\<exists>m. align (ucast (n :: u32)) = Some m \<and> unat m = (unat n + 3) div 4 * 4"
proof -
  have n: "unat n < 2 ^ 32" using unsigned_less [of n, where 'a = nat] by simp
  have u: "unat (ucast n :: u64) = unat n" using n by (simp add: unsigned_ucast_eq take_bit_nat_eq_self)
  have "\<not> (ucast n :: u64) > - 1 - 3" unfolding word_less_nat_alt using n u by simp
  then have a: "align (ucast n) = Some (and (ucast n + 3) (not 3))" by (simp add: align_def checked_add_def)
  have "unat (ucast n + 3 :: u64) = unat n + 3" using n u by (simp add: unat_word_ariths)
  then have "unat (and (ucast n + 3 :: u64) (not 3)) = 4 * ((unat n + 3) div 4)" by (simp only: unat_and_not_3)
  with a show ?thesis by simp
qed

lemma decode_packet_cases:
  assumes "checked_laws lib" "source \<noteq> []"
  obtains (no_header) e where "checked_length lib source = Inl e" "decode_packet lib source = (Err e, source)"
  | (packet) n where "checked_length lib source = Inr n" "16 \<le> unat n" "unat n \<le> length source"
      "decode_packet lib source = (case parse_message lib (take (unat n) source) of Inr message \<Rightarrow> Ok (Some message) | Inl e \<Rightarrow> Err e,
         drop ((unat n + 3) div 4 * 4) source)"
proof (cases "checked_length lib source")
  case (Inl e)
  then show thesis using no_header assms(2) by (simp add: decode_packet_def of_sum_def)
next
  case (Inr n)
  obtain a where a: "align (ucast n) = Some a" "unat a = (unat n + 3) div 4 * 4" using align_length [of n] by blast
  then have le: "unat n \<le> unat a" by simp
  have n: "16 \<le> unat n" "unat n \<le> length source" using assms(1) Inr by (auto simp: checked_laws_def)
  have "decode_packet lib source = (case parse_message lib (take (unat n) source) of Inr message \<Rightarrow> Ok (Some message) | Inl e \<Rightarrow> Err e,
         drop (min (unat a) (length source)) source)"
    using assms(2) Inr a(1) le n
    by (simp add: decode_packet_def of_sum_def split_to_def prefix_slice_def min_def split: sum.split)
  moreover have "drop (min (unat a) (length source)) source = drop (unat a) source" by (simp add: min_def)
  ultimately show thesis using packet Inr n a(2) by simp
qed

end
