(* ===== verification/LinkFacts.thy ===== *)
theory LinkFacts
  imports NetlinkFacts StateFacts
begin

text \<open>
  Facts about theory \<open>LinuxLink\<close>: address messages and the observations they parse to, and which states a link gives.
\<close>

section \<open>Address messages\<close>

lemma scan_append: "scan_address (xs @ ys) acc = obind (scan_address xs acc) (scan_address ys)"
proof (induction xs arbitrary: acc)
  case (Cons x xs)
  obtain l a f c where acc: "acc = (l, a, f, c)" by (cases acc) auto
  show ?case
  proof (cases x)
    case (AttrLocal i)
    then show ?thesis by (cases i) (simp_all add: acc Cons.IH)
  next
    case (AttrAddress i)
    then show ?thesis by (cases i) (simp_all add: acc Cons.IH)
  qed (simp_all add: acc Cons.IH)
qed simp

lemma scan_names:
  "scan_address xs (l, a, f, c) = Ok (l', a', f', c') \<Longrightarrow>
     scan_address (filter names_address xs) (l, a, g, d) = Ok (l', a', g, d)"
proof (induction xs arbitrary: l a f c)
  case (Cons x xs)
  show ?case
  proof (cases x)
    case (AttrLocal i)
    then show ?thesis using Cons by (cases i) auto
  next
    case (AttrAddress i)
    then show ?thesis using Cons by (cases i) auto
  qed (use Cons in auto)
qed simp

lemma scan_without_cache:
  "scan_address xs (l, a, f, c) = Ok (l', a', f', c') \<Longrightarrow>
     scan_address (filter (\<lambda>x. \<not> is_cache_info x) xs) (l, a, f, d) = Ok (l', a', f', d)"
proof (induction xs arbitrary: l a f c)
  case (Cons x xs)
  show ?case
  proof (cases x)
    case (AttrLocal i)
    then show ?thesis using Cons by (cases i) auto
  next
    case (AttrAddress i)
    then show ?thesis using Cons by (cases i) auto
  qed (use Cons in auto)
qed simp

text \<open>An address with the lifetimes the kernel is told, explicitly.\<close>

definition with_lifetimes :: "ipv4_address \<Rightarrow> ipv4_address" where
  "with_lifetimes a = (let (valid, preferred) = lifetimes a in a\<lparr>valid_lft := Some valid, preferred_lft := Some preferred\<rparr>)"

lemma validate_lifetimes:
  "validate_address a = Ok () \<longleftrightarrow> prefix_len a \<le> 32 \<and> fst (lifetimes a) \<noteq> 0 \<and> snd (lifetimes a) \<le> fst (lifetimes a)"
  by (cases "lifetimes a") (auto simp: validate_address_def not_le)

lemma parse_added:
  assumes "prefix_len a \<le> 32" "snd (lifetimes a) \<le> fst (lifetimes a)"
  shows "parse_address (address_message_of index a True) =
     Ok \<lparr>address = with_lifetimes a, addr_flags = 0, scope = 0, peer = None\<rparr>"
  using assms
  by (cases "lifetimes a"; cases a)
    (simp add: parse_address_def address_message_of_def default_address_def cache_info_of_def with_lifetimes_def not_less)

lemma parse_replaced:
  assumes "parse_address message = Ok obs" "snd (lifetimes a) \<le> fst (lifetimes a)"
    and "ip a = ip (address obs)" "prefix_len a = prefix_len (address obs)"
  shows "parse_address (replacement_message (Some message) index a) = Ok (obs\<lparr>address := with_lifetimes a\<rparr>)"
proof -
  from assms(1) obtain l ad f c where s: "scan_address (am_attributes message) (None, None, ucast (am_flags message), None)
      = Ok (l, ad, f, Some c)"
    by (auto simp: parse_address_def outcome_inversions split: if_splits)
  have s': "scan_address (filter (\<lambda>x. \<not> is_cache_info x) (am_attributes message) @ [cache_info_of a])
      (None, None, ucast (am_flags message), None) = Ok (l, ad, f, Some \<lparr>ifa_preferred = snd (lifetimes a), ifa_valid = fst (lifetimes a)\<rparr>)"
    by (simp add: scan_append scan_without_cache [OF s] cache_info_of_def case_prod_unfold Let_def)
  from assms s s' show ?thesis
    by (cases "lifetimes a"; cases a)
      (auto simp: parse_address_def replacement_message_def outcome_inversions with_lifetimes_def not_less split: if_splits)
qed

lemma removal_scan:
  assumes "scan_address (am_attributes message) (None, None, f0, None) = Ok (l, ad, f, c)"
  shows "scan_address (am_attributes (removal_message (Some message) index a)) (None, None, f0, None) = Ok (l, ad, f0, None)"
  using scan_names [OF assms] by (simp add: removal_message_def)

lemma parsed_prefix: "parse_address message = Ok obs \<Longrightarrow> prefix_len (address obs) \<le> 32"
  by (auto simp: parse_address_def outcome_inversions split: if_splits)

section \<open>The states of links\<close>

definition observed_entry :: "string \<Rightarrow> cval \<Rightarrow> bool" where
  "observed_entry k v \<longleftrightarrow>
     k \<in> set [''name'', ''mac'', ''driver''] \<and> (\<exists>s. v = VString s)
     \<or> k \<in> set [''enabled'', ''carrier''] \<and> (\<exists>b. v = VBool b)
     \<or> k = ''mtu'' \<and> (\<exists>mtu :: u32. v = VU64 (ucast mtu))
     \<or> k = ''ethernet'' \<and> (\<exists>m. v = VMap m \<and> entries_conform False ethernet_json m [])
     \<or> k = ''ipv4'' \<and> (\<exists>as. v = VMap [(''addresses'', VList (map address_value as))]
          \<and> (\<forall>a \<in> set as. prefix_len (address a) \<le> 32))"

definition observed_fields :: "fields \<Rightarrow> bool" where
  "observed_fields fs \<longleftrightarrow> im_wf fs \<and> (\<forall>(k, v) \<in> set fs. observed_entry k v)"

lemma im_insert_in: "(k', v') \<in> set (im_insert m k v) \<Longrightarrow> (k', v') = (k, v) \<or> (k', v') \<in> set m"
  by (induction m) (auto split: if_splits)

lemma observed_insert: "observed_fields fs \<Longrightarrow> observed_entry k v \<Longrightarrow> observed_fields (im_insert fs k v)"
  using im_insert_in by (fastforce simp: observed_fields_def imap.wf_put)

lemma link_step_observed:
  "observed_fields (fst acc) \<Longrightarrow> observed_fields (fst (link_attribute_step attribute acc))"
  by (cases acc; cases attribute) (auto intro!: observed_insert simp: observed_entry_def)

lemma link_steps_observed:
  "observed_fields (fst acc) \<Longrightarrow> observed_fields (fst (fold link_attribute_step attributes acc))"
proof (induction attributes arbitrary: acc)
  case (Cons attribute attributes)
  show ?case using Cons.IH [OF link_step_observed [OF Cons.prems]] by simp
qed simp

lemma link_state_observed: "observed_fields (st_fields (fst (link_state md link ty)))"
proof -
  have "observed_fields (im_insert (im_insert [] ''name'' (VString (pl_name link))) ''enabled''
            (VBool (and (lh_flags (lm_header (pl_message link))) IFF_UP = IFF_UP)))"
    by (simp add: observed_fields_def observed_entry_def)
  then show ?thesis
    using link_steps_observed [of "(_, None)" "lm_attributes (pl_message link)"]
    by (simp add: link_state_def Let_def case_prod_unfold)
qed

lemma address_conforms:
  assumes "prefix_len (address a) \<le> 32"
  shows "conforms False ipv4_address_item (address_value a)"
proof -
  have "semantic_type ipv4_address_item = Ok TObject"
    "required_keys ipv4_address_item = [''ip'']" by (simp_all add: ipv4_address_item_def semantic_type_def required_keys_def)
  moreover have p: "node_property ipv4_address_item ''ip'' = Some (SchemaNode (Some TString) (Some Ipv4Cidr) True None None None None None None None None)"
    "node_property ipv4_address_item ''valid_lft'' = Some (scalar_node TInteger True)"
    "node_property ipv4_address_item ''preferred_lft'' = Some (scalar_node TInteger True)"
    by (simp_all add: ipv4_address_item_def node_property_def)
  moreover have "conforms False (scalar_node TInteger True) (VU64 u)" for u
    by (simp add: conforms_scalar scalar_node_def semantic_type_def in_range_def)
  moreover have "conforms False (SchemaNode (Some TString) (Some Ipv4Cidr) True None None None None None None None None)
      (VIpNetwork (V4 (ip (address a)), prefix_len (address a)))"
    using assms by (simp add: conforms_scalar semantic_type_def)
  ultimately show ?thesis
    by (auto simp: address_value_def Let_def conforms_map im_contains_def split: option.split)
qed

lemma embedded_shape:
  obtains base ipv4 ethernet where "fragments embedded_registry = [base, ipv4, ethernet]"
    "fr_trigger base = None" "fr_trigger ipv4 = Some ''ipv4''" "fr_trigger ethernet = Some ''ethernet''"
    "fr_root base = base_json" "fr_root ipv4 = ipv4_json" "fr_root ethernet = ethernet_json"
    "trigger_keys embedded_registry = [''ipv4'', ''ethernet'']"
proof -
  let ?f = "fragments embedded_registry"
  show thesis
    by (rule that [of "?f ! 0" "?f ! 1" "?f ! 2"]) (simp_all add: embedded_registry_def trigger_keys_def List.map_filter_def)
qed

definition mtu_in_schema :: "fields \<Rightarrow> bool" where
  "mtu_in_schema fs \<longleftrightarrow> (\<forall>u. (''mtu'', VU64 u) \<in> set fs \<longrightarrow> 68 \<le> uint u \<and> uint u \<le> 65535)"

lemma base_properties:
  "node_property base_json ''name'' = Some (scalar_node TString False)"
  "node_property base_json ''mac'' = Some (scalar_node TString False)"
  "node_property base_json ''driver'' = Some (scalar_node TString False)"
  "node_property base_json ''enabled'' = Some (scalar_node TBoolean True)"
  "node_property base_json ''carrier'' = Some (scalar_node TBoolean False)"
  "node_property base_json ''mtu'' = Some (SchemaNode (Some TInteger) None True (Some 68) (Some 65535) None None None None None None)"
  by (simp_all add: base_json_def node_property_def)

lemma scalar_conforms:
  "conforms False (scalar_node TString w) (VString s)"
  "conforms False (scalar_node TBoolean w) (VBool b)"
  "conforms False (SchemaNode (Some TInteger) None True (Some 68) (Some 65535) None None None None None None) (VU64 u)
     \<longleftrightarrow> 68 \<le> uint u \<and> uint u \<le> 65535"
  by (simp_all add: conforms_scalar scalar_node_def semantic_type_def in_range_def)

lemma base_entry:
  assumes "observed_entry k v" "k \<noteq> ''ipv4''" "k \<noteq> ''ethernet''"
  shows "(case node_property base_json k of Some p \<Rightarrow> conforms False p v | None \<Rightarrow> is_open base_json)
     \<longleftrightarrow> (\<forall>u. k = ''mtu'' \<longrightarrow> v = VU64 u \<longrightarrow> 68 \<le> uint u \<and> uint u \<le> 65535)"
proof -
  from assms consider s where "k \<in> set [''name'', ''mac'', ''driver'']" "v = VString s"
    | b where "k \<in> set [''enabled'', ''carrier'']" "v = VBool b"
    | mtu :: u32 where "k = ''mtu''" "v = VU64 (ucast mtu)"
    unfolding observed_entry_def by blast
  then show ?thesis
  proof cases
    case 1
    then have "k = ''name'' \<or> k = ''mac'' \<or> k = ''driver''" by simp
    then show ?thesis using 1(2) by (elim disjE) (simp_all add: base_properties scalar_conforms)
  next
    case 2
    then have "k = ''enabled'' \<or> k = ''carrier''" by simp
    then show ?thesis using 2(2) by (elim disjE) (simp_all add: base_properties scalar_conforms)
  next
    case 3
    then show ?thesis by (simp add: base_properties scalar_conforms)
  qed
qed

lemma observed_conforms:
  assumes "observed_fields (st_fields st)"
  shows "state_conforms False embedded_registry st \<longleftrightarrow> mtu_in_schema (st_fields st)"
proof (rule embedded_shape)
  fix base ipv4 ethernet
  assume f: "fragments embedded_registry = [base, ipv4, ethernet]"
    "fr_trigger base = None" "fr_trigger ipv4 = Some ''ipv4''" "fr_trigger ethernet = Some ''ethernet''"
    "fr_root base = base_json" "fr_root ipv4 = ipv4_json" "fr_root ethernet = ethernet_json"
    "trigger_keys embedded_registry = [''ipv4'', ''ethernet'']"
  have entry: "observed_entry k v" if "(k, v) \<in> set (st_fields st)" for k v
    using assms that by (auto simp: observed_fields_def)
  have "required_keys base_json = []" by (simp add: base_json_def required_keys_def)
  moreover have "node_property base_json ''type'' = Some (scalar_node TString False)" by (simp add: base_json_def node_property_def)
  moreover have "conforms False (scalar_node TString False) (VString s)" for s
    by (simp add: conforms_scalar scalar_node_def semantic_type_def)
  ultimately have "fragment_conforms False embedded_registry st base \<longleftrightarrow>
      (\<forall>(k, v) \<in> set (st_fields st). k \<notin> set [''ipv4'', ''ethernet''] \<longrightarrow>
         (case node_property base_json k of Some p \<Rightarrow> conforms False p v | None \<Rightarrow> is_open base_json))"
    by (simp add: fragment_conforms_def f entries_conform_def cong: option.case_cong)
  also have "\<dots> \<longleftrightarrow> (\<forall>(k, v) \<in> set (st_fields st). k \<notin> set [''ipv4'', ''ethernet''] \<longrightarrow>
         (\<forall>u. k = ''mtu'' \<longrightarrow> v = VU64 u \<longrightarrow> 68 \<le> uint u \<and> uint u \<le> 65535))"
    using base_entry [OF entry] by (intro ball_cong) auto
  also have "\<dots> \<longleftrightarrow> mtu_in_schema (st_fields st)" by (fastforce simp: mtu_in_schema_def)
  finally have base: "fragment_conforms False embedded_registry st base \<longleftrightarrow> mtu_in_schema (st_fields st)" .
  have "fragment_conforms False embedded_registry st ethernet"
  proof (cases "im_get (st_fields st) ''ethernet''")
    case (Some v)
    with entry [OF map_of_SomeD [OF Some]] show ?thesis by (auto simp: fragment_conforms_def f observed_entry_def)
  qed (simp add: fragment_conforms_def f)
  moreover have "fragment_conforms False embedded_registry st ipv4"
  proof (cases "im_get (st_fields st) ''ipv4''")
    case (Some v)
    with entry [OF map_of_SomeD [OF Some]] obtain as where as: "v = VMap [(''addresses'', VList (map address_value as))]"
      "\<forall>a \<in> set as. prefix_len (address a) \<le> 32" by (auto simp: observed_entry_def)
    let ?n = "SchemaNode (Some TArray) None True None None None None None (Some ipv4_address_item) None None"
    have "conforms False ?n (VList (map address_value as))"
      using as(2) address_conforms by (auto simp: conforms_list semantic_type_def)
    moreover have "node_property ipv4_json ''addresses'' = Some ?n" "required_keys ipv4_json = []"
      by (simp_all add: ipv4_json_def node_property_def required_keys_def)
    ultimately have "entries_conform False ipv4_json [(''addresses'', VList (map address_value as))] []"
      by (simp add: entries_conform_def)
    with Some as(1) show ?thesis by (simp add: fragment_conforms_def f)
  qed (simp add: fragment_conforms_def f)
  ultimately show ?thesis using base by (simp add: state_conforms_def f(1))
qed

end
