(* ===== verification/LinuxFacts.thy ===== *)
theory LinuxFacts
  imports Linux LinkFacts
begin

text \<open>
  Facts about theory \<open>Linux\<close>: what the steps of the inventory return, that no call panics, the state each call keeps.
\<close>

section \<open>Results of an action\<close>

text \<open>Every value an action returns satisfies the predicate, whatever state it starts in.\<close>

definition yields :: "('a \<Rightarrow> bool) \<Rightarrow> ('a, 'e, 's) action \<Rightarrow> bool" where
  "yields Q m \<longleftrightarrow> (\<forall>s x s'. m s = (Ok x, s') \<longrightarrow> Q x)"

named_theorems yields_rules \<open>results of actions\<close>

lemma yields_basic [yields_rules]:
  "Q x \<Longrightarrow> yields Q (areturn x)" "(\<And>x. r = Ok x \<Longrightarrow> Q x) \<Longrightarrow> yields Q (alift r)"
  by (auto simp: yields_def)

lemma yields_abind: "yields P m \<Longrightarrow> (\<And>x. P x \<Longrightarrow> yields Q (f x)) \<Longrightarrow> yields Q (abind m f)"
  unfolding yields_def abind_eq_Ok by blast

lemma yields_after [yields_rules]: "(\<And>x. yields Q (f x)) \<Longrightarrow> yields Q (abind m f)"
  unfolding yields_def abind_eq_Ok by blast

lemma yields_split [yields_rules]:
  "(c \<Longrightarrow> yields Q m) \<Longrightarrow> (\<not> c \<Longrightarrow> yields Q n) \<Longrightarrow> yields Q (if c then m else n)"
  "(v = None \<Longrightarrow> yields Q m) \<Longrightarrow> (\<And>x. v = Some x \<Longrightarrow> yields Q (g x))
     \<Longrightarrow> yields Q (case v of None \<Rightarrow> m | Some x \<Rightarrow> g x)"
  "(\<And>x. r = Ok x \<Longrightarrow> yields Q (h x)) \<Longrightarrow> (\<And>e. r = Err e \<Longrightarrow> yields Q (k e)) \<Longrightarrow> (r = Panic \<Longrightarrow> yields Q p)
     \<Longrightarrow> yields Q (case r of Ok x \<Rightarrow> h x | Err e \<Rightarrow> k e | Panic \<Rightarrow> p)"
  by (cases v; cases r; simp)+

lemma yieldsD: "yields Q m \<Longrightarrow> m s = (Ok x, s') \<Longrightarrow> Q x"
  by (auto simp: yields_def)

lemma returns_abind_yields:
  "returns m \<Longrightarrow> yields Q m \<Longrightarrow> (\<And>x. Q x \<Longrightarrow> returns (f x)) \<Longrightarrow> returns (abind m f)"
proof -
  assume *: "returns m" "yields Q m" "\<And>x. Q x \<Longrightarrow> returns (f x)"
  have "fst (abind m f s) \<noteq> Panic" for s
  proof (cases "m s")
    case (Pair r t)
    with * show ?thesis by (cases r) (auto simp: returns_def yields_def abind_def dest: spec [of _ s])
  qed
  then show ?thesis by (simp add: returns_def)
qed

section \<open>No call panics\<close>

lemma of_sum_returns: "of_sum r \<noteq> Panic" by (simp add: of_sum_def split: sum.split)

lemma omap_err_Ok: "omap_err f m = Ok x \<longleftrightarrow> m = Ok x" by (cases m) auto


lemma returns_calls [returns_rules]:
  "returns (kernel_call f)" "returns (kernel_result g)"
  by (auto simp: returns_def kernel_call_def kernel_result_def abind_def alift_def of_sum_returns case_prod_unfold Let_def)

lemma returns_wrapped [returns_rules]:
  "returns m \<Longrightarrow> returns (amap_err f m)" "returns m \<Longrightarrow> returns (attempt m)"
  by (auto simp: returns_def amap_err_def attempt_def omap_err_Panic case_prod_unfold Let_def split: if_splits)

lemma returns_pair [returns_rules]: "(\<And>x y. p = (x, y) \<Longrightarrow> returns (f x y)) \<Longrightarrow> returns (case p of (x, y) \<Rightarrow> f x y)"
  by (cases p) simp

lemma yields_pair [yields_rules]: "(\<And>x y. p = (x, y) \<Longrightarrow> yields Q (f x y)) \<Longrightarrow> yields Q (case p of (x, y) \<Rightarrow> f x y)"
  by (cases p) simp

lemma attempt_no_panic: "yields (\<lambda>r. r \<noteq> Panic) (attempt m)"
  by (auto simp: yields_def attempt_def case_prod_unfold Let_def split: if_splits)

lemma ifreq_returns: "ifreq_for name \<noteq> Panic" by (simp add: ifreq_for_def)

lemma c_string_returns: "c_string lib bytes \<noteq> Panic" by (auto simp: c_string_def outcome_inversions)

lemma returns_drain [returns_rules]: "returns (drain_notifications lib kn)"
  unfolding drain_notifications_def by (intro returns_rules) (auto intro!: returns_rules)

lemma returns_request [returns_rules]: "returns (request lib kn message exchange flags)"
  unfolding request_def by (intro returns_rules) (simp add: response_returns split: exchange_answer.split)

lemma returns_check [returns_rules]: "returns (check_named kn name index)"
  unfolding check_named_def interface_index_def
  by (rule returns_abind_yields [OF _ attempt_no_panic])
    (auto intro!: returns_rules simp: ifreq_returns split: outcome.split)

lemma returns_named [returns_rules]: "returns call \<Longrightarrow> returns (while_named kn name index call)"
  unfolding while_named_def by (intro returns_rules)

lemma returns_legacy [returns_rules]: "returns (legacy_wireless kn name)"
  unfolding legacy_wireless_def by (auto intro!: returns_rules split: outcome.split)

lemma returns_driver_info [returns_rules]: "returns (driver_info lib kn name)"
  unfolding driver_info_def by (auto intro!: returns_rules simp: ifreq_returns c_string_returns)

lemma returns_generation [returns_rules]: "returns (generation_of kn index)"
  unfolding generation_of_def fresh_generation_def by (intro returns_rules)

lemma collect_wireless_returns: "collect_wireless stream indices \<noteq> Panic"
  by (induction stream indices rule: collect_wireless.induct) (auto split: sum.split wireless_payload.split)

lemma returns_wireless [returns_rules]: "returns (wireless_indices kn)"
  unfolding wireless_indices_def by (intro returns_rules) (auto simp: collect_wireless_returns split: wireless_answer.split)

lemma returns_ethernet [returns_rules]: "returns (ethernet_attributes kn name index)"
  unfolding ethernet_attributes_def by (intro returns_rules) (auto split: option.split)

lemma returns_link_modes [returns_rules]: "returns (ask_link_modes kn targets)"
  by (induction kn targets rule: ask_link_modes.induct) (auto intro!: returns_rules)

lemma link_modes_ok:
  "yields (\<lambda>rs. length rs = length targets \<and> Panic \<notin> set rs) (ask_link_modes kn targets)"
proof (induction kn targets rule: ask_link_modes.induct)
  case (2 kn place name index targets)
  show ?case unfolding ask_link_modes.simps
    by (rule yields_abind [OF attempt_no_panic], rule yields_abind [OF 2]) (auto intro!: yields_rules)
qed (simp add: yields_basic)

text \<open>A parsed link header was read from the bytes it has.\<close>

definition header_laws :: "route_lib \<Rightarrow> bool" where
  "header_laws lib \<longleftrightarrow> (\<forall>body header. parse_link_header lib body = Inr header \<longrightarrow> LINK_HEADER_LEN \<le> length body)"

lemma scan_link_returns: "scan_link lib header items acc \<noteq> Panic"
  by (induction items arbitrary: acc) (auto split: sum.split)

lemma parse_link_returns: "header_laws lib \<Longrightarrow> parse_link lib body \<noteq> Panic"
  by (auto simp: parse_link_def outcome_inversions header_laws_def of_sum_def scan_link_returns split: sum.splits)

lemma returns_enrich [returns_rules]: "returns (enrich_driver lib kn ident st)"
  unfolding enrich_driver_def
  by (rule returns_abind_yields [OF _ attempt_no_panic]) (auto intro!: returns_rules split: outcome.split)

lemma returns_observe_link [returns_rules]:
  assumes "header_laws lib"
  shows "returns (observe_link lib kn enrich wireless now packet acc)"
  unfolding observe_link_def Let_def
  by (intro returns_rules) (simp_all add: parse_link_returns [OF assms])

lemma returns_observe_links [returns_rules]:
  "header_laws lib \<Longrightarrow> returns (observe_links lib kn enrich wireless now packets acc)"
  by (induction packets arbitrary: acc) (auto intro!: returns_rules)

section \<open>Ethernet attributes\<close>

definition ethernet_entry :: "string \<Rightarrow> cval \<Rightarrow> bool" where
  "ethernet_entry k v \<longleftrightarrow>
     k = ''speed'' \<and> (\<exists>u. v = VU64 u) \<or> k = ''autoneg'' \<and> (\<exists>b. v = VBool b)
     \<or> k = ''duplex'' \<and> v \<in> {VString ''full'', VString ''half'', VString ''unknown''}"

definition ethernet_entries :: "fields \<Rightarrow> bool" where
  "ethernet_entries fs \<longleftrightarrow> (\<forall>k v. (k, v) \<in> set fs \<longrightarrow> ethernet_entry k v)"

lemma ethernet_insert:
  "ethernet_entries fs \<Longrightarrow> ethernet_entry k v \<Longrightarrow> ethernet_entries (im_insert fs k v)"
  unfolding ethernet_entries_def using im_insert_in by (metis prod.inject)

lemma enrich_step_entries: "ethernet_entries (fst acc) \<Longrightarrow> ethernet_entries (fst (enrich_ethernet a acc))"
  by (cases "(a, acc)" rule: enrich_ethernet.cases)
    (auto intro!: ethernet_insert split: duplex.split simp: ethernet_entry_def)

lemma enrich_entries:
  "enrich_attributes index attrs acc = Some acc' \<Longrightarrow> ethernet_entries (fst acc) \<Longrightarrow> ethernet_entries (fst acc')"
proof (induction index attrs acc rule: enrich_attributes.induct)
  case (2 index headers rest acc)
  then show ?case by (simp split: if_splits)
qed (auto intro: enrich_step_entries)

lemma ethernet_conforms: "ethernet_entries fs \<Longrightarrow> entries_conform False ethernet_json fs []"
proof -
  assume fs: "ethernet_entries fs"
  have props: "node_property ethernet_json ''speed'' = Some (scalar_node TInteger False)"
    "node_property ethernet_json ''autoneg'' = Some (scalar_node TBoolean False)"
    "node_property ethernet_json ''duplex'' = Some (SchemaNode (Some TString) None False None None
       (Some [''full'', ''half'', ''unknown'']) None None None None None)"
    by (simp_all add: ethernet_json_def node_property_def)
  have "conforms False (scalar_node TInteger False) (VU64 u)" for u
    by (simp add: conforms_scalar scalar_node_def semantic_type_def in_range_def)
  moreover have "conforms False (SchemaNode (Some TString) None False None None
       (Some [''full'', ''half'', ''unknown'']) None None None None None) (VString s)"
    if "s \<in> {''full'', ''half'', ''unknown''}" for s
    using that by (simp add: conforms_scalar semantic_type_def)
  moreover have "required_keys ethernet_json = []" by (simp add: ethernet_json_def required_keys_def)
  moreover have "\<exists>p. node_property ethernet_json k = Some p \<and> conforms False p v" if "(k, v) \<in> set fs" for k v
  proof -
    from fs that have "ethernet_entry k v" by (simp add: ethernet_entries_def)
    with calculation(1,2) show ?thesis using props scalar_conforms by (auto simp: ethernet_entry_def)
  qed
  ultimately show ?thesis by (fastforce simp: entries_conform_def)
qed

lemma ethernet_yields: "yields (\<lambda>(fs, _). entries_conform False ethernet_json fs []) (ethernet_attributes kn name index)"
proof -
  have "ethernet_entries ([] :: fields)" by (simp add: ethernet_entries_def)
  then show ?thesis unfolding ethernet_attributes_def
    by (intro yields_rules) (auto dest!: enrich_entries intro!: ethernet_conforms split: option.splits)
qed

lemma link_modes_yield:
  "yields (\<lambda>rs. \<forall>fs messages. Ok (fs, messages) \<in> set rs \<longrightarrow> entries_conform False ethernet_json fs [])
     (ask_link_modes kn targets)"
proof (induction kn targets rule: ask_link_modes.induct)
  case (2 kn place name index targets)
  have "yields (\<lambda>r. \<forall>fs messages. r = Ok (fs, messages) \<longrightarrow> entries_conform False ethernet_json fs [])
      (attempt (ethernet_attributes kn name index))"
    using ethernet_yields [of kn name index]
    by (auto simp: yields_def attempt_def case_prod_unfold Let_def split: if_splits) (metis case_prod_conv prod.collapse)
  then show ?case unfolding ask_link_modes.simps
    by (rule yields_abind, intro yields_abind [OF 2]) (rule yields_basic(1), fastforce)
qed (simp add: yields_basic)

section \<open>The devices of an inventory\<close>

text \<open>The selector fields of a device are its identity's, and its fields are of the observed kinds.\<close>

definition described :: "device_observation \<Rightarrow> bool" where
  "described d \<longleftrightarrow>
     match_name (st_match (dev_st d)) = Some (if_name (identity d))
     \<and> match_type (st_match (dev_st d)) = Some (if_device_type (identity d))
     \<and> match_mac (st_match (dev_st d)) = if_mac (identity d)
     \<and> observed_fields (st_fields (dev_st d))"

definition fresh_device :: "device_observation \<Rightarrow> bool" where
  "fresh_device d \<longleftrightarrow> described d \<and> addresses d = [] \<and> addresses_complete d = (if_device_type (identity d) = ETHERNET)"

definition scan_ok :: "link_scan_state \<Rightarrow> bool" where
  "scan_ok = (\<lambda>(ds, diags, targets). list_all fresh_device ds \<and> list_all (\<lambda>(place, _). place < length ds) targets)"

lemma link_state_match:
  "st_match (fst (link_state md link ty)) =
     default_match\<lparr>match_name := Some (pl_name link), match_type := Some ty, match_mac := snd (link_state md link ty)\<rparr>"
  by (simp add: link_state_def Let_def case_prod_unfold)

lemma set_driver_fields:
  "observed_fields (st_fields st) \<Longrightarrow> observed_fields (st_fields (set_driver driver pci_path st))"
  by (auto simp: set_driver_def Let_def split: option.split intro!: observed_insert) (simp add: observed_entry_def)

definition same_but_driver :: "dev_state \<Rightarrow> dev_state \<Rightarrow> bool" where
  "same_but_driver st st' \<longleftrightarrow>
     match_name (st_match st') = match_name (st_match st) \<and> match_type (st_match st') = match_type (st_match st)
     \<and> match_mac (st_match st') = match_mac (st_match st)
     \<and> (observed_fields (st_fields st) \<longrightarrow> observed_fields (st_fields st'))"

lemma same_but_driver: "same_but_driver st st" "same_but_driver st (set_driver driver pci_path st)"
  using set_driver_fields by (auto simp: same_but_driver_def set_driver_def Let_def split: option.split)

lemma enrich_driver_yields: "yields (\<lambda>(st', _). same_but_driver st st') (enrich_driver lib kn ident st)"
  unfolding enrich_driver_def by (intro yields_rules) (auto simp: same_but_driver)

lemma observe_link_yields:
  assumes "scan_ok acc"
  shows "yields scan_ok (observe_link lib kn enrich wireless now packet acc)"
proof -
  obtain ds diags targets where acc: "acc = (ds, diags, targets)" by (cases acc) auto
  have places: "list_all (\<lambda>(place, _). place < Suc (length ds)) (if c then targets @ [(length ds, name, index)] else targets)"
    for c name index
    using assms by (auto simp: scan_ok_def acc list_all_iff)
  have fresh: "fresh_device \<lparr>identity = \<lparr>if_namespace = ns, if_index = index, if_generation = generation, if_name = pl_name link,
        if_device_type = ty, if_mac = mac\<rparr>, dev_st = st', addresses = [], addresses_complete = (ty = ETHERNET), observed_at = now\<rparr>"
    if "link_state md link ty = (st, mac)" "same_but_driver st st'" for ns index generation link ty md st st' mac
    using that link_state_observed [of md link ty] link_state_match [of md link ty]
    by (simp add: fresh_device_def described_def same_but_driver_def)
  have enriched: "yields (\<lambda>(st', _). same_but_driver st st')
      (if c then enrich_driver lib kn ident st else areturn (st, []))" for c ident st
    by (intro yields_rules enrich_driver_yields) (simp add: same_but_driver)
  show ?thesis unfolding acc observe_link_def Let_def prod.case
    by (rule yields_split(1), rule yields_basic(2), simp, rule yields_after, rule yields_after, rule yields_after,
        rule yields_after, rule yields_pair, rule yields_abind [OF enriched], rule yields_pair, rule yields_basic(1))
      (use assms in \<open>simp add: acc scan_ok_def places fresh split del: if_split\<close>)
qed

lemma observe_links_yield:
  "scan_ok acc \<Longrightarrow> yields scan_ok (observe_links lib kn enrich wireless now packets acc)"
  by (induction packets arbitrary: acc) (auto intro: yields_basic yields_abind observe_link_yields)

end
