(* ===== verification/AddressFacts.thy ===== *)
theory AddressFacts
  imports LinuxFacts ChecksFacts
begin

text \<open>
  Facts about the addresses of an inventory in theory \<open>Linux\<close>: the messages kept for later operations are those of the
  addresses reported.
\<close>

section \<open>Addresses and the messages kept\<close>

definition observed_key :: "device_observation \<Rightarrow> address_observation \<Rightarrow> address_key" where
  "observed_key d obs = (if_index (identity d), ip (address obs), prefix_len (address obs))"

definition backed :: "(address_key \<rightharpoonup> address_message) \<Rightarrow> device_observation \<Rightarrow> address_observation \<Rightarrow> bool" where
  "backed messages d obs \<longleftrightarrow>
     prefix_len (address obs) \<le> 32
     \<and> (case messages (observed_key d obs) of
          Some message \<Rightarrow> am_index message = if_index (identity d) \<and> (addresses_complete d \<longrightarrow> parse_address message = Ok obs)
        | None \<Rightarrow> False)"

definition kept :: "(address_key \<rightharpoonup> address_message) \<Rightarrow> device_observation \<Rightarrow> bool" where
  "kept messages d \<longleftrightarrow> distinct (map (observed_key d) (addresses d)) \<and> list_all (backed messages d) (addresses d)"

definition at_index :: "u32 \<Rightarrow> device_observation \<Rightarrow> bool" where
  "at_index index d = (if_index (identity d) = index)"

text \<open>Only the first device of an index has addresses.\<close>

definition address_inv :: "address_state \<Rightarrow> bool" where
  "address_inv st \<longleftrightarrow>
     list_all (\<lambda>d. described d \<and> kept (as_messages st) d \<and> (addresses_complete d \<longrightarrow> if_device_type (identity d) = ETHERNET))
       (as_devices st)
     \<and> (\<forall>p < length (as_devices st). addresses (as_devices st ! p) \<noteq> [] \<longrightarrow>
          position (at_index (if_index (identity (as_devices st ! p)))) (as_devices st) = Some p)"

lemma position_update:
  "i < length ds \<Longrightarrow> identity d = identity (ds ! i) \<Longrightarrow> position (at_index n) (ds[i := d]) = position (at_index n) ds"
  by (induction ds arbitrary: i) (auto simp: at_index_def split: nat.splits)

lemma backed_other:
  "backed messages d obs \<Longrightarrow> observed_key d obs \<noteq> key \<Longrightarrow> backed (messages(key \<mapsto> message)) d obs"
  by (simp add: backed_def)

lemma kept_other:
  assumes "kept messages d" "addresses d = [] \<or> if_index (identity d) \<noteq> fst key"
  shows "kept (messages(key \<mapsto> message)) d"
  using assms by (auto simp: kept_def list_all_iff observed_key_def intro!: backed_other)

lemma kept_duplicate:
  assumes "kept messages d" "am_index message = if_index (identity d)"
  shows "kept (messages(key \<mapsto> message)) (d\<lparr>addresses_complete := False\<rparr>)"
proof -
  have "observed_key (d\<lparr>addresses_complete := False\<rparr>) = observed_key d" by (rule ext) (simp add: observed_key_def)
  then show ?thesis using assms by (auto simp: kept_def list_all_iff backed_def split: option.splits)
qed

lemma kept_added:
  assumes "kept messages d" "messages (observed_key d obs) = None" "am_index message = if_index (identity d)"
    and "parse_address message = Ok obs"
  shows "kept (messages(observed_key d obs \<mapsto> message)) (d\<lparr>addresses := addresses d @ [obs]\<rparr>)"
proof -
  have key: "observed_key (d\<lparr>addresses := as\<rparr>) = observed_key d" for as by (rule ext) (simp add: observed_key_def)
  have new: "observed_key d o' \<noteq> observed_key d obs" if "o' \<in> set (addresses d)" for o'
    using assms(1,2) that by (auto simp: kept_def list_all_iff backed_def split: option.splits)
  have "backed (messages(observed_key d obs \<mapsto> message)) d o'" if "o' \<in> set (addresses d)" for o'
    using assms(1) that new by (auto simp: kept_def list_all_iff intro!: backed_other)
  moreover have "backed (messages(observed_key d obs \<mapsto> message)) d obs"
    using assms(3,4) parsed_prefix by (simp add: backed_def)
  moreover have "backed m (d\<lparr>addresses := as\<rparr>) o' = backed m d o'" for m as o' by (simp add: backed_def key cong: option.case_cong)
  moreover have "observed_key d obs \<notin> observed_key d ` set (addresses d)" using new by force
  ultimately show ?thesis using assms(1) by (auto simp: kept_def list_all_iff key)
qed

lemma record_address_inv:
  assumes inv: "address_inv st" and place: "position (at_index (am_index message)) (as_devices st) = Some place"
    and "if_device_type (identity (as_devices st ! place)) = ETHERNET" "parse_address message = Ok observed"
  shows "address_inv (record_address place (as_devices st ! place) message observed st)"
proof -
  let ?ds = "as_devices st" and ?d = "as_devices st ! place"
  let ?key = "observed_key ?d observed" and ?messages = "(as_messages st)(observed_key ?d observed \<mapsto> message)"
  from place have p: "place < length ?ds" "if_index (identity ?d) = am_index message"
    by (auto simp: at_index_def position_Some)
  have others: "kept ?messages (?ds ! q)" if "q < length ?ds" "q \<noteq> place" for q
  proof (rule kept_other)
    show "kept (as_messages st) (?ds ! q)" using inv that by (simp add: address_inv_def list_all_length)
    show "addresses (?ds ! q) = [] \<or> if_index (identity (?ds ! q)) \<noteq> fst ?key"
    proof (rule disjCI)
      assume "\<not> if_index (identity (?ds ! q)) \<noteq> fst ?key"
      then have "position (at_index (if_index (identity (?ds ! q)))) ?ds = Some place"
        using place p(2) by (simp add: observed_key_def)
      with inv that show "addresses (?ds ! q) = []" by (auto simp: address_inv_def)
    qed
  qed
  have d: "described ?d" "kept (as_messages st) ?d" using inv p by (simp_all add: address_inv_def list_all_length)
  have general: "address_inv st'"
    if st': "as_messages st' = ?messages" "as_devices st' = ?ds[place := d']"
      and d': "kept ?messages d'" "described d'" "identity d' = identity ?d" for st' d'
    unfolding address_inv_def list_all_length st'
  proof (intro conjI allI impI)
    fix q assume "q < length (?ds[place := d'])"
    then have q: "q < length ?ds" by simp
    show "described (?ds[place := d'] ! q)"
      using q inv d' by (cases "q = place") (simp_all add: address_inv_def list_all_length)
    show "kept ?messages (?ds[place := d'] ! q)"
      using q others d' by (cases "q = place") simp_all
    show "if_device_type (identity (?ds[place := d'] ! q)) = ETHERNET" if "addresses_complete (?ds[place := d'] ! q)"
      using q inv assms(3) that d' by (cases "q = place") (simp_all add: address_inv_def list_all_length)
    have same: "identity (?ds[place := d'] ! q) = identity (?ds ! q)" using d' p(1) by (cases "q = place") simp_all
    show "position (at_index (if_index (identity (?ds[place := d'] ! q)))) (?ds[place := d']) = Some q"
      if "addresses (?ds[place := d'] ! q) \<noteq> []"
      using q inv place p that d'(3) unfolding same position_update [OF p(1) d'(3)]
      by (cases "q = place") (simp_all add: address_inv_def)
  qed
  show ?thesis
  proof (cases "as_messages st ?key")
    case None
    have "kept ?messages (?d\<lparr>addresses := addresses ?d @ [observed]\<rparr>)"
      using kept_added [OF d(2) None] p(2) assms(4) by simp
    with d(1) None show ?thesis
      by (intro general [of _ "?d\<lparr>addresses := addresses ?d @ [observed]\<rparr>"])
        (simp_all add: record_address_def Let_def observed_key_def described_def)
  next
    case (Some old)
    have "kept ?messages (?d\<lparr>addresses_complete := False\<rparr>)" using kept_duplicate [OF d(2)] p(2) by simp
    with d(1) Some show ?thesis
      by (intro general [of _ "?d\<lparr>addresses_complete := False\<rparr>"])
        (simp_all add: record_address_def Let_def observed_key_def described_def)
  qed
qed

lemma at_index_fold: "(\<lambda>d. if_index (identity d) = n) = at_index n"
  by (rule ext) (simp add: at_index_def)

lemma observe_address_inv:
  "address_inv st \<Longrightarrow> observe_address lib packet st = Ok st' \<Longrightarrow> address_inv st'"
  by (auto simp: observe_address_def outcome_inversions at_index_fold Let_def split: if_splits
      intro!: record_address_inv simp: omap_err_Ok)

end
