(* ===== verification/TransportFacts.thy ===== *)
theory TransportFacts
  imports AddressFacts
begin

text \<open>
  What the calls of the transport keep of its state, for any relation that its primitive steps keep, and the relations
  this is used with: the namespace, the shrinking set of identities, and the writes that were sent.
\<close>

section \<open>Relations kept by the transport\<close>

fun is_write :: "route_request \<Rightarrow> bool" where
  "is_write (GetLink _) = False"
| "is_write (GetAddress _) = False"
| "is_write _ = True"

text \<open>A relation kept by the steps of reading notifications is kept by draining them.\<close>

locale notification_calls = frame rel for rel :: "'w transport \<Rightarrow> 'w transport \<Rightarrow> bool" +
  fixes lib :: route_lib and kn :: "'w kernel"
  assumes rel_ready: "rel t (t\<lparr>lt_world := snd (kn_ready kn (lt_world t))\<rparr>)"
    and rel_record: "rel t (record_item lib item t)"
    and rel_reset: "rel t (t\<lparr>lt_invalidated := None\<rparr>)"
begin

lemma keeps_call: "(\<And>t. rel t (t\<lparr>lt_world := snd (f (lt_world t))\<rparr>)) \<Longrightarrow> keeps (kernel_call f)"
  by (simp add: keeps_def kernel_call_def case_prod_unfold Let_def)

lemma keeps_result: "(\<And>t. rel t (t\<lparr>lt_world := snd (f (lt_world t))\<rparr>)) \<Longrightarrow> keeps (kernel_result f)"
  unfolding kernel_result_def by (intro keeps_rules keeps_call)

lemma keeps_wrapped: "keeps m \<Longrightarrow> keeps (attempt m)" "keeps m \<Longrightarrow> keeps (amap_err g m)"
  by (simp_all add: keeps_def attempt_def amap_err_def case_prod_unfold Let_def)

lemma keeps_pair: "(\<And>x y. p = (x, y) \<Longrightarrow> keeps (f x y)) \<Longrightarrow> keeps (case p of (x, y) \<Rightarrow> f x y)"
  by (cases p) simp

lemma keeps_outcome:
  "(\<And>x. keeps (h x)) \<Longrightarrow> (\<And>e. keeps (k e)) \<Longrightarrow> keeps p
     \<Longrightarrow> keeps (case r of Ok x \<Rightarrow> h x | Err e \<Rightarrow> k e | Panic \<Rightarrow> p)"
  by (cases r) simp_all

lemma rel_record_ready: "rel t (record_ready lib items t)"
  by (induction items arbitrary: t) (auto intro: rel_refl rel_trans [OF rel_record])

lemma keeps_drain: "keeps (drain_notifications lib kn)"
  unfolding drain_notifications_def
  by (intro keeps_rules keeps_call keeps_amodify rel_ready rel_record_ready rel_reset)

end

text \<open>One that exchanges that read keep too is kept by requests that read and by the confirmation of an identity.\<close>

locale transport_calls = notification_calls rel lib kn for rel :: "'w transport \<Rightarrow> 'w transport \<Rightarrow> bool" and lib kn +
  assumes rel_exchange: "\<not> is_write message \<Longrightarrow> rel t (t\<lparr>lt_world := snd (kn_exchange kn message flags (lt_world t))\<rparr>)"
begin

lemma keeps_request: "\<not> is_write message \<Longrightarrow> keeps (request lib kn message exchange flags)"
  unfolding request_def by (intro keeps_rules keeps_drain keeps_call rel_exchange)

lemma keeps_confirm: "keeps (confirm_identity lib kn tgt)"
  unfolding confirm_identity_def Let_def
  by (intro keeps_rules keeps_drain keeps_request) simp

end

text \<open>And one that the steps of the inventory keep is kept by the inventory.\<close>

locale inventory_calls = transport_calls rel lib kn for rel :: "'w transport \<Rightarrow> 'w transport \<Rightarrow> bool" and lib kn +
  assumes rel_now: "rel t (t\<lparr>lt_world := snd (kn_now kn (lt_world t))\<rparr>)"
    and rel_random: "rel t (t\<lparr>lt_world := snd (kn_random kn (lt_world t))\<rparr>)"
    and rel_ifindex: "rel t (t\<lparr>lt_world := snd (kn_ifindex kn name (lt_world t))\<rparr>)"
    and rel_iwname: "rel t (t\<lparr>lt_world := snd (kn_iwname kn name (lt_world t))\<rparr>)"
    and rel_drvinfo: "rel t (t\<lparr>lt_world := snd (kn_drvinfo kn name (lt_world t))\<rparr>)"
    and rel_wireless: "rel t (t\<lparr>lt_world := snd (kn_wireless kn (lt_world t))\<rparr>)"
    and rel_link_mode: "rel t (t\<lparr>lt_world := snd (kn_link_mode kn name (lt_world t))\<rparr>)"
    and rel_generation: "fst (kn_random kn w) = Inr generation \<Longrightarrow> rel t (t\<lparr>lt_generations := (lt_generations t)(index \<mapsto> generation)\<rparr>)"
    and rel_retain: "rel t (retain_generations ds t)"
    and rel_addresses: "rel t (t\<lparr>lt_addresses := messages\<rparr>)"
begin

lemma keeps_check: "keeps (check_named kn name index)"
  unfolding check_named_def interface_index_def
  by (intro keeps_rules keeps_wrapped keeps_result rel_ifindex)

lemma keeps_named: "keeps call \<Longrightarrow> keeps (while_named kn name index call)"
  unfolding while_named_def by (intro keeps_rules keeps_check)

lemma keeps_legacy: "keeps (legacy_wireless kn name)"
  unfolding legacy_wireless_def by (intro keeps_outcome keeps_rules keeps_call rel_iwname)

lemma keeps_driver_info: "keeps (driver_info lib kn name)"
  unfolding driver_info_def by (intro keeps_rules keeps_pair keeps_result rel_drvinfo)

lemma keeps_generation: "keeps (generation_of kn index)"
proof -
  have "rel t (snd (generation_of kn index t))" for t
  proof (cases "lt_generations t index")
    case None
    obtain r w where k: "kn_random kn (lt_world t) = (r, w)" by fastforce
    note eval = generation_of_def fresh_generation_def kernel_result_def kernel_call_def amap_err_def abind_def aget_def alift_def
      amodify_def areturn_def of_sum_def
    have drawn: "rel t (t\<lparr>lt_world := w\<rparr>)" using rel_random [of t] k by simp
    show ?thesis
    proof (cases r)
      case (Inr generation)
      then have "rel (t\<lparr>lt_world := w\<rparr>) (t\<lparr>lt_world := w, lt_generations := (lt_generations t)(index \<mapsto> generation)\<rparr>)"
        using rel_generation [of "lt_world t" generation "t\<lparr>lt_world := w\<rparr>" index] k by simp
      with drawn None k Inr show ?thesis by (auto simp: eval intro: rel_trans)
    qed (use drawn None k in \<open>simp add: eval\<close>)
  qed (simp add: generation_of_def abind_def aget_def areturn_def rel_refl)
  then show ?thesis by (simp add: keeps_def)
qed

lemma keeps_enrich: "keeps (enrich_driver lib kn ident st)"
  unfolding enrich_driver_def
  by (intro keeps_rules keeps_wrapped keeps_named keeps_driver_info keeps_outcome keeps_pair)

lemma keeps_observe: "keeps (observe_link lib kn enrich wireless now packet acc)"
  unfolding observe_link_def Let_def
  by (cases acc) (simp only: prod.case,
    intro keeps_rules keeps_wrapped keeps_named keeps_legacy keeps_generation keeps_pair keeps_enrich)

lemma keeps_observe_links: "keeps (observe_links lib kn enrich wireless now packets acc)"
  by (induction packets arbitrary: acc) (simp_all add: keeps_rules keeps_observe)

lemma keeps_wireless: "keeps (wireless_indices kn)"
  unfolding wireless_indices_def by (intro keeps_rules keeps_call rel_wireless)

lemma keeps_link_modes: "keeps (ask_link_modes kn targets)"
proof (induction targets)
  case (Cons tgt targets)
  have "keeps (ethernet_attributes kn name index)" for name index
    unfolding ethernet_attributes_def by (intro keeps_rules keeps_pair keeps_call rel_link_mode)
  with Cons show ?case by (cases tgt) (auto intro!: keeps_rules keeps_wrapped)
qed (simp add: keeps_rules)

lemma keeps_confirm_inventory: "keeps (confirm_inventory lib kn epoch ds messages)"
  unfolding confirm_inventory_def by (intro keeps_rules keeps_drain keeps_amodify rel_addresses)

lemma keeps_inventory: "keeps (inventory lib kn enrich)"
  unfolding inventory_def Let_def
  by (intro keeps_rules keeps_drain keeps_request keeps_call keeps_wrapped keeps_wireless keeps_observe_links keeps_pair
      keeps_link_modes keeps_amodify keeps_confirm_inventory rel_now rel_retain) simp_all

end

text \<open>Where requests that write keep it too, so does the execution of an operation.\<close>

locale execution_calls = inventory_calls rel lib kn for rel :: "'w transport \<Rightarrow> 'w transport \<Rightarrow> bool" and lib kn +
  assumes rel_write: "rel t (t\<lparr>lt_world := snd (kn_exchange kn message flags (lt_world t))\<rparr>)"
begin

lemma keeps_execute: "keeps (execute lib kn tgt kind)"
proof -
  have "keeps (request lib kn message exchange flags)" for message exchange flags
    unfolding request_def by (intro keeps_rules keeps_drain keeps_call rel_write)
  then show ?thesis
    unfolding execute_def by (intro keeps_rules keeps_pair keeps_confirm)
qed

end

section \<open>The relations\<close>

lemma record_item_namespace [simp]: "lt_namespace (record_item lib item t) = lt_namespace t"
  by (simp add: record_item_def invalidate_def record_deletion_def split: option.split netlink_payload.split outcome.split)

interpretation namespace_kept: execution_calls "\<lambda>t t' :: 'w transport. lt_namespace t' = lt_namespace t" lib kn for lib kn
  by unfold_locales (simp_all add: retain_generations_def)

text \<open>While nothing is inventoried, an identity can only cease to be current.\<close>

definition identities_shrink :: "'w transport \<Rightarrow> 'w transport \<Rightarrow> bool" where
  "identities_shrink t t' \<longleftrightarrow>
     lt_generations t' \<subseteq>\<^sub>m lt_generations t \<and> lt_namespace t' = lt_namespace t \<and> lt_addresses t' = lt_addresses t"

lemma record_item_addresses [simp]: "lt_addresses (record_item lib item t) = lt_addresses t"
  by (simp add: record_item_def invalidate_def record_deletion_def split: option.split netlink_payload.split outcome.split)

lemma record_item_shrinks: "identities_shrink t (record_item lib item t)"
  by (simp add: identities_shrink_def record_item_def invalidate_def record_deletion_def map_le_def
      split: option.split netlink_payload.split outcome.split)

interpretation shrinking: transport_calls identities_shrink lib kn for lib :: route_lib and kn :: "'w kernel"
  by unfold_locales (auto simp: identities_shrink_def record_item_shrinks intro: map_le_trans record_item_shrinks
      [unfolded identities_shrink_def, THEN conjunct1])

section \<open>A kernel that logs its exchanges\<close>

type_synonym exchange_log = "(route_request \<times> u16 \<times> exchange_answer) list"

definition logged_call :: "('w \<Rightarrow> 'a \<times> 'w) \<Rightarrow> 'w \<times> exchange_log \<Rightarrow> 'a \<times> 'w \<times> exchange_log" where
  "logged_call f = (\<lambda>(w, entries). let (r, w') = f w in (r, w', entries))"

definition logging :: "'w kernel \<Rightarrow> ('w \<times> exchange_log) kernel" where
  "logging kn =
     \<lparr>kn_ready = logged_call (kn_ready kn),
      kn_exchange = (\<lambda>message flags (w, entries).
        let (answer, w') = kn_exchange kn message flags w in (answer, w', entries @ [(message, flags, answer)])),
      kn_now = logged_call (kn_now kn),
      kn_random = logged_call (kn_random kn),
      kn_ifindex = (\<lambda>name. logged_call (kn_ifindex kn name)),
      kn_iwname = (\<lambda>name. logged_call (kn_iwname kn name)),
      kn_drvinfo = (\<lambda>name. logged_call (kn_drvinfo kn name)),
      kn_wireless = logged_call (kn_wireless kn),
      kn_link_mode = (\<lambda>name. logged_call (kn_link_mode kn name)),
      kn_metadata = kn_metadata kn\<rparr>"

definition exchanges :: "('w \<times> exchange_log) transport \<Rightarrow> exchange_log" where
  "exchanges t = snd (lt_world t)"

definition writes :: "('w \<times> exchange_log) transport \<Rightarrow> exchange_log" where
  "writes t = filter (\<lambda>(message, _). is_write message) (exchanges t)"

lemma logged_call_log [simp]: "snd (snd (logged_call f w)) = snd w"
  by (simp add: logged_call_def case_prod_unfold Let_def)

lemma record_item_world [simp]: "lt_world (record_item lib item t) = lt_world t"
  by (simp add: record_item_def invalidate_def record_deletion_def split: option.split netlink_payload.split outcome.split)

text \<open>Draining notifications exchanges nothing.\<close>

interpretation quiet: notification_calls "\<lambda>t t' :: ('w \<times> exchange_log) transport. exchanges t' = exchanges t" lib "logging kn"
  for lib kn
  by unfold_locales (simp_all add: exchanges_def logging_def)

interpretation unwritten: inventory_calls "\<lambda>t t' :: ('w \<times> exchange_log) transport. writes t' = writes t" lib "logging kn"
  for lib kn
  by unfold_locales (simp_all add: writes_def exchanges_def logging_def retain_generations_def case_prod_unfold Let_def)

end
