(* ===== verification/InventoryFacts.thy ===== *)
theory InventoryFacts
  imports TransportFacts
begin

text \<open>
  Facts about the inventory of theory \<open>Linux\<close>: that it does not panic, and what the devices it returns satisfy.
\<close>

section \<open>Link modes\<close>

definition answers_ok :: "nat \<Rightarrow> (nat \<times> (fields \<times> string list, backend_error) outcome) list \<Rightarrow> bool" where
  "answers_ok n answers \<longleftrightarrow>
     list_all (\<lambda>(place, r). place < n \<and> r \<noteq> Panic
       \<and> (case r of Ok (fs, _) \<Rightarrow> entries_conform False ethernet_json fs [] | _ \<Rightarrow> True)) answers"

lemma set_field_device:
  "fresh_device d \<Longrightarrow> observed_entry k v \<Longrightarrow> fresh_device (set_field k v d)"
  by (simp add: fresh_device_def described_def set_field_def observed_insert)

lemma apply_link_modes_ok:
  assumes "answers_ok (length ds) answers" "list_all fresh_device ds"
  shows "apply_link_modes answers (ds, diags) \<noteq> Panic
    \<and> (\<forall>ds' diags'. apply_link_modes answers (ds, diags) = Ok (ds', diags') \<longrightarrow> list_all fresh_device ds')"
  using assms
proof (induction answers arbitrary: ds diags)
  case (Cons answer answers)
  obtain place r where answer: "answer = (place, r)" by (cases answer)
  show ?case
  proof (cases r)
    case (Ok x)
    obtain fs messages where x: "x = (fs, messages)" by (cases x)
    from Cons.prems(1) have a: "place < length ds" "entries_conform False ethernet_json fs []" "answers_ok (length ds) answers"
      by (simp_all add: answers_ok_def answer Ok x)
    let ?ds = "if fs \<noteq> [] then ds[place := set_field ''ethernet'' (VMap fs) (ds ! place)] else ds"
    have "fresh_device (set_field ''ethernet'' (VMap fs) (ds ! place))"
      using Cons.prems(2) a by (intro set_field_device) (simp_all add: list_all_length observed_entry_def)
    then have "list_all fresh_device ?ds"
      using Cons.prems(2) set_update_subset_insert [of ds place] by (auto simp: list_all_iff)
    with Cons.IH [of ?ds] a show ?thesis by (simp add: answer Ok x)
  qed (use Cons.prems in \<open>simp_all add: answers_ok_def answer\<close>)
qed simp

lemma link_modes_answers:
  assumes "scan_ok (ds, diags, targets)"
  shows "yields (\<lambda>rs. answers_ok (length ds) (zip (map fst targets) rs)) (if ethtool then ask_link_modes kn targets else areturn [])"
proof (rule yields_split(1))
  show "yields (\<lambda>rs. answers_ok (length ds) (zip (map fst targets) rs)) (ask_link_modes kn targets)"
    unfolding yields_def
  proof (intro allI impI)
    fix s rs s' assume run: "ask_link_modes kn targets s = (Ok rs, s')"
    have "place < length ds \<and> r \<noteq> Panic \<and> (case r of Ok (fs, _) \<Rightarrow> entries_conform False ethernet_json fs [] | _ \<Rightarrow> True)"
      if "(place, r) \<in> set (zip (map fst targets) rs)" for place r
    proof -
      from that have "place \<in> fst ` set targets" "r \<in> set rs" by (auto dest: set_zip_leftD set_zip_rightD)
      with assms yieldsD [OF link_modes_ok run] yieldsD [OF link_modes_yield run] show ?thesis
        by (fastforce simp: scan_ok_def list_all_iff split: outcome.split)
    qed
    then show "answers_ok (length ds) (zip (map fst targets) rs)" by (auto simp: answers_ok_def list_all_iff)
  qed
qed (simp add: yields_basic answers_ok_def)

section \<open>The inventory as a whole\<close>

lemma observe_address_returns: "observe_address lib packet st \<noteq> Panic"
proof -
  have "parse_address message \<noteq> Panic" for message
  proof -
    have "scan_address xs acc \<noteq> Panic" for xs acc
      by (induction xs acc rule: scan_address.induct) (auto split: address_attribute.split ip_addr.split)
    then show ?thesis by (auto simp: parse_address_def outcome_inversions)
  qed
  then show ?thesis
    by (auto simp: observe_address_def outcome_inversions Let_def omap_err_Panic of_sum_returns)
qed

lemma observe_addresses_returns: "observe_addresses lib packets st \<noteq> Panic"
  by (induction packets arbitrary: st) (auto simp: outcome_inversions observe_address_returns)

lemma observe_addresses_inv:
  "address_inv st \<Longrightarrow> observe_addresses lib packets st = Ok st' \<Longrightarrow> address_inv st'"
  by (induction packets arbitrary: st) (auto simp: outcome_inversions intro: observe_address_inv)

lemma fresh_inv:
  "list_all fresh_device ds \<Longrightarrow>
     address_inv \<lparr>as_devices = ds, as_messages = Map.empty, as_duplicated = [], as_diagnostics = diags\<rparr>"
  by (auto simp: address_inv_def list_all_iff fresh_device_def kept_def dest: nth_mem)

definition reported :: "(address_key \<rightharpoonup> address_message) \<Rightarrow> device_observation \<Rightarrow> bool" where
  "reported messages d \<longleftrightarrow>
     described d \<and> kept messages d \<and> (addresses_complete d \<longrightarrow> if_device_type (identity d) = ETHERNET)"

lemma published_reported:
  assumes "reported messages d"
  shows "reported messages (publish_addresses d)"
proof -
  have "\<forall>a \<in> set (addresses d). prefix_len (address a) \<le> 32"
    using assms by (auto simp: reported_def kept_def list_all_iff backed_def)
  then have "observed_entry ''ipv4'' (VMap [(''addresses'', VList (map address_value (addresses d)))])"
    by (auto simp: observed_entry_def)
  moreover have "observed_key (set_field k v d) = observed_key d" for k v by (rule ext) (simp add: observed_key_def set_field_def)
  then have "kept messages (set_field k v d) = kept messages d" for k v
    by (simp add: kept_def backed_def list_all_iff set_field_def cong: option.case_cong)
  ultimately show ?thesis using assms
    by (simp add: publish_addresses_def reported_def described_def set_field_def observed_insert)
qed

lemma confirmed:
  assumes "confirm_inventory lib kn epoch ds messages t = (Ok u, t')"
  shows "list_all (still_current t') ds \<and> lt_addresses t' = messages \<and> lt_epoch t' = epoch"
  using assms
  by (auto simp: confirm_inventory_def abind_eq_Ok validate_deletion_epoch_def still_current_def list_all_iff split: if_splits)

text \<open>What an action returns, with the state it leaves.\<close>

definition ensures :: "('a \<Rightarrow> 's \<Rightarrow> bool) \<Rightarrow> ('a, 'e, 's) action \<Rightarrow> bool" where
  "ensures P m \<longleftrightarrow> (\<forall>s x s'. m s = (Ok x, s') \<longrightarrow> P x s')"

lemma ensures_after: "(\<And>x. ensures P (f x)) \<Longrightarrow> ensures P (abind m f)"
  unfolding ensures_def abind_eq_Ok by blast

lemma ensures_yields: "yields Q m \<Longrightarrow> (\<And>x. Q x \<Longrightarrow> ensures P (f x)) \<Longrightarrow> ensures P (abind m f)"
  unfolding ensures_def yields_def abind_eq_Ok by blast

lemma ensures_pair: "(\<And>x y. p = (x, y) \<Longrightarrow> ensures P (f x y)) \<Longrightarrow> ensures P (case p of (x, y) \<Rightarrow> f x y)"
  by (cases p) simp

definition inventoried :: "observation \<Rightarrow> 'w transport \<Rightarrow> bool" where
  "inventoried obs t \<longleftrightarrow> list_all (\<lambda>d. reported (lt_addresses t) d \<and> still_current t d) (devices obs)"

lemma confirmed_inventory:
  assumes "list_all (reported messages) ds"
  shows "ensures inventoried (abind (confirm_inventory lib kn epoch ds messages)
    (\<lambda>_. areturn \<lparr>devices = ds, diagnostics = found\<rparr>))"
  using assms confirmed unfolding ensures_def abind_eq_Ok
  by (fastforce simp: inventoried_def list_all_iff)

lemma scan_start: "scan_ok ([], diags, [])"
  by (simp add: scan_ok_def)

lemma modes_applied:
  "answers_ok (length ds) answers \<Longrightarrow> list_all fresh_device ds \<Longrightarrow>
     yields (\<lambda>(ds', _). list_all fresh_device ds') (alift (apply_link_modes answers (ds, diags)))"
  using apply_link_modes_ok by (intro yields_basic) fastforce

lemma addresses_observed:
  "list_all fresh_device ds \<Longrightarrow>
     yields address_inv (alift (observe_addresses lib packets
       \<lparr>as_devices = ds, as_messages = Map.empty, as_duplicated = [], as_diagnostics = diags\<rparr>))"
  by (intro yields_basic) (rule observe_addresses_inv [OF fresh_inv])

lemma inv_reported: "address_inv st \<Longrightarrow> list_all (reported (as_messages st)) (map publish_addresses (as_devices st))"
  by (auto simp: address_inv_def list_all_iff reported_def intro!: published_reported [unfolded reported_def])

lemma inventory_ensures: "ensures inventoried (inventory lib kn enrich)"
proof -
  note after = ensures_after and mid = ensures_yields and pair = ensures_pair
  show ?thesis
    unfolding inventory_def Let_def
    apply (rule after, rule after, rule after, rule after, rule after, rule after, rule after)
    apply (rule mid [OF observe_links_yield [OF scan_start]], rule pair, rule pair, rule after)
    apply (rule mid [OF link_modes_answers], simp)
    apply (rule mid [OF modes_applied], assumption, simp add: scan_ok_def)
    apply (rule pair, rule after, rule mid [OF addresses_observed], simp)
    apply (rule confirmed_inventory [OF inv_reported])
    by assumption
qed

lemma inventory_returns:
  assumes "header_laws lib"
  shows "returns (inventory lib kn enrich)"
proof -
  note after = returns_abind and mid = returns_abind_yields and pair = returns_pair
  have confirm: "returns (confirm_inventory lib kn epoch ds messages)" for epoch ds messages
    unfolding confirm_inventory_def by (intro returns_rules) (simp_all add: validate_deletion_epoch_def)
  show ?thesis
    unfolding inventory_def Let_def
    apply (rule after [OF returns_drain], rule after, rule returns_rules, rule after [OF returns_request],
        rule after [OF returns_request], rule after [OF returns_calls(1)], rule after, rule returns_rules,
        rule after [OF returns_wrapped(2) [OF returns_wireless]])
    apply (rule mid [OF returns_observe_links [OF assms] observe_links_yield [OF scan_start]], rule pair, rule pair, rule after, rule returns_rules)
    apply (rule mid [OF _ link_modes_answers], intro returns_rules, simp)
    apply (rule mid [OF _ modes_applied], rule returns_basic(4), simp add: apply_link_modes_ok scan_ok_def, assumption, simp add: scan_ok_def)
    apply (rule pair, rule after, rule returns_rules, rule mid [OF _ addresses_observed], simp add: returns_basic observe_addresses_returns, simp)
    by (intro returns_rules confirm)
qed

lemma confirm_identity_returns:
  assumes "header_laws lib"
  shows "returns (confirm_identity lib kn tgt)"
  unfolding confirm_identity_def Let_def
  by (intro returns_rules) (auto simp: omap_eq_Panic parse_link_returns [OF assms] split: list.split)

lemma execute_returns:
  assumes "header_laws lib"
  shows "returns (execute lib kn tgt kind)"
proof -
  have "operation_message tgt kind observed \<noteq> Panic" for observed
    by (simp add: operation_message_def Let_def split: operation_kind.split)
  then have "yields (\<lambda>r. r \<noteq> Panic) (aget (\<lambda>t :: 'w transport. operation_message tgt kind (lt_addresses t)))"
    by (simp add: yields_def aget_def)
  then show ?thesis
    unfolding execute_def
    by (rule returns_abind_yields [OF returns_basic(3)])
      (intro returns_abind returns_pair returns_request confirm_identity_returns [OF assms] returns_basic)
qed

section \<open>The namespace of the devices\<close>

text \<open>What an action returns from a transport in a given namespace.\<close>

definition yields_in :: "namespace_id \<Rightarrow> ('a \<Rightarrow> bool) \<Rightarrow> ('a, 'e, 'w transport) action \<Rightarrow> bool" where
  "yields_in ns Q m \<longleftrightarrow> (\<forall>t x t'. lt_namespace t = ns \<longrightarrow> m t = (Ok x, t') \<longrightarrow> Q x)"

lemma yields_in_abind:
  assumes "namespace_kept.keeps m" "yields_in ns P m" "\<And>x. P x \<Longrightarrow> yields_in ns Q (f x)"
  shows "yields_in ns Q (abind m f)"
  unfolding yields_in_def abind_eq_Ok
proof (intro allI impI, elim exE conjE)
  fix t y t' x u assume t: "lt_namespace t = ns" and m: "m t = (Ok x, u)" and f: "f x u = (Ok y, t')"
  from namespace_kept.keepsD [OF assms(1) m] t have "lt_namespace u = ns" by simp
  moreover from assms(2) t m have "P x" unfolding yields_in_def by blast
  ultimately show "Q y" using assms(3) f unfolding yields_in_def by blast
qed

lemma yields_in_after:
  "namespace_kept.keeps m \<Longrightarrow> (\<And>x. yields_in ns Q (f x)) \<Longrightarrow> yields_in ns Q (abind m f)"
  by (rule yields_in_abind [where P = "\<lambda>_. True"]) (simp_all add: yields_in_def)

lemma yields_in_pair: "(\<And>x y. p = (x, y) \<Longrightarrow> yields_in ns Q (f x y)) \<Longrightarrow> yields_in ns Q (case p of (x, y) \<Rightarrow> f x y)"
  by (cases p) simp

lemma yields_in_basic:
  "Q x \<Longrightarrow> yields_in ns Q (areturn x)" "(\<And>x. r = Ok x \<Longrightarrow> Q x) \<Longrightarrow> yields_in ns Q (alift r)"
  by (auto simp: yields_in_def)

definition all_in :: "namespace_id \<Rightarrow> device_observation list \<Rightarrow> bool" where
  "all_in ns ds \<longleftrightarrow> list_all (\<lambda>i. if_namespace i = ns) (map identity ds)"

lemma observe_link_in:
  assumes "all_in ns (fst acc)"
  shows "yields_in ns (\<lambda>acc. all_in ns (fst acc)) (observe_link lib kn enrich wireless now packet acc)"
proof (cases acc)
  case (fields ds diags targets)
  have "yields_in ns (\<lambda>x. x = ns) (aget lt_namespace)" by (auto simp: yields_in_def)
  note keeps = namespace_kept.keeps_basic namespace_kept.keeps_wrapped namespace_kept.keeps_named namespace_kept.keeps_legacy
    namespace_kept.keeps_generation
  show ?thesis unfolding fields observe_link_def Let_def prod.case
    by (cases "pk_kind packet = RTM_NEWLINK"; simp only: not_True_eq_False not_False_eq_True if_True if_False simp_thms)
      (rule yields_in_after, intro keeps, rule yields_in_after, intro keeps, rule yields_in_after, intro keeps,
        rule yields_in_abind [OF _ \<open>yields_in ns (\<lambda>x. x = ns) (aget lt_namespace)\<close>], intro keeps, rule yields_in_pair,
        rule yields_in_after, intro namespace_kept.keeps_rules namespace_kept.keeps_enrich, rule yields_in_pair, rule yields_in_basic(1),
        use assms in \<open>simp add: fields all_in_def\<close>, rule yields_in_basic(2), simp)
qed

lemma observe_links_in:
  "all_in ns (fst acc) \<Longrightarrow> yields_in ns (\<lambda>acc. all_in ns (fst acc)) (observe_links lib kn enrich wireless now packets acc)"
  by (induction packets arbitrary: acc)
    (auto intro: yields_in_basic yields_in_abind [OF namespace_kept.keeps_observe] observe_link_in)

lemma link_modes_identity:
  "apply_link_modes answers (ds, diags) = Ok (ds', diags') \<Longrightarrow> map identity ds' = map identity ds"
proof (induction answers arbitrary: ds diags)
  case (Cons answer answers)
  obtain place r where answer: "answer = (place, r)" by (cases answer)
  have same: "map identity (ds[place := set_field k v (ds ! place)]) = map identity ds" for k v
    by (cases "place < length ds") (simp_all add: map_update set_field_def list_update_same_conv list_update_beyond)
  from Cons.prems show ?case
    by (auto simp: answer outcome_inversions same split: if_splits dest!: Cons.IH)
qed simp

lemma observe_address_identity:
  "observe_address lib packet st = Ok st' \<Longrightarrow> map identity (as_devices st') = map identity (as_devices st)"
proof -
  have same: "map identity (ds[place := d]) = map identity ds" if "identity d = identity (ds ! place)" for ds place and d :: device_observation
    using that by (cases "place < length ds") (simp_all add: map_update list_update_same_conv list_update_beyond)
  have "map identity (as_devices (record_address place (as_devices st ! place) message observed st)) = map identity (as_devices st)"
    for place message observed st by (simp add: record_address_def Let_def same)
  then show "observe_address lib packet st = Ok st' \<Longrightarrow> map identity (as_devices st') = map identity (as_devices st)"
    by (auto simp: observe_address_def outcome_inversions Let_def split: if_splits)
qed

lemma observe_addresses_identity:
  "observe_addresses lib packets st = Ok st' \<Longrightarrow> map identity (as_devices st') = map identity (as_devices st)"
  by (induction packets arbitrary: st) (auto simp: outcome_inversions dest: observe_address_identity)

lemma published_identity: "map identity (map publish_addresses ds) = map identity ds"
  by (simp add: publish_addresses_def set_field_def)

lemma inventory_in: "yields_in ns (\<lambda>obs. all_in ns (devices obs)) (inventory lib kn enrich)"
proof -
  note after = yields_in_after and mid = yields_in_abind and pair = yields_in_pair
  note keeps = namespace_kept.keeps_drain namespace_kept.keeps_basic namespace_kept.keeps_request namespace_kept.keeps_call
    namespace_kept.keeps_wrapped namespace_kept.keeps_wireless namespace_kept.keeps_rules namespace_kept.keeps_link_modes
    namespace_kept.keeps_amodify namespace_kept.keeps_confirm_inventory
  show ?thesis
    unfolding inventory_def Let_def
    apply (rule after, rule keeps, rule after, rule keeps, rule after, rule keeps, simp, rule after, rule keeps, simp,
        rule after, rule keeps, simp, rule after, rule keeps, rule after, rule keeps, rule keeps)
    apply (rule mid [OF namespace_kept.keeps_observe_links observe_links_in], simp add: all_in_def)
    apply (rule pair, rule pair, rule after, rule keeps, rule after, intro keeps)
    apply (rule mid [where P = "\<lambda>(ds, _). all_in ns ds"], rule keeps, rule yields_in_basic(2))
     apply (clarsimp simp: all_in_def dest!: link_modes_identity)
    apply (rule pair, rule after, rule keeps, simp add: retain_generations_def)
    apply (rule mid [where P = "\<lambda>st. all_in ns (as_devices st)"], rule keeps, rule yields_in_basic(2))
     apply (drule observe_addresses_identity, simp add: all_in_def)
    apply (rule after, rule keeps, rule yields_in_basic(1))
    apply (simp only: all_in_def published_identity observation.simps)
    done
qed

end
