(* ===== verification/ErrorKinds.thy ===== *)
theory ErrorKinds
  imports TransportFacts
begin

text \<open>
  Which errors the transport returns.  \<open>OutcomeUnknown\<close> is the kind of a write that may or may not have been applied; no
  call that reads has it, and a response to a write has it exactly when it neither acknowledges the write nor refuses it.
\<close>

section \<open>The errors of an action\<close>

definition errs :: "('e \<Rightarrow> bool) \<Rightarrow> ('a, 'e, 's) action \<Rightarrow> bool" where
  "errs P m \<longleftrightarrow> (\<forall>s e s'. m s = (Err e, s') \<longrightarrow> P e)"

lemma errsD: "errs P m \<Longrightarrow> m s = (Err e, s') \<Longrightarrow> P e"
  by (auto simp: errs_def)

lemma errs_basic:
  "errs P (areturn x)" "errs P (aget f)" "errs P (amodify g)" "(\<And>e. r = Err e \<Longrightarrow> P e) \<Longrightarrow> errs P (alift r)"
  by (simp_all add: errs_def areturn_def aget_def amodify_def alift_def)

lemma errs_abind: "errs P m \<Longrightarrow> (\<And>x. errs P (f x)) \<Longrightarrow> errs P (abind m f)"
  by (auto simp: errs_def abind_def split: prod.splits outcome.splits)

lemma errs_split:
  "(c \<Longrightarrow> errs P m) \<Longrightarrow> (\<not> c \<Longrightarrow> errs P n) \<Longrightarrow> errs P (if c then m else n)"
  "(v = None \<Longrightarrow> errs P m) \<Longrightarrow> (\<And>x. v = Some x \<Longrightarrow> errs P (f x)) \<Longrightarrow> errs P (case v of None \<Rightarrow> m | Some x \<Rightarrow> f x)"
  by (cases v; simp)+

lemmas errs_rules = errs_basic errs_abind errs_split

lemma errs_call: "errs P (kernel_call f)"
  by (simp add: errs_def kernel_call_def case_prod_unfold Let_def)

section \<open>Calls that read\<close>

abbreviation decided :: "backend_error \<Rightarrow> bool" where
  "decided e \<equiv> be_kind e \<noteq> OutcomeUnknown"

lemma new_kind [simp]: "be_kind (error_new kind message) = kind" "be_kind (query_failed message) = QueryFailed"
  by (simp_all add: error_new_def query_failed_def)

lemma from_io_kind: "be_kind (from_io fallback err) \<in> {PermissionDenied, NotFound, fallback}"
  by (simp add: from_io_def errno_kind_def Let_def error_new_def split: option.split)

lemma netlink_error_kind: "be_kind (netlink_error lib fallback err flags) \<in> {PermissionDenied, NotFound, fallback}"
  using from_io_kind [of fallback "em_io err"] by (auto simp: netlink_error_def Let_def split: option.split)

lemma read_kinds: "exchange \<noteq> Write \<Longrightarrow> unconfirmed_kind exchange = QueryFailed" "exchange \<noteq> Write \<Longrightarrow> rejected exchange = QueryFailed"
  by (cases exchange; simp)+

lemma query_error_decided [simp]:
  "decided (netlink_error lib QueryFailed err flags)" "decided (from_io QueryFailed io)"
  using netlink_error_kind [of lib QueryFailed err flags] from_io_kind [of QueryFailed io] by auto

lemma read_response_decided:
  assumes "exchange \<noteq> Write"
  shows "collect_response lib exchange ms packets = Err e \<Longrightarrow> decided e"
proof (induction ms arbitrary: packets)
  case (Cons m ms)
  then show ?case
    using assms by (cases "nm_payload m") (auto simp: read_kinds split: if_splits)
qed (auto simp: read_kinds assms)

lemma errs_drain: "errs decided (drain_notifications lib kn)"
  unfolding drain_notifications_def by (intro errs_rules errs_call) auto

lemma errs_read: "exchange \<noteq> Write \<Longrightarrow> errs decided (request lib kn message exchange flags)"
  unfolding request_def
  by (intro errs_rules errs_drain errs_call) (auto simp: read_kinds dest: read_response_decided split: exchange_answer.splits)

lemma omap_err_Err: "omap_err f r = Err e \<longleftrightarrow> (\<exists>e'. r = Err e' \<and> e = f e')"
  by (cases r) auto

lemma scan_link_decided: "scan_link lib header rs acc = Err e \<Longrightarrow> decided e"
  by (induction rs arbitrary: acc) (auto simp: outcome_inversions split: sum.splits)

lemma parse_link_decided: "parse_link lib body = Err e \<Longrightarrow> decided e"
  by (auto simp: parse_link_def outcome_inversions omap_err_Err dest: scan_link_decided)

lemma errs_confirm: "errs decided (confirm_identity lib kn tgt)"
  unfolding confirm_identity_def Let_def
  by (intro errs_rules errs_drain errs_read)
    (auto split: list.splits if_splits dest: parse_link_decided simp: outcome_inversions)

section \<open>Responses to a write\<close>

text \<open>A message that refuses a write, and a response that comes to one.\<close>

definition refuses :: "netlink_message \<Rightarrow> bool" where
  "refuses m \<longleftrightarrow> flag_set (nm_flags m) NLM_F_DUMP_INTR \<or> (\<exists>err. nm_payload m = ErrorPayload err \<and> em_code err \<noteq> None)"

definition refused :: "netlink_message list \<Rightarrow> bool" where
  "refused stream \<longleftrightarrow>
     (\<exists>before final rest. stream = before @ final # rest \<and> list_all (continues Write) before \<and> refuses final)"

lemma refused_simps [simp]:
  "\<not> refused []"
  "refused (m # ms) \<longleftrightarrow> refuses m \<or> (continues Write m \<and> refused ms)"
proof -
  show "\<not> refused []" by (simp add: refused_def)
  show "refused (m # ms) \<longleftrightarrow> refuses m \<or> (continues Write m \<and> refused ms)" (is "?l \<longleftrightarrow> ?r")
  proof
    assume ?l
    then obtain before final rest where s: "m # ms = before @ final # rest" "list_all (continues Write) before" "refuses final"
      by (auto simp: refused_def)
    then show ?r by (cases before) (auto simp: refused_def)
  next
    assume ?r
    then show ?l
    proof
      assume "refuses m"
      then show ?l unfolding refused_def by (intro exI [of _ "[]"]) auto
    next
      assume "continues Write m \<and> refused ms"
      then obtain before final rest where "ms = before @ final # rest" "list_all (continues Write) before" "refuses final"
        "continues Write m" by (auto simp: refused_def)
      then have "m # ms = (m # before) @ final # rest \<and> list_all (continues Write) (m # before) \<and> refuses final" by simp
      then show ?l unfolding refused_def by blast
    qed
  qed
qed

lemma continues_not_refuses: "continues Write m \<Longrightarrow> \<not> refuses m"
  by (auto simp: continues_def refuses_def)

lemma write_response_kind:
  "collect_response lib Write ms packets = Err e \<Longrightarrow> decided e \<longleftrightarrow> refused ms"
proof (induction ms arbitrary: packets)
  case (Cons m ms)
  show ?case
  proof (cases "continues Write m")
    case True
    with Cons show ?thesis
      by (auto simp del: collect_response.simps simp: collect_cases(1) continues_not_refuses)
  next
    case False
    have io: "decided (netlink_error lib ApplyFailed err flags)" for err flags
      using netlink_error_kind [of lib ApplyFailed err flags] by auto
    from False Cons.prems show ?thesis
      by (cases "nm_payload m") (auto simp: continues_def refuses_def io split: if_splits)
  qed
qed auto

end
