(* ===== verification/LinuxProps.thy ===== *)
theory LinuxProps
  imports InventoryFacts ErrorKinds StateProps ExecProps
begin

text \<open>
  The properties of the Linux transport.
\<close>

section \<open>A kernel to run against\<close>

text \<open>
  One Ethernet interface with one address; link messages are a header of 16 bytes and the name, and every request is
  acknowledged.
\<close>

definition sample_address :: address_message where
  "sample_address = default_address\<lparr>am_family := AfInet, am_prefix_len := 24, am_index := 7,
     am_attributes := [AttrLocal (V4 5), AttrAddress (V4 5), AttrLabel ''eth0'', AttrCacheInfo \<lparr>ifa_preferred = 30, ifa_valid = 60\<rparr>]\<rparr>"

definition sample_lib :: route_lib where
  "sample_lib =
     \<lparr>rl_netlink =
        \<lparr>checked_length = (\<lambda>source. if 16 \<le> length source then Inr 16 else Inl ''short''),
         parse_message = (\<lambda>_. Inr \<lparr>nm_flags = 0, nm_payload = NoopPayload\<rparr>),
         nlas = (\<lambda>bytes. if bytes = [] then [] else [Inr \<lparr>nla_kind = 3, nla_value = bytes\<rparr>]),
         ne_u32 = (\<lambda>_. 0), utf8_error_text = (\<lambda>_. [])\<rparr>,
      parse_link_header = (\<lambda>body. if length body < 16 then Inl ''short''
        else Inr \<lparr>lh_family = AfUnspec, lh_index = 7, lh_layer = LayerEther, lh_flags = IFF_UP, lh_change_mask = 0\<rparr>),
      parse_link_attribute = (\<lambda>a _. Inr (AttrIfName (nla_value a))),
      parse_address_message = (\<lambda>_. Inr sample_address)\<rparr>"

definition sample_ack :: netlink_message where
  "sample_ack = \<lparr>nm_flags = 0, nm_payload = ErrorPayload \<lparr>em_code = None, em_header = [], em_io = \<lparr>raw_os_error = None, io_message = []\<rparr>\<rparr>\<rparr>"

definition sample_done :: netlink_message where
  "sample_done = \<lparr>nm_flags = 0, nm_payload = DonePayload \<lparr>done_code = 0, done_extack = [], done_io = \<lparr>raw_os_error = None, io_message = []\<rparr>\<rparr>\<rparr>"

fun sample_replies :: "route_request \<Rightarrow> netlink_message list" where
  "sample_replies (GetLink _) =
     [\<lparr>nm_flags = 0, nm_payload = InnerMessage \<lparr>pk_kind = RTM_NEWLINK, pk_body = replicate 16 (CHR 0x00) @ ''eth0''\<rparr>\<rparr>]"
| "sample_replies (GetAddress _) = [\<lparr>nm_flags = 0, nm_payload = InnerMessage \<lparr>pk_kind = RTM_NEWADDR, pk_body = []\<rparr>\<rparr>]"
| "sample_replies _ = []"

definition sample_kernel :: "unit kernel" where
  "sample_kernel =
     \<lparr>kn_ready = (\<lambda>w. ([], w)),
      kn_exchange = (\<lambda>message flags w.
        (Answered (sample_replies message @ [if flags = exchange_flags Dump then sample_done else sample_ack]), w)),
      kn_now = (\<lambda>w. (0, w)), kn_random = (\<lambda>w. (Inr 9, w)), kn_ifindex = (\<lambda>_ w. (Inr 7, w)), kn_iwname = (\<lambda>_ w. (False, w)),
      kn_drvinfo = (\<lambda>_ w. (Inl \<lparr>raw_os_error = Some ENODEV, io_message = []\<rparr>, w)),
      kn_wireless = (\<lambda>w. (WirelessStream [Inr (0, WirelessDone 0)], w)),
      kn_link_mode = (\<lambda>_ w. (([], LinkModeEnd), w)),
      kn_metadata = \<lparr>md_id = 0, md_created_at = 0\<rparr>\<rparr>"

definition sample_transport :: "(unit \<times> exchange_log) transport" where
  "sample_transport =
     \<lparr>lt_world = ((), []), lt_namespace = \<lparr>ns_device = 1, ns_inode = 2\<rparr>, lt_closed = False, lt_ethtool = False, lt_wireless = True,
      lt_generations = [7 \<mapsto> 9], lt_epoch = 0, lt_invalidated = None, lt_addresses = Map.empty, lt_diagnostics = []\<rparr>"

definition sample_target :: interface_id where
  "sample_target = \<lparr>if_namespace = \<lparr>ns_device = 1, ns_inode = 2\<rparr>, if_index = 7, if_generation = 9, if_name = ''eth0'',
     if_device_type = ''ethernet'', if_mac = None\<rparr>"

abbreviation sample_inventory :: "(observation, backend_error) outcome \<times> (unit \<times> exchange_log) transport" where
  "sample_inventory \<equiv> inventory sample_lib (logging sample_kernel) (\<lambda>_. False) sample_transport"

section \<open>Requests that are logged\<close>

lemma drain_logged:
  assumes "drain_notifications lib (logging kn) t = (r, t')"
  shows "exchanges t' = exchanges t" "identities_shrink t t'"
  using quiet.keepsD [OF quiet.keeps_drain assms] shrinking.keepsD [OF shrinking.keeps_drain assms] by simp_all

definition answer_result :: "route_lib \<Rightarrow> exchange \<Rightarrow> exchange_answer \<Rightarrow> (route_packet list, backend_error) outcome" where
  "answer_result lib exchange answer =
     (case answer of
        NotSent err \<Rightarrow> Err (error_new (rejected exchange) err)
      | TimedOut \<Rightarrow> Err (error_new (unconfirmed_kind exchange) ''netlink request timed out before confirmed completion'')
      | Answered stream \<Rightarrow> collect_response (rl_netlink lib) exchange stream [])"

lemma request_logged:
  assumes "request lib (logging kn) message exchange flags t = (r, t')"
  obtains (refused) e where "r = Err e" "exchanges t' = exchanges t" "decided e"
  | (sent) answer where "exchanges t' = exchanges t @ [(message, or (exchange_flags exchange) flags, answer)]"
      "r = answer_result lib exchange answer" "identities_shrink t t'"
proof -
  obtain q t1 where d: "drain_notifications lib (logging kn) t = (q, t1)" by fastforce
  note logged = drain_logged [OF d]
  from returns_drain [of lib "logging kn"] d have "q \<noteq> Panic" by (metis fst_conv returns_def)
  show thesis
  proof (cases q)
    case (Ok u)
    obtain answer w where k: "kn_exchange kn message (or (exchange_flags exchange) flags) (fst (lt_world t1)) = (answer, w)" by fastforce
    have "t' = t1\<lparr>lt_world := (w, snd (lt_world t1) @ [(message, or (exchange_flags exchange) flags, answer)])\<rparr>"
      "r = answer_result lib exchange answer"
      using assms d Ok k
      by (auto simp: request_def abind_def [of "drain_notifications _ _"] abind_def [of "kernel_call _"] kernel_call_def logging_def
          answer_result_def case_prod_unfold Let_def alift_def)
    with logged sent show thesis by (simp add: exchanges_def identities_shrink_def)
  next
    case (Err e)
    have "decided e" by (rule errsD [OF errs_drain d [unfolded Err]])
    with Err show thesis using refused [of e] assms d logged(1) by (simp add: request_def abind_def)
  qed (use \<open>q \<noteq> Panic\<close> in simp)
qed

text \<open>The query that confirms an identity, and what its answer has to be.\<close>

definition probe :: "interface_id \<Rightarrow> route_request" where
  "probe tgt = GetLink (default_link\<lparr>lm_header := (lm_header default_link)\<lparr>lh_index := if_index tgt\<rparr>\<rparr>)"

definition names_target :: "route_lib \<Rightarrow> interface_id \<Rightarrow> exchange_answer \<Rightarrow> bool" where
  "names_target lib tgt answer =
     (case answer_result lib Read answer of
        Ok [packet] \<Rightarrow>
          pk_kind packet = RTM_NEWLINK
          \<and> (case parse_link lib (pk_body packet) of Ok link \<Rightarrow> pl_name link = if_name tgt | _ \<Rightarrow> False)
      | _ \<Rightarrow> False)"

lemma confirm_logged:
  assumes "confirm_identity lib (logging kn) tgt t = (Ok u, t')"
  obtains answer where "exchanges t' = exchanges t @ [(probe tgt, exchange_flags Read, answer)]" "names_target lib tgt answer"
    "if_namespace tgt = lt_namespace t" "identities_shrink t t'" "lt_generations t' (if_index tgt) = Some (if_generation tgt)"
proof -
  from assms obtain reply t1 t2 name where ns: "if_namespace tgt = lt_namespace t"
    and r: "request lib (logging kn) (probe tgt) Read 0 t = (Ok reply, t1)"
    and d: "drain_notifications lib (logging kn) t1 = (Ok (), t2)"
    and name: "(case reply of
             [packet] \<Rightarrow>
               if pk_kind packet = RTM_NEWLINK then omap pl_name (parse_link lib (pk_body packet))
               else Err (query_failed ''unexpected reply to a link query'')
           | _ \<Rightarrow> Err (query_failed ''unexpected reply to a link query'')) = Ok name"
    and g: "lt_generations t' (if_index tgt) = Some (if_generation tgt)" "name = if_name tgt" "t' = t2"
    by (auto simp: confirm_identity_def Let_def abind_eq_Ok abind_alift_eq_Ok probe_def split: if_splits)
  from r show thesis
  proof (cases rule: request_logged)
    case (sent answer)
    from name obtain packet where "reply = [packet]" "pk_kind packet = RTM_NEWLINK"
      "omap pl_name (parse_link lib (pk_body packet)) = Ok name"
      by (auto split: list.splits if_splits)
    with sent(2) g(2) have "names_target lib tgt answer" by (auto simp: names_target_def omap_eq_Ok dest!: sym [of "Ok _"])
    with sent drain_logged [OF d] g ns show thesis
      by (intro that [of answer]) (auto simp: identities_shrink_def intro: map_le_trans)
  qed simp
qed

lemma operation_message_writes: "operation_message tgt kind known = Ok (message, flags) \<Longrightarrow> is_write message"
  by (auto simp: operation_message_def Let_def split: operation_kind.splits)

lemma execute_logged:
  assumes "execute lib (logging kn) tgt kind t = (r, t')"
  shows "writes t' = writes t \<and> r \<noteq> Ok () \<and> (\<forall>e. r = Err e \<longrightarrow> decided e) \<or>
    (\<exists>message flags confirmation answer.
       operation_message tgt kind (lt_addresses t) = Ok (message, flags)
       \<and> exchanges t' = exchanges t @ [(probe tgt, exchange_flags Read, confirmation), (message, or (exchange_flags Write) flags, answer)]
       \<and> names_target lib tgt confirmation
       \<and> if_namespace tgt = lt_namespace t \<and> lt_generations t (if_index tgt) = Some (if_generation tgt)
       \<and> r = omap (\<lambda>_. ()) (answer_result lib Write answer))"
proof -
  let ?built = "operation_message tgt kind (lt_addresses t)"
  obtain q t1 where c: "confirm_identity lib (logging kn) tgt t = (q, t1)" by fastforce
  have w1: "writes t1 = writes t" using unwritten.keepsD [OF unwritten.keeps_confirm c] .
  show ?thesis
  proof (cases "\<exists>message flags u. ?built = Ok (message, flags) \<and> q = Ok u")
    case True
    then obtain message flags u where built: "?built = Ok (message, flags)" and q: "q = Ok u" by blast
    obtain p t2 where s: "request lib (logging kn) message Write flags t1 = (p, t2)" by fastforce
    have e: "r = omap (\<lambda>_. ()) p" "t' = t2"
      using assms by (cases p; simp add: execute_def built abind_def [of "confirm_identity _ _ _"] abind_def [of "request _ _ _ _ _"]
          c q s areturn_def)+
    from confirm_logged [OF c [unfolded q]] obtain confirmation where
      k: "exchanges t1 = exchanges t @ [(probe tgt, exchange_flags Read, confirmation)]"
      "names_target lib tgt confirmation" "if_namespace tgt = lt_namespace t"
      and shrink: "identities_shrink t t1" "lt_generations t1 (if_index tgt) = Some (if_generation tgt)" .
    then have g: "lt_generations t (if_index tgt) = Some (if_generation tgt)"
      by (auto simp: identities_shrink_def map_le_def dom_def)
    from s show ?thesis
    proof (cases rule: request_logged)
      case (refused err)
      then show ?thesis using e w1 by (simp add: writes_def)
    next
      case (sent answer)
      then show ?thesis using e k g built by auto
    qed
  next
    case False
    moreover have "decided e" if "?built = Err e \<or> q = Err e" for e
      using that c by (auto simp: operation_message_def Let_def split: operation_kind.splits dest: errsD [OF errs_confirm])
    ultimately have "r \<noteq> Ok () \<and> (t' = t \<or> t' = t1) \<and> (\<forall>e. r = Err e \<longrightarrow> decided e)"
      using assms c by (cases ?built; cases q) (auto simp: execute_def abind_def areturn_def split: prod.splits)
    then show ?thesis using w1 by auto
  qed
qed

text \<open>C1: an operation changes the kernel by at most one request, which is sent only after a query of its interface was
  answered with the expected name while the identity was current: its namespace is the transport's, and its generation
  the one held before the call.  The call succeeds exactly when the kernel acknowledged the request.\<close>

theorem writes_follow_confirmed_identity:
  assumes "execute lib (logging kn) tgt kind t = (r, t')"
  shows "writes t' = writes t \<and> r \<noteq> Ok () \<or>
    (\<exists>message flags confirmation answer.
       operation_message tgt kind (lt_addresses t) = Ok (message, flags)
       \<and> exchanges t' = exchanges t @ [(probe tgt, exchange_flags Read, confirmation), (message, or (exchange_flags Write) flags, answer)]
       \<and> names_target lib tgt confirmation
       \<and> if_namespace tgt = lt_namespace t \<and> lt_generations t (if_index tgt) = Some (if_generation tgt)
       \<and> r = omap (\<lambda>_. ()) (answer_result lib Write answer))"
  using execute_logged [OF assms] by blast

theorem writes_follow_confirmed_identity_witness:
  "\<exists>message flags confirmation answer t'.
     execute sample_lib (logging sample_kernel) sample_target (SetMtu 1500) sample_transport = (Ok (), t')
     \<and> exchanges t' = [(probe sample_target, exchange_flags Read, confirmation), (message, or (exchange_flags Write) flags, answer)]"
proof -
  obtain r t' where e: "execute sample_lib (logging sample_kernel) sample_target (SetMtu 1500) sample_transport = (r, t')" by fastforce
  have "fst (execute sample_lib (logging sample_kernel) sample_target (SetMtu 1500) sample_transport) = Ok ()" by code_simp
  with e have "r = Ok ()" by simp
  with writes_follow_confirmed_identity [OF e] e show ?thesis by (auto simp: exchanges_def sample_transport_def)
qed

text \<open>An answer to a write that neither acknowledges it nor refuses it: it timed out, its stream closed early, or it held a
  message that does not belong there.\<close>

definition refusal :: "exchange_answer \<Rightarrow> bool" where
  "refusal answer = (case answer of NotSent _ \<Rightarrow> True | TimedOut \<Rightarrow> False | Answered stream \<Rightarrow> refused stream)"

lemma answer_result_returns: "answer_result lib exchange answer \<noteq> Panic"
  by (cases answer) (simp_all add: answer_result_def response_returns)

lemma answer_result_kind: "answer_result lib Write answer = Err e \<Longrightarrow> decided e \<longleftrightarrow> refusal answer"
  by (cases answer) (auto simp: answer_result_def refusal_def write_response_kind)

text \<open>C7: the kind of the error tells whether an operation may have been applied.  It is \<open>OutcomeUnknown\<close> exactly when a request
  that changes the kernel was sent and the answer neither acknowledges nor refuses it; after any other error no such
  request was sent, or the kernel refused it, and the caller may try again.\<close>

theorem unknown_outcome_is_exact:
  assumes "execute lib (logging kn) tgt kind t = (Err e, t')"
  shows "(\<exists>message flags answer. writes t' = writes t @ [(message, flags, answer)] \<and> (be_kind e = OutcomeUnknown \<longleftrightarrow> \<not> refusal answer))
    \<or> (writes t' = writes t \<and> be_kind e \<noteq> OutcomeUnknown)"
  using execute_logged [OF assms]
proof
  assume "\<exists>message flags confirmation answer.
       operation_message tgt kind (lt_addresses t) = Ok (message, flags)
       \<and> exchanges t' = exchanges t @ [(probe tgt, exchange_flags Read, confirmation), (message, or (exchange_flags Write) flags, answer)]
       \<and> names_target lib tgt confirmation
       \<and> if_namespace tgt = lt_namespace t \<and> lt_generations t (if_index tgt) = Some (if_generation tgt)
       \<and> Err e = omap (\<lambda>_. ()) (answer_result lib Write answer)"
  then obtain message flags confirmation answer where
    "operation_message tgt kind (lt_addresses t) = Ok (message, flags)"
    and e: "exchanges t' = exchanges t @ [(probe tgt, exchange_flags Read, confirmation), (message, or (exchange_flags Write) flags, answer)]"
    and "answer_result lib Write answer = Err e"
    by (auto simp: omap_eq_Err dest!: sym [of "Err _"])
  moreover have "\<not> is_write (probe tgt)" by (simp add: probe_def)
  ultimately have "writes t' = writes t @ [(message, or (exchange_flags Write) flags, answer)]"
    "decided e \<longleftrightarrow> refusal answer"
    using operation_message_writes answer_result_kind by (auto simp: writes_def)
  then show ?thesis by blast
qed simp

text \<open>A kernel that does not answer a change in time.\<close>

definition silent_kernel :: "unit kernel" where
  "silent_kernel = sample_kernel\<lparr>kn_exchange := (\<lambda>message flags w.
     if is_write message then (TimedOut, w) else kn_exchange sample_kernel message flags w)\<rparr>"

theorem unknown_outcome_is_exact_witness:
  "\<exists>e t' message flags. execute sample_lib (logging silent_kernel) sample_target (SetMtu 1500) sample_transport = (Err e, t')
     \<and> be_kind e = OutcomeUnknown \<and> writes t' = [(message, flags, TimedOut)]"
proof -
  obtain r t' where x: "execute sample_lib (logging silent_kernel) sample_target (SetMtu 1500) sample_transport = (r, t')" by fastforce
  have "(case execute sample_lib (logging silent_kernel) sample_target (SetMtu 1500) sample_transport of
     (Err e, t') \<Rightarrow> map (\<lambda>(m, f, a). case a of TimedOut \<Rightarrow> True | _ \<Rightarrow> False) (writes t') = [True] | _ \<Rightarrow> False)" by code_simp
  with x obtain e message flags where e: "r = Err e" "writes t' = [(message, flags, TimedOut)]"
    by (auto split: outcome.splits exchange_answer.splits)
  moreover have "writes sample_transport = []" by (simp add: writes_def exchanges_def sample_transport_def)
  ultimately have "be_kind e = OutcomeUnknown"
    using unknown_outcome_is_exact [OF x [unfolded e(1)]] by (auto simp: refusal_def)
  with x e show ?thesis by blast
qed

section \<open>Reading the kernel's messages\<close>

text \<open>C12: a response is accepted exactly when it is complete: messages the exchange goes on after, uninterrupted, and then
  the one that ends it, a successful acknowledgement or, for a dump, a successful end.  The packets are those before it.
  Every other stream is an error.\<close>

theorem response_is_complete_or_error:
  "collect_response lib exchange messages [] = Ok packets \<longleftrightarrow>
     (\<exists>before final rest. messages = before @ final # rest \<and> list_all (continues exchange) before
        \<and> completes exchange final \<and> packets = inner_packets before)"
  by (simp add: collect_exact)

text \<open>C13: the codec takes exactly the packet the header announces off the buffer, with the padding that fills it up to a
  multiple of four bytes, as far as the buffer holds it, or fails and leaves the buffer: it never panics, never waits for more
  bytes of a datagram, and every packet it takes makes the buffer at least 16 bytes shorter.\<close>

theorem strict_codec_progress:
  assumes "checked_laws lib" "source \<noteq> []" "decode_packet lib source = (r, rest)"
  shows "rest = source \<and> (\<exists>e. checked_length lib source = Inl e \<and> r = Err e) \<or>
    (\<exists>n. checked_length lib source = Inr n \<and> unat n \<le> length source
        \<and> rest = drop ((unat n + 3) div 4 * 4) source \<and> length rest + 16 \<le> length source
        \<and> r = (case parse_message lib (take (unat n) source) of Inr message \<Rightarrow> Ok (Some message) | Inl e \<Rightarrow> Err e))"
  using assms(1,2)
proof (cases rule: decode_packet_cases)
  case (packet n)
  then have "length (drop ((unat n + 3) div 4 * 4) source) + 16 \<le> length source" by simp
  then show ?thesis using packet assms(3) by auto
qed (use assms(3) in simp)

theorem strict_codec_progress_witness:
  "length (snd (decode_packet (rl_netlink sample_lib) (replicate 20 (CHR 0x01)))) + 16 \<le> 20"
proof -
  have "checked_laws (rl_netlink sample_lib)" by (auto simp: checked_laws_def sample_lib_def split: if_splits)
  moreover have "checked_length (rl_netlink sample_lib) (replicate 20 (CHR 0x01)) = Inr 16" by (simp add: sample_lib_def)
  ultimately show ?thesis
    using strict_codec_progress [of "rl_netlink sample_lib" "replicate 20 (CHR 0x01)"] by (fastforce simp: prod_eq_iff)
qed

section \<open>The transport as a whole\<close>

text \<open>No answer of the kernel makes the transport panic, in an inventory or in an operation; all it relies on is that a
  link header is parsed from the 16 bytes it has.\<close>

theorem transport_never_panics:
  assumes "header_laws lib"
  shows "fst (inventory lib kn enrich t) \<noteq> Panic \<and> fst (execute lib kn tgt kind t) \<noteq> Panic"
  using inventory_returns [OF assms, of kn enrich] execute_returns [OF assms, of kn tgt kind] by (simp add: returns_def)

theorem transport_never_panics_witness:
  "fst sample_inventory \<noteq> Panic \<and> fst (execute sample_lib (logging sample_kernel) sample_target AddEntity sample_transport) \<noteq> Panic"
proof -
  have "header_laws sample_lib" by (auto simp: header_laws_def sample_lib_def LINK_HEADER_LEN_def split: if_splits)
  then show ?thesis by (rule transport_never_panics)
qed

text \<open>C4: what an inventory returns is consistent with the transport it leaves: every device is of the transport's
  namespace, its identity is current, the name, type and MAC address of its selector are its identity's, no (address, prefix) is reported twice,
  each reported address has its message kept for later operations, from which it was parsed when the inventory of the
  device is complete, and only Ethernet devices are complete.\<close>

theorem inventory_is_consistent:
  assumes "inventory lib kn enrich t = (Ok obs, t')"
  shows "list_all (\<lambda>d. if_namespace (identity d) = lt_namespace t' \<and> still_current t' d
    \<and> match_name (st_match (dev_st d)) = Some (if_name (identity d))
    \<and> match_type (st_match (dev_st d)) = Some (if_device_type (identity d))
    \<and> match_mac (st_match (dev_st d)) = if_mac (identity d)
    \<and> distinct (map (observed_key d) (addresses d)) \<and> list_all (backed (lt_addresses t') d) (addresses d)
    \<and> (addresses_complete d \<longrightarrow> if_device_type (identity d) = ETHERNET)) (devices obs)"
proof -
  have "lt_namespace t' = lt_namespace t" using namespace_kept.keepsD [OF namespace_kept.keeps_inventory assms] .
  moreover have "all_in (lt_namespace t) (devices obs)" using inventory_in [of "lt_namespace t" lib kn enrich] assms unfolding yields_in_def by blast
  moreover have "inventoried obs t'" using inventory_ensures [of lib kn enrich] assms unfolding ensures_def by blast
  ultimately show ?thesis
    by (auto simp: inventoried_def all_in_def list_all_iff reported_def described_def kept_def)
qed

theorem inventory_is_consistent_witness:
  "\<exists>obs t'. sample_inventory = (Ok obs, t') \<and> map identity (devices obs) = [sample_target]
     \<and> still_current t' (hd (devices obs)) \<and> length (addresses (hd (devices obs))) = 1"
proof -
  obtain r t' where i: "sample_inventory = (r, t')" by fastforce
  have "(case fst sample_inventory of Ok obs \<Rightarrow> map identity (devices obs) = [sample_target]
      \<and> length (addresses (hd (devices obs))) = 1 | _ \<Rightarrow> False)" by code_simp
  with i obtain obs where o: "r = Ok obs" "map identity (devices obs) = [sample_target]"
    "length (addresses (hd (devices obs))) = 1" by (cases r) auto
  with inventory_is_consistent [OF i [unfolded o(1)]] i show ?thesis by (cases "devices obs") auto
qed

text \<open>C10: a device state of an inventory is valid for the embedded query schema exactly when the MTU it reports, if any, is
  between 68 and 65535: no other observation of the kernel makes a state invalid.\<close>

theorem observed_states_are_valid:
  assumes "inventory lib kn enrich t = (Ok obs, t')"
  shows "list_all (\<lambda>d. validate embedded_registry (dev_st d) = Some [] \<longleftrightarrow> mtu_in_schema (st_fields (dev_st d))) (devices obs)"
proof -
  have "inventoried obs t'" using inventory_ensures [of lib kn enrich] assms unfolding ensures_def by blast
  then show ?thesis
    using observed_conforms validate_inner_conforms [OF embedded_wf]
    by (auto simp: inventoried_def reported_def described_def list_all_iff validate_def)
qed

theorem observed_states_are_valid_witness:
  "\<exists>obs t'. sample_inventory = (Ok obs, t') \<and> validate embedded_registry (dev_st (hd (devices obs))) = Some []"
proof -
  obtain r t' where i: "sample_inventory = (r, t')" by fastforce
  have "(case fst sample_inventory of Ok obs \<Rightarrow> devices obs \<noteq> []
      \<and> list_all (\<lambda>(k, _). k \<noteq> ''mtu'') (st_fields (dev_st (hd (devices obs)))) | _ \<Rightarrow> False)" by code_simp
  with i obtain obs where o: "r = Ok obs" "devices obs \<noteq> []"
    "list_all (\<lambda>(k, _). k \<noteq> ''mtu'') (st_fields (dev_st (hd (devices obs))))" by (cases r) auto
  then have "mtu_in_schema (st_fields (dev_st (hd (devices obs))))" by (auto simp: mtu_in_schema_def list_all_iff)
  with o observed_states_are_valid [OF i [unfolded o(1)]] i show ?thesis by (cases "devices obs") auto
qed

text \<open>C8: after an inventory, the replacement of an address reported by a complete device keeps everything that was observed
  of it: the message sent, read back, is the observation with the lifetimes asked for.\<close>

theorem replacement_keeps_observation:
  assumes "inventory lib kn enrich t = (Ok obs, t')" "d \<in> set (devices obs)" "addresses_complete d" "entry \<in> set (addresses d)"
    and "ip a = ip (address entry)" "prefix_len a = prefix_len (address entry)" "validate_address a = Ok ()"
  shows "\<exists>message. operation_message (identity d) (ReplaceIpv4 a) (lt_addresses t') = Ok (NewAddress message, NLM_F_REPLACE)
    \<and> parse_address message = Ok (entry\<lparr>address := with_lifetimes a\<rparr>)"
proof -
  have "inventoried obs t'" using inventory_ensures [of lib kn enrich] assms(1) unfolding ensures_def by blast
  with assms(2,4) have "backed (lt_addresses t') d entry"
    by (auto simp: inventoried_def reported_def kept_def list_all_iff)
  with assms(3) obtain message where m: "lt_addresses t' (observed_key d entry) = Some message" "parse_address message = Ok entry"
    by (auto simp: backed_def split: option.splits)
  have "snd (lifetimes a) \<le> fst (lifetimes a)" using assms(7) by (simp add: validate_lifetimes)
  from parse_replaced [OF m(2) this assms(5,6)] m(1) assms(5,6) show ?thesis
    by (simp add: operation_message_def Let_def address_key_of_def observed_key_def)
qed

definition sample_lease :: ipv4_address where
  "sample_lease = \<lparr>ip = 5, prefix_len = 24, valid_lft = Some 3600, preferred_lft = None\<rparr>"

theorem replacement_keeps_observation_witness:
  "\<exists>obs t' d message. sample_inventory = (Ok obs, t') \<and> d \<in> set (devices obs)
    \<and> operation_message (identity d) (ReplaceIpv4 sample_lease) (lt_addresses t') = Ok (NewAddress message, NLM_F_REPLACE)
    \<and> parse_address message =
        Ok ((hd (addresses d))\<lparr>address := \<lparr>ip = 5, prefix_len = 24, valid_lft = Some 3600, preferred_lft = Some 3600\<rparr>\<rparr>)"
proof -
  obtain r t' where i: "sample_inventory = (r, t')" by fastforce
  have "(case fst sample_inventory of Ok obs \<Rightarrow> devices obs \<noteq> []
      \<and> addresses_complete (hd (devices obs)) \<and> addresses (hd (devices obs)) \<noteq> []
      \<and> ip (address (hd (addresses (hd (devices obs))))) = 5 \<and> prefix_len (address (hd (addresses (hd (devices obs))))) = 24
      | _ \<Rightarrow> False)" by code_simp
  with i obtain obs where o: "r = Ok obs" "devices obs \<noteq> []" "addresses_complete (hd (devices obs))"
    "addresses (hd (devices obs)) \<noteq> []" "ip (address (hd (addresses (hd (devices obs))))) = 5"
    "prefix_len (address (hd (addresses (hd (devices obs))))) = 24" by (cases r) auto
  have "validate_address sample_lease = Ok ()" by code_simp
  moreover have "with_lifetimes sample_lease = \<lparr>ip = 5, prefix_len = 24, valid_lft = Some 3600, preferred_lft = Some 3600\<rparr>"
    by code_simp
  ultimately show ?thesis
    using replacement_keeps_observation [OF i [unfolded o(1)] _ o(3) _, of "hd (addresses (hd (devices obs)))" sample_lease] i o
    by (metis hd_in_set ipv4_address.select_convs(1,2) sample_lease_def)
qed

section \<open>The transport under the executor\<close>

lemma linux_calls_return: "header_laws lib \<Longrightarrow> calls_return (linux_io lib kn ns closed)"
  using inventory_returns [of lib kn] execute_returns [of lib kn]
  by (simp add: calls_return_def linux_io_def returns_def)

interpretation over_linux: world_frame "\<lambda>t t' :: ('w \<times> exchange_log) transport. writes t' = writes t"
  "linux_io lib (logging kn) ns (\<lambda>t. (closed t, t))" for lib kn ns closed
proof unfold_locales
  fix t :: "('w \<times> exchange_log) transport"
  let ?io = "linux_io lib (logging kn) ns (\<lambda>t. (closed t, t))"
  show "writes (snd (io_inventory ?io t)) = writes t"
    using unwritten.keeps_inventory [of lib kn "\<lambda>_. False"]
    by (simp add: linux_io_def unwritten.keeps_def case_prod_unfold)
  show "writes (snd (io_now ?io t)) = writes t"
    by (simp add: linux_io_def logging_def writes_def exchanges_def case_prod_unfold Let_def)
qed (simp_all add: linux_io_def)

text \<open>Previewing a plan over the Linux transport sends the kernel no request that changes anything, whatever the plan and
  whatever the kernel answers.\<close>

theorem transport_preview_reads_only:
  assumes "header_laws lib"
  shows "\<exists>report t'. preview_plan (linux_io lib (logging kn) ns (\<lambda>t. (closed t, t))) diff t = Some (report, t')
     \<and> writes t' = writes t"
proof -
  let ?io = "linux_io lib (logging kn) ns (\<lambda>t. (closed t, t))"
  obtain report t' where r: "run ?io diff True t = Some (report, t')" by (rule run_facts [OF linux_calls_return [OF assms], of "logging kn" ns "\<lambda>t. (closed t, t)" diff True t])
  with over_linux.preview_run [OF r] show ?thesis by (simp add: preview_plan_def)
qed

end
