(* ===== verification/Worker.thy ===== *)
theory Worker
  imports Linux BackendReg
begin

text \<open>
  \<open>crates/netfyr-backend/src/worker.rs\<close>: the thread that owns the transport of one network namespace, the requests it
  serves and the \<open>NetlinkBackend\<close> handle; and the start of the transport in \<open>linux.rs\<close>.

  The calls of the operating system and of the runtime are values of the record \<open>host\<close>.  A worker that panicked or
  returned is \<open>None\<close>.
\<close>

section \<open>The start of the transport\<close>

text \<open>What \<open>LinuxTransport::new\<close> calls, in order: the netlink socket and its options, the ioctl socket, and the two
  optional families.\<close>

record startup =
  su_route :: "io_error + unit"
  su_bind :: "io_error + unit"
  su_ext_ack :: "io_error + unit"
  su_cap_ack :: "io_error + unit"
  su_descriptor :: "io_error + unit"
  su_ethtool :: "string + unit"
  su_wireless :: "string + unit"

definition failed_family :: "string \<Rightarrow> string + unit \<Rightarrow> diagnostic list" where
  "failed_family field r = (case r of Inl err \<Rightarrow> [diagnostic_of None field err] | Inr _ \<Rightarrow> [])"

definition connected :: "string + unit \<Rightarrow> bool" where
  "connected r = (case r of Inl _ \<Rightarrow> False | Inr _ \<Rightarrow> True)"

definition new_transport :: "startup \<Rightarrow> namespace_id \<Rightarrow> 'w \<Rightarrow> ('w transport, backend_error) outcome" where
  "new_transport su ns w =
     (let or_failed = (\<lambda>r. omap_err (from_io QueryFailed) (of_sum r)) in
      obind (or_failed (su_route su)) (\<lambda>_.
      obind (or_failed (su_bind su)) (\<lambda>_.
      obind (or_failed (su_ext_ack su)) (\<lambda>_.
      obind (or_failed (su_cap_ack su)) (\<lambda>_.
      obind (or_failed (su_descriptor su)) (\<lambda>_.
      Ok \<lparr>lt_world = w, lt_namespace = ns, lt_closed = False, lt_ethtool = connected (su_ethtool su),
          lt_wireless = connected (su_wireless su), lt_generations = Map.empty, lt_epoch = 0, lt_invalidated = None,
          lt_addresses = Map.empty,
          lt_diagnostics = failed_family ''ethernet'' (su_ethtool su) @ failed_family ''type'' (su_wireless su)\<rparr>))))))"

text \<open>\<open>next_notification\<close> on the item that arrives; \<open>None\<close> is a call that stays pending.\<close>

definition next_notification :: "route_lib \<Rightarrow> netlink_message option \<Rightarrow> 'w transport \<Rightarrow> 'w transport option" where
  "next_notification lib item t = (if lt_closed t then None else Some (record_item lib item t))"

section \<open>The worker\<close>

definition disconnected :: backend_error where
  "disconnected = error_new Internal ''namespace worker stopped before accepting the request''"

definition unreported :: backend_error where
  "unreported = error_new OutcomeUnknown ''namespace worker stopped before reporting; writes may have applied''"

definition with_context :: "backend_error \<Rightarrow> string \<Rightarrow> backend_error" where
  "with_context err what = err\<lparr>be_message := what @ '': '' @ be_message err\<rparr>"

definition NSFS_MAGIC :: i64 where "NSFS_MAGIC = 0x6E736673"

text \<open>The host: opening the path, the type of its file system, its device and inode, the thread, its own namespace,
  entering the namespace, the runtime, the transport, and whether the thread reports in time.\<close>

record host =
  ho_open :: "io_error + unit"
  ho_filesystem :: "io_error + i64"
  ho_metadata :: "io_error + namespace_id"
  ho_spawn :: "string + unit"
  ho_current :: "io_error + namespace_id"
  ho_setns :: "io_error + unit"
  ho_runtime :: "string + unit"
  ho_startup :: startup
  ho_in_time :: bool

definition open_namespace :: "host \<Rightarrow> string \<Rightarrow> (unit, backend_error) outcome" where
  "open_namespace h path =
     (let describe = (\<lambda>err. with_context (from_io NotFound err) (''open namespace '' @ path)) in
      obind (omap_err describe (of_sum (ho_open h))) (\<lambda>_.
      obind (omap_err describe (of_sum (ho_filesystem h))) (\<lambda>f_type.
      if f_type = NSFS_MAGIC then Ok ()
      else Err (error_new UnsupportedOperation (path @ '' is not a namespace file'')))))"

text \<open>The closure \<open>setup\<close> of the thread.\<close>

definition set_up :: "host \<Rightarrow> namespace_id \<Rightarrow> (unit, backend_error) outcome" where
  "set_up h ns =
     obind (omap_err (from_io Internal) (of_sum (ho_current h))) (\<lambda>current.
     obind (if ns_device current \<noteq> ns_device ns \<or> ns_inode current \<noteq> ns_inode ns
            then omap_err (\<lambda>err. with_context (from_io UnsupportedOperation err) ''enter namespace'') (of_sum (ho_setns h))
            else Ok ()) (\<lambda>_.
     omap_err (error_new Internal) (of_sum (ho_runtime h))))"

text \<open>\<open>NetlinkBackend::open\<close>: the namespace of the handle and the transport the worker starts with.\<close>

definition open_backend :: "host \<Rightarrow> string \<Rightarrow> 'w \<Rightarrow> (namespace_id \<times> 'w transport, backend_error) outcome" where
  "open_backend h path w =
     obind (open_namespace h path) (\<lambda>_.
     obind (omap_err (\<lambda>err. with_context (from_io Internal err) ''namespace metadata'') (of_sum (ho_metadata h))) (\<lambda>ns.
     obind (omap_err (\<lambda>err. error_new Internal (''start namespace worker: '' @ err)) (of_sum (ho_spawn h))) (\<lambda>_.
     if \<not> ho_in_time h then Err disconnected
     else
       obind (set_up h ns) (\<lambda>_.
       obind (new_transport (ho_startup h) ns w) (\<lambda>t.
       Ok (ns, t))))))"

definition open_current :: "host \<Rightarrow> 'w \<Rightarrow> (namespace_id \<times> 'w transport, backend_error) outcome" where
  "open_current h w = open_backend h ''/proc/thread-self/ns/net'' w"

definition may_match :: "match_spec \<Rightarrow> match_spec \<Rightarrow> bool" where
  "may_match selector spec = matches (selector\<lparr>match_driver := None, match_pci_path := None\<rparr>) spec"

text \<open>A query: \<open>show_match\<close> is the derived \<open>Debug\<close> text of a selector.\<close>

definition select_devices ::
  "(match_spec \<Rightarrow> string) \<Rightarrow> match_spec \<Rightarrow> observation \<Rightarrow> (observation, backend_error) outcome" where
  "select_devices show_match selector obs =
     (let ds = filter (\<lambda>device. matches selector (st_match (dev_st device))) (devices obs) in
      if ds = [] \<and> match_name selector \<noteq> None
      then Err (error_new NotFound (''no interface matches '' @ show_match selector))
      else Ok (obs\<lparr>devices := ds\<rparr>))"

definition answer_query ::
  "route_lib \<Rightarrow> 'w kernel \<Rightarrow> (match_spec \<Rightarrow> string) \<Rightarrow> match_spec \<Rightarrow> (observation, 'w) linux" where
  "answer_query lib kn show_match selector =
     abind (inventory lib kn (may_match selector)) (\<lambda>obs. alift (select_devices show_match selector obs))"

datatype worker_request = QueryRequest match_spec | ApplyRequest state_diff | PreviewRequest state_diff

datatype worker_reply =
    QueryReply "(observation, backend_error) outcome"
  | ApplyReply apply_report
  | PreviewReply dry_run_report

text \<open>One request; \<open>None\<close> when the thread panics.  The request carries the test whether its caller is gone, which only a
  run that applies reads.\<close>

fun serve ::
  "route_lib \<Rightarrow> 'w kernel \<Rightarrow> (match_spec \<Rightarrow> string) \<Rightarrow> worker_request \<times> ('w transport \<Rightarrow> bool \<times> 'w transport) \<Rightarrow>
   'w transport \<Rightarrow> (worker_reply \<times> 'w transport) option" where
  "serve lib kn show_match (QueryRequest selector, closed) t =
     (case answer_query lib kn show_match selector t of
        (Panic, _) \<Rightarrow> None
      | (r, t') \<Rightarrow> Some (QueryReply r, t'))"
| "serve lib kn show_match (ApplyRequest diff, closed) t =
     map_option (\<lambda>(report, t'). (ApplyReply report, t'))
       (apply_plan (linux_io lib kn (lt_namespace t) closed) diff t)"
| "serve lib kn show_match (PreviewRequest diff, closed) t =
     map_option (\<lambda>(report, t'). (PreviewReply report, t'))
       (preview_plan (linux_io lib kn (lt_namespace t) closed) diff t)"

text \<open>The loop of the thread over what \<open>select!\<close> delivers, a notification or a request, until the channel closes.\<close>

datatype 'w worker_event =
    Notified "netlink_message option"
  | Requested worker_request "'w transport \<Rightarrow> bool \<times> 'w transport"

fun serve_all ::
  "route_lib \<Rightarrow> 'w kernel \<Rightarrow> (match_spec \<Rightarrow> string) \<Rightarrow> 'w worker_event list \<Rightarrow> 'w transport \<Rightarrow>
   (worker_reply list \<times> 'w transport) option" where
  "serve_all lib kn show_match [] t = Some ([], t)"
| "serve_all lib kn show_match (Notified item # events) t =
     (case next_notification lib item t of
        Some t' \<Rightarrow> serve_all lib kn show_match events t'
      | None \<Rightarrow> serve_all lib kn show_match events t)"
| "serve_all lib kn show_match (Requested req closed # events) t =
     Option.bind (serve lib kn show_match (req, closed) t) (\<lambda>(reply, t').
     map_option (\<lambda>(replies, t''). (reply # replies, t'')) (serve_all lib kn show_match events t'))"

section \<open>The handle\<close>

text \<open>What becomes of a request that the handle sends: the channel is closed, the reply is never sent, or it arrives.\<close>

datatype 'a delivery = NotAccepted | Lost | Delivered 'a

fun client_query :: "(observation, backend_error) outcome delivery \<Rightarrow> (observation, backend_error) outcome" where
  "client_query NotAccepted = Err disconnected"
| "client_query Lost = Err disconnected"
| "client_query (Delivered r) = r"

fun client_apply :: "state_diff \<Rightarrow> apply_report delivery \<Rightarrow> apply_report" where
  "client_apply diff NotAccepted = failed_report diff disconnected"
| "client_apply diff Lost = failed_report diff unreported"
| "client_apply diff (Delivered report) = report"

fun client_dry_run :: "state_diff \<Rightarrow> dry_run_report delivery \<Rightarrow> dry_run_report" where
  "client_dry_run diff NotAccepted = preview_report diff (failed_report diff disconnected)"
| "client_dry_run diff Lost = preview_report diff (failed_report diff disconnected)"
| "client_dry_run diff (Delivered report) = report"

text \<open>\<open>NetlinkBackend\<close> as a backend of the registry; \<open>ident\<close> is the identity of its \<open>Arc\<close>, and the world of its queries
  is the transport of the worker, while that runs.\<close>

definition deliver_query ::
  "route_lib \<Rightarrow> 'w kernel \<Rightarrow> (match_spec \<Rightarrow> string) \<Rightarrow> match_spec \<Rightarrow> 'w transport option \<Rightarrow>
   (observation, backend_error) outcome delivery \<times> 'w transport option" where
  "deliver_query lib kn show_match selector worker =
     (case worker of
        None \<Rightarrow> (NotAccepted, None)
      | Some t \<Rightarrow>
          (case serve lib kn show_match (QueryRequest selector, \<lambda>t. (False, t)) t of
             Some (QueryReply r, t') \<Rightarrow> (Delivered r, Some t')
           | _ \<Rightarrow> (Lost, None)))"

definition netlink_backend ::
  "route_lib \<Rightarrow> 'w kernel \<Rightarrow> (match_spec \<Rightarrow> string) \<Rightarrow> nat \<Rightarrow> namespace_id \<Rightarrow> 'w transport option backend" where
  "netlink_backend lib kn show_match ident ns =
     \<lparr>bk_id = ident, bk_namespace = ns, bk_entities = [ETHERNET], bk_supports = supports_operation,
      bk_query = (\<lambda>selector worker.
        let (d, worker') = deliver_query lib kn show_match selector worker in (client_query d, worker'))\<rparr>"

end
