(* ===== verification/WorkerProps.thy ===== *)
theory WorkerProps
  imports Worker LinuxProps BackendProps
begin

text \<open>
  The properties of the worker and of the handle to it.
\<close>

section \<open>Queries\<close>

text \<open>The inventory of a query asks for the driver of an interface exactly when some driver and PCI path would make the
  interface match the selector.\<close>

lemma prefilter_is_exact:
  "may_match selector spec \<longleftrightarrow>
     (\<exists>driver pci_path. matches selector (spec\<lparr>match_driver := driver, match_pci_path := pci_path\<rparr>))"
proof
  assume "may_match selector spec"
  then have "matches selector (spec\<lparr>match_driver := match_driver selector, match_pci_path := match_pci_path selector\<rparr>)"
    by (simp add: may_match_def matches_def field_matches_iff)
  then show "\<exists>driver pci_path. matches selector (spec\<lparr>match_driver := driver, match_pci_path := pci_path\<rparr>)" by blast
qed (auto simp: may_match_def matches_def)

definition matching :: "match_spec \<Rightarrow> observation \<Rightarrow> device_observation list" where
  "matching selector obs = filter (\<lambda>d. matches selector (st_match (dev_st d))) (devices obs)"

text \<open>C9: as a backend of the registry, a running worker of the namespace it is registered for answers every query without
  panicking and keeps running, in its namespace.  The answer is the error of its inventory, if that fails; "not found", if
  the inventory succeeds, the selector names an interface and no device of it matches; and otherwise the inventory with just
  those of its devices that match, which are of that namespace and whose identities are current.\<close>

theorem worker_answers_for_its_namespace:
  assumes "header_laws lib" "lt_namespace t = ns" "inventory lib kn (may_match selector) t = (result, t')"
  shows "lt_namespace t' = ns
    \<and> (\<exists>answer. bk_query (netlink_backend lib kn show_match ident ns) selector (Some t) = (answer, Some t')
        \<and> (case result of
             Ok obs \<Rightarrow>
               list_all (\<lambda>d. if_namespace (identity d) = ns \<and> still_current t' d) (devices obs)
               \<and> (if matching selector obs = [] \<and> match_name selector \<noteq> None
                   then \<exists>e. answer = Err e \<and> be_kind e = NotFound
                   else answer = Ok (obs\<lparr>devices := matching selector obs\<rparr>))
           | Err e \<Rightarrow> answer = Err e
           | Panic \<Rightarrow> False))"
proof -
  have ns: "lt_namespace t' = ns" using namespace_kept.keepsD [OF namespace_kept.keeps_inventory assms(3)] assms(2) by simp
  let ?answer = "obind result (select_devices show_match selector)"
  have "result \<noteq> Panic" using inventory_returns [OF assms(1), of kn "may_match selector"] assms(3) by (metis fst_conv returns_def)
  moreover have selected: "select_devices show_match selector obs \<noteq> Panic" for obs by (simp add: select_devices_def Let_def)
  ultimately have "?answer \<noteq> Panic" by (auto simp: outcome_inversions)
  have "answer_query lib kn show_match selector t = (?answer, t')"
    using assms(3) by (cases result) (auto simp: answer_query_def abind_def alift_def)
  with \<open>?answer \<noteq> Panic\<close> have served: "bk_query (netlink_backend lib kn show_match ident ns) selector (Some t) = (?answer, Some t')"
    by (cases ?answer) (simp_all add: netlink_backend_def deliver_query_def)
  have "case result of
      Ok obs \<Rightarrow>
        list_all (\<lambda>d. if_namespace (identity d) = ns \<and> still_current t' d) (devices obs)
        \<and> (if matching selector obs = [] \<and> match_name selector \<noteq> None
            then \<exists>e. ?answer = Err e \<and> be_kind e = NotFound else ?answer = Ok (obs\<lparr>devices := matching selector obs\<rparr>))
    | Err e \<Rightarrow> ?answer = Err e
    | Panic \<Rightarrow> False"
  proof (cases result)
    case (Ok obs)
    have "inventoried obs t'" using inventory_ensures [of lib kn] assms(3) Ok unfolding ensures_def by blast
    moreover have "all_in ns (devices obs)" using inventory_in [of ns lib kn] assms(2,3) Ok unfolding yields_in_def by blast
    ultimately have "list_all (\<lambda>d. if_namespace (identity d) = ns \<and> still_current t' d) (devices obs)"
      by (auto simp: inventoried_def all_in_def list_all_iff)
    then show ?thesis by (auto simp: Ok select_devices_def matching_def error_new_def Let_def)
  qed (use \<open>result \<noteq> Panic\<close> in simp_all)
  with served ns show ?thesis by blast
qed

theorem worker_answers_for_its_namespace_witness:
  "\<exists>obs t'. bk_query (netlink_backend sample_lib (logging sample_kernel) (\<lambda>_. []) 0 (if_namespace sample_target))
      (default_match\<lparr>match_name := Some ''eth0''\<rparr>) (Some sample_transport) = (Ok obs, Some t')
    \<and> list_all (\<lambda>d. if_namespace (identity d) = if_namespace sample_target) (devices obs)"
proof -
  let ?backend = "netlink_backend sample_lib (logging sample_kernel) (\<lambda>_. []) 0 (if_namespace sample_target)"
  let ?selector = "default_match\<lparr>match_name := Some ''eth0''\<rparr>"
  have laws: "header_laws sample_lib" by (auto simp: header_laws_def sample_lib_def LINK_HEADER_LEN_def split: if_splits)
  have ns: "lt_namespace sample_transport = if_namespace sample_target" by (simp add: sample_transport_def sample_target_def)
  obtain result t' where i: "inventory sample_lib (logging sample_kernel) (may_match ?selector) sample_transport = (result, t')" by fastforce
  have "is_ok (fst (bk_query ?backend ?selector (Some sample_transport)))" by code_simp
  with worker_answers_for_its_namespace [OF laws ns i, of "\<lambda>_. []" 0] show ?thesis
    by (cases result) (auto simp: is_ok_def list_all_iff matching_def split: if_splits)
qed

section \<open>Requests without a report\<close>

lemma failed_report_eq:
  "failed_report diff e =
     \<lparr>succeeded = [],
      failed = map (\<lambda>(i, operation). \<lparr>fo_context = context_new i operation, fo_error = e\<rparr>)
        (filter (\<lambda>(_, operation). depends_on operation = []) (enumerate 0 (operations diff))),
      skipped = map (\<lambda>(i, operation). \<lparr>so_context = context_new i operation, so_reason = DependencyFailed (depends_on operation)\<rparr>)
        (filter (\<lambda>(_, operation). depends_on operation \<noteq> []) (enumerate 0 (operations diff))),
      report_diagnostics = diff_diagnostics diff\<rparr>"
proof -
  let ?step = "\<lambda>report (i, operation).
      if depends_on operation = []
      then report\<lparr>failed := failed report @ [\<lparr>fo_context = context_new i operation, fo_error = e\<rparr>]\<rparr>
      else report\<lparr>skipped := skipped report @
             [\<lparr>so_context = context_new i operation, so_reason = DependencyFailed (depends_on operation)\<rparr>]\<rparr>"
  have "foldl ?step report entries =
      report\<lparr>failed := failed report @ map (\<lambda>(i, operation). \<lparr>fo_context = context_new i operation, fo_error = e\<rparr>)
               (filter (\<lambda>(_, operation). depends_on operation = []) entries),
             skipped := skipped report @ map (\<lambda>(i, operation). \<lparr>so_context = context_new i operation,
               so_reason = DependencyFailed (depends_on operation)\<rparr>)
               (filter (\<lambda>(_, operation). depends_on operation \<noteq> []) entries)\<rparr>" for report :: apply_report and entries
    by (induction entries arbitrary: report) auto
  then show ?thesis unfolding failed_report_def Let_def by (simp add: empty_report_def)
qed

lemma failed_report_contexts: "mset (report_contexts (failed_report diff e)) = mset (planned_contexts diff)"
proof -
  have "mset (map f (filter (\<lambda>x. \<not> P x) xs)) + mset (map g (filter P xs)) = mset (map f xs)"
    if "\<And>x. f x = g x" for f g :: "'a \<Rightarrow> 'b" and P xs
    using that by (induction xs) simp_all
  from this [of "\<lambda>(i, operation). context_new i operation" "\<lambda>(i, operation). context_new i operation"
      "\<lambda>(_, operation). depends_on operation = []" "enumerate 0 (operations diff)"]
  show ?thesis
    by (simp add: failed_report_eq report_contexts_def planned_contexts_def comp_def case_prod_unfold)
qed

text \<open>C16: when the worker takes no request or stops before it reports, the caller of an apply still gets a report on every
  operation of the plan, once each, that claims nothing was written: exactly the operations without dependencies are
  reported as failed, and the others as skipped for the dependencies they have.  The error tells whether writes may have
  happened: not when the request was never taken.\<close>

theorem unreported_apply_claims_nothing:
  "list_all (\<lambda>delivery.
       mset (report_contexts (client_apply diff delivery)) = mset (planned_contexts diff)
       \<and> succeeded (client_apply diff delivery) = []
       \<and> map fo_context (failed (client_apply diff delivery)) =
           map (\<lambda>(i, operation). context_new i operation)
             (filter (\<lambda>(_, operation). depends_on operation = []) (enumerate 0 (operations diff)))
       \<and> skipped (client_apply diff delivery) =
           map (\<lambda>(i, operation). \<lparr>so_context = context_new i operation, so_reason = DependencyFailed (depends_on operation)\<rparr>)
             (filter (\<lambda>(_, operation). depends_on operation \<noteq> []) (enumerate 0 (operations diff)))
       \<and> list_all (\<lambda>entry. be_kind (fo_error entry) = (case delivery of NotAccepted \<Rightarrow> Internal | _ \<Rightarrow> OutcomeUnknown))
           (failed (client_apply diff delivery)))
     [NotAccepted, Lost]"
  by (simp add: failed_report_contexts)
    (simp add: failed_report_eq list_all_iff disconnected_def unreported_def error_new_def case_prod_unfold comp_def)

section \<open>The loop\<close>

fun requests_of :: "'w worker_event list \<Rightarrow> worker_request list" where
  "requests_of [] = []"
| "requests_of (Notified item # events) = requests_of events"
| "requests_of (Requested req closed # events) = req # requests_of events"

fun replies_to :: "worker_reply \<Rightarrow> worker_request \<Rightarrow> bool" where
  "replies_to (QueryReply _) (QueryRequest _) = True"
| "replies_to (ApplyReply report) (ApplyRequest diff) = (mset (report_contexts report) = mset (planned_contexts diff))"
| "replies_to (PreviewReply report) (PreviewRequest diff) = (map po_context (dry_operations report) = planned_contexts diff)"
| "replies_to _ _ = False"

lemma answer_query_returns: "header_laws lib \<Longrightarrow> fst (answer_query lib kn show_match selector t) \<noteq> Panic"
proof -
  assume "header_laws lib"
  then have "returns (answer_query lib kn show_match selector)"
    unfolding answer_query_def
    by (intro returns_rules inventory_returns) (simp_all add: select_devices_def Let_def)
  then show ?thesis by (simp add: returns_def)
qed

lemma serve_replies:
  assumes "header_laws lib"
  obtains reply t' where "serve lib kn show_match (req, closed) t = Some (reply, t')" "replies_to reply req"
proof (cases req)
  case (QueryRequest selector)
  have "fst (answer_query lib kn show_match selector t) \<noteq> Panic" by (rule answer_query_returns [OF assms])
  then show thesis using that
    by (cases "answer_query lib kn show_match selector t"; cases "fst (answer_query lib kn show_match selector t)")
      (auto simp: QueryRequest)
next
  case (ApplyRequest diff)
  obtain report w' where "run (linux_io lib kn (lt_namespace t) closed) diff False t = Some (report, w')"
    "mset (report_contexts report) = mset (planned_contexts diff)"
    by (rule run_facts [OF linux_calls_return [OF assms]])
  with that show thesis by (simp add: ApplyRequest apply_plan_def)
next
  case (PreviewRequest diff)
  obtain report w' where "preview_plan (linux_io lib kn (lt_namespace t) closed) diff t = Some (report, w')"
    "map po_context (dry_operations report) = planned_contexts diff"
    using preview_lists_plan_in_order [OF linux_calls_return [OF assms]] by blast
  with that show thesis by (simp add: PreviewRequest)
qed

lemma serve_stops: "serve lib kn show_match (req, closed) t = None \<Longrightarrow> \<not> header_laws lib"
  by (metis option.distinct(1) serve_replies)

text \<open>C5: the worker answers every request of every sequence of notifications and requests, in order and with a reply of the
  request's kind: a report on every operation of the plan for an apply or a dry run.  Nothing the kernel answers or
  notifies stops it.\<close>

theorem worker_answers_every_request:
  assumes "header_laws lib"
  shows "\<exists>replies t'. serve_all lib kn show_match events t = Some (replies, t') \<and> list_all2 replies_to replies (requests_of events)"
proof (induction events arbitrary: t)
  case (Cons event events)
  show ?case
  proof (cases event)
    case (Notified item)
    then show ?thesis using Cons.IH by (auto split: option.split)
  next
    case (Requested req closed)
    obtain reply t1 where s: "serve lib kn show_match (req, closed) t = Some (reply, t1)" "replies_to reply req"
      by (rule serve_replies [OF assms])
    obtain replies t2 where "serve_all lib kn show_match events t1 = Some (replies, t2)"
      "list_all2 replies_to replies (requests_of events)" using Cons.IH by blast
    with s show ?thesis by (simp add: Requested)
  qed
qed simp

theorem worker_answers_every_request_witness:
  "\<exists>r report t'. serve_all sample_lib (logging sample_kernel) (\<lambda>_. [])
     [Notified None, Requested (QueryRequest default_match) (\<lambda>t. (False, t)), Requested (ApplyRequest (sample_diff [])) (\<lambda>t. (False, t))]
     sample_transport = Some ([QueryReply r, ApplyReply report], t')"
proof -
  have laws: "header_laws sample_lib" by (auto simp: header_laws_def sample_lib_def LINK_HEADER_LEN_def split: if_splits)
  have "replies_to reply (QueryRequest m) \<longleftrightarrow> (\<exists>r. reply = QueryReply r)" for reply m by (cases reply) auto
  moreover have "\<exists>report. reply = ApplyReply report" if "replies_to reply (ApplyRequest diff)" for reply diff
    using that by (cases reply) auto
  ultimately show ?thesis
    using worker_answers_every_request [OF laws, of "logging sample_kernel" "\<lambda>_. []"
        "[Notified None, Requested (QueryRequest default_match) (\<lambda>t. (False, t)), Requested (ApplyRequest (sample_diff [])) (\<lambda>t. (False, t))]"
        sample_transport]
    unfolding requests_of.simps list_all2_Cons2 list_all2_Nil2 by metis
qed

end
