(* ===== verification/ExecSim.thy ===== *)
theory ExecSim
  imports ExecProps
begin

text \<open>
  Refinement of the world of an execution.  Where the calls of one \<open>io\<close> commute with an abstraction of its world to the
  calls of another, so does the whole run; the log of \<open>logged io\<close> is such a refinement, so it observes and changes nothing.
\<close>

section \<open>Simulation\<close>

definition abstract_world :: "('v \<Rightarrow> 'w) \<Rightarrow> 'v execution \<Rightarrow> 'w execution" where
  "abstract_world f ex =
     \<lparr>ex_world = f (ex_world ex), ex_groups = ex_groups ex, ex_eligible = ex_eligible ex, ex_current = ex_current ex,
      ex_diagnostics = ex_diagnostics ex\<rparr>"

lemma abstract_world_sel [simp]:
  "ex_world (abstract_world f ex) = f (ex_world ex)" "ex_groups (abstract_world f ex) = ex_groups ex"
  "ex_eligible (abstract_world f ex) = ex_eligible ex" "ex_current (abstract_world f ex) = ex_current ex"
  "ex_diagnostics (abstract_world f ex) = ex_diagnostics ex"
  by (simp_all add: abstract_world_def)

lemma abstract_world_update [simp]:
  "abstract_world f (ex\<lparr>ex_groups := gs\<rparr>) = (abstract_world f ex)\<lparr>ex_groups := gs\<rparr>"
  "abstract_world f (ex\<lparr>ex_eligible := el\<rparr>) = (abstract_world f ex)\<lparr>ex_eligible := el\<rparr>"
  "abstract_world f (ex\<lparr>ex_current := c\<rparr>) = (abstract_world f ex)\<lparr>ex_current := c\<rparr>"
  "abstract_world f (ex\<lparr>ex_diagnostics := ds\<rparr>) = (abstract_world f ex)\<lparr>ex_diagnostics := ds\<rparr>"
  "abstract_world f (ex\<lparr>ex_world := w\<rparr>) = (abstract_world f ex)\<lparr>ex_world := f w\<rparr>"
  by (simp_all add: abstract_world_def)

locale io_refinement =
  fixes abs_world :: "'v \<Rightarrow> 'w" and concrete :: "'v io" and abstract :: "'w io"
  assumes same_namespace: "io_namespace concrete = io_namespace abstract"
    and same_metadata: "io_metadata concrete = io_metadata abstract"
    and sim_inventory: "io_inventory abstract (abs_world v) = map_prod id abs_world (io_inventory concrete v)"
    and sim_execute: "io_execute abstract tgt kind (abs_world v) = map_prod id abs_world (io_execute concrete tgt kind v)"
    and sim_now: "io_now abstract (abs_world v) = map_prod id abs_world (io_now concrete v)"
    and sim_cancelled: "io_cancelled abstract (abs_world v) = map_prod id abs_world (io_cancelled concrete v)"
begin

abbreviation abs_ex :: "'v execution \<Rightarrow> 'w execution" where
  "abs_ex \<equiv> abstract_world abs_world"

definition sim :: "('a, 'e, 'v execution) action \<Rightarrow> ('a, 'e, 'w execution) action \<Rightarrow> bool" where
  "sim m n \<longleftrightarrow> (\<forall>ex. n (abs_ex ex) = map_prod id abs_ex (m ex))"

lemma sim_basic:
  "sim (areturn x) (areturn x)" "sim (alift r) (alift r)"
  "(\<And>ex. q (abs_ex ex) = p ex) \<Longrightarrow> sim (aget p) (aget q)"
  "(\<And>ex. g (abs_ex ex) = abs_ex (f ex)) \<Longrightarrow> sim (amodify f) (amodify g)"
  by (simp_all add: sim_def areturn_def alift_def aget_def amodify_def)

lemma sim_abind: "sim m n \<Longrightarrow> (\<And>x. sim (f x) (g x)) \<Longrightarrow> sim (abind m f) (abind n g)"
  by (auto simp: sim_def abind_def split: prod.split outcome.split)

lemma sim_split:
  "(c \<Longrightarrow> sim m n) \<Longrightarrow> (\<not> c \<Longrightarrow> sim m' n') \<Longrightarrow> sim (if c then m else m') (if c then n else n')"
  "(v = None \<Longrightarrow> sim m n) \<Longrightarrow> (\<And>x. v = Some x \<Longrightarrow> sim (f x) (g x))
     \<Longrightarrow> sim (case v of None \<Rightarrow> m | Some x \<Rightarrow> f x) (case v of None \<Rightarrow> n | Some x \<Rightarrow> g x)"
  by (cases v; simp)+

lemmas sim_rules = sim_basic sim_abind sim_split

lemma sim_calls:
  "sim (outside_result (io_inventory concrete)) (outside_result (io_inventory abstract))"
  "sim (outside_result (io_execute concrete tgt kind)) (outside_result (io_execute abstract tgt kind))"
  "sim (outside (io_now concrete)) (outside (io_now abstract))"
  "sim (outside (io_cancelled concrete)) (outside (io_cancelled abstract))"
  by (simp_all add: sim_def outside_def outside_result_def sim_inventory sim_execute sim_now sim_cancelled
      case_prod_unfold Let_def)

lemma sim_observe: "sim (observe concrete) (observe abstract)"
  unfolding observe_def absorb_def by (intro sim_rules sim_calls) simp_all

lemma sim_groups: "sim (on_groups f) (on_groups f)"
  by (simp add: sim_def on_groups_def case_prod_unfold Let_def)

lemma sim_throw: "sim (throw_when c e) (throw_when c e)"
  unfolding throw_when_def by (intro sim_rules)

lemma sim_mapped: "sim m n \<Longrightarrow> sim (\<lambda>ex. let (r, ex') = m ex in (g r, ex')) (\<lambda>ex. let (r, ex') = n ex in (g r, ex'))"
  by (simp add: sim_def case_prod_unfold Let_def)

lemma sim_verify:
  "sim (verify_address_write concrete diff ns index op kind addr predicted)
       (verify_address_write abstract diff ns index op kind addr predicted)"
  unfolding verify_address_write_def absorb_def Let_def
  by (intro sim_rules sim_throw sim_calls sim_mapped [unfolded Let_def]) simp_all

lemma sim_preview: "sim (preview_write concrete pos kind device) (preview_write abstract pos kind device)"
  unfolding preview_write_def Let_def by (intro sim_rules sim_calls) simp_all

lemma sim_apply:
  "sim (apply_write concrete diff ns index op kind device) (apply_write abstract diff ns index op kind device)"
  unfolding apply_write_def Let_def by (intro sim_rules sim_calls sim_throw sim_verify) simp_all

lemma sim_record: "sim (record_write op kind device predicted) (record_write op kind device predicted)"
  unfolding record_write_def by (intro sim_rules) (auto split: option.split)

lemma sim_step:
  "sim (step concrete diff preview ns schema index op) (step abstract diff preview ns schema index op)"
  unfolding step_def perform_def ask_cancelled_def Let_def same_metadata
  by (intro sim_rules sim_calls sim_throw sim_observe sim_groups sim_preview sim_apply sim_record) simp_all

lemma sim_operation:
  "run_operation abstract diff preview ns schema entry (report, abs_ex ex) =
     map_option (map_prod id abs_ex) (run_operation concrete diff preview ns schema entry (report, ex))"
proof (cases entry)
  case (Pair index op)
  have "step abstract diff preview ns schema index op (abs_ex ex) =
      map_prod id abs_ex (step concrete diff preview ns schema index op ex)"
    using sim_step by (simp add: sim_def)
  then show ?thesis
    by (cases "step concrete diff preview ns schema index op ex"; cases "fst (step concrete diff preview ns schema index op ex)")
      (simp_all add: Pair run_operation_def Let_def)
qed

lemma sim_operations:
  "run_operations abstract diff preview ns schema entries (report, abs_ex ex) =
     map_option (map_prod id abs_ex) (run_operations concrete diff preview ns schema entries (report, ex))"
proof (induction entries arbitrary: report ex)
  case (Cons entry entries)
  show ?case
    by (cases "run_operation concrete diff preview ns schema entry (report, ex)")
      (auto simp: sim_operation Cons.IH)
qed simp

lemma sim_run: "run abstract diff preview (abs_world w) = map_option (map_prod id abs_world) (run concrete diff preview w)"
proof -
  have start: "initial_execution diff (abs_world w) = abs_ex (initial_execution diff w)"
    by (simp add: initial_execution_def abstract_world_def)
  show ?thesis
    by (cases "run_operations concrete diff preview (io_namespace abstract) embedded_registry
          (enumerate 0 (operations diff)) (empty_report, initial_execution diff w)")
      (auto simp: run_def new_registry_embedded start sim_operations same_namespace)
qed

end

text \<open>The log is forgotten by the first projection.\<close>

interpretation forget: io_refinement fst "logged io" io for io
  by unfold_locales (simp_all add: logged_def case_prod_unfold Let_def map_prod_def)

end
