(* ===== verification/ExecIdeal.thy ===== *)
theory ExecIdeal
  imports ExecSim
begin

text \<open>
  A preview predicts the application.  An ideal kernel is one where a write does to the device what the executor projects,
  time stands still and nothing else changes; on it, a run that previews and a run that applies report the same.
\<close>

section \<open>The ideal kernel\<close>

definition written :: "nat \<Rightarrow> interface_id \<Rightarrow> operation_kind \<Rightarrow> observation \<Rightarrow> observation" where
  "written now tgt kind obs =
     obs\<lparr>devices := map (\<lambda>d. if identity d = tgt then project kind (rebase_lifetimes now d) else d) (devices obs)\<rparr>"

definition ideal_io :: "namespace_id \<Rightarrow> nat \<Rightarrow> state_metadata \<Rightarrow> observation io" where
  "ideal_io ns now md =
     \<lparr>io_namespace = ns,
      io_inventory = (\<lambda>obs. (Ok obs, obs)),
      io_execute = (\<lambda>tgt kind obs. (Ok (), written now tgt kind obs)),
      io_now = (\<lambda>obs. (now, obs)),
      io_cancelled = (\<lambda>obs. (False, obs)),
      io_metadata = md\<rparr>"

definition distinct_devices :: "observation \<Rightarrow> bool" where
  "distinct_devices obs \<longleftrightarrow> distinct (map (\<lambda>d. if_index (identity d)) (devices obs))"

lemma written_at:
  assumes "distinct_devices v" "pos < length (devices v)"
  shows "written now (identity (devices v ! pos)) kind v =
    v\<lparr>devices := (devices v)[pos := project kind (rebase_lifetimes now (devices v ! pos))]\<rparr>"
proof -
  have "identity (devices v ! i) \<noteq> identity (devices v ! pos)" if "i < length (devices v)" "i \<noteq> pos" for i
    using assms that unfolding distinct_devices_def distinct_conv_nth length_map by (metis nth_map)
  then have "map (\<lambda>d. if identity d = identity (devices v ! pos) then project kind (rebase_lifetimes now d) else d) (devices v)
      = (devices v)[pos := project kind (rebase_lifetimes now (devices v ! pos))]"
    using assms(2) by (intro nth_equalityI) (auto simp: nth_list_update)
  then show ?thesis by (simp add: written_def)
qed

lemma rebased_identity [simp]:
  "identity (rebase_lifetimes now d) = identity d" "addresses_complete (rebase_lifetimes now d) = addresses_complete d"
  by (simp_all add: rebase_lifetimes_def Let_def)

lemma update_same_identities:
  "identity d = identity (ds ! pos) \<Longrightarrow> map identity (ds[pos := d]) = map identity ds"
  by (cases "pos < length ds") (simp_all add: map_update list_update_same_conv list_update_beyond)

lemma distinct_update:
  assumes "distinct_devices v" "identity d = identity (devices v ! pos)"
  shows "distinct_devices (v\<lparr>devices := (devices v)[pos := d]\<rparr>)"
proof -
  have "map (if_index \<circ> identity) ((devices v)[pos := d]) = map (if_index \<circ> identity) (devices v)"
    using update_same_identities [OF assms(2)] by (metis map_map)
  then show ?thesis using assms(1) by (simp add: distinct_devices_def comp_def)
qed

section \<open>What the verification compares\<close>

lemma lifetime_matches_same: "lifetime_matches s s 0"
  by (simp add: lifetime_matches_def whole_seconds_def)

lemma address_matches_same: "address_matches e e 0"
  by (simp add: address_matches_def Let_def lifetime_matches_same same_identity_refl case_prod_unfold)

lemma group_matches_same: "group_matches \<lparr>eg_addresses = g, eg_observed_at = t\<rparr> g t"
  by (auto simp: group_matches_def Let_def list_all_iff address_matches_same set_zip)

lemma drop_cascaded_same: "drop_cascaded diff index op eligible g g = g"
  unfolding drop_cascaded_def Let_def by (rule filter_True) (auto simp: list_ex_iff intro: same_identity_refl)

lemma and_not_absent: "and x y = 0 \<Longrightarrow> and x (not y) = (x :: u32)"
  by (metis (no_types, lifting) and.right_neutral bit.conj_disj_distrib bit.disj_cancel_right or.left_neutral)

lemma promote_first_same: "promote_first g g = g"
  by (cases g) (simp_all add: promote_first_def and_not_absent)

lemma expected_after_same: "expected_after diff index op kind eligible g g = g"
  by (simp add: expected_after_def drop_cascaded_same promote_first_same split: operation_kind.split)

lemma outside_survives_same: "outside_survives d d key"
  by (auto simp: outside_survives_def list_all_iff list_ex_iff intro: same_identity_refl)

section \<open>One step\<close>

text \<open>The state of an application, from that of the preview: the world is the observation the preview has projected.\<close>

definition related :: "observation \<Rightarrow> observation execution \<Rightarrow> observation execution \<Rightarrow> bool" where
  "related start p a \<longleftrightarrow>
     ex_world p = start \<and> ex_groups a = ex_groups p \<and> ex_eligible a = ex_eligible p \<and> ex_diagnostics a = ex_diagnostics p
     \<and> distinct_devices (ex_world a)
     \<and> (case ex_current p of
          None \<Rightarrow> ex_current a = None \<and> ex_world a = start
        | Some v \<Rightarrow> ex_world a = v \<and> ex_current a \<in> {None, Some v} \<and> set (diagnostics v) \<subseteq> set (ex_diagnostics p))"

text \<open>The two states once the device is observed: only the worlds differ.\<close>

definition both :: "observation \<Rightarrow> observation \<Rightarrow> observation execution \<Rightarrow> bool" where
  "both start v p \<longleftrightarrow>
     ex_world p = start \<and> ex_current p = Some v \<and> distinct_devices v \<and> set (diagnostics v) \<subseteq> set (ex_diagnostics p)"

lemma both_related: "both start v p \<Longrightarrow> related start p (p\<lparr>ex_world := v\<rparr>)"
  by (simp add: both_def related_def)

lemma absorbed: "set ds \<subseteq> set known \<Longrightarrow> foldl (\<lambda>ds d. if d \<notin> set ds then ds @ [d] else ds) known ds = known"
  by (induction ds) auto

lemma absorbs: "set ds \<subseteq> set (foldl (\<lambda>ds d. if d \<notin> set ds then ds @ [d] else ds) known ds)"
  "set known \<subseteq> set (foldl (\<lambda>ds d. if d \<notin> set ds then ds @ [d] else ds) known ds)"
  by (induction ds rule: rev_induct) auto

lemma observe_related:
  assumes "related start p a"
  obtains v q where "observe (ideal_io ns now md) p = (Ok v, q)" "observe (ideal_io ns now md) a = (Ok v, q\<lparr>ex_world := v\<rparr>)"
    "both start v q"
proof (cases "ex_current p")
  case None
  let ?q = "p\<lparr>ex_diagnostics := foldl (\<lambda>ds d. if d \<notin> set ds then ds @ [d] else ds) (ex_diagnostics p) (diagnostics start),
    ex_current := Some start\<rparr>"
  show thesis
    by (rule that [of start ?q]; use assms None absorbs in
        \<open>cases p; cases a; simp add: related_def both_def observe_def absorb_def abind_def aget_def amodify_def areturn_def
          outside_result_def ideal_io_def\<close>)
next
  case (Some v)
  show thesis
  proof (rule that [of v p])
    show "observe (ideal_io ns now md) p = (Ok v, p)" using Some by (simp add: observe_def)
    show "observe (ideal_io ns now md) a = (Ok v, p\<lparr>ex_world := v\<rparr>)"
      using assms Some
      by (cases p; cases a; cases "ex_current a")
        (auto simp: related_def observe_def absorb_def abind_def aget_def amodify_def areturn_def outside_result_def
          ideal_io_def absorbed)
    show "both start v p" using assms Some by (auto simp: related_def both_def)
  qed
qed

text \<open>The two writes.\<close>

definition after_write :: "nat \<Rightarrow> nat \<Rightarrow> operation_kind \<Rightarrow> observation \<Rightarrow> observation" where
  "after_write now pos kind v =
     v\<lparr>devices := (devices v)[pos := project kind (rebase_lifetimes now (devices v ! pos))]\<rparr>"

lemma preview_written:
  assumes "both start v p" "device = devices v ! pos"
  shows "preview_write (ideal_io ns now md) pos kind device p =
    (Ok (project kind (rebase_lifetimes now device)), p\<lparr>ex_current := Some (after_write now pos kind v)\<rparr>)"
  using assms
  by (cases p) (simp add: both_def preview_write_def outside_def ideal_io_def abind_def amodify_def areturn_def after_write_def Let_def)

lemma verified:
  assumes "distinct_devices v" "pos < length (devices v)" "device = devices v ! pos" "identity device = target op"
    and "locate v (target op) ns = Ok pos" "addresses_complete device" "group_key_new op addr = Ok key"
    and "set (diagnostics v) \<subseteq> set (ex_diagnostics q)" "ex_world q = after_write now pos kind v"
  shows "verify_address_write (ideal_io ns now md) diff ns index op kind addr (project kind (rebase_lifetimes now device)) q =
    (Ok (project kind (rebase_lifetimes now device)), q\<lparr>ex_current := Some (after_write now pos kind v)\<rparr>)"
proof -
  let ?d = "project kind (rebase_lifetimes now device)" and ?v = "after_write now pos kind v"
  have at: "devices ?v ! pos = ?d" "diagnostics ?v = diagnostics v" using assms(2,3) by (simp_all add: after_write_def)
  have "map identity (devices ?v) = map identity (devices v)"
    unfolding after_write_def by (simp add: update_same_identities project_frame)
  then have ids: "length (devices ?v) = length (devices v)" "identity (devices ?v ! j) = identity (devices v ! j)"
    if "j < length (devices v)" for j
    using that by (metis length_map, metis length_map nth_map)
  then have "locate ?v (target op) ns = Ok pos"
    using assms(2,5) ids(1) [OF assms(2)] unfolding locate_exact by auto
  moreover have "absorb ?v q = (Ok (), q)"
    using assms(8) by (cases q) (simp add: absorb_def amodify_def absorbed at)
  moreover have "addresses_complete ?d" using assms(6) by (simp add: project_frame)
  ultimately show ?thesis
    using assms(7,9) group_matches_same outside_survives_same
    by (cases q) (simp add: verify_address_write_def outside_result_def ideal_io_def abind_def throw_when_def
        alift_def aget_def amodify_def areturn_def at expected_after_same project_frame Let_def)
qed

lemma apply_written:
  assumes "both start v p" "pos < length (devices v)" "device = devices v ! pos" "identity device = target op"
    and "locate v (target op) ns = Ok pos"
    and "\<And>addr. kind_address kind = Some addr \<Longrightarrow> addresses_complete device \<and> (\<exists>key. group_key_new op addr = Ok key)"
  shows "apply_write (ideal_io ns now md) diff ns index op kind device (p\<lparr>ex_world := v\<rparr>) =
    (Ok (project kind (rebase_lifetimes now device)),
     p\<lparr>ex_world := after_write now pos kind v,
       ex_current := (case kind_address kind of Some _ \<Rightarrow> Some (after_write now pos kind v) | None \<Rightarrow> None)\<rparr>)"
proof -
  let ?q = "p\<lparr>ex_world := after_write now pos kind v, ex_current := None\<rparr>"
  have "written now (target op) kind v = after_write now pos kind v"
    using assms(1-4) written_at [of v pos now kind] by (simp add: both_def after_write_def)
  then have start: "apply_write (ideal_io ns now md) diff ns index op kind device (p\<lparr>ex_world := v\<rparr>) =
      (case kind_address kind of
         Some addr \<Rightarrow> verify_address_write (ideal_io ns now md) diff ns index op kind addr (project kind (rebase_lifetimes now device))
       | None \<Rightarrow> areturn (project kind (rebase_lifetimes now device))) ?q"
    by (cases p) (simp add: apply_write_def outside_def outside_result_def ideal_io_def abind_def throw_when_def
        alift_def amodify_def Let_def split: option.split)
  show ?thesis
  proof (cases "kind_address kind")
    case (Some addr)
    with assms(6) obtain key where "addresses_complete device" "group_key_new op addr = Ok key" by blast
    then show ?thesis
      unfolding start Some option.case
      using assms(1-5) by (subst verified [where v = v and pos = pos and key = key]) (simp_all add: both_def)
  qed (simp add: start areturn_def)
qed

text \<open>The bookkeeping reads neither the world nor the observation.\<close>

lemma record_frame:
  "record_write op kind d pr (ex\<lparr>ex_world := w, ex_current := c\<rparr>) =
     map_prod id (\<lambda>ex. ex\<lparr>ex_world := w, ex_current := c\<rparr>) (record_write op kind d pr ex)"
  by (cases ex; cases "collateral d kind"; cases "kind_address kind")
    (auto simp: record_write_def abind_def amodify_def alift_def areturn_def omap_def split: outcome.split option.split)

lemma record_keeps:
  assumes "record_write op kind d pr ex = (r, ex')"
  shows "ex_world ex' = ex_world ex \<and> ex_current ex' = ex_current ex \<and> ex_eligible ex' = ex_eligible ex
    \<and> set (ex_diagnostics ex) \<subseteq> set (ex_diagnostics ex')"
  using assms
  by (cases ex; cases "collateral d kind"; cases "kind_address kind")
    (auto simp: record_write_def abind_def amodify_def alift_def areturn_def omap_def split: outcome.splits option.splits if_splits)

lemma group_validated:
  assumes "validate_group op device kind gs = (Ok u, gs')" "kind_address kind = Some addr"
  shows "addresses_complete device \<and> (\<exists>key. group_key_new op addr = Ok key)"
  using assms by (auto simp: validate_group_def abind_alift_eq_Ok alift_def split: if_splits)

lemma perform_related:
  assumes b: "both start v p" and pos: "locate v (target op) ns = Ok pos" and device: "device = devices v ! pos"
    and run: "perform (ideal_io ns now md) diff True ns index op pos device kind p = (r, p')"
      "perform (ideal_io ns now md) diff False ns index op pos device kind (p\<lparr>ex_world := v\<rparr>) = (r', a')"
  shows "r' = r \<and> related start p' a'"
proof -
  have at: "pos < length (devices v)" "identity device = target op" using pos device by (simp_all add: locate_exact)
  obtain q gs where g: "validate_group op device kind (ex_groups p) = (q, gs)" by fastforce
  let ?p = "p\<lparr>ex_groups := gs\<rparr>"
  have b2: "both start v ?p" using b by (simp add: both_def)
  have groups: "on_groups (validate_group op device kind) p = (q, ?p)"
    "on_groups (validate_group op device kind) (p\<lparr>ex_world := v\<rparr>) = (q, ?p\<lparr>ex_world := v\<rparr>)"
    by (simp_all add: on_groups_def g)
  note stop = both_related [OF b2]
  have early: "r' = r \<and> related start p' a'" if "r = x" "r' = x" "p' = ?p" "a' = ?p\<lparr>ex_world := v\<rparr>" for x
    using that stop by simp
  note eval = perform_def abind_def [of "on_groups _"] abind_def [of "alift _"] abind_def [of "aget _"] alift_def aget_def groups
    areturn_def
  consider (sent) u where "q = Ok u" "satisfied kind device op = Ok False" "check_cascade diff index device kind (ex_eligible p) = Ok ()"
    | (other) "\<not> (\<exists>u. q = Ok u) \<or> satisfied kind device op \<noteq> Ok False \<or> check_cascade diff index device kind (ex_eligible p) \<noteq> Ok ()"
    by auto
  then show ?thesis
  proof cases
    case other
    then show ?thesis using run stop
      by (cases q; cases "satisfied kind device op"; cases "check_cascade diff index device kind (ex_eligible p)")
        (auto simp: eval split: if_splits)
  next
    case (sent u)
    let ?d = "project kind (rebase_lifetimes now device)" and ?v = "after_write now pos kind v"
    let ?c = "case kind_address kind of Some _ \<Rightarrow> Some ?v | None \<Rightarrow> None"
    have complete: "addresses_complete device \<and> (\<exists>key. group_key_new op addr = Ok key)" if "kind_address kind = Some addr" for addr
      using group_validated g sent(1) that by blast
    have p: "record_write op kind device ?d (?p\<lparr>ex_current := Some ?v\<rparr>) = (r, p')"
      using run(1) sent preview_written [OF b2 device] by (simp add: eval abind_def [of "preview_write _ _ _ _"])
    have a: "record_write op kind device ?d (?p\<lparr>ex_world := ?v, ex_current := ?c\<rparr>) = (r', a')"
      using run(2) sent apply_written [where kind = kind and now = now and md = md and diff = diff and index = index, OF b2 at(1) device at(2) pos complete]
      by (simp add: eval abind_def [of "apply_write _ _ _ _ _ _ _"])
    have "record_write op kind device ?d (?p\<lparr>ex_world := ?v, ex_current := ?c\<rparr>) =
        map_prod id (\<lambda>ex. ex\<lparr>ex_world := ?v, ex_current := ?c\<rparr>) (r, p')"
      using record_frame [where ex = "?p\<lparr>ex_current := Some ?v\<rparr>" and w = ?v and c = ?c and op = op and kind = kind and d = device and pr = ?d] p by simp
    with a have a': "r' = r" "a' = p'\<lparr>ex_world := ?v, ex_current := ?c\<rparr>" by simp_all
    note kept = record_keeps [OF p]
    have "distinct_devices ?v"
      unfolding after_write_def using b device by (intro distinct_update) (simp_all add: both_def project_frame)
    then have "related start p' a'"
      using a' kept b by (auto simp: related_def both_def after_write_def split: option.split)
    with a'(1) show ?thesis by simp
  qed
qed

lemma step_related:
  assumes "related start p a"
    and "step (ideal_io ns now md) diff True ns embedded_registry index op p = (r, p')"
      "step (ideal_io ns now md) diff False ns embedded_registry index op a = (r', a')"
  shows "r' = r \<and> related start p' a'"
proof -
  let ?io = "ideal_io ns now md"
  obtain v q where o: "observe ?io p = (Ok v, q)" "observe ?io a = (Ok v, q\<lparr>ex_world := v\<rparr>)" "both start v q"
    by (rule observe_related [OF assms(1)])
  have asked: "ask_cancelled ?io preview ex = (Ok False, ex)" for preview ex
    by (simp add: ask_cancelled_def outside_def ideal_io_def areturn_def)
  note eval = step_def asked throw_when_def alift_def areturn_def abind_def [of "ask_cancelled _ _"] abind_def [of "alift _"]
    abind_def [of "observe _"] abind_def [of "\<lambda>s. (_, s)"] o
  let ?rest = "\<lambda>preview decoded ex. case locate v (target op) ns of
      Ok pos \<Rightarrow> (case decoded of None \<Rightarrow> (Ok (Some SkipReadOnly), ex)
        | Some kind \<Rightarrow> perform ?io diff preview ns index op pos (devices v ! pos) kind ex)
    | Err e \<Rightarrow> (Err e, ex) | Panic \<Rightarrow> (Panic, ex)"
  show ?thesis
  proof (cases "decode (io_metadata ?io) (op_kind op) embedded_registry")
    case (Ok decoded)
    have "step ?io diff True ns embedded_registry index op p = ?rest True decoded q"
      "step ?io diff False ns embedded_registry index op a = ?rest False decoded (q\<lparr>ex_world := v\<rparr>)"
      by (cases "locate v (target op) ns"; simp add: eval Ok split: option.split)+
    with assms(2,3) show ?thesis
      using both_related [OF o(3)] perform_related [OF o(3)]
      by (cases "locate v (target op) ns") (auto split: option.splits)
  qed (use assms in \<open>simp_all add: eval\<close>)
qed

lemma run_operation_related:
  assumes "related start p a" "run_operation (ideal_io ns now md) diff True ns embedded_registry entry (report, p) = Some (report', p')"
    "run_operation (ideal_io ns now md) diff False ns embedded_registry entry (report, a) = Some (report'', a')"
  shows "report'' = report' \<and> related start p' a'"
proof (cases entry)
  case (Pair index op)
  obtain r q s where s: "step (ideal_io ns now md) diff True ns embedded_registry index op p = (r, q)"
    "step (ideal_io ns now md) diff False ns embedded_registry index op a = (r, s)" "related start q s"
    using step_related [OF assms(1)] by (metis prod.collapse)
  have same: "ex_eligible a = ex_eligible p" "ex_eligible s = ex_eligible q" using assms(1) s(3) by (simp_all add: related_def)
  have more: "related start (q\<lparr>ex_eligible := el\<rparr>) (s\<lparr>ex_eligible := el\<rparr>)" for el
    using s(3) by (cases "ex_current q") (auto simp: related_def)
  show ?thesis
    using assms more s same
    by (cases r) (auto simp: run_operation_def Pair Let_def split: if_splits option.splits)
qed

lemma run_operations_related:
  "\<lbrakk>related start p a;
    run_operations (ideal_io ns now md) diff True ns embedded_registry entries (report, p) = Some (report', p');
    run_operations (ideal_io ns now md) diff False ns embedded_registry entries (report, a) = Some (report'', a')\<rbrakk>
   \<Longrightarrow> report'' = report' \<and> related start p' a'"
proof (induction entries arbitrary: report p a)
  case (Cons entry entries)
  from Cons.prems obtain r1 p1 r2 a1 where
    1: "run_operation (ideal_io ns now md) diff True ns embedded_registry entry (report, p) = Some (r1, p1)"
      "run_operation (ideal_io ns now md) diff False ns embedded_registry entry (report, a) = Some (r2, a1)" and
    2: "run_operations (ideal_io ns now md) diff True ns embedded_registry entries (r1, p1) = Some (report', p')"
      "run_operations (ideal_io ns now md) diff False ns embedded_registry entries (r2, a1) = Some (report'', a')"
    by (auto simp: bind_eq_Some_conv)
  from run_operation_related [OF Cons.prems(1) 1] have "r2 = r1" "related start p1 a1" by simp_all
  with Cons.IH 2 show ?case by blast
qed simp

text \<open>C6: a preview predicts the application.  On a kernel where every write does to the observed device what the executor
  projects and nothing else happens, applying a plan gives the report of previewing it: the same operations succeed, are
  skipped and fail, with the same errors and diagnostics.  The preview leaves the kernel as it was.\<close>

theorem preview_predicts_application:
  assumes "distinct_devices obs"
  shows "\<exists>report obs'. run (ideal_io ns now md) diff True obs = Some (report, obs) \<and> run (ideal_io ns now md) diff False obs = Some (report, obs')"
proof -
  let ?io = "ideal_io ns now md"
  have calls: "calls_return ?io" by (simp add: calls_return_def ideal_io_def)
  obtain report w where p: "run ?io diff True obs = Some (report, w)" by (rule run_facts [OF calls, of diff True obs])
  obtain report' w' where a: "run ?io diff False obs = Some (report', w')" by (rule run_facts [OF calls, of diff False obs])
  have start: "related obs (initial_execution diff obs) (initial_execution diff obs)"
    using assms by (simp add: related_def initial_execution_def)
  have ns: "io_namespace ?io = ns" by (simp add: ideal_io_def)
  let ?ops = "\<lambda>preview. run_operations ?io diff preview ns embedded_registry (enumerate 0 (operations diff)) (empty_report, initial_execution diff obs)"
  have unfolded: "run ?io diff preview obs =
      map_option (\<lambda>(report, ex). (report\<lparr>report_diagnostics := ex_diagnostics ex\<rparr>, ex_world ex)) (?ops preview)" for preview
    by (cases "?ops preview") (simp_all add: run_def new_registry_embedded ns case_prod_unfold)
  from p obtain rp p' where 1: "?ops True = Some (rp, p')" "report = rp\<lparr>report_diagnostics := ex_diagnostics p'\<rparr>" "w = ex_world p'"
    by (auto simp: unfolded)
  from a obtain ra a' where 2: "?ops False = Some (ra, a')" "report' = ra\<lparr>report_diagnostics := ex_diagnostics a'\<rparr>"
    by (auto simp: unfolded)
  from run_operations_related [OF start 1(1) 2(1)] have "ra = rp" "ex_diagnostics a' = ex_diagnostics p'" "ex_world p' = obs"
    by (simp_all add: related_def)
  with 1 2 have "report' = report" "w = obs" by simp_all
  with p a show ?thesis by simp
qed

text \<open>Two addresses are added, the second in a prefix that the first has started; the MTU is changed and then found changed.\<close>

definition ideal_plan :: state_diff where
  "ideal_plan = sample_diff [sample_op (SetMtu 1400) None, sample_op (AddIpv4 (sample_addr 5)) None,
     sample_op (AddIpv4 (sample_addr 6)) None, sample_op (SetMtu 1400) None]"

theorem preview_predicts_application_witness:
  "\<exists>report obs'. run (ideal_io sample_ns 0 \<lparr>md_id = 0, md_created_at = 0\<rparr>) ideal_plan True (sample_obs []) = Some (report, sample_obs [])
     \<and> run (ideal_io sample_ns 0 \<lparr>md_id = 0, md_created_at = 0\<rparr>) ideal_plan False (sample_obs []) = Some (report, obs')"
proof -
  have "distinct_devices (sample_obs [])" by (simp add: distinct_devices_def sample_obs_def)
  then show ?thesis by (rule preview_predicts_application)
qed

end
