(* ===== verification/TestBase.thy ===== *)
theory TestBase
  imports NetAddr
begin

text \<open>
  What the restated tests of the repository share.  A test of the code is a definition of type \<open>bool\<close>, the conjunction of its
  assertions on the values it computes, and a lemma that evaluates it: the model behaves as the code on the inputs its authors
  chose.  \<open>unwrap\<close> and \<open>unwrap_err\<close> with an assertion on the result become \<open>returns_ok\<close> and \<open>fails_with\<close>.
\<close>

definition returns_ok :: "('a \<Rightarrow> bool) \<Rightarrow> ('a, 'e) outcome \<Rightarrow> bool" where
  "returns_ok P r = (case r of Ok x \<Rightarrow> P x | _ \<Rightarrow> False)"

definition fails_with :: "('e \<Rightarrow> bool) \<Rightarrow> ('a, 'e) outcome \<Rightarrow> bool" where
  "fails_with P r = (case r of Err e \<Rightarrow> P e | _ \<Rightarrow> False)"

text \<open>The scope of a link-local address, a constant of the kernel interface.\<close>

definition RT_SCOPE_LINK :: u8 where "RT_SCOPE_LINK = 253"

definition some_with :: "('a \<Rightarrow> bool) \<Rightarrow> 'a option \<Rightarrow> bool" where
  "some_with P v = (case v of Some x \<Rightarrow> P x | None \<Rightarrow> False)"

lemma assertion_simps [simp]:
  "returns_ok P (Ok x) = P x" "\<not> returns_ok P (Err e)" "\<not> returns_ok P Panic"
  "fails_with Q (Err e) = Q e" "\<not> fails_with Q (Ok x)" "\<not> fails_with Q Panic"
  "some_with P (Some x) = P x" "\<not> some_with P None"
  by (simp_all add: returns_ok_def fails_with_def some_with_def)

text \<open>
  Numbers are printed and addresses read by the simplifier: the recursive equations of the printers are used at numerals only, so that
  they do not unfold on an argument that is still being evaluated.
\<close>

lemmas number_eval = show_nat.simps [of "numeral n" for n] show_nat.simps [of 0] show_nat.simps [of 1] show_nat.simps [of "Suc 0"]
  show_hex.simps [of "numeral n" for n] show_hex.simps [of 0] show_hex.simps [of 1] show_hex.simps [of "Suc 0"]
  show_int_def digit_char_def

lemmas address_shown = number_eval show_network_def show_ipv4_def show_ipv6_def ipv4_octets_def ipv6_segments_def upt_rec

lemmas address_read = parse_ip_def read_ipv4_addr_def read_octet_def read_number_def read_ipv6_addr_def read_groups.simps
  read_separator_def ipv4_of_octets_def ipv6_of_segments_def parse_ip_network_def max_prefix_def to_digit_def digit_table_def

text \<open>
  The same for evaluation by code equations, which compute with unary natural numbers unless the numerals are integers.
\<close>

lemma ipv4_of_octets_code [code]: "ipv4_of_octets ds = of_int (foldl (\<lambda>n d. n * 256 + int d) 0 ds)"
proof -
  have "of_int (foldl (\<lambda>n d. n * 256 + int d) (int m) ds) = (of_nat (foldl (\<lambda>n d. n * 256 + d) m ds) :: u32)" for m
  proof (induction ds arbitrary: m)
    case (Cons d ds)
    from Cons [of "m * 256 + d"] show ?case by simp
  qed simp
  from this [of 0] show ?thesis by (simp add: ipv4_of_octets_def)
qed

lemma octet_division: "unat a div 2 ^ k = nat (uint a div 2 ^ k)" for a :: u32
  by (simp add: nat_div_distrib nat_power_eq)

lemma octet_remainder: "unat a mod 256 = nat (uint a mod 256)" "0 \<le> x \<Longrightarrow> nat x mod 256 = nat (x mod 256)" for a :: u32
  by (simp_all add: nat_mod_distrib)

lemma ipv4_octets_code [code]:
  "ipv4_octets a = (let n = uint a in map nat [n div 2 ^ 24, n div 2 ^ 16 mod 256, n div 2 ^ 8 mod 256, n mod 256])"
  unfolding ipv4_octets_def Let_def list.map octet_remainder(1) octet_division
  by (simp only: octet_remainder uint_ge_0 pos_imp_zdiv_nonneg_iff zero_less_power zero_less_numeral)

end
