(* ===== verification/ExecMock.thy ===== *)
theory ExecMock
  imports Executor TestBase
begin

text \<open>
  The mock \<open>Io\<close> of \<open>crates/netfyr-backend/src/executor/tests.rs\<close> as a world of the executor, with the fixtures of those tests.
\<close>

section \<open>The mock\<close>

text \<open>
  \<open>MockIo\<close>: the cancellation flag that two of its fields share with a test is \<open>mi_cancelled\<close>; \<open>mi_now\<close> is what the clock reads.
\<close>

record mock_io =
  mi_observation :: observation
  mi_attempts :: "(interface_id \<times> operation_kind) list"
  mi_inventory_calls :: nat
  mi_fail_inventory_at :: "nat option"
  mi_fail_execute_at :: "nat option"
  mi_inventory_override_at :: "(nat \<times> observation) option"
  mi_cancel_after_write :: bool
  mi_cancel_on_inventory :: bool
  mi_cascade_primary :: bool
  mi_cancelled :: bool
  mi_now :: nat

definition mock_new :: "device_observation list \<Rightarrow> mock_io" where
  "mock_new ds =
     \<lparr>mi_observation = \<lparr>devices = ds, diagnostics = []\<rparr>, mi_attempts = [], mi_inventory_calls = 0, mi_fail_inventory_at = None,
      mi_fail_execute_at = None, mi_inventory_override_at = None, mi_cancel_after_write = False, mi_cancel_on_inventory = False,
      mi_cascade_primary = False, mi_cancelled = False, mi_now = 0\<rparr>"

definition kernel_lifetime_flags :: "ipv4_address \<Rightarrow> u32" where
  "kernel_lifetime_flags a =
     (let (valid, preferred) = lifetimes a in
      (if valid = u32_max then IFA_F_PERMANENT else 0) OR (if preferred = 0 then IFA_F_DEPRECATED else 0))"

text \<open>\<open>u32::checked_shl\<close> fails when the shift is the width.\<close>

definition kernel_secondary :: "address_observation list \<Rightarrow> ipv4_address \<Rightarrow> bool" where
  "kernel_secondary existing a =
     (let mask = (if prefix_len a = 0 then 0 else push_bit (32 - unat (prefix_len a)) u32_max) in
      list_ex (\<lambda>entry.
        let other = (case peer entry of Some p \<Rightarrow> p | None \<Rightarrow> ip (address entry)) in
        prefix_len (address entry) = prefix_len a \<and> (other XOR ip a) AND mask = 0) existing)"

definition mock_inventory :: "mock_io \<Rightarrow> (observation, backend_error) outcome \<times> mock_io" where
  "mock_inventory w =
     (let w = w\<lparr>mi_inventory_calls := mi_inventory_calls w + 1\<rparr>;
          w = (case mi_inventory_override_at w of
                 Some (call, obs) \<Rightarrow> if call = mi_inventory_calls w then w\<lparr>mi_observation := obs\<rparr> else w
               | None \<Rightarrow> w);
          w = (if mi_cancel_on_inventory w then w\<lparr>mi_cancelled := True\<rparr> else w) in
      if mi_fail_inventory_at w = Some (mi_inventory_calls w)
      then (Err (error_new QueryFailed ''injected inventory failure''), w) else (Ok (mi_observation w), w))"

definition same_entry :: "ipv4_address \<Rightarrow> address_observation \<Rightarrow> bool" where
  "same_entry a entry = (ip (address entry) = ip a \<and> prefix_len (address entry) = prefix_len a)"

definition clear_secondary :: "address_observation \<Rightarrow> address_observation" where
  "clear_secondary entry = entry\<lparr>addr_flags := addr_flags entry AND NOT IFA_F_SECONDARY\<rparr>"

text \<open>What a write does to a device; the other kinds panic, and no test sends one.\<close>

definition mock_remove :: "bool \<Rightarrow> ipv4_address \<Rightarrow> address_observation list \<Rightarrow> address_observation list" where
  "mock_remove cascade a entries =
     (let primary = list_ex (\<lambda>entry. same_entry a entry \<and> addr_flags entry AND IFA_F_SECONDARY = 0) entries;
          kept = filter (\<lambda>entry. if cascade \<and> primary then group (address entry) \<noteq> group a else \<not> same_entry a entry) entries in
      if primary then replace_first (\<lambda>entry. group (address entry) = group a) clear_secondary kept else kept)"

fun mock_write :: "bool \<Rightarrow> operation_kind \<Rightarrow> device_observation \<Rightarrow> device_observation" where
  "mock_write cascade (SetMtu mtu) d =
     d\<lparr>dev_st := (dev_st d)\<lparr>st_fields := im_insert (st_fields (dev_st d)) ''mtu'' (VU64 (ucast mtu))\<rparr>\<rparr>"
| "mock_write cascade (SetEnabled enabled) d =
     d\<lparr>dev_st := (dev_st d)\<lparr>st_fields := im_insert (st_fields (dev_st d)) ''enabled'' (VBool enabled)\<rparr>\<rparr>"
| "mock_write cascade (AddIpv4 a) d =
     d\<lparr>addresses := addresses d @ [\<lparr>address = a,
         addr_flags = kernel_lifetime_flags a OR (if kernel_secondary (addresses d) a then IFA_F_SECONDARY else 0),
         scope = 0, peer = None\<rparr>]\<rparr>"
| "mock_write cascade (RemoveIpv4 a) d = d\<lparr>addresses := mock_remove cascade a (addresses d)\<rparr>"
| "mock_write cascade (ReplaceIpv4 a) d =
     d\<lparr>addresses := replace_first (same_entry a)
         (\<lambda>entry. entry\<lparr>address := a,
            addr_flags := (addr_flags entry AND NOT (IFA_F_PERMANENT OR IFA_F_DEPRECATED)) OR kernel_lifetime_flags a\<rparr>)
         (addresses d)\<rparr>"
| "mock_write cascade _ d = d"

definition injected_failure :: backend_error where
  "injected_failure =
     (error_new PermissionDenied ''injected write failure'')
       \<lparr>be_errno := Some EPERM, be_extack := Some ''fixture rejected this operation''\<rparr>"

definition mock_execute :: "interface_id \<Rightarrow> operation_kind \<Rightarrow> mock_io \<Rightarrow> (unit, backend_error) outcome \<times> mock_io" where
  "mock_execute tgt kind w =
     (let w = w\<lparr>mi_attempts := mi_attempts w @ [(tgt, kind)]\<rparr> in
      if mi_fail_execute_at w = Some (length (mi_attempts w)) then (Err injected_failure, w)
      else
        (let obs = mi_observation w;
             w = w\<lparr>mi_observation := obs\<lparr>devices :=
               replace_first (\<lambda>d. identity d = tgt) (mock_write (mi_cascade_primary w) kind) (devices obs)\<rparr>\<rparr> in
         (Ok (), if mi_cancel_after_write w then w\<lparr>mi_cancelled := True\<rparr> else w)))"

definition mock_namespace :: namespace_id where
  "mock_namespace = \<lparr>ns_device = 4, ns_inode = 9\<rparr>"

definition mock :: "mock_io io" where
  "mock =
     \<lparr>io_namespace = mock_namespace, io_inventory = mock_inventory, io_execute = mock_execute,
      io_now = (\<lambda>w. (mi_now w, w)), io_cancelled = (\<lambda>w. (mi_cancelled w, w)),
      io_metadata = \<lparr>md_id = 0, md_created_at = 0\<rparr>\<rparr>"

section \<open>Fixtures\<close>

definition test_device :: "nat \<Rightarrow> device_observation" where
  "test_device index =
     \<lparr>identity = \<lparr>if_namespace = mock_namespace, if_index = of_nat index, if_generation = 1, if_name = ''veth'' @ show_nat index,
        if_device_type = ETHERNET, if_mac = Some (''02:00:00:00:00:0'' @ show_nat index)\<rparr>,
      dev_st = (new_state \<lparr>md_id = 0, md_created_at = 0\<rparr> Kernel)
        \<lparr>device_type := ETHERNET, st_fields := [(''mtu'', VU64 1500), (''enabled'', VBool True)]\<rparr>,
      addresses = [], addresses_complete = True, observed_at = 0\<rparr>"

definition test_address :: "nat \<Rightarrow> ipv4_address" where
  "test_address host = \<lparr>ip = ipv4_of_octets [192, 0, 2, host], prefix_len = 24, valid_lft = None, preferred_lft = None\<rparr>"

definition observed :: "ipv4_address \<Rightarrow> bool \<Rightarrow> address_observation" where
  "observed a secondary =
     \<lparr>address = a, addr_flags = kernel_lifetime_flags a OR (if secondary then IFA_F_SECONDARY else 0), scope = 0, peer = None\<rparr>"

definition test_op :: "device_observation \<Rightarrow> operation_kind \<Rightarrow> nat list \<Rightarrow> operation" where
  "test_op d kind deps = \<lparr>target = identity d, op_kind = kind, depends_on = deps, address_group = None\<rparr>"

text \<open>The entries of 192.0.2.0/24.\<close>

definition group_op :: "device_observation \<Rightarrow> operation_kind \<Rightarrow> nat list \<Rightarrow> operation" where
  "group_op d kind deps =
     (test_op d kind deps)\<lparr>address_group := Some
       \<lparr>pre_addresses = filter (\<lambda>entry. take 3 (ipv4_octets (ip (address entry))) = [192, 0, 2]) (addresses d),
        pre_observed_at = observed_at d\<rparr>\<rparr>"

definition test_plan :: "operation list \<Rightarrow> state_diff" where
  "test_plan ops = \<lparr>changes = [], operations = ops, diff_diagnostics = []\<rparr>"

definition applying :: "(apply_report \<Rightarrow> mock_io \<Rightarrow> bool) \<Rightarrow> mock_io \<Rightarrow> operation list \<Rightarrow> bool" where
  "applying P w ops = some_with (\<lambda>(report, w'). P report w') (apply_plan mock (test_plan ops) w)"

definition previewing :: "(dry_run_report \<Rightarrow> mock_io \<Rightarrow> bool) \<Rightarrow> mock_io \<Rightarrow> operation list \<Rightarrow> bool" where
  "previewing P w ops = some_with (\<lambda>(report, w'). P report w') (preview_plan mock (test_plan ops) w)"

definition indices :: "operation_context list \<Rightarrow> nat list" where
  "indices contexts = map ctx_index contexts"

definition failed_indices :: "failed_operation list \<Rightarrow> nat list" where
  "failed_indices fs = map (\<lambda>entry. ctx_index (fo_context entry)) fs"

definition failed_kinds :: "failed_operation list \<Rightarrow> backend_error_kind list" where
  "failed_kinds fs = map (\<lambda>entry. be_kind (fo_error entry)) fs"

definition statuses :: "dry_run_report \<Rightarrow> planned_status list" where
  "statuses report = map po_status (dry_operations report)"

definition skips :: "apply_report \<Rightarrow> (nat \<times> skip_reason) list" where
  "skips report = map (\<lambda>entry. (ctx_index (so_context entry), so_reason entry)) (skipped report)"

definition mock_devices :: "mock_io \<Rightarrow> device_observation list" where
  "mock_devices w = devices (mi_observation w)"

definition field_at_device :: "nat \<Rightarrow> string \<Rightarrow> mock_io \<Rightarrow> cval option" where
  "field_at_device i key w = im_get (st_fields (dev_st (mock_devices w ! i))) key"

text \<open>Time that has not passed is not counted in unary nanoseconds.\<close>

lemma whole_seconds_int: "int (min (elapsed div 10 ^ 9) (2 ^ 32 - 1)) = min (int elapsed div 1000000000) 4294967295"
  unfolding of_nat_min zdiv_int by simp

lemma whole_seconds_code [code]:
  "whole_seconds elapsed = (if elapsed = 0 then 0 else of_int (min (int elapsed div 1000000000) 4294967295))"
  unfolding whole_seconds_def whole_seconds_int [symmetric] of_int_of_nat_eq by (cases "elapsed = 0") simp_all

lemma lifetime_matches_code [code]:
  "lifetime_matches expected actual elapsed =
     (if expected = u32_max \<or> actual = u32_max then expected = actual
      else
        (let floor = uint (whole_seconds elapsed);
             ceil = floor + (if elapsed = 0 then 0 else if int elapsed mod 1000000000 > 0 then 1 else 0);
             consumed = uint expected - uint actual in
         (floor - 1 \<le> consumed \<and> consumed \<le> ceil + 1) \<or> (actual = 0 \<and> uint expected \<le> ceil + 1)))"
proof -
  have m: "(elapsed mod 10 ^ 9 > 0) = (elapsed \<noteq> 0 \<and> int elapsed mod 1000000000 > 0)"
  proof -
    have "(elapsed mod 10 ^ 9 > 0) = (int (elapsed mod 10 ^ 9) > 0)" by (simp only: of_nat_0_less_iff)
    also have "int (elapsed mod 10 ^ 9) = int elapsed mod 1000000000" unfolding zmod_int by simp
    finally show ?thesis by (cases "elapsed = 0") simp_all
  qed
  show ?thesis unfolding lifetime_matches_def m by (cases "elapsed = 0") simp_all
qed

lemma is_loopback_code [code]: "is_loopback a = (uint a div 2 ^ 24 = 127)"
proof -
  have "nat (uint a div 2 ^ 24) = 127 \<longleftrightarrow> uint a div 2 ^ 24 = 127" by linarith
  then show ?thesis unfolding is_loopback_def octet_division .
qed

text \<open>Printing a number in binary arithmetic.\<close>

function show_digits :: "int \<Rightarrow> string" where
  "show_digits n = (if n < 10 then [digit_char (nat n)] else show_digits (n div 10) @ [digit_char (nat (n mod 10))])"
  by pat_completeness auto
termination by (relation "measure nat") auto

declare show_digits.simps [simp del]

lemma show_digits_nat: "show_digits (int n) = show_nat n"
proof (induction n rule: show_nat.induct)
  case (1 n)
  then show ?case by (simp add: show_digits.simps [of "int n"] show_nat.simps [of n] nat_mod_distrib zdiv_int)
qed

lemma show_int_code [code]: "show_int i = (if i < 0 then CHR ''-'' # show_digits (- i) else show_digits i)"
  using show_digits_nat [of "nat i"] show_digits_nat [of "nat (- i)"] by (cases "i < 0") (simp_all add: show_int_def)

end
