(* ===== verification/ExecCancel.thy ===== *)
theory ExecCancel
  imports ExecProps ExecMock
begin

text \<open>
  What cancellation does to a run.  \<open>traced io\<close> is \<open>io\<close> with a record of the worlds in which \<open>execute\<close> is called; it
  does nothing else.  The caller may go away at any moment of the run, within a call of the kernel included.
\<close>

definition traced :: "'w io \<Rightarrow> ('w \<times> 'w list) io" where
  "traced io =
     \<lparr>io_namespace = io_namespace io,
      io_inventory = (\<lambda>(w, l). let (r, w') = io_inventory io w in (r, (w', l))),
      io_execute = (\<lambda>tgt kind (w, l). let (r, w') = io_execute io tgt kind w in (r, (w', l @ [w]))),
      io_now = (\<lambda>(w, l). let (r, w') = io_now io w in (r, (w', l))),
      io_cancelled = (\<lambda>(w, l). let (r, w') = io_cancelled io w in (r, (w', l))),
      io_metadata = io_metadata io\<rparr>"

abbreviation write_worlds :: "('w \<times> 'w list) execution \<Rightarrow> 'w list" where
  "write_worlds ex \<equiv> snd (ex_world ex)"

section \<open>Every write follows a poll\<close>

text \<open>A world that a poll leaves after it answered that the caller is there.\<close>

definition polled :: "'w io \<Rightarrow> 'w \<Rightarrow> bool" where
  "polled io v \<longleftrightarrow> (\<exists>w. io_cancelled io w = (False, v))"

definition trace_grows :: "'w io \<Rightarrow> 'w \<times> 'w list \<Rightarrow> 'w \<times> 'w list \<Rightarrow> bool" where
  "trace_grows io s s' \<longleftrightarrow> (\<exists>new. snd s' = snd s @ new \<and> list_all (polled io) new)"

lemma trace_same [simp]: "snd s' = snd s \<Longrightarrow> trace_grows io s s'"
  by (simp add: trace_grows_def)

interpretation polls: world_frame "trace_grows io" "traced io" for io
proof unfold_locales
  show "trace_grows io u v \<Longrightarrow> trace_grows io v w \<Longrightarrow> trace_grows io u w" for u v w :: "'a \<times> 'a list"
    by (fastforce simp: trace_grows_def)
qed (simp_all add: traced_def case_prod_unfold Let_def)

lemma write_polled:
  assumes "outside (io_cancelled (traced io)) ex = (Ok False, ex1)"
  shows "trace_grows io (ex_world ex1) (ex_world (snd (outside_result (io_execute (traced io) tgt kind) (ex1\<lparr>ex_current := c\<rparr>))))"
proof -
  have "polled io (fst (ex_world ex1))"
    using assms by (auto simp: outside_def traced_def polled_def split: prod.splits)
  then show ?thesis
    by (simp add: outside_result_def traced_def trace_grows_def case_prod_unfold Let_def)
qed

lemma polls_apply: "polls.keeps io (apply_write (traced io) diff ns index op kind device)"
  unfolding polls.keeps_def
proof
  fix ex
  let ?after = "abind (outside (io_now (traced io))) (\<lambda>now.
       let predicted = project kind (rebase_lifetimes now device) in
       case kind_address kind of
         Some addr \<Rightarrow> verify_address_write (traced io) diff ns index op kind addr predicted
       | None \<Rightarrow> areturn predicted)"
  let ?send = "outside_result (io_execute (traced io) (target op) kind)"
  obtain c ex1 where 1: "outside (io_cancelled (traced io)) ex = (Ok c, ex1)"
    by (cases "io_cancelled (traced io) (ex_world ex)") (simp add: outside_def)
  have before: "trace_grows io (ex_world ex) (ex_world ex1)" by (rule polls.keepsD [OF polls.keeps_io(3) 1])
  show "trace_grows io (ex_world ex) (ex_world (snd (apply_write (traced io) diff ns index op kind device ex)))"
  proof (cases c)
    case True
    then show ?thesis
      unfolding apply_write_def abind_known [where m = "outside (io_cancelled (traced io))" and s = ex, OF 1]
      using before by (simp add: throw_when_def)
  next
    case False
    let ?ex = "ex1\<lparr>ex_current := None\<rparr>"
    have run: "apply_write (traced io) diff ns index op kind device ex = abind ?send (\<lambda>_. ?after) ?ex"
      unfolding apply_write_def abind_known [where m = "outside (io_cancelled (traced io))" and s = ex, OF 1]
      using False by (simp add: throw_when_def)
    obtain q ex2 where 2: "?send ?ex = (q, ex2)" by fastforce
    have "trace_grows io (ex_world ex1) (ex_world ex2)"
      using write_polled [of io ex ex1 "target op" kind None] 1 2 False by simp
    moreover have "polls.keeps io ?after"
      unfolding Let_def by (intro polls.keeps_rules polls.keeps_io polls.keeps_verify)
    then have "trace_grows io (ex_world ex2) (ex_world (snd (abind ?send (\<lambda>_. ?after) ?ex)))"
      using 2 by (cases q) (auto simp: abind_def polls.keeps_def)
    ultimately show ?thesis unfolding run using before by (blast intro: polls.keep_trans)
  qed
qed

lemma polls_step: "polls.keeps io (step (traced io) diff preview ns schema index op)"
  unfolding step_def perform_def Let_def
  by (intro polls.keeps_rules polls.keeps_cancelled polls.keeps_throw polls.keeps_observe polls.keeps_on_groups
      polls.keeps_preview polls_apply polls.keeps_record)

lemma run_polls:
  "run (traced io) diff preview (w, []) = Some (report, (w', written)) \<Longrightarrow> list_all (polled io) written"
  by (drule polls.run_keeps [OF polls_step]) (simp add: trace_grows_def)

section \<open>Once the caller is gone\<close>

text \<open>The worlds in which the caller is gone: a poll says so, and it does not come back.\<close>

definition stays_gone :: "('w \<Rightarrow> bool) \<Rightarrow> 'w io \<Rightarrow> bool" where
  "stays_gone gone io \<longleftrightarrow> (\<forall>w. gone w \<longrightarrow> fst (io_cancelled io w) \<and> gone (snd (io_cancelled io w)))"

definition cancellation :: backend_error where
  "cancellation = cancelled_error ''plan execution cancelled; earlier writes may have applied''"

text \<open>What an operation is reported as then, and the run does for it.\<close>

definition unperformed :: "apply_report \<Rightarrow> apply_report \<Rightarrow> bool" where
  "unperformed before after \<longleftrightarrow>
     succeeded after = succeeded before
     \<and> (\<exists>new. failed after = failed before @ new
          \<and> list_all (\<lambda>entry. fo_error entry = cancellation \<or> be_kind (fo_error entry) = UnsupportedOperation) new)
     \<and> (\<exists>new. skipped after = skipped before @ new \<and> list_all (\<lambda>entry. is_dependency_failed (so_reason entry)) new)"

lemma unperformed_refl: "unperformed report report"
  by (simp add: unperformed_def)

lemma unperformed_trans: "unperformed r1 r2 \<Longrightarrow> unperformed r2 r3 \<Longrightarrow> unperformed r1 r3"
  unfolding unperformed_def by fastforce

lemma gone_step:
  assumes "stays_gone gone io" "gone (fst (ex_world ex))"
  obtains ex' where "step (traced io) diff False ns schema index op ex = (Err cancellation, ex')"
    "gone (fst (ex_world ex'))" "write_worlds ex' = write_worlds ex"
proof -
  obtain c ex1 where 1: "outside (io_cancelled (traced io)) ex = (Ok c, ex1)"
    by (cases "io_cancelled (traced io) (ex_world ex)") (simp add: outside_def)
  then have "c" "gone (fst (ex_world ex1))" "write_worlds ex1 = write_worlds ex"
    using assms by (auto simp: outside_def traced_def stays_gone_def split: prod.splits)
  moreover from \<open>c\<close> have "step (traced io) diff False ns schema index op ex = (Err cancellation, ex1)"
    unfolding step_def ask_cancelled_def if_False
      abind_known [where m = "outside (io_cancelled (traced io))" and s = ex, OF 1]
    by (simp add: throw_when_def cancellation_def)
  ultimately show thesis using that by blast
qed

lemma gone_operation:
  assumes "stays_gone gone io" "gone (fst (ex_world ex))"
    and "run_operation (traced io) diff False ns schema (index, op) (report, ex) = Some (report', ex')"
  shows "unperformed report report' \<and> gone (fst (ex_world ex')) \<and> write_worlds ex' = write_worlds ex"
proof -
  obtain ex1 where "step (traced io) diff False ns schema index op ex = (Err cancellation, ex1)"
    "gone (fst (ex_world ex1))" "write_worlds ex1 = write_worlds ex"
    by (rule gone_step [OF assms(1,2)])
  with assms(3) have "ex' = ex \<or> ex' = ex1"
    "unperformed report report'"
    by (auto simp: run_operation_def unperformed_def error_new_def Let_def split: if_splits)
  then show ?thesis using assms(2) \<open>gone (fst (ex_world ex1))\<close> \<open>write_worlds ex1 = write_worlds ex\<close> by metis
qed

lemma gone_operations:
  "\<lbrakk>stays_gone gone io; gone (fst (ex_world ex));
    run_operations (traced io) diff False ns schema entries (report, ex) = Some (report', ex')\<rbrakk>
   \<Longrightarrow> unperformed report report' \<and> write_worlds ex' = write_worlds ex"
proof (induction entries arbitrary: report ex)
  case (Cons entry entries)
  from Cons.prems(3) obtain report1 ex1 where
    1: "run_operation (traced io) diff False ns schema entry (report, ex) = Some (report1, ex1)" and
    2: "run_operations (traced io) diff False ns schema entries (report1, ex1) = Some (report', ex')"
    by (auto simp: bind_eq_Some_conv)
  have "unperformed report report1 \<and> gone (fst (ex_world ex1)) \<and> write_worlds ex1 = write_worlds ex"
    using gone_operation [OF Cons.prems(1,2)] 1 by (cases entry) blast
  with Cons.IH [OF Cons.prems(1) _ 2] show ?case using unperformed_trans by auto
qed (simp add: unperformed_refl)

lemma run_operations_append:
  "run_operations io diff preview ns schema (before @ after) st =
     Option.bind (run_operations io diff preview ns schema before st) (run_operations io diff preview ns schema after)"
proof (induction before arbitrary: st)
  case (Cons entry before)
  then show ?case by (cases "run_operation io diff preview ns schema entry st") simp_all
qed simp

text \<open>C39: a caller that goes away during a run of its plan stops it.  Every write is sent right after a poll that found the
  caller there, and once it is gone after the first \<open>n\<close> operations, for whatever \<open>n\<close>, no further write is sent, and every
  further operation is reported as cancelled, if not as malformed, or as skipped for its dependencies: none as carried out or
  found satisfied.\<close>

theorem cancelled_run_writes_nothing:
  assumes "stays_gone gone io"
    and "run (traced io) diff False (w, []) = Some (report, (w', written))"
  shows "list_all (polled io) written
    \<and> (\<exists>before ex. run_operations (traced io) diff False (io_namespace io) embedded_registry
          (take n (enumerate 0 (operations diff))) (empty_report, initial_execution diff (w, [])) = Some (before, ex)
        \<and> (gone (fst (ex_world ex)) \<longrightarrow> written = write_worlds ex \<and> unperformed before report))"
proof -
  let ?ops = "enumerate 0 (operations diff)"
  let ?run = "run_operations (traced io) diff False (io_namespace io) embedded_registry"
  have ns: "io_namespace (traced io) = io_namespace io" by (simp add: traced_def)
  from assms(2) obtain result ex' where 1: "?run ?ops (empty_report, initial_execution diff (w, [])) = Some (result, ex')"
    "report = result\<lparr>report_diagnostics := ex_diagnostics ex'\<rparr>" "written = write_worlds ex'"
    by (auto simp: run_def new_registry_embedded ns)
  then obtain before ex where 2: "?run (take n ?ops) (empty_report, initial_execution diff (w, [])) = Some (before, ex)"
    "?run (drop n ?ops) (before, ex) = Some (result, ex')"
    using run_operations_append [of "traced io" diff False "io_namespace io" embedded_registry "take n ?ops" "drop n ?ops"]
    by (auto simp: bind_eq_Some_conv)
  have "written = write_worlds ex \<and> unperformed before report" if "gone (fst (ex_world ex))"
    using gone_operations [OF assms(1) that 2(2)] 1(2,3) by (simp add: unperformed_def)
  with 2(1) run_polls [OF assms(2)] show ?thesis by blast
qed

text \<open>A kernel whose caller is there for a number of polls.\<close>

definition leaving_inventory :: "observation \<times> nat \<Rightarrow> (observation, backend_error) outcome \<times> observation \<times> nat" where
  "leaving_inventory w = (Ok (fst w), w)"

definition leaving_execute ::
  "interface_id \<Rightarrow> operation_kind \<Rightarrow> observation \<times> nat \<Rightarrow> (unit, backend_error) outcome \<times> observation \<times> nat" where
  "leaving_execute tgt kind w = (Ok (), ((fst w)\<lparr>devices := map (project kind) (devices (fst w))\<rparr>, snd w))"

definition leaving_now :: "observation \<times> nat \<Rightarrow> nat \<times> observation \<times> nat" where
  "leaving_now w = (0, w)"

definition leaving_cancelled :: "observation \<times> nat \<Rightarrow> bool \<times> observation \<times> nat" where
  "leaving_cancelled w = (snd w = 0, (fst w, snd w - 1))"

definition leaving_io :: "(observation \<times> nat) io" where
  "leaving_io =
     \<lparr>io_namespace = sample_ns, io_inventory = leaving_inventory, io_execute = leaving_execute, io_now = leaving_now,
      io_cancelled = leaving_cancelled, io_metadata = \<lparr>md_id = 0, md_created_at = 0\<rparr>\<rparr>"

lemmas leaving_defs = leaving_io_def leaving_inventory_def leaving_execute_def leaving_now_def leaving_cancelled_def

text \<open>The caller is gone after the first of two writes.\<close>

definition two_writes :: state_diff where
  "two_writes = sample_diff [sample_op (SetMtu 1400) None, sample_op (SetEnabled False) None]"

definition first_write :: "(apply_report \<times> ((observation \<times> nat) \<times> (observation \<times> nat) list) execution) option" where
  "first_write = Option.bind new_registry (\<lambda>schema. run_operations (traced leaving_io) two_writes False sample_ns schema
     (take 1 (enumerate 0 (operations two_writes))) (empty_report, initial_execution two_writes ((sample_obs [], 2), [])))"

definition gone_after_first :: bool where
  "gone_after_first =
     (case first_write of
        Some (before, ex) \<Rightarrow> snd (fst (ex_world ex)) = 0 \<and> length (write_worlds ex) = 1 \<and> length (succeeded before) = 1
      | None \<Rightarrow> False)"

theorem cancelled_run_writes_nothing_witness:
  "\<exists>report w' written. run (traced leaving_io) two_writes False ((sample_obs [], 2), []) = Some (report, (w', written))
     \<and> length written = 1 \<and> length (succeeded report) = 1"
proof -
  have stays: "stays_gone (\<lambda>(obs, n). n = 0) leaving_io"
    by (simp add: stays_gone_def leaving_defs case_prod_unfold)
  have first: "gone_after_first" by code_simp
  have calls: "calls_return (traced leaving_io)"
    by (simp add: calls_return_def traced_def leaving_defs case_prod_unfold Let_def)
  obtain report w1 where "run (traced leaving_io) two_writes False ((sample_obs [], 2), []) = Some (report, w1)"
    by (rule run_facts [OF calls])
  moreover obtain w' written where "w1 = (w', written)" by fastforce
  ultimately have r: "run (traced leaving_io) two_writes False ((sample_obs [], 2), []) = Some (report, (w', written))"
    by simp
  have ns: "io_namespace leaving_io = sample_ns" by (simp add: leaving_io_def)
  from cancelled_run_writes_nothing [OF stays r, of 1] obtain before ex where
    at: "run_operations (traced leaving_io) two_writes False sample_ns embedded_registry
         (take 1 (enumerate 0 (operations two_writes))) (empty_report, initial_execution two_writes ((sample_obs [], 2), []))
       = Some (before, ex)"
    and left: "snd (fst (ex_world ex)) = 0 \<Longrightarrow> written = write_worlds ex \<and> unperformed before report"
    unfolding ns by (auto simp: case_prod_unfold)
  from first [unfolded gone_after_first_def first_write_def new_registry_embedded bind.bind_lunit at]
  have "snd (fst (ex_world ex)) = 0" "length (write_worlds ex) = 1" "length (succeeded before) = 1" by simp_all
  with left r show ?thesis by (auto simp: unperformed_def)
qed

end
