(* ===== verification/LinuxExec.thy ===== *)
theory LinuxExec
  imports WorkerProps ExecSim
begin

text \<open>
  The worker's executor over the Linux transport.  A run logs its calls of \<open>execute\<close> (\<open>logged\<close>) and the kernel logs the requests
  it is sent (\<open>logging\<close>); the two logs are related operation by operation, and the first is forgotten at the end.
\<close>

section \<open>The two logs\<close>

text \<open>The request that an operation on an interface is sent as, for some messages known of its addresses.\<close>

definition carries :: "route_request \<times> u16 \<times> exchange_answer \<Rightarrow> interface_id \<times> operation_kind \<Rightarrow> bool" where
  "carries = (\<lambda>(message, flags, answer) (tgt, kind).
     \<exists>known f. operation_message tgt kind known = Ok (message, f) \<and> flags = or (exchange_flags Write) f)"

definition acknowledged :: "route_lib \<Rightarrow> route_request \<times> u16 \<times> exchange_answer \<Rightarrow> bool" where
  "acknowledged lib = (\<lambda>(message, flags, answer). \<exists>packets. answer_result lib Write answer = Ok packets)"

text \<open>An error that tells of a request what its answer allows: whether the kernel refused it.\<close>

definition answered_as :: "backend_error \<Rightarrow> route_request \<times> u16 \<times> exchange_answer \<Rightarrow> bool" where
  "answered_as e = (\<lambda>(message, flags, answer). be_kind e = OutcomeUnknown \<longleftrightarrow> \<not> refusal answer)"

text \<open>Requests for some of the calls of a log, in its order.\<close>

definition requests_for :: "exchange_log \<Rightarrow> write_log \<Rightarrow> bool" where
  "requests_for sent calls \<longleftrightarrow> (\<exists>some. subseq some calls \<and> list_all2 carries sent some)"

lemma requests_for_append: "requests_for ws ls \<Longrightarrow> requests_for ws' ls' \<Longrightarrow> requests_for (ws @ ws') (ls @ ls')"
  unfolding requests_for_def by (blast intro: list_emb_append_mono list_all2_appendI)

lemma requests_for_Nil [simp]: "requests_for [] ls" "requests_for ws [] \<longleftrightarrow> ws = []"
  by (auto simp: requests_for_def dest: list_emb_Nil2)

lemma requests_for_single: "requests_for ws [p] \<longleftrightarrow> ws = [] \<or> (\<exists>x. ws = [x] \<and> carries x p)"
proof
  assume "requests_for ws [p]"
  then obtain some where "subseq some [p]" "list_all2 carries ws some" by (auto simp: requests_for_def)
  then show "ws = [] \<or> (\<exists>x. ws = [x] \<and> carries x p)"
    by (cases some) (auto simp: list_all2_Cons2 dest: list_emb_Nil2 split: if_splits)
next
  assume "ws = [] \<or> (\<exists>x. ws = [x] \<and> carries x p)"
  then show "requests_for ws [p]"
    unfolding requests_for_def by (auto intro: exI [of _ "[]"] exI [of _ "[p]"])
qed

type_synonym 'w logged_world = "('w \<times> exchange_log) transport \<times> write_log"

definition progress :: "'w logged_world \<Rightarrow> 'w logged_world \<Rightarrow> bool" where
  "progress = (\<lambda>(t, l) (t', l'). \<exists>ws ls. writes t' = writes t @ ws \<and> l' = l @ ls \<and> requests_for ws ls)"

definition unchanged :: "'w logged_world \<Rightarrow> 'w logged_world \<Rightarrow> bool" where
  "unchanged = (\<lambda>(t, l) (t', l'). writes t' = writes t \<and> l' = l)"

definition confirmed :: "route_lib \<Rightarrow> 'w logged_world \<Rightarrow> 'w logged_world \<Rightarrow> bool" where
  "confirmed lib = (\<lambda>(t, l) (t', l'). \<exists>x. writes t' = writes t @ [x] \<and> acknowledged lib x)"

definition failing :: "backend_error \<Rightarrow> 'w logged_world \<Rightarrow> 'w logged_world \<Rightarrow> bool" where
  "failing e = (\<lambda>(t, l) (t', l'). writes t' = writes t \<or> (\<exists>x. writes t' = writes t @ [x] \<and> answered_as e x))"

lemma writes_append:
  "exchanges t' = exchanges t @ entries \<Longrightarrow> writes t' = writes t @ filter (\<lambda>(message, _). is_write message) entries"
  by (simp add: writes_def)

lemma execute_writes:
  assumes "execute lib (logging kn) tgt kind t = (r, t')"
  shows "(writes t' = writes t \<and> r \<noteq> Ok ()) \<or>
    (\<exists>x. writes t' = writes t @ [x] \<and> carries x (tgt, kind)
       \<and> (case r of Ok _ \<Rightarrow> acknowledged lib x | Err e \<Rightarrow> answered_as e x | Panic \<Rightarrow> False))"
  using execute_logged [OF assms]
proof
  assume "\<exists>message flags confirmation answer.
       operation_message tgt kind (lt_addresses t) = Ok (message, flags)
       \<and> exchanges t' = exchanges t @ [(probe tgt, exchange_flags Read, confirmation), (message, or (exchange_flags Write) flags, answer)]
       \<and> names_target lib tgt confirmation
       \<and> if_namespace tgt = lt_namespace t \<and> lt_generations t (if_index tgt) = Some (if_generation tgt)
       \<and> r = omap (\<lambda>_. ()) (answer_result lib Write answer)"
  then obtain message flags confirmation answer where built: "operation_message tgt kind (lt_addresses t) = Ok (message, flags)"
    and e: "exchanges t' = exchanges t @ [(probe tgt, exchange_flags Read, confirmation), (message, or (exchange_flags Write) flags, answer)]"
    and r: "r = omap (\<lambda>_. ()) (answer_result lib Write answer)" by blast
  let ?x = "(message, or (exchange_flags Write) flags, answer)"
  have "\<not> is_write (probe tgt)" by (simp add: probe_def)
  then have "writes t' = writes t @ [?x]"
    using writes_append [OF e] operation_message_writes [OF built] by simp
  moreover have "carries ?x (tgt, kind)" using built by (auto simp: carries_def)
  moreover have "case r of Ok _ \<Rightarrow> acknowledged lib ?x | Err e \<Rightarrow> answered_as e ?x | Panic \<Rightarrow> False"
    using answer_result_kind [of lib answer] answer_result_returns [of lib Write answer]
    by (cases "answer_result lib Write answer") (auto simp: r acknowledged_def answered_as_def)
  ultimately show ?thesis by blast
qed simp

lemma linux_io_execute:
  assumes "io_execute (linux_io lib (logging kn) ns closed) tgt kind t = (r, t')"
  shows "(writes t' = writes t \<and> r \<noteq> Ok ()) \<or>
    (\<exists>x. writes t' = writes t @ [x] \<and> carries x (tgt, kind)
       \<and> (case r of Ok _ \<Rightarrow> acknowledged lib x | Err e \<Rightarrow> answered_as e x | Panic \<Rightarrow> False))"
  by (rule execute_writes [of lib kn]) (use assms in \<open>simp add: linux_io_def\<close>)

lemmas over_linux_reads = over_linux.keep_inventory over_linux.keep_now over_linux.keep_cancelled

interpretation linux_reads: answering unchanged "logged (linux_io lib (logging kn) ns (\<lambda>t. (closed t, t)))" "confirmed lib" failing
  for lib kn ns closed
proof unfold_locales
  let ?io = "linux_io lib (logging kn) ns (\<lambda>t. (closed t, t))"
  note reads = over_linux_reads [of lib kn ns closed]
  fix w :: "'a logged_world"
  show "unchanged w (snd (io_inventory (logged ?io) w))" "unchanged w (snd (io_now (logged ?io) w))"
    "unchanged w (snd (io_cancelled (logged ?io) w))"
    using reads by (simp_all add: unchanged_def logged_def case_prod_unfold Let_def)
  show "confirmed lib w w'" if "io_execute (logged ?io) tgt kind w = (Ok (), w')" for tgt kind w'
    using that linux_io_execute [of lib kn ns "\<lambda>t. (closed t, t)" tgt kind "fst w"]
    by (fastforce simp: confirmed_def logged_def split: prod.splits)
  show "failing e w w'" if "io_execute (logged ?io) tgt kind w = (Err e, w')" for tgt kind e w'
    using that linux_io_execute [of lib kn ns "\<lambda>t. (closed t, t)" tgt kind "fst w"]
    by (fastforce simp: failing_def logged_def split: prod.splits)
qed (auto simp: unchanged_def confirmed_def failing_def)

interpretation linux_runs: call_frame progress "logged (linux_io lib (logging kn) ns (\<lambda>t. (closed t, t)))"
  for lib kn ns closed
proof unfold_locales
  let ?io = "linux_io lib (logging kn) ns (\<lambda>t. (closed t, t))"
  note reads = over_linux_reads [of lib kn ns closed]
  fix w v u :: "'a logged_world"
  show "progress w w" by (auto simp: progress_def)
  show "progress w v \<Longrightarrow> progress v u \<Longrightarrow> progress w u"
    by (auto simp: progress_def) (metis append.assoc requests_for_append)
  show "progress w (snd (io_inventory (logged ?io) w))" "progress w (snd (io_now (logged ?io) w))"
    "progress w (snd (io_cancelled (logged ?io) w))"
    using reads by (simp_all add: progress_def logged_def case_prod_unfold Let_def)
  show "progress w (snd (io_execute (logged ?io) tgt kind w))" for tgt kind
    using linux_io_execute [of lib kn ns "\<lambda>t. (closed t, t)" tgt kind "fst w"]
    by (fastforce simp: progress_def logged_def requests_for_single case_prod_unfold Let_def prod_eq_iff)
qed

section \<open>Operation by operation\<close>

definition settles :: "route_lib \<Rightarrow> op_result \<Rightarrow> route_request \<times> u16 \<times> exchange_answer \<Rightarrow> bool" where
  "settles lib r x \<longleftrightarrow> (r = Wrote \<and> acknowledged lib x) \<or> (\<exists>e. r = Failed e \<and> (acknowledged lib x \<or> answered_as e x))"

lemma linux_operation:
  assumes "run_operation (logged (linux_io lib (logging kn) ns (\<lambda>t. (closed t, t)))) diff False ns' embedded_registry (n, op)
      (report, ex) = Some (report', ex')"
  obtains r where "report' = add_result (context_new n op) r report"
    and "(writes (fst (ex_world ex')) = writes (fst (ex_world ex)) \<and> r \<noteq> Wrote)
     \<or> (\<exists>p x. planned_write (kn_metadata kn) op = Some p \<and> carries x p
          \<and> writes (fst (ex_world ex')) = writes (fst (ex_world ex)) @ [x] \<and> settles lib r x)"
proof -
  let ?io = "linux_io lib (logging kn) ns (\<lambda>t. (closed t, t))"
  have md: "io_metadata ?io = kn_metadata kn" by (simp add: linux_io_def logging_def)
  obtain r where r: "report' = add_result (context_new n op) r report"
    and log: "(write_log ex' = write_log ex \<and> r \<noteq> Wrote)
     \<or> (\<exists>p. planned_write (kn_metadata kn) op = Some p \<and> write_log ex' = write_log ex @ [p] \<and> (r = Wrote \<or> (\<exists>e. r = Failed e)))"
    by (rule run_operation_log [OF assms]) (auto simp: md)
  have "progress (ex_world ex) (ex_world ex')" using linux_runs.operation_keeps [OF linux_runs.any_step assms] .
  then obtain ws ls where p: "writes (fst (ex_world ex')) = writes (fst (ex_world ex)) @ ws" "write_log ex' = write_log ex @ ls"
    "requests_for ws ls" by (auto simp: progress_def)
  have sent: "\<exists>x. ws = [x] \<and> acknowledged lib x" if "r = Wrote"
    using linux_reads.operation_sent [OF assms [unfolded r that]] p(1) by (auto simp: confirmed_def)
  have lost: "acknowledged lib x \<or> answered_as e x" if "r = Failed e" "ws = [x]" for e x
    using linux_reads.operation_failed [OF assms r [unfolded that(1)], unfolded linux_reads.explained_def] p(1) that(2)
    by (auto simp: unchanged_def confirmed_def failing_def)
  from log show thesis
  proof
    assume "write_log ex' = write_log ex \<and> r \<noteq> Wrote"
    with p r that show thesis by simp
  next
    assume "\<exists>p. planned_write (kn_metadata kn) op = Some p \<and> write_log ex' = write_log ex @ [p] \<and> (r = Wrote \<or> (\<exists>e. r = Failed e))"
    then obtain q where q: "planned_write (kn_metadata kn) op = Some q" "ls = [q]" "r = Wrote \<or> (\<exists>e. r = Failed e)"
      using p(2) by auto
    with p(3) have "ws = [] \<or> (\<exists>x. ws = [x] \<and> carries x q)" by (simp add: requests_for_single)
    then show thesis
    proof
      assume "ws = []"
      with sent p(1) show thesis by (intro that [OF r]) auto
    next
      assume "\<exists>x. ws = [x] \<and> carries x q"
      then obtain x where x: "ws = [x]" "carries x q" by blast
      moreover have "settles lib r x" using sent lost [OF _ x(1)] x(1) q(3) unfolding settles_def by fastforce
      ultimately show thesis using p(1) q(1) by (intro that [OF r]) blast
    qed
  qed
qed

section \<open>The run\<close>

text \<open>A request accounts for an operation: it is sent as that operation's write, and it was acknowledged, or the operation
  is reported as failed with an error of kind \<open>OutcomeUnknown\<close> exactly when the kernel did not refuse it.\<close>

definition failures :: "apply_report \<Rightarrow> nat set" where
  "failures report = (\<lambda>entry. ctx_index (fo_context entry)) ` set (failed report)"

definition accounts :: "route_lib \<Rightarrow> state_metadata \<Rightarrow> state_diff \<Rightarrow> apply_report \<Rightarrow> nat \<Rightarrow> route_request \<times> u16 \<times> exchange_answer \<Rightarrow> bool" where
  "accounts lib md diff report j x \<longleftrightarrow>
     (\<exists>p. planned_write md (operations diff ! j) = Some p \<and> carries x p) 
     \<and> (acknowledged lib x \<or> (\<exists>entry \<in> set (failed report). ctx_index (fo_context entry) = j \<and> answered_as (fo_error entry) x))"

definition sent_inv :: "route_lib \<Rightarrow> state_metadata \<Rightarrow> state_diff \<Rightarrow> nat \<Rightarrow> apply_report \<Rightarrow> exchange_log \<Rightarrow> bool" where
  "sent_inv lib md diff n report ws \<longleftrightarrow>
     (\<exists>js. sorted_wrt (<) js \<and> (\<forall>j \<in> set js. j < n) \<and> list_all2 (accounts lib md diff report) js ws
        \<and> ctx_index ` set (succeeded report) \<subseteq> set js
        \<and> set js \<subseteq> ctx_index ` set (succeeded report) \<union> failures report)"

lemma accounts_mono: "accounts lib md diff report j x \<Longrightarrow> accounts lib md diff (add_result c r report) j x"
  by (cases r) (auto simp: accounts_def failures_def)

lemma sent_inv_step:
  assumes inv: "sent_inv lib md diff n report ws"
    and r: "report' = add_result (context_new n (operations diff ! n)) r report"
    and log: "(ws' = ws \<and> r \<noteq> Wrote)
     \<or> (\<exists>p x. planned_write md (operations diff ! n) = Some p \<and> carries x p
          \<and> ws' = ws @ [x] \<and> settles lib r x)"
  shows "sent_inv lib md diff (Suc n) report' ws'"
proof -
  obtain js where js: "sorted_wrt (<) js" "\<forall>j \<in> set js. j < n" "list_all2 (accounts lib md diff report) js ws"
    "ctx_index ` set (succeeded report) \<subseteq> set js" "set js \<subseteq> ctx_index ` set (succeeded report) \<union> failures report"
    using inv by (auto simp: sent_inv_def)
  have all: "list_all2 (accounts lib md diff report') js ws"
    unfolding r using js(3) by (rule list_all2_mono) (rule accounts_mono)
  have c: "ctx_index (context_new n op) = n" for op by (simp add: context_new_def)
  from log show ?thesis
  proof
    assume "ws' = ws \<and> r \<noteq> Wrote"
    with js all show ?thesis
      unfolding sent_inv_def r by (intro exI [of _ js]) (cases r; auto simp: failures_def)
  next
    assume "\<exists>p x. planned_write md (operations diff ! n) = Some p \<and> carries x p
          \<and> ws' = ws @ [x] \<and> settles lib r x"
    then obtain p x where x: "planned_write md (operations diff ! n) = Some p" "carries x p" "ws' = ws @ [x]"
      "settles lib r x" by blast
    then have "accounts lib md diff report' n x" unfolding accounts_def r by (auto simp: c settles_def)
    with all x(3) have "list_all2 (accounts lib md diff report') (js @ [n]) ws'" by (simp add: list_all2_appendI)
    moreover have "ctx_index ` set (succeeded report') \<subseteq> set (js @ [n])"
      "set (js @ [n]) \<subseteq> ctx_index ` set (succeeded report') \<union> failures report'"
      unfolding r using js(4,5) x(4) c image_subset_iff [of ctx_index "set (succeeded report)" "set js"] by (auto simp: failures_def settles_def)
    moreover have "sorted_wrt (<) (js @ [n])" "\<forall>j \<in> set (js @ [n]). j < Suc n"
      using js(1,2) by (auto simp: sorted_wrt_append)
    ultimately show ?thesis unfolding sent_inv_def by blast
  qed
qed

lemma sent_inv_diagnostics [simp]: "sent_inv lib md diff n (report\<lparr>report_diagnostics := ds\<rparr>) ws = sent_inv lib md diff n report ws"
proof -
  have "accounts lib md diff (report\<lparr>report_diagnostics := ds\<rparr>) = accounts lib md diff report"
    by (intro ext) (simp add: accounts_def failures_def)
  then show ?thesis by (simp add: sent_inv_def failures_def)
qed

lemma linux_run:
  assumes "run (logged (linux_io lib (logging kn) ns (\<lambda>t. (closed t, t)))) diff False (t, []) = Some (report, w')"
  shows "\<exists>ws. writes (fst w') = writes t @ ws \<and> sent_inv lib (kn_metadata kn) diff (length (operations diff)) report ws"
proof (rule run_induct [where P = "\<lambda>n report ex. \<exists>ws. writes (fst (ex_world ex)) = writes t @ ws \<and> sent_inv lib (kn_metadata kn) diff n report ws", OF assms])
  show "\<exists>ws. writes (fst (ex_world (initial_execution diff (t, [])))) = writes t @ ws \<and> sent_inv lib (kn_metadata kn) diff 0 empty_report ws"
    by (auto simp: initial_execution_def sent_inv_def empty_report_def)
next
  fix n report report' and ex ex' :: "'a logged_world execution"
  let ?io = "logged (linux_io lib (logging kn) ns (\<lambda>t. (closed t, t)))"
  assume "\<exists>ws. writes (fst (ex_world ex)) = writes t @ ws \<and> sent_inv lib (kn_metadata kn) diff n report ws"
  then obtain ws where ws: "writes (fst (ex_world ex)) = writes t @ ws" "sent_inv lib (kn_metadata kn) diff n report ws" by blast
  assume 1: "run_operation ?io diff False (io_namespace ?io) embedded_registry (n, operations diff ! n) (report, ex) = Some (report', ex')"
  show "\<exists>ws. writes (fst (ex_world ex')) = writes t @ ws \<and> sent_inv lib (kn_metadata kn) diff (Suc n) report' ws"
  proof (rule linux_operation [OF 1])
    fix r
    assume r: "report' = add_result (context_new n (operations diff ! n)) r report"
    assume "(writes (fst (ex_world ex')) = writes (fst (ex_world ex)) \<and> r \<noteq> Wrote) \<or>
      (\<exists>p x. planned_write (kn_metadata kn) (operations diff ! n) = Some p \<and> carries x p
        \<and> writes (fst (ex_world ex')) = writes (fst (ex_world ex)) @ [x] \<and> settles lib r x)"
    then show ?thesis
    proof
      assume "writes (fst (ex_world ex')) = writes (fst (ex_world ex)) \<and> r \<noteq> Wrote"
      with ws(1) sent_inv_step [OF ws(2) r, of ws] show ?thesis by auto
    next
      assume "\<exists>p x. planned_write (kn_metadata kn) (operations diff ! n) = Some p \<and> carries x p
        \<and> writes (fst (ex_world ex')) = writes (fst (ex_world ex)) @ [x] \<and> settles lib r x"
      then obtain p x where x: "planned_write (kn_metadata kn) (operations diff ! n) = Some p" "carries x p"
        "writes (fst (ex_world ex')) = writes (fst (ex_world ex)) @ [x]" "settles lib r x" by blast
      then have "sent_inv lib (kn_metadata kn) diff (Suc n) report' (ws @ [x])" by (intro sent_inv_step [OF ws(2) r]) blast
      with ws(1) x(3) show ?thesis by auto
    qed
  qed
qed auto

lemma applied_requests:
  assumes "serve lib (logging kn) show_match (ApplyRequest diff, \<lambda>t. (closed t, t)) t = Some (reply, t')"
  shows "\<exists>report sent js. reply = ApplyReply report
     \<and> writes t' = writes t @ sent \<and> sorted_wrt (<) js
     \<and> list_all2 (accounts lib (kn_metadata kn) diff report) js sent
     \<and> ctx_index ` set (succeeded report) \<subseteq> set js
     \<and> set js \<subseteq> ctx_index ` set (succeeded report) \<union> failures report"
proof -
  let ?io = "linux_io lib (logging kn) (lt_namespace t) (\<lambda>t. (closed t, t))"
  from assms obtain report where "run ?io diff False t = Some (report, t')" "reply = ApplyReply report"
    by (auto simp: apply_plan_def)
  moreover from this(1) have "map_option (map_prod id fst) (run (logged ?io) diff False (t, [])) = Some (report, t')"
    using forget.sim_run [of ?io diff False "(t, [])"] by simp
  then obtain w' where r: "run (logged ?io) diff False (t, []) = Some (report, w')" "fst w' = t'" by auto
  ultimately show ?thesis using linux_run [OF r(1)] by (auto simp: sent_inv_def)
qed

text \<open>C2: a worker that is sent a plan refines it down to the kernel's socket.  It answers with a report, and the requests it
  sends that change the kernel are the writes of distinct operations of the plan, in plan order, each with the message that
  the operation is encoded as: those of every operation reported as succeeded, and otherwise only those of operations
  reported as failed.  Each was acknowledged by the kernel, or its operation is reported as failed, with an unknown outcome
  exactly when the kernel did not refuse it either.  Only a netlink library that parses a link header out of fewer bytes than
  one has, which makes the code panic, can leave the worker without an answer.\<close>

theorem kernel_requests_follow_plan:
  "case serve lib (logging kn) show_match (ApplyRequest diff, \<lambda>t. (closed t, t)) t of
     Some (reply, t') \<Rightarrow>
       \<exists>report sent js. reply = ApplyReply report
         \<and> writes t' = writes t @ sent \<and> sorted_wrt (<) js
         \<and> list_all2 (accounts lib (kn_metadata kn) diff report) js sent
         \<and> ctx_index ` set (succeeded report) \<subseteq> set js
         \<and> set js \<subseteq> ctx_index ` set (succeeded report) \<union> failures report
   | None \<Rightarrow> \<not> header_laws lib"
proof (cases "serve lib (logging kn) show_match (ApplyRequest diff, \<lambda>t. (closed t, t)) t")
  case None
  then show ?thesis using serve_stops by (simp only: option.case) blast
next
  case (Some answer)
  with applied_requests [of lib kn show_match diff closed t] show ?thesis by (cases answer) (simp del: serve.simps)
qed

end
