(* ===== verification/Datagram.thy ===== *)
theory Datagram
  imports LinuxProps
begin

text \<open>
  The codec on a whole datagram.  Who calls it again, and what becomes of the messages, is the business of the connection
  of the netlink crates; what is stated here is of any succession of calls on one buffer.
\<close>

section \<open>Successive calls\<close>

text \<open>The messages that successive calls of \<open>StrictCodec::decode\<close> return, and the buffer they leave.\<close>

inductive codec_reads :: "netlink_lib \<Rightarrow> string \<Rightarrow> netlink_message list \<Rightarrow> string \<Rightarrow> bool" for lib :: netlink_lib where
  none: "codec_reads lib source [] source"
| one: "decode_packet lib source = (Ok (Some message), left) \<Longrightarrow> codec_reads lib left messages rest
    \<Longrightarrow> codec_reads lib source (message # messages) rest"

inductive_cases codec_reads_Nil: "codec_reads lib source [] rest"
inductive_cases codec_reads_Cons: "codec_reads lib source (message # messages) rest"

lemma decode_nothing [simp]: "decode_packet lib [] = (Ok None, [])"
  by (simp add: decode_packet_def)

lemma codec_reads_empty: "codec_reads lib [] messages rest \<Longrightarrow> messages = [] \<and> rest = []"
  by (cases messages) (auto elim: codec_reads_Nil codec_reads_Cons)

text \<open>Calls that empty the buffer return the same messages, whoever makes them.\<close>

lemma codec_reads_unique:
  "codec_reads lib source messages rest \<Longrightarrow> rest = [] \<Longrightarrow> codec_reads lib source messages' [] \<Longrightarrow> messages' = messages"
proof (induction arbitrary: messages' rule: codec_reads.induct)
  case (none source)
  then show ?case using codec_reads_empty by blast
next
  case (one source message left messages rest)
  from one.hyps(1) have "source \<noteq> []" by auto
  with one.prems(2) obtain message' ms where m: "messages' = message' # ms" by (cases messages') (auto elim: codec_reads_Nil)
  with one.prems(2) one.hyps(1) have "message' = message" "codec_reads lib left ms []" by (auto elim: codec_reads_Cons)
  with one.IH [OF one.prems(1)] m show ?case by simp
qed

text \<open>C14: whatever bytes a buffer holds, calling the codec again and again comes to an end, since every message takes at
  least 16 bytes: either nothing is left of the buffer, or what is left starts with a header that the netlink crate does not
  accept, or with a packet that it does not parse.  The codec has no other reason to stop.\<close>

theorem codec_stops_only_at_errors:
  assumes "checked_laws lib"
  shows "\<exists>messages rest. codec_reads lib source messages rest \<and> 16 * length messages + length rest \<le> length source
    \<and> (rest = [] \<or> (\<exists>e. checked_length lib rest = Inl e)
       \<or> (\<exists>n e. checked_length lib rest = Inr n \<and> parse_message lib (take (unat n) rest) = Inl e))"
proof (induction "length source" arbitrary: source rule: less_induct)
  case less
  show ?case
  proof (cases "source = []")
    case True
    then show ?thesis by (intro exI [of _ "[]"]) (auto intro: codec_reads.none)
  next
    case False
    from assms False show ?thesis
    proof (cases rule: decode_packet_cases)
      case (no_header e)
      then show ?thesis by (intro exI [of _ "[]"] exI [of _ source]) (auto intro: codec_reads.none)
    next
      case (packet n)
      let ?left = "drop ((unat n + 3) div 4 * 4) source"
      show ?thesis
      proof (cases "parse_message lib (take (unat n) source)")
        case (Inl e)
        with packet show ?thesis by (intro exI [of _ "[]"] exI [of _ source]) (auto intro: codec_reads.none)
      next
        case (Inr message)
        have shorter: "length ?left + 16 \<le> length source" using packet by simp
        then obtain messages rest where rest: "codec_reads lib ?left messages rest"
          "16 * length messages + length rest \<le> length ?left"
          "rest = [] \<or> (\<exists>e. checked_length lib rest = Inl e)
            \<or> (\<exists>n e. checked_length lib rest = Inr n \<and> parse_message lib (take (unat n) rest) = Inl e)"
          using less [of ?left] by auto
        have "codec_reads lib source (message # messages) rest"
          using packet Inr rest(1) by (intro codec_reads.one) simp_all
        with rest(2,3) shorter show ?thesis
          by (intro exI [of _ "message # messages"] exI [of _ rest]) simp
      qed
    qed
  qed
qed

section \<open>Framed datagrams\<close>

text \<open>A packet that the netlink crate reads as a message, whatever follows it, and its padding.\<close>

definition framed :: "netlink_lib \<Rightarrow> string \<Rightarrow> netlink_message \<Rightarrow> bool" where
  "framed lib packet message \<longleftrightarrow>
     (\<forall>rest. \<exists>n. checked_length lib (packet @ rest) = Inr n \<and> unat n = length packet) \<and> parse_message lib packet = Inr message"

definition padding_of :: "string \<Rightarrow> nat" where
  "padding_of packet = (4 - length packet mod 4) mod 4"

lemma padded_length: "(n + 3) div 4 * 4 = n + (4 - n mod 4) mod 4" for n :: nat
proof -
  obtain q r where n: "n = 4 * q + r" "r < 4" by (metis mod_less_divisor mult_div_mod_eq zero_less_numeral)
  then have "n mod 4 = r" by simp
  moreover have "(n + 3) div 4 = q + (r + 3) div 4" unfolding n(1) by (simp add: add.assoc)
  moreover have "r \<in> {0, 1, 2, 3}" using n(2) by auto
  then have "(r + 3) div 4 * 4 = r + (4 - r) mod 4" by auto
  ultimately show ?thesis by (simp add: n(1))
qed

lemma decode_framed:
  assumes "checked_laws lib" "framed lib packet message" "length pad = padding_of packet"
  shows "decode_packet lib (packet @ pad @ rest) = (Ok (Some message), rest)" "decode_packet lib packet = (Ok (Some message), [])"
proof -
  have any: "decode_packet lib (packet @ tail) = (Ok (Some message), drop (padding_of packet) tail)" for tail
  proof -
    obtain n where n: "checked_length lib (packet @ tail) = Inr n" "unat n = length packet" using assms(2) by (auto simp: framed_def)
    with assms(1) have "packet @ tail \<noteq> []" by (fastforce simp: checked_laws_def)
    with assms(1) show ?thesis
    proof (cases rule: decode_packet_cases)
      case (packet k)
      with n assms(2) show ?thesis by (simp add: framed_def padded_length padding_of_def)
    qed (use n in simp)
  qed
  from any [of "pad @ rest"] any [of "[]"] assms(3) show
    "decode_packet lib (packet @ pad @ rest) = (Ok (Some message), rest)" "decode_packet lib packet = (Ok (Some message), [])"
    by simp_all
qed

definition datagram :: "(string \<times> string) list \<Rightarrow> string \<Rightarrow> string" where
  "datagram parts final = concat (map (\<lambda>(packet, pad). packet @ pad) parts) @ final"

definition part_of :: "netlink_lib \<Rightarrow> string \<times> string \<Rightarrow> netlink_message \<Rightarrow> bool" where
  "part_of lib = (\<lambda>(packet, pad) message. framed lib packet message \<and> length pad = padding_of packet)"

lemma datagram_read:
  assumes "checked_laws lib" "list_all2 (part_of lib) parts messages" "framed lib final message"
  shows "codec_reads lib (datagram parts final) (messages @ [message]) []"
  using assms(2)
proof (induction rule: list_all2_induct)
  case Nil
  have "decode_packet lib final = (Ok (Some message), [])" by (rule decode_framed(2) [OF assms(1,3)]) (rule length_replicate)
  then show ?case by (simp add: datagram_def codec_reads.one [OF _ codec_reads.none])
next
  case (Cons part parts m messages)
  obtain packet pad where part: "part = (packet, pad)" by (cases part)
  with Cons.hyps(1) have "decode_packet lib (packet @ pad @ datagram parts final) = (Ok (Some m), datagram parts final)"
    by (intro decode_framed(1) [OF assms(1)]) (auto simp: part_of_def)
  moreover have "datagram (part # parts) final = packet @ pad @ datagram parts final" by (simp add: datagram_def part)
  ultimately show ?case using Cons.IH by (simp add: codec_reads.one)
qed

text \<open>C15: a datagram of packets, each but the last padded to four bytes with any bytes, is read to its end, and as exactly the
  messages of its packets, in order and without an error: none is dropped, and the padding of one is not taken for the next.\<close>

theorem datagram_read_back:
  assumes "checked_laws lib" "list_all2 (part_of lib) parts messages" "framed lib final message"
  shows "codec_reads lib (datagram parts final) read [] \<longleftrightarrow> read = messages @ [message]"
  using datagram_read [OF assms] codec_reads_unique by blast

text \<open>Two packets of 18 and 17 bytes; a packet's first byte is its length.\<close>

definition counted_lib :: netlink_lib where
  "counted_lib = (rl_netlink sample_lib)
     \<lparr>checked_length := (\<lambda>source. if source \<noteq> [] \<and> 16 \<le> (of_char (hd source) :: nat) \<and> of_char (hd source) \<le> length source
        then Inr (word_of_nat (of_char (hd source))) else Inl ''short'')\<rparr>"

definition counted :: "nat \<Rightarrow> string" where
  "counted n = char_of n # replicate (n - 1) (CHR 0x07)"

lemma counted_framed:
  "framed counted_lib (counted 18) \<lparr>nm_flags = 0, nm_payload = NoopPayload\<rparr>"
  "framed counted_lib (counted 17) \<lparr>nm_flags = 0, nm_payload = NoopPayload\<rparr>"
  by (simp_all add: framed_def counted_lib_def counted_def sample_lib_def)

lemma counted_laws: "checked_laws counted_lib"
  by (auto simp: checked_laws_def counted_lib_def of_char_def split: if_splits)

theorem datagram_read_back_witness:
  "codec_reads counted_lib (datagram [(counted 18, ''ab'')] (counted 17))
     [\<lparr>nm_flags = 0, nm_payload = NoopPayload\<rparr>, \<lparr>nm_flags = 0, nm_payload = NoopPayload\<rparr>] []"
proof -
  have "list_all2 (part_of counted_lib) [(counted 18, ''ab'')] [\<lparr>nm_flags = 0, nm_payload = NoopPayload\<rparr>]"
    using counted_framed by (simp add: part_of_def padding_of_def counted_def)
  from datagram_read_back [OF counted_laws this counted_framed(2)] show ?thesis by simp
qed

text \<open>The second packet announces more bytes than there are.\<close>

theorem codec_stops_only_at_errors_witness:
  "\<exists>messages rest. codec_reads counted_lib (counted 18 @ ''ab'' @ ''zz'') messages rest
     \<and> 16 * length messages + length rest \<le> 22"
  using codec_stops_only_at_errors [OF counted_laws, of "counted 18 @ ''ab'' @ ''zz''"] by (auto simp: counted_def)

end
