(* ===== verification/Prefilter.thy ===== *)
theory Prefilter
  imports WorkerProps
begin

text \<open>
  The prefilter of a query.  Only interfaces that may match are asked for their driver and their link modes; the query
  still answers as if all had been.  The inventory with the prefilter and the one without run in parallel here: step by step
  they leave the same transport, and devices that are equal wherever the prefilter lets them through.
\<close>

section \<open>Calls in parallel\<close>

text \<open>Where the second call returns, so does the first, with the same state and a related result.\<close>

definition parallel :: "('a \<Rightarrow> 'b \<Rightarrow> bool) \<Rightarrow> ('a, 'e, 's) action \<Rightarrow> ('b, 'e, 's) action \<Rightarrow> bool" where
  "parallel Q m m' \<longleftrightarrow> (\<forall>s y s'. m' s = (Ok y, s') \<longrightarrow> (\<exists>x. m s = (Ok x, s') \<and> Q x y))"

lemma parallel_refl: "(\<And>x. Q x x) \<Longrightarrow> parallel Q m m"
  by (simp add: parallel_def)

lemma parallel_self: "(\<And>s x. fst (m s) = Ok x \<Longrightarrow> Q x x) \<Longrightarrow> parallel Q m m"
  by (auto simp: parallel_def) (metis fst_conv)

lemma parallel_abind:
  "parallel P m m' \<Longrightarrow> (\<And>x y. P x y \<Longrightarrow> parallel Q (f x) (f' y)) \<Longrightarrow> parallel Q (abind m f) (abind m' f')"
  unfolding parallel_def abind_eq_Ok by meson

lemma parallel_same: "(\<And>x. parallel Q (f x) (f' x)) \<Longrightarrow> parallel Q (abind m f) (abind m f')"
  by (rule parallel_abind [where P = "(=)"]) (simp_all add: parallel_refl)

lemma parallel_areturn: "Q x y \<Longrightarrow> parallel Q (areturn x) (areturn y)"
  by (simp add: parallel_def areturn_def)

lemma parallel_alift: "(\<And>y. r' = Ok y \<Longrightarrow> \<exists>x. r = Ok x \<and> Q x y) \<Longrightarrow> parallel Q (alift r) (alift r')"
  by (auto simp: parallel_def alift_def)

text \<open>A call that leaves the state alone.\<close>

definition stateless :: "('a, 'e, 's) action \<Rightarrow> bool" where
  "stateless m \<longleftrightarrow> (\<forall>s. snd (m s) = s)"

lemma stateless_rules:
  "stateless (areturn x)" "stateless (alift r)" "stateless (aget f)"
  "stateless m \<Longrightarrow> (\<And>x. stateless (f x)) \<Longrightarrow> stateless (abind m f)"
  "stateless m \<Longrightarrow> stateless (attempt m)"
  "(\<And>x y. stateless (g x y)) \<Longrightarrow> stateless (case p of (x, y) \<Rightarrow> g x y)"
  by (auto simp: stateless_def areturn_def alift_def aget_def abind_def attempt_def case_prod_unfold Let_def split: outcome.split)

lemma parallel_skip:
  assumes "stateless m'" "\<And>s y. fst (m' s) = Ok y \<Longrightarrow> Q x y"
  shows "parallel Q (areturn x) m'"
  using assms by (auto simp: parallel_def stateless_def areturn_def) (metis fst_conv snd_conv)+

section \<open>A kernel that is asked quietly\<close>

text \<open>Asking for the index, the driver or the link modes of an interface changes nothing.\<close>

definition asked_quietly :: "'w kernel \<Rightarrow> bool" where
  "asked_quietly kn \<longleftrightarrow>
     (\<forall>name w. snd (kn_ifindex kn name w) = w) \<and> (\<forall>name w. snd (kn_drvinfo kn name w) = w)
     \<and> (\<forall>name w. snd (kn_link_mode kn name w) = w)"

lemma stateless_call: "(\<And>w. snd (f w) = w) \<Longrightarrow> stateless (kernel_call f)" "(\<And>w. snd (g w) = w) \<Longrightarrow> stateless (kernel_result g)"
  by (auto simp: stateless_def kernel_call_def kernel_result_def abind_def alift_def case_prod_unfold Let_def)

lemma stateless_named: "asked_quietly kn \<Longrightarrow> stateless call \<Longrightarrow> stateless (while_named kn name index call)"
  unfolding while_named_def check_named_def interface_index_def
  by (intro stateless_rules stateless_call) (simp_all add: asked_quietly_def)

lemma stateless_enrich: "asked_quietly kn \<Longrightarrow> stateless (enrich_driver lib kn ident st)"
proof -
  assume quiet: "asked_quietly kn"
  then have driver: "stateless (driver_info lib kn name)" for name
    unfolding driver_info_def by (intro stateless_rules stateless_call) (simp_all add: asked_quietly_def)
  have "stateless (case r of Ok x \<Rightarrow> areturn (f x) | Err e \<Rightarrow> if c e then areturn (g e) else if c' e then alift (h e) else areturn (k e)
      | Panic \<Rightarrow> alift Panic)" for r :: "('b, 'f) outcome" and f :: "'b \<Rightarrow> 'c" and c c' g h k
    by (cases r) (simp_all add: stateless_rules)
  then show ?thesis
    unfolding enrich_driver_def case_prod_unfold
    by (intro stateless_rules stateless_named [OF quiet] driver)
qed

lemma stateless_attributes: "asked_quietly kn \<Longrightarrow> stateless (ethernet_attributes kn name index)"
  unfolding ethernet_attributes_def by (intro stateless_rules stateless_call) (simp_all add: asked_quietly_def)

section \<open>Devices that agree\<close>

definition eligible_device :: "match_spec \<Rightarrow> device_observation \<Rightarrow> bool" where
  "eligible_device selector d \<longleftrightarrow> may_match selector (st_match (dev_st d))"

text \<open>Equal, or of no interest to the query; in any case all but their states agree.\<close>

definition agree :: "match_spec \<Rightarrow> device_observation \<Rightarrow> device_observation \<Rightarrow> bool" where
  "agree selector d d' \<longleftrightarrow>
     identity d = identity d' \<and> addresses d = addresses d' \<and> addresses_complete d = addresses_complete d'
     \<and> observed_at d = observed_at d'
     \<and> (d = d' \<or> \<not> eligible_device selector d \<and> \<not> eligible_device selector d')"

abbreviation agree_all :: "match_spec \<Rightarrow> device_observation list \<Rightarrow> device_observation list \<Rightarrow> bool" where
  "agree_all selector \<equiv> list_all2 (agree selector)"

lemma agree_refl: "agree selector d d"
  by (simp add: agree_def)

lemma agree_eligible: "agree selector d d' \<Longrightarrow> eligible_device selector d = eligible_device selector d'"
  by (auto simp: agree_def)

lemma agree_update:
  assumes "agree_all selector ds ds'" "agree selector d d'"
  shows "agree_all selector (ds[place := d]) (ds'[place := d'])"
  using assms by (rule list_all2_update_cong)

lemma agree_nth: "agree_all selector ds ds' \<Longrightarrow> place < length ds' \<Longrightarrow> agree selector (ds ! place) (ds' ! place)"
  by (simp add: list_all2_conv_all_nth)

lemma agree_identity: "agree_all selector ds ds' \<Longrightarrow> map identity ds = map identity ds'"
  by (induction rule: list_all2_induct) (simp_all add: agree_def)

lemma may_match_set_driver: "may_match selector (st_match (set_driver driver pci st)) = may_match selector (st_match st)"
  by (simp add: may_match_def matches_def set_driver_def Let_def split: option.split)

lemma eligible_set_field [simp]: "eligible_device selector (set_field k v d) = eligible_device selector d"
  by (simp add: eligible_device_def set_field_def)

text \<open>The selector lets through only what is eligible.\<close>

lemma matches_eligible: "matches selector (st_match (dev_st d)) \<Longrightarrow> eligible_device selector d"
  by (auto simp: eligible_device_def may_match_def matches_def)

lemma agree_matching: "agree_all selector (devices obs) (devices obs') \<Longrightarrow> matching selector obs = matching selector obs'"
  unfolding matching_def
  by (induction rule: list_all2_induct) (auto simp: agree_def dest: matches_eligible)

section \<open>The links\<close>

text \<open>The two scans: the targets of the prefiltered one are those of the other that are eligible.\<close>

definition scans_agree :: "match_spec \<Rightarrow> link_scan_state \<Rightarrow> link_scan_state \<Rightarrow> bool" where
  "scans_agree selector = (\<lambda>(ds, _, targets) (ds', _, targets').
     agree_all selector ds ds' \<and> list_all (\<lambda>(place, _). place < length ds') targets'
     \<and> targets = filter (\<lambda>(place, _). eligible_device selector (ds' ! place)) targets')"

lemma enrich_parallel:
  assumes "asked_quietly kn"
  shows "parallel (\<lambda>(st, _) (st', _). may_match selector (st_match st) = may_match selector (st_match s)
        \<and> may_match selector (st_match st') = may_match selector (st_match s) \<and> (may_match selector (st_match s) \<longrightarrow> st = st'))
     (if may_match selector (st_match s) then enrich_driver lib kn ident s else areturn (s, []))
     (enrich_driver lib kn ident s)"
proof -
  have same: "may_match selector (st_match st') = may_match selector (st_match s)"
    if "fst (enrich_driver lib kn ident s t) = Ok (st', more)" for t st' more
    using that
    by (auto simp: enrich_driver_def abind_def attempt_def may_match_set_driver areturn_def alift_def case_prod_unfold Let_def
        split: outcome.splits if_splits)
  show ?thesis
  proof (cases "may_match selector (st_match s)")
    case True
    then show ?thesis using same by (auto intro!: parallel_self)
  next
    case False
    then show ?thesis using same stateless_enrich [OF assms] by (auto intro!: parallel_skip)
  qed
qed

lemma scanned_parallel:
  assumes "asked_quietly kn" "scans_agree selector (ds, diags, targets) (ds', diags', targets')"
  shows "parallel (scans_agree selector)
    (abind (if may_match selector (st_match st) then enrich_driver lib kn ident st else areturn (st, []))
      (\<lambda>(st', more). areturn
        (ds @ [\<lparr>identity = ident, dev_st = st', addresses = [], addresses_complete = complete, observed_at = now\<rparr>],
         diags @ found @ more,
         if may_match selector (st_match st) \<and> ethernet then targets @ [(length ds, name, index)] else targets)))
    (abind (if True then enrich_driver lib kn ident st else areturn (st, []))
      (\<lambda>(st', more). areturn
        (ds' @ [\<lparr>identity = ident, dev_st = st', addresses = [], addresses_complete = complete, observed_at = now\<rparr>],
         diags' @ found @ more,
         if True \<and> ethernet then targets' @ [(length ds', name, index)] else targets')))"
proof -
  let ?may = "may_match selector (st_match st)"
  from assms(2) have agree: "agree_all selector ds ds'" "list_all (\<lambda>(place, _). place < length ds') targets'"
    "targets = filter (\<lambda>(place, _). eligible_device selector (ds' ! place)) targets'"
    by (simp_all add: scans_agree_def)
  have kept: "filter (\<lambda>(place, _). eligible_device selector ((ds' @ [d]) ! place)) targets' = targets" for d
    unfolding agree(3) by (rule filter_cong [OF refl]) (use agree(2) in \<open>auto simp: list_all_iff nth_append\<close>)
  have len: "length ds = length ds'" using agree(1) by (rule list_all2_lengthD)
  have inside: "list_all (\<lambda>(place, _). place < length (ds' @ [d])) targets'" for d
    using agree(2) by (auto simp: list_all_iff)
  have "scans_agree selector (ds @ [d], l, if ?may \<and> ethernet then targets @ [(length ds, name, index)] else targets)
      (ds' @ [d'], l', if ethernet then targets' @ [(length ds', name, index)] else targets')"
    if "agree selector d d'" "eligible_device selector d' = ?may" for d d' l l'
    using that agree(1) kept inside by (simp add: scans_agree_def len list_all2_appendI)
  note agree_after = this
  show ?thesis
    unfolding if_True
  proof (rule parallel_abind [OF enrich_parallel [OF assms(1)]])
    fix x y :: "dev_state \<times> diagnostic list"
    obtain s more s' more' where xy: "x = (s, more)" "y = (s', more')" by fastforce
    assume "(case x of (st', _) \<Rightarrow> \<lambda>(st'', _).
        may_match selector (st_match st') = ?may \<and> may_match selector (st_match st'') = ?may \<and> (?may \<longrightarrow> st' = st'')) y"
    then have "may_match selector (st_match s) = ?may \<and> may_match selector (st_match s') = ?may \<and> (?may \<longrightarrow> s = s')"
      by (simp add: xy)
    then show "parallel (scans_agree selector)
      (case x of (st', more) \<Rightarrow> areturn
        (ds @ [\<lparr>identity = ident, dev_st = st', addresses = [], addresses_complete = complete, observed_at = now\<rparr>],
         diags @ found @ more, if ?may \<and> ethernet then targets @ [(length ds, name, index)] else targets))
      (case y of (st', more) \<Rightarrow> areturn
        (ds' @ [\<lparr>identity = ident, dev_st = st', addresses = [], addresses_complete = complete, observed_at = now\<rparr>],
         diags' @ found @ more, if True \<and> ethernet then targets' @ [(length ds', name, index)] else targets'))"
      unfolding xy prod.case simp_thms
      by (intro parallel_areturn agree_after) (auto simp: agree_def eligible_device_def split: if_splits)
  qed
qed

lemma observe_link_parallel:
  assumes "asked_quietly kn" "scans_agree selector acc acc'"
  shows "parallel (scans_agree selector)
    (observe_link lib kn (may_match selector) wireless now packet acc) (observe_link lib kn (\<lambda>_. True) wireless now packet acc')"
proof (cases "pk_kind packet = RTM_NEWLINK")
  case True
  obtain ds diags targets where acc: "acc = (ds, diags, targets)" by (cases acc)
  obtain ds' diags' targets' where acc': "acc' = (ds', diags', targets')" by (cases acc')
  note tail = scanned_parallel [OF assms(1) assms(2) [unfolded acc acc'], unfolded simp_thms if_True]
  have split: "parallel Q (case p of (st, mac) \<Rightarrow> f st mac) (case p of (st, mac) \<Rightarrow> f' st mac)"
    if "\<And>st mac. parallel Q (f st mac) (f' st mac)"
    for p :: "dev_state \<times> string option" and Q :: "link_scan_state \<Rightarrow> link_scan_state \<Rightarrow> bool"
      and f f' :: "dev_state \<Rightarrow> string option \<Rightarrow> (link_scan_state, 'a) linux"
    using that by (cases p) simp
  show ?thesis
    unfolding observe_link_def acc acc' prod.case Let_def True simp_thms if_False if_True
    by (intro parallel_same split tail)
qed (auto simp: observe_link_def case_prod_unfold intro!: parallel_alift)

lemma observe_links_parallel:
  assumes "asked_quietly kn"
  shows "scans_agree selector acc acc' \<Longrightarrow> parallel (scans_agree selector)
    (observe_links lib kn (may_match selector) wireless now packets acc) (observe_links lib kn (\<lambda>_. True) wireless now packets acc')"
proof (induction packets arbitrary: acc acc')
  case (Cons packet packets)
  show ?case
    unfolding observe_links.simps by (rule parallel_abind [OF observe_link_parallel [OF assms Cons.prems] Cons.IH])
qed (simp add: parallel_areturn)

section \<open>The link modes\<close>

definition asked :: "'w kernel \<Rightarrow> 'w transport \<Rightarrow> nat \<times> string \<times> u32 \<Rightarrow> nat \<times> (fields \<times> string list, backend_error) outcome" where
  "asked kn t = (\<lambda>(place, name, index). (place, fst (ethernet_attributes kn name index t)))"

lemma ask_link_modes_Ok:
  assumes "asked_quietly kn"
  shows "ask_link_modes kn targets t = (Ok rs, t') \<longleftrightarrow>
     t' = t \<and> rs = map (snd \<circ> asked kn t) targets \<and> list_all (\<lambda>tgt. snd (asked kn t tgt) \<noteq> Panic) targets"
proof (induction targets arbitrary: rs t')
  case Nil
  show ?case by (auto simp: areturn_def)
next
  case (Cons tgt targets)
  obtain place name index where tgt: "tgt = (place, name, index)" by (cases tgt)
  obtain r where e: "ethernet_attributes kn name index t = (r, t)"
    using stateless_attributes [OF assms, of name index] by (metis prod.collapse stateless_def)
  then have "asked kn t tgt = (place, r)" by (simp add: asked_def tgt)
  with e show ?case
    by (auto simp: tgt abind_eq_Ok attempt_def areturn_def Cons.IH)
qed

text \<open>The answers to the targets of the prefiltered scan are those of the eligible devices.\<close>

definition answers_agree ::
  "match_spec \<Rightarrow> device_observation list \<Rightarrow> (nat \<times> string \<times> u32) list \<Rightarrow> (nat \<times> string \<times> u32) list \<Rightarrow>
   (fields \<times> string list, backend_error) outcome list \<Rightarrow> (fields \<times> string list, backend_error) outcome list \<Rightarrow> bool" where
  "answers_agree selector ds' targets targets' rs rs' \<longleftrightarrow>
     zip (map fst targets) rs = filter (\<lambda>(place, _). eligible_device selector (ds' ! place)) (zip (map fst targets') rs')
     \<and> list_all (\<lambda>(place, _). place < length ds') (zip (map fst targets') rs')"

lemma ask_parallel:
  assumes "asked_quietly kn" "scans_agree selector (ds, diags, targets) (ds', diags', targets')"
  shows "parallel (answers_agree selector ds' targets targets')
    (if ethtool then ask_link_modes kn targets else areturn []) (if ethtool then ask_link_modes kn targets' else areturn [])"
proof (cases ethtool)
  case True
  from assms(2) have targets: "targets = filter (\<lambda>(place, _). eligible_device selector (ds' ! place)) targets'"
    "list_all (\<lambda>(place, _). place < length ds') targets'" by (simp_all add: scans_agree_def)
  have place: "fst (asked kn t tgt) = fst tgt" for t tgt by (simp add: asked_def case_prod_unfold)
  have zip: "zip (map fst xs) (map (snd \<circ> asked kn t) xs) = map (asked kn t) xs" for t xs
    by (rule nth_equalityI) (simp_all add: place [symmetric] prod_eq_iff)
  have "map (asked kn t) targets = filter (\<lambda>(place, _). eligible_device selector (ds' ! place)) (map (asked kn t) targets')" for t
    unfolding targets(1) by (simp add: filter_map comp_def case_prod_unfold place)
  moreover have "list_all (\<lambda>(place, _). place < length ds') (map (asked kn t) targets')" for t
    using targets(2) by (simp add: list_all_iff case_prod_unfold place)
  ultimately have "parallel (answers_agree selector ds' targets targets') (ask_link_modes kn targets) (ask_link_modes kn targets')"
    using targets(1) by (auto simp: parallel_def ask_link_modes_Ok [OF assms(1)] answers_agree_def zip list_all_iff)
  with True show ?thesis by simp
qed (simp add: parallel_areturn answers_agree_def)

lemma link_modes_agree:
  assumes "agree_all selector ds ds'" "list_all (\<lambda>(place, _). place < length ds') answers'"
    and "answers = filter (\<lambda>(place, _). eligible_device selector (ds' ! place)) answers'"
    and "apply_link_modes answers' (ds', diags') = Ok (result', messages')"
  shows "\<exists>result messages. apply_link_modes answers (ds, diags) = Ok (result, messages) \<and> agree_all selector result result'"
  using assms
proof (induction answers' arbitrary: ds ds' answers diags diags')
  case (Cons answer answers')
  obtain place r where answer: "answer = (place, r)" by (cases answer)
  from Cons.prems(4) obtain fs messages where r: "r = Ok (fs, messages)" by (auto simp: answer outcome_inversions)
  let ?more = "filter (\<lambda>(place, _). eligible_device selector (ds' ! place)) answers'"
  let ?ds' = "if fs \<noteq> [] then ds'[place := set_field ''ethernet'' (VMap fs) (ds' ! place)] else ds'"
  have place: "place < length ds'" and inside: "list_all (\<lambda>(place, _). place < length ds') answers'"
    using Cons.prems(2) by (auto simp: answer)
  have rest: "apply_link_modes answers' (?ds', diags' @ map (\<lambda>message. diagnostic_of (Some (identity (ds' ! place))) ''ethernet'' message) messages)
      = Ok (result', messages')"
    using Cons.prems(4) place by (simp add: answer r split del: if_split)
  have same: "agree selector (ds ! place) (ds' ! place)" using Cons.prems(1) place by (rule agree_nth)
  have eligible: "eligible_device selector (?ds' ! q) = eligible_device selector (ds' ! q)" for q
    using place by (cases "q = place") simp_all
  have more: "?more = filter (\<lambda>(place, _). eligible_device selector (?ds' ! place)) answers'"
    unfolding eligible ..
  have len: "length ds = length ds'" using Cons.prems(1) by (rule list_all2_lengthD)
  have inside': "list_all (\<lambda>(place, _). place < length ?ds') answers'" using inside by simp
  show ?case
  proof (cases "eligible_device selector (ds' ! place)")
    case True
    with same agree_eligible [OF same] have eq: "ds ! place = ds' ! place" by (auto simp: agree_def)
    let ?ds = "if fs \<noteq> [] then ds[place := set_field ''ethernet'' (VMap fs) (ds' ! place)] else ds"
    have "agree_all selector ?ds ?ds'"
      using agree_update [OF Cons.prems(1) agree_refl] Cons.prems(1) by simp
    from Cons.IH [OF this inside' more rest] True eq place len
    show ?thesis by (simp add: Cons.prems(3) answer r split del: if_split)
  next
    case False
    have "agree selector (ds ! place) (set_field ''ethernet'' (VMap fs) (ds' ! place))"
      using same False agree_eligible [OF same] by (auto simp: agree_def) (simp_all add: set_field_def)
    from agree_update [OF Cons.prems(1) this, of place] have "agree_all selector ds ?ds'"
      using Cons.prems(1) by simp
    from Cons.IH [OF this inside' more rest] False
    show ?thesis by (simp add: Cons.prems(3) answer split del: if_split)
  qed
qed simp

section \<open>The addresses\<close>

definition states_agree :: "match_spec \<Rightarrow> address_state \<Rightarrow> address_state \<Rightarrow> bool" where
  "states_agree selector st st' \<longleftrightarrow>
     agree_all selector (as_devices st) (as_devices st') \<and> as_messages st = as_messages st' \<and> as_duplicated st = as_duplicated st'"

lemma position_identity:
  "map identity ds = map identity ds' \<Longrightarrow>
     position (\<lambda>d. if_index (identity d) = i) ds = position (\<lambda>d. if_index (identity d) = i) ds'"
proof (induction ds arbitrary: ds')
  case (Cons d ds)
  then obtain d' es where ds': "ds' = d' # es" "identity d = identity d'" "map identity ds = map identity es" by (cases ds') auto
  from Cons.IH [OF ds'(3)] ds' show ?case by simp
qed simp

lemma record_address_agree:
  assumes "states_agree selector st st'" "agree selector d d'"
  shows "states_agree selector (record_address place d message entry st) (record_address place d' message entry st')"
proof -
  have "agree selector (d\<lparr>addresses_complete := False\<rparr>) (d'\<lparr>addresses_complete := False\<rparr>)"
    "agree selector (d\<lparr>addresses := addresses d @ [entry]\<rparr>) (d'\<lparr>addresses := addresses d' @ [entry]\<rparr>)"
    using assms(2) by (auto simp: agree_def eligible_device_def)
  moreover have "identity d = identity d'" using assms(2) by (simp add: agree_def)
  ultimately show ?thesis
    using assms(1) by (simp add: states_agree_def record_address_def agree_update Let_def)
qed

lemma observe_address_agree:
  assumes "states_agree selector st st'" "observe_address lib packet st' = Ok after'"
  shows "\<exists>after. observe_address lib packet st = Ok after \<and> states_agree selector after after'"
proof -
  have devices: "agree_all selector (as_devices st) (as_devices st')" using assms(1) by (simp add: states_agree_def)
  note found = position_identity [OF agree_identity [OF devices]]
  from assms(2) obtain message where kind: "pk_kind packet = RTM_NEWADDR"
    and message: "parse_address_message lib (pk_body packet) = Inr message"
    by (auto simp: observe_address_def outcome_inversions of_sum_def split: if_splits sum.splits)
  note read = observe_address_def kind message of_sum_def
  show ?thesis
  proof (cases "am_family message = AfInet")
    case False
    with assms show ?thesis by (simp add: read)
  next
    case True
    with assms(2) obtain place where place: "position (\<lambda>d. if_index (identity d) = am_index message) (as_devices st') = Some place"
      by (auto simp: read outcome_inversions)
    let ?d = "as_devices st ! place" and ?d' = "as_devices st' ! place"
    have agree: "agree selector ?d ?d'" using place by (intro agree_nth [OF devices]) (auto simp: position_Some)
    then have same: "identity ?d = identity ?d'" by (simp add: agree_def)
    show ?thesis
    proof (cases "if_device_type (identity ?d') = ETHERNET")
      case False
      with assms True place show ?thesis by (simp add: read found same)
    next
      case ethernet: True
      with assms(2) True place obtain entry where "parse_address message = Ok entry"
        "after' = record_address place ?d' message entry st'"
        by (auto simp: read outcome_inversions omap_err_Ok Let_def)
      with True place ethernet record_address_agree [OF assms(1) agree] show ?thesis
        by (simp add: read found same Let_def)
    qed
  qed
qed

lemma observe_addresses_agree:
  "states_agree selector st st' \<Longrightarrow> observe_addresses lib packets st' = Ok after' \<Longrightarrow>
     \<exists>after. observe_addresses lib packets st = Ok after \<and> states_agree selector after after'"
proof (induction packets arbitrary: st st')
  case (Cons packet packets)
  from Cons.prems(2) obtain mid' where m: "observe_address lib packet st' = Ok mid'" "observe_addresses lib packets mid' = Ok after'"
    by (auto simp: outcome_inversions)
  from observe_address_agree [OF Cons.prems(1) m(1)] obtain mid where
    "observe_address lib packet st = Ok mid" "states_agree selector mid mid'" by blast
  with Cons.IH [OF this(2) m(2)] show ?case by (auto simp: outcome_inversions)
qed simp

lemma publish_agree: "agree_all selector ds ds' \<Longrightarrow> agree_all selector (map publish_addresses ds) (map publish_addresses ds')"
  by (induction rule: list_all2_induct)
    (auto simp: agree_def publish_addresses_def, auto simp: set_field_def eligible_device_def)

section \<open>The inventory and the query\<close>

lemma retain_agree: "agree_all selector ds ds' \<Longrightarrow> retain_generations ds = (retain_generations ds' :: 'w transport \<Rightarrow> _)"
proof -
  assume "agree_all selector ds ds'"
  then have "list_ex (\<lambda>d. if_index (identity d) = i) ds = list_ex (\<lambda>d. if_index (identity d) = i) ds'" for i
    by (induction rule: list_all2_induct) (auto simp: agree_def)
  then show ?thesis by (simp add: retain_generations_def fun_eq_iff)
qed

lemma confirm_agree:
  assumes "agree_all selector ds ds'"
  shows "confirm_inventory lib kn epoch ds messages = confirm_inventory lib kn epoch ds' messages"
proof -
  have "list_all (still_current t) ds = list_all (still_current t) ds'" for t :: "'a transport"
    using assms by (induction rule: list_all2_induct) (auto simp: agree_def still_current_def)
  then show ?thesis by (simp add: confirm_inventory_def)
qed

lemma inventory_parallel:
  assumes "asked_quietly kn"
  shows "parallel (\<lambda>found obs. agree_all selector (devices found) (devices obs))
    (inventory lib kn (may_match selector)) (inventory lib kn (\<lambda>_. True))"
proof -
  have modes: "parallel (\<lambda>(es, _) (es', _). agree_all selector es es')
      (alift (apply_link_modes (zip (map fst targets) rs) (ds, diags))) (alift (apply_link_modes (zip (map fst targets') rs') (ds', diags')))"
    if "agree_all selector ds ds'" "answers_agree selector ds' targets targets' rs rs'" for ds ds' diags diags' targets targets' rs rs'
    using link_modes_agree [OF that(1), of "zip (map fst targets') rs'" "zip (map fst targets) rs"] that(2)
    by (intro parallel_alift) (auto simp: answers_agree_def)
  have addresses: "parallel (states_agree selector)
      (alift (observe_addresses lib packets \<lparr>as_devices = ds, as_messages = Map.empty, as_duplicated = [], as_diagnostics = diags\<rparr>))
      (alift (observe_addresses lib packets \<lparr>as_devices = ds', as_messages = Map.empty, as_duplicated = [], as_diagnostics = diags'\<rparr>))"
    if "agree_all selector ds ds'" for packets ds ds' diags diags'
    by (intro parallel_alift observe_addresses_agree) (simp_all add: states_agree_def that)
  have ends: "parallel (\<lambda>found obs. agree_all selector (devices found) (devices obs))
      (abind (confirm_inventory lib kn epoch (map publish_addresses (as_devices st)) (as_messages st))
        (\<lambda>_. areturn \<lparr>devices = map publish_addresses (as_devices st), diagnostics = as_diagnostics st\<rparr>))
      (abind (confirm_inventory lib kn epoch (map publish_addresses (as_devices st')) (as_messages st'))
        (\<lambda>_. areturn \<lparr>devices = map publish_addresses (as_devices st'), diagnostics = as_diagnostics st'\<rparr>))"
    if "states_agree selector st st'" for epoch st st'
  proof -
    from that have agree: "agree_all selector (map publish_addresses (as_devices st)) (map publish_addresses (as_devices st'))"
      and "as_messages st = as_messages st'" by (simp_all add: states_agree_def publish_agree)
    then show ?thesis by (simp add: confirm_agree [OF agree] agree parallel_same parallel_areturn)
  qed
  have start: "scans_agree selector ([], diags, []) ([], diags', [])" for diags diags' by (simp add: scans_agree_def)
  have pair: "parallel Q (case p of (x, y) \<Rightarrow> f x y) (case p' of (x, y) \<Rightarrow> f' x y)"
    if "\<And>x y x' y'. p = (x, y) \<Longrightarrow> p' = (x', y') \<Longrightarrow> parallel Q (f x y) (f' x' y')" for Q p p' f f'
    using that by (cases p; cases p') simp
  show ?thesis
    unfolding inventory_def Let_def
    apply (rule parallel_same, rule parallel_same, rule parallel_same, rule parallel_same, rule parallel_same,
        rule parallel_same, rule parallel_same)
    apply (rule parallel_abind [OF observe_links_parallel [OF assms start]], rule pair, rule pair, rule parallel_same)
    apply (rule parallel_abind [OF ask_parallel [OF assms]], simp)
    apply (rule parallel_abind [OF modes], simp add: scans_agree_def, assumption)
    apply (rule pair, simp, subst retain_agree, assumption, rule parallel_same)
    apply (rule parallel_abind [OF addresses], assumption)
    apply (rule ends)
    apply assumption
    done
qed

text \<open>C17: a query answers with exactly what a full inventory holds for its selector, although it only asks the interfaces
  that may match for their driver and link modes: when the inventory that asks them all succeeds, the query succeeds as well
  and returns the devices of that inventory that match, unchanged and in order, or "not found" when none does for a named
  selector; and it leaves the transport the same.  All this relies on is that asking for an index, a driver or link modes
  changes nothing.\<close>

theorem query_answers_as_unfiltered:
  assumes "asked_quietly kn" "inventory lib kn (\<lambda>_. True) t = (Ok obs, t')"
  shows "\<exists>answer. answer_query lib kn show_match selector t = (answer, t')
    \<and> (if matching selector obs = [] \<and> match_name selector \<noteq> None
        then \<exists>e. answer = Err e \<and> be_kind e = NotFound
        else \<exists>found. answer = Ok found \<and> devices found = matching selector obs)"
proof -
  from inventory_parallel [OF assms(1), of selector lib] assms(2) obtain found where
    found: "inventory lib kn (may_match selector) t = (Ok found, t')" "agree_all selector (devices found) (devices obs)"
    unfolding parallel_def by blast
  from agree_matching [OF found(2)] found(1) show ?thesis
    by (auto simp: answer_query_def abind_def alift_def select_devices_def matching_def error_new_def Let_def)
qed

text \<open>A kernel with a driver behind the interface.\<close>

definition driver_kernel :: "unit kernel" where
  "driver_kernel = sample_kernel\<lparr>kn_drvinfo := (\<lambda>_ w. (Inr (''veth'' @ [CHR 0x00], [CHR 0x00]), w))\<rparr>"

definition driver_selector :: match_spec where
  "driver_selector = default_match\<lparr>match_name := Some ''eth0'', match_driver := Some ''veth''\<rparr>"

theorem query_answers_as_unfiltered_witness:
  "\<exists>found t'. answer_query sample_lib (logging driver_kernel) (\<lambda>_. []) driver_selector sample_transport = (Ok found, t')
     \<and> map identity (devices found) = [sample_target]"
proof -
  have quiet: "asked_quietly (logging driver_kernel)"
    by (simp add: asked_quietly_def logging_def logged_call_def driver_kernel_def sample_kernel_def case_prod_unfold Let_def)
  obtain r t' where i: "inventory sample_lib (logging driver_kernel) (\<lambda>_. True) sample_transport = (r, t')" by fastforce
  have "(case fst (inventory sample_lib (logging driver_kernel) (\<lambda>_. True) sample_transport) of
      Ok obs \<Rightarrow> map identity (matching driver_selector obs) = [sample_target] | _ \<Rightarrow> False)" by code_simp
  with i obtain obs where o: "r = Ok obs" "map identity (matching driver_selector obs) = [sample_target]" by (cases r) auto
  with query_answers_as_unfiltered [OF quiet i [unfolded o(1)], of "\<lambda>_. []" driver_selector] show ?thesis by (auto split: if_splits)
qed

end
