(* ===== verification/WorkerTrace.thy ===== *)
theory WorkerTrace
  imports LinuxExec
begin

text \<open>
  The worker as a state machine: a step takes a notification or answers a request, whatever the kernel does meanwhile.
  A relation that the calls of the transport keep is kept by every sequence of steps.
\<close>

section \<open>Steps\<close>

inductive worker_step ::
  "route_lib \<Rightarrow> 'w kernel \<Rightarrow> (match_spec \<Rightarrow> string) \<Rightarrow> (worker_request \<Rightarrow> bool) \<Rightarrow>
   'w transport \<Rightarrow> 'w transport \<Rightarrow> bool"
  for lib :: route_lib and kn :: "'w kernel" and show_match :: "match_spec \<Rightarrow> string"
    and asked :: "worker_request \<Rightarrow> bool" where
  notified: "next_notification lib item t = Some t' \<Longrightarrow> worker_step lib kn show_match asked t t'"
| answered: "asked req \<Longrightarrow> serve lib kn show_match (req, \<lambda>t. (closed t, t)) t = Some (reply, t')
    \<Longrightarrow> worker_step lib kn show_match asked t t'"

inductive_cases worker_step_cases: "worker_step lib kn show_match asked t t'"

abbreviation worker_steps ::
  "route_lib \<Rightarrow> 'w kernel \<Rightarrow> (match_spec \<Rightarrow> string) \<Rightarrow> (worker_request \<Rightarrow> bool) \<Rightarrow>
   'w transport \<Rightarrow> 'w transport \<Rightarrow> bool" where
  "worker_steps lib kn show_match asked \<equiv> (worker_step lib kn show_match asked)\<^sup>*\<^sup>*"

fun only_reads :: "worker_request \<Rightarrow> bool" where
  "only_reads (ApplyRequest _) = False"
| "only_reads _ = True"

text \<open>Queries and previews keep what the inventory keeps.\<close>

sublocale inventory_calls < reads: world_frame rel "linux_io lib kn ns (\<lambda>t. (closed t, t))" for ns closed
  using keeps_inventory
  by unfold_locales
    (simp_all add: linux_io_def keeps_def rel_refl rel_now case_prod_unfold Let_def, blast intro: rel_trans)

context inventory_calls
begin

lemma read_keeps:
  assumes "serve lib kn show_match (req, \<lambda>t. (closed t, t)) t = Some (reply, t')" "only_reads req"
  shows "rel t t'"
proof (cases req)
  case (QueryRequest selector)
  have "keeps (answer_query lib kn show_match selector)"
    unfolding answer_query_def by (intro keeps_rules keeps_inventory)
  then have "rel t (snd (answer_query lib kn show_match selector t))" by (simp add: keeps_def)
  with assms(1) show ?thesis by (auto simp: QueryRequest split: prod.splits outcome.splits)
next
  case (PreviewRequest diff)
  with assms(1) show ?thesis by (auto simp: preview_plan_def dest: reads.preview_run)
qed (use assms(2) in simp)

lemma notification_keeps: "next_notification lib item t = Some t' \<Longrightarrow> rel t t'"
  by (auto simp: next_notification_def rel_record split: if_splits)

lemma read_steps_keep: "worker_steps lib kn show_match only_reads t t' \<Longrightarrow> rel t t'"
  by (induction rule: rtranclp_induct)
    (auto intro: rel_refl rel_trans notification_keeps read_keeps elim!: worker_step_cases)

end

text \<open>Applications keep what writes keep too.\<close>

sublocale execution_calls < over: call_frame rel "linux_io lib kn ns (\<lambda>t. (closed t, t))" for ns closed
  using keeps_execute by unfold_locales (simp add: linux_io_def keeps_def case_prod_unfold Let_def)

context execution_calls
begin

lemma serve_keeps:
  assumes "serve lib kn show_match (req, \<lambda>t. (closed t, t)) t = Some (reply, t')"
  shows "rel t t'"
proof (cases req)
  case (ApplyRequest diff)
  with assms show ?thesis by (auto simp: apply_plan_def dest: over.any_run)
qed (use read_keeps [OF assms] in simp_all)

lemma steps_keep: "worker_steps lib kn show_match asked t t' \<Longrightarrow> rel t t'"
  by (induction rule: rtranclp_induct)
    (auto intro: rel_refl rel_trans notification_keeps serve_keeps elim!: worker_step_cases)

end

text \<open>C11: a worker that is asked for nothing but queries and previews never changes the kernel: however many it answers, of
  whatever plans, and whatever it is notified of in between, every request it sends is one that reads.\<close>

theorem reading_worker_never_writes:
  assumes "worker_steps lib (logging kn) show_match only_reads t t'"
  shows "writes t' = writes t"
  by (rule unwritten.read_steps_keep [OF assms])

definition mtu_plan :: state_diff where
  "mtu_plan = sample_diff [(sample_op (SetMtu 1400) None)\<lparr>target := sample_target\<rparr>]"

theorem reading_worker_never_writes_witness:
  "\<exists>report t'. serve sample_lib (logging sample_kernel) (\<lambda>_. []) (PreviewRequest mtu_plan, \<lambda>t. (False, t))
     sample_transport = Some (PreviewReply report, t')
     \<and> map po_context (dry_operations report) = planned_contexts mtu_plan \<and> writes t' = []"
proof -
  have laws: "header_laws sample_lib" by (auto simp: header_laws_def sample_lib_def LINK_HEADER_LEN_def split: if_splits)
  obtain reply t' where s: "serve sample_lib (logging sample_kernel) (\<lambda>_. [])
      (PreviewRequest mtu_plan, \<lambda>t. (False, t)) sample_transport = Some (reply, t')" "replies_to reply (PreviewRequest mtu_plan)"
    by (rule serve_replies [OF laws])
  then have "worker_steps sample_lib (logging sample_kernel) (\<lambda>_. []) only_reads sample_transport t'"
    by (intro r_into_rtranclp answered [where closed = "\<lambda>_. False" and req = "PreviewRequest mtu_plan"]) simp_all
  from reading_worker_never_writes [OF this] have "writes t' = []"
    by (simp add: writes_def exchanges_def sample_transport_def)
  with s show ?thesis by (cases reply) auto
qed

section \<open>Identities\<close>

text \<open>An identity that is not current does not become current again, unless the kernel draws its generation once more.\<close>

definition current_identity :: "u32 \<Rightarrow> u64 \<Rightarrow> 'w transport \<Rightarrow> bool" where
  "current_identity index generation t \<longleftrightarrow> lt_generations t index = Some generation"

definition redrawn :: "'w kernel \<Rightarrow> u64 \<Rightarrow> bool" where
  "redrawn kn generation \<longleftrightarrow> (\<exists>w. fst (kn_random kn w) = Inr generation)"

lemma current_identity_update [simp]:
  "current_identity index generation (t\<lparr>lt_world := w\<rparr>) = current_identity index generation t"
  "current_identity index generation (t\<lparr>lt_addresses := as\<rparr>) = current_identity index generation t"
  "current_identity index generation (t\<lparr>lt_invalidated := v\<rparr>) = current_identity index generation t"
  "current_identity index generation (t\<lparr>lt_generations := (lt_generations t)(i \<mapsto> g)\<rparr>) =
     (if i = index then g = generation else current_identity index generation t)"
  by (simp_all add: current_identity_def)

lemma current_identity_shrinks:
  "current_identity index generation (record_item lib item t) \<Longrightarrow> current_identity index generation t"
  "current_identity index generation (retain_generations ds t) \<Longrightarrow> current_identity index generation t"
  using record_item_shrinks [of t lib item]
  by (auto simp: current_identity_def identities_shrink_def map_le_def dom_def retain_generations_def split: if_splits)

interpretation stale_stays: execution_calls
  "\<lambda>t t' :: 'w transport. redrawn kn generation \<or> (current_identity index generation t' \<longrightarrow> current_identity index generation t)" lib kn
  for lib kn index generation
  by unfold_locales (auto simp: redrawn_def dest: current_identity_shrinks)

lemma execute_stale:
  assumes "execute lib (logging kn) tgt kind t = (r, t')" "\<not> current_identity (if_index tgt) (if_generation tgt) t"
  shows "r \<noteq> Ok () \<and> writes t' = writes t"
  using execute_logged [OF assms(1)] assms(2) by (auto simp: current_identity_def)

lemma redrawn_logging [simp]: "redrawn (logging kn) generation = redrawn kn generation"
proof -
  have "fst (kn_random (logging kn) (w, l)) = fst (kn_random kn w)" for w l
    by (simp add: logging_def logged_call_def case_prod_unfold Let_def)
  then show ?thesis by (auto simp: redrawn_def)
qed

lemma stale_io:
  assumes "\<not> redrawn kn generation" "\<not> current_identity index generation t"
  shows "\<not> current_identity index generation (snd (io_inventory (linux_io lib kn ns (\<lambda>t. (closed t, t))) t))"
    "\<not> current_identity index generation (snd (io_now (linux_io lib kn ns (\<lambda>t. (closed t, t))) t))"
    "\<not> current_identity index generation (snd (io_execute (linux_io lib kn ns (\<lambda>t. (closed t, t))) tgt kind t))"
proof -
  let ?io = "linux_io lib kn ns (\<lambda>t. (closed t, t))"
  let ?kept = "\<lambda>t'. redrawn kn generation \<or> (current_identity index generation t' \<longrightarrow> current_identity index generation t)"
  have "?kept (snd (io_inventory ?io t))" by (rule stale_stays.reads.keep_inventory)
  moreover have "?kept (snd (io_now ?io t))" by (rule stale_stays.reads.keep_now)
  moreover have "?kept (snd (io_execute ?io tgt kind t))" by (rule stale_stays.over.keep_execute)
  ultimately show "\<not> current_identity index generation (snd (io_inventory ?io t))"
    "\<not> current_identity index generation (snd (io_now ?io t))"
    "\<not> current_identity index generation (snd (io_execute ?io tgt kind t))"
    using assms by blast+
qed

text \<open>A plan for one interface whose identity is not current runs without a write.\<close>

interpretation stale_target: target_frame
  "\<lambda>t t' :: ('w \<times> exchange_log) transport.
     redrawn kn (if_generation tgt) \<or> current_identity (if_index tgt) (if_generation tgt) t
     \<or> (\<not> current_identity (if_index tgt) (if_generation tgt) t' \<and> writes t' = writes t)"
  "linux_io lib (logging kn) ns (\<lambda>t. (closed t, t))" "(=) tgt" for lib kn ns closed tgt
proof unfold_locales
  let ?io = "linux_io lib (logging kn) ns (\<lambda>t. (closed t, t))"
  let ?rel = "\<lambda>t t' :: ('w \<times> exchange_log) transport.
     redrawn kn (if_generation tgt) \<or> current_identity (if_index tgt) (if_generation tgt) t
     \<or> (\<not> current_identity (if_index tgt) (if_generation tgt) t' \<and> writes t' = writes t)"
  fix t :: "('w \<times> exchange_log) transport"
  note reads = over_linux_reads [of lib kn ns closed t]
  note stale = stale_io [of "logging kn" "if_generation tgt" "if_index tgt" t, simplified]
  show "?rel t (snd (io_inventory ?io t))" "?rel t (snd (io_now ?io t))"
    using reads(1,2) stale(1,2) by blast+
  show "?rel t (snd (io_cancelled ?io t))" by (simp add: linux_io_def)
  show "?rel t (snd (io_execute ?io other kind t))" if "tgt = other" for other kind
  proof -
    obtain r t' where e: "execute lib (logging kn) tgt kind t = (r, t')" by fastforce
    then have "snd (io_execute ?io other kind t) = t'" using that by (simp add: linux_io_def)
    with stale(3) [of lib ns closed other kind] execute_stale [OF e] show ?thesis by auto
  qed
qed auto

lemma deletion_recorded:
  assumes "next_notification lib (Some message) t = Some t'" "nm_payload message = InnerMessage packet"
    "deleted_link lib packet = Ok (Some index)"
  shows "\<not> current_identity index generation t'"
  using assms by (auto simp: next_notification_def record_item_def record_deletion_def current_identity_def split: if_splits)

text \<open>C3: once the worker was notified that an interface was deleted, a plan made for it before is refused, however many
  requests and notifications come in between and whatever interface takes its index or its name: applying it sends the
  kernel no write and reports no success.  All this relies on is that the generation of the interface is not drawn again.\<close>

theorem deleted_interface_is_not_written:
  assumes "next_notification lib (Some message) before = Some t" "nm_payload message = InnerMessage packet"
    and "deleted_link lib packet = Ok (Some (if_index tgt))"
    and "\<not> redrawn kn (if_generation tgt)"
    and "worker_steps lib (logging kn) show_match asked t t'"
    and "\<And>op. op \<in> set (operations diff) \<Longrightarrow> target op = tgt"
  shows "case serve lib (logging kn) show_match (ApplyRequest diff, \<lambda>t. (closed t, t)) t' of
     Some (reply, t'') \<Rightarrow> \<exists>report. reply = ApplyReply report \<and> writes t'' = writes t' \<and> succeeded report = []
   | None \<Rightarrow> \<not> header_laws lib"
proof -
  have stale: "\<not> current_identity (if_index tgt) (if_generation tgt) t'"
    using stale_stays.steps_keep [OF assms(5)] deletion_recorded [OF assms(1-3)] assms(4) redrawn_logging by blast
  let ?served = "serve lib (logging kn) show_match (ApplyRequest diff, \<lambda>t. (closed t, t)) t'"
  have "\<exists>report. reply = ApplyReply report \<and> writes t'' = writes t' \<and> succeeded report = []"
    if served: "?served = Some (reply, t'')" for reply t''
  proof -
    from applied_requests [OF served] obtain report sent js where s: "reply = ApplyReply report"
      "writes t'' = writes t' @ sent" "list_all2 (accounts lib (kn_metadata kn) diff report) js sent"
      "ctx_index ` set (succeeded report) \<subseteq> set js" by blast
    with served have r: "run (linux_io lib (logging kn) (lt_namespace t') (\<lambda>t. (closed t, t))) diff False t' = Some (report, t'')"
      by (auto simp: apply_plan_def)
    have "redrawn kn (if_generation tgt) \<or> current_identity (if_index tgt) (if_generation tgt) t'
        \<or> (\<not> current_identity (if_index tgt) (if_generation tgt) t'' \<and> writes t'' = writes t')"
      by (rule stale_target.target_run [OF _ r]) (simp add: assms(6))
    with assms(4) stale have "writes t'' = writes t'" by blast
    with s show ?thesis by auto
  qed
  moreover have "\<not> header_laws lib" if "?served = None" using that by (rule serve_stops)
  ultimately show ?thesis by (cases ?served) (auto simp del: serve.simps)
qed

text \<open>The interface of index 7 had generation 8 when the plan was made; the kernel deletes it and makes another.\<close>

definition old_target :: interface_id where
  "old_target = sample_target\<lparr>if_generation := 8\<rparr>"

definition old_plan :: state_diff where
  "old_plan = sample_diff [(sample_op (SetMtu 1400) None)\<lparr>target := old_target\<rparr>]"

definition deletion :: netlink_message where
  "deletion = \<lparr>nm_flags = 0, nm_payload = InnerMessage \<lparr>pk_kind = RTM_DELLINK, pk_body = replicate 16 (CHR 0x00)\<rparr>\<rparr>"

theorem deleted_interface_is_not_written_witness:
  "\<exists>t' report t''.
     serve sample_lib (logging sample_kernel) (\<lambda>_. []) (QueryRequest default_match, \<lambda>t. (False, t))
       (record_deletion 7 sample_transport) = Some (QueryReply (fst (answer_query sample_lib (logging sample_kernel) (\<lambda>_. [])
          default_match (record_deletion 7 sample_transport))), t')
     \<and> serve sample_lib (logging sample_kernel) (\<lambda>_. []) (ApplyRequest old_plan, \<lambda>t. (False, t)) t'
         = Some (ApplyReply report, t'')
     \<and> writes t'' = writes t' \<and> succeeded report = []"
proof -
  let ?t = "record_deletion 7 sample_transport"
  let ?answer = "answer_query sample_lib (logging sample_kernel) (\<lambda>_. []) default_match ?t"
  have deleted: "deleted_link sample_lib \<lparr>pk_kind = RTM_DELLINK, pk_body = replicate 16 (CHR 0x00)\<rparr> = Ok (Some 7)" by code_simp
  have noted: "next_notification sample_lib (Some deletion) sample_transport = Some ?t"
    by (simp add: next_notification_def record_item_def deletion_def deleted) (simp add: sample_transport_def)
  have laws: "header_laws sample_lib" by (auto simp: header_laws_def sample_lib_def LINK_HEADER_LEN_def split: if_splits)
  have "fst ?answer \<noteq> Panic" by (rule answer_query_returns [OF laws])
  then have q: "serve sample_lib (logging sample_kernel) (\<lambda>_. []) (QueryRequest default_match, \<lambda>t. (False, t)) ?t
      = Some (QueryReply (fst ?answer), snd ?answer)"
    by (cases ?answer; cases "fst ?answer") auto
  then have steps: "worker_steps sample_lib (logging sample_kernel) (\<lambda>_. []) (\<lambda>_. True) ?t (snd ?answer)"
    by (intro r_into_rtranclp answered [where closed = "\<lambda>_. False" and req = "QueryRequest default_match"]) (rule TrueI)
  have fresh: "\<not> redrawn sample_kernel (if_generation old_target)"
    by (simp add: redrawn_def sample_kernel_def old_target_def)
  have "case serve sample_lib (logging sample_kernel) (\<lambda>_. []) (ApplyRequest old_plan, \<lambda>t. (False, t)) (snd ?answer) of
      Some (reply, t'') \<Rightarrow> \<exists>report. reply = ApplyReply report \<and> writes t'' = writes (snd ?answer) \<and> succeeded report = []
    | None \<Rightarrow> \<not> header_laws sample_lib"
    by (rule deleted_interface_is_not_written [OF noted _ _ fresh steps, where closed = "\<lambda>_. False"])
      (use deleted in \<open>simp_all add: deletion_def old_target_def sample_target_def old_plan_def sample_diff_def\<close>)
  with laws have "\<exists>report t''. serve sample_lib (logging sample_kernel) (\<lambda>_. []) (ApplyRequest old_plan, \<lambda>t. (False, t)) (snd ?answer)
      = Some (ApplyReply report, t'') \<and> writes t'' = writes (snd ?answer) \<and> succeeded report = []"
    by (auto simp del: serve.simps split: option.splits)
  with q show ?thesis by blast
qed

end
