(* ===== verification/StateTests.thy ===== *)
theory StateTests
  imports Plan TestBase
begin

text \<open>
  The unit tests of \<open>value.rs\<close>, \<open>source.rs\<close>, \<open>match_spec.rs\<close>, \<open>state.rs\<close> and \<open>plan.rs\<close> of \<open>crates/netfyr-state/src\<close>, restated over
  the model and evaluated.  The test of fresh metadata is not: identifiers and times are arguments of the model.
\<close>

section \<open>Values\<close>

definition ip_text :: "string \<Rightarrow> ip_addr" where
  "ip_text s = the (parse_ip s)"

definition display_string_bare :: bool where
  "display_string_bare \<longleftrightarrow> show_value (VString ''hello'') = ''hello''"

definition display_u64 :: bool where
  "display_u64 \<longleftrightarrow> show_value (VU64 9000) = ''9000''"

definition display_i64 :: bool where
  "display_i64 \<longleftrightarrow> show_value (VI64 (- 5)) = ''-5''"

definition display_bool :: bool where
  "display_bool \<longleftrightarrow> show_value (VBool True) = ''true'' \<and> show_value (VBool False) = ''false''"

definition display_ip_addr :: bool where
  "display_ip_addr \<longleftrightarrow>
     show_value (VIpAddr (ip_text ''10.0.1.5'')) = ''10.0.1.5''
     \<and> show_value (VIpAddr (ip_text ''2001:db8::1'')) = ''2001:db8::1''"

definition display_ip_network_keeps_host_bits :: bool where
  "display_ip_network_keeps_host_bits \<longleftrightarrow> show_value (VIpNetwork (ip_text ''10.0.1.50'', 24)) = ''10.0.1.50/24''"

definition display_list :: bool where
  "display_list \<longleftrightarrow> show_value (VList [VU64 1, VBool True]) = ''[1, true]'' \<and> show_value (VList []) = ''[]''"

definition display_map :: bool where
  "display_map \<longleftrightarrow>
     show_value (VMap (im_insert (im_insert [] ''a'' (VU64 1)) ''b'' (VBool True))) = ''{a: 1, b: true}''
     \<and> show_value (VMap []) = ''{}''"

definition nested_map :: fields where
  "nested_map = im_insert [] ''z'' (VBool False)"

definition map_equality_is_order_sensitive :: bool where
  "map_equality_is_order_sensitive \<longleftrightarrow>
     (let a = im_insert (im_insert [] ''x'' (VU64 1)) ''y'' (VU64 2);
          b = im_insert (im_insert [] ''x'' (VU64 1)) ''y'' (VU64 2);
          c = im_insert (im_insert [] ''y'' (VU64 2)) ''x'' (VU64 1);
          na = im_insert (im_insert [] ''x'' (VU64 1)) ''y'' (VMap nested_map);
          nc = im_insert (im_insert [] ''y'' (VMap nested_map)) ''x'' (VU64 1);
          d = im_insert [] ''x'' (VU64 1) in
      value_eq (VMap a) (VMap b) \<and> \<not> value_eq (VMap a) (VMap c) \<and> \<not> value_eq (VMap na) (VMap nc)
      \<and> \<not> value_eq (VMap a) (VMap d))"

definition cross_variant_inequality :: bool where
  "cross_variant_inequality \<longleftrightarrow>
     \<not> value_eq (VU64 1) (VI64 1) \<and> \<not> value_eq (VString ''1'') (VU64 1)
     \<and> \<not> value_eq (VIpAddr (ip_text ''10.0.1.5'')) (VIpNetwork (ip_text ''10.0.1.5'', 24))
     \<and> \<not> value_eq (VBool True) (VU64 1) \<and> \<not> value_eq (VList [VU64 1]) (VU64 1) \<and> \<not> value_eq (VMap []) (VList [])"

lemma replicate_five: "replicate 5 x = [x, x, x, x, x]"
  by (simp add: numeral_eq_Suc)

lemma ip_texts:
  "ip_text ''10.0.1.5'' = V4 0x0A000105" "ip_text ''10.0.1.50'' = V4 0x0A000132"
  "ip_text ''2001:db8::1'' = V6 0x20010db8000000000000000000000001"
  by (simp_all add: ip_text_def address_read replicate_five numeral_2_eq_2)

theorem display_tests_pass:
  "display_string_bare" "display_u64" "display_i64" "display_bool" "display_ip_addr" "display_ip_network_keeps_host_bits"
  "display_list" "display_map"
  by (simp_all add: display_string_bare_def display_u64_def display_i64_def display_bool_def display_ip_addr_def
      display_ip_network_keeps_host_bits_def display_list_def display_map_def ip_texts address_shown)

theorem value_equality_tests_pass:
  "map_equality_is_order_sensitive" "cross_variant_inequality"
  by (simp_all add: map_equality_is_order_sensitive_def nested_map_def cross_variant_inequality_def)

section \<open>Sources\<close>

definition default_priority_exact_values :: bool where
  "default_priority_exact_values \<longleftrightarrow>
     default_priority (Static ''p'') = 100 \<and> default_priority (Vpn ''p'') = 75 \<and> default_priority (Dhcp ''p'') = 50
     \<and> default_priority (Ra ''p'') = 25 \<and> default_priority Kernel = 0"

definition precedence_order_static_vpn_dhcp_ra_kernel :: bool where
  "precedence_order_static_vpn_dhcp_ra_kernel \<longleftrightarrow>
     default_priority (Static []) > default_priority (Vpn []) \<and> default_priority (Vpn []) > default_priority (Dhcp [])
     \<and> default_priority (Dhcp []) > default_priority (Ra []) \<and> default_priority (Ra []) > default_priority Kernel"

definition policy_accessor :: bool where
  "policy_accessor \<longleftrightarrow>
     source_policy (Static ''a'') = Some ''a'' \<and> source_policy (Vpn ''b'') = Some ''b'' \<and> source_policy (Dhcp ''c'') = Some ''c''
     \<and> source_policy (Ra ''d'') = Some ''d'' \<and> source_policy Kernel = None \<and> Static ''a'' \<noteq> Static ''b''"

theorem source_tests_pass:
  "default_priority_exact_values" "precedence_order_static_vpn_dhcp_ra_kernel" "policy_accessor"
  by code_simp+

section \<open>Selectors\<close>

definition mk_match ::
  "string option \<Rightarrow> string option \<Rightarrow> string option \<Rightarrow> string option \<Rightarrow> string option \<Rightarrow> match_spec" where
  "mk_match name kind driver pci_path mac =
     \<lparr>match_name = name, match_type = kind, match_driver = driver, match_pci_path = pci_path, match_mac = mac\<rparr>"

definition full_match :: match_spec where
  "full_match = mk_match (Some ''eth0'') (Some ''ethernet'') (Some ''ixgbe'') (Some ''0000:00:02.0'') (Some ''aa:bb:cc:dd:ee:ff'')"

definition name_only_matches :: bool where
  "name_only_matches \<longleftrightarrow> matches (mk_match (Some ''eth0'') None None None None) full_match"

definition name_only_mismatch :: bool where
  "name_only_mismatch \<longleftrightarrow>
     \<not> matches (mk_match (Some ''eth0'') None None None None)
         (mk_match (Some ''eth1'') (Some ''ethernet'') (Some ''ixgbe'') None None)"

definition name_type_matches :: bool where
  "name_type_matches \<longleftrightarrow> matches (mk_match (Some ''eth0'') (Some ''ethernet'') None None None) full_match"

definition name_type_mismatch :: bool where
  "name_type_mismatch \<longleftrightarrow>
     \<not> matches (mk_match (Some ''eth0'') (Some ''ethernet'') None None None) (mk_match (Some ''eth1'') (Some ''ethernet'') None None None)"

definition and_logic_all_set_fields_must_match :: bool where
  "and_logic_all_set_fields_must_match \<longleftrightarrow>
     (let a = mk_match None None (Some ''ixgbe'') (Some ''0000:00:02.0'') None;
          b = mk_match None None (Some ''ixgbe'') (Some ''0000:00:02.0'') None;
          c = mk_match None None (Some ''ixgbe'') (Some ''0000:00:03.0'') None in
      matches a b \<and> \<not> matches a c)"

definition asymmetry_partial_matches_full_but_not_reverse :: bool where
  "asymmetry_partial_matches_full_but_not_reverse \<longleftrightarrow>
     (let partial = mk_match (Some ''eth0'') None None None None in matches partial full_match \<and> \<not> matches full_match partial)"

definition mac_case_insensitive_both_orders :: bool where
  "mac_case_insensitive_both_orders \<longleftrightarrow>
     (let upper = mk_match None None None None (Some ''AA:BB:CC:DD:EE:FF'');
          lower = mk_match None None None None (Some ''aa:bb:cc:dd:ee:ff'') in
      matches upper lower \<and> matches lower upper)"

definition set_in_self_unset_in_other_is_mismatch :: bool where
  "set_in_self_unset_in_other_is_mismatch \<longleftrightarrow>
     \<not> matches (mk_match (Some ''eth0'') None None None None) default_match
     \<and> \<not> matches (mk_match None (Some ''ethernet'') None None None) default_match
     \<and> \<not> matches (mk_match None None (Some ''ixgbe'') None None) default_match
     \<and> \<not> matches (mk_match None None None (Some ''0000:00:02.0'') None) default_match
     \<and> \<not> matches (mk_match None None None None (Some ''aa:bb:cc:dd:ee:ff'')) default_match"

definition empty_match_matches_anything :: bool where
  "empty_match_matches_anything \<longleftrightarrow>
     matches default_match full_match \<and> match_is_empty default_match
     \<and> \<not> match_is_empty (mk_match (Some ''eth0'') None None None None)"

theorem match_tests_pass:
  "name_only_matches" "name_only_mismatch" "name_type_matches" "name_type_mismatch" "and_logic_all_set_fields_must_match"
  "asymmetry_partial_matches_full_but_not_reverse" "mac_case_insensitive_both_orders"
  "set_in_self_unset_in_other_is_mismatch" "empty_match_matches_anything"
  by code_simp+

section \<open>States\<close>

definition test_metadata :: state_metadata where
  "test_metadata = \<lparr>md_id = 1, md_created_at = 0\<rparr>"

definition state_with :: "string \<Rightarrow> fields \<Rightarrow> dev_state" where
  "state_with kind fs =
     \<lparr>device_type = kind, st_match = default_match, st_fields = fs, st_source = Static [], st_priority = 100,
      st_metadata = test_metadata\<rparr>"

definition two_fields :: fields where
  "two_fields = im_insert (im_insert [] ''mtu'' (VU64 9000)) ''enabled'' (VBool True)"

definition new_derives_priority_and_empty_content :: bool where
  "new_derives_priority_and_empty_content \<longleftrightarrow>
     list_all (\<lambda>(src, expected). let s = new_state test_metadata src in
         st_priority s = expected \<and> device_type s = [] \<and> match_is_empty (st_match s) \<and> st_fields s = [])
       [(Static [], 100), (Vpn [], 75), (Dhcp [], 50), (Ra [], 25), (Kernel, 0)]"

definition content_eq_true_for_same_content_different_runtime_fields :: bool where
  "content_eq_true_for_same_content_different_runtime_fields \<longleftrightarrow>
     content_eq (state_with ''ethernet'' two_fields)
       ((state_with ''ethernet'' two_fields)\<lparr>st_source := Kernel, st_priority := 0, st_metadata := \<lparr>md_id = 2, md_created_at = 1\<rparr>\<rparr>)"

definition content_eq_false_on_device_type :: bool where
  "content_eq_false_on_device_type \<longleftrightarrow> \<not> content_eq (state_with ''ethernet'' two_fields) (state_with ''wifi'' two_fields)"

definition content_eq_false_on_match_spec :: bool where
  "content_eq_false_on_match_spec \<longleftrightarrow>
     (let named = (\<lambda>n s. s\<lparr>st_match := (st_match s)\<lparr>match_name := Some n\<rparr>\<rparr>) in
      \<not> content_eq (named ''eth0'' (state_with ''ethernet'' two_fields)) (named ''eth1'' (state_with ''ethernet'' two_fields)))"

definition content_eq_false_on_field_value :: bool where
  "content_eq_false_on_field_value \<longleftrightarrow>
     \<not> content_eq (state_with ''ethernet'' two_fields) (state_with ''ethernet'' (im_insert two_fields ''mtu'' (VU64 1500)))"

definition content_eq_false_on_field_key_set :: bool where
  "content_eq_false_on_field_key_set \<longleftrightarrow>
     \<not> content_eq (state_with ''ethernet'' (im_insert [] ''mtu'' (VU64 9000)))
         (state_with ''ethernet'' (im_insert (im_insert [] ''mtu'' (VU64 9000)) ''extra'' (VBool True)))"

definition content_eq_false_on_field_order :: bool where
  "content_eq_false_on_field_order \<longleftrightarrow>
     \<not> content_eq (state_with ''ethernet'' (im_insert (im_insert [] ''first'' (VU64 1)) ''second'' (VU64 2)))
         (state_with ''ethernet'' (im_insert (im_insert [] ''second'' (VU64 2)) ''first'' (VU64 1)))"

theorem state_tests_pass:
  "new_derives_priority_and_empty_content" "content_eq_true_for_same_content_different_runtime_fields"
  "content_eq_false_on_device_type" "content_eq_false_on_match_spec" "content_eq_false_on_field_value"
  "content_eq_false_on_field_key_set" "content_eq_false_on_field_order"
  by code_simp+

section \<open>Plans\<close>

definition plan_address :: "u8 \<Rightarrow> ipv4_address" where
  "plan_address len = \<lparr>ip = ipv4_of_octets [192, 0, 2, 129], prefix_len = len, valid_lft = None, preferred_lft = None\<rparr>"

definition prefix_groups_keep_host_identity_and_handle_boundaries :: bool where
  "prefix_groups_keep_host_identity_and_handle_boundaries \<longleftrightarrow>
     list_all (\<lambda>(len, network). group (plan_address len) = Some (ipv4_of_octets network, len)
         \<and> ip (plan_address len) = ipv4_of_octets [192, 0, 2, 129])
       [(0, [0, 0, 0, 0]), (1, [128, 0, 0, 0]), (24, [192, 0, 2, 0]), (25, [192, 0, 2, 128]), (31, [192, 0, 2, 128]),
        (32, [192, 0, 2, 129])]
     \<and> group (plan_address 33) = None \<and> group (plan_address 255) = None"

definition lifetimes_preserve_explicit_deprecation_and_finite_defaults :: bool where
  "lifetimes_preserve_explicit_deprecation_and_finite_defaults \<longleftrightarrow>
     (let a = plan_address 24; b = a\<lparr>valid_lft := Some 3600\<rparr>; c = b\<lparr>preferred_lft := Some 0\<rparr>; d = c\<lparr>valid_lft := None\<rparr> in
      lifetimes a = (u32_max, u32_max) \<and> lifetimes b = (3600, 3600) \<and> lifetimes c = (3600, 0)
      \<and> validate_address c = Ok () \<and> lifetimes d = (u32_max, 0))"

definition addition_validation_rejects_invalid_prefix_and_lifetime_order :: bool where
  "addition_validation_rejects_invalid_prefix_and_lifetime_order \<longleftrightarrow>
     (let a = plan_address 24 in
      validate_address (plan_address 33) = Err PrefixTooLong
      \<and> validate_address (a\<lparr>valid_lft := Some 0\<rparr>) = Err ZeroValidLifetime
      \<and> validate_address (a\<lparr>valid_lft := Some 60, preferred_lft := Some 61\<rparr>) = Err PreferredExceedsValid
      \<and> validate_address (a\<lparr>valid_lft := Some 60, preferred_lft := Some 60\<rparr>) = Ok ())"

definition identity_ignores_lifetimes_but_not_prefix :: bool where
  "identity_ignores_lifetimes_but_not_prefix \<longleftrightarrow>
     same_identity (plan_address 24) ((plan_address 24)\<lparr>valid_lft := Some 5\<rparr>)
     \<and> \<not> same_identity (plan_address 24) (plan_address 25)"

definition kernel_group_follows_the_peer_when_present :: bool where
  "kernel_group_follows_the_peer_when_present \<longleftrightarrow>
     (let observed = \<lparr>address = plan_address 24, addr_flags = 0, scope = 0, peer = None\<rparr>;
          peered = observed\<lparr>peer := Some (ipv4_of_octets [198, 51, 100, 9])\<rparr> in
      kernel_group observed = Some (ipv4_of_octets [192, 0, 2, 0], 24)
      \<and> kernel_group peered = Some (ipv4_of_octets [198, 51, 100, 0], 24)
      \<and> kernel_group (peered\<lparr>address := (address peered)\<lparr>prefix_len := 33\<rparr>\<rparr>) = None)"

definition operation_names_fields_and_addresses_are_reported_per_kind :: bool where
  "operation_names_fields_and_addresses_are_reported_per_kind \<longleftrightarrow>
     (let a = plan_address 24 in
      list_all (\<lambda>(kind, name, field, addr). kind_name kind = name \<and> kind_field kind = field \<and> kind_address kind = addr)
        [(SetMtu 1500, ''set_mtu'', Some ''mtu'', None),
         (SetEnabled True, ''set_enabled'', Some ''enabled'', None),
         (AddIpv4 a, ''add_ipv4'', Some ''ipv4.addresses'', Some a),
         (RemoveIpv4 a, ''remove_ipv4'', Some ''ipv4.addresses'', Some a),
         (ReplaceIpv4 a, ''replace_ipv4'', Some ''ipv4.addresses'', Some a),
         (SetField ''ethernet.speed'' (VU64 1), ''set_field'', Some ''ethernet.speed'', None),
         (AddEntity, ''add_entity'', None, None),
         (RemoveEntity, ''remove_entity'', None, None)])"

lemmas group_eval = group_def kernel_group_def masked_def checked_shl_def plan_address_def ipv4_of_octets_def u32_max_def

theorem group_tests_pass:
  "prefix_groups_keep_host_identity_and_handle_boundaries" "kernel_group_follows_the_peer_when_present"
  by (simp_all add: prefix_groups_keep_host_identity_and_handle_boundaries_def kernel_group_follows_the_peer_when_present_def group_eval)

theorem address_tests_pass:
  "lifetimes_preserve_explicit_deprecation_and_finite_defaults"
  "addition_validation_rejects_invalid_prefix_and_lifetime_order" "identity_ignores_lifetimes_but_not_prefix"
  "operation_names_fields_and_addresses_are_reported_per_kind"
  by (simp_all add: lifetimes_preserve_explicit_deprecation_and_finite_defaults_def addition_validation_rejects_invalid_prefix_and_lifetime_order_def identity_ignores_lifetimes_but_not_prefix_def
      operation_names_fields_and_addresses_are_reported_per_kind_def lifetimes_def plan_address_def u32_max_def validate_address_def same_identity_def)

end
