(* ===== verification/YamlTexts.thy ===== *)
theory YamlTexts
  imports SchemaRegFacts Yaml TestBase
begin

text \<open>
  What the restated tests on documents build their inputs from.  The text phase is a parameter of the model, so a test gives its
  texts with the trees they read as and are printed from: \<open>table_lib\<close> is the library that knows these documents.
\<close>

datatype test_number = Whole int | Fraction string

type_synonym doc = "test_number yaml"

definition table_lib :: "(string \<times> doc) list \<Rightarrow> test_number yaml_lib" where
  "table_lib table =
     \<lparr>as_u64 = (\<lambda>n. case n of Whole i \<Rightarrow> if 0 \<le> i \<and> i < 2 ^ 64 then Some (word_of_int i) else None | Fraction _ \<Rightarrow> None),
      as_i64 = (\<lambda>n. case n of Whole i \<Rightarrow> if - (2 ^ 63) \<le> i \<and> i < 2 ^ 63 then Some (word_of_int i) else None
                            | Fraction _ \<Rightarrow> None),
      number_text = (\<lambda>n. case n of Whole i \<Rightarrow> show_int i | Fraction text \<Rightarrow> text),
      number_of_u64 = (\<lambda>u. Whole (uint u)), number_of_i64 = (\<lambda>i. Whole (sint i)),
      as_str = (\<lambda>y. case y of YString s \<Rightarrow> Some s | _ \<Rightarrow> None),
      as_mapping = (\<lambda>y. case y of YMapping m \<Rightarrow> Some m | _ \<Rightarrow> None),
      yaml_read = (\<lambda>text. case map_of table text of Some doc \<Rightarrow> Ok doc | None \<Rightarrow> Err ''unknown document''),
      yaml_print = (\<lambda>doc. case map_of (map (\<lambda>(text, d). (d, text)) table) doc of
                             Some text \<Rightarrow> Ok text | None \<Rightarrow> Err ''unknown document'')\<rparr>"

text \<open>Fresh metadata: the state at each index has an identifier of its own.\<close>

definition test_fresh :: "nat \<Rightarrow> state_metadata" where
  "test_fresh i = \<lparr>md_id = of_nat i, md_created_at = 0\<rparr>"

definition test_lines :: "string list \<Rightarrow> string" where
  "test_lines texts = join [CHR 0x0A] texts"

definition mapping :: "(string \<times> doc) list \<Rightarrow> doc" where
  "mapping entries = YMapping (map (\<lambda>(k, v). (YString k, v)) entries)"

definition texts :: "(string \<times> string) list \<Rightarrow> doc" where
  "texts entries = mapping (map (\<lambda>(k, v). (k, YString v)) entries)"

definition number :: "int \<Rightarrow> doc" where
  "number i = YNumber (Whole i)"

text \<open>\<open>ipv4: { addresses: [{ ip: .. }, ..] }\<close>, as a document and as a value.\<close>

definition address_doc :: "string list \<Rightarrow> doc" where
  "address_doc cidrs = mapping [(''addresses'', YSequence (map (\<lambda>cidr. texts [(''ip'', cidr)]) cidrs))]"

definition ipv4_with_addresses :: "string list \<Rightarrow> cval" where
  "ipv4_with_addresses cidrs =
     VMap [(''addresses'', VList (map (\<lambda>cidr. VMap [(''ip'', VIpNetwork (the (parse_ip_network cidr)))]) cidrs))]"

definition match_eth :: "string \<Rightarrow> string \<times> doc" where
  "match_eth name = (''match'', texts [(''name'', name)])"

definition read_table :: "(string \<times> doc) list \<Rightarrow> string \<Rightarrow> (dev_state list, state_error) outcome" where
  "read_table table text = from_yaml_with_registry (table_lib table) test_fresh text embedded_registry"

definition read_as :: "string \<Rightarrow> doc \<Rightarrow> (dev_state list, state_error) outcome" where
  "read_as text doc = read_table [(text, doc)] text"

definition on_first :: "(dev_state \<Rightarrow> bool) \<Rightarrow> (dev_state list, state_error) outcome \<Rightarrow> bool" where
  "on_first P r = returns_ok (\<lambda>states. case states of st # _ \<Rightarrow> P st | [] \<Rightarrow> False) r"

definition field_of :: "string \<Rightarrow> dev_state \<Rightarrow> cval option" where
  "field_of key st = im_get (st_fields st) key"

definition st_of :: "string \<Rightarrow> match_spec \<Rightarrow> fields \<Rightarrow> dev_state" where
  "st_of kind m fs =
     \<lparr>device_type = kind, st_match = m, st_fields = fs, st_source = Static [], st_priority = 100,
      st_metadata = \<lparr>md_id = 77, md_created_at = 0\<rparr>\<rparr>"

definition match_named :: "string \<Rightarrow> match_spec" where
  "match_named name = default_match\<lparr>match_name := Some name\<rparr>"

end
