(* ===== verification/YamlReadTests.thy ===== *)
theory YamlReadTests
  imports YamlTexts
begin

text \<open>
  The unit tests of \<open>crates/netfyr-state/src/yaml.rs\<close> on reading, restated over the model and evaluated.
\<close>

section \<open>Documents\<close>

definition match_extracted_remaining_keys_are_fields :: bool where
  "match_extracted_remaining_keys_are_fields \<longleftrightarrow>
     on_first (\<lambda>s. match_name (st_match s) = Some ''eth0'' \<and> field_of ''match'' s = None
         \<and> field_of ''mtu'' s = Some (VU64 9000) \<and> field_of ''ipv4'' s = Some (ipv4_with_addresses [''10.0.1.50/24'']))
       (read_as (test_lines [''match:'', ''  name: eth0'', ''mtu: 9000'', ''ipv4:'', ''  addresses:'', ''    - ip: 10.0.1.50/24'', ''''])
          (mapping [(''match'', texts [(''name'', ''eth0'')]), (''mtu'', number 9000), (''ipv4'', address_doc [''10.0.1.50/24''])]))"

definition unknown_cidr_like_field_remains_string :: bool where
  "unknown_cidr_like_field_remains_string \<longleftrightarrow>
     on_first (\<lambda>s. field_of ''subnet'' s = Some (VString ''10.0.1.0/24''))
       (read_as (test_lines [''match:'', ''  name: eth0'', ''subnet: 10.0.1.0/24''])
          (mapping [(''match'', texts [(''name'', ''eth0'')]), (''subnet'', YString ''10.0.1.0/24'')]))"

definition top_level_list_yields_states_in_order :: bool where
  "top_level_list_yields_states_in_order \<longleftrightarrow>
     returns_ok (\<lambda>states. map (\<lambda>s. (field_of ''name'' s, field_of ''mtu'' s)) states
         = [(Some (VString ''eth0''), Some (VU64 9000)), (Some (VString ''eth1''), Some (VU64 1500))])
       (read_as (test_lines [''- name: eth0'', ''  mtu: 9000'', ''- name: eth1'', ''  mtu: 1500'', ''''])
          (YSequence [mapping [(''name'', YString ''eth0''), (''mtu'', number 9000)],
                      mapping [(''name'', YString ''eth1''), (''mtu'', number 1500)]]))"

definition address_list_order_preserved :: bool where
  "address_list_order_preserved \<longleftrightarrow>
     (let tree = mapping [(''match'', texts [(''name'', ''eth0'')]), (''ipv4'', address_doc [''10.0.1.2/24'', ''10.0.1.1/24''])];
          input = test_lines [''match:'', ''  name: eth0'', ''ipv4:'', ''  addresses:'', ''    - ip: 10.0.1.2/24'',
            ''    - ip: 10.0.1.1/24'', ''''];
          printed = test_lines [''match:'', ''  name: eth0'', ''ipv4:'', ''  addresses:'', ''  - ip: 10.0.1.2/24'',
            ''  - ip: 10.0.1.1/24'', ''''] in
      on_first (\<lambda>s. field_of ''ipv4'' s = Some (ipv4_with_addresses [''10.0.1.2/24'', ''10.0.1.1/24''])
          \<and> returns_ok (\<lambda>text. text = printed \<and> on_first (content_eq s) (read_table [(printed, tree)] text))
              (to_yaml_policy (table_lib [(printed, tree)]) [s] embedded_registry))
        (read_as input tree))"

theorem document_tests_pass:
  "match_extracted_remaining_keys_are_fields" "unknown_cidr_like_field_remains_string" "top_level_list_yields_states_in_order"
  "address_list_order_preserved"
  by code_simp+

section \<open>Scalars\<close>

text \<open>Which scalar a plain word is, is decided by the library; the tree has the answer.\<close>

definition bool_lowercase :: bool where
  "bool_lowercase \<longleftrightarrow>
     on_first (\<lambda>s. field_of ''x'' s = Some (VBool True) \<and> field_of ''y'' s = Some (VBool False))
       (read_as (test_lines [''x: true'', ''y: false'']) (mapping [(''x'', YBool True), (''y'', YBool False)]))"

definition bool_capitalized_spellings :: bool where
  "bool_capitalized_spellings \<longleftrightarrow>
     on_first (\<lambda>s. map (\<lambda>k. field_of k s) [''a'', ''b'', ''c''] = [Some (VBool True), Some (VBool True), Some (VBool False)])
       (read_as (test_lines [''a: True'', ''b: TRUE'', ''c: FALSE''])
          (mapping [(''a'', YBool True), (''b'', YBool True), (''c'', YBool False)]))"

definition non_negative_int_u64 :: bool where
  "non_negative_int_u64 \<longleftrightarrow>
     on_first (\<lambda>s. field_of ''mtu'' s = Some (VU64 9000)) (read_as ''mtu: 9000'' (mapping [(''mtu'', number 9000)]))"

definition negative_int_i64 :: bool where
  "negative_int_i64 \<longleftrightarrow>
     on_first (\<lambda>s. field_of ''x'' s = Some (VI64 (- 5))) (read_as ''x: -5'' (mapping [(''x'', number (- 5))]))"

definition cidr_like_unknown_values_remain_strings :: bool where
  "cidr_like_unknown_values_remain_strings \<longleftrightarrow>
     on_first (\<lambda>s. field_of ''v4'' s = Some (VString ''10.0.1.50/24'') \<and> field_of ''v6'' s = Some (VString ''2001:db8::/32''))
       (read_as (test_lines [''v4: 10.0.1.50/24'', ''v6: 2001:db8::/32''])
          (texts [(''v4'', ''10.0.1.50/24''), (''v6'', ''2001:db8::/32'')]))"

definition bare_ip_like_unknown_values_remain_strings :: bool where
  "bare_ip_like_unknown_values_remain_strings \<longleftrightarrow>
     on_first (\<lambda>s. field_of ''v4'' s = Some (VString ''10.0.1.5'') \<and> field_of ''v6'' s = Some (VString ''2001:db8::1''))
       (read_as (test_lines [''v4: 10.0.1.5'', ''v6: 2001:db8::1'']) (texts [(''v4'', ''10.0.1.5''), (''v6'', ''2001:db8::1'')]))"

definition plain_word_and_yes_are_strings :: bool where
  "plain_word_and_yes_are_strings \<longleftrightarrow>
     on_first (\<lambda>s. field_of ''word'' s = Some (VString ''hello'') \<and> field_of ''y'' s = Some (VString ''yes''))
       (read_as (test_lines [''word: hello'', ''y: yes'']) (texts [(''word'', ''hello''), (''y'', ''yes'')]))"

definition float_is_unsupported_scalar :: bool where
  "float_is_unsupported_scalar \<longleftrightarrow>
     read_as ''x: 0.5'' (mapping [(''x'', YNumber (Fraction ''0.5''))]) = Err (UnsupportedScalar ''float'')"

definition null_is_unsupported_scalar :: bool where
  "null_is_unsupported_scalar \<longleftrightarrow>
     list_all (\<lambda>input. read_as input (mapping [(''x'', YNull)]) = Err (UnsupportedScalar ''null'')) [''x: ~'', ''x: null'']"

definition nested_list_and_map :: bool where
  "nested_list_and_map \<longleftrightarrow>
     on_first (\<lambda>s. field_of ''outer'' s = Some (VList [VU64 1, VBool True])
         \<and> field_of ''inner'' s = Some (VMap [(''a'', VU64 1), (''b'', VBool True)]))
       (read_as (test_lines [''outer:'', ''  - 1'', ''  - true'', ''inner:'', ''  a: 1'', ''  b: true'', ''''])
          (mapping [(''outer'', YSequence [number 1, YBool True]),
                    (''inner'', mapping [(''a'', number 1), (''b'', YBool True)])]))"

definition cidr_validity_is_checked_only_by_a_declared_format :: bool where
  "cidr_validity_is_checked_only_by_a_declared_format \<longleftrightarrow>
     on_first (\<lambda>s. field_of ''x'' s = Some (VString ''10.0.1.0/33'')) (read_as ''x: 10.0.1.0/33'' (texts [(''x'', ''10.0.1.0/33'')]))"

theorem scalar_tests_pass:
  "bool_lowercase" "bool_capitalized_spellings" "non_negative_int_u64" "negative_int_i64" "cidr_like_unknown_values_remain_strings"
  "bare_ip_like_unknown_values_remain_strings" "plain_word_and_yes_are_strings" "float_is_unsupported_scalar"
  "null_is_unsupported_scalar" "nested_list_and_map" "cidr_validity_is_checked_only_by_a_declared_format"
  by code_simp+

section \<open>Kinds and shapes\<close>

definition kind_absent_and_state_accepted_and_consumed :: bool where
  "kind_absent_and_state_accepted_and_consumed \<longleftrightarrow>
     list_all (\<lambda>(input, tree). returns_ok (\<lambda>states. length states = 1 \<and> field_of ''kind'' (hd states) = None) (read_as input tree))
       [(''name: eth0'', texts [(''name'', ''eth0'')]),
        (test_lines [''kind: state'', ''name: eth0''], texts [(''kind'', ''state''), (''name'', ''eth0'')])]"

definition kind_policy_is_error :: bool where
  "kind_policy_is_error \<longleftrightarrow>
     read_as (test_lines [''kind: policy'', ''name: eth0'']) (texts [(''kind'', ''policy''), (''name'', ''eth0'')])
       = Err PolicyWrapperNotSupported"

definition kind_unknown_is_error :: bool where
  "kind_unknown_is_error \<longleftrightarrow>
     read_as (test_lines [''kind: banana'', ''name: eth0'']) (texts [(''kind'', ''banana''), (''name'', ''eth0'')])
       = Err (UnknownKind ''banana'')"

definition empty_input_is_error :: bool where
  "empty_input_is_error \<longleftrightarrow>
     list_all (\<lambda>input. read_table [] input = Err EmptyInput) ['''', ''   '', test_lines ['''', ''  '', '''']]"

definition explicit_empty_list_yields_zero_states :: bool where
  "explicit_empty_list_yields_zero_states \<longleftrightarrow> read_as ''[]'' (YSequence []) = Ok []"

fun is_invalid_top_level :: "state_error \<Rightarrow> bool" where
  "is_invalid_top_level (InvalidTopLevel _) = True"
| "is_invalid_top_level _ = False"

definition top_level_scalar_is_error :: bool where
  "top_level_scalar_is_error \<longleftrightarrow>
     fails_with is_invalid_top_level (read_as ''just a string'' (YString ''just a string''))
     \<and> fails_with is_invalid_top_level (read_as ''42'' (number 42))"

definition non_mapping_list_element_is_error :: bool where
  "non_mapping_list_element_is_error \<longleftrightarrow>
     fails_with is_invalid_top_level
       (read_as (test_lines [''- name: eth0'', ''- 42'']) (YSequence [texts [(''name'', ''eth0'')], number 42]))"

definition leading_document_marker_accepted :: bool where
  "leading_document_marker_accepted \<longleftrightarrow>
     returns_ok (\<lambda>states. length states = 1 \<and> field_of ''name'' (hd states) = Some (VString ''eth0''))
       (read_as (test_lines [''---'', ''name: eth0'']) (texts [(''name'', ''eth0'')]))"

definition second_document_is_multidocument_error :: bool where
  "second_document_is_multidocument_error \<longleftrightarrow>
     from_yaml_with_registry
       ((table_lib [])\<lparr>yaml_read := (\<lambda>_. Err ''deserializing from YAML containing more than one document is not supported'')\<rparr>)
       test_fresh (test_lines [''name: eth0'', ''---'', ''name: eth1'']) embedded_registry
     = Err MultiDocument"

theorem shape_tests_pass:
  "kind_absent_and_state_accepted_and_consumed" "kind_policy_is_error" "kind_unknown_is_error" "empty_input_is_error"
  "explicit_empty_list_yields_zero_states" "top_level_scalar_is_error" "non_mapping_list_element_is_error"
  "leading_document_marker_accepted" "second_document_is_multidocument_error"
  by code_simp+

section \<open>Types and selectors\<close>

definition explicit_type_sets_device_type :: bool where
  "explicit_type_sets_device_type \<longleftrightarrow>
     on_first (\<lambda>s. device_type s = ''ethernet'')
       (read_as (test_lines [''type: ethernet'', ''mtu: 9000'']) (mapping [(''type'', YString ''ethernet''), (''mtu'', number 9000)]))"

definition explicit_type_wins_over_tech_subobject :: bool where
  "explicit_type_wins_over_tech_subobject \<longleftrightarrow>
     on_first (\<lambda>s. device_type s = ''wifi'')
       (read_as (test_lines [''type: wifi'', ''ethernet:'', ''  speed: 1000''])
          (mapping [(''type'', YString ''wifi''), (''ethernet'', mapping [(''speed'', number 1000)])]))"

definition registered_ethernet_subobject_implies_type :: bool where
  "registered_ethernet_subobject_implies_type \<longleftrightarrow>
     on_first (\<lambda>s. device_type s = ''ethernet'')
       (read_as (test_lines [''ethernet:'', ''  speed: 1000'']) (mapping [(''ethernet'', mapping [(''speed'', number 1000)])]))
     \<and> on_first (\<lambda>s. device_type s = [])
         (read_as (test_lines [''wifi:'', ''  ssid: net'']) (mapping [(''wifi'', texts [(''ssid'', ''net'')])]))"

definition ipv4_subobject_does_not_imply_type :: bool where
  "ipv4_subobject_does_not_imply_type \<longleftrightarrow>
     on_first (\<lambda>s. device_type s = [])
       (read_as (test_lines [''ipv4:'', ''  addresses:'', ''    - ip: 10.0.1.50/24''])
          (mapping [(''ipv4'', address_doc [''10.0.1.50/24''])]))"

definition non_string_type_value_is_error :: bool where
  "non_string_type_value_is_error \<longleftrightarrow>
     read_as ''type: 42'' (mapping [(''type'', number 42)]) = Err (UnsupportedScalar ''a number'')"

definition unknown_match_key_is_error :: bool where
  "unknown_match_key_is_error \<longleftrightarrow>
     read_as (test_lines [''match:'', ''  name: eth0'', ''  bogus: x''])
       (mapping [(''match'', texts [(''name'', ''eth0''), (''bogus'', ''x'')])]) = Err (UnknownMatchKey ''bogus'')"

definition match_not_mapping_is_error :: bool where
  "match_not_mapping_is_error \<longleftrightarrow> read_as ''match: eth0'' (texts [(''match'', ''eth0'')]) = Err MatchNotMapping"

definition non_string_match_value_is_error :: bool where
  "non_string_match_value_is_error \<longleftrightarrow>
     read_as (test_lines [''match:'', ''  name: 42'']) (mapping [(''match'', mapping [(''name'', number 42)])])
       = Err (MatchValueNotString ''name'')"

text \<open>The version of the identifiers is not modelled; the second call is given other fresh metadata.\<close>

definition parsed_states_get_static_source_priority_and_fresh_metadata :: bool where
  "parsed_states_get_static_source_priority_and_fresh_metadata \<longleftrightarrow>
     returns_ok (\<lambda>states. length states = 2 \<and> list_all (\<lambda>s. st_source s = Static [] \<and> st_priority s = 100) states
         \<and> returns_ok (\<lambda>again. md_id (st_metadata (hd states)) \<noteq> md_id (st_metadata (hd again)))
             (from_yaml_with_registry (table_lib [(''- name: eth0'', YSequence [texts [(''name'', ''eth0'')]])])
                (\<lambda>i. test_fresh (i + 2)) ''- name: eth0'' embedded_registry))
       (read_as (test_lines [''- name: eth0'', ''- name: eth1''])
          (YSequence [texts [(''name'', ''eth0'')], texts [(''name'', ''eth1'')]]))"

definition two_contributions_to_same_device_coexist_in_order :: bool where
  "two_contributions_to_same_device_coexist_in_order \<longleftrightarrow>
     returns_ok (\<lambda>states. map (\<lambda>s. match_name (st_match s)) states = [Some ''eth0'', Some ''eth0'']
         \<and> map (field_of ''mtu'') states = [Some (VU64 9000), None]
         \<and> map (\<lambda>s. field_of ''ipv4'' s \<noteq> None) states = [False, True])
       (read_as (test_lines [''- match:'', ''    name: eth0'', ''  mtu: 9000'', ''- match:'', ''    name: eth0'', ''  ipv4:'',
           ''    addresses:'', ''      - ip: 10.0.1.50/24'', ''''])
          (YSequence [mapping [(''match'', texts [(''name'', ''eth0'')]), (''mtu'', number 9000)],
                      mapping [(''match'', texts [(''name'', ''eth0'')]), (''ipv4'', address_doc [''10.0.1.50/24''])]]))"

definition numeric_scalar_key_canonicalized :: bool where
  "numeric_scalar_key_canonicalized \<longleftrightarrow>
     on_first (\<lambda>s. field_of ''9000'' s = Some (VString ''x'')) (read_as ''9000: x'' (YMapping [(number 9000, YString ''x'')]))"

theorem selector_tests_pass:
  "explicit_type_sets_device_type" "explicit_type_wins_over_tech_subobject" "registered_ethernet_subobject_implies_type"
  "ipv4_subobject_does_not_imply_type" "non_string_type_value_is_error" "unknown_match_key_is_error"
  "match_not_mapping_is_error" "non_string_match_value_is_error" "parsed_states_get_static_source_priority_and_fresh_metadata"
  "two_contributions_to_same_device_coexist_in_order"
  by code_simp+

theorem numeric_key_test_passes: "numeric_scalar_key_canonicalized"
  by (simp add: numeric_scalar_key_canonicalized_def on_first_def read_as_def read_table_def from_yaml_with_registry_def table_lib_def
      number_def mapping_to_state_def ascii_space_def wide_spaces_def field_of_def number_eval embedded_registry_def top_level_schema_def
      base_fragment_def triggered_fragment_def node_property_def base_json_def scalar_node_def Let_def)

end
