(* ===== verification/YamlPrintTests.thy ===== *)
theory YamlPrintTests
  imports YamlTexts
begin

text \<open>
  The unit tests of \<open>crates/netfyr-state/src/yaml.rs\<close> on printing and on the round trips, restated over the model and evaluated.  A
  table has the text the library prints for each tree.
\<close>

definition print_query :: "(string \<times> doc) list \<Rightarrow> dev_state list \<Rightarrow> (string, state_error) outcome" where
  "print_query table states = to_yaml_query (table_lib table) states embedded_registry"

definition print_policy :: "(string \<times> doc) list \<Rightarrow> dev_state list \<Rightarrow> (string, state_error) outcome" where
  "print_policy table states = to_yaml_policy (table_lib table) states embedded_registry"

text \<open>\<open>str::find\<close>.\<close>

fun str_find :: "string \<Rightarrow> string \<Rightarrow> nat option" where
  "str_find pat [] = (if pat = [] then Some 0 else None)"
| "str_find pat (c # cs) = (if starts_with pat (c # cs) then Some 0 else map_option Suc (str_find pat cs))"

definition found_before :: "string \<Rightarrow> string \<Rightarrow> string \<Rightarrow> bool" where
  "found_before p q text = (case (str_find p text, str_find q text) of (Some i, Some j) \<Rightarrow> i < j | _ \<Rightarrow> False)"

section \<open>Reserved keys\<close>

definition reserved_top_level_fields_are_rejected :: bool where
  "reserved_top_level_fields_are_rejected \<longleftrightarrow>
     list_all (\<lambda>key. list_all (\<lambda>render. render [] [st_of ''ethernet'' (match_named ''eth0'') [(key, VString ''value'')]]
         = Err (ReservedFieldKey key 0)) [print_query, print_policy])
       [''match'', ''type'', ''kind'']"

definition reserved_top_level_field_reports_its_list_index :: bool where
  "reserved_top_level_field_reports_its_list_index \<longleftrightarrow>
     print_query [] [st_of [] default_match [], st_of [] default_match [(''type'', VString ''ethernet'')]]
       = Err (ReservedFieldKey ''type'' 1)"

definition reserved_names_in_nested_maps_are_allowed :: bool where
  "reserved_names_in_nested_maps_are_allowed \<longleftrightarrow>
     (let keys = [''match'', ''type'', ''kind''];
          st = st_of [] default_match [(''nested'', VMap (map (\<lambda>key. (key, VString ''value'')) keys))];
          nested = (''nested'', texts (map (\<lambda>key. (key, ''value'')) keys));
          body = [''nested:'', ''  match: value'', ''  type: value'', ''  kind: value'', ''''] in
      returns_ok (\<lambda>_. True) (print_query [(test_lines body, mapping [nested])] [st])
      \<and> returns_ok (\<lambda>_. True) (print_policy [(test_lines (''match: {}'' # body), mapping [(''match'', mapping []), nested])] [st]))"

definition ordinary_query_text :: string where
  "ordinary_query_text = test_lines [''type: ethernet'', ''mtu: 9000'', '''']"

definition ordinary_policy_text :: string where
  "ordinary_policy_text = test_lines [''match:'', ''  name: eth0'', ''type: ethernet'', ''mtu: 9000'', '''']"

definition ordinary_table :: "(string \<times> doc) list" where
  "ordinary_table =
     [(ordinary_query_text, mapping [(''type'', YString ''ethernet''), (''mtu'', number 9000)]),
      (ordinary_policy_text,
       mapping [(''match'', texts [(''name'', ''eth0'')]), (''type'', YString ''ethernet''), (''mtu'', number 9000)])]"

definition ordinary_state :: dev_state where
  "ordinary_state = st_of ''ethernet'' (match_named ''eth0'') [(''mtu'', VU64 9000)]"

definition ordinary_fields_serialize_unchanged :: bool where
  "ordinary_fields_serialize_unchanged \<longleftrightarrow>
     print_query ordinary_table [ordinary_state] = Ok ordinary_query_text
     \<and> print_policy ordinary_table [ordinary_state] = Ok ordinary_policy_text"

definition no_reserved_or_runtime_keys_in_output :: bool where
  "no_reserved_or_runtime_keys_in_output \<longleftrightarrow>
     list_all (\<lambda>render. returns_ok (\<lambda>text. list_all (\<lambda>key. \<not> str_contains key text) [''kind:'', ''source:'', ''priority:''])
         (render ordinary_table [ordinary_state])) [print_query, print_policy]"

theorem key_tests_pass:
  "reserved_top_level_fields_are_rejected" "reserved_top_level_field_reports_its_list_index"
  "reserved_names_in_nested_maps_are_allowed" "ordinary_fields_serialize_unchanged" "no_reserved_or_runtime_keys_in_output"
  by code_simp+

section \<open>Round trips\<close>

definition policy_roundtrip_preserves_content_and_order :: bool where
  "policy_roundtrip_preserves_content_and_order \<longleftrightarrow>
     (let original = st_of ''ethernet'' (match_named ''eth0'')
            [(''mtu'', VU64 9000), (''ipv4'', ipv4_with_addresses [''10.0.1.50/24'']), (''enabled'', VBool True)];
          table = [(test_lines [''match:'', ''  name: eth0'', ''type: ethernet'', ''mtu: 9000'', ''ipv4:'', ''  addresses:'',
              ''  - ip: 10.0.1.50/24'', ''enabled: true'', ''''],
            mapping [(''match'', texts [(''name'', ''eth0'')]), (''type'', YString ''ethernet''), (''mtu'', number 9000),
              (''ipv4'', address_doc [''10.0.1.50/24'']), (''enabled'', YBool True)])] in
      returns_ok (\<lambda>text. returns_ok (\<lambda>reparsed. length reparsed = 1 \<and> content_eq original (hd reparsed)
           \<and> im_keys (st_fields (hd reparsed)) = [''mtu'', ''ipv4'', ''enabled'']
           \<and> st_source (hd reparsed) = Static [] \<and> st_priority (hd reparsed) = 100
           \<and> md_id (st_metadata (hd reparsed)) \<noteq> md_id (st_metadata original))
         (read_table table text))
        (print_policy table [original]))"

definition query_roundtrip_preserves_content :: bool where
  "query_roundtrip_preserves_content \<longleftrightarrow>
     (let kernel_state = (st_of ''ethernet'' default_match
            [(''name'', VString ''eth0''), (''mac'', VString ''aa:bb:cc:dd:ee:ff''), (''driver'', VString ''ixgbe''),
             (''carrier'', VBool True), (''mtu'', VU64 9000)])\<lparr>st_source := Kernel, st_priority := 0\<rparr>;
          table = [(test_lines [''type: ethernet'', ''name: eth0'', ''mac: aa:bb:cc:dd:ee:ff'', ''driver: ixgbe'', ''carrier: true'',
              ''mtu: 9000'', ''''],
            mapping [(''type'', YString ''ethernet''), (''name'', YString ''eth0''), (''mac'', YString ''aa:bb:cc:dd:ee:ff''),
              (''driver'', YString ''ixgbe''), (''carrier'', YBool True), (''mtu'', number 9000)])] in
      returns_ok (\<lambda>text. on_first (\<lambda>s. content_eq kernel_state s \<and> st_source s = Static [] \<and> st_priority s = 100
           \<and> md_id (st_metadata s) \<noteq> md_id (st_metadata kernel_state)) (read_table table text))
        (print_query table [kernel_state]))"

definition query_format_omits_match_section :: bool where
  "query_format_omits_match_section \<longleftrightarrow>
     returns_ok (\<lambda>text. \<not> str_contains ''match:'' text
         \<and> on_first (\<lambda>s. match_is_empty (st_match s) \<and> device_type s = ''ethernet'' \<and> field_of ''mtu'' s = Some (VU64 9000))
             (read_table ordinary_table text))
       (print_query ordinary_table [ordinary_state])"

definition policy_format_match_section_fixed_key_order :: bool where
  "policy_format_match_section_fixed_key_order \<longleftrightarrow>
     (let m = default_match\<lparr>match_name := Some ''eth0'', match_driver := Some ''ixgbe'', match_mac := Some ''aa:bb:cc:dd:ee:ff''\<rparr>;
          table = [(test_lines [''match:'', ''  name: eth0'', ''  driver: ixgbe'', ''  mac: aa:bb:cc:dd:ee:ff'', ''mtu: 9000'', ''''],
            mapping [(''match'', texts [(''name'', ''eth0''), (''driver'', ''ixgbe''), (''mac'', ''aa:bb:cc:dd:ee:ff'')]),
              (''mtu'', number 9000)])] in
      returns_ok (\<lambda>text. found_before ''name:'' ''driver:'' text \<and> found_before ''driver:'' ''mac:'' text
          \<and> \<not> str_contains ''pci_path'' text \<and> on_first (\<lambda>s. st_match s = m) (read_table table text))
        (print_policy table [st_of [] m [(''mtu'', VU64 9000)]]))"

definition policy_format_keeps_an_empty_match_mapping :: bool where
  "policy_format_keeps_an_empty_match_mapping \<longleftrightarrow>
     (let text = test_lines [''match: {}'', ''''] in
      print_policy [(text, mapping [(''match'', mapping [])])] [st_of [] default_match []] = Ok text)"

definition one_state_is_mapping_two_states_are_sequence :: bool where
  "one_state_is_mapping_two_states_are_sequence \<longleftrightarrow>
     (let s1 = st_of [] default_match [(''name'', VString ''eth0'')];
          s2 = st_of [] default_match [(''name'', VString ''eth1'')];
          table = [(test_lines [''name: eth0'', ''''], texts [(''name'', ''eth0'')]),
            (test_lines [''- name: eth0'', ''- name: eth1'', ''''], YSequence [texts [(''name'', ''eth0'')], texts [(''name'', ''eth1'')]])] in
      returns_ok (\<lambda>one. \<not> starts_with ''-'' one \<and> returns_ok (\<lambda>reparsed. length reparsed = 1) (read_table table one))
        (print_query table [s1])
      \<and> returns_ok (\<lambda>two. starts_with ''-'' two
          \<and> returns_ok (\<lambda>reparsed. length reparsed = 2 \<and> list_all2 content_eq [s1, s2] reparsed) (read_table table two))
        (print_query table [s1, s2]))"

definition empty_slice_roundtrips_through_empty_list :: bool where
  "empty_slice_roundtrips_through_empty_list \<longleftrightarrow>
     (let table = [(test_lines [''[]'', ''''], YSequence [])] in
      returns_ok (\<lambda>text. text = test_lines [''[]'', ''''] \<and> read_table table text = Ok []) (print_query table []))"

theorem roundtrip_tests_pass:
  "policy_roundtrip_preserves_content_and_order" "query_roundtrip_preserves_content" "query_format_omits_match_section"
  "policy_format_match_section_fixed_key_order" "policy_format_keeps_an_empty_match_mapping"
  "one_state_is_mapping_two_states_are_sequence" "empty_slice_roundtrips_through_empty_list"
  by code_simp+

definition again :: "((string \<times> doc) list \<Rightarrow> dev_state list \<Rightarrow> (string, state_error) outcome) \<Rightarrow> (string \<times> doc) list \<Rightarrow>
  (string, state_error) outcome \<Rightarrow> (string, state_error) outcome" where
  "again printer table text = obind text (\<lambda>t. obind (read_table table t) (printer table))"

definition reserialized_fields :: fields where
  "reserialized_fields =
     [(''mtu'', VU64 9000), (''enabled'', VBool True), (''ipv4'', ipv4_with_addresses [''10.0.1.50/24'', ''10.0.1.51/24''])]"

definition reserialized_entries :: "(string \<times> doc) list" where
  "reserialized_entries =
     [(''type'', YString ''ethernet''), (''mtu'', number 9000), (''enabled'', YBool True),
      (''ipv4'', address_doc [''10.0.1.50/24'', ''10.0.1.51/24''])]"

definition reserialized_table :: "(string \<times> doc) list" where
  "reserialized_table =
     [(test_lines [''match:'', ''  name: eth0'', ''type: ethernet'', ''mtu: 9000'', ''enabled: true'', ''ipv4:'', ''  addresses:'',
         ''  - ip: 10.0.1.50/24'', ''  - ip: 10.0.1.51/24'', ''''],
       mapping ((''match'', texts [(''name'', ''eth0'')]) # reserialized_entries)),
      (test_lines [''- type: ethernet'', ''  mtu: 9000'', ''  enabled: true'', ''  ipv4:'', ''    addresses:'',
         ''    - ip: 10.0.1.50/24'', ''    - ip: 10.0.1.51/24'', ''- mtu: 1500'', ''''],
       YSequence [mapping reserialized_entries, mapping [(''mtu'', number 1500)]])]"

definition reserialization_is_idempotent :: bool where
  "reserialization_is_idempotent \<longleftrightarrow>
     (let s1 = st_of ''ethernet'' (match_named ''eth0'') reserialized_fields;
          a = print_policy reserialized_table [s1];
          b = again print_policy reserialized_table a;
          qa = print_query reserialized_table [s1, st_of [] default_match [(''mtu'', VU64 1500)]];
          qb = again print_query reserialized_table qa in
      returns_ok (\<lambda>_. True) a \<and> a = b \<and> b = again print_policy reserialized_table b
      \<and> returns_ok (\<lambda>_. True) qa \<and> qa = qb \<and> qb = again print_query reserialized_table qb)"

theorem reserialization_test_passes: "reserialization_is_idempotent"
  by code_simp

section \<open>Types\<close>

definition type_emitted_first_only_when_nonempty :: bool where
  "type_emitted_first_only_when_nonempty \<longleftrightarrow>
     (let table = (test_lines [''mtu: 9000'', ''''], mapping [(''mtu'', number 9000)]) # ordinary_table in
      returns_ok (\<lambda>t. starts_with ''type:'' t \<and> found_before ''type:'' ''mtu:'' t)
        (print_query table [st_of ''ethernet'' default_match [(''mtu'', VU64 9000)]])
      \<and> returns_ok (\<lambda>t. \<not> str_contains ''type:'' t) (print_query table [st_of [] default_match [(''mtu'', VU64 9000)]]))"

definition policy_omits_an_implied_type_that_query_still_states :: bool where
  "policy_omits_an_implied_type_that_query_still_states \<longleftrightarrow>
     (let s = st_of ''ethernet'' (match_named ''eth0'') [(''mtu'', VU64 9000), (''ethernet'', VMap [(''speed'', VU64 1000)])];
          body = [(''mtu'', number 9000), (''ethernet'', mapping [(''speed'', number 1000)])];
          shown = [''mtu: 9000'', ''ethernet:'', ''  speed: 1000'', ''''];
          table = [(test_lines (''type: ethernet'' # shown), mapping ((''type'', YString ''ethernet'') # body)),
            (test_lines ([''match:'', ''  name: eth0''] @ shown), mapping ((''match'', texts [(''name'', ''eth0'')]) # body)),
            (test_lines [''match:'', ''  name: br0'', ''type: bridge'', ''mtu: 9000'', ''''],
              mapping [(''match'', texts [(''name'', ''br0'')]), (''type'', YString ''bridge''), (''mtu'', number 9000)])] in
      returns_ok (str_contains ''type: ethernet'') (print_query table [s])
      \<and> returns_ok (\<lambda>policy. \<not> str_contains (CHR 0x0A # ''type: ethernet'') policy
          \<and> on_first (\<lambda>reparsed. device_type reparsed = ''ethernet'' \<and> content_eq s reparsed) (read_table table policy))
        (print_policy table [s])
      \<and> returns_ok (str_contains ''type: bridge'') (print_policy table [st_of ''bridge'' (match_named ''br0'') [(''mtu'', VU64 9000)]]))"

definition virtual_device_type_roundtrips :: bool where
  "virtual_device_type_roundtrips \<longleftrightarrow>
     (let s = st_of ''bridge'' (match_named ''br0'') [(''name'', VString ''br0'')];
          table = [(test_lines [''match:'', ''  name: br0'', ''type: bridge'', ''name: br0'', ''''],
            mapping [(''match'', texts [(''name'', ''br0'')]), (''type'', YString ''bridge''), (''name'', YString ''br0'')])] in
      returns_ok (\<lambda>text. on_first (\<lambda>reparsed. content_eq s reparsed \<and> device_type reparsed = ''bridge'') (read_table table text))
        (print_policy table [s]))"

section \<open>Strings\<close>

text \<open>How the printer quotes a string is the library's: the text of each tree is left open.\<close>

definition string_roundtrips :: "string \<Rightarrow> string \<Rightarrow> bool" where
  "string_roundtrips key s =
     (let table = [(''document'', texts [(key, s)])] in
      returns_ok (\<lambda>text. on_first (\<lambda>st. field_of key st = Some (VString s)) (read_table table text))
        (print_query table [st_of [] default_match [(key, VString s)]]))"

definition string_quoting_corpus_roundtrips :: bool where
  "string_quoting_corpus_roundtrips \<longleftrightarrow>
     list_all (string_roundtrips ''s'')
       [''true'', ''123'', ''null'', ''~'', '''', ''a: b'', ''#hash'', test_lines [''line1'', ''line2''], ''10.0.1.5'', ''2001:db8::1'',
        ''10.0.1.50/24'', ''2001:db8::1/64'']"

definition ip_like_string_roundtrips_without_retyping :: bool where
  "ip_like_string_roundtrips_without_retyping \<longleftrightarrow> string_roundtrips ''ip'' ''10.0.1.5''"

definition ip_network_requires_a_formatted_schema_path_on_reparse :: bool where
  "ip_network_requires_a_formatted_schema_path_on_reparse \<longleftrightarrow>
     (let table = [(test_lines [''subnet: 10.0.1.50/24'', ''''], texts [(''subnet'', ''10.0.1.50/24'')])];
          s = st_of [] default_match [(''subnet'', VIpNetwork (the (parse_ip_network ''10.0.1.50/24'')))] in
      returns_ok (\<lambda>text. str_contains ''10.0.1.50/24'' text
          \<and> on_first (\<lambda>st. field_of ''subnet'' st = Some (VString ''10.0.1.50/24'')) (read_table table text))
        (print_query table [s]))"

theorem type_and_string_tests_pass:
  "type_emitted_first_only_when_nonempty" "policy_omits_an_implied_type_that_query_still_states" "virtual_device_type_roundtrips"
  "string_quoting_corpus_roundtrips" "ip_like_string_roundtrips_without_retyping"
  "ip_network_requires_a_formatted_schema_path_on_reparse"
  by code_simp+

end
