(* ===== verification/ApplyTests.thy ===== *)
theory ApplyTests
  imports YamlTexts
begin

text \<open>
  The unit tests of \<open>crates/netfyr-state/src/apply.rs\<close> and of \<open>crates/netfyr-state/src/schema.rs\<close>, restated over the model and
  evaluated.  The JSON of a schema extension is given as the node it deserialises to.
\<close>

section \<open>Apply preparation\<close>

definition prepared_as ::
  "(apply_outcome \<Rightarrow> bool) \<Rightarrow> (dev_state list, state_error) outcome \<Rightarrow> match_by \<Rightarrow> bool" where
  "prepared_as P states mb = returns_ok P (obind states (\<lambda>states. prepare_for_apply states mb))"

definition rejected_as ::
  "(state_error \<Rightarrow> bool) \<Rightarrow> (dev_state list, state_error) outcome \<Rightarrow> match_by \<Rightarrow> bool" where
  "rejected_as P states mb = returns_ok (\<lambda>states. fails_with P (prepare_for_apply states mb)) states"

definition QUERY_YAML :: string where
  "QUERY_YAML = test_lines [''name: eth0'', ''type: ethernet'', ''mac: aa:bb:cc:dd:ee:ff'', ''driver: ixgbe'', ''carrier: true'',
     ''enabled: true'', ''mtu: 9000'', ''ipv4:'', ''  addresses:'', ''    - ip: 10.0.1.50/24'', ''ethernet:'', ''  speed: 1000'', '''']"

definition QUERY_DOC :: doc where
  "QUERY_DOC = mapping [(''name'', YString ''eth0''), (''type'', YString ''ethernet''), (''mac'', YString ''aa:bb:cc:dd:ee:ff''),
     (''driver'', YString ''ixgbe''), (''carrier'', YBool True), (''enabled'', YBool True), (''mtu'', number 9000),
     (''ipv4'', address_doc [''10.0.1.50/24'']), (''ethernet'', mapping [(''speed'', number 1000)])]"

definition queried :: "(dev_state list, state_error) outcome" where
  "queried = read_as QUERY_YAML QUERY_DOC"

definition first_of :: "(dev_state \<Rightarrow> bool) \<Rightarrow> apply_outcome \<Rightarrow> bool" where
  "first_of P outcome = P (hd (out_states outcome))"

definition query_edit_apply_default_strategy :: bool where
  "query_edit_apply_default_strategy \<longleftrightarrow>
     prepared_as (\<lambda>prepared. first_of (\<lambda>s. match_name (st_match s) = Some ''eth0'' \<and> match_type (st_match s) = Some ''ethernet''
           \<and> device_type s = [] \<and> im_keys (st_fields s) = [''enabled'', ''mtu'', ''ipv4'']) prepared
         \<and> out_warnings prepared = map (\<lambda>key. \<lparr>warn_key = key, known_read_only = True\<rparr>)
             [''mac'', ''driver'', ''carrier'', ''ethernet.speed'']
         \<and> list_all (\<lambda>w. show_warning w = ''dropping field '' @ quoted (warn_key w) @ '' (not settable by policy)'')
             (out_warnings prepared))
       queried MatchByName"

definition match_by_mac_consumes_mac_and_drops_name :: bool where
  "match_by_mac_consumes_mac_and_drops_name \<longleftrightarrow>
     prepared_as (\<lambda>prepared. first_of (\<lambda>s. match_mac (st_match s) = Some ''aa:bb:cc:dd:ee:ff'' \<and> field_of ''mac'' s = None
           \<and> field_of ''name'' s = None) prepared
         \<and> (let keys = map warn_key (out_warnings prepared) in
            list_all (\<lambda>key. key \<in> set keys) [''name'', ''driver'', ''carrier''] \<and> ''mac'' \<notin> set keys))
       queried MatchByMac"

definition missing_strategy_key_is_nomatchfield_with_index :: bool where
  "missing_strategy_key_is_nomatchfield_with_index \<longleftrightarrow>
     rejected_as (\<lambda>e. e = NoMatchField ''name'' 0) (read_as ''mtu: 9000'' (mapping [(''mtu'', number 9000)])) MatchByName
     \<and> rejected_as (\<lambda>e. e = NoMatchField ''name'' 1)
         (read_as (test_lines [''- name: eth0'', ''- mtu: 9000''])
            (YSequence [texts [(''name'', ''eth0'')], mapping [(''mtu'', number 9000)]])) MatchByName"

definition device_type_moves_to_match_and_clears_without_technology_fields :: bool where
  "device_type_moves_to_match_and_clears_without_technology_fields \<longleftrightarrow>
     prepared_as (first_of (\<lambda>s. match_type (st_match s) = Some ''ethernet'' \<and> device_type s = []))
       (read_as (test_lines [''name: eth0'', ''type: ethernet'', ''mtu: 9000''])
          (mapping [(''name'', YString ''eth0''), (''type'', YString ''ethernet''), (''mtu'', number 9000)])) MatchByName"

text \<open>The prepared policy as the library prints it.\<close>

definition prepared_table :: "(string \<times> doc) list" where
  "prepared_table =
     [(test_lines [''match:'', ''  name: eth0'', ''  type: ethernet'', ''enabled: true'', ''mtu: 9000'', ''ipv4:'', ''  addresses:'',
         ''  - ip: 10.0.1.50/24'', ''''],
       mapping [(''match'', texts [(''name'', ''eth0''), (''type'', ''ethernet'')]), (''enabled'', YBool True), (''mtu'', number 9000),
         (''ipv4'', address_doc [''10.0.1.50/24''])])]"

definition prepared_policy_serialization_is_a_fixed_point :: bool where
  "prepared_policy_serialization_is_a_fixed_point \<longleftrightarrow>
     (let printed = (\<lambda>states. to_yaml_policy (table_lib prepared_table) states embedded_registry) in
      prepared_as (\<lambda>prepared. returns_ok (\<lambda>text. returns_ok (\<lambda>reparsed. content_eq (hd (out_states prepared)) (hd reparsed)
              \<and> printed reparsed = Ok text)
            (read_table prepared_table text))
          (printed (out_states prepared)))
        queried MatchByName)"

definition match_by_mac_requires_a_mac_field :: bool where
  "match_by_mac_requires_a_mac_field \<longleftrightarrow>
     rejected_as (\<lambda>e. e = NoMatchField ''mac'' 0) (read_as ''name: eth0'' (texts [(''name'', ''eth0'')])) MatchByMac"

fun invalid_states_with :: "(indexed_validation_error list \<Rightarrow> bool) \<Rightarrow> state_error \<Rightarrow> bool" where
  "invalid_states_with P (InvalidStates errors) = P errors"
| "invalid_states_with P _ = False"

definition populated_match_states_are_validated_as_policies :: bool where
  "populated_match_states_are_validated_as_policies \<longleftrightarrow>
     rejected_as (invalid_states_with (\<lambda>_. True))
       (read_as (test_lines [''match:'', ''  name: eth0'', ''carrier: true'', ''driver: ixgbe'', ''mtu: 9000''])
          (mapping [match_eth ''eth0'', (''carrier'', YBool True), (''driver'', YString ''ixgbe''), (''mtu'', number 9000)]))
       MatchByName"

definition matched_invalid_policies_return_all_indexed_validation_errors :: bool where
  "matched_invalid_policies_return_all_indexed_validation_errors \<longleftrightarrow>
     rejected_as (invalid_states_with (\<lambda>errors. length errors = 3 \<and> state_index (hd errors) = 0 \<and> state_index (last errors) = 1))
       (read_as (test_lines [''- match:'', ''    name: eth0'', ''  mtt: 1500'', ''  mtu: 99999'', ''- match:'', ''    name: eth1'',
            ''  mtu: 99999'', ''''])
          (YSequence [mapping [match_eth ''eth0'', (''mtt'', number 1500), (''mtu'', number 99999)],
                      mapping [match_eth ''eth1'', (''mtu'', number 99999)]]))
       MatchByName"

fun is_invalid_format :: "validation_error \<Rightarrow> bool" where
  "is_invalid_format (InvalidFormat _ _ _) = True"
| "is_invalid_format _ = False"

definition apply_rejects_malformed_cidr :: bool where
  "apply_rejects_malformed_cidr \<longleftrightarrow>
     rejected_as (invalid_states_with (\<lambda>errors. length errors = 1 \<and> state_index (hd errors) = 0
         \<and> is_invalid_format (ive_error (hd errors))))
       (read_as (test_lines [''match:'', ''  name: eth0'', ''ipv4:'', ''  addresses:'', ''    - ip: 10.0.0.1/33'', ''''])
          (mapping [match_eth ''eth0'', (''ipv4'', address_doc [''10.0.0.1/33''])]))
       MatchByName"

definition explicit_policy_type_is_structural_and_accepted :: bool where
  "explicit_policy_type_is_structural_and_accepted \<longleftrightarrow>
     prepared_as (\<lambda>_. True)
       (read_as (test_lines [''match:'', ''  name: eth0'', ''type: ethernet'', ''mtu: 1500'', ''''])
          (mapping [match_eth ''eth0'', (''type'', YString ''ethernet''), (''mtu'', number 1500)])) MatchByName"

definition valid_writable_policy_passes_unchanged :: bool where
  "valid_writable_policy_passes_unchanged \<longleftrightarrow>
     returns_ok (\<lambda>states. returns_ok (\<lambda>prepared. out_warnings prepared = [] \<and> first_of (content_eq (hd states)) prepared)
         (prepare_for_apply states MatchByName))
       (read_as (test_lines [''match:'', ''  name: eth0'', ''enabled: true'', ''mtu: 1500'', ''''])
          (mapping [match_eth ''eth0'', (''enabled'', YBool True), (''mtu'', number 1500)]))"

theorem apply_tests_pass:
  "query_edit_apply_default_strategy" "match_by_mac_consumes_mac_and_drops_name" "missing_strategy_key_is_nomatchfield_with_index"
  "device_type_moves_to_match_and_clears_without_technology_fields" "prepared_policy_serialization_is_a_fixed_point"
  "match_by_mac_requires_a_mac_field" "populated_match_states_are_validated_as_policies"
  "matched_invalid_policies_return_all_indexed_validation_errors" "apply_rejects_malformed_cidr"
  "explicit_policy_type_is_structural_and_accepted" "valid_writable_policy_passes_unchanged"
  by code_simp+

section \<open>Schema extensions\<close>

definition INTEGER_SCHEMA :: schema_node where
  "INTEGER_SCHEMA = scalar_node TInteger True"

definition cidr_node :: "field_type \<Rightarrow> bool \<Rightarrow> schema_node" where
  "cidr_node ty writable = SchemaNode (Some ty) (Some Ipv4Cidr) writable None None None None None None None None"

definition untyped_node :: schema_node where
  "untyped_node = SchemaNode None None False None None None None None None None None"

definition object_with_child :: "schema_node \<Rightarrow> schema_node" where
  "object_with_child child = SchemaNode (Some TObject) None False None None None (Some [(''child'', child)]) None None None None"

definition array_of :: "schema_node \<Rightarrow> schema_node" where
  "array_of items = SchemaNode (Some TArray) None False None None None None None (Some items) None None"

definition read_in :: "schema_registry \<Rightarrow> string \<Rightarrow> doc \<Rightarrow> (dev_state list, state_error) outcome" where
  "read_in reg text tree = from_yaml_with_registry (table_lib [(text, tree)]) test_fresh text reg"

definition nested_base_extensions_cannot_shadow_fragment_triggers :: bool where
  "nested_base_extensions_cannot_shadow_fragment_triggers \<longleftrightarrow>
     list_all (\<lambda>path. some_with (\<lambda>reg.
         (let (added, reg') = add_schema_node ''base'' path (Ok INTEGER_SCHEMA) reg in
          fails_with (str_contains ''collides with a fragment trigger key'') added
          \<and> fragment_fields reg' ''base'' = fragment_fields reg ''base''
          \<and> on_first (\<lambda>s. field_of ''ipv4'' s = Some (ipv4_with_addresses [''192.0.2.1/24'']) \<and> validate_writable reg' s = Some [])
              (read_in reg' ''ipv4: { addresses: [{ ip: 192.0.2.1/24 }] }'' (mapping [(''ipv4'', address_doc [''192.0.2.1/24''])]))))
         new_registry)
       [''ipv4.extension'', ''ipv4.extension.nested'', ''ethernet.extension'']"

definition assert_schema_rejected_without_mutation :: "string \<Rightarrow> schema_node \<Rightarrow> bool" where
  "assert_schema_rejected_without_mutation reason node \<longleftrightarrow>
     some_with (\<lambda>reg.
         (let (added, reg') = add_schema_node ''base'' ''custom.nested'' (Ok node) reg in
          fails_with (str_contains reason) added
          \<and> fragment_fields reg' ''base'' = fragment_fields reg ''base'' \<and> top_level_schema reg' ''custom'' = Some None
          \<and> returns_ok (\<lambda>_. True) (fst (add_schema_node ''base'' ''custom'' (Ok INTEGER_SCHEMA) reg'))))
       new_registry"

definition schema_extensions_require_types_at_every_node :: bool where
  "schema_extensions_require_types_at_every_node \<longleftrightarrow>
     list_all (assert_schema_rejected_without_mutation ''type'')
       [untyped_node, object_with_child untyped_node, array_of untyped_node, array_of (object_with_child untyped_node)]"

definition schema_extensions_reject_incompatible_formats_at_every_node :: bool where
  "schema_extensions_reject_incompatible_formats_at_every_node \<longleftrightarrow>
     list_all (assert_schema_rejected_without_mutation ''ipv4-cidr'')
       [cidr_node TInteger False, object_with_child (cidr_node TBoolean False), array_of (cidr_node TInteger False)]"

definition schema_extensions_decode_valid_formats_in_their_own_fragment :: bool where
  "schema_extensions_decode_valid_formats_in_their_own_fragment \<longleftrightarrow>
     list_all (\<lambda>(frag, path, domain). some_with (\<lambda>reg.
         (let (added, reg') = add_schema_node frag path (Ok (cidr_node TString True)) reg in
          returns_ok (\<lambda>_. True) added
          \<and> on_first (\<lambda>s. field_of domain s = Some (VMap [(''extension'', VIpNetwork (the (parse_ip_network ''192.0.2.1/24'')))])
                \<and> validate_writable reg' s = Some [])
              (read_in reg' (domain @ '': { extension: 192.0.2.1/24 }'')
                 (mapping [(domain, texts [(''extension'', ''192.0.2.1/24'')])]))))
         new_registry)
       [(''ipv4'', ''extension'', ''ipv4''), (''base'', ''custom.extension'', ''custom'')]"

theorem schema_tests_pass:
  "nested_base_extensions_cannot_shadow_fragment_triggers" "schema_extensions_require_types_at_every_node"
  "schema_extensions_reject_incompatible_formats_at_every_node" "schema_extensions_decode_valid_formats_in_their_own_fragment"
  by code_simp+

end
