(* ===== verification/PolicyTests.thy ===== *)
theory PolicyTests
  imports PolicyLoad YamlTexts
begin

text \<open>
  The unit tests of \<open>crates/netfyr-policy/src/lib.rs\<close>, restated over the model and evaluated.  The reading of an entry prints the
  part that describes the state and reads it again: a test has the trees of its entries and of these parts.
\<close>

section \<open>Fixtures\<close>

definition test_policy_lib :: "(string \<times> doc) list \<Rightarrow> test_number policy_lib" where
  "test_policy_lib table =
     \<lparr>lib_yaml = table_lib table,
      value_as_i64 = (\<lambda>v. case v of YNumber n \<Rightarrow> as_i64 (table_lib table) n | _ \<Rightarrow> None)\<rparr>"

definition load_named :: "string \<Rightarrow> (string \<times> doc) list \<Rightarrow> string \<Rightarrow> (load_outcome, policy_error) outcome" where
  "load_named stem table input = load_document (test_policy_lib table) (\<lambda>_. test_fresh) input stem MatchByName"

text \<open>\<open>load\<close>: the first text of the table is the input.\<close>

definition test_load :: "(string \<times> doc) list \<Rightarrow> (load_outcome, policy_error) outcome" where
  "test_load table = load_named ''test'' table (fst (hd table))"

definition loaded_first :: "(policy \<Rightarrow> bool) \<Rightarrow> (load_outcome, policy_error) outcome \<Rightarrow> bool" where
  "loaded_first P r = returns_ok (\<lambda>loaded. P (hd (lo_policies loaded))) r"

definition produces :: "(production \<Rightarrow> bool) \<Rightarrow> policy \<Rightarrow> bool" where
  "produces P p = returns_ok P (produce (test_fresh 9) p)"

definition test_policy :: "string \<Rightarrow> fields \<Rightarrow> policy" where
  "test_policy name fs =
     \<lparr>po_name = name, po_match = match_named ''eth0'', po_device_type = [], po_fields = fs, po_priority = None, po_metadata = None\<rparr>"

section \<open>Providers\<close>

definition registry_inventory_is_fixed_and_ordered :: bool where
  "registry_inventory_is_fixed_and_ordered \<longleftrightarrow>
     map reg_kind PROVIDERS = [''dhcp4'', ''dhcp6'', ''ra'']
     \<and> map location PROVIDERS = [''ipv4.dhcp4'', ''ipv6.dhcp6'', ''ipv6.ra'']
     \<and> reg_source (hd PROVIDERS) = ProviderDhcp \<and> registration_priority (hd PROVIDERS) = 50
     \<and> reg_source (last PROVIDERS) = ProviderRa \<and> registration_priority (last PROVIDERS) = 25"

definition provider_schemas_compose_without_conflict :: bool where
  "provider_schemas_compose_without_conflict \<longleftrightarrow>
     some_with (\<lambda>schemas. field_info_of schemas ''ipv4'' ''dhcp4.route-metric'' \<noteq> None
         \<and> field_info_of schemas ''base'' ''ipv6.dhcp6'' \<noteq> None \<and> field_info_of schemas ''base'' ''ipv6.ra'' \<noteq> None)
       provider_schemas"

section \<open>Production\<close>

definition office_entries :: "(string \<times> doc) list" where
  "office_entries =
     [(''mtu'', number 1500),
      (''ipv4'', mapping [(''addresses'', YSequence [texts [(''ip'', ''192.0.2.10/24'')]]),
         (''dhcp4'', mapping [(''send-hostname'', YBool True), (''route-metric'', number 100)])])]"

definition office_table :: "(string \<times> doc) list" where
  "office_table =
     [(test_lines [''kind: policy'', ''name: office'', ''match:'', ''  name: eth0'', ''priority: 101'', ''metadata:'', ''  managed-by: test'',
         ''mtu: 1500'', ''ipv4:'', ''  addresses:'', ''    - ip: 192.0.2.10/24'', ''  dhcp4:'', ''    send-hostname: true'',
         ''    route-metric: 100'', ''''],
       mapping ([(''kind'', YString ''policy''), (''name'', YString ''office''), match_eth ''eth0'', (''priority'', number 101),
         (''metadata'', texts [(''managed-by'', ''test'')])] @ office_entries)),
      (''the entries of the state'', mapping (match_eth ''eth0'' # office_entries))]"

definition explicit_policy_splits_static_fields_and_dhcp_parameters :: bool where
  "explicit_policy_splits_static_fields_and_dhcp_parameters \<longleftrightarrow>
     loaded_first (\<lambda>p. po_name p = ''office''
         \<and> some_with (\<lambda>metadata. im_get metadata ''managed-by'' = Some (VString ''test'')) (po_metadata p)
         \<and> produces (\<lambda>produced.
             some_with (\<lambda>st. st_source st = Static ''office'' \<and> st_priority st = 101 \<and> im_keys (st_fields st) = [''mtu'', ''ipv4'']
               \<and> (case field_of ''ipv4'' st of
                    Some (VMap ipv4) \<Rightarrow> im_contains ipv4 ''addresses'' \<and> \<not> im_contains ipv4 ''dhcp4''
                  | _ \<Rightarrow> False)) (pr_state produced)
             \<and> length (pr_providers produced) = 1
             \<and> (let provider = hd (pr_providers produced) in
                pd_kind provider = ''dhcp4'' \<and> im_get (pd_params provider) ''route-metric'' = Some (VU64 100)
                \<and> pd_match provider = po_match p)) p)
       (test_load office_table)"

definition provider_only_policy_has_no_empty_static_contribution :: bool where
  "provider_only_policy_has_no_empty_static_contribution \<longleftrightarrow>
     loaded_first (produces (\<lambda>produced. pr_state produced = None \<and> length (pr_providers produced) = 1))
       (test_load
          [(test_lines [''kind: policy'', ''name: dhcp'', ''match: { name: eth0 }'', ''ipv4:'', ''  dhcp4: {}'', ''''],
            mapping [(''kind'', YString ''policy''), (''name'', YString ''dhcp''), match_eth ''eth0'',
              (''ipv4'', mapping [(''dhcp4'', mapping [])])]),
           (''the entries of the state'', mapping [match_eth ''eth0'', (''ipv4'', mapping [(''dhcp4'', mapping [])])])])"

definition production_preserves_explicitly_empty_maps :: bool where
  "production_preserves_explicitly_empty_maps \<longleftrightarrow>
     list_all (\<lambda>(input, tree).
         loaded_first (produces (\<lambda>produced. some_with (\<lambda>st. length (st_fields st) = 1 \<and> field_of ''ipv4'' st = Some (VMap []))
             (pr_state produced)))
           (test_load [(input, tree)]))
       [(test_lines [''match: { name: eth0 }'', ''ipv4: {}'', ''''], mapping [match_eth ''eth0'', (''ipv4'', mapping [])]),
        (test_lines [''match: { name: eth0 }'', ''ipv4: {}'', ''ipv6: { ra: {} }'', ''''],
         mapping [match_eth ''eth0'', (''ipv4'', mapping []), (''ipv6'', mapping [(''ra'', mapping [])])])]"

definition explicit_device_type_survives_production_and_writable_validation :: bool where
  "explicit_device_type_survives_production_and_writable_validation \<longleftrightarrow>
     (let entries = [match_eth ''eth0'', (''type'', YString ''ethernet''), (''mtu'', number 1500),
            (''ipv4'', mapping [(''dhcp4'', mapping [])])] in
      loaded_first (produces (\<lambda>produced.
          some_with (\<lambda>st. device_type st = ''ethernet'' \<and> match_name (st_match st) = Some ''eth0''
              \<and> field_of ''mtu'' st = Some (VU64 1500)
              \<and> some_with (\<lambda>schemas. validate_writable schemas st = Some []) new_registry) (pr_state produced)
          \<and> pd_device_type (hd (pr_providers produced)) = ''ethernet''))
        (test_load
           [(test_lines [''kind: policy'', ''name: office'', ''match: { name: eth0 }'', ''type: ethernet'', ''mtu: 1500'',
               ''ipv4: { dhcp4: {} }'', ''''],
             mapping ([(''kind'', YString ''policy''), (''name'', YString ''office'')] @ entries)),
            (''the entries of the state'', mapping entries)]))"

section \<open>Loading\<close>

definition bare_query_form_normalizes_and_keeps_provider_trigger :: bool where
  "bare_query_form_normalizes_and_keeps_provider_trigger \<longleftrightarrow>
     returns_ok (\<lambda>loaded. lo_warnings loaded = [\<lparr>warn_key = ''carrier'', known_read_only = True\<rparr>]
         \<and> (let p = hd (lo_policies loaded) in
            po_name p = ''test'' \<and> match_name (po_match p) = Some ''eth0'' \<and> match_type (po_match p) = Some ''ethernet''
            \<and> po_device_type p = [] \<and> produces (\<lambda>produced. length (pr_providers produced) = 1) p))
       (test_load
          [(test_lines [''name: eth0'', ''type: ethernet'', ''carrier: true'', ''ipv4:'', ''  dhcp4: {}'', ''''],
            mapping [(''name'', YString ''eth0''), (''type'', YString ''ethernet''), (''carrier'', YBool True),
              (''ipv4'', mapping [(''dhcp4'', mapping [])])])])"

fun out_of_range_at :: "string \<Rightarrow> validation_error \<Rightarrow> bool" where
  "out_of_range_at path (OutOfRange _ p _ _) = (p = path)"
| "out_of_range_at path _ = False"

fun unknown_field_at :: "string \<Rightarrow> validation_error \<Rightarrow> bool" where
  "unknown_field_at path (UnknownField _ p) = (p = path)"
| "unknown_field_at path _ = False"

fun policy_validation_with :: "(validation_error list \<Rightarrow> bool) \<Rightarrow> policy_error \<Rightarrow> bool" where
  "policy_validation_with P (PolicyValidation errors) = P errors"
| "policy_validation_with P _ = False"

definition invalid_provider_parameters_are_rejected_before_production :: bool where
  "invalid_provider_parameters_are_rejected_before_production \<longleftrightarrow>
     (let entries = [match_eth ''eth0'',
            (''ipv4'', mapping [(''dhcp4'', mapping [(''route-metric'', number (- 1)), (''unknown'', YBool True)])])];
          input = test_lines [''kind: policy'', ''name: bad'', ''match: { name: eth0 }'', ''ipv4:'', ''  dhcp4:'', ''    route-metric: -1'',
            ''    unknown: true'', ''''] in
      fails_with (policy_validation_with (\<lambda>errors. length errors = 2 \<and> out_of_range_at ''ipv4.dhcp4.route-metric'' (hd errors)
          \<and> unknown_field_at ''ipv4.dhcp4.unknown'' (last errors)))
        (load_named ''bad''
           [(input, mapping ([(''kind'', YString ''policy''), (''name'', YString ''bad'')] @ entries)),
            (''the entries of the state'', mapping entries)] input))"

definition policy_set_preserves_overlapping_contributions_and_rejects_duplicate_names :: bool where
  "policy_set_preserves_overlapping_contributions_and_rejects_duplicate_names \<longleftrightarrow>
     (let (r1, set1) = insert_policy (test_policy ''first'' [(''mtu'', VU64 1500)]) \<lparr>policies = []\<rparr>;
          (r2, set2) = insert_policy (test_policy ''second'' [(''enabled'', VBool True)]) set1 in
      r1 = Ok () \<and> r2 = Ok ()
      \<and> returns_ok (\<lambda>all. map (field_of ''mtu'') (all_states all) = [Some (VU64 1500), None]
          \<and> map (field_of ''enabled'') (all_states all) = [None, Some (VBool True)]) (produce_all test_fresh set2)
      \<and> fst (insert_policy (test_policy ''first'' []) set2) = Err (DuplicateName ''first''))"

definition mixed_sequence_uses_suffixes_only_for_bare_entries :: bool where
  "mixed_sequence_uses_suffixes_only_for_bare_entries \<longleftrightarrow>
     (let input = test_lines [''- name: eth0'', ''  mtu: 1500'', ''- kind: policy'', ''  name: named'', ''  match: { name: eth1 }'',
            ''  enabled: true'', ''''];
          bare = [(''name'', YString ''eth0''), (''mtu'', number 1500)];
          entries = [match_eth ''eth1'', (''enabled'', YBool True)];
          table = [(input, YSequence [mapping bare, mapping ([(''kind'', YString ''policy''), (''name'', YString ''named'')] @ entries)]),
            (''the bare entry'', mapping bare), (''the entries of the state'', mapping entries)] in
      returns_ok (\<lambda>loaded. map po_name (lo_policies loaded) = [''switches-1'', ''named'']) (load_named ''switches'' table input))"

definition single_entry_sequence_still_gets_a_name_suffix :: bool where
  "single_entry_sequence_still_gets_a_name_suffix \<longleftrightarrow>
     (let entry = mapping [(''name'', YString ''eth0''), (''mtu'', number 1500)];
          text = test_lines [''name: eth0'', ''mtu: 1500'', ''''] in
      loaded_first (\<lambda>p. po_name p = ''test-1'')
        (test_load [(test_lines [''- name: eth0'', ''  mtu: 1500'', ''''], YSequence [entry]), (text, entry)])
      \<and> loaded_first (\<lambda>p. po_name p = ''test'') (test_load [(text, entry)]))"

definition directory_table :: "(string \<times> doc) list" where
  "directory_table =
     [(''z'', mapping [match_eth ''eth2'', (''mtu'', number 1500)]),
      (''a'', mapping [match_eth ''eth1'', (''enabled'', YBool True)]),
      (''z again'', mapping [match_eth ''eth3'', (''mtu'', number 1500)])]"

definition load_test_dir :: "(string \<times> file_node) list \<Rightarrow> (load_outcome, policy_error) outcome" where
  "load_test_dir sub =
     load_policy_dir (test_policy_lib directory_table) (\<lambda>_ _. test_fresh)
       [(''z.yaml'', RegularFile (Ok ''z'')), (''sub'', Directory sub None),
        (''.hidden'', Directory [(''ignored.yaml'', RegularFile (Ok ''hidden''))] None)] None MatchByName"

definition directory_load_is_sorted_skips_hidden_paths_and_detects_duplicates :: bool where
  "directory_load_is_sorted_skips_hidden_paths_and_detects_duplicates \<longleftrightarrow>
     returns_ok (\<lambda>loaded. map po_name (lo_policies loaded) = [''a'', ''z'']) (load_test_dir [(''a.yml'', RegularFile (Ok ''a''))])
     \<and> load_test_dir [(''a.yml'', RegularFile (Ok ''a'')), (''z.yaml'', RegularFile (Ok ''z again''))] = Err (DuplicateName ''z'')"

theorem production_tests_pass:
  "registry_inventory_is_fixed_and_ordered" "provider_schemas_compose_without_conflict"
  "explicit_policy_splits_static_fields_and_dhcp_parameters" "provider_only_policy_has_no_empty_static_contribution"
  "production_preserves_explicitly_empty_maps" "explicit_device_type_survives_production_and_writable_validation"
  by code_simp+

theorem loading_tests_pass:
  "bare_query_form_normalizes_and_keeps_provider_trigger" "invalid_provider_parameters_are_rejected_before_production"
  "policy_set_preserves_overlapping_contributions_and_rejects_duplicate_names" "mixed_sequence_uses_suffixes_only_for_bare_entries"
  "single_entry_sequence_still_gets_a_name_suffix" "directory_load_is_sorted_skips_hidden_paths_and_detects_duplicates"
  by code_simp+

end
