(* ===== verification/RegistryTests.thy ===== *)
theory RegistryTests
  imports BackendReg TestBase
begin

text \<open>
  The unit tests of \<open>crates/netfyr-backend/src/registry.rs\<close>, restated over the model and evaluated.
\<close>

section \<open>Fixtures\<close>

text \<open>\<open>StubBackend\<close>; \<open>stub_id\<close> is the identity of the \<open>Arc\<close> around it.\<close>

record registry_stub =
  stub_id :: nat
  stub_namespace :: namespace_id
  stub_entities :: "string list"
  stub_devices :: "device_observation list"
  stub_failure :: "backend_error_kind option"
  stub_diagnostics :: "diagnostic list"

fun stub_supports :: "operation_kind \<Rightarrow> bool" where
  "stub_supports (SetMtu _) = True"
| "stub_supports _ = False"

definition stub_query :: "registry_stub \<Rightarrow> match_spec \<Rightarrow> (observation, backend_error, unit) action" where
  "stub_query s selector =
     alift (case stub_failure s of
       Some kind \<Rightarrow> Err (error_new kind ''stub failure'')
     | None \<Rightarrow> Ok \<lparr>devices = filter (\<lambda>d. matches selector (st_match (dev_st d))) (stub_devices s),
                  diagnostics = stub_diagnostics s\<rparr>)"

definition arc :: "registry_stub \<Rightarrow> unit backend" where
  "arc s = \<lparr>bk_id = stub_id s, bk_namespace = stub_namespace s, bk_entities = stub_entities s, bk_supports = stub_supports,
     bk_query = stub_query s\<rparr>"

definition registry_device :: "u64 \<Rightarrow> string \<Rightarrow> device_observation" where
  "registry_device inode kind =
     (let ident = \<lparr>if_namespace = \<lparr>ns_device = 4, ns_inode = inode\<rparr>, if_index = 7, if_generation = 1, if_name = ''eth0'',
                   if_device_type = kind, if_mac = Some ''02:00:00:00:00:01''\<rparr>;
          st = (new_state \<lparr>md_id = 0, md_created_at = 0\<rparr> Kernel)
                 \<lparr>device_type := kind,
                  st_match := default_match\<lparr>match_name := Some (if_name ident), match_type := Some kind, match_mac := if_mac ident\<rparr>\<rparr> in
      \<lparr>identity = ident, dev_st = st, addresses = [], addresses_complete = True, observed_at = 0\<rparr>)"

definition stub_of :: "nat \<Rightarrow> device_observation \<Rightarrow> string list \<Rightarrow> registry_stub" where
  "stub_of i device entities =
     \<lparr>stub_id = i, stub_namespace = if_namespace (identity device), stub_entities = entities, stub_devices = [device],
      stub_failure = None, stub_diagnostics = []\<rparr>"

definition registry_backend :: "nat \<Rightarrow> device_observation \<Rightarrow> string \<Rightarrow> unit backend" where
  "registry_backend i device entity =
     arc (stub_of i device (if entity = ''ethernet'' then [''ethernet''] else [''test-only'']))"

definition registry_operation :: "device_observation \<Rightarrow> operation" where
  "registry_operation device =
     \<lparr>target = identity device, op_kind = SetMtu 9000, depends_on = [], address_group = None\<rparr>"

text \<open>A registration that is unwrapped, and one whose error is.\<close>

definition adds :: "unit backend \<Rightarrow> unit backend list option \<Rightarrow> unit backend list option" where
  "adds b registry = Option.bind registry (\<lambda>bs. case register b bs of (Ok _, bs') \<Rightarrow> Some bs' | _ \<Rightarrow> None)"

definition refuses_as :: "backend_error_kind \<Rightarrow> unit backend \<Rightarrow> unit backend list option \<Rightarrow> bool" where
  "refuses_as kind b registry = some_with (\<lambda>bs. fails_with (\<lambda>e. be_kind e = kind) (fst (register b bs))) registry"

definition registry_of :: "unit backend list \<Rightarrow> unit backend list option" where
  "registry_of bs = fold adds bs (Some [])"

definition in_registry :: "unit backend list option \<Rightarrow> (unit backend list \<Rightarrow> bool) \<Rightarrow> bool" where
  "in_registry registry P = some_with P registry"

section \<open>Tests\<close>

definition overlapping_owners_are_rejected_only_within_one_namespace :: bool where
  "overlapping_owners_are_rejected_only_within_one_namespace \<longleftrightarrow>
     (let device = registry_device;
          registry = registry_of [registry_backend 1 (device 1 ''ethernet'') ''ethernet''] in
      refuses_as Conflict (registry_backend 2 (device 1 ''ethernet'') ''ethernet'') registry
      \<and> refuses_as Conflict (arc (stub_of 3 (device 1 ''ethernet'') [''bridge'', ''ethernet''])) registry
      \<and> in_registry (adds (registry_backend 5 (device 2 ''ethernet'') ''ethernet'')
           (adds (arc (stub_of 4 (device 1 ''ethernet'') [''bridge'', ''bond''])) registry)) (\<lambda>_. True))"

definition resolution_selects_namespace_and_retains_original_error_context :: bool where
  "resolution_selects_namespace_and_retains_original_error_context \<longleftrightarrow>
     (let first = registry_device 1 ''ethernet''; second = registry_device 2 ''ethernet'';
          expected = registry_backend 2 second ''ethernet'';
          op = registry_operation second in
      in_registry (registry_of [registry_backend 1 first ''ethernet'', expected]) (\<lambda>registry.
        returns_ok (\<lambda>actual. bk_id actual = bk_id expected) (fst (resolve registry 12 op ()))
        \<and> fails_with (\<lambda>e. be_kind e = UnsupportedOperation
              \<and> some_with (\<lambda>context. ctx_index context = 12 \<and> ctx_target context = identity second \<and> ctx_kind context = AddEntity)
                  (be_context e))
            (fst (resolve registry 12 (op\<lparr>op_kind := AddEntity\<rparr>) ()))))"

definition discovered_unsupported_kind_cannot_be_spoofed_as_ethernet :: bool where
  "discovered_unsupported_kind_cannot_be_spoofed_as_ethernet \<longleftrightarrow>
     (let observed = registry_device 1 ''bridge''; op = registry_operation observed in
      in_registry (registry_of [registry_backend 1 observed ''ethernet'']) (\<lambda>registry.
        fails_with (\<lambda>e. be_kind e = UnsupportedEntityType)
          (fst (resolve registry 0 (op\<lparr>target := (target op)\<lparr>if_device_type := ''ethernet''\<rparr>\<rparr>) ()))))"

definition reused_interface_name_requires_a_fresh_plan :: bool where
  "reused_interface_name_requires_a_fresh_plan \<longleftrightarrow>
     (let observed = registry_device 1 ''ethernet''; op = registry_operation observed in
      in_registry (registry_of [registry_backend 1 observed ''ethernet'']) (\<lambda>registry.
        fails_with (\<lambda>e. be_kind e = StaleState \<and> some_with (\<lambda>context. ctx_index context = 4) (be_context e))
          (fst (resolve registry 4 (op\<lparr>target := (target op)\<lparr>if_generation := 0\<rparr>\<rparr>) ()))))"

definition inventory_deduplicates_within_namespace_and_prefers_the_type_owner :: bool where
  "inventory_deduplicates_within_namespace_and_prefers_the_type_owner \<longleftrightarrow>
     (let observed = registry_device 1 ''ethernet'';
          owner_observation = observed\<lparr>identity := (identity observed)\<lparr>if_generation := 2\<rparr>\<rparr> in
      in_registry (registry_of [registry_backend 1 observed ''test-only'', registry_backend 2 owner_observation ''ethernet'',
          registry_backend 3 (registry_device 2 ''ethernet'') ''ethernet'']) (\<lambda>registry.
        returns_ok (\<lambda>result. length (devices result) = 2 \<and> if_generation (identity (devices result ! 0)) = 2
            \<and> if_namespace (identity (devices result ! 0)) \<noteq> if_namespace (identity (devices result ! 1)))
          (fst (query_all registry ()))))"

definition absent_namespace_and_absent_named_interface_are_not_found :: bool where
  "absent_namespace_and_absent_named_interface_are_not_found \<longleftrightarrow>
     in_registry (registry_of [registry_backend 1 (registry_device 1 ''ethernet'') ''ethernet'']) (\<lambda>registry.
       fails_with (\<lambda>e. be_kind e = NotFound) (fst (resolve registry 0 (registry_operation (registry_device 2 ''ethernet'')) ()))
       \<and> fails_with (\<lambda>e. be_kind e = NotFound) (fst (query registry (default_match\<lparr>match_name := Some ''missing''\<rparr>) ()))
       \<and> returns_ok (\<lambda>result. devices result = []) (fst (query registry (default_match\<lparr>match_type := Some ''missing''\<rparr>) ())))"

definition query_skips_not_found_backends_and_propagates_other_failures :: bool where
  "query_skips_not_found_backends_and_propagates_other_failures \<longleftrightarrow>
     (let missing = (stub_of 1 (registry_device 1 ''ethernet'') [''ethernet''])\<lparr>stub_failure := Some NotFound\<rparr>;
          broken = (stub_of 3 (registry_device 3 ''ethernet'') [''ethernet''])\<lparr>stub_failure := Some QueryFailed\<rparr>;
          registry = registry_of [arc missing, registry_backend 2 (registry_device 2 ''ethernet'') ''ethernet''] in
      in_registry registry (\<lambda>registry.
        returns_ok (\<lambda>result. length (devices result) = 1 \<and> ns_inode (if_namespace (identity (devices result ! 0))) = 2)
          (fst (query_all registry ())))
      \<and> in_registry (adds (arc broken) registry) (\<lambda>registry.
          fails_with (\<lambda>e. be_kind e = QueryFailed) (fst (query_all registry ()))
          \<and> fails_with (\<lambda>e. be_kind e = QueryFailed \<and> some_with (\<lambda>context. ctx_index context = 5) (be_context e))
              (fst (resolve registry 5 (registry_operation (registry_device 3 ''ethernet'')) ()))))"

definition a_device_from_another_namespace_is_an_internal_error :: bool where
  "a_device_from_another_namespace_is_an_internal_error \<longleftrightarrow>
     (let stub = stub_of 1 (registry_device 1 ''ethernet'') [''ethernet''];
          misplaced = stub\<lparr>stub_devices := map (\<lambda>d. d\<lparr>identity := (identity d)\<lparr>if_namespace :=
            (if_namespace (identity d))\<lparr>ns_inode := 2\<rparr>\<rparr>\<rparr>) (stub_devices stub)\<rparr> in
      in_registry (registry_of [arc misplaced]) (\<lambda>registry.
        fails_with (\<lambda>e. be_kind e = Internal) (fst (query_all registry ()))))"

definition registry_issue :: "string \<Rightarrow> diagnostic" where
  "registry_issue message = \<lparr>diag_target = None, diag_field = None, diag_message = message\<rparr>"

definition diagnostics_from_every_backend_are_kept :: bool where
  "diagnostics_from_every_backend_are_kept \<longleftrightarrow>
     (let first = (stub_of 1 (registry_device 1 ''ethernet'') [''ethernet''])\<lparr>stub_diagnostics := [registry_issue ''first'']\<rparr>;
          second = (stub_of 2 (registry_device 2 ''ethernet'') [''ethernet''])\<lparr>stub_diagnostics := [registry_issue ''second'']\<rparr> in
      in_registry (registry_of [arc first, arc second]) (\<lambda>registry.
        returns_ok (\<lambda>result. diagnostics result = [registry_issue ''first'', registry_issue ''second'']) (fst (query_all registry ()))))"

definition a_plan_resolves_to_one_backend_or_is_refused :: bool where
  "a_plan_resolves_to_one_backend_or_is_refused \<longleftrightarrow>
     (let first = registry_device 1 ''ethernet''; second = registry_device 2 ''ethernet'';
          expected = registry_backend 1 first ''ethernet'';
          diff = \<lparr>changes = [], operations = [registry_operation first, registry_operation first], diff_diagnostics = []\<rparr> in
      in_registry (registry_of [expected, registry_backend 2 second ''ethernet'']) (\<lambda>registry.
        returns_ok (\<lambda>resolved. bk_id resolved = bk_id expected) (fst (resolve_plan registry diff ()))
        \<and> fails_with (\<lambda>e. be_kind e = UnsupportedOperation \<and> some_with (\<lambda>context. ctx_index context = 2) (be_context e))
            (fst (resolve_plan registry (diff\<lparr>operations := operations diff @ [registry_operation second]\<rparr>) ()))
        \<and> fails_with (\<lambda>e. be_kind e = NotFound) (fst (resolve_plan registry \<lparr>changes = [], operations = [], diff_diagnostics = []\<rparr> ()))))"

theorem registry_tests_pass:
  "overlapping_owners_are_rejected_only_within_one_namespace"
  "resolution_selects_namespace_and_retains_original_error_context"
  "discovered_unsupported_kind_cannot_be_spoofed_as_ethernet" "reused_interface_name_requires_a_fresh_plan"
  "inventory_deduplicates_within_namespace_and_prefers_the_type_owner"
  "absent_namespace_and_absent_named_interface_are_not_found" "query_skips_not_found_backends_and_propagates_other_failures"
  "a_device_from_another_namespace_is_an_internal_error" "diagnostics_from_every_backend_are_kept"
  "a_plan_resolves_to_one_backend_or_is_refused"
  by code_simp+

end
