(* ===== verification/WireTests.thy ===== *)
theory WireTests
  imports Linux TestBase
begin

text \<open>
  What the unit tests of \<open>crates/netfyr-backend/src/linux.rs\<close> build their inputs from.  Where a test emits a message and parses
  it again, the model's parameters \<open>route_lib\<close> and \<open>netlink_lib\<close> are instantiated by \<open>wire_lib\<close>, the little-endian netlink wire
  format of the attributes that the tests use.
\<close>

section \<open>Bytes\<close>

fun le_bytes :: "nat \<Rightarrow> nat \<Rightarrow> string" where
  "le_bytes 0 n = []"
| "le_bytes (Suc k) n = char_of (n mod 256) # le_bytes k (n div 256)"

fun le_value :: "string \<Rightarrow> int" where
  "le_value [] = 0"
| "le_value (c # cs) = of_char c + 256 * le_value cs"

definition field_at :: "nat \<Rightarrow> nat \<Rightarrow> string \<Rightarrow> int" where
  "field_at i k bytes = le_value (take k (drop i bytes))"

text \<open>\<open>attribute\<close>: the length and the kind, the payload, and the padding to the alignment.\<close>

definition test_attribute :: "nat \<Rightarrow> string \<Rightarrow> string" where
  "test_attribute kind payload =
     (let bytes = le_bytes 2 (4 + length payload) @ le_bytes 2 kind @ payload in
      bytes @ replicate (unat (the (align (of_nat (length bytes)))) - length bytes) (CHR 0x00))"

section \<open>The wire format\<close>

definition wire_nla :: "string \<Rightarrow> string + nla" where
  "wire_nla bytes =
     (let size = field_at 0 2 bytes in
      if length bytes < 4 \<or> int (length bytes) < size \<or> size < 4 then Inl ''invalid attribute length''
      else Inr \<lparr>nla_kind = of_int (field_at 2 2 bytes), nla_value = drop 4 (take (nat size) bytes)\<rparr>)"

function wire_nlas :: "string \<Rightarrow> (string + nla) list" where
  "wire_nlas bytes =
     (if bytes = [] then []
      else
        (case wire_nla bytes of
           Inl err \<Rightarrow> [Inl err]
         | Inr a \<Rightarrow> Inr a # wire_nlas (drop (max 4 (nat ((field_at 0 2 bytes + 3) div 4 * 4))) bytes)))"
  by pat_completeness auto
termination by (relation "measure length") auto

declare wire_nlas.simps [simp del]

definition wire_checked :: "string \<Rightarrow> string + u32" where
  "wire_checked bytes =
     (let size = field_at 0 4 bytes in
      if length bytes < 16 \<or> int (length bytes) < size \<or> size < 16 then Inl ''invalid netlink packet length''
      else Inr (of_int size))"

definition wire_message :: "string \<Rightarrow> string + netlink_message" where
  "wire_message bytes =
     (let kind = field_at 4 2 bytes; body = drop 16 bytes in
      Inr \<lparr>nm_flags = of_int (field_at 6 2 bytes),
           nm_payload = (if kind = 3 then DonePayload \<lparr>done_code = 0, done_extack = [], done_io = \<lparr>raw_os_error = Some 0, io_message = []\<rparr>\<rparr>
             else InnerMessage \<lparr>pk_kind = of_int kind, pk_body = body\<rparr>)\<rparr>)"

definition wire_family :: "int \<Rightarrow> address_family" where
  "wire_family n = (if n = 0 then AfUnspec else if n = 2 then AfInet else OtherFamily (of_int n))"

definition wire_layer :: "int \<Rightarrow> link_layer" where
  "wire_layer n = (if n = 1 then LayerEther else if n = 772 then LayerLoopback else OtherLayer (of_int n))"

definition wire_header :: "string \<Rightarrow> string + link_header" where
  "wire_header bytes =
     (if length bytes < 16 then Inl ''link header is too short''
      else Inr \<lparr>lh_family = wire_family (field_at 0 1 bytes), lh_index = of_int (field_at 4 4 bytes),
                lh_layer = wire_layer (field_at 2 2 bytes), lh_flags = of_int (field_at 8 4 bytes),
                lh_change_mask = of_int (field_at 12 4 bytes)\<rparr>)"

definition wire_info :: "(string + nla) list \<Rightarrow> string + link_attribute" where
  "wire_info items =
     (case items of
        [Inr a] \<Rightarrow> Inr (AttrLinkInfo
          [if nla_kind a = 1 then InfoKindAttr (if nla_value a = ''veth'' then KindVeth else OtherKind (nla_value a)) else OtherInfo])
      | _ \<Rightarrow> Inl ''invalid link information'')"

definition wire_attribute :: "nla \<Rightarrow> address_family \<Rightarrow> string + link_attribute" where
  "wire_attribute a family =
     (let value = nla_value a in
      if nla_kind a = 3 then Inr (AttrIfName (takeWhile (\<lambda>c. c \<noteq> CHR 0x00) value))
      else if nla_kind a = 1 then Inr (AttrMac value)
      else if nla_kind a = 4 then
        (if length value = 4 then Inr (AttrMtu (of_int (le_value value))) else Inl ''invalid IFLA_MTU value'')
      else if nla_kind a = 33 then
        (if length value = 1 then Inr (AttrCarrier (of_int (le_value value))) else Inl ''invalid IFLA_CARRIER value'')
      else if nla_kind a = 18 then wire_info (wire_nlas value)
      else Inr (OtherLinkAttribute (nla_kind a)))"

definition wire_netlink :: netlink_lib where
  "wire_netlink = \<lparr>checked_length = wire_checked, parse_message = wire_message, nlas = wire_nlas,
     ne_u32 = (\<lambda>bytes. of_int (le_value bytes)), utf8_error_text = (\<lambda>_. ''invalid utf-8'')\<rparr>"

definition wire_lib :: route_lib where
  "wire_lib = \<lparr>rl_netlink = wire_netlink, parse_link_header = wire_header, parse_link_attribute = wire_attribute,
     parse_address_message = (\<lambda>_. Inl ''not used'')\<rparr>"

section \<open>Fixtures\<close>

definition test_link_message :: "info_kind option \<Rightarrow> link_message" where
  "test_link_message kind =
     default_link\<lparr>lm_header := (lm_header default_link)\<lparr>lh_index := 3, lh_layer := LayerEther\<rparr>,
       lm_attributes := AttrIfName ''test0'' # (case kind of Some k \<Rightarrow> [AttrLinkInfo [InfoKindAttr k]] | None \<Rightarrow> [])\<rparr>"

definition test_link :: "info_kind option \<Rightarrow> parsed_link" where
  "test_link kind =
     \<lparr>pl_message = test_link_message kind, pl_name = ''test0'', pl_kind_valid = True, pl_diagnostics = []\<rparr>"

fun family_byte :: "address_family \<Rightarrow> nat" where
  "family_byte AfUnspec = 0"
| "family_byte AfInet = 2"
| "family_byte (OtherFamily n) = unat n"

fun layer_value :: "link_layer \<Rightarrow> nat" where
  "layer_value LayerEther = 1"
| "layer_value LayerLoopback = 772"
| "layer_value (OtherLayer n) = unat n"

fun emitted_info :: "link_info \<Rightarrow> string" where
  "emitted_info (InfoKindAttr KindVeth) = test_attribute 1 ''veth''"
| "emitted_info (InfoKindAttr (OtherKind text)) = test_attribute 1 text"
| "emitted_info OtherInfo = []"

fun emitted_attribute :: "link_attribute \<Rightarrow> string" where
  "emitted_attribute (AttrMtu mtu) = test_attribute 4 (le_bytes 4 (unat mtu))"
| "emitted_attribute (AttrCarrier carrier) = test_attribute 33 [char_of (unat carrier)]"
| "emitted_attribute (AttrMac bytes) = test_attribute 1 bytes"
| "emitted_attribute (AttrIfName name) = test_attribute 3 (name @ [CHR 0x00])"
| "emitted_attribute (AttrLinkInfo information) = test_attribute 18 (concat (map emitted_info information))"
| "emitted_attribute (OtherLinkAttribute kind) = test_attribute (unat kind) []"

definition emitted :: "link_message \<Rightarrow> string" where
  "emitted message =
     (let header = lm_header message in
      le_bytes 2 (family_byte (lh_family header)) @ le_bytes 2 (layer_value (lh_layer header)) @ le_bytes 4 (unat (lh_index header))
      @ le_bytes 4 (unat (lh_flags header)) @ le_bytes 4 (unat (lh_change_mask header))
      @ concat (map emitted_attribute (lm_attributes message)))"

definition test_stream :: "netlink_payload list \<Rightarrow> netlink_message list" where
  "test_stream payloads = map (\<lambda>payload. \<lparr>nm_flags = 0, nm_payload = payload\<rparr>) payloads"

definition test_collect :: "netlink_payload list \<Rightarrow> exchange \<Rightarrow> (route_packet list, backend_error) outcome" where
  "test_collect payloads exchange = collect_response wire_netlink exchange (test_stream payloads) []"

definition test_packet :: "u16 \<Rightarrow> netlink_payload" where
  "test_packet kind = InnerMessage \<lparr>pk_kind = kind, pk_body = []\<rparr>"

definition raw_io :: "int \<Rightarrow> io_error" where
  "raw_io errno = \<lparr>raw_os_error = Some errno, io_message = []\<rparr>"

definition test_ack :: netlink_payload where
  "test_ack = ErrorPayload \<lparr>em_code = None, em_header = [], em_io = raw_io 0\<rparr>"

definition test_done :: "int \<Rightarrow> netlink_payload" where
  "test_done code = DonePayload \<lparr>done_code = code, done_extack = [], done_io = raw_io (- code)\<rparr>"

definition test_ipv4 :: "u8 \<Rightarrow> u8 \<Rightarrow> ipv4_address" where
  "test_ipv4 host len =
     \<lparr>ip = ipv4_of_octets [192, 0, 2, unat host], prefix_len = len, valid_lft = None, preferred_lft = None\<rparr>"

end
