(* ===== verification/LinuxTests.thy ===== *)
theory LinuxTests
  imports WireTests Worker
begin

text \<open>
  The unit tests of \<open>crates/netfyr-backend/src/linux.rs\<close> that touch neither the kernel nor its random generator, restated over the
  model and evaluated; and the test of \<open>may_match\<close> in \<open>worker.rs\<close>.
\<close>

section \<open>Links\<close>

definition classification_preserves_virtual_kinds_and_rejects_wireless :: bool where
  "classification_preserves_virtual_kinds_and_rejects_wireless \<longleftrightarrow>
     (let empty = [];
          loopback = test_link None;
          loopback = loopback\<lparr>pl_message := (pl_message loopback)\<lparr>lm_header := (lm_header (pl_message loopback))\<lparr>lh_layer := LayerLoopback\<rparr>\<rparr>\<rparr>;
          invalid = (test_link (Some KindVeth))\<lparr>pl_kind_valid := False\<rparr> in
      classify_link (test_link (Some KindVeth)) None = ETHERNET
      \<and> list_all (\<lambda>(kind, expected). classify_link (test_link (Some kind)) (Some empty) = expected)
          [(OtherKind ''bridge'', ''bridge''), (OtherKind ''bond'', ''bond''), (OtherKind ''vlan'', ''vlan''),
           (OtherKind ''dummy'', ''dummy'')]
      \<and> classify_link (test_link None) (Some [3]) = ''wifi''
      \<and> classify_link (test_link None) None = ''unknown''
      \<and> classify_link (test_link None) (Some empty) = ETHERNET
      \<and> classify_link loopback (Some empty) = ''loopback''
      \<and> classify_link invalid (Some empty) = ''unknown'')"

definition test_md :: state_metadata where
  "test_md = \<lparr>md_id = 0, md_created_at = 0\<rparr>"

definition link_state_reports_base_fields_and_formats_the_mac :: bool where
  "link_state_reports_base_fields_and_formats_the_mac \<longleftrightarrow>
     (let parsed = test_link (Some KindVeth);
          message = pl_message parsed;
          parsed = parsed\<lparr>pl_message := message\<lparr>lm_header := (lm_header message)\<lparr>lh_flags := IFF_UP\<rparr>,
            lm_attributes := lm_attributes message
              @ [AttrMtu 1400, AttrCarrier 0, AttrMac [CHR 0x02, CHR 0x00, CHR 0x00, CHR 0x00, CHR 0x00, CHR 0x0A]]\<rparr>\<rparr>;
          (st, mac) = link_state test_md parsed ETHERNET;
          (st', mac') = link_state test_md (test_link None) ''unknown'' in
      mac = Some ''02:00:00:00:00:0a'' \<and> match_mac (st_match st) = mac
      \<and> match_name (st_match st) = Some ''test0'' \<and> match_type (st_match st) = Some ETHERNET
      \<and> im_get (st_fields st) ''mtu'' = Some (VU64 1400) \<and> im_get (st_fields st) ''enabled'' = Some (VBool True)
      \<and> im_get (st_fields st) ''carrier'' = Some (VBool False) \<and> im_get (st_fields st) ''name'' = Some (VString ''test0'')
      \<and> mac' = None \<and> im_get (st_fields st') ''enabled'' = Some (VBool False) \<and> im_get (st_fields st') ''mtu'' = None)"

fun hardware_or_carrier :: "link_attribute \<Rightarrow> bool" where
  "hardware_or_carrier (AttrMac _) = True"
| "hardware_or_carrier (AttrCarrier _) = True"
| "hardware_or_carrier _ = False"

text \<open>The bytes of a link with the attributes appended, and with further bytes after its own.\<close>

definition link_with :: "link_attribute list \<Rightarrow> string" where
  "link_with attributes =
     emitted ((test_link_message None)\<lparr>lm_attributes := lm_attributes (test_link_message None) @ attributes\<rparr>)"

definition link_followed_by :: "string \<Rightarrow> string" where
  "link_followed_by bytes = emitted (test_link_message None) @ bytes"

definition link_parsing_reports_invalid_attributes_and_rejects_unusable_links :: bool where
  "link_parsing_reports_invalid_attributes_and_rejects_unusable_links \<longleftrightarrow>
     returns_ok (\<lambda>parsed. map fst (pl_diagnostics parsed) = [''mac'', ''carrier''])
       (parse_link wire_lib (link_with [AttrMac [CHR 0x01, CHR 0x02, CHR 0x03, CHR 0x04], AttrCarrier 2]))
     \<and> returns_ok (\<lambda>parsed. \<not> list_ex hardware_or_carrier (lm_attributes (pl_message parsed)))
       (parse_link wire_lib (link_with [AttrMac [CHR 0x01, CHR 0x02, CHR 0x03, CHR 0x04], AttrCarrier 2]))
     \<and> returns_ok (\<lambda>parsed. \<not> pl_kind_valid parsed)
       (parse_link wire_lib (link_followed_by (test_attribute (unat IFLA_LINKINFO) [CHR 0xFF, CHR 0xFF, CHR 0x00, CHR 0x00])))
     \<and> returns_ok (\<lambda>parsed. fst (hd (pl_diagnostics parsed)) = ''netlink.attribute.18'' \<and> classify_link parsed (Some []) = ''unknown'')
       (parse_link wire_lib (link_followed_by (test_attribute (unat IFLA_LINKINFO) [CHR 0xFF, CHR 0xFF, CHR 0x00, CHR 0x00])))
     \<and> fails_with (\<lambda>e. be_kind e = QueryFailed) (parse_link wire_lib [CHR 0x01, CHR 0x02, CHR 0x03])
     \<and> fails_with (\<lambda>e. be_kind e = QueryFailed) (parse_link wire_lib (emitted ((test_link_message None)\<lparr>lm_attributes := []\<rparr>)))
     \<and> fails_with (\<lambda>e. be_kind e = QueryFailed)
       (parse_link wire_lib (link_followed_by [CHR 0x40, CHR 0x00, CHR 0x03, CHR 0x00]))"

definition optional_invalid_attribute_preserves_link :: bool where
  "optional_invalid_attribute_preserves_link \<longleftrightarrow>
     returns_ok (\<lambda>parsed. pl_name parsed = ''test0'' \<and> map fst (pl_diagnostics parsed) = [''netlink.attribute.4'']
         \<and> classify_link parsed None = ETHERNET)
       (parse_link wire_lib (emitted (test_link_message (Some KindVeth)) @ test_attribute 4 [CHR 0x01]))"

fun mac_of_length :: "nat \<Rightarrow> link_attribute \<Rightarrow> bool" where
  "mac_of_length n (AttrMac bytes) = (length bytes = n)"
| "mac_of_length n _ = False"

definition non_ethernet_hardware_address_is_preserved :: bool where
  "non_ethernet_hardware_address_is_preserved \<longleftrightarrow>
     (let message = test_link_message None;
          message = message\<lparr>lm_header := (lm_header message)\<lparr>lh_layer := OtherLayer 32\<rparr>,
            lm_attributes := lm_attributes message @ [AttrMac (replicate 20 (CHR 0x01))]\<rparr> in
      returns_ok (\<lambda>parsed. pl_diagnostics parsed = [] \<and> list_ex (mac_of_length 20) (lm_attributes (pl_message parsed)))
        (parse_link wire_lib (emitted message)))"

theorem link_tests_pass:
  "classification_preserves_virtual_kinds_and_rejects_wireless" "link_state_reports_base_fields_and_formats_the_mac"
  "link_parsing_reports_invalid_attributes_and_rejects_unusable_links" "optional_invalid_attribute_preserves_link"
  "non_ethernet_hardware_address_is_preserved"
  by code_simp+

section \<open>Addresses\<close>

fun is_address :: "address_attribute \<Rightarrow> bool" where
  "is_address (AttrAddress _) = True"
| "is_address _ = False"

fun is_local :: "address_attribute \<Rightarrow> bool" where
  "is_local (AttrLocal _) = True"
| "is_local _ = False"

definition retain :: "(address_attribute \<Rightarrow> bool) \<Rightarrow> address_message \<Rightarrow> address_message" where
  "retain P message = message\<lparr>am_attributes := filter P (am_attributes message)\<rparr>"

definition push_attributes :: "address_attribute list \<Rightarrow> address_message \<Rightarrow> address_message" where
  "push_attributes attributes message = message\<lparr>am_attributes := am_attributes message @ attributes\<rparr>"

definition IFA_BROADCAST :: u16 where "IFA_BROADCAST = 4"

definition peer_address :: ipv4_addr where
  "peer_address = ipv4_of_octets [192, 0, 2, 8]"

definition assigned_ipv4_keeps_secondary_lifetimes_and_uses_local :: bool where
  "assigned_ipv4_keeps_secondary_lifetimes_and_uses_local \<longleftrightarrow>
     (let addr = (test_ipv4 7 16)\<lparr>valid_lft := Some 300, preferred_lft := Some 120\<rparr>;
          message = push_attributes [AttrAddress (V4 peer_address), OtherAddressAttribute IFA_BROADCAST]
            (retain (\<lambda>a. \<not> is_address a) ((address_message_of 3 addr True)\<lparr>am_flags := ucast IFA_F_SECONDARY\<rparr>)) in
      returns_ok (\<lambda>observed. address observed = addr \<and> addr_flags observed = IFA_F_SECONDARY
          \<and> peer observed = Some peer_address)
        (parse_address message))"

definition address_parsing_falls_back_to_the_address_attribute_and_omits_a_self_peer :: bool where
  "address_parsing_falls_back_to_the_address_attribute_and_omits_a_self_peer \<longleftrightarrow>
     (let message = address_message_of 3 (test_ipv4 7 24) True in
      returns_ok (\<lambda>observed. peer observed = None) (parse_address message)
      \<and> returns_ok (\<lambda>observed. ip (address observed) = ipv4_of_octets [192, 0, 2, 7] \<and> peer observed = None)
          (parse_address (retain (\<lambda>a. \<not> is_local a) message)))"

definition cache_default :: cache_info where
  "cache_default = \<lparr>ifa_preferred = 0, ifa_valid = 0\<rparr>"

definition missing_or_invalid_address_data_is_not_an_empty_observation :: bool where
  "missing_or_invalid_address_data_is_not_an_empty_observation \<longleftrightarrow>
     (let bare = default_address\<lparr>am_family := AfInet\<rparr>;
          assigned = push_attributes [AttrLocal (V4 (ipv4_of_octets [127, 0, 0, 1]))] bare;
          complete = push_attributes [AttrCacheInfo cache_default] assigned;
          long = complete\<lparr>am_prefix_len := 33\<rparr>;
          inet6 = complete\<lparr>am_family := OtherFamily 10\<rparr>;
          mixed = push_attributes [AttrAddress (V6 1)] complete;
          inverted = push_attributes [AttrCacheInfo (cache_default\<lparr>ifa_valid := 10, ifa_preferred := 11\<rparr>)] complete in
      fails_with (\<lambda>_. True) (parse_address bare) \<and> fails_with (\<lambda>_. True) (parse_address assigned)
      \<and> returns_ok (\<lambda>_. True) (parse_address complete)
      \<and> list_all (\<lambda>invalid. fails_with (\<lambda>_. True) (parse_address invalid)) [long, inet6, mixed, inverted])"

definition address_messages_carry_resolved_lifetimes_only_when_requested :: bool where
  "address_messages_carry_resolved_lifetimes_only_when_requested \<longleftrightarrow>
     (let addr = (test_ipv4 1 24)\<lparr>valid_lft := Some 300\<rparr>;
          with_lifetimes = address_message_of 5 addr True in
      \<not> list_ex is_cache_info (am_attributes (address_message_of 5 addr False))
      \<and> returns_ok (\<lambda>observed. valid_lft (address observed) = Some 300 \<and> preferred_lft (address observed) = Some 300)
          (parse_address with_lifetimes)
      \<and> am_index with_lifetimes = 5 \<and> replacement_message None 5 addr = with_lifetimes)"

definition replacement_retains_observed_peer_scope_and_flags :: bool where
  "replacement_retains_observed_peer_scope_and_flags \<longleftrightarrow>
     (let addr = (test_ipv4 1 24)\<lparr>valid_lft := Some 300, preferred_lft := Some 200\<rparr>;
          observed = push_attributes [AttrAddress (V4 peer_address)]
            (retain (\<lambda>a. \<not> is_address a)
              ((address_message_of 7 addr True)\<lparr>am_scope := RT_SCOPE_LINK, am_flags := ucast IFA_F_SECONDARY\<rparr>));
          desired = addr\<lparr>valid_lft := Some 400, preferred_lft := Some 350\<rparr> in
      returns_ok (\<lambda>parsed. address parsed = desired \<and> scope parsed = RT_SCOPE_LINK
          \<and> addr_flags parsed = IFA_F_SECONDARY \<and> peer parsed = Some peer_address)
        (parse_address (replacement_message (Some observed) 7 desired)))"

definition removal_names_the_observed_address_without_its_attributes :: bool where
  "removal_names_the_observed_address_without_its_attributes \<longleftrightarrow>
     (let addr = test_ipv4 1 24;
          observed = push_attributes [AttrLabel ''veth0:1'', AttrFlags 0x80] (address_message_of 7 addr True) in
      am_attributes (removal_message (Some observed) 7 addr)
        = [AttrLocal (V4 (ip addr)), AttrAddress (V4 (ip addr)), AttrLabel ''veth0:1'']
      \<and> removal_message None 7 addr = address_message_of 7 addr False)"

lemmas address_eval = test_ipv4_def push_attributes_def retain_def address_message_of_def cache_info_of_def lifetimes_def
  default_address_def parse_address_def ipv4_of_octets_def peer_address_def IFA_F_SECONDARY_def RT_SCOPE_LINK_def replacement_message_def
  removal_message_def cache_default_def u32_max_def

theorem address_parsing_tests_pass:
  "assigned_ipv4_keeps_secondary_lifetimes_and_uses_local"
  "address_parsing_falls_back_to_the_address_attribute_and_omits_a_self_peer"
  "missing_or_invalid_address_data_is_not_an_empty_observation"
  by (simp_all add: assigned_ipv4_keeps_secondary_lifetimes_and_uses_local_def
      address_parsing_falls_back_to_the_address_attribute_and_omits_a_self_peer_def
      missing_or_invalid_address_data_is_not_an_empty_observation_def address_eval)

theorem address_message_tests_pass:
  "address_messages_carry_resolved_lifetimes_only_when_requested" "replacement_retains_observed_peer_scope_and_flags"
  "removal_names_the_observed_address_without_its_attributes"
  by (simp_all add: address_messages_carry_resolved_lifetimes_only_when_requested_def
      replacement_retains_observed_peer_scope_and_flags_def removal_names_the_observed_address_without_its_attributes_def address_eval)

section \<open>Ethernet attributes\<close>

definition unknown_ethtool_values_do_not_invent_speed_or_duplex :: bool where
  "unknown_ethtool_values_do_not_invent_speed_or_duplex \<longleftrightarrow>
     (let unknown = enrich_ethernet (LinkModeDuplex (DuplexOther 7)) (enrich_ethernet (LinkModeSpeed u32_max) ([], []));
          known = fst (enrich_ethernet (LinkModeSpeed 10000) (enrich_ethernet (LinkModeAutoneg False) unknown)) in
      fst unknown = [] \<and> length (snd unknown) = 1
      \<and> im_get known ''autoneg'' = Some (VBool False) \<and> im_get known ''speed'' = Some (VU64 10000))"

section \<open>The codec\<close>

definition strict_framing_rejects_truncated_datagrams :: bool where
  "strict_framing_rejects_truncated_datagrams \<longleftrightarrow>
     fails_with (\<lambda>_. True) (fst (decode_packet wire_netlink [CHR 0x01, CHR 0x02, CHR 0x03]))
     \<and> fails_with (\<lambda>_. True) (fst (decode_packet wire_netlink (le_bytes 4 64 @ replicate 12 (CHR 0x00))))
     \<and> align 17 = Some 20 \<and> align (- 1) = None"

text \<open>A message of the given kind and body with its length in its header, and the padding that aligns it.\<close>

definition wire_packet :: "nat \<Rightarrow> string \<Rightarrow> string" where
  "wire_packet kind body = le_bytes 4 (16 + length body) @ le_bytes 2 kind @ replicate 10 (CHR 0x00) @ body"

fun is_inner :: "netlink_payload \<Rightarrow> bool" where
  "is_inner (InnerMessage _) = True"
| "is_inner _ = False"

fun is_done :: "netlink_payload \<Rightarrow> bool" where
  "is_done (DonePayload _) = True"
| "is_done _ = False"

definition strict_framing_consumes_alignment_between_messages :: bool where
  "strict_framing_consumes_alignment_between_messages \<longleftrightarrow>
     (let first = wire_packet (unat RTM_NEWLINK) [CHR 0x09];
          done = wire_packet 3 (le_bytes 4 0);
          bytes = first @ replicate 3 (CHR 0x00) @ done;
          (one, rest) = decode_packet wire_netlink bytes;
          (two, rest') = decode_packet wire_netlink rest in
      returns_ok (some_with (\<lambda>message. is_inner (nm_payload message))) one
      \<and> returns_ok (some_with (\<lambda>message. is_done (nm_payload message))) two
      \<and> rest' = []
      \<and> returns_ok (some_with (\<lambda>_. True)) (fst (decode_packet wire_netlink first)))"

theorem codec_tests_pass:
  "unknown_ethtool_values_do_not_invent_speed_or_duplex" "strict_framing_rejects_truncated_datagrams"
  "strict_framing_consumes_alignment_between_messages"
  by code_simp+

section \<open>Errors\<close>

definition EBUSY :: int where "EBUSY = 16"
definition ENOBUFS :: int where "ENOBUFS = 105"

definition os_errors_are_classified_by_errno :: bool where
  "os_errors_are_classified_by_errno \<longleftrightarrow>
     list_all (\<lambda>(errno, kind). let e = from_io ApplyFailed (raw_io errno) in (be_kind e, be_errno e) = (kind, Some errno))
       [(EPERM, PermissionDenied), (EACCES, PermissionDenied), (ENODEV, NotFound), (ENXIO, NotFound), (ENOENT, NotFound),
        (EBUSY, ApplyFailed)]"

definition extack_is_found_after_capped_and_uncapped_request_headers :: bool where
  "extack_is_found_after_capped_and_uncapped_request_headers \<longleftrightarrow>
     (let extack = test_attribute (unat NLMSGERR_ATTR_MSG) (''denied'' @ [CHR 0x00]);
          capped = \<lparr>em_code = Some (- EPERM), em_header = replicate 16 (CHR 0x00) @ extack, em_io = raw_io EPERM\<rparr>;
          uncapped = capped\<lparr>em_header := le_bytes 4 21 @ replicate 20 (CHR 0x00) @ extack\<rparr>;
          e = netlink_error wire_netlink ApplyFailed capped (or NLM_F_ACK_TLVS NLM_F_CAPPED) in
      extack_message wire_netlink extack = Some ''denied''
      \<and> be_kind e = PermissionDenied \<and> be_errno e = Some EPERM \<and> be_extack e = Some ''denied''
      \<and> be_extack (netlink_error wire_netlink ApplyFailed uncapped NLM_F_ACK_TLVS) = Some ''denied''
      \<and> be_extack (netlink_error wire_netlink ApplyFailed capped NLM_F_CAPPED) = None)"

section \<open>Exchanges\<close>

definition response_completion_requires_ack_or_done :: bool where
  "response_completion_requires_ack_or_done \<longleftrightarrow>
     list_all (\<lambda>(exchange, kind). fails_with (\<lambda>e. be_kind e = kind) (test_collect [test_packet RTM_NEWADDR] exchange))
       [(Write, OutcomeUnknown), (Read, QueryFailed), (Dump, QueryFailed)]
     \<and> returns_ok (\<lambda>packets. length packets = 1) (test_collect [NoopPayload, test_packet RTM_NEWLINK, test_ack] Read)
     \<and> returns_ok (\<lambda>packets. length packets = 2)
         (test_collect [test_packet RTM_NEWLINK, test_ack, test_packet RTM_NEWLINK, test_done 0] Dump)
     \<and> fails_with (\<lambda>e. be_kind e = OutcomeUnknown) (test_collect [test_done 0] Write)"

definition kernel_errors_and_interrupted_dumps_fail_the_request :: bool where
  "kernel_errors_and_interrupted_dumps_fail_the_request \<longleftrightarrow>
     (let nack = ErrorPayload \<lparr>em_code = Some (- EBUSY), em_header = [], em_io = raw_io EBUSY\<rparr>;
          interrupted = \<lparr>nm_flags = NLM_F_DUMP_INTR, nm_payload = test_done 0\<rparr> in
      fails_with (\<lambda>e. (be_kind e, be_errno e) = (ApplyFailed, Some EBUSY)) (test_collect [nack] Write)
      \<and> fails_with (\<lambda>e. (be_kind e, be_errno e) = (QueryFailed, Some ENOBUFS)) (test_collect [test_done (- ENOBUFS)] Dump)
      \<and> fails_with (\<lambda>e. be_kind e = QueryFailed) (collect_response wire_netlink Dump [interrupted] []))"

definition exchanges_request_acknowledgement_or_a_dump :: bool where
  "exchanges_request_acknowledgement_or_a_dump \<longleftrightarrow>
     exchange_flags Dump = or NLM_F_REQUEST NLM_F_DUMP \<and> exchange_flags Read = or NLM_F_REQUEST NLM_F_ACK
     \<and> exchange_flags Write = or NLM_F_REQUEST NLM_F_ACK"

theorem exchange_tests_pass:
  "os_errors_are_classified_by_errno" "extack_is_found_after_capped_and_uncapped_request_headers"
  "response_completion_requires_ack_or_done" "kernel_errors_and_interrupted_dumps_fail_the_request"
  "exchanges_request_acknowledgement_or_a_dump"
  by code_simp+

section \<open>Deletions\<close>

definition test_deletion :: "address_family \<Rightarrow> route_packet" where
  "test_deletion family =
     \<lparr>pk_kind = RTM_DELLINK,
      pk_body = emitted (default_link\<lparr>lm_header := (lm_header default_link)\<lparr>lh_index := 7, lh_family := family\<rparr>\<rparr>)\<rparr>"

definition only_unspecified_family_link_deletions_are_deletions :: bool where
  "only_unspecified_family_link_deletions_are_deletions \<longleftrightarrow>
     deleted_link wire_lib (test_deletion AfUnspec) = Ok (Some 7)
     \<and> deleted_link wire_lib (test_deletion (OtherFamily 7)) = Ok None
     \<and> deleted_link wire_lib ((test_deletion AfUnspec)\<lparr>pk_kind := RTM_NEWLINK\<rparr>) = Ok None
     \<and> fails_with (\<lambda>_. True) (deleted_link wire_lib \<lparr>pk_kind = RTM_DELLINK, pk_body = [CHR 0x01, CHR 0x02, CHR 0x03]\<rparr>)"

text \<open>The maps and the epoch that \<open>record_deletion\<close> takes are fields of the transport.\<close>

definition transport_with :: "(u32 \<rightharpoonup> u64) \<Rightarrow> u64 \<Rightarrow> unit transport" where
  "transport_with generations epoch =
     \<lparr>lt_world = (), lt_namespace = \<lparr>ns_device = 4, ns_inode = 1\<rparr>, lt_closed = False, lt_ethtool = False, lt_wireless = False,
      lt_generations = generations, lt_epoch = epoch, lt_invalidated = None, lt_addresses = Map.empty, lt_diagnostics = []\<rparr>"

definition deletion_invalidates_the_identity_and_any_inventory_in_progress :: bool where
  "deletion_invalidates_the_identity_and_any_inventory_in_progress \<longleftrightarrow>
     (let inventory_epoch = 0;
          t = record_deletion 7 (transport_with [7 \<mapsto> 123, 8 \<mapsto> 456] inventory_epoch) in
      lt_generations t = [8 \<mapsto> 456]
      \<and> fails_with (\<lambda>e. be_kind e = QueryFailed) (validate_deletion_epoch inventory_epoch (lt_epoch t))
      \<and> returns_ok (\<lambda>_. True) (validate_deletion_epoch (lt_epoch t) (lt_epoch t)))"

theorem deletion_tests_pass:
  "only_unspecified_family_link_deletions_are_deletions" "deletion_invalidates_the_identity_and_any_inventory_in_progress"
proof -
  show "only_unspecified_family_link_deletions_are_deletions" by code_simp
  show "deletion_invalidates_the_identity_and_any_inventory_in_progress"
    by (simp add: deletion_invalidates_the_identity_and_any_inventory_in_progress_def record_deletion_def transport_with_def
        validate_deletion_epoch_def query_failed_def error_new_def)
qed

section \<open>Device text\<close>

definition device_text_helpers_accept_only_well_formed_values :: bool where
  "device_text_helpers_accept_only_well_formed_values \<longleftrightarrow>
     c_string wire_netlink (''veth'' @ CHR 0x00 # ''junk'') = Ok (Some ''veth'')
     \<and> c_string wire_netlink [CHR 0x00] = Ok None
     \<and> fails_with (\<lambda>_. True) (c_string wire_netlink [CHR 0xFF, CHR 0x00])
     \<and> fails_with (\<lambda>_. True) (c_string wire_netlink ''unterminated'')
     \<and> is_pci_address ''0000:00:1f.6''
     \<and> list_all (\<lambda>invalid. \<not> is_pci_address invalid) [''0000:00:1f'', ''zzzz:00:1f.6'', ''0000-00:1f.6'', ''0000:00:1f.6 '']
     \<and> fails_with (\<lambda>_. True) (ifreq_for (replicate IFNAMSIZ (CHR ''a'')))
     \<and> fails_with (\<lambda>_. True) (ifreq_for (''bad'' @ CHR 0x00 # ''name''))
     \<and> returns_ok (\<lambda>_. True) (ifreq_for ''veth0'')
     \<and> format_mac [CHR 0xDE, CHR 0xAD, CHR 0x00, CHR 0x01] = ''de:ad:00:01''"

definition enrichment_ignores_criteria_known_only_after_enrichment :: bool where
  "enrichment_ignores_criteria_known_only_after_enrichment \<longleftrightarrow>
     (let spec = default_match\<lparr>match_name := Some ''eth0'', match_type := Some ETHERNET\<rparr>;
          by_driver = default_match\<lparr>match_name := Some ''eth0'', match_driver := Some ''veth'', match_pci_path := Some ''0000:00:1f.6''\<rparr>;
          other = by_driver\<lparr>match_name := Some ''eth1''\<rparr> in
      may_match by_driver spec \<and> \<not> may_match other spec \<and> may_match default_match spec)"

text \<open>
  What the host answers about a missing path, a regular file and a fifo; neither file is on the namespace file system.
\<close>

definition TMPFS_MAGIC :: i64 where "TMPFS_MAGIC = 0x01021994"

definition idle_host :: host where
  "idle_host =
     \<lparr>ho_open = Inr (), ho_filesystem = Inr TMPFS_MAGIC, ho_metadata = Inr \<lparr>ns_device = 4, ns_inode = 1\<rparr>, ho_spawn = Inr (),
      ho_current = Inr \<lparr>ns_device = 4, ns_inode = 1\<rparr>, ho_setns = Inr (), ho_runtime = Inr (),
      ho_startup = \<lparr>su_route = Inr (), su_bind = Inr (), su_ext_ack = Inr (), su_cap_ack = Inr (), su_descriptor = Inr (),
        su_ethtool = Inr (), su_wireless = Inr ()\<rparr>, ho_in_time = True\<rparr>"

definition only_namespace_files_are_accepted :: bool where
  "only_namespace_files_are_accepted \<longleftrightarrow>
     fails_with (\<lambda>missing. be_kind missing = NotFound \<and> be_errno missing = Some ENOENT)
       (open_backend (idle_host\<lparr>ho_open := Inl (raw_io ENOENT)\<rparr>) ''/nonexistent/netfyr/ns'' ())
     \<and> list_all (\<lambda>path. fails_with (\<lambda>e. be_kind e = UnsupportedOperation) (open_backend idle_host path ()))
         [''/tmp/netfyr-regular'', ''/tmp/netfyr-fifo'']
     \<and> returns_ok (\<lambda>_. True) (open_backend (idle_host\<lparr>ho_filesystem := Inr NSFS_MAGIC\<rparr>) ''/proc/self/ns/net'' ())"

theorem namespace_test_passes: "only_namespace_files_are_accepted"
  by code_simp

theorem device_text_tests_pass:
  "device_text_helpers_accept_only_well_formed_values" "enrichment_ignores_criteria_known_only_after_enrichment"
  by code_simp+

end
