(* ===== verification/ExecTests.thy ===== *)
theory ExecTests
  imports ExecMock
begin

text \<open>
  The tests of \<open>crates/netfyr-backend/src/executor/tests.rs\<close>, restated over the model and evaluated on the mock.
\<close>

section \<open>Order, dependencies and reports\<close>

definition failure_blocks_transitive_dependencies_but_keeps_independent_order :: bool where
  "failure_blocks_transitive_dependencies_but_keeps_independent_order \<longleftrightarrow>
     (let first = test_device 1; second = test_device 2 in
      applying (\<lambda>report w. \<not> report_is_success report \<and> indices (succeeded report) = [2, 3]
          \<and> failed_indices (failed report) = [0]
          \<and> list_all (\<lambda>entry. ctx_target (fo_context entry) = identity first \<and> be_errno (fo_error entry) = Some EPERM
              \<and> be_extack (fo_error entry) = Some ''fixture rejected this operation'') (failed report)
          \<and> skips report = [(1, DependencyFailed [0]), (4, DependencyFailed [1])]
          \<and> map snd (mi_attempts w) = [SetMtu 9000, SetMtu 1800, SetEnabled False]
          \<and> field_at_device 0 ''mtu'' w = Some (VU64 1500) \<and> field_at_device 1 ''enabled'' w = Some (VBool False))
        ((mock_new [first, second])\<lparr>mi_fail_execute_at := Some 1\<rparr>)
        [test_op first (SetMtu 9000) [], test_op first (SetEnabled False) [0], test_op second (SetMtu 1800) [],
         test_op second (SetEnabled False) [2], test_op first (AddIpv4 (test_address 1)) [1]])"

definition dry_run_reports_changes_and_operations_without_claiming_writes :: bool where
  "dry_run_reports_changes_and_operations_without_claiming_writes \<longleftrightarrow>
     (let d = test_device 1;
          diff = \<lparr>changes = [\<lparr>fc_target = identity d, fc_field = ''mtu'', fc_old = Some (VU64 1500), fc_desired = Some (VU64 9000),
                    fc_source = Static ''test''\<rparr>],
                  operations = [test_op d (SetMtu 9000) [], test_op d (AddIpv4 (test_address 1)) [0]],
                  diff_diagnostics = [\<lparr>diag_target = Some (identity d), diag_field = None, diag_message = ''test diagnostic''\<rparr>]\<rparr> in
      some_with (\<lambda>(report, w). dry_is_success report \<and> dry_changes report = changes diff \<and> dry_diagnostics report = diff_diagnostics diff
          \<and> statuses report = [PlannedWrite, PlannedWrite] \<and> mi_attempts w = [] \<and> mi_inventory_calls w = 1
          \<and> mock_devices w = [d])
        (preview_plan mock diff (mock_new [d])))"

definition preview_marks_failed_operations_and_blocked_dependents :: bool where
  "preview_marks_failed_operations_and_blocked_dependents \<longleftrightarrow>
     (let d = test_device 1 in
      previewing (\<lambda>report w. \<not> dry_is_success report
          \<and> statuses report = [PlannedWrite, PlannedFail, PlannedSkip (DependencyFailed [1]), PlannedSkip AlreadySatisfied]
          \<and> failed_indices (dry_failed report) = [1] \<and> mi_attempts w = [])
        (mock_new [d])
        [test_op d (SetMtu 9000) [], test_op d (SetMtu 10) [], test_op d (SetEnabled False) [1], test_op d (SetMtu 9000) []])"

definition stale_namespace_identity_absence_and_unsupported_kind_never_write :: bool where
  "stale_namespace_identity_absence_and_unsupported_kind_never_write \<longleftrightarrow>
     (let d = test_device 1;
          with_identity = (\<lambda>f. d\<lparr>identity := f (identity d)\<rparr>);
          bridge = with_identity (if_device_type_update (\<lambda>_. ''bridge'')) in
      list_all (\<lambda>(observed_device, tgt, expected).
          (let op = (test_op d (SetMtu 9000) [])\<lparr>target := tgt\<rparr> in
           applying (\<lambda>report w. failed_kinds (failed report) = [expected] \<and> mi_attempts w = []) (mock_new [observed_device]) [op]
           \<and> previewing (\<lambda>report w. failed_kinds (dry_failed report) = [expected] \<and> mi_attempts w = [])
               (mock_new [observed_device]) [op]))
        [(d, (identity d)\<lparr>if_namespace := \<lparr>ns_device = 4, ns_inode = 10\<rparr>\<rparr>, StaleState),
         (with_identity (if_generation_update (\<lambda>g. g + 1)), identity d, StaleState),
         (with_identity (if_index_update (\<lambda>i. i + 1)), identity d, NotFound),
         (bridge, identity bridge, UnsupportedEntityType)])"

definition read_only_fields_skip_but_unknown_fields_and_lifecycle_fail :: bool where
  "read_only_fields_skip_but_unknown_fields_and_lifecycle_fail \<longleftrightarrow>
     (let d = test_device 1 in
      applying (\<lambda>report w. skips report = [(0, SkipReadOnly), (1, SkipReadOnly)]
          \<and> failed_indices (failed report) = [2, 3, 4, 5]
          \<and> failed_kinds (failed report) = replicate 4 UnsupportedOperation \<and> mi_attempts w = [])
        (mock_new [d])
        (map (\<lambda>kind. test_op d kind [])
          [SetField ''carrier'' (VBool False), SetField ''ethernet.autoneg'' (VBool False), SetField ''unknown'' (VBool False),
           SetField ''ipv4.addresses'' (VList []), AddEntity, RemoveEntity]))"

definition mtu_schema_bounds_and_generic_assignment_are_enforced :: bool where
  "mtu_schema_bounds_and_generic_assignment_are_enforced \<longleftrightarrow>
     (let d = test_device 1 in
      list_all (\<lambda>kind. applying (\<lambda>report w. failed_kinds (failed report) = [UnsupportedOperation] \<and> mi_attempts w = [])
          (mock_new [d]) [test_op d kind []])
        [SetMtu 0, SetMtu 67, SetMtu 65536, SetMtu u32_max, SetField ''mtu'' (VU64 (2 ^ 32)), SetField ''mtu'' (VBool True)]
      \<and> list_all (\<lambda>mtu. applying (\<lambda>report w. report_is_success report \<and> map snd (mi_attempts w) = [SetMtu (ucast mtu)]
            \<and> field_at_device 0 ''mtu'' w = Some (VU64 mtu)) (mock_new [d]) [test_op d (SetField ''mtu'' (VU64 mtu)) []])
          [68, 65535]
      \<and> applying (\<lambda>report w. report_is_success report \<and> map snd (mi_attempts w) = [SetEnabled False])
          (mock_new [d]) [test_op d (SetField ''enabled'' (VBool False)) []])"

theorem order_tests_pass_1:
  "failure_blocks_transitive_dependencies_but_keeps_independent_order"
  "dry_run_reports_changes_and_operations_without_claiming_writes" "preview_marks_failed_operations_and_blocked_dependents"
  "stale_namespace_identity_absence_and_unsupported_kind_never_write"
  "read_only_fields_skip_but_unknown_fields_and_lifecycle_fail"
  by code_simp+

theorem order_tests_pass_2:
  "mtu_schema_bounds_and_generic_assignment_are_enforced"
  by code_simp+

section \<open>Addresses\<close>

definition finite_address :: "nat \<Rightarrow> u32 \<Rightarrow> u32 \<Rightarrow> ipv4_address" where
  "finite_address host valid preferred = (test_address host)\<lparr>valid_lft := Some valid, preferred_lft := Some preferred\<rparr>"

definition foreign_address :: "nat \<Rightarrow> ipv4_address" where
  "foreign_address host = (test_address host)\<lparr>ip := ipv4_of_octets [198, 51, 100, host]\<rparr>"

definition device_with :: "address_observation list \<Rightarrow> device_observation" where
  "device_with entries = (test_device 1)\<lparr>addresses := entries\<rparr>"

definition invalid_addresses_are_rejected_before_inventory :: bool where
  "invalid_addresses_are_rejected_before_inventory \<longleftrightarrow>
     (let d = test_device 1;
          long = (test_address 1)\<lparr>prefix_len := 33\<rparr>;
          zero = (test_address 1)\<lparr>valid_lft := Some 0\<rparr>;
          inverted = finite_address 1 10 11 in
      list_all (\<lambda>kind. applying (\<lambda>report w. failed_kinds (failed report) = [UnsupportedOperation] \<and> mi_inventory_calls w = 0
            \<and> mi_attempts w = []) (mock_new [d]) [test_op d kind []])
        [AddIpv4 long, ReplaceIpv4 zero, AddIpv4 inverted, RemoveIpv4 long])"

definition identical_address_lifetimes_skip_but_conflicting_addition_requires_replace :: bool where
  "identical_address_lifetimes_skip_but_conflicting_addition_requires_replace \<longleftrightarrow>
     (let finite = finite_address 1 120 60; different = finite_address 1 240 60; d = device_with [observed finite False] in
      applying (\<lambda>report w. skips report = [(0, AlreadySatisfied)] \<and> failed_kinds (failed report) = [ApplyFailed] \<and> mi_attempts w = []
          \<and> applying (\<lambda>report w. report_is_success report \<and> map address (addresses (hd (mock_devices w))) = [different])
              w [group_op d (ReplaceIpv4 different) []])
        (mock_new [d]) [test_op d (AddIpv4 finite) [], test_op d (AddIpv4 different) []])"

definition replacing_an_absent_address_is_not_found :: bool where
  "replacing_an_absent_address_is_not_found \<longleftrightarrow>
     (let d = test_device 1 in
      applying (\<lambda>report w. failed_kinds (failed report) = [NotFound] \<and> mi_attempts w = [])
        (mock_new [d]) [group_op d (ReplaceIpv4 (test_address 1)) []])"

definition absent_removal_and_current_scalar_values_are_satisfied_without_writes :: bool where
  "absent_removal_and_current_scalar_values_are_satisfied_without_writes \<longleftrightarrow>
     (let d = test_device 1 in
      applying (\<lambda>report w. report_is_success report
          \<and> skips report = [(0, AlreadySatisfied), (1, AlreadySatisfied), (2, AlreadySatisfied)] \<and> mi_attempts w = [])
        (mock_new [d])
        [test_op d (RemoveIpv4 (test_address 1)) [], test_op d (SetMtu 1500) [0], test_op d (SetEnabled True) [1]])"

text \<open>The inventories: the shared one, the verification of the addition, and one after the write of the MTU.\<close>

definition one_observation_serves_operations_until_a_write :: bool where
  "one_observation_serves_operations_until_a_write \<longleftrightarrow>
     (let d = test_device 1 in
      applying (\<lambda>report w. report_is_success report \<and> indices (succeeded report) = [2, 4] \<and> mi_inventory_calls w = 3)
        (mock_new [d])
        [test_op d (RemoveIpv4 (test_address 9)) [], test_op d (SetMtu 1500) [], test_op d (AddIpv4 (test_address 1)) [],
         test_op d (SetMtu 1500) [], test_op d (SetMtu 9000) [], test_op d (SetEnabled True) []])"

theorem address_write_tests_pass:
  "invalid_addresses_are_rejected_before_inventory"
  "identical_address_lifetimes_skip_but_conflicting_addition_requires_replace" "replacing_an_absent_address_is_not_found"
  "absent_removal_and_current_scalar_values_are_satisfied_without_writes" "one_observation_serves_operations_until_a_write"
  by code_simp+

section \<open>Prefix groups\<close>

definition destructive_address_requests_need_complete_unchanged_group_preconditions :: bool where
  "destructive_address_requests_need_complete_unchanged_group_preconditions \<longleftrightarrow>
     (let entry = observed (test_address 1) False;
          d = device_with [entry];
          valid = group_op d (RemoveIpv4 (test_address 1)) [];
          widened = valid\<lparr>address_group := Some \<lparr>pre_addresses = [entry, observed (foreign_address 1) False], pre_observed_at = 0\<rparr>\<rparr> in
      list_all (\<lambda>(entries, op). applying (\<lambda>report w. failed_kinds (failed report) = [StaleState] \<and> mi_attempts w = [])
          (mock_new [device_with entries]) [op])
        [([entry], valid\<lparr>address_group := None\<rparr>),
         ([entry, observed (test_address 2) True], valid),
         ([entry\<lparr>scope := RT_SCOPE_LINK\<rparr>], valid),
         ([entry\<lparr>peer := Some (ipv4_of_octets [192, 0, 2, 9])\<rparr>], valid),
         ([entry\<lparr>addr_flags := addr_flags entry XOR IFA_F_DEPRECATED\<rparr>], valid),
         ([entry\<lparr>address := (address entry)\<lparr>valid_lft := Some 3600\<rparr>\<rparr>], valid),
         ([entry], widened)])"

definition an_unguarded_addition_does_not_authorize_a_later_removal :: bool where
  "an_unguarded_addition_does_not_authorize_a_later_removal \<longleftrightarrow>
     (let d = device_with [observed (test_address 1) False, observed (test_address 2) True] in
      list_all (\<lambda>removal.
          applying (\<lambda>report w. indices (succeeded report) = [0] \<and> failed_kinds (failed report) = [StaleState]
              \<and> length (mi_attempts w) = 1
              \<and> list_ex (\<lambda>entry. same_identity (address entry) (test_address 2)) (addresses (hd (mock_devices w))))
            (mock_new [d]) [test_op d (AddIpv4 (test_address 5)) [], test_op d removal []])
        [RemoveIpv4 (test_address 2), ReplaceIpv4 (test_address 2)])"

definition incomplete_address_inventory_blocks_addresses_but_allows_an_independent_mtu :: bool where
  "incomplete_address_inventory_blocks_addresses_but_allows_an_independent_mtu \<longleftrightarrow>
     (let d = (test_device 1)\<lparr>addresses_complete := False\<rparr> in
      applying (\<lambda>report w. failed_kinds (failed report) = [QueryFailed, QueryFailed, QueryFailed] \<and> indices (succeeded report) = [3]
          \<and> length (mi_attempts w) = 1)
        (mock_new [d])
        [test_op d (AddIpv4 (test_address 1)) [], test_op d (RemoveIpv4 (test_address 2)) [],
         test_op d (ReplaceIpv4 (test_address 3)) [], test_op d (SetMtu 1800) []])"

definition inventory_failures_never_become_success :: bool where
  "inventory_failures_never_become_success \<longleftrightarrow>
     (let first = test_device 1; second = test_device 2 in
      list_all (\<lambda>(fail_at, kind).
          applying (\<lambda>report w. \<not> report_is_success report \<and> failed_indices (failed report) = [0] \<and> failed_kinds (failed report) = [kind]
              \<and> skips report = [(1, DependencyFailed [0])] \<and> indices (succeeded report) = [2]
              \<and> length (addresses (hd (mock_devices w))) = (if fail_at = 2 then 1 else 0)
              \<and> field_at_device 0 ''enabled'' w = Some (VBool True))
            ((mock_new [first, second])\<lparr>mi_fail_inventory_at := Some fail_at\<rparr>)
            [test_op first (AddIpv4 (test_address 1)) [], test_op first (SetEnabled False) [0], test_op second (SetMtu 1800) []])
        [(1, QueryFailed), (2, OutcomeUnknown)])"

definition post_write_verification_rejects_unexpected_kernel_state :: bool where
  "post_write_verification_rejects_unexpected_kernel_state \<longleftrightarrow>
     (let other = observed (foreign_address 7) False; added = observed (test_address 1) False;
          d = device_with [other];
          after = device_with [other, added] in
      list_all (\<lambda>(observation, kind).
          applying (\<lambda>report w. failed_kinds (failed report) = [kind] \<and> length (mi_attempts w) = 1)
            ((mock_new [d])\<lparr>mi_inventory_override_at := Some (2, \<lparr>devices = [observation], diagnostics = []\<rparr>)\<rparr>)
            [test_op d (AddIpv4 (test_address 1)) []])
        [(device_with [other, added, observed (test_address 9) True], StaleState), (device_with [added], StaleState),
         (after\<lparr>addresses_complete := False\<rparr>, OutcomeUnknown),
         (after\<lparr>identity := (identity after)\<lparr>if_generation := 2\<rparr>\<rparr>, StaleState)])"

definition uncovered_primary_cascade_is_refused_before_any_write :: bool where
  "uncovered_primary_cascade_is_refused_before_any_write \<longleftrightarrow>
     (let d = device_with [observed (test_address 1) False, observed (test_address 2) True] in
      applying (\<lambda>report w. failed_kinds (failed report) = [StaleState] \<and> mi_attempts w = [] \<and> mock_devices w = [d])
        ((mock_new [d])\<lparr>mi_cascade_primary := True\<rparr>) [group_op d (RemoveIpv4 (test_address 1)) []])"

definition a_secondary_in_another_scope_is_not_part_of_the_cascade :: bool where
  "a_secondary_in_another_scope_is_not_part_of_the_cascade \<longleftrightarrow>
     (let d = device_with [observed (test_address 1) False, (observed (test_address 2) True)\<lparr>scope := RT_SCOPE_LINK\<rparr>] in
      applying (\<lambda>report w. indices (succeeded report) = [0]) (mock_new [d]) [group_op d (RemoveIpv4 (test_address 1)) []])"

definition explicit_group_rebuild_handles_kernel_cascade_and_preserves_unrelated_prefix :: bool where
  "explicit_group_rebuild_handles_kernel_cascade_and_preserves_unrelated_prefix \<longleftrightarrow>
     (let unrelated = observed (foreign_address 77) False;
          d = device_with [observed (test_address 1) False, observed (test_address 2) True, unrelated];
          ops = [group_op d (RemoveIpv4 (test_address 1)) [], group_op d (RemoveIpv4 (test_address 2)) [0],
                 group_op d (AddIpv4 (test_address 2)) [1], group_op d (AddIpv4 (test_address 1)) [2]] in
      previewing (\<lambda>report w. dry_is_success report \<and> statuses report = replicate 4 PlannedWrite \<and> mi_attempts w = []
          \<and> mock_devices w = [d]) (mock_new [d]) ops
      \<and> applying (\<lambda>report w. report_is_success report \<and> indices (succeeded report) = [0, 2, 3] \<and> skips report = [(1, AlreadySatisfied)]
          \<and> (let d' = hd (mock_devices w) in
             addresses d' = [unrelated, observed (test_address 2) False, observed (test_address 1) True]
             \<and> identity d' = identity d \<and> content_eq (dev_st d') (dev_st d)))
          ((mock_new [d])\<lparr>mi_cascade_primary := True\<rparr>) ops)"

definition promoted_secondary_is_accepted_after_primary_removal :: bool where
  "promoted_secondary_is_accepted_after_primary_removal \<longleftrightarrow>
     (let d = device_with [observed (test_address 1) False, observed (test_address 2) True] in
      applying (\<lambda>report w. indices (succeeded report) = [0, 1] \<and> addresses (hd (mock_devices w)) = [])
        (mock_new [d]) [group_op d (RemoveIpv4 (test_address 1)) [], group_op d (RemoveIpv4 (test_address 2)) [0]])"

definition deprecated_addresses_can_be_added_and_replaced :: bool where
  "deprecated_addresses_can_be_added_and_replaced \<longleftrightarrow>
     (let d = test_device 1;
          deprecated = finite_address 1 120 0;
          flags = (\<lambda>w. addr_flags (hd (addresses (hd (mock_devices w)))) AND IFA_F_DEPRECATED) in
      applying (\<lambda>report w. report_is_success report \<and> flags w = IFA_F_DEPRECATED
          \<and> applying (\<lambda>report w. report_is_success report \<and> flags w = 0)
              w [group_op (hd (mock_devices w)) (ReplaceIpv4 (finite_address 1 120 60)) []])
        (mock_new [d]) [test_op d (AddIpv4 deprecated) []])"

definition fresh_group_drift_after_a_success_blocks_removal_without_widening_it :: bool where
  "fresh_group_drift_after_a_success_blocks_removal_without_widening_it \<longleftrightarrow>
     (let entry = observed (test_address 1) False;
          d = device_with [entry];
          changed = device_with [entry, observed (test_address 2) True, observed (test_address 3) True] in
      applying (\<lambda>report w. indices (succeeded report) = [0, 1] \<and> failed_indices (failed report) = [2]
          \<and> failed_kinds (failed report) = [StaleState] \<and> length (mi_attempts w) = 2 \<and> addresses (hd (mock_devices w)) = addresses changed)
        ((mock_new [d])\<lparr>mi_inventory_override_at := Some (3, \<lparr>devices = [changed], diagnostics = []\<rparr>)\<rparr>)
        [group_op d (AddIpv4 (test_address 2)) [], test_op d (SetMtu 1800) [], group_op d (RemoveIpv4 (test_address 2)) [0]])"

definition a_dependency_blocked_secondary_removal_cannot_authorize_primary_cascade :: bool where
  "a_dependency_blocked_secondary_removal_cannot_authorize_primary_cascade \<longleftrightarrow>
     (let d = device_with [observed (test_address 1) False, observed (test_address 2) True]; other = test_device 2 in
      applying (\<lambda>report w. failed_indices (failed report) = [0, 1] \<and> skips report = [(2, DependencyFailed [0])]
          \<and> length (mi_attempts w) = 1 \<and> addresses (hd (mock_devices w)) = addresses d)
        ((mock_new [d, other])\<lparr>mi_fail_execute_at := Some 1, mi_cascade_primary := True\<rparr>)
        [test_op other (SetMtu 1800) [], group_op d (RemoveIpv4 (test_address 1)) [], group_op d (RemoveIpv4 (test_address 2)) [0]])"

definition peer_group_cascade_cannot_remove_a_secondary_outside_the_local_group_plan :: bool where
  "peer_group_cascade_cannot_remove_a_secondary_outside_the_local_group_plan \<longleftrightarrow>
     (let primary_address = (test_address 1)\<lparr>ip := ipv4_of_octets [10, 0, 0, 1]\<rparr>;
          secondary_address = (test_address 1)\<lparr>ip := ipv4_of_octets [10, 1, 0, 1]\<rparr>;
          primary = (observed primary_address False)\<lparr>peer := Some (ipv4_of_octets [198, 51, 100, 1])\<rparr>;
          secondary = (observed secondary_address True)\<lparr>peer := Some (ipv4_of_octets [198, 51, 100, 2])\<rparr>;
          d = device_with [primary, secondary];
          removal = (test_op d (RemoveIpv4 primary_address) [])\<lparr>address_group := Some \<lparr>pre_addresses = [primary], pre_observed_at = 0\<rparr>\<rparr> in
      applying (\<lambda>report w. failed_kinds (failed report) = [StaleState] \<and> mi_attempts w = [] \<and> mock_devices w = [d]) (mock_new [d]) [removal]
      \<and> previewing (\<lambda>report w. failed_kinds (dry_failed report) = [StaleState] \<and> mi_attempts w = [] \<and> mock_devices w = [d])
          (mock_new [d]) [removal])"

definition a_one_second_lifetime_difference_without_a_timestamped_precondition_is_not_satisfied :: bool where
  "a_one_second_lifetime_difference_without_a_timestamped_precondition_is_not_satisfied \<longleftrightarrow>
     (let d = device_with [observed (finite_address 1 120 60) False] in
      list_all (\<lambda>requested.
          applying (\<lambda>report w. failed_kinds (failed report) = [ApplyFailed] \<and> succeeded report = [] \<and> skipped report = []
              \<and> mi_attempts w = [] \<and> mock_devices w = [d]) (mock_new [d]) [test_op d (AddIpv4 requested) []])
        [finite_address 1 120 61, finite_address 1 121 60])"

definition a_forever_lifetime_never_matches_a_finite_one :: bool where
  "a_forever_lifetime_never_matches_a_finite_one \<longleftrightarrow>
     (let entry = observed (test_address 1) False;
          original = device_with [entry];
          finite = (test_address 1)\<lparr>valid_lft := Some (u32_max - 1)\<rparr> in
      applying (\<lambda>report w. failed_kinds (failed report) = [StaleState])
        (mock_new [device_with [entry\<lparr>address := finite\<rparr>]]) [group_op original (RemoveIpv4 (test_address 1)) []])"

theorem group_write_tests_pass_1:
  "destructive_address_requests_need_complete_unchanged_group_preconditions"
  "an_unguarded_addition_does_not_authorize_a_later_removal"
  "incomplete_address_inventory_blocks_addresses_but_allows_an_independent_mtu" "inventory_failures_never_become_success"
  "post_write_verification_rejects_unexpected_kernel_state"
  by code_simp+

theorem group_write_tests_pass_2:
  "uncovered_primary_cascade_is_refused_before_any_write" "a_secondary_in_another_scope_is_not_part_of_the_cascade"
  "explicit_group_rebuild_handles_kernel_cascade_and_preserves_unrelated_prefix"
  "promoted_secondary_is_accepted_after_primary_removal" "deprecated_addresses_can_be_added_and_replaced"
  by code_simp+

theorem group_write_tests_pass_3:
  "fresh_group_drift_after_a_success_blocks_removal_without_widening_it"
  "a_dependency_blocked_secondary_removal_cannot_authorize_primary_cascade"
  "peer_group_cascade_cannot_remove_a_secondary_outside_the_local_group_plan"
  "a_one_second_lifetime_difference_without_a_timestamped_precondition_is_not_satisfied"
  "a_forever_lifetime_never_matches_a_finite_one"
  by code_simp+

section \<open>Cancellation\<close>

definition cancellation_preserves_completed_work_and_blocks_all_unattempted_writes :: bool where
  "cancellation_preserves_completed_work_and_blocks_all_unattempted_writes \<longleftrightarrow>
     (let d = test_device 1 in
      applying (\<lambda>report w. \<not> report_is_success report \<and> indices (succeeded report) = [0] \<and> failed_indices (failed report) = [1, 3]
          \<and> failed_kinds (failed report) = [ApplyFailed, ApplyFailed] \<and> skips report = [(2, DependencyFailed [1])]
          \<and> length (mi_attempts w) = 1 \<and> field_at_device 0 ''mtu'' w = Some (VU64 1800)
          \<and> field_at_device 0 ''enabled'' w = Some (VBool True) \<and> addresses (hd (mock_devices w)) = [])
        ((mock_new [d])\<lparr>mi_cancel_after_write := True\<rparr>)
        [test_op d (SetMtu 1800) [], test_op d (SetEnabled False) [], test_op d (AddIpv4 (test_address 1)) [1],
         test_op d (SetMtu 9000) []])"

definition cancellation_during_inventory_stops_before_the_write :: bool where
  "cancellation_during_inventory_stops_before_the_write \<longleftrightarrow>
     (let d = test_device 1 in
      applying (\<lambda>report w. failed_kinds (failed report) = [ApplyFailed] \<and> mi_inventory_calls w = 1 \<and> mi_attempts w = [])
        ((mock_new [d])\<lparr>mi_cancel_on_inventory := True\<rparr>) [test_op d (SetMtu 1800) []])"

theorem cancellation_tests_pass:
  "cancellation_preserves_completed_work_and_blocks_all_unattempted_writes"
  "cancellation_during_inventory_stops_before_the_write"
  by code_simp+

section \<open>Diagnostics and unreachable workers\<close>

definition test_issue :: diagnostic where
  "test_issue = \<lparr>diag_target = None, diag_field = Some ''type'', diag_message = ''fixture''\<rparr>"

definition side_effects_and_observation_diagnostics_are_reported_once :: bool where
  "side_effects_and_observation_diagnostics_are_reported_once \<longleftrightarrow>
     (let d = test_device 1;
          w = (mock_new [d])\<lparr>mi_observation := \<lparr>devices = [d], diagnostics = [test_issue]\<rparr>\<rparr>;
          ops = [test_op d (SetMtu 1280) [], test_op d (SetMtu 1279) [], test_op d (SetEnabled False) []];
          expected = (\<lambda>ds. hd ds = test_issue \<and> map diag_field (tl ds) = [Some ''mtu'', Some ''enabled'']
            \<and> list_all (\<lambda>x. diag_target x = Some (identity d)) (tl ds)) in
      previewing (\<lambda>report _. expected (dry_diagnostics report)) w ops
      \<and> applying (\<lambda>report _. expected (report_diagnostics report)) w ops)"

definition an_unreachable_worker_fails_roots_and_blocks_dependents :: bool where
  "an_unreachable_worker_fails_roots_and_blocks_dependents \<longleftrightarrow>
     (let d = test_device 1;
          diff = (test_plan [test_op d (SetMtu 1800) [], test_op d (SetEnabled False) [0]])
            \<lparr>diff_diagnostics := [\<lparr>diag_target = None, diag_field = None, diag_message = ''planned''\<rparr>]\<rparr>;
          failure = error_new OutcomeUnknown ''worker stopped'';
          report = failed_report diff failure in
      failed_indices (failed report) = [0] \<and> map fo_error (failed report) = [failure] \<and> skips report = [(1, DependencyFailed [0])]
      \<and> report_diagnostics report = diff_diagnostics diff
      \<and> statuses (preview_report diff report) = [PlannedFail, PlannedSkip (DependencyFailed [0])])"

theorem diagnostic_tests_pass:
  "side_effects_and_observation_diagnostics_are_reported_once" "an_unreachable_worker_fails_roots_and_blocks_dependents"
  by code_simp+

end
