(* ===== verification/ExecTimeTests.thy ===== *)
theory ExecTimeTests
  imports ExecTests "HOL-Library.Code_Target_Nat"
begin

text \<open>
  The tests of \<open>crates/netfyr-backend/src/executor/tests.rs\<close> in which time passes or an index is the largest \<open>usize\<close>, with
  natural numbers computed in binary.  A test that moves an observation into the past moves the clock forward here.
\<close>

definition seconds :: "nat \<Rightarrow> nat" where
  "seconds n = n * 10 ^ 9"

definition milliseconds :: "nat \<Rightarrow> nat" where
  "milliseconds n = n * 10 ^ 6"

definition malformed_dependencies_fail_and_do_not_block_unrelated_operations :: bool where
  "malformed_dependencies_fail_and_do_not_block_unrelated_operations \<longleftrightarrow>
     (let d = test_device 1 in
      list_all (\<lambda>dependency.
          applying (\<lambda>report w. failed_kinds (failed report) = [UnsupportedOperation]
              \<and> skips report = [(1, DependencyFailed [0])] \<and> indices (succeeded report) = [2] \<and> length (mi_attempts w) = 1)
            (mock_new [d])
            [test_op d (SetMtu 9000) [dependency], test_op d (SetEnabled False) [0], test_op d (SetMtu 1800) []])
        [0, 1, 2 ^ 64 - 1])"

definition projection_marks_addresses_deprecated_once_preferred_lifetime_runs_out :: bool where
  "projection_marks_addresses_deprecated_once_preferred_lifetime_runs_out \<longleftrightarrow>
     (let d = rebase_lifetimes (seconds 2) (device_with [observed (finite_address 1 10 1) False]);
          entry = hd (addresses d) in
      valid_lft (address entry) = Some 8 \<and> preferred_lft (address entry) = Some 0
      \<and> addr_flags entry AND IFA_F_DEPRECATED = IFA_F_DEPRECATED \<and> observed_at d = seconds 2)"

definition natural_lifetime_decay_and_deprecation_do_not_make_a_group_stale :: bool where
  "natural_lifetime_decay_and_deprecation_do_not_make_a_group_stale \<longleftrightarrow>
     (let finite = finite_address 1 10 1;
          original = device_with [observed finite False];
          current = (device_with [observed (finite_address 1 8 0) False])\<lparr>observed_at := seconds 2\<rparr> in
      applying (\<lambda>report w. report_is_success report \<and> indices (succeeded report) = [0] \<and> addresses (hd (mock_devices w)) = [])
        ((mock_new [current])\<lparr>mi_now := seconds 2\<rparr>) [group_op original (RemoveIpv4 finite) []])"

definition lifetime_tolerance_covers_truncation_but_not_a_changed_lifetime :: bool where
  "lifetime_tolerance_covers_truncation_but_not_a_changed_lifetime \<longleftrightarrow>
     (let ten = seconds 10; partial = milliseconds 10400;
          finite = (test_address 1)\<lparr>valid_lft := Some 100\<rparr>;
          original = device_with [observed finite False];
          current = (device_with [observed (finite_address 1 87 87) False])\<lparr>observed_at := ten\<rparr> in
      lifetime_matches 100 90 ten \<and> lifetime_matches 100 91 ten \<and> lifetime_matches 100 89 ten
      \<and> \<not> lifetime_matches 100 88 ten \<and> \<not> lifetime_matches 100 92 ten
      \<and> lifetime_matches 100 88 partial \<and> \<not> lifetime_matches 100 87 partial \<and> lifetime_matches 5 0 ten
      \<and> \<not> lifetime_matches u32_max 100 ten \<and> \<not> lifetime_matches 100 u32_max ten \<and> lifetime_matches u32_max u32_max ten
      \<and> applying (\<lambda>report w. failed_kinds (failed report) = [StaleState] \<and> mi_attempts w = [])
          ((mock_new [current])\<lparr>mi_now := ten\<rparr>) [group_op original (RemoveIpv4 finite) []])"

definition a_new_finite_address_lifetime_starts_at_the_write_not_the_earlier_inventory :: bool where
  "a_new_finite_address_lifetime_starts_at_the_write_not_the_earlier_inventory \<longleftrightarrow>
     (let finite = finite_address 1 120 60;
          d = test_device 1;
          after = (device_with [observed finite False])\<lparr>observed_at := seconds 3\<rparr> in
      applying (\<lambda>report w. report_is_success report \<and> indices (succeeded report) = [0])
        ((mock_new [d])\<lparr>mi_now := seconds 3, mi_inventory_override_at := Some (2, \<lparr>devices = [after], diagnostics = []\<rparr>)\<rparr>)
        [test_op d (AddIpv4 finite) []])"

theorem time_tests_pass:
  "malformed_dependencies_fail_and_do_not_block_unrelated_operations"
  "projection_marks_addresses_deprecated_once_preferred_lifetime_runs_out"
  "natural_lifetime_decay_and_deprecation_do_not_make_a_group_stale"
  "lifetime_tolerance_covers_truncation_but_not_a_changed_lifetime"
  "a_new_finite_address_lifetime_starts_at_the_write_not_the_earlier_inventory"
  by code_simp+

end
