(* ===== verification/SchemaTests.thy ===== *)
theory SchemaTests
  imports YamlTexts "HOL-Library.Code_Target_Nat"
begin

text \<open>
  The integration tests of \<open>crates/netfyr-state/tests/schema_validation.rs\<close>, restated over the model and evaluated: what the
  embedded schemas accept in each of the two modes, which violation is reported where, and the fields of each fragment.  A
  validation that does not panic is \<open>Some\<close> of its errors.
\<close>

section \<open>Fixtures\<close>

definition registry :: schema_registry where
  "registry = embedded_registry"

definition fields :: "(string \<times> cval) list \<Rightarrow> (string, cval) imap" where
  "fields pairs = foldl (\<lambda>m (key, value). im_insert m key value) [] pairs"

definition state_with_fields :: "(string \<times> cval) list \<Rightarrow> dev_state" where
  "state_with_fields pairs = (new_state (test_fresh 0) (Static []))\<lparr>st_fields := fields pairs\<rparr>"

definition ipnet :: "string \<Rightarrow> cval" where
  "ipnet text = (let (addr, prefix) = the (split_once CHR ''/'' text) in VIpNetwork (the (parse_ip addr), the (parse_u8 prefix)))"

definition address_entry :: "(string \<times> cval) list \<Rightarrow> cval" where
  "address_entry pairs = VMap (fields pairs)"

definition ipv4_object :: "cval list \<Rightarrow> cval" where
  "ipv4_object entries = VMap (fields [(''addresses'', VList entries)])"

definition ethernet_object :: "(string \<times> cval) list \<Rightarrow> cval" where
  "ethernet_object pairs = VMap (fields pairs)"

definition info :: "bool \<Rightarrow> field_type \<Rightarrow> field_info" where
  "info writable ty = \<lparr>fi_writable = writable, fi_type = ty\<rparr>"

definition fragment_names :: "validation_error list \<Rightarrow> string list" where
  "fragment_names errors = map (\<lambda>e. case e of UnknownField f _ \<Rightarrow> f | ReadOnlyField f _ \<Rightarrow> f | OutOfRange f _ _ _ \<Rightarrow> f
     | WrongType f _ _ _ \<Rightarrow> f | MissingField f _ \<Rightarrow> f | EnumViolation f _ _ \<Rightarrow> f | InvalidFormat f _ _ \<Rightarrow> f) errors"

definition has_unknown_field :: "validation_error list \<Rightarrow> string \<Rightarrow> string \<Rightarrow> bool" where
  "has_unknown_field errors frag path \<longleftrightarrow>
     list_ex (\<lambda>e. case e of UnknownField f p \<Rightarrow> f = frag \<and> p = path | _ \<Rightarrow> False) errors"

definition has_read_only_field :: "validation_error list \<Rightarrow> string \<Rightarrow> string \<Rightarrow> bool" where
  "has_read_only_field errors frag path \<longleftrightarrow>
     list_ex (\<lambda>e. case e of ReadOnlyField f p \<Rightarrow> f = frag \<and> p = path | _ \<Rightarrow> False) errors"

definition has_out_of_range :: "validation_error list \<Rightarrow> string \<Rightarrow> string \<Rightarrow> bool" where
  "has_out_of_range errors frag path \<longleftrightarrow>
     list_ex (\<lambda>e. case e of OutOfRange f p _ _ \<Rightarrow> f = frag \<and> p = path | _ \<Rightarrow> False) errors"

definition query_result_state :: dev_state where
  "query_result_state = (state_with_fields
     [(''name'', VString ''eth0''), (''mac'', VString ''aa:bb:cc:dd:ee:ff''), (''carrier'', VBool True),
      (''driver'', VString ''mlx5_core''), (''enabled'', VBool True), (''mtu'', VU64 1500),
      (''ethernet'', ethernet_object [(''speed'', VU64 1000), (''duplex'', VString ''full''), (''autoneg'', VBool True)])])
     \<lparr>device_type := ''ethernet''\<rparr>"

text \<open>Both modes accept the state.\<close>

definition valid_in_both_modes :: "dev_state \<Rightarrow> bool" where
  "valid_in_both_modes state \<longleftrightarrow> validate registry state = Some [] \<and> validate_writable registry state = Some []"

section \<open>Validation against the schema\<close>

definition unknown_field_mtt_rejected_by_validate_writable :: bool where
  "unknown_field_mtt_rejected_by_validate_writable \<longleftrightarrow>
     validate_writable registry (state_with_fields [(''mtt'', VU64 1500)]) = Some [UnknownField ''base'' ''mtt'']"

definition unknown_field_rejected_by_validate_as_well :: bool where
  "unknown_field_rejected_by_validate_as_well \<longleftrightarrow>
     validate registry (state_with_fields [(''mtt'', VU64 1500)]) = Some [UnknownField ''base'' ''mtt'']"

definition mtu_above_maximum_rejected_by_validate :: bool where
  "mtu_above_maximum_rejected_by_validate \<longleftrightarrow>
     validate registry (state_with_fields [(''mtu'', VU64 99999)]) = Some [OutOfRange ''base'' ''mtu'' (Some 68) (Some 65535)]"

definition mtu_below_minimum_rejected_with_out_of_range :: bool where
  "mtu_below_minimum_rejected_with_out_of_range \<longleftrightarrow>
     list_all (\<lambda>mtu. validate_writable registry (state_with_fields [(''mtu'', VU64 mtu)])
         = Some [OutOfRange ''base'' ''mtu'' (Some 68) (Some 65535)]) [0, 67]"

definition mtu_at_range_boundaries_accepted :: bool where
  "mtu_at_range_boundaries_accepted \<longleftrightarrow>
     list_all (\<lambda>mtu. valid_in_both_modes (state_with_fields [(''mtu'', VU64 mtu)])) [68, 65535]"

definition multiple_unknown_fields_all_reported :: bool where
  "multiple_unknown_fields_all_reported \<longleftrightarrow>
     some_with (\<lambda>errors. length errors = 2 \<and> has_unknown_field errors ''base'' ''mtt'' \<and> has_unknown_field errors ''base'' ''foobar'')
       (validate_writable registry (state_with_fields [(''mtt'', VU64 1500), (''foobar'', VString ''baz'')]))"

theorem validation_tests_pass:
  "unknown_field_mtt_rejected_by_validate_writable" "unknown_field_rejected_by_validate_as_well"
  "mtu_above_maximum_rejected_by_validate" "mtu_below_minimum_rejected_with_out_of_range" "mtu_at_range_boundaries_accepted"
  "multiple_unknown_fields_all_reported"
  by code_simp+

section \<open>Read-only fields\<close>

definition read_only_mac_passes_validate_but_fails_validate_writable :: bool where
  "read_only_mac_passes_validate_but_fails_validate_writable \<longleftrightarrow>
     (let state = state_with_fields [(''mac'', VString ''aa:bb:cc:dd:ee:ff'')] in
      validate registry state = Some [] \<and> validate_writable registry state = Some [ReadOnlyField ''base'' ''mac''])"

definition yaml_device_type_passes_query_validation_but_fails_writable_validation :: bool where
  "yaml_device_type_passes_query_validation_but_fails_writable_validation \<longleftrightarrow>
     on_first (\<lambda>state. validate registry state = Some [] \<and> validate_writable registry state = Some [ReadOnlyField ''base'' ''name''])
       (read_as (test_lines [''type: ethernet'', ''name: eth0'', '''']) (texts [(''type'', ''ethernet''), (''name'', ''eth0'')]))"

definition yaml_plain_string_path_does_not_infer_an_ip_address :: bool where
  "yaml_plain_string_path_does_not_infer_an_ip_address \<longleftrightarrow>
     list_all (\<lambda>input. on_first (\<lambda>state. field_of ''name'' state = Some (VString ''192.0.2.1'') \<and> validate registry state = Some [])
         (read_as input (texts [(''name'', ''192.0.2.1'')])))
       [test_lines [''name: 192.0.2.1'', ''''], test_lines [''name: '' @ [CHR 0x22] @ ''192.0.2.1'' @ [CHR 0x22], '''']]"

definition decode_as :: "decode_mode \<Rightarrow> string \<Rightarrow> doc \<Rightarrow> (dev_state list, state_error) outcome" where
  "decode_as mode text tree = decode_yaml (table_lib [(text, tree)]) test_fresh registry text mode"

definition query_codec_validates_and_derives_kernel_match_metadata :: bool where
  "query_codec_validates_and_derives_kernel_match_metadata \<longleftrightarrow>
     on_first (\<lambda>state. match_name (st_match state) = Some ''192.0.2.1'' \<and> match_type (st_match state) = Some ''ethernet''
         \<and> match_driver (st_match state) = Some ''ixgbe'' \<and> st_source state = Kernel \<and> st_priority state = 0)
       (decode_as DecodeQuery (test_lines [''name: 192.0.2.1'', ''type: ethernet'', ''driver: ixgbe'', ''mtu: 1500'', ''''])
          (mapping [(''name'', YString ''192.0.2.1''), (''type'', YString ''ethernet''), (''driver'', YString ''ixgbe''),
             (''mtu'', number 1500)]))"

definition policy_codec_requires_match_and_collects_schema_errors :: bool where
  "policy_codec_requires_match_and_collects_schema_errors \<longleftrightarrow>
     fails_with (\<lambda>e. e = MissingMatch 0)
       (decode_as DecodePolicy (test_lines [''mtu: 1500'', '''']) (mapping [(''mtu'', number 1500)]))
     \<and> fails_with (\<lambda>e. case e of
           InvalidStates errors \<Rightarrow> length errors = 2 \<and> has_unknown_field [ive_error (errors ! 0)] ''base'' ''mtt''
             \<and> has_out_of_range [ive_error (errors ! 1)] ''base'' ''mtu''
         | _ \<Rightarrow> False)
       (decode_as DecodePolicy (test_lines [''match: { name: eth0 }'', ''mtt: 1500'', ''mtu: 99999'', ''''])
          (mapping [match_eth ''eth0'', (''mtt'', number 1500), (''mtu'', number 99999)]))"

definition query_result_with_read_only_fields_passes_validate :: bool where
  "query_result_with_read_only_fields_passes_validate \<longleftrightarrow> validate registry query_result_state = Some []"

definition all_read_only_fields_rejected_in_writable_mode :: bool where
  "all_read_only_fields_rejected_in_writable_mode \<longleftrightarrow>
     some_with (\<lambda>errors. length errors = 7
         \<and> list_all (has_read_only_field errors ''base'') [''name'', ''mac'', ''carrier'', ''driver'']
         \<and> list_all (has_read_only_field errors ''ethernet'') [''ethernet.speed'', ''ethernet.duplex'', ''ethernet.autoneg''])
       (validate_writable registry query_result_state)"

theorem read_only_tests_pass:
  "read_only_mac_passes_validate_but_fails_validate_writable"
  "yaml_device_type_passes_query_validation_but_fails_writable_validation"
  "yaml_plain_string_path_does_not_infer_an_ip_address" "query_codec_validates_and_derives_kernel_match_metadata"
  "policy_codec_requires_match_and_collects_schema_errors" "query_result_with_read_only_fields_passes_validate"
  "all_read_only_fields_rejected_in_writable_mode"
  by code_simp+

section \<open>Which fragments apply\<close>

definition ipv4_only_state_validates_base_and_ipv4_not_ethernet :: bool where
  "ipv4_only_state_validates_base_and_ipv4_not_ethernet \<longleftrightarrow>
     (let state = state_with_fields
            [(''mtu'', VU64 1400), (''ipv4'', ipv4_object [address_entry [(''ip'', ipnet ''10.0.1.50/24'')]])] in
      valid_in_both_modes state
      \<and> some_with (\<lambda>errors. \<not> List.member (fragment_names errors) ''ethernet'') (validate_writable registry state))"

definition unknown_field_in_ipv4_reported_by_ipv4_fragment :: bool where
  "unknown_field_in_ipv4_reported_by_ipv4_fragment \<longleftrightarrow>
     validate_writable registry (state_with_fields [(''ipv4'', VMap (fields [(''bogus'', VU64 1)]))])
       = Some [UnknownField ''ipv4'' ''ipv4.bogus'']"

definition ethernet_only_state_validates_base_and_ethernet_not_ipv4 :: bool where
  "ethernet_only_state_validates_base_and_ethernet_not_ipv4 \<longleftrightarrow>
     some_with (\<lambda>errors. length errors = 1 \<and> has_unknown_field errors ''base'' ''mtt''
         \<and> \<not> List.member (fragment_names errors) ''ipv4'')
       (validate registry (state_with_fields [(''mtt'', VU64 1500), (''ethernet'', ethernet_object [(''speed'', VU64 1000)])]))"

definition base_fragment_always_applies :: bool where
  "base_fragment_always_applies \<longleftrightarrow>
     some_with (\<lambda>errors. has_unknown_field errors ''base'' ''mtt'')
       (validate_writable registry (state_with_fields [(''mtt'', VU64 1500)]))
     \<and> valid_in_both_modes (state_with_fields [(''enabled'', VBool True)])"

definition ipv4_trigger_key_must_be_an_object :: bool where
  "ipv4_trigger_key_must_be_an_object \<longleftrightarrow>
     validate registry (state_with_fields [(''ipv4'', ipnet ''10.0.1.50/24'')])
       = Some [WrongType ''ipv4'' ''ipv4'' TObject TIpNetwork]"

definition empty_state_is_valid_in_both_modes :: bool where
  "empty_state_is_valid_in_both_modes \<longleftrightarrow> valid_in_both_modes (new_state (test_fresh 0) (Static []))"

theorem fragment_tests_pass:
  "ipv4_only_state_validates_base_and_ipv4_not_ethernet" "unknown_field_in_ipv4_reported_by_ipv4_fragment"
  "ethernet_only_state_validates_base_and_ethernet_not_ipv4" "base_fragment_always_applies" "ipv4_trigger_key_must_be_an_object"
  "empty_state_is_valid_in_both_modes"
  by code_simp+

section \<open>Addresses\<close>

text \<open>A state with the given address entries.\<close>

definition with_entries :: "cval list \<Rightarrow> dev_state" where
  "with_entries entries = state_with_fields [(''ipv4'', ipv4_object entries)]"

definition ipv4_address_entry_without_ip_is_missing_required_field :: bool where
  "ipv4_address_entry_without_ip_is_missing_required_field \<longleftrightarrow>
     validate_writable registry (with_entries [address_entry [(''valid_lft'', VU64 120)]])
       = Some [MissingField ''ipv4'' ''ipv4.addresses[0].ip'']"

definition ipv4_valid_addresses_pass_both_validation_modes :: bool where
  "ipv4_valid_addresses_pass_both_validation_modes \<longleftrightarrow>
     (let entries = [address_entry [(''ip'', ipnet ''10.0.1.50/24''), (''valid_lft'', VU64 120), (''preferred_lft'', VU64 60)],
                     address_entry [(''ip'', ipnet ''192.168.7.9/24'')]] in
      valid_in_both_modes (state_with_fields [(''mtu'', VU64 1400), (''ipv4'', ipv4_object entries)]))"

definition ipv4_valid_lft_above_u32_maximum_is_accepted :: bool where
  "ipv4_valid_lft_above_u32_maximum_is_accepted \<longleftrightarrow>
     validate_writable registry (with_entries [address_entry [(''ip'', ipnet ''10.0.1.50/24''), (''valid_lft'', VU64 4294967296)]])
       = Some []"

definition ipv4_cidr_format_accepts_valid_network_values_and_strings :: bool where
  "ipv4_cidr_format_accepts_valid_network_values_and_strings \<longleftrightarrow>
     validate registry (with_entries [address_entry [(''ip'', ipnet ''10.0.1.50/24'')]]) = Some []
     \<and> validate registry (with_entries [address_entry [(''ip'', VString ''10.0.1.50/24'')]]) = Some []"

text \<open>\<open>ipv4.addresses[0].ip\<close> of a state.\<close>

definition first_ip :: "dev_state \<Rightarrow> cval option" where
  "first_ip state =
     (case field_of ''ipv4'' state of
        Some (VMap ipv4) \<Rightarrow>
          (case im_get ipv4 ''addresses'' of Some (VList (VMap entry # _)) \<Rightarrow> im_get entry ''ip'' | _ \<Rightarrow> None)
      | _ \<Rightarrow> None)"

definition address_text :: "string \<Rightarrow> string" where
  "address_text cidr = test_lines [''ipv4:'', ''  addresses:'', ''    - ip: '' @ cidr, '''']"

definition yaml_ipv4_cidr_path_decodes_to_ip_network :: bool where
  "yaml_ipv4_cidr_path_decodes_to_ip_network \<longleftrightarrow>
     on_first (\<lambda>state. first_ip state = Some (ipnet ''192.0.2.1/24'') \<and> validate_writable registry state = Some [])
       (read_as (address_text ''192.0.2.1/24'') (mapping [(''ipv4'', address_doc [''192.0.2.1/24''])]))"

text \<open>One error, of the format, at the given path; the format that is expected and the fragment are checked by the tests.\<close>

definition only_invalid_format :: "(string \<Rightarrow> string \<Rightarrow> string \<Rightarrow> bool) \<Rightarrow> validation_error list \<Rightarrow> bool" where
  "only_invalid_format P errors = (case errors of [InvalidFormat f p expected] \<Rightarrow> P f p expected | _ \<Rightarrow> False)"

definition yaml_invalid_ipv4_cidr_reports_invalid_format_without_ip_inference :: bool where
  "yaml_invalid_ipv4_cidr_reports_invalid_format_without_ip_inference \<longleftrightarrow>
     on_first (\<lambda>state. first_ip state = Some (VString ''192.0.2.1/33'')
         \<and> some_with (only_invalid_format (\<lambda>_ p _. p = ''ipv4.addresses[0].ip'')) (validate_writable registry state))
       (read_as (address_text ''192.0.2.1/33'') (mapping [(''ipv4'', address_doc [''192.0.2.1/33''])]))"

definition ipv4_cidr_format_rejects_invalid_and_ipv6_networks :: bool where
  "ipv4_cidr_format_rejects_invalid_and_ipv6_networks \<longleftrightarrow>
     list_all (\<lambda>value.
         some_with (only_invalid_format (\<lambda>f p expected. f = ''ipv4'' \<and> expected = ''ipv4-cidr'' \<and> p = ''ipv4.addresses[0].ip''))
           (validate registry (with_entries [address_entry [(''ip'', value)]])))
       [VString ''not-a-cidr'', VString ''10.0.0.1/33'', VString ''2001:db8::1/64'',
        VIpNetwork (the (parse_ip ''2001:db8::1''), 64), VIpNetwork (the (parse_ip ''10.0.1.50''), 33)]"

definition ipv4_unknown_field_in_address_entry_rejected :: bool where
  "ipv4_unknown_field_in_address_entry_rejected \<longleftrightarrow>
     validate_writable registry (with_entries [address_entry [(''ip'', ipnet ''10.0.1.50/24''), (''bogus'', VU64 1)]])
       = Some [UnknownField ''ipv4'' ''ipv4.addresses[0].bogus'']"

theorem address_validation_tests_pass:
  "ipv4_address_entry_without_ip_is_missing_required_field" "ipv4_valid_addresses_pass_both_validation_modes"
  "ipv4_valid_lft_above_u32_maximum_is_accepted" "ipv4_cidr_format_accepts_valid_network_values_and_strings"
  "yaml_ipv4_cidr_path_decodes_to_ip_network" "yaml_invalid_ipv4_cidr_reports_invalid_format_without_ip_inference"
  "ipv4_cidr_format_rejects_invalid_and_ipv6_networks" "ipv4_unknown_field_in_address_entry_rejected"
  by code_simp+

section \<open>Types and enumerations\<close>

definition mtu_with_string_value_is_wrong_type :: bool where
  "mtu_with_string_value_is_wrong_type \<longleftrightarrow>
     validate registry (state_with_fields [(''mtu'', VString ''1500'')]) = Some [WrongType ''base'' ''mtu'' TInteger TString]"

definition writable_read_only_fields_still_report_value_errors :: bool where
  "writable_read_only_fields_still_report_value_errors \<longleftrightarrow>
     validate_writable registry (state_with_fields [(''mac'', VBool True)])
       = Some [ReadOnlyField ''base'' ''mac'', WrongType ''base'' ''mac'' TString TBoolean]
     \<and> validate_writable registry (state_with_fields [(''ethernet'', ethernet_object [(''duplex'', VString ''quad'')])])
       = Some [ReadOnlyField ''ethernet'' ''ethernet.duplex'',
               EnumViolation ''ethernet'' ''ethernet.duplex'' [''full'', ''half'', ''unknown'']]"

definition ethernet_duplex_rejects_value_outside_enum :: bool where
  "ethernet_duplex_rejects_value_outside_enum \<longleftrightarrow>
     validate registry (state_with_fields [(''ethernet'', ethernet_object [(''duplex'', VString ''quad'')])])
       = Some [EnumViolation ''ethernet'' ''ethernet.duplex'' [''full'', ''half'', ''unknown'']]"

definition ethernet_legal_read_only_values_pass_validate :: bool where
  "ethernet_legal_read_only_values_pass_validate \<longleftrightarrow>
     list_all (\<lambda>duplex. validate registry (state_with_fields
         [(''ethernet'', ethernet_object [(''speed'', VU64 1000), (''duplex'', VString duplex), (''autoneg'', VBool True)])]) = Some [])
       [''full'', ''half'', ''unknown'']"

theorem type_tests_pass:
  "mtu_with_string_value_is_wrong_type" "writable_read_only_fields_still_report_value_errors"
  "ethernet_duplex_rejects_value_outside_enum" "ethernet_legal_read_only_values_pass_validate"
  by code_simp+

section \<open>The fields of the fragments\<close>

definition pinned_base_fragment_field_set :: bool where
  "pinned_base_fragment_field_set \<longleftrightarrow>
     fragment_fields registry ''base'' = Some
       [(''carrier'', info False TBoolean), (''driver'', info False TString), (''enabled'', info True TBoolean),
        (''mac'', info False TString), (''mtu'', info True TInteger), (''name'', info False TString), (''type'', info False TString)]"

definition pinned_ipv4_fragment_field_set :: bool where
  "pinned_ipv4_fragment_field_set \<longleftrightarrow>
     fragment_fields registry ''ipv4'' = Some
       [(''addresses'', info True TArray), (''addresses.ip'', info True TIpNetwork),
        (''addresses.preferred_lft'', info True TInteger), (''addresses.valid_lft'', info True TInteger)]"

definition pinned_ethernet_fragment_field_set :: bool where
  "pinned_ethernet_fragment_field_set \<longleftrightarrow>
     fragment_fields registry ''ethernet'' = Some
       [(''autoneg'', info False TBoolean), (''duplex'', info False TString), (''speed'', info False TInteger)]"

definition field_info_reports_mtu_writable_integer :: bool where
  "field_info_reports_mtu_writable_integer \<longleftrightarrow> field_info_of registry ''base'' ''mtu'' = Some (info True TInteger)"

definition field_info_reports_mac_read_only_string :: bool where
  "field_info_reports_mac_read_only_string \<longleftrightarrow> field_info_of registry ''base'' ''mac'' = Some (info False TString)"

definition field_info_ipv4_nested_address_field :: bool where
  "field_info_ipv4_nested_address_field \<longleftrightarrow> field_info_of registry ''ipv4'' ''addresses.ip'' = Some (info True TIpNetwork)"

definition field_info_unknown_field_or_fragment_is_none :: bool where
  "field_info_unknown_field_or_fragment_is_none \<longleftrightarrow>
     field_info_of registry ''base'' ''mtt'' = None \<and> field_info_of registry ''nope'' ''mtu'' = None"

theorem field_set_tests_pass:
  "pinned_base_fragment_field_set" "pinned_ipv4_fragment_field_set" "pinned_ethernet_fragment_field_set"
  "field_info_reports_mtu_writable_integer" "field_info_reports_mac_read_only_string" "field_info_ipv4_nested_address_field"
  "field_info_unknown_field_or_fragment_is_none"
  by code_simp+

section \<open>All violations are collected\<close>

definition writable_mode_collects_unknown_readonly_and_range_together :: bool where
  "writable_mode_collects_unknown_readonly_and_range_together \<longleftrightarrow>
     some_with (\<lambda>errors. length errors = 3 \<and> has_unknown_field errors ''base'' ''mtt'' \<and> has_out_of_range errors ''base'' ''mtu''
         \<and> has_read_only_field errors ''base'' ''mac'')
       (validate_writable registry (state_with_fields
          [(''mtt'', VU64 1500), (''mtu'', VU64 99999), (''mac'', VString ''aa:bb:cc:dd:ee:ff'')]))"

definition errors_collected_across_all_fragments :: bool where
  "errors_collected_across_all_fragments \<longleftrightarrow>
     some_with (\<lambda>errors. length errors = 4 \<and> has_unknown_field errors ''base'' ''mtt'' \<and> has_out_of_range errors ''base'' ''mtu''
         \<and> has_unknown_field errors ''ipv4'' ''ipv4.bogus''
         \<and> list_ex (\<lambda>e. case e of EnumViolation f p _ \<Rightarrow> f = ''ethernet'' \<and> p = ''ethernet.duplex'' | _ \<Rightarrow> False) errors
         \<and> list_all (List.member (fragment_names errors)) [''base'', ''ipv4'', ''ethernet''])
       (validate registry (state_with_fields
          [(''mtt'', VU64 1500), (''mtu'', VU64 99999), (''ipv4'', VMap (fields [(''bogus'', VU64 1)])),
           (''ethernet'', ethernet_object [(''duplex'', VString ''quad'')])]))"

definition base_property_colliding_with_fragment_trigger_is_rejected :: bool where
  "base_property_colliding_with_fragment_trigger_is_rejected \<longleftrightarrow>
     fails_with (str_contains ''collides with a fragment trigger key'')
       (fst (add_schema_node ''base'' ''ipv4'' (Ok (scalar_node TString False)) registry))"

theorem collection_tests_pass:
  "writable_mode_collects_unknown_readonly_and_range_together" "errors_collected_across_all_fragments"
  "base_property_colliding_with_fragment_trigger_is_rejected"
  by code_simp+

end
