(* ===== verification/Spec2Isabelle.thy ===== *)
theory Spec2Isabelle
  imports StateProps YamlProps ExecProps BackendProps PolicyProps LinuxProps WorkerProps
    ExecIdeal ExecCancel LinuxExec Datagram Prefilter WorkerTrace
    StateTests YamlReadTests YamlPrintTests ApplyTests PolicyTests RegistryTests LinuxTests
    ExecTimeTests SchemaTests
begin

text \<open>
  A verification development of netfyr, a declarative manager of Linux network interfaces.  Paths are under
  \<open>src/crates/\<close>.

  \<^bold>\<open>The program.\<close>  Three crates.  \<open>netfyr-state\<close> holds the data model: values and device states, selectors, the schema
  registry that validates states, the two YAML formats, the preparation of query output for apply, and the types of
  plans and observations.  \<open>netfyr-policy\<close> loads policies from YAML documents and directories and splits each into a
  static state and the dynamic providers it asks for.  \<open>netfyr-backend\<close> observes and changes the kernel: a registry of
  backends, a worker per network namespace that owns a netlink transport, and the executor that runs or previews a plan
  of primitive operations under checks against fresh observations.  A policy becomes states (policy), states are
  prepared and validated (state), a plan of operations is resolved to one backend (registry), handed to its worker
  (worker), and executed operation by operation over the transport (executor, linux).

  \<^bold>\<open>Conventions.\<close>  Theory \<open>Prelude\<close> has the result type \<open>outcome\<close> with the constructors \<open>Ok\<close>, \<open>Err\<close> and \<open>Panic\<close>: every early
  return, \<open>expect\<close>, \<open>unwrap\<close> and index out of range of the code is a value of the model, so that absence of panics is
  proved.  A method on \<open>&mut self\<close> is an \<open>action\<close>, a function from the state to an outcome and a state, composed with
  \<open>abind\<close>; a loop over a collection is a recursive function on its list.  Machine integers are words of their width; an
  \<open>Instant\<close> or \<open>Duration\<close> is a count of nanoseconds; a \<open>str\<close> is its list of UTF-8 bytes; an \<open>IndexMap\<close> is an association
  list with unique keys in insertion order (theory \<open>IndexMap\<close>, contract in the locale \<open>ordered_map\<close>), a \<open>HashMap\<close> a
  partial function.  All recursion is structural or has a measure, so no fuel is used: every function of the model is
  total, and that a call returns is part of the statements that use it.

  \<^bold>\<open>State crate.\<close>
  \<^item> \<open>Values\<close> (\<open>netfyr-state/src/value.rs\<close>), \<open>Model\<close> (\<open>source.rs\<close>, \<open>match_spec.rs\<close>, \<open>state.rs\<close>), \<open>Errors\<close> (\<open>error.rs\<close>) and \<open>NetAddr\<close>
    (the addresses of \<open>std::net\<close> and \<open>parse_ip_network\<close> of \<open>schema.rs\<close>): the data, its equality and its texts.  Matching
    is a preorder (locale \<open>selector_order\<close>); printers and parsers meet in the locale \<open>codec\<close>.
  \<^item> \<open>Schema\<close> and \<open>SchemaReg\<close> (\<open>schema.rs\<close>, \<open>schemas/*.json\<close>): nodes, the validation walk, the removal of read-only fields,
    the registry with its fragments and \<open>add_schema_node\<close>.  \<open>Validation\<close>, \<open>Stripping\<close>, \<open>SchemaRegFacts\<close>, \<open>StateFacts\<close> and
    \<open>RegistryAdd\<close> show that a registry that satisfies \<open>wf_registry\<close> validates without panics, that an empty error list
    is the declarative predicate \<open>state_conforms\<close>, that the two modes differ by the read-only errors, that stripping turns
    a valid query state into a valid policy state (for the registries for which it does, see the findings), and that additions keep the invariant or change nothing.
  \<^item> \<open>Apply\<close> (\<open>apply.rs\<close>): \<open>prepare_for_apply_with_registry\<close>, its errors, its result and its idempotence.
  \<^item> \<open>Yaml\<close> (\<open>yaml.rs\<close> and the decoding modes of \<open>schema.rs\<close>): both formats between document trees and states.  \<open>YamlFacts\<close>,
    \<open>YamlRound\<close> and \<open>YamlStates\<close> follow a value through printing and reading, with the texts of addresses and networks of
    both families read back in \<open>Ipv6Text\<close>, and say exactly which values come back as they were; \<open>YamlProps\<close> has the round
    trips and the pipeline from query text to policy text.
  \<^item> \<open>Plan\<close> (\<open>plan.rs\<close>): observations, operations, prefix groups and lifetimes.  \<open>StateProps\<close> has the properties of the crate.

  \<^bold>\<open>Policy crate.\<close>
  \<^item> \<open>Policy\<close> and \<open>PolicyLoad\<close> (\<open>netfyr-policy/src/lib.rs\<close>): the provider inventory and its schemas, \<open>Policy::produce\<close>, policy
    sets, and the loaders of documents, files and directories.  \<open>PolicyFacts\<close>, \<open>PolicyProduce\<close> and \<open>PolicyLoadFacts\<close> give the
    loops of \<open>produce\<close> as functions of the fields and the load as the visible files in path order; \<open>PolicyProps\<close> shows when
    and what a policy produces and that loaded policies always produce.

  \<^bold>\<open>Backend crate.\<close>
  \<^item> \<open>Report\<close> (\<open>netfyr-backend/src/report.rs\<close>): errors, contexts and reports.
  \<^item> \<open>Checks\<close> and \<open>Executor\<close> (\<open>executor.rs\<close>): the pure checks on an operation, and \<open>Execution\<close> as the record \<open>execution\<close> with its
    methods, \<open>step\<close> and \<open>run\<close>.  The trait \<open>Io\<close> is the record \<open>io\<close> over an abstract world; its two calls answer, fail or panic, and a
    panic is one of the run.  \<open>ChecksFacts\<close>, \<open>ExecutorFacts\<close> and \<open>ExecWrites\<close> show that a run returns unless such a call
    panics (\<open>calls_return\<close>), reports every operation once, follows the dependencies, and writes only what passed the checks;
    \<open>ExecProps\<close> states this, and \<open>ExecCancel\<close> what becomes of a run whose caller goes away in the middle of it.  What a run does to the world is shown once, in locales over a relation on
    worlds that the calls of \<open>io\<close> keep: \<open>world_frame\<close> (all calls but the writes), \<open>target_frame\<close> and \<open>call_frame\<close> (the writes
    to some or to all interfaces too), \<open>sending\<close> (what a write that succeeded has done) and its extension \<open>answering\<close> (what the
    report says of a write that failed); the log of writes is an instance.
    \<open>ExecSim\<close> (locale \<open>io_refinement\<close>) shows that an abstraction of the world that commutes with the calls commutes with the
    run, so the log changes nothing.  \<open>ExecIdeal\<close> is the abstract specification of the kernel, on which a write does what
    \<open>project\<close> says and nothing else happens, and shows that a preview is the report of the application there.
  \<^item> \<open>BackendReg\<close> (\<open>registry.rs\<close>, the trait of \<open>lib.rs\<close>): registration, the combined query, the backend of a plan;
    \<open>BackendProps\<close> proves the query to be the owners' views, resolution sound, and registration a refinement of a partial
    function from namespaces and entity types to backends.
  \<^item> \<open>Netlink\<close>, \<open>LinuxLink\<close> and \<open>Linux\<close> (\<open>linux.rs\<close>): the strict codec, exchanges and the collection of responses; links,
    addresses and the messages of operations; \<open>LinuxTransport\<close> as the record \<open>transport\<close>, its notifications, requests,
    inventory, confirmation of an identity and execution of an operation; \<open>linux_io\<close> is the transport as the \<open>io\<close> of the
    executor, so that a panic of the transport ends the run and with it the worker thread (\<open>serve\<close> is \<open>None\<close>).  \<open>NetlinkFacts\<close>, \<open>LinkFacts\<close>, \<open>LinuxFacts\<close>, \<open>AddressFacts\<close>, \<open>TransportFacts\<close>, \<open>InventoryFacts\<close> and \<open>ErrorKinds\<close> show
    which responses are accepted, which states links give, that nothing panics, which messages back the reported addresses,
    which kinds of error the calls return, and what each call keeps (locales \<open>notification_calls\<close>, \<open>transport_calls\<close>,
    \<open>inventory_calls\<close> and \<open>execution_calls\<close>, each instance of which is a relation on transports: same namespace, shrinking
    identities, stale identities, unchanged log of exchanges or of writes).  \<open>LinuxProps\<close> has the properties of the
    transport, \<open>Datagram\<close> those of successive calls of the codec on one datagram (\<open>codec_reads\<close>).
  \<^item> \<open>Worker\<close> (\<open>worker.rs\<close>, the start of the transport in \<open>linux.rs\<close>): opening a namespace, the requests of the worker, its loop
    over notifications and requests, and the handle as a backend of the registry; \<open>WorkerProps\<close> shows that every request
    is answered and that the handle satisfies what the registry expects of a backend; \<open>Prefilter\<close> runs the inventory of a
    query in parallel with one that asks every interface for everything, and shows that the query misses nothing.  \<open>LinuxExec\<close> relates the log of writes
    of a run to the requests on the kernel's socket: the composition of worker, executor and transport refines the plan.
    \<open>WorkerTrace\<close> is the worker as a step relation (\<open>worker_step\<close>); what the calls of the transport keep, every sequence of
    steps keeps, so an identity that is gone stays gone, and a worker that is only asked to read never writes.

  \<^bold>\<open>Tests of the code.\<close>  The tests of the repository are restated over the model, each a definition with the name of its
  test function, and evaluated in the kernel: that the model gives the results the authors wrote down is evidence that it is
  the program.  \<open>StateTests\<close>, \<open>YamlReadTests\<close>, \<open>YamlPrintTests\<close>, \<open>ApplyTests\<close> (with those of \<open>schema.rs\<close>), \<open>PolicyTests\<close>,
  \<open>RegistryTests\<close>, \<open>LinuxTests\<close> (with those of \<open>worker.rs\<close>), \<open>ExecTests\<close> and \<open>ExecTimeTests\<close> (those of \<open>executor/tests.rs\<close>)
  hold the unit tests, \<open>SchemaTests\<close> the integration tests of the schemas; \<open>TestBase\<close>, \<open>YamlTexts\<close>, \<open>WireTests\<close> and
  \<open>ExecMock\<close> what their inputs are built from: a table of the documents of a test in place of the YAML library, the wire
  format of the attributes in use in place of the netlink crates, and the mock kernel of the executor's tests, a record of its
  state with one function per request.

  \<^bold>\<open>Parameters.\<close>  Code outside the repository is an argument of the definitions, with what the program relies on as named
  hypotheses: \<open>serde_yaml\<close> as \<open>yaml_lib\<close> with \<open>yaml_laws\<close>; the results of \<open>serde_json\<close> as nodes (the embedded documents are
  written out as the nodes they deserialise to); the netlink crates as \<open>netlink_lib\<close> and \<open>route_lib\<close> with \<open>checked_laws\<close> (a
  checked buffer holds the packet its header announces) and \<open>header_laws\<close> (a parsed link header has its 16 bytes); the
  kernel as \<open>kernel\<close>, functions on an abstract world, so that statements hold for every sequence of answers; the file
  system as a tree; the operating system of the worker as \<open>host\<close>; registered backends as records.  Every property with such
  a hypothesis has a witness on a concrete instance.

  \<^bold>\<open>Concurrency.\<close>  The worker is one thread that serves one request at a time, so its behaviour is the sequence of its events.
  \<open>join_all\<close> over backends and over ethtool queries is the sequence of the answers: each is arbitrary, and the code uses
  them in order.  Notifications arrive whenever they are drained: an exchange and the notifications that are ready at the
  next drain are separate calls of the kernel.

  \<^bold>\<open>Limits.\<close>  A response ends (\<open>Answered\<close> carries the messages until the stream closes); a timeout is an answer of its own.
  \<open>usize\<close> has 64 bits.  Generations are what the random generator returns and are not assumed distinct, except where a property
  says that one is not \<open>redrawn\<close>.  The deletion
  epoch wraps after 2^64 deletions, as in the code.

  \<^bold>\<open>Not modelled.\<close>  The crate roots beyond the backend trait (module declarations and re-exports), the probe that runs
  against a kernel, the few unit tests about fresh identifiers and randomness, the socket, ioctl, thread and channel calls
  themselves (only their answers), the encoding of messages (the netlink crates),
  \<open>Drop\<close> for the transport (it aborts tasks), and \<open>Debug\<close> texts that the compiler derives, except those that are printed in
  errors the model builds.

  \<^bold>\<open>Findings.\<close>  The query schema bounds \<open>mtu\<close> by 65535, while the transport reports the kernel's value: an interface with a
  larger MTU, such as the loopback device by default, gives an observed state that is not valid for that schema
  (the property on observed states in theory \<open>LinuxProps\<close>).  \<open>remove_read_only_property\<close> does not look into an array that is
  an element of an array, while \<open>add_schema_node\<close> takes such nodes: with such a registry a valid observation keeps a
  read-only field and is rejected as policy and by the preparation for apply (\<open>nested_arrays_defeat_stripping\<close> in
  \<open>StateProps\<close>).  No embedded schema has one.  The properties on stripping and preparation name the condition.
\<close>

end
